(* ===== verification/Hal_Prelude.thy ===== *)
theory Hal_Prelude
  imports Main "HOL-Library.Word" "HOL-Library.AList" "HOL-Library.List_Lexorder"
    "HOL-Library.Char_ord" "HOL-Library.Multiset" "HOL-Library.Sublist"
begin

text \<open>
  Shared vocabulary of the development: the machine integer types, Rust's \<open>Result\<close> with the
  combinators the sources use, checked and saturating arithmetic, strings as byte sequences,
  hash maps as association lists with distinct keys, ordered maps as key-sorted association
  lists, and the generic lemmas on them that the component theories rely on.
\<close>

unbundle bit_operations_syntax

named_theorems wf_intros \<open>well-formedness facts used as introduction rules\<close>
named_theorems ok_simps \<open>characterisations of when a fallible operation succeeds\<close>

section \<open>Machine integers\<close>

type_synonym u8 = "8 word"
type_synonym u16 = "16 word"
type_synonym u32 = "32 word"
type_synonym u64 = "64 word"
type_synonym i32 = int
type_synonym i64 = int

text \<open>
  Every release target is a 64-bit platform, so \<open>usize\<close> is a natural number below \<open>2 ^ 64\<close>;
  the checked operations give \<open>None\<close> exactly when the mathematical result leaves that range.
\<close>

type_synonym usize = nat

definition usize_max :: usize where
  "usize_max = 2 ^ 64 - 1"

definition usize_checked_add :: "usize \<Rightarrow> usize \<Rightarrow> usize option" where
  "usize_checked_add a b = (if a + b \<le> usize_max then Some (a + b) else None)"

definition usize_checked_mul :: "usize \<Rightarrow> usize \<Rightarrow> usize option" where
  "usize_checked_mul a b = (if a * b \<le> usize_max then Some (a * b) else None)"

definition checked_add :: "'a::len word \<Rightarrow> 'a word \<Rightarrow> 'a word option" where
  "checked_add a b = (if unat a + unat b < 2 ^ LENGTH('a) then Some (a + b) else None)"

definition saturating_add :: "'a::len word \<Rightarrow> 'a word \<Rightarrow> 'a word" where
  "saturating_add a b = (if unat a + unat b < 2 ^ LENGTH('a) then a + b else - 1)"

lemma usize_checked_add_Some [simp]:
  "usize_checked_add a b = Some c \<longleftrightarrow> c = a + b \<and> a + b \<le> usize_max"
  by (auto simp: usize_checked_add_def)

lemma usize_checked_mul_Some [simp]:
  "usize_checked_mul a b = Some c \<longleftrightarrow> c = a * b \<and> a * b \<le> usize_max"
  by (auto simp: usize_checked_mul_def)

lemma checked_add_Some:
  "checked_add a b = Some c \<Longrightarrow> unat c = unat a + unat b"
  by (auto simp: checked_add_def unat_word_ariths split: if_splits)

lemma unat_max: "unat (- 1 :: 'a::len word) = 2 ^ LENGTH('a) - 1"
  by (simp add: unsigned_minus_1_eq_mask mask_eq_exp_minus_1)

lemma unat_less_exp: "unat (a :: 'a::len word) < 2 ^ LENGTH('a)"
  by simp

lemma unat_eq_max_iff: "a = - 1 \<longleftrightarrow> unat (a :: 'a::len word) = 2 ^ LENGTH('a) - 1"
  by (metis unat_max word_unat_eq_iff)

lemma checked_add_one_Some:
  fixes a :: "'a::len word"
  shows "checked_add a 1 = Some c \<longleftrightarrow> c = a + 1 \<and> a \<noteq> - 1"
proof -
  have "unat (1 :: 'a word) = 1" by simp
  moreover have "unat a + 1 < 2 ^ LENGTH('a) \<longleftrightarrow> a \<noteq> - 1"
    unfolding unat_eq_max_iff using unat_less_exp [of a] by arith
  ultimately show ?thesis by (auto simp: checked_add_def)
qed

lemma word_add_one_neq_0: "a \<noteq> - 1 \<Longrightarrow> a + 1 \<noteq> (0 :: 'a::len word)"
  by (metis add_eq_0_iff2)

lemma unat_add_one: "a \<noteq> - 1 \<Longrightarrow> unat (a + 1 :: 'a::len word) = Suc (unat a)"
  using checked_add_one_Some [of a "a + 1"] checked_add_Some [of a 1 "a + 1"] by simp

lemma word_less_add_one: "a \<noteq> - 1 \<Longrightarrow> a < (a + 1 :: 'a::len word)"
  by (simp add: word_less_nat_alt unat_add_one)

lemma word_le_minus_one: "g < a \<Longrightarrow> g \<le> a - (1 :: 'a::len word)"
proof -
  assume "g < a"
  moreover from this have "a \<noteq> 0" by auto
  ultimately show "g \<le> a - 1"
    by (simp add: word_less_nat_alt word_le_nat_alt unat_minus_one)
qed

lemma unat_saturating_add:
  fixes a b :: "'a::len word"
  shows "unat (saturating_add a b) = min (unat a + unat b) (2 ^ LENGTH('a) - 1)"
proof (cases "unat a + unat b < 2 ^ LENGTH('a)")
  case True
  then have "unat (a + b) = unat a + unat b" by (simp add: unat_word_ariths)
  with True show ?thesis by (simp add: saturating_add_def)
next
  case False
  then show ?thesis by (simp add: saturating_add_def unat_max)
qed

lemma le_saturating_add: "a \<le> saturating_add a b"
proof -
  have "unat a \<le> min (unat a + unat b) (2 ^ LENGTH('a) - 1)"
    using unat_less_exp [of a] by arith
  then show ?thesis by (simp add: word_le_nat_alt unat_saturating_add)
qed

text \<open>\<open>try_from\<close> between unsigned widths: fails when the value does not fit.\<close>

definition try_from_word :: "'a::len word \<Rightarrow> 'b::len word option" where
  "try_from_word a = (if unat a < 2 ^ LENGTH('b) then Some (ucast a) else None)"

section \<open>Rust results\<close>

datatype ('a, 'e) result = Ok 'a | Err 'e

fun and_then :: "('a, 'e) result \<Rightarrow> ('a \<Rightarrow> ('b, 'e) result) \<Rightarrow> ('b, 'e) result" where
  "and_then (Ok x) f = f x"
| "and_then (Err e) f = Err e"

fun map_err :: "('e \<Rightarrow> 'f) \<Rightarrow> ('a, 'e) result \<Rightarrow> ('a, 'f) result" where
  "map_err f (Ok x) = Ok x"
| "map_err f (Err e) = Err (f e)"

fun map_ok :: "('a \<Rightarrow> 'b) \<Rightarrow> ('a, 'e) result \<Rightarrow> ('b, 'e) result" where
  "map_ok f (Ok x) = Ok (f x)"
| "map_ok f (Err e) = Err e"

fun ok_or :: "'e \<Rightarrow> 'a option \<Rightarrow> ('a, 'e) result" where
  "ok_or e (Some x) = Ok x"
| "ok_or e None = Err e"

fun is_ok :: "('a, 'e) result \<Rightarrow> bool" where
  "is_ok (Ok x) = True"
| "is_ok (Err e) = False"

text \<open>\<open>Option<Result>::transpose\<close> and collecting an iterator of results into one result.\<close>

fun transpose_opt :: "('a, 'e) result option \<Rightarrow> ('a option, 'e) result" where
  "transpose_opt None = Ok None"
| "transpose_opt (Some r) = map_ok Some r"

fun collect_results :: "('a, 'e) result list \<Rightarrow> ('a list, 'e) result" where
  "collect_results [] = Ok []"
| "collect_results (r # rs) = and_then r (\<lambda>x. map_ok (\<lambda>xs. x # xs) (collect_results rs))"

lemma and_then_eq_Ok [simp]: "and_then r f = Ok y \<longleftrightarrow> (\<exists>x. r = Ok x \<and> f x = Ok y)"
  by (cases r) auto

lemma and_then_eq_Err:
  "and_then r f = Err e \<longleftrightarrow> r = Err e \<or> (\<exists>x. r = Ok x \<and> f x = Err e)"
  by (cases r) auto

lemma map_err_eq_Ok [simp]: "map_err f r = Ok y \<longleftrightarrow> r = Ok y"
  by (cases r) auto

lemma map_err_eq_Err: "map_err f r = Err e \<longleftrightarrow> (\<exists>e'. r = Err e' \<and> e = f e')"
  by (cases r) auto

lemma map_ok_eq_Ok [simp]: "map_ok f r = Ok y \<longleftrightarrow> (\<exists>x. r = Ok x \<and> y = f x)"
  by (cases r) auto

lemma ok_or_eq_Ok [simp]: "ok_or e r = Ok y \<longleftrightarrow> r = Some y"
  by (cases r) auto

lemma ok_or_eq_Err: "ok_or e r = Err e' \<longleftrightarrow> r = None \<and> e' = e"
  by (cases r) auto

lemma is_ok_iff: "is_ok r \<longleftrightarrow> (\<exists>x. r = Ok x)"
  by (cases r) auto

lemma transpose_opt_eq_Ok [simp]:
  "transpose_opt r = Ok y \<longleftrightarrow> (r = None \<and> y = None) \<or> (\<exists>x. r = Some (Ok x) \<and> y = Some x)"
  by (cases r) auto

lemma collect_results_map_eq_Ok:
  "collect_results (map f xs) = Ok ys \<longleftrightarrow> list_all2 (\<lambda>x y. f x = Ok y) xs ys"
  by (induction xs arbitrary: ys) (auto simp: list_all2_Cons1)

lemma collect_results_map_Ok: "collect_results (map (\<lambda>x. Ok (f x)) xs) = Ok (map f xs)"
  by (induction xs) auto

section \<open>Strings as byte sequences\<close>

text \<open>
  A Rust \<open>String\<close> is its UTF-8 byte sequence: \<open>len()\<close> is the number of bytes, and
  \<open>is_ascii()\<close> says that every byte is below 128. A \<^typ>\<open>char\<close> is one byte.
\<close>

definition ascii_char :: "char \<Rightarrow> bool" where
  "ascii_char c \<longleftrightarrow> (of_char c :: nat) < 128"

definition is_ascii :: "string \<Rightarrow> bool" where
  "is_ascii s = list_all ascii_char s"

definition ascii_digit :: "char \<Rightarrow> bool" where
  "ascii_digit c \<longleftrightarrow> 48 \<le> (of_char c :: nat) \<and> (of_char c :: nat) \<le> 57"

definition ascii_lowercase :: "char \<Rightarrow> bool" where
  "ascii_lowercase c \<longleftrightarrow> 97 \<le> (of_char c :: nat) \<and> (of_char c :: nat) \<le> 122"

definition ascii_uppercase :: "char \<Rightarrow> bool" where
  "ascii_uppercase c \<longleftrightarrow> 65 \<le> (of_char c :: nat) \<and> (of_char c :: nat) \<le> 90"

definition ascii_alphanumeric :: "char \<Rightarrow> bool" where
  "ascii_alphanumeric c \<longleftrightarrow> ascii_lowercase c \<or> ascii_uppercase c \<or> ascii_digit c"

text \<open>\<open>str::split_once\<close> and \<open>str::split\<close> at a single character.\<close>

fun split_once :: "char \<Rightarrow> string \<Rightarrow> (string \<times> string) option" where
  "split_once c [] = None"
| "split_once c (x # xs) =
     (if x = c then Some ([], xs)
      else map_option (\<lambda>(a, b). (x # a, b)) (split_once c xs))"

fun split_on :: "char \<Rightarrow> string \<Rightarrow> string list" where
  "split_on c [] = [[]]"
| "split_on c (x # xs) =
     (if x = c then [] # split_on c xs
      else (case split_on c xs of [] \<Rightarrow> [[x]] | y # ys \<Rightarrow> (x # y) # ys))"

text \<open>
  The value of a digit string, and \<open>parse::<u64>()\<close> on one: it fails on the empty string, on a
  non-digit and when the value needs more than 64 bits. (A leading plus sign, which the standard
  parser accepts, is excluded by every caller.)
\<close>

definition digits_value :: "string \<Rightarrow> nat" where
  "digits_value s = foldl (\<lambda>n c. 10 * n + (of_char c - 48)) 0 s"

definition parse_u64 :: "string \<Rightarrow> nat option" where
  "parse_u64 s =
     (if s \<noteq> [] \<and> list_all ascii_digit s \<and> digits_value s < 2 ^ 64
      then Some (digits_value s) else None)"

lemma split_once_Some:
  "split_once c s = Some (a, b) \<longleftrightarrow> s = a @ c # b \<and> c \<notin> set a"
proof (induction s arbitrary: a)
  case Nil
  then show ?case by simp
next
  case (Cons x xs)
  then show ?case by (cases a) auto
qed

lemma split_once_None: "split_once c s = None \<longleftrightarrow> c \<notin> set s"
  by (induction s) auto

lemma split_on_not_Nil [simp]: "split_on c s \<noteq> []"
  by (cases s) (auto split: list.splits)

lemma split_on_clean: "w \<in> set (split_on c s) \<Longrightarrow> c \<notin> set w"
  by (induction s arbitrary: w) (auto split: list.splits if_splits)

fun join_with :: "char \<Rightarrow> string list \<Rightarrow> string" where
  "join_with c [] = []"
| "join_with c [w] = w"
| "join_with c (w # ws) = w @ c # join_with c ws"

lemma join_with_Cons: "ws \<noteq> [] \<Longrightarrow> join_with c (w # ws) = w @ c # join_with c ws"
  by (cases ws) auto

lemma split_on_Cons_other:
  "x \<noteq> c \<Longrightarrow> split_on c (x # xs) = (x # hd (split_on c xs)) # tl (split_on c xs)"
  by (cases "split_on c xs") auto

lemma join_split: "join_with c (split_on c s) = s"
proof (induction s)
  case Nil
  then show ?case by simp
next
  case (Cons x xs)
  obtain y ys where e: "split_on c xs = y # ys" by (cases "split_on c xs") auto
  then have "join_with c ((x # y) # ys) = x # join_with c (y # ys)"
    by (cases ys) auto
  with Cons e show ?case by (cases "x = c") (auto simp: join_with_Cons)
qed

lemma split_on_word: "c \<notin> set w \<Longrightarrow> split_on c w = [w]"
  by (induction w) (auto simp: split_on_Cons_other)

lemma split_on_append: "c \<notin> set w \<Longrightarrow> split_on c (w @ c # s) = w # split_on c s"
  by (induction w) (auto simp: split_on_Cons_other)

lemma split_join:
  "ws \<noteq> [] \<Longrightarrow> \<forall>w\<in>set ws. c \<notin> set w \<Longrightarrow> split_on c (join_with c ws) = ws"
  by (induction c ws rule: join_with.induct) (auto simp: split_on_word split_on_append)

lemma length_split_on: "1 < length (split_on c s) \<longleftrightarrow> c \<in> set s"
proof (induction s)
  case Nil
  then show ?case by simp
next
  case (Cons x xs)
  obtain y ys where "split_on c xs = y # ys" by (cases "split_on c xs") auto
  with Cons show ?case by auto
qed

lemma set_join_with: "w \<in> set ws \<Longrightarrow> set w \<subseteq> set (join_with c ws)"
  by (induction c ws rule: join_with.induct) auto

lemma join_with_set: "set (join_with c ws) \<subseteq> insert c (\<Union>(set ` set ws))"
  by (induction c ws rule: join_with.induct) auto

lemma filter_singleton_iff:
  "filter P xs = [x] \<longleftrightarrow> (\<exists>i<length xs. xs ! i = x \<and> P x \<and> (\<forall>j<length xs. P (xs ! j) \<longrightarrow> j = i))"
proof (induction xs)
  case Nil
  then show ?case by simp
next
  case (Cons a xs)
  then show ?case
    by (cases "P a") (auto simp: Ex_less_Suc2 All_less_Suc2 filter_empty_conv all_set_conv_all_nth)
qed

text \<open>Decimal formatting of an unsigned number, as \<open>format!("{}")\<close> writes it.\<close>

fun show_nat :: "nat \<Rightarrow> string" where
  "show_nat n = (if n < 10 then [char_of (48 + n)] else show_nat (n div 10) @ [char_of (48 + n mod 10)])"

declare show_nat.simps [simp del]

definition show_word :: "'a::len word \<Rightarrow> string" where
  "show_word w = show_nat (unat w)"

lemma of_char_digit: "n < 10 \<Longrightarrow> of_char (char_of (48 + n) :: char) = (48 + n :: nat)"
  by (simp only: of_char_of) simp

lemma show_nat_digits: "list_all ascii_digit (show_nat n) \<and> show_nat n \<noteq> [] \<and> digits_value (show_nat n) = n"
proof (induction n rule: show_nat.induct)
  case (1 n)
  show ?case
  proof (cases "n < 10")
    case True
    then show ?thesis
      by (simp add: show_nat.simps [of n] of_char_digit ascii_digit_def digits_value_def)
  next
    case False
    have "of_char (char_of (48 + n mod 10) :: char) = (48 + n mod 10 :: nat)"
      by (rule of_char_digit) simp
    moreover from this have "ascii_digit (char_of (48 + n mod 10))"
      by (simp add: ascii_digit_def)
    ultimately show ?thesis
      using 1 False by (simp add: show_nat.simps [of n] digits_value_def)
  qed
qed

section \<open>Hash maps\<close>

text \<open>
  A \<open>HashMap\<close> is an association list with distinct keys. Its order stands for the unspecified
  iteration order: statements quantify over every such list, hence over every order.
\<close>

type_synonym ('k, 'v) hashmap = "('k \<times> 'v) list"

abbreviation hm_get :: "('k, 'v) hashmap \<Rightarrow> 'k \<Rightarrow> 'v option" where
  "hm_get \<equiv> map_of"

abbreviation hm_insert :: "'k \<Rightarrow> 'v \<Rightarrow> ('k, 'v) hashmap \<Rightarrow> ('k, 'v) hashmap" where
  "hm_insert \<equiv> AList.update"

abbreviation hm_remove :: "'k \<Rightarrow> ('k, 'v) hashmap \<Rightarrow> ('k, 'v) hashmap" where
  "hm_remove \<equiv> AList.delete"

abbreviation hm_contains :: "('k, 'v) hashmap \<Rightarrow> 'k \<Rightarrow> bool" where
  "hm_contains m k \<equiv> map_of m k \<noteq> None"

definition hm_values :: "('k, 'v) hashmap \<Rightarrow> 'v list" where
  "hm_values m = map snd m"

definition hm_map :: "('k \<Rightarrow> 'v \<Rightarrow> 'v) \<Rightarrow> ('k, 'v) hashmap \<Rightarrow> ('k, 'v) hashmap" where
  "hm_map f m = map (\<lambda>(k, v). (k, f k v)) m"

abbreviation hm_wf :: "('k, 'v) hashmap \<Rightarrow> bool" where
  "hm_wf m \<equiv> distinct (map fst m)"

declare map_of_eq_Some_iff [simp del] Some_eq_map_of_iff [simp del]

lemma hm_get_insert [simp]: "hm_get (hm_insert k v m) = (hm_get m)(k \<mapsto> v)"
  by (simp add: update_conv')

lemma hm_get_remove [simp]: "hm_get (hm_remove k m) = (hm_get m)(k := None)"
  by (simp add: delete_conv')

lemma hm_wf_insert [simp, wf_intros]: "hm_wf m \<Longrightarrow> hm_wf (hm_insert k v m)"
  by (rule distinct_update)

lemma hm_wf_remove [simp, wf_intros]: "hm_wf m \<Longrightarrow> hm_wf (hm_remove k m)"
  by (rule distinct_delete)

lemma hm_wf_map [simp]: "hm_wf (hm_map f m) \<longleftrightarrow> hm_wf m"
proof -
  have "map fst (hm_map f m) = map fst m" by (auto simp: hm_map_def)
  then show ?thesis by simp
qed

lemma hm_get_map: "hm_get (hm_map f m) k = map_option (f k) (hm_get m k)"
  by (induction m) (auto simp: hm_map_def)

lemma hm_map_fst [simp]: "map fst (hm_map f m) = map fst m"
  by (auto simp: hm_map_def)

lemma hm_values_iff: "hm_wf m \<Longrightarrow> v \<in> set (hm_values m) \<longleftrightarrow> (\<exists>k. hm_get m k = Some v)"
  by (force simp: map_of_eq_Some_iff hm_values_def)

lemma hm_eq_Nil_iff: "m = [] \<longleftrightarrow> (\<forall>k. hm_get m k = None)"
  by (cases m) auto

lemma hm_remove_eq_Nil: "hm_remove k m = [] \<longleftrightarrow> (\<forall>k'. k' \<noteq> k \<longrightarrow> hm_get m k' = None)"
  by (auto simp: hm_eq_Nil_iff)

lemma hm_insert_insert [simp]: "hm_insert k v (hm_insert k v' m) = hm_insert k v m"
  by (induction m) auto

lemma hm_insert_same: "hm_get m k = Some v \<Longrightarrow> hm_insert k v m = m"
  by (induction m) (auto split: if_splits)

lemma hm_remove_absent: "hm_get m k = None \<Longrightarrow> hm_remove k m = m"
  by (rule delete_id) (simp add: map_of_eq_None_iff)

lemma hm_remove_insert: "hm_get m k = None \<Longrightarrow> hm_remove k (hm_insert k v m) = m"
  by (simp add: delete_update_same hm_remove_absent)

section \<open>Ordered maps\<close>

text \<open>
  A \<open>BTreeMap\<close> is an association list with strictly increasing keys; this representation is
  canonical, so equality of maps is equality of lists. \<open>String\<close> keys are ordered bytewise.
\<close>

type_synonym ('k, 'v) btreemap = "('k \<times> 'v) list"

definition bt_wf :: "('k::linorder, 'v) btreemap \<Rightarrow> bool" where
  "bt_wf m = sorted_wrt (<) (map fst m)"

fun bt_insert :: "'k::linorder \<Rightarrow> 'v \<Rightarrow> ('k, 'v) btreemap \<Rightarrow> ('k, 'v) btreemap" where
  "bt_insert k v [] = [(k, v)]"
| "bt_insert k v ((k', v') # m) =
     (if k < k' then (k, v) # (k', v') # m
      else if k = k' then (k, v) # m
      else (k', v') # bt_insert k v m)"

lemma bt_wf_Nil [simp]: "bt_wf []"
  by (simp add: bt_wf_def)

lemma bt_wf_Cons: "bt_wf ((k, v) # m) \<longleftrightarrow> (\<forall>k'\<in>fst ` set m. k < k') \<and> bt_wf m"
  by (simp add: bt_wf_def)

lemma bt_insert_keys: "fst ` set (bt_insert k v m) = insert k (fst ` set m)"
  by (induction k v m rule: bt_insert.induct) auto

lemma bt_wf_insert [wf_intros]: "bt_wf m \<Longrightarrow> bt_wf (bt_insert k v m)"
  by (induction k v m rule: bt_insert.induct)
    (force simp: bt_wf_Cons bt_insert_keys less_imp_neq dest: less_trans)+

lemma bt_get_insert: "bt_wf m \<Longrightarrow> map_of (bt_insert k v m) = (map_of m)(k \<mapsto> v)"
  by (induction k v m rule: bt_insert.induct) (auto simp: bt_wf_Cons fun_eq_iff)

lemma bt_wf_distinct: "bt_wf m \<Longrightarrow> distinct (map fst m)"
  by (simp add: bt_wf_def strict_sorted_iff)

lemma map_of_graph: "distinct (map fst m) \<Longrightarrow> map (\<lambda>k. (k, the (map_of m k))) (map fst m) = m"
  by (induction m) (auto simp: image_iff intro!: map_idI split: if_splits)

lemma bt_extensional:
  assumes "bt_wf m" "bt_wf m'" "map_of m = map_of m'"
  shows "m = m'"
proof -
  have "set (map fst m) = set (map fst m')"
    by (metis assms(3) dom_map_of_conv_image_fst list.set_map)
  then have "map fst m = map fst m'"
    using assms(1,2) by (simp add: bt_wf_def strict_sorted_equal)
  then show ?thesis
    using map_of_graph [of m] map_of_graph [of m'] assms by (metis bt_wf_distinct)
qed

lemma bt_insert_mset:
  "map_of m k = None \<Longrightarrow> mset (bt_insert k v m) = add_mset (k, v) (mset m)"
  by (induction k v m rule: bt_insert.induct) (auto split: if_splits)

text \<open>Collecting an iterator of entries into a map.\<close>

definition bt_of_list :: "('k::linorder \<times> 'v) list \<Rightarrow> ('k, 'v) btreemap" where
  "bt_of_list es = fold (\<lambda>(k, v). bt_insert k v) es []"

lemma bt_fold_insert:
  assumes "bt_wf m" "distinct (map fst (m @ es))"
  shows "bt_wf (fold (\<lambda>(k, v). bt_insert k v) es m)
    \<and> mset (fold (\<lambda>(k, v). bt_insert k v) es m) = mset (m @ es)"
  using assms
proof (induction es arbitrary: m)
  case Nil
  then show ?case by simp
next
  case (Cons kv es)
  obtain k v where kv: "kv = (k, v)" by fastforce
  with Cons.prems have "map_of m k = None" by (auto simp: map_of_eq_None_iff)
  then have m: "mset (bt_insert k v m) = add_mset (k, v) (mset m)" by (rule bt_insert_mset)
  then have "mset (map fst (bt_insert k v m @ es)) = mset (map fst (m @ kv # es))"
    by (simp add: kv)
  then have "distinct (map fst (bt_insert k v m @ es))"
    using Cons.prems by (metis mset_eq_imp_distinct_iff)
  then show ?case
    using Cons.IH [of "bt_insert k v m"] Cons.prems m by (simp add: kv bt_wf_insert)
qed

lemma bt_of_list:
  assumes "distinct (map fst es)"
  shows bt_wf_of_list: "bt_wf (bt_of_list es)" and mset_bt_of_list: "mset (bt_of_list es) = mset es"
  using bt_fold_insert [of "[]" es] assms by (auto simp: bt_of_list_def)

lemma bt_eq_mset: "bt_wf m \<Longrightarrow> bt_wf m' \<Longrightarrow> mset m = mset m' \<Longrightarrow> m = m'"
  by (metis bt_extensional bt_wf_distinct map_of_inject_set set_mset_mset)

lemma bt_of_list_iff:
  "distinct (map fst es) \<Longrightarrow> bt_of_list es = m \<longleftrightarrow> bt_wf m \<and> mset m = mset es"
  by (metis bt_eq_mset bt_of_list)

lemma bt_of_list_wf [simp]: "bt_wf m \<Longrightarrow> bt_of_list m = m"
  by (simp add: bt_of_list_iff bt_wf_distinct)

section \<open>Codecs\<close>

text \<open>
  The contract of a boundary type: \<open>enc\<close> is what the program stores or sends, \<open>dec\<close> is the
  fallible validation applied to what comes back, and \<open>wf\<close> is the set of values the validation
  lets through. Newtypes over strings and the wire messages are all interpreted as codecs.
\<close>

locale codec =
  fixes enc :: "'a \<Rightarrow> 'w" and dec :: "'w \<Rightarrow> ('a, 'e) result" and wf :: "'a \<Rightarrow> bool"
  assumes dec_enc: "wf x \<Longrightarrow> dec (enc x) = Ok x"
    and dec_wf: "dec w = Ok x \<Longrightarrow> wf x"
begin

lemma enc_inj: "wf x \<Longrightarrow> wf y \<Longrightarrow> enc x = enc y \<longleftrightarrow> x = y"
  by (metis dec_enc result.inject(1))

lemma dec_range: "(\<exists>w. dec w = Ok x) \<longleftrightarrow> wf x"
  using dec_enc dec_wf by blast

lemma dec_enc_iff: "dec (enc x) = Ok x \<longleftrightarrow> wf x"
  using dec_enc dec_wf by blast

lemma dec_enc_dec: "dec w = Ok x \<Longrightarrow> dec (enc x) = Ok x"
  by (rule dec_enc) (rule dec_wf)

lemma list_dec_enc: "list_all wf xs \<Longrightarrow> collect_results (map dec (map enc xs)) = Ok xs"
  by (induction xs) (auto simp: dec_enc)

lemma list_dec_wf: "collect_results (map dec ws) = Ok xs \<Longrightarrow> list_all wf xs"
  by (auto simp: collect_results_map_eq_Ok list_all2_conv_all_nth list_all_length dest: dec_wf)

lemma opt_dec_enc: "pred_option wf x \<Longrightarrow> transpose_opt (map_option dec (map_option enc x)) = Ok x"
  by (cases x) (auto simp: dec_enc)

lemma opt_dec_wf: "transpose_opt (map_option dec w) = Ok x \<Longrightarrow> pred_option wf x"
  by (cases w) (auto dest: dec_wf)

end

text \<open>A canonical codec accepts exactly one encoding of every value.\<close>

locale canonical_codec = codec +
  assumes enc_dec: "dec w = Ok x \<Longrightarrow> enc x = w"
begin

lemma dec_iff: "dec w = Ok x \<longleftrightarrow> wf x \<and> w = enc x"
  using dec_enc dec_wf enc_dec by blast

lemma dec_inj: "dec v = Ok x \<Longrightarrow> dec w = Ok x \<Longrightarrow> v = w"
  by (metis enc_dec)

end

text \<open>Sequences and optional fields of a boundary type are again codecs.\<close>

locale repeated_codec = codec

sublocale repeated_codec \<subseteq> rep: codec "map enc" "\<lambda>ws. collect_results (map dec ws)" "list_all wf"
  by unfold_locales (auto simp: list_dec_enc list_dec_wf simp del: map_map)

locale optional_codec = codec

sublocale optional_codec \<subseteq> opt: codec "map_option enc" "\<lambda>w. transpose_opt (map_option dec w)"
    "pred_option wf"
  by unfold_locales (simp_all add: opt_dec_enc opt_dec_wf del: option.map_comp)

end
