(* ===== verification/Hal_Core.thy ===== *)
theory Hal_Core
  imports Hal_Prelude
begin

text \<open>
  The crate \<open>robot-hal-core\<close>: validated identifiers, capability identifiers, error values and
  their bounded context, resource descriptors and their resolution, lease tokens
  (\<open>src/crates/robot-hal-core/src/\<close>). Identifier newtypes are single-constructor datatypes over
  strings; what their \<open>parse\<close> functions accept is the \<^emph>\<open>valid\<close> predicate below.
  \<open>.expect("static ... metadata")\<close> calls build the error record directly; the lemmas about
  \<open>hal_error_wf\<close> show that the metadata they are given is valid.
\<close>

section \<open>Errors\<close>

datatype ErrorCategory = InvalidArgument | NotFound | Conflict | Unavailable | Internal

datatype ResourceId = ResourceId (ResourceId_as_str: string)
datatype ErrorName = ErrorName (ErrorName_as_str: string)
datatype OperationName = OperationName (OperationName_as_str: string)
datatype ErrorContext = ErrorContext (ErrorContext_iter: "(string, string) btreemap")

record HalError =
  he_name :: ErrorName
  he_category :: ErrorCategory
  he_operation :: OperationName
  he_retryable :: bool
  he_debug_message :: string
  he_resource_id :: "ResourceId option"
  he_platform_code :: "string option"
  he_vendor_code :: "string option"
  he_context :: ErrorContext

type_synonym 'a hal_result = "('a, HalError) result"

definition ERROR_CONTEXT_MAX_ENTRIES :: usize where "ERROR_CONTEXT_MAX_ENTRIES = 16"
definition ERROR_CONTEXT_MAX_KEY_BYTES :: usize where "ERROR_CONTEXT_MAX_KEY_BYTES = 64"
definition ERROR_CONTEXT_MAX_VALUE_BYTES :: usize where "ERROR_CONTEXT_MAX_VALUE_BYTES = 1024"
definition ERROR_CONTEXT_MAX_TOTAL_BYTES :: usize where "ERROR_CONTEXT_MAX_TOTAL_BYTES = 8192"

lemmas error_context_limits =
  ERROR_CONTEXT_MAX_ENTRIES_def ERROR_CONTEXT_MAX_KEY_BYTES_def
  ERROR_CONTEXT_MAX_VALUE_BYTES_def ERROR_CONTEXT_MAX_TOTAL_BYTES_def

text \<open>The record the error constructors fill in, once name and operation are accepted.\<close>

definition hal_error ::
  "string \<Rightarrow> ErrorCategory \<Rightarrow> string \<Rightarrow> bool \<Rightarrow> string \<Rightarrow> HalError" where
  "hal_error name category operation retryable debug_message =
     \<lparr>he_name = ErrorName name, he_category = category, he_operation = OperationName operation,
      he_retryable = retryable, he_debug_message = debug_message, he_resource_id = None,
      he_platform_code = None, he_vendor_code = None, he_context = ErrorContext []\<rparr>"

definition invalid_argument_error :: "string \<Rightarrow> string \<Rightarrow> string \<Rightarrow> HalError" where
  "invalid_argument_error name operation debug_message =
     hal_error name InvalidArgument operation False debug_message"

definition validate_identifier :: "string \<Rightarrow> string \<Rightarrow> unit hal_result" where
  "validate_identifier field value =
     (if value = [] then
        Err (invalid_argument_error (field @ ''.empty'') field ''identifier must not be empty'')
      else if length value > 255 then
        Err (invalid_argument_error (field @ ''.too_long'') field
          ''identifier must be at most 255 bytes'')
      else if \<not> is_ascii value then
        Err (invalid_argument_error (field @ ''.non_ascii'') field ''identifier must be ASCII'')
      else Ok ())"

definition ResourceId_parse :: "string \<Rightarrow> ResourceId hal_result" where
  "ResourceId_parse value =
     and_then (validate_identifier ''resource.id'' value) (\<lambda>_. Ok (ResourceId value))"

definition ErrorName_parse :: "string \<Rightarrow> ErrorName hal_result" where
  "ErrorName_parse value =
     and_then (validate_identifier ''error.name'' value) (\<lambda>_. Ok (ErrorName value))"

definition OperationName_parse :: "string \<Rightarrow> OperationName hal_result" where
  "OperationName_parse value =
     and_then (validate_identifier ''operation.name'' value) (\<lambda>_. Ok (OperationName value))"

definition HalError_new ::
  "string \<Rightarrow> ErrorCategory \<Rightarrow> string \<Rightarrow> bool \<Rightarrow> string \<Rightarrow> HalError hal_result" where
  "HalError_new name category operation retryable debug_message =
     and_then (ErrorName_parse name) (\<lambda>n.
     and_then (OperationName_parse operation) (\<lambda>oper.
       Ok \<lparr>he_name = n, he_category = category, he_operation = oper,
           he_retryable = retryable, he_debug_message = debug_message, he_resource_id = None,
           he_platform_code = None, he_vendor_code = None, he_context = ErrorContext []\<rparr>))"

definition with_resource_id :: "ResourceId \<Rightarrow> HalError \<Rightarrow> HalError" where
  "with_resource_id resource_id e = e\<lparr>he_resource_id := Some resource_id\<rparr>"

definition with_platform_code :: "string \<Rightarrow> HalError \<Rightarrow> HalError hal_result" where
  "with_platform_code code e =
     and_then (validate_identifier ''error.platform_code'' code)
       (\<lambda>_. Ok (e\<lparr>he_platform_code := Some code\<rparr>))"

definition with_vendor_code :: "string \<Rightarrow> HalError \<Rightarrow> HalError hal_result" where
  "with_vendor_code code e =
     and_then (validate_identifier ''error.vendor_code'' code)
       (\<lambda>_. Ok (e\<lparr>he_vendor_code := Some code\<rparr>))"

definition with_context :: "ErrorContext \<Rightarrow> HalError \<Rightarrow> HalError" where
  "with_context context e = e\<lparr>he_context := context\<rparr>"

text \<open>
  What is serialised of an error: its decision fields. The \<open>serde\<close> data model carries the
  strings of the validated names, which are parsed again on the way in.
\<close>

record SerializedDecision =
  sd_name :: string
  sd_category :: ErrorCategory
  sd_operation :: string
  sd_retryable :: bool

definition decision_fields :: "HalError \<Rightarrow> ErrorName \<times> ErrorCategory \<times> OperationName \<times> bool" where
  "decision_fields e = (he_name e, he_category e, he_operation e, he_retryable e)"

definition HalError_serialize :: "HalError \<Rightarrow> SerializedDecision" where
  "HalError_serialize e =
     (case decision_fields e of (name, category, operation, retryable) \<Rightarrow>
       \<lparr>sd_name = ErrorName_as_str name, sd_category = category,
        sd_operation = OperationName_as_str operation, sd_retryable = retryable\<rparr>)"

definition HalError_deserialize :: "SerializedDecision \<Rightarrow> HalError hal_result" where
  "HalError_deserialize decision =
     and_then (ErrorName_parse (sd_name decision)) (\<lambda>name.
     and_then (OperationName_parse (sd_operation decision)) (\<lambda>operation.
       Ok \<lparr>he_name = name, he_category = sd_category decision, he_operation = operation,
           he_retryable = sd_retryable decision, he_debug_message = [], he_resource_id = None,
           he_platform_code = None, he_vendor_code = None, he_context = ErrorContext []\<rparr>))"

subsection \<open>Error context\<close>

definition context_key_char :: "char \<Rightarrow> bool" where
  "context_key_char c \<longleftrightarrow> ascii_alphanumeric c \<or> c = CHR ''_'' \<or> c = CHR ''-''"

definition validate_context_key :: "string \<Rightarrow> unit hal_result" where
  "validate_context_key key =
     (if key = [] then
        Err (invalid_argument_error ''error.context.key.empty'' ''error.context.new''
          ''context keys must not be empty'')
      else if length key > ERROR_CONTEXT_MAX_KEY_BYTES then
        Err (invalid_argument_error ''error.context.key.too_long'' ''error.context.new''
          ''context keys must be at most 64 bytes'')
      else if \<not> is_ascii key then
        Err (invalid_argument_error ''error.context.key.non_ascii'' ''error.context.new''
          ''context keys must be ASCII'')
      else if \<not> (case key of [] \<Rightarrow> False | c # _ \<Rightarrow> ascii_lowercase c)
           \<or> \<not> list_all context_key_char (tl key) then
        Err (invalid_argument_error ''error.context.key.invalid'' ''error.context.new''
          ''context keys must match [a-z][a-zA-Z0-9_-]*'')
      else Ok ())"

text \<open>The loop of \<open>ErrorContext::new\<close>: \<open>context\<close> and \<open>total_bytes\<close> are its two variables.\<close>

fun ErrorContext_new_loop ::
  "(string, string) btreemap \<Rightarrow> usize \<Rightarrow> (string \<times> string) list \<Rightarrow> ErrorContext hal_result" where
  "ErrorContext_new_loop context total_bytes [] = Ok (ErrorContext context)"
| "ErrorContext_new_loop context total_bytes ((key, value) # entries) =
     (if length context \<ge> ERROR_CONTEXT_MAX_ENTRIES then
        Err (invalid_argument_error ''error.context.too_many_entries'' ''error.context.new''
          ''context must contain at most 16 entries'')
      else and_then (validate_context_key key) (\<lambda>_.
        if length value > ERROR_CONTEXT_MAX_VALUE_BYTES then
          Err (invalid_argument_error ''error.context.value.too_long'' ''error.context.new''
            ''context values must be at most 1024 bytes'')
        else if map_of context key \<noteq> None then
          Err (invalid_argument_error ''error.context.duplicate_key'' ''error.context.new''
            ''context keys must be unique'')
        else
          let entry_bytes = length key + length value in
          if total_bytes + entry_bytes > ERROR_CONTEXT_MAX_TOTAL_BYTES then
            Err (invalid_argument_error ''error.context.too_large'' ''error.context.new''
              ''context key/value bytes must total at most 8192'')
          else ErrorContext_new_loop (bt_insert key value context) (total_bytes + entry_bytes)
            entries))"

definition ErrorContext_new :: "(string \<times> string) list \<Rightarrow> ErrorContext hal_result" where
  "ErrorContext_new entries = ErrorContext_new_loop [] 0 entries"

section \<open>Identities, capabilities and leases\<close>

datatype Endpoint = Endpoint (Endpoint_as_str: string)
datatype CapabilityId = CapabilityId (CapabilityId_as_str: string)
datatype LeaseId = LeaseId (LeaseId_as_str: string)
datatype OwnerId = OwnerId (OwnerId_as_str: string)
datatype SessionId = SessionId (SessionId_as_str: string)

definition Endpoint_new :: "string \<Rightarrow> Endpoint hal_result" where
  "Endpoint_new value =
     (if value = [] then
        Err (invalid_argument_error ''endpoint.empty'' ''endpoint.new''
          ''endpoint must not be empty'')
      else if length value > 4096 then
        Err (invalid_argument_error ''endpoint.too_long'' ''endpoint.new''
          ''endpoint must be at most 4096 bytes'')
      else Ok (Endpoint value))"

definition capability_invalid :: "string \<Rightarrow> HalError" where
  "capability_invalid message =
     invalid_argument_error ''capability.id.invalid'' ''capability.parse'' message"

definition CapabilityId_parse :: "string \<Rightarrow> CapabilityId hal_result" where
  "CapabilityId_parse value =
     and_then (validate_identifier ''capability.id'' value) (\<lambda>_.
     and_then (ok_or (capability_invalid ''missing version'') (split_once (CHR ''/'') value))
       (\<lambda>(contract, version).
         if list_ex (\<lambda>s. s = []) (split_on (CHR ''.'') contract)
            \<or> CHR ''.'' \<notin> set contract
            \<or> \<not> (case version of [] \<Rightarrow> False | c # _ \<Rightarrow> c = CHR ''v'') then
           Err (capability_invalid ''expected <namespace>.<name>/v<positive integer>'')
         else
           let number = tl version in
           if number = [] \<or> \<not> list_all ascii_digit number
              \<or> (case parse_u64 number of None \<Rightarrow> True | Some n \<Rightarrow> \<not> n > 0) then
             Err (capability_invalid ''version must be a positive integer'')
           else Ok (CapabilityId value)))"

definition LeaseId_parse :: "string \<Rightarrow> LeaseId hal_result" where
  "LeaseId_parse value =
     and_then (validate_identifier ''lease.id'' value) (\<lambda>_. Ok (LeaseId value))"

definition OwnerId_parse :: "string \<Rightarrow> OwnerId hal_result" where
  "OwnerId_parse value =
     and_then (validate_identifier ''owner.id'' value) (\<lambda>_. Ok (OwnerId value))"

definition SessionId_parse :: "string \<Rightarrow> SessionId hal_result" where
  "SessionId_parse value =
     and_then (validate_identifier ''session.id'' value) (\<lambda>_. Ok (SessionId value))"

datatype LeaseMode = Observe | Control | Maintenance

record LeaseToken =
  lt_lease_id :: LeaseId
  lt_generation :: u64
  lt_mode :: LeaseMode

definition LeaseToken_new :: "LeaseId \<Rightarrow> u64 \<Rightarrow> LeaseMode \<Rightarrow> LeaseToken" where
  "LeaseToken_new lease_id generation mode =
     \<lparr>lt_lease_id = lease_id, lt_generation = generation, lt_mode = mode\<rparr>"

datatype IdentityQuality = Weak | Medium | Strong

fun IdentityQuality_rank :: "IdentityQuality \<Rightarrow> u8" where
  "IdentityQuality_rank Weak = 0"
| "IdentityQuality_rank Medium = 1"
| "IdentityQuality_rank Strong = 2"

definition satisfies :: "IdentityQuality \<Rightarrow> IdentityQuality \<Rightarrow> bool" where
  "satisfies q minimum \<longleftrightarrow> IdentityQuality_rank q \<ge> IdentityQuality_rank minimum"

datatype TransportKind = TSerial | TCan | TUsb | TGpio | TCamera

record ResourceDescriptor =
  rd_id :: ResourceId
  rd_endpoint :: Endpoint
  rd_minimum_identity_quality :: IdentityQuality
  rd_transport :: TransportKind
  rd_properties :: "(string, string) btreemap"
  rd_capabilities :: "CapabilityId list"

record ResourceSelector =
  rs_id :: ResourceId
  rs_minimum_identity_quality :: IdentityQuality
  rs_transport :: TransportKind

definition ResourceSelector_exact ::
  "ResourceId \<Rightarrow> IdentityQuality \<Rightarrow> TransportKind \<Rightarrow> ResourceSelector" where
  "ResourceSelector_exact i q t =
     \<lparr>rs_id = i, rs_minimum_identity_quality = q, rs_transport = t\<rparr>"

definition ResourceDescriptor_selector :: "ResourceDescriptor \<Rightarrow> ResourceSelector" where
  "ResourceDescriptor_selector d =
     ResourceSelector_exact (rd_id d) (rd_minimum_identity_quality d) (rd_transport d)"

definition CapabilitySet_contains :: "CapabilityId list \<Rightarrow> CapabilityId \<Rightarrow> bool" where
  "CapabilitySet_contains capabilities capability \<longleftrightarrow> capability \<in> set capabilities"

definition selector_matches ::
  "ResourceSelector \<Rightarrow> CapabilityId \<Rightarrow> ResourceDescriptor \<Rightarrow> bool" where
  "selector_matches selector required_capability d \<longleftrightarrow>
     rd_id d = rs_id selector \<and> rd_transport d = rs_transport selector
     \<and> satisfies (rd_minimum_identity_quality d) (rs_minimum_identity_quality selector)
     \<and> CapabilitySet_contains (rd_capabilities d) required_capability"

definition resolve_resource ::
  "ResourceDescriptor list \<Rightarrow> ResourceSelector \<Rightarrow> CapabilityId \<Rightarrow> string
     \<Rightarrow> ResourceDescriptor hal_result" where
  "resolve_resource descriptors selector required_capability operation =
     (case filter (selector_matches selector required_capability) descriptors of
        [] \<Rightarrow>
          and_then (HalError_new ''runtime.resource.not_found'' NotFound operation False
              ''resource selector did not match an enumerated descriptor'')
            (\<lambda>e. Err (with_resource_id (rs_id selector) e))
      | [selected] \<Rightarrow> Ok selected
      | _ # _ # _ \<Rightarrow>
          and_then (HalError_new ''runtime.resource.ambiguous'' Conflict operation False
              ''resource selector matched more than one enumerated descriptor'')
            (\<lambda>e. Err (with_resource_id (rs_id selector) e)))"

section \<open>Well-formed values\<close>

definition valid_identifier :: "string \<Rightarrow> bool" where
  "valid_identifier s \<longleftrightarrow> s \<noteq> [] \<and> length s \<le> 255 \<and> is_ascii s"

definition valid_context_key :: "string \<Rightarrow> bool" where
  "valid_context_key s \<longleftrightarrow> s \<noteq> [] \<and> length s \<le> 64 \<and> is_ascii s
     \<and> ascii_lowercase (hd s) \<and> list_all context_key_char (tl s)"

definition entry_bytes :: "string \<times> string \<Rightarrow> nat" where
  "entry_bytes kv = length (fst kv) + length (snd kv)"

definition entries_ok :: "(string \<times> string) list \<Rightarrow> bool" where
  "entries_ok es \<longleftrightarrow> length es \<le> 16 \<and> distinct (map fst es)
     \<and> list_all (\<lambda>(k, v). valid_context_key k \<and> length v \<le> 1024) es
     \<and> sum_list (map entry_bytes es) \<le> 8192"

definition error_context_wf :: "ErrorContext \<Rightarrow> bool" where
  "error_context_wf c \<longleftrightarrow> bt_wf (ErrorContext_iter c) \<and> entries_ok (ErrorContext_iter c)"

definition hal_error_wf :: "HalError \<Rightarrow> bool" where
  "hal_error_wf e \<longleftrightarrow> valid_identifier (ErrorName_as_str (he_name e))
     \<and> valid_identifier (OperationName_as_str (he_operation e))
     \<and> pred_option (valid_identifier \<circ> ResourceId_as_str) (he_resource_id e)
     \<and> pred_option valid_identifier (he_platform_code e)
     \<and> pred_option valid_identifier (he_vendor_code e)
     \<and> error_context_wf (he_context e)"

definition valid_endpoint :: "string \<Rightarrow> bool" where
  "valid_endpoint s \<longleftrightarrow> s \<noteq> [] \<and> length s \<le> 4096"

text \<open>
  The grammar of capability identifiers: at least two non-empty dot-separated segments, a
  slash, the letter v and a positive decimal number that fits 64 bits.
\<close>

definition valid_capability :: "string \<Rightarrow> bool" where
  "valid_capability s \<longleftrightarrow> valid_identifier s
     \<and> (\<exists>segments number.
          s = join_with (CHR ''.'') segments @ ''/v'' @ number
          \<and> 2 \<le> length segments
          \<and> (\<forall>w\<in>set segments. w \<noteq> [] \<and> CHR ''.'' \<notin> set w \<and> CHR ''/'' \<notin> set w)
          \<and> number \<noteq> [] \<and> list_all ascii_digit number
          \<and> 0 < digits_value number \<and> digits_value number < 2 ^ 64)"

definition lease_token_wf :: "LeaseToken \<Rightarrow> bool" where
  "lease_token_wf t \<longleftrightarrow> valid_identifier (LeaseId_as_str (lt_lease_id t))"

lemmas identifier_eval = valid_identifier_def is_ascii_def ascii_char_def

lemma validate_identifier_Ok [simp, ok_simps]:
  "validate_identifier field value = Ok u \<longleftrightarrow> valid_identifier value"
  by (auto simp: validate_identifier_def valid_identifier_def)

lemma identifier_parse_Ok [simp, ok_simps]:
  "ResourceId_parse value = Ok r \<longleftrightarrow> valid_identifier value \<and> r = ResourceId value"
  "ErrorName_parse value = Ok n \<longleftrightarrow> valid_identifier value \<and> n = ErrorName value"
  "OperationName_parse value = Ok oper \<longleftrightarrow> valid_identifier value \<and> oper = OperationName value"
  "LeaseId_parse value = Ok l \<longleftrightarrow> valid_identifier value \<and> l = LeaseId value"
  "OwnerId_parse value = Ok ow \<longleftrightarrow> valid_identifier value \<and> ow = OwnerId value"
  "SessionId_parse value = Ok si \<longleftrightarrow> valid_identifier value \<and> si = SessionId value"
  by (auto simp: ResourceId_parse_def ErrorName_parse_def OperationName_parse_def
      LeaseId_parse_def OwnerId_parse_def SessionId_parse_def)

lemma Endpoint_new_Ok [simp, ok_simps]:
  "Endpoint_new value = Ok e \<longleftrightarrow> valid_endpoint value \<and> e = Endpoint value"
  by (auto simp: Endpoint_new_def valid_endpoint_def)

interpretation resource_id: canonical_codec ResourceId_as_str ResourceId_parse
    "valid_identifier \<circ> ResourceId_as_str"
  by unfold_locales auto

interpretation error_name: canonical_codec ErrorName_as_str ErrorName_parse
    "valid_identifier \<circ> ErrorName_as_str"
  by unfold_locales auto

interpretation operation_name: canonical_codec OperationName_as_str OperationName_parse
    "valid_identifier \<circ> OperationName_as_str"
  by unfold_locales auto

interpretation lease_id: canonical_codec LeaseId_as_str LeaseId_parse
    "valid_identifier \<circ> LeaseId_as_str"
  by unfold_locales auto

interpretation owner_id: canonical_codec OwnerId_as_str OwnerId_parse
    "valid_identifier \<circ> OwnerId_as_str"
  by unfold_locales auto

interpretation session_id: canonical_codec SessionId_as_str SessionId_parse
    "valid_identifier \<circ> SessionId_as_str"
  by unfold_locales auto

interpretation endpoint: canonical_codec Endpoint_as_str Endpoint_new
    "valid_endpoint \<circ> Endpoint_as_str"
  by unfold_locales auto

subsection \<open>Error values\<close>

lemma error_context_wf_empty [simp]: "error_context_wf (ErrorContext [])"
  by (simp add: error_context_wf_def entries_ok_def)

lemma hal_error_wf_new [simp]:
  "hal_error_wf (hal_error name category operation retryable message)
     \<longleftrightarrow> valid_identifier name \<and> valid_identifier operation"
  by (simp add: hal_error_wf_def hal_error_def)

lemma hal_error_no_resource [simp]:
  "(hal_error name category operation retryable message)\<lparr>he_resource_id := None\<rparr>
     = hal_error name category operation retryable message"
  by (simp add: hal_error_def)

lemma hal_error_wf_invalid_argument [simp]:
  "hal_error_wf (invalid_argument_error name operation message)
     \<longleftrightarrow> valid_identifier name \<and> valid_identifier operation"
  by (simp add: invalid_argument_error_def)

lemma HalError_new_Ok [ok_simps]:
  "HalError_new name category operation retryable message = Ok e
     \<longleftrightarrow> valid_identifier name \<and> valid_identifier operation
       \<and> e = hal_error name category operation retryable message"
  by (auto simp: HalError_new_def hal_error_def)

lemma hal_error_with [simp]:
  "hal_error_wf (with_resource_id r e)
     \<longleftrightarrow> valid_identifier (ResourceId_as_str r) \<and> hal_error_wf (e\<lparr>he_resource_id := None\<rparr>)"
  "hal_error_wf (with_context c e)
     \<longleftrightarrow> error_context_wf c \<and> hal_error_wf (e\<lparr>he_context := ErrorContext []\<rparr>)"
  by (auto simp: with_resource_id_def with_context_def hal_error_wf_def)

lemma with_code_Ok [ok_simps]:
  "with_platform_code code e = Ok e' \<longleftrightarrow> valid_identifier code \<and> e' = e\<lparr>he_platform_code := Some code\<rparr>"
  "with_vendor_code code e = Ok e' \<longleftrightarrow> valid_identifier code \<and> e' = e\<lparr>he_vendor_code := Some code\<rparr>"
  by (auto simp: with_platform_code_def with_vendor_code_def)

lemma validate_identifier_Err:
  assumes "validate_identifier field value = Err e" "valid_identifier field" "length field \<le> 245"
  shows "hal_error_wf e"
  using assms by (auto simp: validate_identifier_def identifier_eval split: if_splits)

subsection \<open>Error context\<close>

lemma validate_context_key_Ok [simp, ok_simps]:
  "validate_context_key key = Ok u \<longleftrightarrow> valid_context_key key"
  by (auto simp: validate_context_key_def valid_context_key_def error_context_limits
      split: list.splits)

lemma entries_ok_mset:
  assumes "mset es = mset es'"
  shows "entries_ok es = entries_ok es'"
proof -
  from assms have "mset (map f es) = mset (map f es')" for f :: "string \<times> string \<Rightarrow> 'b" by simp
  then have "sum_list (map entry_bytes es) = sum_list (map entry_bytes es')"
    "distinct (map fst es) = distinct (map fst es')"
    by (metis sum_mset_sum_list, metis mset_eq_imp_distinct_iff)
  moreover have "length es = length es'" "set es = set es'"
    using assms by (auto dest: mset_eq_length mset_eq_setD)
  ultimately show ?thesis by (simp add: entries_ok_def list_all_iff)
qed

lemma entries_ok_append: "entries_ok (es @ es') \<Longrightarrow> entries_ok es"
  by (auto simp: entries_ok_def)

lemma ErrorContext_new_loop_step:
  "ErrorContext_new_loop m t ((k, v) # es) = Ok c
    \<longleftrightarrow> length m < 16 \<and> valid_context_key k \<and> length v \<le> 1024 \<and> map_of m k = None
      \<and> t + (length k + length v) \<le> 8192
      \<and> ErrorContext_new_loop (bt_insert k v m) (t + (length k + length v)) es = Ok c"
  by (simp add: error_context_limits Let_def not_le not_less)

lemma entries_ok_snoc:
  "entries_ok m \<Longrightarrow> entries_ok (m @ [(k, v)])
    \<longleftrightarrow> length m < 16 \<and> valid_context_key k \<and> length v \<le> 1024 \<and> map_of m k = None
      \<and> sum_list (map entry_bytes m) + (length k + length v) \<le> 8192"
  by (auto simp: entries_ok_def map_of_eq_None_iff entry_bytes_def [of "(k, v)"])

lemma ErrorContext_new_loop_Ok:
  assumes "bt_wf m" "entries_ok m"
  shows "ErrorContext_new_loop m (sum_list (map entry_bytes m)) es = Ok c
    \<longleftrightarrow> entries_ok (m @ es) \<and> c = ErrorContext (fold (\<lambda>(k, v). bt_insert k v) es m)"
  using assms
proof (induction es arbitrary: m)
  case Nil
  then show ?case by auto
next
  case (Cons kv es)
  obtain k v where kv: "kv = (k, v)" by fastforce
  let ?m = "bt_insert k v m"
  show ?case
  proof (cases "entries_ok (m @ [(k, v)])")
    case True
    then have "map_of m k = None" by (simp add: entries_ok_snoc Cons.prems)
    then have mset: "mset ?m = mset (m @ [(k, v)])" by (simp add: bt_insert_mset)
    then have ok: "entries_ok ?m" using True by (metis entries_ok_mset)
    have rest: "entries_ok (?m @ es) = entries_ok (m @ kv # es)"
      by (rule entries_ok_mset) (use mset kv in simp)
    have "sum_list (map entry_bytes ?m) = sum_list (map entry_bytes (m @ [(k, v)]))"
      by (metis mset mset_map sum_mset_sum_list)
    then have sum: "sum_list (map entry_bytes m) + (length k + length v) = sum_list (map entry_bytes ?m)"
      by (simp add: entry_bytes_def [of "(k, v)"])
    from True Cons.prems show ?thesis
      unfolding kv ErrorContext_new_loop_step sum entries_ok_snoc [OF Cons.prems(2)]
      using Cons.IH [of ?m] ok rest by (simp add: bt_wf_insert kv)
  next
    case False
    moreover from this have "\<not> entries_ok (m @ kv # es)"
      using entries_ok_append [of "m @ [kv]" es] by (auto simp: kv)
    ultimately show ?thesis
      unfolding kv ErrorContext_new_loop_step entries_ok_snoc [OF Cons.prems(2)] by blast
  qed
qed

lemma ErrorContext_new_Ok [ok_simps]:
  "ErrorContext_new es = Ok c \<longleftrightarrow> entries_ok es \<and> c = ErrorContext (bt_of_list es)"
  using ErrorContext_new_loop_Ok [of "[]" es c]
  by (simp add: ErrorContext_new_def bt_of_list_def entries_ok_def [of "[]"])

interpretation error_context: codec ErrorContext_iter ErrorContext_new error_context_wf
proof unfold_locales
  show "ErrorContext_new (ErrorContext_iter x) = Ok x" if "error_context_wf x" for x
    using that by (simp add: error_context_wf_def ErrorContext_new_Ok)
  show "error_context_wf x" if "ErrorContext_new w = Ok x" for w x
  proof -
    from that have w: "entries_ok w" and x: "x = ErrorContext (bt_of_list w)"
      by (auto simp: ErrorContext_new_Ok)
    from w have d: "distinct (map fst w)" by (simp add: entries_ok_def)
    with w show ?thesis
      by (simp add: x error_context_wf_def bt_wf_of_list entries_ok_mset [OF mset_bt_of_list])
  qed
qed

subsection \<open>Capability identifiers\<close>

lemma capability_contract:
  "\<not> list_ex (\<lambda>s. s = []) (split_on (CHR ''.'') contract) \<and> CHR ''.'' \<in> set contract
     \<and> CHR ''/'' \<notin> set contract
   \<longleftrightarrow> (\<exists>segments. contract = join_with (CHR ''.'') segments \<and> 2 \<le> length segments
     \<and> (\<forall>w\<in>set segments. w \<noteq> [] \<and> CHR ''.'' \<notin> set w \<and> CHR ''/'' \<notin> set w))"
  (is "?l \<longleftrightarrow> ?r")
proof
  assume l: ?l
  let ?s = "split_on (CHR ''.'') contract"
  have "2 \<le> length ?s" using l length_split_on [of "CHR ''.''" contract] by simp
  moreover have "CHR ''/'' \<notin> set w" if "w \<in> set ?s" for w
    using that l set_join_with [of w ?s "CHR ''.''"] by (auto simp: join_split)
  ultimately show ?r
    using l by (intro exI [of _ ?s]) (auto simp: join_split list_ex_iff dest: split_on_clean)
next
  assume ?r
  then obtain segments where s: "contract = join_with (CHR ''.'') segments"
    "2 \<le> length segments"
    "\<forall>w\<in>set segments. w \<noteq> [] \<and> CHR ''.'' \<notin> set w \<and> CHR ''/'' \<notin> set w" by blast
  then have split: "split_on (CHR ''.'') contract = segments"
    by (metis list.size(3) not_numeral_le_zero split_join)
  with s show ?l
    using length_split_on [of "CHR ''.''" contract] join_with_set [of "CHR ''.''" segments]
    by (auto simp: list_ex_iff)
qed

definition version_ok :: "string \<Rightarrow> bool" where
  "version_ok number \<longleftrightarrow> number \<noteq> [] \<and> list_all ascii_digit number
     \<and> 0 < digits_value number \<and> digits_value number < 2 ^ 64"

definition contract_ok :: "string \<Rightarrow> bool" where
  "contract_ok contract \<longleftrightarrow> \<not> list_ex (\<lambda>w. w = []) (split_on (CHR ''.'') contract)
     \<and> CHR ''.'' \<in> set contract"

lemma CapabilityId_parse_split_once:
  "CapabilityId_parse s = Ok c \<longleftrightarrow> valid_identifier s \<and> c = CapabilityId s
     \<and> (\<exists>contract number. split_once (CHR ''/'') s = Some (contract, CHR ''v'' # number)
       \<and> contract_ok contract \<and> version_ok number)"
proof (cases "split_once (CHR ''/'') s")
  case None
  then show ?thesis by (simp add: CapabilityId_parse_def)
next
  case (Some ab)
  obtain a b where ab: "ab = (a, b)" by fastforce
  have number: "version_ok number \<longleftrightarrow> number \<noteq> [] \<and> list_all ascii_digit number
      \<and> \<not> (case parse_u64 number of None \<Rightarrow> True | Some n \<Rightarrow> \<not> n > 0)" for number
    by (auto simp: version_ok_def parse_u64_def)
  show ?thesis
  proof (cases b)
    case Nil
    with Some ab show ?thesis by (simp add: CapabilityId_parse_def)
  next
    case (Cons x xs)
    with Some ab show ?thesis
      by (auto simp: CapabilityId_parse_def Let_def number contract_ok_def)
  qed
qed

lemma CapabilityId_parse_split:
  "CapabilityId_parse s = Ok c \<longleftrightarrow> valid_identifier s \<and> c = CapabilityId s
     \<and> (\<exists>contract number. s = contract @ ''/v'' @ number
       \<and> (contract_ok contract \<and> CHR ''/'' \<notin> set contract) \<and> version_ok number)"
  by (auto simp: CapabilityId_parse_split_once split_once_Some)

lemma CapabilityId_parse_Ok [simp, ok_simps]:
  "CapabilityId_parse s = Ok c \<longleftrightarrow> valid_capability s \<and> c = CapabilityId s"
  unfolding CapabilityId_parse_split contract_ok_def conj_assoc capability_contract
    valid_capability_def version_ok_def by blast

interpretation capability_id: canonical_codec CapabilityId_as_str CapabilityId_parse
    "valid_capability \<circ> CapabilityId_as_str"
  by unfold_locales auto

interpretation capability_set: repeated_codec CapabilityId_as_str CapabilityId_parse
    "valid_capability \<circ> CapabilityId_as_str"
  by unfold_locales

subsection \<open>Identity quality\<close>

text \<open>The derived order of \<open>IdentityQuality\<close>, which \<open>satisfies\<close> tests.\<close>

instantiation IdentityQuality :: linorder
begin

definition less_eq_IdentityQuality :: "IdentityQuality \<Rightarrow> IdentityQuality \<Rightarrow> bool" where
  "less_eq_IdentityQuality p q \<longleftrightarrow> IdentityQuality_rank p \<le> IdentityQuality_rank q"

definition less_IdentityQuality :: "IdentityQuality \<Rightarrow> IdentityQuality \<Rightarrow> bool" where
  "less_IdentityQuality p q \<longleftrightarrow> IdentityQuality_rank p < IdentityQuality_rank q"

instance
proof
  fix x y z :: IdentityQuality
  show "x < y \<longleftrightarrow> x \<le> y \<and> \<not> y \<le> x"
    by (auto simp: less_eq_IdentityQuality_def less_IdentityQuality_def)
  show "x \<le> x" by (simp add: less_eq_IdentityQuality_def)
  show "x \<le> y \<Longrightarrow> y \<le> z \<Longrightarrow> x \<le> z"
    by (auto simp: less_eq_IdentityQuality_def)
  show "x \<le> y \<Longrightarrow> y \<le> x \<Longrightarrow> x = y"
    by (cases x; cases y) (auto simp: less_eq_IdentityQuality_def word_le_nat_alt)
  show "x \<le> y \<or> y \<le> x" by (auto simp: less_eq_IdentityQuality_def)
qed

end

lemma satisfies_iff_le: "satisfies q minimum \<longleftrightarrow> minimum \<le> q"
  by (simp add: satisfies_def less_eq_IdentityQuality_def)

lemma satisfies_refl [simp]: "satisfies q q"
  by (simp add: satisfies_iff_le)

subsection \<open>Resource resolution\<close>

lemma resolve_resource_Ok [ok_simps]:
  "resolve_resource ds sel cap operation = Ok d \<longleftrightarrow> filter (selector_matches sel cap) ds = [d]"
  by (auto simp: resolve_resource_def split: list.splits)

lemma resolve_resource_Err:
  assumes "valid_identifier operation"
  shows "resolve_resource ds sel cap operation =
    (let matches = filter (selector_matches sel cap) ds in
     case matches of
       [] \<Rightarrow> Err (with_resource_id (rs_id sel) (hal_error ''runtime.resource.not_found'' NotFound
              operation False ''resource selector did not match an enumerated descriptor''))
     | [d] \<Rightarrow> Ok d
     | _ \<Rightarrow> Err (with_resource_id (rs_id sel) (hal_error ''runtime.resource.ambiguous'' Conflict
              operation False ''resource selector matched more than one enumerated descriptor'')))"
proof -
  have new: "HalError_new n cat operation False msg = Ok (hal_error n cat operation False msg)"
    if "valid_identifier n" for n cat msg
    using that assms by (simp add: HalError_new_Ok)
  show ?thesis
    by (simp add: resolve_resource_def new identifier_eval split: list.split)
qed

lemma selector_matches_endpoint [simp]:
  "selector_matches sel cap (d\<lparr>rd_endpoint := e\<rparr>) = selector_matches sel cap d"
  by (simp add: selector_matches_def)

lemma selector_matches_self [simp]:
  "selector_matches (ResourceDescriptor_selector d) cap d \<longleftrightarrow> cap \<in> set (rd_capabilities d)"
  by (simp add: selector_matches_def ResourceDescriptor_selector_def ResourceSelector_exact_def
      CapabilitySet_contains_def)

subsection \<open>Every error is well formed\<close>

text \<open>
  \<open>errs_wf r\<close>: if the operation fails, the error it reports has valid name, operation,
  resource and codes. For an error built through \<open>.expect\<close> this says that the call does not
  panic. The collection \<open>errs\<close> gathers the facts for the operations of all components.
\<close>

fun errs_wf :: "'a hal_result \<Rightarrow> bool" where
  "errs_wf (Ok x) = True"
| "errs_wf (Err e) = hal_error_wf e"

named_theorems errs \<open>operations whose errors are well formed\<close>

lemma errs_wf_and_then [intro]: "errs_wf r \<Longrightarrow> (\<And>x. r = Ok x \<Longrightarrow> errs_wf (f x)) \<Longrightarrow> errs_wf (and_then r f)"
  by (cases r) auto

lemma errs_wf_map_ok [simp]: "errs_wf (map_ok f r) = errs_wf r"
  by (cases r) auto

lemma errs_wf_ok_or [simp]: "errs_wf (ok_or e r) \<longleftrightarrow> (r = None \<longrightarrow> hal_error_wf e)"
  by (cases r) auto

lemma errs_wf_collect: "(\<And>r. r \<in> set rs \<Longrightarrow> errs_wf r) \<Longrightarrow> errs_wf (collect_results rs)"
  by (induction rs) (auto intro!: errs_wf_and_then)

lemma errs_wf_transpose: "(\<And>x. r = Some x \<Longrightarrow> errs_wf x) \<Longrightarrow> errs_wf (transpose_opt r)"
  by (cases r) auto

lemma errs_validate_identifier:
  "valid_identifier field \<Longrightarrow> length field \<le> 245 \<Longrightarrow> errs_wf (validate_identifier field value)"
  by (metis errs_wf.elims(3) validate_identifier_Err)

lemma errs_identifiers [errs, simp]:
  "errs_wf (ResourceId_parse s)" "errs_wf (ErrorName_parse s)" "errs_wf (OperationName_parse s)"
  "errs_wf (LeaseId_parse s)" "errs_wf (OwnerId_parse s)" "errs_wf (SessionId_parse s)"
  "errs_wf (Endpoint_new s)" "errs_wf (CapabilityId_parse s)"
  unfolding ResourceId_parse_def ErrorName_parse_def OperationName_parse_def LeaseId_parse_def
    OwnerId_parse_def SessionId_parse_def Endpoint_new_def CapabilityId_parse_def
    capability_invalid_def
  by (auto intro!: errs_wf_and_then errs_validate_identifier simp: identifier_eval Let_def
      split: prod.splits)

lemma errs_HalError_new [errs, simp]: "errs_wf (HalError_new name cat operation retryable message)"
  unfolding HalError_new_def by (intro errs_wf_and_then) simp_all

lemma errs_codes [errs, simp]:
  "errs_wf (with_platform_code code e)" "errs_wf (with_vendor_code code e)"
  unfolding with_platform_code_def with_vendor_code_def
  by (auto intro!: errs_wf_and_then errs_validate_identifier simp: identifier_eval)

lemma errs_context_key: "errs_wf (validate_context_key key)"
  by (simp add: validate_context_key_def identifier_eval)

lemma errs_context_loop: "errs_wf (ErrorContext_new_loop m t es)"
proof (induction m t es rule: ErrorContext_new_loop.induct)
  case (1 m t)
  then show ?case by simp
next
  case (2 m t k v es)
  show ?case
    unfolding ErrorContext_new_loop.simps
    using 2 by (auto intro!: errs_wf_and_then errs_context_key simp: Let_def identifier_eval)
qed

lemma errs_ErrorContext_new [errs, simp]: "errs_wf (ErrorContext_new es)"
  by (simp add: ErrorContext_new_def errs_context_loop)

lemma errs_resolve_resource [errs]:
  assumes "valid_identifier (ResourceId_as_str (rs_id sel))"
  shows "errs_wf (resolve_resource ds sel cap operation)"
  unfolding resolve_resource_def
  by (auto intro!: errs_wf_and_then split: list.split simp: HalError_new_Ok assms)

section \<open>Properties\<close>

text \<open>
  Capability grammar: \<open>CapabilityId::parse\<close> accepts a string exactly when it is a valid
  identifier of the form \<open>segment.segment(.segment)*/v<n>\<close> with non-empty segments and a
  positive version number below \<open>2 ^ 64\<close>, and it returns that string unchanged.
\<close>

theorem capability_parse_grammar:
  "CapabilityId_parse s = Ok c \<longleftrightarrow> valid_capability s \<and> c = CapabilityId s"
  by simp

text \<open>
  Error context: \<open>ErrorContext::new\<close> succeeds exactly when the entries respect every
  documented bound (16 entries, valid keys of at most 64 bytes, values of at most 1024 bytes,
  unique keys, 8192 bytes in total), and the result is the one sorted map with these entries,
  whatever the order in which they were supplied.
\<close>

theorem error_context_new_spec:
  "ErrorContext_new es = Ok c
     \<longleftrightarrow> entries_ok es \<and> bt_wf (ErrorContext_iter c) \<and> mset (ErrorContext_iter c) = mset es"
  using bt_of_list_iff [of es "ErrorContext_iter c"]
  by (cases c) (auto simp: ErrorContext_new_Ok entries_ok_def)

text \<open>
  C40. Resource resolution: a selector resolves to a descriptor exactly when that descriptor is
  at the only position of the enumeration whose identity, transport, identity quality and
  capabilities match; in particular duplicates of one identity are never resolved.
\<close>

theorem resolve_resource_unique:
  "resolve_resource ds sel cap operation = Ok d
     \<longleftrightarrow> (\<exists>i<length ds. ds ! i = d \<and> selector_matches sel cap d
           \<and> (\<forall>j<length ds. selector_matches sel cap (ds ! j) \<longrightarrow> j = i))"
  by (simp add: resolve_resource_Ok filter_singleton_iff)

definition sample_descriptor :: "string \<Rightarrow> string \<Rightarrow> ResourceDescriptor" where
  "sample_descriptor i e =
     \<lparr>rd_id = ResourceId i, rd_endpoint = Endpoint e, rd_minimum_identity_quality = Strong,
      rd_transport = TSerial, rd_properties = [], rd_capabilities = [CapabilityId ''serial.bytes/v1'']\<rparr>"

lemma resolve_resource_unique_witness:
  "resolve_resource [sample_descriptor ''a'' ''x'', sample_descriptor ''b'' ''y'']
     (ResourceSelector_exact (ResourceId ''b'') Medium TSerial) (CapabilityId ''serial.bytes/v1'')
     ''serial.open'' = Ok (sample_descriptor ''b'' ''y'')"
  unfolding resolve_resource_unique
  by (rule exI [of _ 1]) (auto simp: sample_descriptor_def ResourceSelector_exact_def
      selector_matches_def CapabilitySet_contains_def satisfies_def less_Suc_eq)

text \<open>
  Endpoints never take part in matching: replacing the endpoints of the enumerated
  descriptors in any way changes the outcome of resolution only in the endpoint of the
  descriptor returned, the errors included.
\<close>

theorem resolve_resource_endpoint_independent:
  "resolve_resource (map (\<lambda>d. d\<lparr>rd_endpoint := f d\<rparr>) ds) sel cap operation
     = map_ok (\<lambda>d. d\<lparr>rd_endpoint := f d\<rparr>) (resolve_resource ds sel cap operation)"
proof -
  have "filter (selector_matches sel cap) (map (\<lambda>d. d\<lparr>rd_endpoint := f d\<rparr>) ds)
      = map (\<lambda>d. d\<lparr>rd_endpoint := f d\<rparr>) (filter (selector_matches sel cap) ds)"
    by (simp add: filter_map comp_def)
  moreover have "map_ok g (and_then r (\<lambda>x. Err (h x))) = and_then r (\<lambda>x. Err (h x))"
    for g :: "ResourceDescriptor \<Rightarrow> ResourceDescriptor" and r and h :: "HalError \<Rightarrow> HalError"
    by (cases r) simp_all
  ultimately show ?thesis
    unfolding resolve_resource_def by (simp split: list.split)
qed

text \<open>
  Serialised errors: deserialising a serialised error always succeeds on well-formed errors
  and preserves exactly the decision fields; diagnostics are not carried.
\<close>

theorem hal_error_serialized_decision:
  assumes "hal_error_wf e"
  shows "HalError_deserialize (HalError_serialize e)
    = Ok (e\<lparr>he_debug_message := [], he_resource_id := None, he_platform_code := None,
            he_vendor_code := None, he_context := ErrorContext []\<rparr>)"
  using assms
  by (cases e) (auto simp: HalError_deserialize_def HalError_serialize_def decision_fields_def
      hal_error_wf_def)

lemma hal_error_serialized_decision_witness:
  "\<exists>e. hal_error_wf e \<and> HalError_deserialize (HalError_serialize e) \<noteq> Ok e
     \<and> is_ok (HalError_deserialize (HalError_serialize e))"
proof (intro exI conjI)
  let ?e = "hal_error ''can.timeout'' Unavailable ''can.send'' True ''deadline''"
  show wf: "hal_error_wf ?e" by (simp add: identifier_eval)
  show "HalError_deserialize (HalError_serialize ?e) \<noteq> Ok ?e"
    "is_ok (HalError_deserialize (HalError_serialize ?e))"
    using hal_error_serialized_decision [OF wf] by (simp_all add: hal_error_def)
qed

end
