(* ===== verification/Runtime_Base.thy ===== *)
theory Runtime_Base
  imports Hal_Core
begin

text \<open>
  Parts of \<open>robot-hal-runtime\<close> that every session manager shares: \<open>runtime_error\<close>
  (\<open>lib.rs\<close>), the session lifecycle (\<open>session_lifecycle.rs\<close>) and the event publisher
  (\<open>events.rs\<close>). The broadcast channel is a third-party queue; the model records, in order,
  the events that \<open>publish\<close> hands to it.
\<close>

section \<open>Definitions\<close>

definition runtime_error :: "string \<Rightarrow> ErrorCategory \<Rightarrow> string \<Rightarrow> bool \<Rightarrow> string \<Rightarrow> HalError" where
  "runtime_error name category operation retryable debug_message =
     hal_error name category operation retryable debug_message"

datatype SessionLifecycle = Opening | Active | Closing

definition is_active :: "SessionLifecycle \<Rightarrow> bool" where
  "is_active s \<longleftrightarrow> s = Active"

definition is_closing :: "SessionLifecycle \<Rightarrow> bool" where
  "is_closing s \<longleftrightarrow> s = Closing"

fun lifecycle_debug :: "SessionLifecycle \<Rightarrow> string" where
  "lifecycle_debug Opening = ''Opening''"
| "lifecycle_debug Active = ''Active''"
| "lifecycle_debug Closing = ''Closing''"

definition invalid_transition ::
  "string \<Rightarrow> SessionLifecycle \<Rightarrow> SessionLifecycle \<Rightarrow> string \<Rightarrow> HalError" where
  "invalid_transition operation actual expected message =
     runtime_error ''runtime.session.lifecycle.invalid_transition'' Conflict operation False
       (''session lifecycle is '' @ lifecycle_debug actual @ '', expected ''
          @ lifecycle_debug expected @ '': '' @ message)"

definition commit_open :: "string \<Rightarrow> SessionLifecycle \<Rightarrow> SessionLifecycle hal_result" where
  "commit_open operation s =
     (if s \<noteq> Opening
      then Err (invalid_transition operation s Active ''only an opening session can become active'')
      else Ok Active)"

fun lifecycle_begin_close :: "string \<Rightarrow> SessionLifecycle \<Rightarrow> SessionLifecycle hal_result" where
  "lifecycle_begin_close operation Opening = Ok Closing"
| "lifecycle_begin_close operation Active = Ok Closing"
| "lifecycle_begin_close operation Closing = Ok Closing"

definition admit_io :: "string \<Rightarrow> SessionLifecycle \<Rightarrow> unit hal_result" where
  "admit_io operation s =
     (if s \<noteq> Active
      then Err (runtime_error ''runtime.session.closed'' Conflict operation False
        ''the session is not active and cannot admit new I/O'')
      else Ok ())"

datatype RuntimeEventKind = SessionOpened | SessionClosed | CanBusActive | CanBusWarning
  | CanBusPassive | CanBusOff | CanBusStopped | CanBusUnknown

fun RuntimeEventKind_name :: "RuntimeEventKind \<Rightarrow> string" where
  "RuntimeEventKind_name SessionOpened = ''session.opened''"
| "RuntimeEventKind_name SessionClosed = ''session.closed''"
| "RuntimeEventKind_name CanBusActive = ''can.bus.active''"
| "RuntimeEventKind_name CanBusWarning = ''can.bus.warning''"
| "RuntimeEventKind_name CanBusPassive = ''can.bus.passive''"
| "RuntimeEventKind_name CanBusOff = ''can.bus.off''"
| "RuntimeEventKind_name CanBusStopped = ''can.bus.stopped''"
| "RuntimeEventKind_name CanBusUnknown = ''can.bus.unknown''"

record RuntimeEvent =
  ev_sequence :: u64
  ev_kind :: RuntimeEventKind
  ev_resource_id :: ResourceId
  ev_session_id :: SessionId
  ev_owner_id :: OwnerId
  ev_lease_generation :: u64

record EventPublisher =
  ep_next_sequence :: u64
  ep_sent :: "RuntimeEvent list"

definition EventPublisher_new :: EventPublisher where
  "EventPublisher_new = \<lparr>ep_next_sequence = 1, ep_sent = []\<rparr>"

definition publish ::
  "RuntimeEventKind \<Rightarrow> ResourceId \<Rightarrow> SessionId \<Rightarrow> OwnerId \<Rightarrow> u64 \<Rightarrow> EventPublisher \<Rightarrow> EventPublisher" where
  "publish kind resource_id session_id owner_id lease_generation p =
     (let event = \<lparr>ev_sequence = ep_next_sequence p, ev_kind = kind, ev_resource_id = resource_id,
          ev_session_id = session_id, ev_owner_id = owner_id,
          ev_lease_generation = lease_generation\<rparr>
      in \<lparr>ep_next_sequence = saturating_add (ep_next_sequence p) 1, ep_sent = ep_sent p @ [event]\<rparr>)"

text \<open>What a subscription makes of the broadcast channel's receive outcome.\<close>

datatype RecvError = RecvClosed | RecvLagged u64

definition event_error :: "string \<Rightarrow> ErrorCategory \<Rightarrow> bool \<Rightarrow> string \<Rightarrow> HalError" where
  "event_error name category retryable debug_message =
     runtime_error name category ''runtime.event.receive'' retryable debug_message"

definition EventSubscription_recv :: "(RuntimeEvent, RecvError) result \<Rightarrow> RuntimeEvent hal_result" where
  "EventSubscription_recv received =
     map_err (\<lambda>error. case error of
         RecvClosed \<Rightarrow> event_error ''runtime.event.closed'' Unavailable False
           ''the runtime event stream is closed''
       | RecvLagged skipped \<Rightarrow> event_error ''runtime.event.lagged'' Unavailable True
           (''event subscriber fell behind by '' @ show_word skipped @ '' events'')) received"

section \<open>Lifecycle\<close>

lemma hal_error_wf_runtime_error [simp]:
  "hal_error_wf (runtime_error name category operation retryable message)
     \<longleftrightarrow> valid_identifier name \<and> valid_identifier operation"
  by (simp add: runtime_error_def)

lemma runtime_error_with_resource [simp]:
  "(runtime_error name category operation retryable message)\<lparr>he_resource_id := None\<rparr>
     = runtime_error name category operation retryable message"
  by (simp add: runtime_error_def hal_error_def)

lemma runtime_error_fields [simp]:
  "he_name (runtime_error name category operation retryable message) = ErrorName name"
  "he_category (runtime_error name category operation retryable message) = category"
  "he_operation (runtime_error name category operation retryable message) = OperationName operation"
  "he_retryable (runtime_error name category operation retryable message) = retryable"
  "he_resource_id (runtime_error name category operation retryable message) = None"
  by (simp_all add: runtime_error_def hal_error_def)

lemma with_resource_id_fields [simp]:
  "he_name (with_resource_id r e) = he_name e"
  "he_category (with_resource_id r e) = he_category e"
  "he_operation (with_resource_id r e) = he_operation e"
  "he_retryable (with_resource_id r e) = he_retryable e"
  "he_resource_id (with_resource_id r e) = Some r"
  by (simp_all add: with_resource_id_def)

lemma commit_open_Ok [simp, ok_simps]: "commit_open operation s = Ok s' \<longleftrightarrow> s = Opening \<and> s' = Active"
  by (auto simp: commit_open_def)

lemma lifecycle_begin_close_eq [simp]: "lifecycle_begin_close operation s = Ok Closing"
  by (cases s) auto

lemma admit_io_Ok [simp, ok_simps]: "admit_io operation s = Ok u \<longleftrightarrow> s = Active"
  by (auto simp: admit_io_def)

section \<open>Events\<close>

text \<open>
  The sequence numbers of the published events are \<open>1, 2, 3, ...\<close>, saturating at the
  largest 64-bit value.
\<close>

definition publisher_wf :: "EventPublisher \<Rightarrow> bool" where
  "publisher_wf p \<longleftrightarrow> unat (ep_next_sequence p) = min (Suc (length (ep_sent p))) (2 ^ 64 - 1)
     \<and> (\<forall>i<length (ep_sent p). unat (ev_sequence (ep_sent p ! i)) = min (Suc i) (2 ^ 64 - 1))"

lemma publisher_wf_new [simp]: "publisher_wf EventPublisher_new"
  by (simp add: publisher_wf_def EventPublisher_new_def)

lemma publisher_wf_publish [simp, wf_intros]:
  assumes "publisher_wf p"
  shows "publisher_wf (publish k r s ow g p)"
proof -
  from assms have n: "unat (ep_next_sequence p) = min (Suc (length (ep_sent p))) (2 ^ 64 - 1)"
    by (simp add: publisher_wf_def)
  have "unat (saturating_add (ep_next_sequence p) 1) = min (Suc (Suc (length (ep_sent p)))) (2 ^ 64 - 1)"
    unfolding unat_saturating_add n by simp
  with assms n show ?thesis
    by (auto simp: publisher_wf_def publish_def Let_def nth_append less_Suc_eq)
qed

lemma publish_sent: "ep_sent (publish k r s ow g p) = ep_sent p @
    [\<lparr>ev_sequence = ep_next_sequence p, ev_kind = k, ev_resource_id = r, ev_session_id = s,
      ev_owner_id = ow, ev_lease_generation = g\<rparr>]"
  by (simp add: publish_def)

lemma publisher_strictly_increasing:
  assumes "publisher_wf p" "i < j" "j < length (ep_sent p)" "j < 2 ^ 64 - 1"
  shows "ev_sequence (ep_sent p ! i) < ev_sequence (ep_sent p ! j)"
proof -
  have "unat (ev_sequence (ep_sent p ! i)) = Suc i" "unat (ev_sequence (ep_sent p ! j)) = Suc j"
    using assms by (auto simp: publisher_wf_def min_def)
  with assms(2) show ?thesis by (simp add: word_less_nat_alt)
qed

lemma errs_runtime_base [errs]:
  "valid_identifier operation \<Longrightarrow> errs_wf (commit_open operation s)"
  "valid_identifier operation \<Longrightarrow> errs_wf (admit_io operation s)"
  "errs_wf (lifecycle_begin_close operation s)"
  "errs_wf (EventSubscription_recv received)"
proof -
  show "valid_identifier operation \<Longrightarrow> errs_wf (commit_open operation s)"
    "valid_identifier operation \<Longrightarrow> errs_wf (admit_io operation s)"
    "errs_wf (lifecycle_begin_close operation s)"
    by (auto simp: commit_open_def invalid_transition_def admit_io_def identifier_eval)
  show "errs_wf (EventSubscription_recv received)"
    by (cases received) (auto simp: EventSubscription_recv_def event_error_def identifier_eval
        split: RecvError.split)
qed

end
