(* ===== verification/Can_Lease_Table.thy ===== *)
theory Can_Lease_Table
  imports Runtime_Base
begin

text \<open>
  The shared leases of CAN resources (\<open>src/crates/robot-hal-runtime/src/can_lease_table.rs\<close>):
  any number of observers beside at most one controller, or one maintainer alone. The table
  keeps provisional and committed leases in four places; the abstraction \<open>rl_view\<close> is one map
  from sessions to what they hold, and every operation refines an update of that map. The
  identifiers drawn by \<open>LeaseId::new()\<close> are arguments.
\<close>

section \<open>Definitions\<close>

record CanReservation =
  cr_resource_id :: ResourceId
  cr_session_id :: SessionId
  cr_owner_id :: OwnerId
  cr_reservation_id :: LeaseId
  cr_mode :: LeaseMode

record LeaseEntry =
  le_session_id :: SessionId
  le_owner_id :: OwnerId
  le_token :: LeaseToken

record PendingEntry =
  pe_reservation_id :: LeaseId
  pe_owner_id :: OwnerId
  pe_mode :: LeaseMode

record ResourceLeases =
  rl_last_generation :: u64
  rl_pending :: "(SessionId, PendingEntry) hashmap"
  rl_observes :: "(SessionId, LeaseEntry) hashmap"
  rl_control :: "LeaseEntry option"
  rl_maintenance :: "LeaseEntry option"

definition ResourceLeases_default :: ResourceLeases where
  "ResourceLeases_default = \<lparr>rl_last_generation = 0, rl_pending = [], rl_observes = [],
     rl_control = None, rl_maintenance = None\<rparr>"

definition rl_is_empty :: "ResourceLeases \<Rightarrow> bool" where
  "rl_is_empty l \<longleftrightarrow> rl_pending l = [] \<and> rl_observes l = [] \<and> rl_control l = None
     \<and> rl_maintenance l = None"

definition has_any_lease :: "ResourceLeases \<Rightarrow> bool" where
  "has_any_lease l \<longleftrightarrow> \<not> rl_is_empty l"

type_synonym CanLeaseTable = "(ResourceId, ResourceLeases) hashmap"

definition can_conflict :: "ResourceId \<Rightarrow> string \<Rightarrow> HalError" where
  "can_conflict resource_id message =
     with_resource_id resource_id (hal_error ''runtime.lease.conflict'' Conflict ''can.open'' False message)"

definition can_session_closed :: "ResourceId \<Rightarrow> string \<Rightarrow> HalError" where
  "can_session_closed resource_id operation =
     with_resource_id resource_id
       (hal_error ''runtime.session.closed'' Conflict operation False ''the CAN session is closed'')"

fun mode_allows :: "LeaseMode \<Rightarrow> LeaseMode \<Rightarrow> bool" where
  "mode_allows Observe required = (required = Observe)"
| "mode_allows Control required = (required = Observe \<or> required = Control)"
| "mode_allows Maintenance required = True"

definition entry_of_session :: "SessionId \<Rightarrow> LeaseEntry option \<Rightarrow> LeaseEntry option" where
  "entry_of_session s e = (case e of None \<Rightarrow> None | Some l \<Rightarrow> if le_session_id l = s then Some l else None)"

definition or_else :: "'a option \<Rightarrow> 'a option \<Rightarrow> 'a option" where
  "or_else a b = (case a of None \<Rightarrow> b | Some x \<Rightarrow> Some x)"

definition session_present :: "ResourceLeases \<Rightarrow> SessionId \<Rightarrow> bool" where
  "session_present l session_id \<longleftrightarrow> hm_contains (rl_pending l) session_id
     \<or> hm_contains (rl_observes l) session_id
     \<or> (case rl_control l of None \<Rightarrow> False | Some e \<Rightarrow> le_session_id e = session_id)
     \<or> (case rl_maintenance l of None \<Rightarrow> False | Some e \<Rightarrow> le_session_id e = session_id)"

definition pending_any :: "LeaseMode \<Rightarrow> ResourceLeases \<Rightarrow> bool" where
  "pending_any mode l \<longleftrightarrow> list_ex (\<lambda>p. pe_mode p = mode) (hm_values (rl_pending l))"

definition incompatible :: "LeaseMode \<Rightarrow> ResourceLeases \<Rightarrow> bool" where
  "incompatible mode l =
     (case mode of
        Maintenance \<Rightarrow> has_any_lease l
      | _ \<Rightarrow> rl_maintenance l \<noteq> None \<or> pending_any Maintenance l
            \<or> (mode = Control \<and> (rl_control l \<noteq> None \<or> pending_any Control l)))"

definition can_reserve ::
  "CanLeaseTable \<Rightarrow> LeaseId \<Rightarrow> ResourceId \<Rightarrow> SessionId \<Rightarrow> OwnerId \<Rightarrow> LeaseMode
     \<Rightarrow> CanReservation hal_result \<times> CanLeaseTable" where
  "can_reserve t reservation_id resource_id session_id owner_id mode =
     (let leases = (case hm_get t resource_id of None \<Rightarrow> ResourceLeases_default | Some l \<Rightarrow> l);
          entered = hm_insert resource_id leases t
      in if session_present leases session_id then
           (Err (can_conflict resource_id ''the session already owns or is opening a CAN lease''), entered)
         else if incompatible mode leases then
           (Err (can_conflict resource_id
              ''the CAN lease is incompatible with an active or provisional lease''), entered)
         else
           (Ok \<lparr>cr_resource_id = resource_id, cr_session_id = session_id, cr_owner_id = owner_id,
                cr_reservation_id = reservation_id, cr_mode = mode\<rparr>,
            hm_insert resource_id
              (leases\<lparr>rl_pending := hm_insert session_id
                 \<lparr>pe_reservation_id = reservation_id, pe_owner_id = owner_id, pe_mode = mode\<rparr>
                 (rl_pending leases)\<rparr>) entered))"

definition pending_matches :: "PendingEntry \<Rightarrow> CanReservation \<Rightarrow> bool" where
  "pending_matches p reservation \<longleftrightarrow> pe_reservation_id p = cr_reservation_id reservation
     \<and> pe_owner_id p = cr_owner_id reservation \<and> pe_mode p = cr_mode reservation"

definition can_commit ::
  "CanLeaseTable \<Rightarrow> LeaseId \<Rightarrow> CanReservation \<Rightarrow> LeaseToken hal_result \<times> CanLeaseTable" where
  "can_commit t new_id reservation =
     (let resource_id = cr_resource_id reservation; session_id = cr_session_id reservation in
      case hm_get t resource_id of
        None \<Rightarrow> (Err (can_conflict resource_id ''the CAN reservation is no longer pending''), t)
      | Some leases \<Rightarrow>
         (case hm_get (rl_pending leases) session_id of
            None \<Rightarrow> (Err (can_conflict resource_id ''the CAN reservation is no longer pending''), t)
          | Some pending \<Rightarrow>
              if \<not> pending_matches pending reservation then
                (Err (can_conflict resource_id ''the CAN reservation identity is invalid''), t)
              else
                let unpended = leases\<lparr>rl_pending := hm_remove session_id (rl_pending leases)\<rparr> in
                case checked_add (rl_last_generation leases) 1 of
                  None \<Rightarrow>
                    (Err (with_resource_id resource_id
                       (hal_error ''runtime.lease.generation_exhausted'' Internal ''can.open'' False
                          ''the CAN lease generation reached u64::MAX'')),
                     hm_insert resource_id unpended t)
                | Some generation \<Rightarrow>
                    let token = LeaseToken_new new_id generation (cr_mode reservation);
                        entry = \<lparr>le_session_id = session_id, le_owner_id = cr_owner_id reservation,
                                 le_token = token\<rparr>;
                        fenced = unpended\<lparr>rl_last_generation := generation\<rparr>;
                        stored = (case cr_mode reservation of
                            Observe \<Rightarrow> fenced\<lparr>rl_observes := hm_insert session_id entry (rl_observes fenced)\<rparr>
                          | Control \<Rightarrow> fenced\<lparr>rl_control := Some entry\<rparr>
                          | Maintenance \<Rightarrow> fenced\<lparr>rl_maintenance := Some entry\<rparr>)
                    in (Ok token, hm_insert resource_id stored t)))"

definition can_cancel :: "CanLeaseTable \<Rightarrow> CanReservation \<Rightarrow> bool \<times> CanLeaseTable" where
  "can_cancel t reservation =
     (case hm_get t (cr_resource_id reservation) of
        None \<Rightarrow> (False, t)
      | Some leases \<Rightarrow>
          let removed = (case hm_get (rl_pending leases) (cr_session_id reservation) of
                None \<Rightarrow> False | Some p \<Rightarrow> pending_matches p reservation)
          in if \<not> removed then (False, t)
             else
               let leases' = leases\<lparr>rl_pending :=
                     hm_remove (cr_session_id reservation) (rl_pending leases)\<rparr>;
                   remove_resource = (rl_last_generation leases' = 0 \<and> rl_is_empty leases')
               in (True, if remove_resource then hm_remove (cr_resource_id reservation) t
                         else hm_insert (cr_resource_id reservation) leases' t))"

definition entry_is :: "SessionId \<Rightarrow> LeaseToken \<Rightarrow> LeaseEntry option \<Rightarrow> bool" where
  "entry_is session_id token e =
     (case e of None \<Rightarrow> False | Some l \<Rightarrow> le_session_id l = session_id \<and> le_token l = token)"

definition can_release ::
  "CanLeaseTable \<Rightarrow> ResourceId \<Rightarrow> SessionId \<Rightarrow> LeaseToken \<Rightarrow> bool \<times> CanLeaseTable" where
  "can_release t resource_id session_id token =
     (case hm_get t resource_id of
        None \<Rightarrow> (False, t)
      | Some leases \<Rightarrow>
          if (case hm_get (rl_observes leases) session_id of None \<Rightarrow> False | Some l \<Rightarrow> le_token l = token) then
            (True, hm_insert resource_id
               (leases\<lparr>rl_observes := hm_remove session_id (rl_observes leases)\<rparr>) t)
          else if entry_is session_id token (rl_control leases) then
            (True, hm_insert resource_id (leases\<lparr>rl_control := None\<rparr>) t)
          else if entry_is session_id token (rl_maintenance leases) then
            (True, hm_insert resource_id (leases\<lparr>rl_maintenance := None\<rparr>) t)
          else (False, t))"

definition active_entry :: "ResourceLeases \<Rightarrow> SessionId \<Rightarrow> LeaseEntry option" where
  "active_entry leases session_id =
     or_else (or_else (hm_get (rl_observes leases) session_id)
       (entry_of_session session_id (rl_control leases)))
       (entry_of_session session_id (rl_maintenance leases))"

definition can_lease_error :: "string \<Rightarrow> ResourceId \<Rightarrow> string \<Rightarrow> string \<Rightarrow> HalError" where
  "can_lease_error name resource_id operation message =
     with_resource_id resource_id (hal_error name Conflict operation False message)"

definition can_validate ::
  "CanLeaseTable \<Rightarrow> ResourceId \<Rightarrow> SessionId \<Rightarrow> OwnerId \<Rightarrow> LeaseToken \<Rightarrow> LeaseMode \<Rightarrow> string
     \<Rightarrow> unit hal_result" where
  "can_validate t resource_id session_id owner_id token required_mode operation =
     (case hm_get t resource_id of
        None \<Rightarrow> Err (can_session_closed resource_id operation)
      | Some leases \<Rightarrow>
         (case active_entry leases session_id of
            None \<Rightarrow>
              if lt_generation token < rl_last_generation leases then
                Err (can_lease_error ''runtime.lease.stale_generation'' resource_id operation
                  ''the lease generation is no longer active'')
              else Err (can_session_closed resource_id operation)
          | Some active \<Rightarrow>
              if le_owner_id active \<noteq> owner_id then
                Err (can_lease_error ''runtime.lease.owner_mismatch'' resource_id operation
                  ''the CAN lease owner does not match the session owner'')
              else if le_token active \<noteq> token then
                Err (can_lease_error
                  (if lt_generation token < lt_generation (le_token active)
                   then ''runtime.lease.stale_generation'' else ''runtime.lease.invalid_token'')
                  resource_id operation ''the CAN lease token does not match the active lease'')
              else if \<not> mode_allows (lt_mode (le_token active)) required_mode then
                Err (can_lease_error ''runtime.lease.mode_denied'' resource_id operation
                  ''the CAN lease mode does not permit this operation'')
              else Ok ()))"

definition can_retained_generation_count :: "CanLeaseTable \<Rightarrow> usize" where
  "can_retained_generation_count t =
     length (filter (\<lambda>l. rl_last_generation l > 0) (hm_values t))"

section \<open>The view of a resource\<close>

text \<open>What a session has on a resource: a provisional lease or a committed one.\<close>

datatype CanSlot = Pending LeaseId OwnerId LeaseMode | Held OwnerId LeaseToken

fun slot_mode :: "CanSlot \<Rightarrow> LeaseMode" where
  "slot_mode (Pending i ow m) = m"
| "slot_mode (Held ow tok) = lt_mode tok"

definition rl_view :: "ResourceLeases \<Rightarrow> SessionId \<rightharpoonup> CanSlot" where
  "rl_view l s =
     (case hm_get (rl_pending l) s of
        Some p \<Rightarrow> Some (Pending (pe_reservation_id p) (pe_owner_id p) (pe_mode p))
      | None \<Rightarrow> map_option (\<lambda>e. Held (le_owner_id e) (le_token e)) (active_entry l s))"

text \<open>The sharing rule: maintenance is alone, and at most one session has control.\<close>

definition modes_ok :: "LeaseMode \<Rightarrow> LeaseMode \<Rightarrow> bool" where
  "modes_ok m m' \<longleftrightarrow> m \<noteq> Maintenance \<and> m' \<noteq> Maintenance \<and> \<not> (m = Control \<and> m' = Control)"

definition view_compatible :: "(SessionId \<rightharpoonup> CanSlot) \<Rightarrow> bool" where
  "view_compatible v \<longleftrightarrow>
     (\<forall>s x s' y. v s = Some x \<longrightarrow> v s' = Some y \<longrightarrow> s \<noteq> s' \<longrightarrow> modes_ok (slot_mode x) (slot_mode y))"

definition view_fenced :: "u64 \<Rightarrow> (SessionId \<rightharpoonup> CanSlot) \<Rightarrow> bool" where
  "view_fenced g v \<longleftrightarrow>
     (\<forall>s ow tok. v s = Some (Held ow tok) \<longrightarrow> 0 < lt_generation tok \<and> lt_generation tok \<le> g)
     \<and> (\<forall>s s' ow ow' tok tok'. v s = Some (Held ow tok) \<longrightarrow> v s' = Some (Held ow' tok')
          \<longrightarrow> lt_generation tok = lt_generation tok' \<longrightarrow> s = s')"

definition rl_places :: "ResourceLeases \<Rightarrow> bool" where
  "rl_places l \<longleftrightarrow> hm_wf (rl_observes l)
     \<and> (\<forall>s e. hm_get (rl_observes l) s = Some e \<longrightarrow> le_session_id e = s \<and> lt_mode (le_token e) = Observe)
     \<and> (\<forall>e. rl_control l = Some e \<longrightarrow> lt_mode (le_token e) = Control
          \<and> hm_get (rl_observes l) (le_session_id e) = None)
     \<and> (\<forall>e. rl_maintenance l = Some e \<longrightarrow> lt_mode (le_token e) = Maintenance
          \<and> rl_control l = None \<and> rl_observes l = [])"

definition rl_wf :: "ResourceLeases \<Rightarrow> bool" where
  "rl_wf l \<longleftrightarrow> hm_wf (rl_pending l) \<and> rl_places l
     \<and> (\<forall>s. hm_contains (rl_pending l) s \<longrightarrow> active_entry l s = None)
     \<and> view_compatible (rl_view l) \<and> view_fenced (rl_last_generation l) (rl_view l)"

definition can_table_wf :: "CanLeaseTable \<Rightarrow> bool" where
  "can_table_wf t \<longleftrightarrow> hm_wf t \<and> (\<forall>r l. hm_get t r = Some l \<longrightarrow> rl_wf l)"

lemma modes_ok_sym: "modes_ok m m' = modes_ok m' m"
  by (auto simp: modes_ok_def)

lemma or_else_simps [simp]: "or_else None b = b" "or_else (Some x) b = Some x"
  "or_else a b = None \<longleftrightarrow> a = None \<and> b = None" "or_else a None = a"
  "or_else a b = Some x \<longleftrightarrow> a = Some x \<or> a = None \<and> b = Some x"
  by (auto simp: or_else_def split: option.splits)

lemma view_compatible_insert:
  assumes "view_compatible v" "\<And>s' y. v s' = Some y \<Longrightarrow> s' \<noteq> s \<Longrightarrow> modes_ok (slot_mode x) (slot_mode y)"
  shows "view_compatible (v(s \<mapsto> x))"
  using assms by (auto simp: view_compatible_def modes_ok_sym)

lemma view_compatible_remove: "view_compatible v \<Longrightarrow> view_compatible (v(s := None))"
  by (simp add: view_compatible_def)

lemma view_fenced_remove: "view_fenced g v \<Longrightarrow> view_fenced g (v(s := None))"
  unfolding view_fenced_def by (metis (no_types) fun_upd_apply option.distinct(1))

lemma view_fenced_pending: "view_fenced g v \<Longrightarrow> view_fenced g (v(s \<mapsto> Pending i ow m))"
  unfolding view_fenced_def by (auto split: if_splits)

lemma view_fenced_commit:
  assumes "view_fenced g v" "g \<noteq> - 1" "lt_generation tok = g + 1"
  shows "view_fenced (g + 1) (v(s \<mapsto> Held ow tok))"
proof -
  have g: "g < g + 1" by (rule word_less_add_one [OF assms(2)])
  then have "0 < g + 1" by (metis word_gt_0 word_not_simps(1))
  moreover have "0 < lt_generation tok' \<and> lt_generation tok' < g + 1" if "v s' = Some (Held ow' tok')" for s' ow' tok'
    using assms(1) that g unfolding view_fenced_def by (blast intro: le_less_trans)
  ultimately show ?thesis
    using assms(1,3) unfolding view_fenced_def by (fastforce split: if_splits intro: less_imp_le)
qed

lemma rl_wf_default [simp]: "rl_wf ResourceLeases_default"
  by (simp add: rl_wf_def rl_places_def ResourceLeases_default_def rl_view_def active_entry_def
      entry_of_session_def view_compatible_def view_fenced_def)

lemma rl_last_generation_default [simp]: "rl_last_generation ResourceLeases_default = 0"
  by (simp add: ResourceLeases_default_def)

lemma rl_view_default [simp]: "rl_view ResourceLeases_default = Map.empty"
  by (simp add: ResourceLeases_default_def rl_view_def active_entry_def entry_of_session_def fun_eq_iff)

lemma entry_of_session_simps [simp]:
  "entry_of_session s None = None"
  "entry_of_session s e = None \<longleftrightarrow> (\<forall>x. e = Some x \<longrightarrow> le_session_id x \<noteq> s)"
  "entry_of_session s e = Some x \<longleftrightarrow> e = Some x \<and> le_session_id x = s"
  by (auto simp: entry_of_session_def split: option.splits)

lemma entry_of_session_Some: "entry_of_session s (Some e) = (if le_session_id e = s then Some e else None)"
  by (simp add: entry_of_session_def)

lemma active_entry_None:
  "active_entry l s = None \<longleftrightarrow> hm_get (rl_observes l) s = None
     \<and> (\<forall>e. rl_control l = Some e \<longrightarrow> le_session_id e \<noteq> s)
     \<and> (\<forall>e. rl_maintenance l = Some e \<longrightarrow> le_session_id e \<noteq> s)"
  by (simp add: active_entry_def conj_assoc)

lemma rl_view_None: "rl_view l s = None \<longleftrightarrow> hm_get (rl_pending l) s = None \<and> active_entry l s = None"
  by (auto simp: rl_view_def split: option.splits)

lemma rl_view_Pending:
  "rl_view l s = Some (Pending i ow m) \<longleftrightarrow>
     hm_get (rl_pending l) s = Some \<lparr>pe_reservation_id = i, pe_owner_id = ow, pe_mode = m\<rparr>"
  by (auto simp: rl_view_def split: option.splits)

lemma rl_view_Held:
  "rl_view l s = Some (Held ow tok) \<longleftrightarrow> hm_get (rl_pending l) s = None
     \<and> (\<exists>e. active_entry l s = Some e \<and> le_owner_id e = ow \<and> le_token e = tok)"
  by (auto simp: rl_view_def split: option.splits)

lemma session_present_iff: "session_present l s \<longleftrightarrow> rl_view l s \<noteq> None"
  unfolding rl_view_None active_entry_None session_present_def by (auto split: option.splits)

lemma rl_is_empty_iff: "rl_is_empty l \<longleftrightarrow> (\<forall>s. rl_view l s = None)"
  unfolding rl_view_None active_entry_None rl_is_empty_def hm_eq_Nil_iff
  by (cases "rl_control l"; cases "rl_maintenance l") auto

lemma pending_any_iff:
  "hm_wf (rl_pending l) \<Longrightarrow> pending_any m l \<longleftrightarrow> (\<exists>s p. hm_get (rl_pending l) s = Some p \<and> pe_mode p = m)"
  unfolding pending_any_def list_ex_iff by (metis hm_values_iff)

lemma rl_wf_modes:
  assumes "rl_wf l"
  shows "hm_get (rl_observes l) s = Some e \<Longrightarrow> le_session_id e = s \<and> lt_mode (le_token e) = Observe"
    and "rl_control l = Some e \<Longrightarrow> lt_mode (le_token e) = Control"
    and "rl_maintenance l = Some e \<Longrightarrow> lt_mode (le_token e) = Maintenance"
  using assms by (simp_all add: rl_wf_def rl_places_def)

lemma rl_wf_pending_active: "rl_wf l \<Longrightarrow> active_entry l s = Some e \<Longrightarrow> hm_get (rl_pending l) s = None"
  by (cases "hm_get (rl_pending l) s") (auto simp: rl_wf_def)

lemma active_entry_places:
  assumes "rl_wf l"
  shows "active_entry l s = Some e \<longleftrightarrow> le_session_id e = s
    \<and> (hm_get (rl_observes l) s = Some e \<or> rl_control l = Some e \<or> rl_maintenance l = Some e)"
proof -
  have p: "rl_places l" using assms by (simp add: rl_wf_def)
  show ?thesis
  proof (cases "hm_get (rl_observes l) s")
    case None
    with p show ?thesis
      by (cases "rl_maintenance l") (auto simp: active_entry_def rl_places_def)
  next
    case (Some x)
    with p have "rl_maintenance l = None" "rl_control l = Some e \<Longrightarrow> le_session_id e \<noteq> s" "le_session_id x = s"
      by (cases "rl_maintenance l"; force simp: rl_places_def)+
    with Some show ?thesis by (auto simp: active_entry_def)
  qed
qed

lemma rl_view_Held_places:
  assumes "rl_wf l"
  shows "rl_view l s = Some (Held ow tok) \<longleftrightarrow>
    (let e = \<lparr>le_session_id = s, le_owner_id = ow, le_token = tok\<rparr> in
     hm_get (rl_observes l) s = Some e \<or> rl_control l = Some e \<or> rl_maintenance l = Some e)"
proof -
  have "rl_view l s = Some (Held ow tok) \<longleftrightarrow>
      active_entry l s = Some \<lparr>le_session_id = s, le_owner_id = ow, le_token = tok\<rparr>"
  proof
    assume "rl_view l s = Some (Held ow tok)"
    then obtain e where "active_entry l s = Some e" "le_owner_id e = ow" "le_token e = tok"
      by (auto simp: rl_view_Held)
    moreover from this have "le_session_id e = s" by (simp add: active_entry_places [OF assms])
    ultimately show "active_entry l s = Some \<lparr>le_session_id = s, le_owner_id = ow, le_token = tok\<rparr>"
      by (cases e) simp
  next
    assume "active_entry l s = Some \<lparr>le_session_id = s, le_owner_id = ow, le_token = tok\<rparr>"
    with rl_wf_pending_active [OF assms] show "rl_view l s = Some (Held ow tok)"
      by (simp add: rl_view_Held)
  qed
  then show ?thesis by (simp add: active_entry_places [OF assms] Let_def)
qed

lemma control_view:
  "rl_wf l \<Longrightarrow> rl_control l = Some e \<Longrightarrow> rl_view l (le_session_id e) = Some (Held (le_owner_id e) (le_token e))"
  by (cases e) (simp add: rl_view_Held_places Let_def)

lemma maintenance_view:
  "rl_wf l \<Longrightarrow> rl_maintenance l = Some e \<Longrightarrow> rl_view l (le_session_id e) = Some (Held (le_owner_id e) (le_token e))"
  by (cases e) (simp add: rl_view_Held_places Let_def)

lemma held_modes:
  assumes "rl_wf l"
  shows "rl_view l s = Some (Held ow tok) \<and> lt_mode tok = Observe
      \<longleftrightarrow> hm_get (rl_observes l) s = Some \<lparr>le_session_id = s, le_owner_id = ow, le_token = tok\<rparr>"
    and "rl_view l s = Some (Held ow tok) \<and> lt_mode tok = Control
      \<longleftrightarrow> rl_control l = Some \<lparr>le_session_id = s, le_owner_id = ow, le_token = tok\<rparr>"
    and "rl_view l s = Some (Held ow tok) \<and> lt_mode tok = Maintenance
      \<longleftrightarrow> rl_maintenance l = Some \<lparr>le_session_id = s, le_owner_id = ow, le_token = tok\<rparr>"
  using rl_wf_modes(1) [OF assms, of s "\<lparr>le_session_id = s, le_owner_id = ow, le_token = tok\<rparr>"]
    rl_wf_modes(2,3) [OF assms, of "\<lparr>le_session_id = s, le_owner_id = ow, le_token = tok\<rparr>"]
  by (auto simp: rl_view_Held_places [OF assms] Let_def)

lemma LeaseEntry_ex: "e \<noteq> None \<longleftrightarrow> (\<exists>s ow tok. e = Some \<lparr>le_session_id = s, le_owner_id = ow, le_token = tok\<rparr>)"
  by (metis LeaseEntry.surjective old.unit.exhaust option.distinct(1) option.exhaust)

lemma pending_any_view:
  assumes "rl_wf l"
  shows "pending_any m l \<longleftrightarrow> (\<exists>s i ow. rl_view l s = Some (Pending i ow m))"
proof -
  have wf: "hm_wf (rl_pending l)" using assms by (simp add: rl_wf_def)
  show ?thesis
    unfolding pending_any_iff [OF wf] rl_view_Pending
    by (metis PendingEntry.select_convs(3) PendingEntry.surjective old.unit.exhaust)
qed

lemma mode_in_view:
  assumes "rl_wf l"
  shows "(\<exists>s x. rl_view l s = Some x \<and> slot_mode x = Maintenance)
      \<longleftrightarrow> rl_maintenance l \<noteq> None \<or> pending_any Maintenance l"
    and "(\<exists>s x. rl_view l s = Some x \<and> slot_mode x = Control)
      \<longleftrightarrow> rl_control l \<noteq> None \<or> pending_any Control l"
proof -
  have "(\<exists>s x. rl_view l s = Some x \<and> slot_mode x = m) \<longleftrightarrow>
      (\<exists>s ow tok. rl_view l s = Some (Held ow tok) \<and> lt_mode tok = m) \<or> pending_any m l" for m
    unfolding pending_any_view [OF assms] by (metis CanSlot.exhaust slot_mode.simps)
  then show "(\<exists>s x. rl_view l s = Some x \<and> slot_mode x = Maintenance)
      \<longleftrightarrow> rl_maintenance l \<noteq> None \<or> pending_any Maintenance l"
    "(\<exists>s x. rl_view l s = Some x \<and> slot_mode x = Control)
      \<longleftrightarrow> rl_control l \<noteq> None \<or> pending_any Control l"
    by (simp_all only: LeaseEntry_ex held_modes(2,3) [OF assms])
qed

text \<open>The admission test of \<open>reserve\<close> is exactly the sharing rule against every other lease.\<close>

lemma incompatible_iff:
  assumes "rl_wf l"
  shows "incompatible m l \<longleftrightarrow> (\<exists>s x. rl_view l s = Some x \<and> \<not> modes_ok m (slot_mode x))"
proof (cases m)
  case Maintenance
  then show ?thesis
    by (auto simp: incompatible_def has_any_lease_def rl_is_empty_iff modes_ok_def)
next
  case Control
  then show ?thesis
    using mode_in_view [OF assms] by (simp add: incompatible_def modes_ok_def) blast
next
  case Observe
  then show ?thesis
    using mode_in_view(1) [OF assms] by (simp add: incompatible_def modes_ok_def)
qed

section \<open>Every operation refines an update of the view\<close>

lemma rl_view_pending_insert:
  "rl_view (l\<lparr>rl_pending := hm_insert s p (rl_pending l)\<rparr>)
     = (rl_view l)(s \<mapsto> Pending (pe_reservation_id p) (pe_owner_id p) (pe_mode p))"
  by (simp add: rl_view_def active_entry_def fun_eq_iff split: option.split)

lemma active_entry_pending [simp]:
  "active_entry (l\<lparr>rl_pending := m\<rparr>) = active_entry l"
  "active_entry (l\<lparr>rl_last_generation := g\<rparr>) = active_entry l"
  by (simp_all add: active_entry_def fun_eq_iff)

lemma rl_places_pending [simp]:
  "rl_places (l\<lparr>rl_pending := m\<rparr>) = rl_places l"
  "rl_places (l\<lparr>rl_last_generation := g\<rparr>) = rl_places l"
  by (simp_all add: rl_places_def)

lemma rl_view_generation [simp]: "rl_view (l\<lparr>rl_last_generation := g\<rparr>) = rl_view l"
  by (simp add: rl_view_def fun_eq_iff split: option.split)

lemma rl_view_pending_remove:
  assumes "rl_wf l" "hm_get (rl_pending l) s \<noteq> None"
  shows "rl_view (l\<lparr>rl_pending := hm_remove s (rl_pending l)\<rparr>) = (rl_view l)(s := None)"
proof -
  from assms have "active_entry l s = None" by (auto simp: rl_wf_def)
  then show ?thesis by (simp add: rl_view_def fun_eq_iff split: option.split)
qed

lemma rl_wf_reserve:
  assumes "rl_wf l" "\<not> session_present l s" "\<not> incompatible m l"
  shows "rl_wf (l\<lparr>rl_pending := hm_insert s \<lparr>pe_reservation_id = i, pe_owner_id = ow, pe_mode = m\<rparr> (rl_pending l)\<rparr>)"
proof -
  let ?v = "(rl_view l)(s \<mapsto> Pending i ow m)"
  have "view_compatible ?v"
    using assms by (intro view_compatible_insert) (auto simp: incompatible_iff rl_wf_def)
  moreover have "view_fenced (rl_last_generation l) ?v"
    using assms(1) by (intro view_fenced_pending) (simp add: rl_wf_def)
  moreover have "active_entry l s = None"
    using assms(2) by (simp add: session_present_iff rl_view_None)
  ultimately show ?thesis
    using assms(1) unfolding rl_wf_def rl_view_pending_insert by simp
qed

lemma rl_wf_unpend:
  assumes "rl_wf l" "hm_get (rl_pending l) s \<noteq> None"
  shows "rl_wf (l\<lparr>rl_pending := hm_remove s (rl_pending l)\<rparr>)"
proof -
  have "view_compatible ((rl_view l)(s := None))" "view_fenced (rl_last_generation l) ((rl_view l)(s := None))"
    using assms(1) by (auto simp: rl_wf_def intro: view_compatible_remove view_fenced_remove)
  with assms show ?thesis
    unfolding rl_wf_def rl_view_pending_remove [OF assms] by simp
qed

text \<open>Where a committed lease is stored, and the view afterwards.\<close>

definition store_entry :: "LeaseEntry \<Rightarrow> ResourceLeases \<Rightarrow> ResourceLeases" where
  "store_entry e l = (case lt_mode (le_token e) of
       Observe \<Rightarrow> l\<lparr>rl_observes := hm_insert (le_session_id e) e (rl_observes l)\<rparr>
     | Control \<Rightarrow> l\<lparr>rl_control := Some e\<rparr>
     | Maintenance \<Rightarrow> l\<lparr>rl_maintenance := Some e\<rparr>)"

lemma store_entry_active:
  assumes "rl_wf l" "rl_view l (le_session_id e) = None" "\<not> incompatible (lt_mode (le_token e)) l"
  shows "active_entry (store_entry e l) = (active_entry l)(le_session_id e \<mapsto> e)"
proof (rule ext)
  fix s
  have free: "active_entry l (le_session_id e) = None"
    using assms(2) by (simp add: rl_view_None)
  show "active_entry (store_entry e l) s = ((active_entry l)(le_session_id e \<mapsto> e)) s"
  proof (cases "lt_mode (le_token e)")
    case Observe
    then show ?thesis by (simp add: store_entry_def active_entry_def)
  next
    case Control
    with assms(3) have "rl_control l = None" "rl_maintenance l = None"
      by (auto simp: incompatible_def)
    with Control free show ?thesis
      by (cases "le_session_id e = s") (auto simp: store_entry_def active_entry_def entry_of_session_Some)
  next
    case Maintenance
    with assms(3) have "rl_is_empty l" by (auto simp: incompatible_def has_any_lease_def)
    with Maintenance show ?thesis
      by (simp add: store_entry_def active_entry_def entry_of_session_Some rl_is_empty_def)
  qed
qed

lemma store_entry_fields [simp]:
  "rl_pending (store_entry e l) = rl_pending l"
  "rl_last_generation (store_entry e l) = rl_last_generation l"
  by (simp_all add: store_entry_def split: LeaseMode.split)

lemma store_entry_view:
  assumes "rl_wf l" "rl_view l (le_session_id e) = None" "\<not> incompatible (lt_mode (le_token e)) l"
  shows "rl_view (store_entry e l) = (rl_view l)(le_session_id e \<mapsto> Held (le_owner_id e) (le_token e))"
  using assms(2) store_entry_active [OF assms]
  by (simp add: rl_view_None) (simp add: rl_view_def fun_eq_iff split: option.split)

lemma store_entry_generation: "store_entry e (l\<lparr>rl_last_generation := g\<rparr>) = (store_entry e l)\<lparr>rl_last_generation := g\<rparr>"
  by (simp add: store_entry_def split: LeaseMode.split)

lemma rl_places_store:
  assumes "rl_places l" "active_entry l (le_session_id e) = None" "\<not> incompatible (lt_mode (le_token e)) l"
  shows "rl_places (store_entry e l)"
proof (cases "lt_mode (le_token e)")
  case Observe
  with assms(3) have "rl_maintenance l = None" by (auto simp: incompatible_def)
  with Observe assms(1,2) show ?thesis
    by (auto simp: store_entry_def rl_places_def active_entry_None)
next
  case Control
  with assms(3) have "rl_control l = None" "rl_maintenance l = None" by (auto simp: incompatible_def)
  with Control assms(1,2) show ?thesis
    by (simp add: store_entry_def rl_places_def active_entry_None)
next
  case Maintenance
  with assms(3) have "rl_is_empty l" by (auto simp: incompatible_def has_any_lease_def)
  with Maintenance assms(1,2) show ?thesis
    by (simp add: store_entry_def rl_places_def rl_is_empty_def)
qed

lemma rl_wf_commit:
  assumes wf: "rl_wf l" and pend: "hm_get (rl_pending l) s = Some p"
    and e: "le_session_id e = s" "lt_mode (le_token e) = pe_mode p" "lt_generation (le_token e) = rl_last_generation l + 1"
    and room: "rl_last_generation l \<noteq> - 1"
    and l': "l' = store_entry e (l\<lparr>rl_pending := hm_remove s (rl_pending l), rl_last_generation := rl_last_generation l + 1\<rparr>)"
  shows "rl_wf l' \<and> rl_view l' = (rl_view l)(s \<mapsto> Held (le_owner_id e) (le_token e))"
proof -
  let ?u = "l\<lparr>rl_pending := hm_remove s (rl_pending l)\<rparr>"
  have u: "rl_wf ?u" "rl_view ?u = (rl_view l)(s := None)"
    using wf pend by (simp_all add: rl_wf_unpend rl_view_pending_remove)
  have vp: "rl_view l s = Some (Pending (pe_reservation_id p) (pe_owner_id p) (pe_mode p))"
    using pend by (simp add: rl_view_def)
  have ok: "modes_ok (pe_mode p) (slot_mode x)" if "rl_view l s' = Some x" "s' \<noteq> s" for s' x
    using wf vp that unfolding rl_wf_def view_compatible_def by (metis slot_mode.simps(1))
  have comp: "\<not> incompatible (lt_mode (le_token e)) ?u"
    unfolding incompatible_iff [OF u(1)] u(2) e(2) using ok by auto
  have free: "rl_view ?u (le_session_id e) = None" by (simp add: u(2) e(1))
  have eq: "l' = (store_entry e ?u)\<lparr>rl_last_generation := rl_last_generation l + 1\<rparr>"
    by (simp add: l' store_entry_generation [symmetric])
  have view: "rl_view l' = (rl_view l)(s \<mapsto> Held (le_owner_id e) (le_token e))"
    by (simp add: eq store_entry_view [OF u(1) free comp] u(2) e(1))
  have act: "active_entry l' = (active_entry l)(s \<mapsto> e)"
    by (simp add: eq store_entry_active [OF u(1) free comp] e(1))
  have "view_compatible (rl_view l')" "view_fenced (rl_last_generation l + 1) (rl_view l')"
    unfolding view using wf ok e room
    by (auto simp: rl_wf_def intro!: view_compatible_insert view_fenced_commit)
  moreover have "rl_places l'"
    using rl_places_store [OF _ _ comp] u(1) free by (simp add: eq rl_wf_def rl_view_None)
  moreover have pl: "rl_pending l' = hm_remove s (rl_pending l)" "rl_last_generation l' = rl_last_generation l + 1"
    by (simp_all add: eq)
  moreover have "active_entry l' s' = None" if "hm_contains (rl_pending l') s'" for s'
    using wf that by (cases "s' = s") (simp_all add: act pl rl_wf_def)
  ultimately show ?thesis using view wf by (simp add: rl_wf_def)
qed

text \<open>Releasing a committed lease removes its session from the view.\<close>

lemma rl_wf_remove:
  assumes wf: "rl_wf l" and pend: "rl_pending l' = rl_pending l" and gen: "rl_last_generation l' = rl_last_generation l"
    and act: "active_entry l' = (active_entry l)(s := None)" and places: "rl_places l'"
    and held: "active_entry l s \<noteq> None"
  shows "rl_wf l' \<and> rl_view l' = (rl_view l)(s := None)"
proof -
  have "hm_get (rl_pending l) s = None" using wf held by (auto dest: rl_wf_pending_active)
  then have view: "rl_view l' = (rl_view l)(s := None)"
    by (simp add: rl_view_def pend act fun_eq_iff split: option.split)
  have "view_compatible (rl_view l')" "view_fenced (rl_last_generation l') (rl_view l')"
    unfolding view using wf by (simp_all add: rl_wf_def gen view_compatible_remove view_fenced_remove)
  with view places wf show ?thesis by (simp add: rl_wf_def pend act)
qed

lemma rl_wf_release_observe:
  assumes wf: "rl_wf l" and h: "hm_get (rl_observes l) s = Some e"
    and l': "l' = l\<lparr>rl_observes := hm_remove s (rl_observes l)\<rparr>"
  shows "rl_wf l' \<and> rl_view l' = (rl_view l)(s := None)"
proof (rule rl_wf_remove [OF wf])
  have p: "rl_places l" using wf by (simp add: rl_wf_def)
  then have m: "rl_maintenance l = None"
    using h by (cases "rl_maintenance l") (simp_all add: rl_places_def)
  have c: "entry_of_session s (rl_control l) = None"
    using p h by (cases "rl_control l") (auto simp: rl_places_def entry_of_session_Some)
  show "active_entry l' = (active_entry l)(s := None)"
    by (rule ext) (simp add: active_entry_def l' m c del: entry_of_session_simps(2))
  show "rl_places l'" using p m by (simp add: rl_places_def l')
  show "active_entry l s \<noteq> None" using h by (simp add: active_entry_def)
qed (simp_all add: l')

lemma rl_wf_release_control:
  assumes wf: "rl_wf l" and h: "rl_control l = Some e" "le_session_id e = s" and l': "l' = l\<lparr>rl_control := None\<rparr>"
  shows "rl_wf l' \<and> rl_view l' = (rl_view l)(s := None)"
proof (rule rl_wf_remove [OF wf])
  have p: "rl_places l" using wf by (simp add: rl_wf_def)
  then have m: "rl_maintenance l = None"
    using h by (cases "rl_maintenance l") (simp_all add: rl_places_def)
  have ob: "hm_get (rl_observes l) s = None" using p h by (auto simp: rl_places_def)
  show "active_entry l' = (active_entry l)(s := None)"
    by (rule ext) (simp add: active_entry_def l' m h ob entry_of_session_Some)
  show "rl_places l'" using p m by (simp add: rl_places_def l')
  show "active_entry l s \<noteq> None" using h by (simp add: active_entry_None)
qed (simp_all add: l')

lemma rl_wf_release_maintenance:
  assumes wf: "rl_wf l" and h: "rl_maintenance l = Some e" "le_session_id e = s" and l': "l' = l\<lparr>rl_maintenance := None\<rparr>"
  shows "rl_wf l' \<and> rl_view l' = (rl_view l)(s := None)"
proof (rule rl_wf_remove [OF wf])
  have p: "rl_places l" using wf by (simp add: rl_wf_def)
  then have none: "rl_control l = None" "rl_observes l = []" using h by (simp_all add: rl_places_def)
  show "active_entry l' = (active_entry l)(s := None)"
    by (rule ext) (simp add: active_entry_def l' none h entry_of_session_Some)
  show "rl_places l'" using p by (simp add: rl_places_def l')
  show "active_entry l s \<noteq> None" using h by (simp add: active_entry_None)
qed (simp_all add: l')

section \<open>The contract of shared leases\<close>

definition can_view :: "CanLeaseTable \<Rightarrow> ResourceId \<Rightarrow> SessionId \<rightharpoonup> CanSlot" where
  "can_view t r = (case hm_get t r of None \<Rightarrow> Map.empty | Some l \<Rightarrow> rl_view l)"

definition can_generation :: "CanLeaseTable \<Rightarrow> ResourceId \<Rightarrow> u64" where
  "can_generation t r = (case hm_get t r of None \<Rightarrow> 0 | Some l \<Rightarrow> rl_last_generation l)"

definition admissible :: "LeaseMode \<Rightarrow> SessionId \<Rightarrow> (SessionId \<rightharpoonup> CanSlot) \<Rightarrow> bool" where
  "admissible m s v \<longleftrightarrow> v s = None \<and> (\<forall>s' x. v s' = Some x \<longrightarrow> modes_ok m (slot_mode x))"

definition reservation_slot :: "CanReservation \<Rightarrow> CanSlot" where
  "reservation_slot res = Pending (cr_reservation_id res) (cr_owner_id res) (cr_mode res)"

locale shared_lease_provider =
  fixes inv :: "'t \<Rightarrow> bool"
    and view :: "'t \<Rightarrow> ResourceId \<Rightarrow> SessionId \<rightharpoonup> CanSlot"
    and gen :: "'t \<Rightarrow> ResourceId \<Rightarrow> u64"
    and acquire :: "'t \<Rightarrow> LeaseId \<Rightarrow> ResourceId \<Rightarrow> SessionId \<Rightarrow> OwnerId \<Rightarrow> LeaseMode \<Rightarrow> CanReservation hal_result \<times> 't"
    and confirm :: "'t \<Rightarrow> LeaseId \<Rightarrow> CanReservation \<Rightarrow> LeaseToken hal_result \<times> 't"
    and abandon :: "'t \<Rightarrow> CanReservation \<Rightarrow> bool \<times> 't"
    and giveup :: "'t \<Rightarrow> ResourceId \<Rightarrow> SessionId \<Rightarrow> LeaseToken \<Rightarrow> bool \<times> 't"
    and accepts :: "'t \<Rightarrow> ResourceId \<Rightarrow> SessionId \<Rightarrow> OwnerId \<Rightarrow> LeaseToken \<Rightarrow> LeaseMode \<Rightarrow> string \<Rightarrow> unit hal_result"
  assumes compatible: "inv t \<Longrightarrow> view_compatible (view t r)"
    and fenced: "inv t \<Longrightarrow> view_fenced (gen t r) (view t r)"
    and acquire_law: "inv t \<Longrightarrow> acquire t i r s ow m = (res, t') \<Longrightarrow> inv t' \<and> gen t' = gen t
      \<and> (if admissible m s (view t r)
         then res = Ok \<lparr>cr_resource_id = r, cr_session_id = s, cr_owner_id = ow, cr_reservation_id = i, cr_mode = m\<rparr>
           \<and> view t' = (view t)(r := (view t r)(s \<mapsto> Pending i ow m))
         else \<not> is_ok res \<and> view t' = view t)"
    and confirm_law: "inv t \<Longrightarrow> confirm t i rv = (tres, t') \<Longrightarrow>
      r = cr_resource_id rv \<Longrightarrow> s = cr_session_id rv \<Longrightarrow> inv t'
      \<and> (if view t r s = Some (reservation_slot rv) \<and> gen t r \<noteq> - 1
         then let tok = LeaseToken_new i (gen t r + 1) (cr_mode rv) in
           tres = Ok tok \<and> gen t' = (gen t)(r := gen t r + 1)
           \<and> view t' = (view t)(r := (view t r)(s \<mapsto> Held (cr_owner_id rv) tok))
         else \<not> is_ok tres \<and> gen t' = gen t \<and> (view t' = view t \<or>
           view t r s = Some (reservation_slot rv) \<and> view t' = (view t)(r := (view t r)(s := None))))"
    and abandon_law: "inv t \<Longrightarrow> abandon t rv = (b, t') \<Longrightarrow>
      r = cr_resource_id rv \<Longrightarrow> s = cr_session_id rv \<Longrightarrow> inv t' \<and> gen t' = gen t
      \<and> (b \<longleftrightarrow> view t r s = Some (reservation_slot rv))
      \<and> view t' = (if b then (view t)(r := (view t r)(s := None)) else view t)"
    and giveup_law: "inv t \<Longrightarrow> giveup t r s tok = (b, t') \<Longrightarrow> inv t' \<and> gen t' = gen t
      \<and> (b \<longleftrightarrow> (\<exists>ow. view t r s = Some (Held ow tok)))
      \<and> view t' = (if b then (view t)(r := (view t r)(s := None)) else view t)"
    and accepts_law: "inv t \<Longrightarrow> accepts t r s ow tok m operation = Ok u
      \<longleftrightarrow> view t r s = Some (Held ow tok) \<and> mode_allows (lt_mode tok) m"
begin

text \<open>Of two sessions accepted for one resource, at most one may do more than observe.\<close>

lemma accepted_control_unique:
  assumes "inv t" "accepts t r s ow tok m operation = Ok u" "accepts t r s' ow' tok' m' operation' = Ok u'"
    and "m \<noteq> Observe" "m' \<noteq> Observe"
  shows "s' = s \<and> ow' = ow \<and> tok' = tok"
proof -
  have v: "view t r s = Some (Held ow tok)" "view t r s' = Some (Held ow' tok')"
    and "mode_allows (lt_mode tok) m" "mode_allows (lt_mode tok') m'"
    using assms(1-3) by (simp_all add: accepts_law)
  then have "\<not> modes_ok (lt_mode tok) (lt_mode tok')"
    using assms(4,5) by (cases "lt_mode tok"; cases "lt_mode tok'") (auto simp: modes_ok_def)
  then have "s' = s"
    using compatible [OF assms(1), of r] v unfolding view_compatible_def by fastforce
  with v show ?thesis by simp
qed

lemma accepted_maintenance_alone:
  assumes "inv t" "accepts t r s ow tok Maintenance operation = Ok u" "view t r s' \<noteq> None"
  shows "s' = s"
proof -
  from assms(3) obtain x where x: "view t r s' = Some x" by auto
  have v: "view t r s = Some (Held ow tok)" "lt_mode tok = Maintenance"
    using assms(1,2) by (auto simp: accepts_law elim: mode_allows.elims)
  with compatible [OF assms(1), of r] x show ?thesis
    unfolding view_compatible_def modes_ok_def by fastforce
qed

text \<open>
  A generation is retired when no session holds it and it is not above the last one issued;
  it is never issued again, because confirmation always takes the next generation.
\<close>

definition retired :: "'t \<Rightarrow> ResourceId \<Rightarrow> u64 \<Rightarrow> bool" where
  "retired t r g \<longleftrightarrow> 0 < g \<and> g \<le> gen t r \<and> (\<forall>s ow tok. view t r s = Some (Held ow tok) \<longrightarrow> lt_generation tok \<noteq> g)"

lemma retired_smaller_view:
  "retired t r g \<Longrightarrow> gen t r \<le> gen t' r \<Longrightarrow> (\<And>s ow tok. view t' r s = Some (Held ow tok) \<Longrightarrow> view t r s = Some (Held ow tok))
    \<Longrightarrow> retired t' r g"
  unfolding retired_def by (auto intro: order_trans) blast

lemma retired_acquire: "inv t \<Longrightarrow> acquire t i r' s ow m = (res, t') \<Longrightarrow> retired t r g \<Longrightarrow> retired t' r g"
  using acquire_law [of t i r' s ow m res t']
  by (elim retired_smaller_view) (auto split: if_splits)

lemma retired_abandon: "inv t \<Longrightarrow> abandon t rv = (b, t') \<Longrightarrow> retired t r g \<Longrightarrow> retired t' r g"
  using abandon_law [of t rv b t' "cr_resource_id rv" "cr_session_id rv"]
  by (elim retired_smaller_view) (auto split: if_splits)

lemma retired_giveup: "inv t \<Longrightarrow> giveup t r' s tok = (b, t') \<Longrightarrow> retired t r g \<Longrightarrow> retired t' r g"
  using giveup_law [of t r' s tok b t']
  by (elim retired_smaller_view) (auto split: if_splits)

lemma retired_confirm:
  assumes "inv t" "confirm t i rv = (res, t')" "retired t r g"
  shows "retired t' r g"
proof -
  let ?r = "cr_resource_id rv" and ?s = "cr_session_id rv"
  note law = confirm_law [OF assms(1,2) refl refl]
  show ?thesis
  proof (cases "view t ?r ?s = Some (reservation_slot rv) \<and> gen t ?r \<noteq> - 1")
    case True
    then have lt: "gen t ?r < gen t ?r + 1" by (simp add: word_less_add_one)
    have "g \<noteq> gen t r + 1" if "r = ?r"
      using assms(3) lt that unfolding retired_def by auto
    with True law lt assms(3) show ?thesis
      unfolding retired_def Let_def by (auto simp: LeaseToken_new_def split: if_splits intro: order_trans less_imp_le)
  next
    case False
    then have "gen t' = gen t" "view t' = view t \<or> view t' = (view t)(?r := (view t ?r)(?s := None))"
      using law by auto
    then show ?thesis
      by (intro retired_smaller_view [OF assms(3)]) (auto split: if_splits)
  qed
qed

lemma retired_after_giveup:
  assumes "inv t" "view t r s = Some (Held ow tok)" "giveup t r s tok = (b, t')"
  shows "inv t' \<and> retired t' r (lt_generation tok)"
proof -
  from giveup_law [OF assms(1,3)] assms(2)
  have t': "inv t'" "gen t' = gen t" "view t' = (view t)(r := (view t r)(s := None))" by auto
  with fenced [OF assms(1), of r] assms(2) show ?thesis
    unfolding retired_def view_fenced_def by (auto split: if_splits)
qed

lemma retired_rejected: "inv t \<Longrightarrow> retired t r (lt_generation tok) \<Longrightarrow> accepts t r s ow tok m operation \<noteq> Ok u"
  by (auto simp: accepts_law retired_def)

end

section \<open>The CAN table keeps the contract\<close>

lemma can_table_wf_get: "can_table_wf t \<Longrightarrow> hm_get t r = Some l \<Longrightarrow> rl_wf l"
  by (auto simp: can_table_wf_def)

lemma can_table_wf_insert: "can_table_wf t \<Longrightarrow> rl_wf l \<Longrightarrow> can_table_wf (hm_insert r l t)"
  by (auto simp: can_table_wf_def)

lemma can_view_insert: "can_view (hm_insert r l t) = (can_view t)(r := rl_view l)"
  by (simp add: can_view_def fun_eq_iff)

lemma can_generation_insert: "can_generation (hm_insert r l t) = (can_generation t)(r := rl_last_generation l)"
  by (simp add: can_generation_def fun_eq_iff)

lemma can_view_Some: "hm_get t r = Some l \<Longrightarrow> can_view t r = rl_view l"
  by (simp add: can_view_def)

lemma can_generation_Some: "hm_get t r = Some l \<Longrightarrow> can_generation t r = rl_last_generation l"
  by (simp add: can_generation_def)

lemma reservation_slot_view:
  "rl_view l s = Some (reservation_slot rv) \<longleftrightarrow> (\<exists>p. hm_get (rl_pending l) s = Some p \<and> pending_matches p rv)"
  unfolding reservation_slot_def rl_view_Pending pending_matches_def
  by (auto intro: PendingEntry.equality)

lemma can_reserve_law:
  assumes wf: "can_table_wf t" and run: "can_reserve t i r s ow m = (res, t')"
  shows "can_table_wf t' \<and> can_generation t' = can_generation t
      \<and> (if admissible m s (can_view t r)
         then res = Ok \<lparr>cr_resource_id = r, cr_session_id = s, cr_owner_id = ow, cr_reservation_id = i, cr_mode = m\<rparr>
           \<and> can_view t' = (can_view t)(r := (can_view t r)(s \<mapsto> Pending i ow m))
         else \<not> is_ok res \<and> can_view t' = can_view t)"
proof -
  define l where "l = (case hm_get t r of None \<Rightarrow> ResourceLeases_default | Some l \<Rightarrow> l)"
  have l: "rl_wf l" "can_view t r = rl_view l" "can_generation t r = rl_last_generation l"
    using wf by (auto simp: l_def can_view_def can_generation_def can_table_wf_def split: option.split)
  have adm: "admissible m s (can_view t r) \<longleftrightarrow> \<not> session_present l s \<and> \<not> incompatible m l"
    using incompatible_iff [OF l(1), of m] by (auto simp: admissible_def l(2) session_present_iff)
  show ?thesis
  proof (cases "admissible m s (can_view t r)")
    case True
    then have ok: "\<not> session_present l s" "\<not> incompatible m l" using adm by auto
    with run have t': "t' = hm_insert r (l\<lparr>rl_pending := hm_insert s
        \<lparr>pe_reservation_id = i, pe_owner_id = ow, pe_mode = m\<rparr> (rl_pending l)\<rparr>) t"
      and res: "res = Ok \<lparr>cr_resource_id = r, cr_session_id = s, cr_owner_id = ow, cr_reservation_id = i, cr_mode = m\<rparr>"
      by (auto simp: can_reserve_def Let_def l_def [symmetric])
    show ?thesis
      using True res can_table_wf_insert [OF wf rl_wf_reserve [OF l(1) ok]] l
      by (simp add: t' can_view_insert can_generation_insert rl_view_pending_insert fun_upd_idem)
  next
    case False
    with adm run have t': "t' = hm_insert r l t" and "\<not> is_ok res"
      by (auto simp: can_reserve_def Let_def l_def [symmetric] split: if_splits)
    with False show ?thesis
      using can_table_wf_insert [OF wf l(1)] l
      by (simp add: can_view_insert can_generation_insert fun_upd_idem)
  qed
qed

lemma can_commit_law:
  assumes wf: "can_table_wf t" and run: "can_commit t i rv = (res, t')"
    and rs: "r = cr_resource_id rv" "s = cr_session_id rv"
  shows "can_table_wf t'
      \<and> (if can_view t r s = Some (reservation_slot rv) \<and> can_generation t r \<noteq> - 1
         then let tok = LeaseToken_new i (can_generation t r + 1) (cr_mode rv) in
           res = Ok tok \<and> can_generation t' = (can_generation t)(r := can_generation t r + 1)
           \<and> can_view t' = (can_view t)(r := (can_view t r)(s \<mapsto> Held (cr_owner_id rv) tok))
         else \<not> is_ok res \<and> can_generation t' = can_generation t \<and> (can_view t' = can_view t \<or>
           can_view t r s = Some (reservation_slot rv) \<and> can_view t' = (can_view t)(r := (can_view t r)(s := None))))"
proof (cases "can_view t r s = Some (reservation_slot rv)")
  case False
  with run wf show ?thesis
    by (auto simp: can_commit_def Let_def rs can_view_def reservation_slot_view split: option.splits)
next
  case True
  then obtain l where l: "hm_get t r = Some l" by (auto simp: can_view_def split: option.splits)
  note lw = can_table_wf_get [OF wf l] and lv = can_view_Some [OF l] and lg = can_generation_Some [OF l]
  from True obtain p where p: "hm_get (rl_pending l) s = Some p" "pending_matches p rv"
    by (auto simp: lv reservation_slot_view)
  let ?u = "l\<lparr>rl_pending := hm_remove s (rl_pending l)\<rparr>"
  show ?thesis
  proof (cases "rl_last_generation l = - 1")
    case exhausted: True
    then have "checked_add (rl_last_generation l) 1 = None"
      using checked_add_one_Some [of "rl_last_generation l"] by (cases "checked_add (rl_last_generation l) 1") auto
    with run l p have "\<not> is_ok res" "t' = hm_insert r ?u t"
      by (auto simp: can_commit_def Let_def rs)
    with exhausted True show ?thesis
      using can_table_wf_insert [OF wf rl_wf_unpend [OF lw]] p
      by (simp add: can_view_insert can_generation_insert lv lg fun_upd_idem rl_view_pending_remove [OF lw])
  next
    case room: False
    let ?tok = "LeaseToken_new i (rl_last_generation l + 1) (cr_mode rv)"
    let ?e = "\<lparr>le_session_id = s, le_owner_id = cr_owner_id rv, le_token = ?tok\<rparr>"
    let ?l = "store_entry ?e (l\<lparr>rl_pending := hm_remove s (rl_pending l), rl_last_generation := rl_last_generation l + 1\<rparr>)"
    have "checked_add (rl_last_generation l) 1 = Some (rl_last_generation l + 1)"
      using room by (simp add: checked_add_one_Some)
    with run l p have t': "res = Ok ?tok" "t' = hm_insert r ?l t"
      by (cases "cr_mode rv"; force simp: can_commit_def Let_def rs store_entry_def LeaseToken_new_def)+
    have "rl_wf ?l \<and> rl_view ?l = (rl_view l)(s \<mapsto> Held (le_owner_id ?e) (le_token ?e))"
      using p by (intro rl_wf_commit [OF lw p(1) _ _ _ room refl]) (simp_all add: LeaseToken_new_def pending_matches_def)
    with True room t' show ?thesis
      using can_table_wf_insert [OF wf] by (simp add: can_view_insert can_generation_insert lv lg Let_def fun_upd_idem)
  qed
qed

lemma can_cancel_law:
  assumes wf: "can_table_wf t" and run: "can_cancel t rv = (b, t')"
    and rs: "r = cr_resource_id rv" "s = cr_session_id rv"
  shows "can_table_wf t' \<and> can_generation t' = can_generation t
      \<and> (b \<longleftrightarrow> can_view t r s = Some (reservation_slot rv))
      \<and> can_view t' = (if b then (can_view t)(r := (can_view t r)(s := None)) else can_view t)"
proof (cases "can_view t r s = Some (reservation_slot rv)")
  case False
  with run wf show ?thesis
    by (auto simp: can_cancel_def Let_def rs can_view_def reservation_slot_view split: option.splits if_splits)
next
  case True
  then obtain l where l: "hm_get t r = Some l" by (auto simp: can_view_def split: option.splits)
  note lw = can_table_wf_get [OF wf l] and lv = can_view_Some [OF l] and lg = can_generation_Some [OF l]
  from True obtain p where p: "hm_get (rl_pending l) s = Some p" "pending_matches p rv"
    by (auto simp: lv reservation_slot_view)
  let ?u = "l\<lparr>rl_pending := hm_remove s (rl_pending l)\<rparr>"
  have u: "rl_wf ?u" "rl_view ?u = (rl_view l)(s := None)"
    using p by (simp_all add: rl_wf_unpend [OF lw] rl_view_pending_remove [OF lw])
  have b: "b" and t': "t' = (if rl_last_generation l = 0 \<and> rl_is_empty ?u then hm_remove r t else hm_insert r ?u t)"
    using run l p by (auto simp: can_cancel_def Let_def rs)
  show ?thesis
  proof (cases "rl_last_generation l = 0 \<and> rl_is_empty ?u")
    case gone: True
    then have "rl_view ?u = Map.empty" by (simp add: rl_is_empty_iff fun_eq_iff)
    with u(2) have "(rl_view l)(s := None) = Map.empty" by simp
    with gone True b wf show ?thesis
      by (auto simp: t' can_view_def can_generation_def can_table_wf_def fun_eq_iff l)
  next
    case False
    then have "t' = hm_insert r ?u t" by (simp only: t' if_False)
    with True b u can_table_wf_insert [OF wf u(1)] show ?thesis
      by (simp add: can_view_insert can_generation_insert lv lg fun_upd_idem)
  qed
qed

lemma entry_is_iff: "entry_is s tok e \<longleftrightarrow> (\<exists>x. e = Some x \<and> le_session_id x = s \<and> le_token x = tok)"
  by (auto simp: entry_is_def split: option.splits)

lemma can_release_law:
  assumes wf: "can_table_wf t" and run: "can_release t r s tok = (b, t')"
  shows "can_table_wf t' \<and> can_generation t' = can_generation t
      \<and> (b \<longleftrightarrow> (\<exists>ow. can_view t r s = Some (Held ow tok)))
      \<and> can_view t' = (if b then (can_view t)(r := (can_view t r)(s := None)) else can_view t)"
proof (cases "hm_get t r")
  case None
  with run wf show ?thesis by (auto simp: can_release_def can_view_def)
next
  case (Some l)
  note lw = can_table_wf_get [OF wf Some] and lv = can_view_Some [OF Some] and lg = can_generation_Some [OF Some]
  have held: "(\<exists>ow. can_view t r s = Some (Held ow tok)) \<longleftrightarrow>
      (\<exists>e. active_entry l s = Some e \<and> le_token e = tok)"
    using rl_wf_pending_active [OF lw] by (auto simp: lv rl_view_Held)
  have done_l: "can_table_wf (hm_insert r l' t) \<and> can_generation (hm_insert r l' t) = can_generation t
      \<and> can_view (hm_insert r l' t) = (can_view t)(r := (can_view t r)(s := None))"
    if "rl_wf l' \<and> rl_view l' = (rl_view l)(s := None)" "rl_last_generation l' = rl_last_generation l" for l'
    using that can_table_wf_insert [OF wf] by (simp add: can_view_insert can_generation_insert lv lg fun_upd_idem)
  consider (obs) e where "hm_get (rl_observes l) s = Some e" "le_token e = tok"
    | (con) e where "rl_control l = Some e" "le_session_id e = s" "le_token e = tok"
        "\<not> (\<exists>e. hm_get (rl_observes l) s = Some e \<and> le_token e = tok)"
    | (mai) e where "rl_maintenance l = Some e" "le_session_id e = s" "le_token e = tok"
        "\<not> (\<exists>e. hm_get (rl_observes l) s = Some e \<and> le_token e = tok)" "\<not> entry_is s tok (rl_control l)"
    | (none) "\<not> (\<exists>e. hm_get (rl_observes l) s = Some e \<and> le_token e = tok)"
        "\<not> entry_is s tok (rl_control l)" "\<not> entry_is s tok (rl_maintenance l)"
    unfolding entry_is_iff by blast
  then show ?thesis
  proof cases
    case obs
    with done_l [OF rl_wf_release_observe [OF lw obs(1) refl]] run Some show ?thesis
      unfolding held active_entry_places [OF lw] using rl_wf_modes(1) [OF lw obs(1)]
      by (auto simp: can_release_def)
  next
    case con
    then have "entry_is s tok (rl_control l)" by (simp add: entry_is_iff)
    with con(4) have "can_release t r s tok = (True, hm_insert r (l\<lparr>rl_control := None\<rparr>) t)"
      by (simp add: can_release_def Some split: option.split)
    with run done_l [OF rl_wf_release_control [OF lw con(1,2) refl]] con show ?thesis
      unfolding held active_entry_places [OF lw] by auto
  next
    case mai
    then have "entry_is s tok (rl_maintenance l)" by (simp add: entry_is_iff)
    with mai(4,5) have "can_release t r s tok = (True, hm_insert r (l\<lparr>rl_maintenance := None\<rparr>) t)"
      by (simp add: can_release_def Some split: option.split)
    with run done_l [OF rl_wf_release_maintenance [OF lw mai(1,2) refl]] mai show ?thesis
      unfolding held active_entry_places [OF lw] by auto
  next
    case none
    then have "b = False" "t' = t" using run Some by (auto simp: can_release_def split: option.splits)
    moreover have "\<not> (\<exists>ow. can_view t r s = Some (Held ow tok))"
      unfolding held active_entry_places [OF lw] using none by (auto simp: entry_is_def)
    ultimately show ?thesis using wf by simp
  qed
qed

lemma can_validate_law:
  assumes "can_table_wf t"
  shows "can_validate t r s ow tok m operation = Ok u
    \<longleftrightarrow> can_view t r s = Some (Held ow tok) \<and> mode_allows (lt_mode tok) m"
proof (cases "hm_get t r")
  case None
  then show ?thesis by (simp add: can_validate_def can_view_def)
next
  case (Some l)
  note lw = can_table_wf_get [OF assms Some]
  show ?thesis
    using rl_wf_pending_active [OF lw, of s]
    by (cases "active_entry l s") (auto simp: can_validate_def Some can_view_Some [OF Some] rl_view_Held)
qed

interpretation can_leases: shared_lease_provider can_table_wf can_view can_generation can_reserve can_commit
    can_cancel can_release can_validate
proof unfold_locales
  fix t :: CanLeaseTable and r
  assume wf: "can_table_wf t"
  show "view_compatible (can_view t r)" "view_fenced (can_generation t r) (can_view t r)"
    using can_table_wf_get [OF wf, of r]
    by (auto simp: can_view_def can_generation_def rl_wf_def view_compatible_def [of Map.empty]
        view_fenced_def [of _ Map.empty] split: option.split)
qed (fact can_reserve_law can_commit_law can_cancel_law can_release_law can_validate_law)+

section \<open>Sequences of operations\<close>

datatype CanLeaseOp =
    CanReserve LeaseId ResourceId SessionId OwnerId LeaseMode
  | CanCommit LeaseId CanReservation
  | CanCancel CanReservation
  | CanRelease ResourceId SessionId LeaseToken

fun can_lease_step :: "CanLeaseOp \<Rightarrow> CanLeaseTable \<Rightarrow> CanLeaseTable" where
  "can_lease_step (CanReserve i r s ow m) t = snd (can_reserve t i r s ow m)"
| "can_lease_step (CanCommit i rv) t = snd (can_commit t i rv)"
| "can_lease_step (CanCancel rv) t = snd (can_cancel t rv)"
| "can_lease_step (CanRelease r s tok) t = snd (can_release t r s tok)"

definition can_lease_run :: "CanLeaseOp list \<Rightarrow> CanLeaseTable \<Rightarrow> CanLeaseTable" where
  "can_lease_run ops t = fold can_lease_step ops t"

lemma can_table_wf_Nil [simp]: "can_table_wf []"
  by (simp add: can_table_wf_def)

lemma can_lease_step_keeps:
  assumes "can_table_wf t"
  shows "can_table_wf (can_lease_step oper t)"
    and "can_leases.retired t r g \<Longrightarrow> can_leases.retired (can_lease_step oper t) r g"
proof (atomize (full), cases oper)
  case (CanReserve i r' s ow m)
  then show "can_table_wf (can_lease_step oper t)
      \<and> (can_leases.retired t r g \<longrightarrow> can_leases.retired (can_lease_step oper t) r g)"
    using can_leases.acquire_law [OF assms] can_leases.retired_acquire [OF assms]
    by (simp, metis prod.collapse)
next
  case (CanCommit i rv)
  then show "can_table_wf (can_lease_step oper t)
      \<and> (can_leases.retired t r g \<longrightarrow> can_leases.retired (can_lease_step oper t) r g)"
    using can_leases.confirm_law [OF assms _ refl refl] can_leases.retired_confirm [OF assms]
    by (simp, metis prod.collapse)
next
  case (CanCancel rv)
  then show "can_table_wf (can_lease_step oper t)
      \<and> (can_leases.retired t r g \<longrightarrow> can_leases.retired (can_lease_step oper t) r g)"
    using can_leases.abandon_law [OF assms _ refl refl] can_leases.retired_abandon [OF assms]
    by (simp, metis prod.collapse)
next
  case (CanRelease r' s tok)
  then show "can_table_wf (can_lease_step oper t)
      \<and> (can_leases.retired t r g \<longrightarrow> can_leases.retired (can_lease_step oper t) r g)"
    using can_leases.giveup_law [OF assms] can_leases.retired_giveup [OF assms]
    by (simp, metis prod.collapse)
qed

lemma can_lease_run_keeps:
  "can_table_wf t \<Longrightarrow> can_table_wf (can_lease_run ops t)"
  "can_table_wf t \<Longrightarrow> can_leases.retired t r g \<Longrightarrow> can_leases.retired (can_lease_run ops t) r g"
  unfolding can_lease_run_def
  by (induction ops arbitrary: t) (simp_all add: can_lease_step_keeps)

lemma errs_can_leases [errs]:
  assumes "valid_identifier (ResourceId_as_str r)"
  shows "errs_wf (fst (can_reserve t i r s ow m))"
    and "cr_resource_id rv = r \<Longrightarrow> errs_wf (fst (can_commit t i rv))"
    and "valid_identifier operation \<Longrightarrow> errs_wf (can_validate t r s ow tok m operation)"
proof -
  have names: "valid_identifier ''runtime.lease.conflict''" "valid_identifier ''can.open''"
    "valid_identifier ''runtime.lease.generation_exhausted''" "valid_identifier ''runtime.session.closed''"
    "valid_identifier ''runtime.lease.stale_generation''" "valid_identifier ''runtime.lease.owner_mismatch''"
    "valid_identifier ''runtime.lease.invalid_token''" "valid_identifier ''runtime.lease.mode_denied''"
    by (simp_all add: identifier_eval)
  show "errs_wf (fst (can_reserve t i r s ow m))"
    by (simp add: can_reserve_def Let_def can_conflict_def assms names)
  show "errs_wf (fst (can_commit t i rv))" if "cr_resource_id rv = r"
    using that by (auto simp: can_commit_def Let_def can_conflict_def assms names split: option.split)
  show "errs_wf (can_validate t r s ow tok m operation)" if "valid_identifier operation"
    using that by (simp add: can_validate_def can_session_closed_def can_lease_error_def assms names split: option.split)
qed

section \<open>Compatible leases\<close>

text \<open>
  What the sharing rule says of the stored leases: a maintenance lease, granted or pending, is alone on
  the resource, and of all control leases, granted or pending, there is at most one.
\<close>

definition leases_compatible :: "ResourceLeases \<Rightarrow> bool" where
  "leases_compatible l \<longleftrightarrow>
     (rl_maintenance l \<noteq> None \<longrightarrow> rl_control l = None \<and> rl_observes l = [] \<and> rl_pending l = [])
   \<and> (pending_any Maintenance l \<longrightarrow>
        length (rl_pending l) = 1 \<and> rl_control l = None \<and> rl_observes l = [] \<and> rl_maintenance l = None)
   \<and> length (filter (\<lambda>p. pe_mode p = Control) (hm_values (rl_pending l))) + of_bool (rl_control l \<noteq> None) \<le> (1 :: nat)"

lemma filter_distinct_le_1:
  assumes "hm_wf m" "\<And>k v k' v'. (k, v) \<in> set m \<Longrightarrow> (k', v') \<in> set m \<Longrightarrow> P v \<Longrightarrow> P v' \<Longrightarrow> k = k'"
  shows "length (filter P (hm_values m)) \<le> 1"
  using assms
proof (induction m)
  case (Cons x m)
  show ?case
  proof (cases "P (snd x)")
    case True
    have "\<not> P v" if "(k, v) \<in> set m" for k v
      using Cons.prems(2) [of "fst x" "snd x" k v] True that Cons.prems(1) by (force simp: image_iff)
    then have "filter P (hm_values m) = []" by (auto simp: hm_values_def filter_empty_conv)
    then show ?thesis by (simp add: hm_values_def)
  next
    case False
    have "length (filter P (hm_values m)) \<le> 1" using Cons.prems by (intro Cons.IH) auto
    with False show ?thesis by (simp add: hm_values_def)
  qed
qed (simp add: hm_values_def)

lemma places_active:
  assumes "rl_wf l"
  shows "rl_maintenance l = Some e \<Longrightarrow> active_entry l (le_session_id e) = Some e \<and> lt_mode (le_token e) = Maintenance
      \<and> rl_control l = None \<and> rl_observes l = []"
    "rl_control l = Some e \<Longrightarrow> active_entry l (le_session_id e) = Some e \<and> lt_mode (le_token e) = Control"
    "(s, e) \<in> set (rl_observes l) \<Longrightarrow> active_entry l (le_session_id e) = Some e"
  using assms by (auto simp: rl_wf_def rl_places_def active_entry_def entry_of_session_def map_of_eq_Some_iff)

lemma pending_clash:
  assumes "rl_wf l" "(s, p) \<in> set (rl_pending l)"
  shows "active_entry l (le_session_id e) = Some e \<Longrightarrow> modes_ok (pe_mode p) (lt_mode (le_token e))"
    "(s', p') \<in> set (rl_pending l) \<Longrightarrow> s \<noteq> s' \<Longrightarrow> modes_ok (pe_mode p) (pe_mode p')"
proof -
  have wf: "hm_wf (rl_pending l)" "view_compatible (rl_view l)" "\<forall>s. hm_contains (rl_pending l) s \<longrightarrow> active_entry l s = None"
    using assms(1) by (simp_all add: rl_wf_def)
  have pending: "rl_view l s = Some (Pending (pe_reservation_id p) (pe_owner_id p) (pe_mode p))"
    if "(s, p) \<in> set (rl_pending l)" for s p
    using that wf(1) by (simp add: rl_view_def map_of_eq_Some_iff)
  show "modes_ok (pe_mode p) (pe_mode p')" if "(s', p') \<in> set (rl_pending l)" "s \<noteq> s'"
    using wf(2) pending [OF assms(2)] pending [OF that(1)] that(2) unfolding view_compatible_def by force
  show "modes_ok (pe_mode p) (lt_mode (le_token e))" if a: "active_entry l (le_session_id e) = Some e"
  proof -
    have none: "hm_get (rl_pending l) (le_session_id e) = None"
      using wf(3) a by (cases "hm_get (rl_pending l) (le_session_id e)") force+
    then have "s \<noteq> le_session_id e" using assms(2) by (force simp: map_of_eq_None_iff)
    moreover have "rl_view l (le_session_id e) = Some (Held (le_owner_id e) (le_token e))" by (simp add: rl_view_def none a)
    ultimately show ?thesis using wf(2) pending [OF assms(2)] unfolding view_compatible_def by force
  qed
qed

lemma rl_wf_compatible:
  assumes wf: "rl_wf l"
  shows "leases_compatible l"
proof -
  note places = places_active [OF wf] and clash = pending_clash [OF wf]
  have distinct: "hm_wf (rl_pending l)" using wf by (simp add: rl_wf_def)
  have "rl_pending l = []" if m: "rl_maintenance l = Some e" for e
  proof (rule ccontr)
    assume "rl_pending l \<noteq> []"
    then obtain s p where "(s, p) \<in> set (rl_pending l)" by (cases "rl_pending l") auto
    from clash(1) [OF this, of e] places(1) [OF m] show False by (simp add: modes_ok_def)
  qed
  moreover have "length (rl_pending l) = 1 \<and> rl_control l = None \<and> rl_observes l = [] \<and> rl_maintenance l = None"
    if any: "pending_any Maintenance l"
  proof -
    obtain s p where p: "(s, p) \<in> set (rl_pending l)" "pe_mode p = Maintenance"
      using any by (auto simp: pending_any_def hm_values_def list_ex_iff)
    have none: "active_entry l (le_session_id e) \<noteq> Some e" for e using clash(1) [OF p(1), of e] p(2) by (auto simp: modes_ok_def)
    have "rl_control l = None" "rl_maintenance l = None" using places(1,2) none by (metis not_Some_eq)+
    moreover have "rl_observes l = []" using places(3) none by (metis list.set_intros(1) neq_Nil_conv surj_pair)
    moreover have "x = (s, p)" if x: "x \<in> set (rl_pending l)" for x
      using clash(2) [OF p(1), of "fst x" "snd x"] p x eq_key_imp_eq_value [OF distinct, of s "snd x" p]
      by (cases x) (auto simp: modes_ok_def)
    then have "set (rl_pending l) = {(s, p)}" using p(1) by blast
    then have "length (rl_pending l) = 1" using distinct distinct_card [of "rl_pending l"] by (simp add: distinct_map)
    ultimately show ?thesis by simp
  qed
  moreover have "length (filter (\<lambda>p. pe_mode p = Control) (hm_values (rl_pending l))) \<le> 1"
    using clash(2) by (intro filter_distinct_le_1 [OF distinct]) (force simp: modes_ok_def)
  moreover have "filter (\<lambda>p. pe_mode p = Control) (hm_values (rl_pending l)) = []" if c: "rl_control l = Some e" for e
    using clash(1) [of _ _ e] places(2) [OF c] by (force simp: filter_empty_conv hm_values_def modes_ok_def)
  ultimately show ?thesis using places(1)
    by (cases "rl_control l"; cases "rl_maintenance l") (auto simp: leases_compatible_def)
qed

section \<open>Properties\<close>

text \<open>
  C17. Compatible leases: after any sequence of CAN lease operations, the leases stored for a resource are
  compatible - a maintenance lease, granted or pending, is the only lease of the resource, and there is at
  most one control lease, granted or pending. Two callers that are both authorised for an operation
  stronger than observing are the same session with the same owner and token.
\<close>

theorem can_control_exclusive:
  fixes ops :: "CanLeaseOp list"
  defines "t \<equiv> can_lease_run ops []"
  shows "(\<forall>l. hm_get t r = Some l \<longrightarrow> leases_compatible l)
    \<and> (\<forall>s ow tok m operation s' ow' tok' m' operation'.
        can_validate t r s ow tok m operation = Ok () \<longrightarrow> can_validate t r s' ow' tok' m' operation' = Ok () \<longrightarrow>
        m \<noteq> Observe \<longrightarrow> m' \<noteq> Observe \<longrightarrow> s' = s \<and> ow' = ow \<and> tok' = tok)"
proof -
  have wf: "can_table_wf t" by (simp add: t_def can_lease_run_keeps(1))
  then show ?thesis using rl_wf_compatible can_leases.accepted_control_unique [OF wf]
    by (auto simp: can_table_wf_def)
qed

definition sample_reservation :: CanReservation where
  "sample_reservation = \<lparr>cr_resource_id = ResourceId ''can0'', cr_session_id = SessionId ''s'',
     cr_owner_id = OwnerId ''o'', cr_reservation_id = LeaseId ''p'', cr_mode = Control\<rparr>"

definition sample_ops :: "CanLeaseOp list" where
  "sample_ops = [CanReserve (LeaseId ''p'') (ResourceId ''can0'') (SessionId ''s'') (OwnerId ''o'') Control,
     CanCommit (LeaseId ''t'') sample_reservation]"

lemmas can_lease_eval = can_lease_run_def can_reserve_def can_commit_def can_validate_def
  can_release_def ResourceLeases_default_def session_present_def incompatible_def pending_any_def
  hm_values_def has_any_lease_def rl_is_empty_def pending_matches_def active_entry_def
  entry_of_session_def or_else_def LeaseToken_new_def checked_add_def entry_is_def Let_def

lemma can_control_exclusive_witness:
  "\<exists>l. hm_get (can_lease_run sample_ops []) (ResourceId ''can0'') = Some l \<and> rl_control l \<noteq> None \<and> leases_compatible l
    \<and> can_validate (can_lease_run sample_ops []) (ResourceId ''can0'') (SessionId ''s'') (OwnerId ''o'')
        (LeaseToken_new (LeaseId ''t'') 1 Control) Control ''can.send'' = Ok ()
    \<and> (\<forall>s' ow' tok'. can_validate (can_lease_run sample_ops []) (ResourceId ''can0'') s' ow' tok' Control ''can.send'' = Ok ()
         \<longrightarrow> s' = SessionId ''s'' \<and> ow' = OwnerId ''o'')"
proof -
  have ok: "can_validate (can_lease_run sample_ops []) (ResourceId ''can0'') (SessionId ''s'') (OwnerId ''o'')
      (LeaseToken_new (LeaseId ''t'') 1 Control) Control ''can.send'' = Ok ()"
    by (simp add: sample_ops_def sample_reservation_def can_lease_eval)
  have "\<exists>l. hm_get (can_lease_run sample_ops []) (ResourceId ''can0'') = Some l \<and> rl_control l \<noteq> None"
    by (simp add: sample_ops_def sample_reservation_def can_lease_eval)
  with ok can_control_exclusive [of sample_ops "ResourceId ''can0''"] show ?thesis by (metis LeaseMode.distinct(1))
qed

text \<open>
  C18. Admission: a CAN lease is granted exactly when its session has nothing on the resource and
  its mode is compatible with every active and provisional lease (maintenance alone, at most one
  controller); a refused request leaves every lease as it was.
\<close>

theorem can_reserve_admission:
  assumes "can_table_wf t"
  shows "(is_ok (fst (can_reserve t i r s ow m)) \<longleftrightarrow> admissible m s (can_view t r))
    \<and> can_view (snd (can_reserve t i r s ow m)) =
      (if admissible m s (can_view t r) then (can_view t)(r := (can_view t r)(s \<mapsto> Pending i ow m)) else can_view t)"
  using can_leases.acquire_law [OF assms, of i r s ow m "fst (can_reserve t i r s ow m)" "snd (can_reserve t i r s ow m)"]
  by (auto split: if_splits)

lemma can_reserve_admission_witness:
  "let t = can_lease_run sample_ops [] in
   is_ok (fst (can_reserve t (LeaseId ''q'') (ResourceId ''can0'') (SessionId ''w'') (OwnerId ''o2'') Observe))
   \<and> \<not> is_ok (fst (can_reserve t (LeaseId ''q'') (ResourceId ''can0'') (SessionId ''w'') (OwnerId ''o2'') Control))"
proof -
  have wf: "can_table_wf (can_lease_run sample_ops [])" by (simp add: can_lease_run_keeps)
  note adm = can_reserve_admission [OF wf, of "LeaseId ''q''" "ResourceId ''can0''" "SessionId ''w''" "OwnerId ''o2''"]
  have "can_view (can_lease_run sample_ops []) (ResourceId ''can0'')
      = [SessionId ''s'' \<mapsto> Held (OwnerId ''o'') (LeaseToken_new (LeaseId ''t'') 1 Control)]"
    by (simp add: sample_ops_def sample_reservation_def can_lease_eval can_view_def rl_view_def fun_eq_iff)
  then have "admissible Observe (SessionId ''w'') (can_view (can_lease_run sample_ops []) (ResourceId ''can0''))"
    "\<not> admissible Control (SessionId ''w'') (can_view (can_lease_run sample_ops []) (ResourceId ''can0''))"
    by (auto simp: admissible_def modes_ok_def LeaseToken_new_def split: if_splits)
  with adm show ?thesis by (simp add: Let_def)
qed

text \<open>
  C22. Retired CAN tokens stay dead: a token whose lease has been released is rejected for every
  session, owner, mode and operation of its resource after any further sequence of CAN lease
  operations; no assumption on the freshness of identifiers is needed, because generations
  are never reissued.
\<close>

theorem can_retired_token_rejected:
  assumes "can_table_wf t" "can_view t r s = Some (Held ow tok)"
  shows "can_validate (can_lease_run ops (snd (can_release t r s tok))) r s' ow' tok m operation \<noteq> Ok ()"
proof -
  let ?t = "snd (can_release t r s tok)"
  obtain b where rel: "can_release t r s tok = (b, ?t)" by (metis prod.collapse)
  have "can_table_wf ?t" "can_leases.retired ?t r (lt_generation tok)"
    using can_leases.retired_after_giveup [OF assms rel] by simp_all
  then show ?thesis
    by (intro can_leases.retired_rejected can_lease_run_keeps)
qed

lemma can_retired_token_rejected_witness:
  "can_validate (can_lease_run sample_ops (snd (can_release (can_lease_run sample_ops []) (ResourceId ''can0'')
      (SessionId ''s'') (LeaseToken_new (LeaseId ''t'') 1 Control)))) (ResourceId ''can0'') (SessionId ''s'')
      (OwnerId ''o'') (LeaseToken_new (LeaseId ''t'') 1 Control) Observe ''can.receive'' \<noteq> Ok ()"
proof (rule can_retired_token_rejected)
  show "can_table_wf (can_lease_run sample_ops [])" by (simp add: can_lease_run_keeps)
  show "can_view (can_lease_run sample_ops []) (ResourceId ''can0'') (SessionId ''s'')
      = Some (Held (OwnerId ''o'') (LeaseToken_new (LeaseId ''t'') 1 Control))"
    by (simp add: sample_ops_def sample_reservation_def can_lease_eval can_view_def rl_view_def)
qed

end
