(* ===== verification/Lease_Table.thy ===== *)
theory Lease_Table
  imports Runtime_Base
begin

text \<open>
  The exclusive control leases of serial, USB, GPIO and camera resources
  (\<open>src/crates/robot-hal-runtime/src/lease_table.rs\<close>), and the contract \<open>lease_provider\<close>
  that session managers rely on. Lease identifiers are random UUIDs: the identifier drawn by
  \<open>reserve_control\<close> is an argument, and results that need its freshness say so.
\<close>

section \<open>Definitions\<close>

record ActiveLease =
  al_session_id :: SessionId
  al_owner_id :: OwnerId
  al_token :: LeaseToken
  al_committed :: bool

record LeaseTable =
  tb_current_generations :: "(ResourceId, u64) hashmap"
  tb_active :: "(ResourceId, ActiveLease) hashmap"

definition LeaseTable_default :: LeaseTable where
  "LeaseTable_default = \<lparr>tb_current_generations = [], tb_active = []\<rparr>"

definition current_generation :: "LeaseTable \<Rightarrow> ResourceId \<Rightarrow> u64" where
  "current_generation t resource_id =
     (case hm_get (tb_current_generations t) resource_id of None \<Rightarrow> 0 | Some g \<Rightarrow> g)"

definition retained_generation_count :: "LeaseTable \<Rightarrow> usize" where
  "retained_generation_count t = length (tb_current_generations t)"

definition reserve_control ::
  "LeaseTable \<Rightarrow> LeaseId \<Rightarrow> ResourceId \<Rightarrow> SessionId \<Rightarrow> OwnerId \<Rightarrow> LeaseToken hal_result \<times> LeaseTable" where
  "reserve_control t new_id resource_id session_id owner_id =
     (if hm_contains (tb_active t) resource_id then
        (Err (with_resource_id resource_id
           (runtime_error ''runtime.lease.conflict'' Conflict ''serial.open'' False
              ''the resource already has an active control lease'')), t)
      else
        let current = (case hm_get (tb_current_generations t) resource_id of
              None \<Rightarrow> 0 | Some g \<Rightarrow> g);
            entered = hm_insert resource_id current (tb_current_generations t)
        in case checked_add current 1 of
             None \<Rightarrow>
               (Err (with_resource_id resource_id
                  (runtime_error ''runtime.lease.generation_exhausted'' Internal ''serial.open''
                     False ''the resource lease generation reached u64::MAX'')),
                t\<lparr>tb_current_generations := entered\<rparr>)
           | Some next \<Rightarrow>
               let token = LeaseToken_new new_id next Control
               in (Ok token,
                   \<lparr>tb_current_generations = hm_insert resource_id next entered,
                    tb_active = hm_insert resource_id
                      \<lparr>al_session_id = session_id, al_owner_id = owner_id, al_token = token,
                       al_committed = False\<rparr> (tb_active t)\<rparr>))"

definition commit :: "LeaseTable \<Rightarrow> ResourceId \<Rightarrow> SessionId \<Rightarrow> LeaseToken \<Rightarrow> bool \<times> LeaseTable" where
  "commit t resource_id session_id token =
     (case hm_get (tb_active t) resource_id of
        None \<Rightarrow> (False, t)
      | Some active \<Rightarrow>
          if al_session_id active \<noteq> session_id \<or> al_token active \<noteq> token then (False, t)
          else (True, t\<lparr>tb_active := hm_insert resource_id (active\<lparr>al_committed := True\<rparr>) (tb_active t)\<rparr>))"

definition quarantine :: "LeaseTable \<Rightarrow> ResourceId \<Rightarrow> SessionId \<Rightarrow> LeaseToken \<Rightarrow> bool \<times> LeaseTable" where
  "quarantine t resource_id session_id token =
     (case hm_get (tb_active t) resource_id of
        None \<Rightarrow> (False, t)
      | Some active \<Rightarrow>
          if al_session_id active \<noteq> session_id \<or> al_token active \<noteq> token then (False, t)
          else (True, t\<lparr>tb_active := hm_insert resource_id (active\<lparr>al_committed := True\<rparr>) (tb_active t)\<rparr>))"

definition validate ::
  "LeaseTable \<Rightarrow> ResourceId \<Rightarrow> SessionId \<Rightarrow> OwnerId \<Rightarrow> LeaseToken \<Rightarrow> string \<Rightarrow> unit hal_result" where
  "validate t resource_id session_id owner_id lease operation =
     (let current_generation =
            (case hm_get (tb_current_generations t) resource_id of None \<Rightarrow> 0 | Some g \<Rightarrow> g) in
      if lt_generation lease < current_generation then
        Err (with_resource_id resource_id
          (runtime_error ''runtime.lease.stale_generation'' Conflict operation False
             (''lease generation '' @ show_word (lt_generation lease)
                @ '' is older than current generation '' @ show_word current_generation)))
      else
        and_then (ok_or (with_resource_id resource_id
            (runtime_error ''runtime.session.closed'' Conflict operation False
               ''the serial session is closed'')) (hm_get (tb_active t) resource_id))
        (\<lambda>active.
          if al_session_id active \<noteq> session_id then
            Err (with_resource_id resource_id
              (runtime_error ''runtime.lease.invalid_token'' Conflict operation False
                 ''the lease does not belong to the requested session''))
          else if al_owner_id active \<noteq> owner_id then
            Err (with_resource_id resource_id
              (runtime_error ''runtime.lease.owner_mismatch'' Conflict operation False
                 ''the lease owner does not match the session owner''))
          else if al_token active \<noteq> lease then
            Err (with_resource_id resource_id
              (runtime_error ''runtime.lease.invalid_token'' Conflict operation False
                 ''the lease token does not match the active lease''))
          else Ok ()))"

definition release :: "LeaseTable \<Rightarrow> ResourceId \<Rightarrow> SessionId \<Rightarrow> bool \<times> LeaseTable" where
  "release t resource_id session_id =
     (case hm_get (tb_active t) resource_id of
        None \<Rightarrow> (False, t)
      | Some active \<Rightarrow>
          if al_session_id active \<noteq> session_id then (False, t)
          else
            let committed = al_committed active;
                generation = lt_generation (al_token active);
                gens = tb_current_generations t;
                gens' =
                  (if \<not> committed \<and> hm_get gens resource_id = Some generation then
                     if generation = 1 then hm_remove resource_id gens
                     else hm_insert resource_id (generation - 1) gens
                   else gens)
            in (committed,
                \<lparr>tb_current_generations = gens', tb_active = hm_remove resource_id (tb_active t)\<rparr>))"

text \<open>The operations a manager issues, and their execution in sequence.\<close>

datatype LeaseOp =
    OpReserve LeaseId ResourceId SessionId OwnerId
  | OpCommit ResourceId SessionId LeaseToken
  | OpQuarantine ResourceId SessionId LeaseToken
  | OpRelease ResourceId SessionId

fun lease_step :: "LeaseOp \<Rightarrow> LeaseTable \<Rightarrow> LeaseTable" where
  "lease_step (OpReserve i r s ow) t = snd (reserve_control t i r s ow)"
| "lease_step (OpCommit r s tok) t = snd (commit t r s tok)"
| "lease_step (OpQuarantine r s tok) t = snd (quarantine t r s tok)"
| "lease_step (OpRelease r s) t = snd (release t r s)"

definition lease_run :: "LeaseOp list \<Rightarrow> LeaseTable \<Rightarrow> LeaseTable" where
  "lease_run ops t = fold lease_step ops t"

fun drawn_ids :: "LeaseOp list \<Rightarrow> LeaseId list" where
  "drawn_ids [] = []"
| "drawn_ids (OpReserve i r s ow # ops) = i # drawn_ids ops"
| "drawn_ids (oper # ops) = drawn_ids ops"

text \<open>
  The invariant: every active lease is a control lease that carries the current, positive
  generation of its resource, and no generation that was never exposed is retained as zero.
\<close>

definition lease_table_wf :: "LeaseTable \<Rightarrow> bool" where
  "lease_table_wf t \<longleftrightarrow>
     hm_wf (tb_current_generations t) \<and> hm_wf (tb_active t)
     \<and> (\<forall>r a. hm_get (tb_active t) r = Some a \<longrightarrow>
          lt_mode (al_token a) = Control
          \<and> hm_get (tb_current_generations t) r = Some (lt_generation (al_token a)))
     \<and> (\<forall>r g. hm_get (tb_current_generations t) r = Some g \<longrightarrow> g \<noteq> 0)"

text \<open>The view of a table that its clients rely on: who holds which lease.\<close>

definition lease_holder ::
  "LeaseTable \<Rightarrow> ResourceId \<Rightarrow> (SessionId \<times> OwnerId \<times> LeaseToken \<times> bool) option" where
  "lease_holder t r = map_option (\<lambda>a. (al_session_id a, al_owner_id a, al_token a, al_committed a))
     (hm_get (tb_active t) r)"

section \<open>The contract of a lease provider\<close>

locale lease_provider =
  fixes inv :: "'t \<Rightarrow> bool"
    and holder :: "'t \<Rightarrow> ResourceId \<Rightarrow> (SessionId \<times> OwnerId \<times> LeaseToken \<times> bool) option"
    and acquire :: "'t \<Rightarrow> LeaseId \<Rightarrow> ResourceId \<Rightarrow> SessionId \<Rightarrow> OwnerId \<Rightarrow> LeaseToken hal_result \<times> 't"
    and confirm :: "'t \<Rightarrow> ResourceId \<Rightarrow> SessionId \<Rightarrow> LeaseToken \<Rightarrow> bool \<times> 't"
    and giveup :: "'t \<Rightarrow> ResourceId \<Rightarrow> SessionId \<Rightarrow> bool \<times> 't"
    and accepts :: "'t \<Rightarrow> ResourceId \<Rightarrow> SessionId \<Rightarrow> OwnerId \<Rightarrow> LeaseToken \<Rightarrow> string \<Rightarrow> unit hal_result"
  assumes acquire_Ok: "inv t \<Longrightarrow> acquire t i r s ow = (Ok tok, t') \<Longrightarrow>
      inv t' \<and> holder t r = None \<and> lt_lease_id tok = i \<and> holder t' = (holder t)(r \<mapsto> (s, ow, tok, False))"
    and acquire_Err: "inv t \<Longrightarrow> acquire t i r s ow = (Err e, t') \<Longrightarrow> inv t' \<and> holder t' = holder t"
    and confirm: "inv t \<Longrightarrow> confirm t r s tok = (b, t') \<Longrightarrow>
      inv t' \<and> (b \<longleftrightarrow> (\<exists>ow c. holder t r = Some (s, ow, tok, c)))
      \<and> (\<forall>ow c. holder t r = Some (s, ow, tok, c) \<longrightarrow> holder t' = (holder t)(r \<mapsto> (s, ow, tok, True)))
      \<and> (\<not> b \<longrightarrow> holder t' = holder t)"
    and giveup: "inv t \<Longrightarrow> giveup t r s = (b, t') \<Longrightarrow>
      inv t' \<and> (b \<longleftrightarrow> (\<exists>ow tok. holder t r = Some (s, ow, tok, True)))
      \<and> holder t' = (if \<exists>ow tok c. holder t r = Some (s, ow, tok, c) then (holder t)(r := None) else holder t)"
    and accepts_Ok: "inv t \<Longrightarrow> accepts t r s ow tok operation = Ok u \<longleftrightarrow> (\<exists>c. holder t r = Some (s, ow, tok, c))"
begin

text \<open>Two callers that are both accepted for one resource are the same caller.\<close>

lemma accepted_unique:
  "inv t \<Longrightarrow> accepts t r s ow tok operation = Ok u \<Longrightarrow> accepts t r s' ow' tok' operation' = Ok u'
    \<Longrightarrow> s' = s \<and> ow' = ow \<and> tok' = tok"
  by (auto simp: accepts_Ok)

lemma acquired_accepted:
  "inv t \<Longrightarrow> acquire t i r s ow = (Ok tok, t') \<Longrightarrow> accepts t' r s ow tok operation = Ok ()"
  using acquire_Ok by (fastforce simp: accepts_Ok)

lemma acquire_held: "inv t \<Longrightarrow> holder t r \<noteq> None \<Longrightarrow> fst (acquire t i r s ow) \<noteq> Ok tok"
  by (metis acquire_Ok prod.collapse)

lemma given_up_rejected:
  assumes "inv t" "holder t r = Some (s, ow, tok, c)" "giveup t r s = (b, t')"
  shows "accepts t' r s' ow' tok' operation \<noteq> Ok u"
proof -
  from giveup [OF assms(1,3)] assms(2) have "inv t'" "holder t' r = None" by auto
  then show ?thesis by (simp add: accepts_Ok)
qed

text \<open>Changes to one resource leave the holders of the others alone.\<close>

lemma giveup_other: "inv t \<Longrightarrow> giveup t r s = (b, t') \<Longrightarrow> r' \<noteq> r \<Longrightarrow> holder t' r' = holder t r'"
  using giveup [of t r s b t'] by (auto split: if_splits)

lemma confirm_other: "inv t \<Longrightarrow> confirm t r s tok = (b, t') \<Longrightarrow> r' \<noteq> r \<Longrightarrow> holder t' r' = holder t r'"
  using confirm [of t r s tok b t'] by (cases b) auto

lemma acquire_other: "inv t \<Longrightarrow> acquire t i r s ow = (res, t') \<Longrightarrow> r' \<noteq> r \<Longrightarrow> holder t' r' = holder t r'"
  using acquire_Ok [of t i r s ow _ t'] acquire_Err [of t i r s ow _ t'] by (cases res) auto

text \<open>
  A lease identifier enters the table only when it is drawn: the identifiers in the table
  after an operation were there before, or were drawn by that operation.
\<close>

definition held_ids :: "'t \<Rightarrow> (ResourceId \<times> LeaseId) set" where
  "held_ids t = {(r, lt_lease_id tok) | r s ow tok c. holder t r = Some (s, ow, tok, c)}"

lemma held_ids_acquire: "inv t \<Longrightarrow> acquire t i r s ow = (res, t') \<Longrightarrow> held_ids t' \<subseteq> insert (r, i) (held_ids t)"
  using acquire_Ok [of t i r s ow _ t'] acquire_Err [of t i r s ow _ t']
  by (cases res) (auto simp: held_ids_def split: if_splits)

lemma held_ids_confirm: "inv t \<Longrightarrow> confirm t r s tok = (b, t') \<Longrightarrow> held_ids t' \<subseteq> held_ids t"
  using confirm [of t r s tok b t'] by (cases b) (auto simp: held_ids_def split: if_splits)

lemma held_ids_giveup: "inv t \<Longrightarrow> giveup t r s = (b, t') \<Longrightarrow> held_ids t' \<subseteq> held_ids t"
  using giveup [of t r s b t'] by (auto simp: held_ids_def split: if_splits)

lemma not_held_rejected:
  "inv t \<Longrightarrow> (r, lt_lease_id tok) \<notin> held_ids t \<Longrightarrow> accepts t r s ow tok operation \<noteq> Ok u"
  by (auto simp: accepts_Ok held_ids_def)

end

section \<open>The table keeps its contract\<close>

lemma lease_table_wf_default [simp]: "lease_table_wf LeaseTable_default"
  by (simp add: lease_table_wf_def LeaseTable_default_def)

lemma lease_holder_default [simp]: "lease_holder LeaseTable_default = Map.empty"
  by (simp add: lease_holder_def LeaseTable_default_def fun_eq_iff)

lemma quarantine_eq_commit: "quarantine = commit"
  by (simp add: quarantine_def commit_def fun_eq_iff)

lemma current_generation_None: "hm_get (tb_current_generations t) r = None \<Longrightarrow> current_generation t r = 0"
  by (simp add: current_generation_def)

lemma reserve_control_busy:
  "hm_get (tb_active t) r \<noteq> None \<Longrightarrow> snd (reserve_control t i r s ow) = t \<and> \<not> is_ok (fst (reserve_control t i r s ow))"
  by (simp add: reserve_control_def)

lemma reserve_control_exhausted:
  assumes "hm_get (tb_active t) r = None" "current_generation t r = - 1"
  shows "snd (reserve_control t i r s ow) = t \<and> \<not> is_ok (fst (reserve_control t i r s ow))"
proof -
  from assms(2) have "hm_get (tb_current_generations t) r = Some (- 1)"
    by (auto simp: current_generation_def split: option.splits)
  moreover have "checked_add (- 1 :: u64) 1 = None"
    using checked_add_one_Some [of "- 1 :: u64"] by (cases "checked_add (- 1 :: u64) 1") auto
  ultimately show ?thesis
    using assms(1) by (simp add: reserve_control_def Let_def hm_insert_same)
qed

lemma reserve_control_free:
  assumes "hm_get (tb_active t) r = None" "current_generation t r \<noteq> - 1"
  shows "reserve_control t i r s ow =
    (let token = LeaseToken_new i (current_generation t r + 1) Control in
     (Ok token,
      \<lparr>tb_current_generations = hm_insert r (current_generation t r + 1) (tb_current_generations t),
       tb_active = hm_insert r \<lparr>al_session_id = s, al_owner_id = ow, al_token = token,
          al_committed = False\<rparr> (tb_active t)\<rparr>))"
proof -
  have "checked_add (current_generation t r) 1 = Some (current_generation t r + 1)"
    using assms(2) by (simp add: checked_add_one_Some)
  then show ?thesis
    using assms(1) by (simp add: reserve_control_def current_generation_def Let_def)
qed

lemma reserve_control_Ok:
  "reserve_control t i r s ow = (Ok tok, t') \<longleftrightarrow>
     hm_get (tb_active t) r = None \<and> current_generation t r \<noteq> - 1
     \<and> tok = LeaseToken_new i (current_generation t r + 1) Control
     \<and> t' = \<lparr>tb_current_generations = hm_insert r (current_generation t r + 1) (tb_current_generations t),
          tb_active = hm_insert r \<lparr>al_session_id = s, al_owner_id = ow, al_token = tok,
          al_committed = False\<rparr> (tb_active t)\<rparr>" (is "_ \<longleftrightarrow> ?free \<and> ?more \<and> ?rest")
proof (cases "?free \<and> ?more")
  case True
  then show ?thesis by (auto simp: reserve_control_free Let_def)
next
  case False
  then have "\<not> is_ok (fst (reserve_control t i r s ow))"
    using reserve_control_busy [of t r i s ow] reserve_control_exhausted [of t r i s ow] by blast
  with False show ?thesis by auto
qed

lemma reserve_control_Err: "reserve_control t i r s ow = (Err e, t') \<Longrightarrow> t' = t"
  using reserve_control_busy [of t r i s ow] reserve_control_exhausted [of t r i s ow]
    reserve_control_free [of t r i s ow]
  by (cases "hm_get (tb_active t) r = None \<and> current_generation t r \<noteq> - 1") (auto simp: Let_def)

lemma reserve_control_wf:
  assumes "lease_table_wf t" "reserve_control t i r s ow = (Ok tok, t')"
  shows "lease_table_wf t'"
  using assms by (auto simp: reserve_control_Ok lease_table_wf_def LeaseToken_new_def word_add_one_neq_0)

lemma commit_wf: "lease_table_wf t \<Longrightarrow> lease_table_wf (snd (commit t r s tok))"
  by (auto simp: commit_def lease_table_wf_def split: option.splits)

lemma release_wf: "lease_table_wf t \<Longrightarrow> lease_table_wf (snd (release t r s))"
  by (auto simp: release_def lease_table_wf_def Let_def split: option.splits)

lemma validate_Ok:
  assumes "lease_table_wf t"
  shows "validate t r s ow tok operation = Ok u \<longleftrightarrow> (\<exists>c. lease_holder t r = Some (s, ow, tok, c))"
  using assms by (auto simp: validate_def Let_def lease_holder_def lease_table_wf_def)

interpretation leases: lease_provider lease_table_wf lease_holder reserve_control commit release validate
proof unfold_locales
  fix t t' :: LeaseTable and i r s ow tok e b operation u
  assume wf: "lease_table_wf t"
  show "lease_table_wf t' \<and> lease_holder t r = None \<and> lt_lease_id tok = i
      \<and> lease_holder t' = (lease_holder t)(r \<mapsto> (s, ow, tok, False))"
    if "reserve_control t i r s ow = (Ok tok, t')"
    using reserve_control_wf [OF wf that] that
    by (auto simp: reserve_control_Ok lease_holder_def LeaseToken_new_def)
  show "lease_table_wf t' \<and> lease_holder t' = lease_holder t"
    if "reserve_control t i r s ow = (Err e, t')"
    using reserve_control_Err [OF that] wf by simp
  show "lease_table_wf t' \<and> (b \<longleftrightarrow> (\<exists>ow c. lease_holder t r = Some (s, ow, tok, c)))
      \<and> (\<forall>ow c. lease_holder t r = Some (s, ow, tok, c) \<longrightarrow> lease_holder t' = (lease_holder t)(r \<mapsto> (s, ow, tok, True)))
      \<and> (\<not> b \<longrightarrow> lease_holder t' = lease_holder t)" if "commit t r s tok = (b, t')"
    using commit_wf [OF wf, of r s tok] that
    by (auto simp: commit_def lease_holder_def split: option.splits if_splits)
  show "lease_table_wf t' \<and> (b \<longleftrightarrow> (\<exists>ow tok. lease_holder t r = Some (s, ow, tok, True)))
      \<and> lease_holder t' = (if \<exists>ow tok c. lease_holder t r = Some (s, ow, tok, c)
           then (lease_holder t)(r := None) else lease_holder t)" if "release t r s = (b, t')"
    using release_wf [OF wf, of r s] that
    by (auto simp: release_def lease_holder_def Let_def split: option.splits if_splits)
  show "validate t r s ow tok operation = Ok u \<longleftrightarrow> (\<exists>c. lease_holder t r = Some (s, ow, tok, c))"
    by (rule validate_Ok [OF wf])
qed

section \<open>Sequences of operations\<close>

lemma lease_run_Nil [simp]: "lease_run [] t = t"
  and lease_run_Cons [simp]: "lease_run (oper # ops) t = lease_run ops (lease_step oper t)"
  and lease_run_append [simp]: "lease_run (ops @ ops') t = lease_run ops' (lease_run ops t)"
  by (simp_all add: lease_run_def)

lemma drawn_ids_append [simp]: "drawn_ids (ops @ ops') = drawn_ids ops @ drawn_ids ops'"
  by (induction ops rule: drawn_ids.induct) auto

lemma lease_step_wf [simp]: "lease_table_wf t \<Longrightarrow> lease_table_wf (lease_step oper t)"
proof (cases oper)
  case (OpReserve i r s ow)
  assume "lease_table_wf t"
  with OpReserve show ?thesis
    by (metis lease_step.simps(1) leases.acquire_Err leases.acquire_Ok prod.collapse result.exhaust)
qed (auto simp: commit_wf release_wf quarantine_eq_commit)

lemma lease_run_wf [simp]: "lease_table_wf t \<Longrightarrow> lease_table_wf (lease_run ops t)"
  by (induction ops arbitrary: t) auto

lemma held_ids_step:
  assumes "lease_table_wf t"
  shows "leases.held_ids (lease_step oper t) \<subseteq> leases.held_ids t \<union>
    (case oper of OpReserve i r s ow \<Rightarrow> {(r, i)} | _ \<Rightarrow> {})"
  using assms leases.held_ids_acquire leases.held_ids_confirm leases.held_ids_giveup
  by (cases oper) (auto simp: quarantine_eq_commit, (metis insertE prod.collapse prod.inject subsetD)+)

lemma drawn_ids_Cons:
  "set (drawn_ids (oper # ops)) = (case oper of OpReserve i r s ow \<Rightarrow> {i} | _ \<Rightarrow> {}) \<union> set (drawn_ids ops)"
  by (cases oper) auto

lemma lease_run_not_held:
  assumes "lease_table_wf t" "i \<notin> snd ` leases.held_ids t" "i \<notin> set (drawn_ids ops)"
  shows "i \<notin> snd ` leases.held_ids (lease_run ops t)"
  using assms
proof (induction ops arbitrary: t)
  case Nil
  then show ?case by simp
next
  case (Cons oper ops)
  have "i \<notin> snd ` leases.held_ids (lease_step oper t)"
    using held_ids_step [OF Cons.prems(1), of oper] Cons.prems(2,3)
    by (cases oper) (force simp: drawn_ids_Cons)+
  with Cons show ?case by (simp add: drawn_ids_Cons)
qed

text \<open>With identifiers drawn at most once, no two resources share a lease identifier.\<close>

lemma lease_run_inj_ids:
  assumes "lease_table_wf t" "inj_on snd (leases.held_ids t)"
    "snd ` leases.held_ids t \<inter> set (drawn_ids ops) = {}" "distinct (drawn_ids ops)"
  shows "inj_on snd (leases.held_ids (lease_run ops t))"
  using assms
proof (induction ops arbitrary: t)
  case Nil
  then show ?case by simp
next
  case (Cons oper ops)
  note step = held_ids_step [OF Cons.prems(1), of oper]
  have "inj_on snd (leases.held_ids (lease_step oper t))"
    by (rule inj_on_subset [OF _ step])
      (use Cons.prems(2,3) in \<open>cases oper; force simp: inj_on_def\<close>)
  moreover have "snd ` leases.held_ids (lease_step oper t) \<inter> set (drawn_ids ops) = {}"
    using image_mono [OF step, of snd] Cons.prems(3,4) by (cases oper) auto
  moreover have "distinct (drawn_ids ops)" using Cons.prems(4) by (cases oper) auto
  ultimately show ?case using Cons by simp
qed

lemma held_ids_default [simp]: "leases.held_ids LeaseTable_default = {}"
  by (simp add: leases.held_ids_def)

text \<open>
  \<open>fenced t r g\<close>: generation \<open>g\<close> of resource \<open>r\<close> was exposed, so neither the retained
  generation nor a rollback of an uncommitted reservation can fall below it.
\<close>

definition fenced :: "LeaseTable \<Rightarrow> ResourceId \<Rightarrow> u64 \<Rightarrow> bool" where
  "fenced t r g \<longleftrightarrow> g \<le> current_generation t r
     \<and> (\<forall>a. hm_get (tb_active t) r = Some a \<longrightarrow> \<not> al_committed a \<longrightarrow> g < current_generation t r)"

lemma fenced_reserve:
  assumes "fenced t r g" "reserve_control t i r' s ow = (Ok tok, t')"
  shows "fenced t' r g"
  using assms word_less_add_one [of "current_generation t r"]
  by (auto simp: fenced_def reserve_control_Ok current_generation_def intro: order_le_less_trans less_imp_le)

lemma fenced_step:
  assumes wf: "lease_table_wf t" and f: "fenced t r g"
  shows "fenced (lease_step oper t) r g"
proof (cases oper)
  case (OpReserve i r' s ow)
  then show ?thesis
    using f fenced_reserve reserve_control_Err
    by (metis lease_step.simps(1) prod.collapse result.exhaust)
next
  case (OpRelease r' s)
  show ?thesis
  proof (cases "r' = r")
    case True
    with OpRelease wf f show ?thesis
      by (auto simp: release_def fenced_def current_generation_def Let_def lease_table_wf_def
          word_le_minus_one split: option.splits if_splits)
  next
    case False
    with OpRelease f show ?thesis
      by (auto simp: release_def fenced_def current_generation_def Let_def split: option.splits)
  qed
qed (use f in \<open>auto simp: commit_def quarantine_eq_commit fenced_def current_generation_def split: option.splits\<close>)

lemma fenced_run: "lease_table_wf t \<Longrightarrow> fenced t r g \<Longrightarrow> fenced (lease_run ops t) r g"
  by (induction ops arbitrary: t) (auto simp: fenced_step)

lemma fenced_after_release:
  assumes "lease_table_wf t" "lease_holder t r = Some (s, ow, tok, True)"
  shows "fenced (snd (release t r s)) r (lt_generation tok)"
  using assms
  by (auto simp: fenced_def release_def lease_holder_def Let_def lease_table_wf_def current_generation_def)

lemma reserve_above_fence:
  assumes "fenced t r g" "reserve_control t i r s ow = (Ok tok, t')"
  shows "g < lt_generation tok \<and> current_generation t' r = lt_generation tok"
proof -
  have "g \<le> current_generation t r" "current_generation t r \<noteq> - 1"
    using assms by (auto simp: fenced_def reserve_control_Ok)
  then have "g < current_generation t r + 1"
    using word_less_add_one by (blast intro: order_le_less_trans)
  with assms(2) show ?thesis
    by (simp add: reserve_control_Ok LeaseToken_new_def) (simp add: current_generation_def)
qed

lemma validate_stale:
  "lt_generation tok < current_generation t r \<Longrightarrow>
    \<exists>e. validate t r s ow tok operation = Err e \<and> he_name e = ErrorName ''runtime.lease.stale_generation''"
  by (simp add: validate_def current_generation_def)

lemma errs_leases [errs]:
  assumes "valid_identifier (ResourceId_as_str r)"
  shows "errs_wf (fst (reserve_control t i r s ow))"
    and "valid_identifier operation \<Longrightarrow> errs_wf (validate t r s ow tok operation)"
  using assms by (auto simp: reserve_control_def validate_def Let_def
      intro!: errs_wf_and_then split: option.splits) (simp_all add: identifier_eval)

section \<open>Properties\<close>

text \<open>
  C19. Authorisation: after any sequence of lease operations, \<open>validate\<close> accepts a session,
  owner and token for a resource exactly when they are the ones of its entry in the table, whether
  that lease has been committed or is still a reservation (\<open>c\<close> is the flag of the entry).
\<close>

theorem validate_exact:
  "validate (lease_run ops LeaseTable_default) r s ow tok operation = Ok ()
     \<longleftrightarrow> (\<exists>c. lease_holder (lease_run ops LeaseTable_default) r = Some (s, ow, tok, c))"
  by (simp add: validate_Ok)

text \<open>
  C20. Retired tokens stay dead: if lease identifiers are drawn at most once, a token whose
  lease has been released is rejected for every resource, session, owner and operation, after
  any further sequence of lease operations.
\<close>

theorem retired_token_rejected:
  assumes "distinct (drawn_ids (before @ after))"
    and "t = lease_run before LeaseTable_default"
    and "lease_holder t r = Some (s, ow, tok, c)"
  shows "validate (lease_run after (snd (release t r s))) r' s' ow' tok operation \<noteq> Ok ()"
proof -
  let ?t = "snd (release t r s)" and ?i = "lt_lease_id tok"
  have wf: "lease_table_wf t" "lease_table_wf ?t" by (simp_all add: assms(2) release_wf)
  obtain b where rel: "release t r s = (b, ?t)" by (metis prod.collapse)
  have inj: "inj_on snd (leases.held_ids t)"
    unfolding assms(2) using assms(1) by (intro lease_run_inj_ids) auto
  have held: "(r, ?i) \<in> leases.held_ids t"
    using assms(3) by (auto simp: leases.held_ids_def)
  have none: "lease_holder ?t r = None"
    using leases.giveup [OF wf(1) rel] assms(3) by auto
  have "?i \<notin> snd ` leases.held_ids ?t"
  proof
    assume "?i \<in> snd ` leases.held_ids ?t"
    then obtain q where q: "(q, ?i) \<in> leases.held_ids ?t" by force
    with leases.held_ids_giveup [OF wf(1) rel] inj held have "q = r"
      by (force simp: inj_on_def)
    with q none show False by (simp add: leases.held_ids_def)
  qed
  moreover have "?i \<notin> set (drawn_ids after)"
    using lease_run_not_held [of LeaseTable_default ?i before] held assms(1,2)
    by (force simp: image_iff)
  ultimately have "?i \<notin> snd ` leases.held_ids (lease_run after ?t)"
    using wf(2) by (rule lease_run_not_held [rotated])
  then show ?thesis
    using wf(2) by (intro leases.not_held_rejected) (force intro: lease_run_wf)+
qed

lemma retired_token_rejected_witness:
  "let r = ResourceId ''arm''; a = SessionId ''s1''; b = SessionId ''s2''; ow = OwnerId ''o'';
       i = LeaseId ''i1''; j = LeaseId ''i2''; tok = LeaseToken_new i 1 Control
   in validate (lease_run [OpReserve j r b ow]
        (snd (release (lease_run [OpReserve i r a ow, OpCommit r a tok] LeaseTable_default) r a)))
        r a ow tok ''serial.read'' \<noteq> Ok ()"
  unfolding Let_def
  by (rule retired_token_rejected [where before = "[OpReserve (LeaseId ''i1'') (ResourceId ''arm'') (SessionId ''s1'') (OwnerId ''o''),
        OpCommit (ResourceId ''arm'') (SessionId ''s1'') (LeaseToken_new (LeaseId ''i1'') 1 Control)]"])
    (simp_all add: LeaseTable_default_def reserve_control_def commit_def lease_holder_def
      LeaseToken_new_def checked_add_def Let_def)

text \<open>
  C21. Generation fencing: once a committed lease of generation \<open>g\<close> has been released, every
  lease granted on that resource after any further operations has a generation above \<open>g\<close>,
  and the old token is then reported as stale, whatever the freshness of the identifiers.
\<close>

theorem committed_generation_fenced:
  assumes "lease_table_wf t" "lease_holder t r = Some (s, ow, tok, True)"
    and "reserve_control (lease_run ops (snd (release t r s))) i r s' ow' = (Ok tok', t')"
  shows "lt_generation tok < lt_generation tok' \<and>
    (\<exists>e. validate t' r s'' ow'' tok operation = Err e \<and> he_name e = ErrorName ''runtime.lease.stale_generation'')"
proof -
  have "fenced (lease_run ops (snd (release t r s))) r (lt_generation tok)"
    using assms(1,2) by (intro fenced_run release_wf fenced_after_release)
  from reserve_above_fence [OF this assms(3)] show ?thesis
    by (simp add: validate_stale)
qed

lemma committed_generation_fenced_witness:
  "\<exists>t t' tok tok' e. lease_table_wf t
     \<and> reserve_control (snd (release t (ResourceId ''arm'') (SessionId ''a''))) (LeaseId ''i'')
          (ResourceId ''arm'') (SessionId ''b'') (OwnerId ''o'') = (Ok tok', t')
     \<and> lt_generation tok < lt_generation tok'
     \<and> validate t' (ResourceId ''arm'') (SessionId ''a'') (OwnerId ''o'') tok ''serial.read'' = Err e"
proof -
  let ?r = "ResourceId ''arm''" and ?a = "SessionId ''a''" and ?o = "OwnerId ''o''" and ?i = "LeaseId ''i''"
  let ?tok = "LeaseToken_new ?i 7 Control"
  let ?t = "\<lparr>tb_current_generations = [(?r, 7)], tb_active = [(?r, \<lparr>al_session_id = ?a,
      al_owner_id = ?o, al_token = ?tok, al_committed = True\<rparr>)]\<rparr>"
  have wf: "lease_table_wf ?t" and held: "lease_holder ?t ?r = Some (?a, ?o, ?tok, True)"
    by (auto simp: lease_table_wf_def lease_holder_def LeaseToken_new_def)
  obtain tok' t' where res: "reserve_control (lease_run [] (snd (release ?t ?r ?a))) ?i ?r (SessionId ''b'') ?o = (Ok tok', t')"
    by (simp add: release_def reserve_control_def Let_def checked_add_def)
  from committed_generation_fenced [OF wf held res, of ?a ?o "''serial.read''"] wf res
  show ?thesis unfolding lease_run_Nil by blast
qed

text \<open>
  Rollback: releasing a reservation that was never committed restores the table exactly as
  it was before the reservation, generations included, and reports that nothing was exposed.
\<close>

theorem reservation_rollback:
  assumes "lease_table_wf t" "reserve_control t i r s ow = (Ok tok, t')"
  shows "release t' r s = (False, t)"
proof -
  have free: "hm_get (tb_active t) r = None" and room: "current_generation t r \<noteq> - 1"
    using assms(2) by (simp_all add: reserve_control_Ok)
  have t': "t' = snd (reserve_control t i r s ow)" using assms(2) by simp
  note facts = free reserve_control_free [OF free room] assms(1) word_add_one_neq_0 [OF room]
  show ?thesis
  proof (cases "hm_get (tb_current_generations t) r")
    case None
    then have "current_generation t r = 0" by (simp add: current_generation_def)
    with None facts show ?thesis
      by (simp add: t' release_def Let_def LeaseToken_new_def hm_remove_insert)
  next
    case (Some g)
    then have "current_generation t r = g" "g \<noteq> 0"
      using assms(1) by (auto simp: current_generation_def lease_table_wf_def)
    with Some facts show ?thesis
      by (simp add: t' release_def Let_def LeaseToken_new_def hm_remove_insert hm_insert_same)
  qed
qed

lemma reservation_rollback_witness:
  "release (snd (reserve_control LeaseTable_default (LeaseId ''i'') (ResourceId ''arm'') (SessionId ''s'') (OwnerId ''o'')))
     (ResourceId ''arm'') (SessionId ''s'') = (False, LeaseTable_default)"
  by (rule reservation_rollback [where i = "LeaseId ''i''" and ow = "OwnerId ''o''"
        and tok = "LeaseToken_new (LeaseId ''i'') 1 Control"])
    (simp_all add: LeaseTable_default_def lease_table_wf_def reserve_control_def checked_add_def
      LeaseToken_new_def Let_def)

end
