(* ===== verification/Hal_Devices.thy ===== *)
theory Hal_Devices
  imports Hal_Core
begin

text \<open>
  The serial, USB and GPIO interface crates (\<open>src/crates/robot-hal-serial\<close>,
  \<open>robot-hal-usb\<close>, \<open>robot-hal-gpio\<close>): configuration types, transfers and edge requests with
  their validating constructors. A \<open>Duration\<close> is a number of nanoseconds.
\<close>

section \<open>Durations\<close>

type_synonym duration = nat

definition from_millis :: "u64 \<Rightarrow> duration" where
  "from_millis ms = unat ms * 1000000"

text \<open>Whole milliseconds, as \<open>as_millis\<close> truncates them.\<close>

definition as_millis :: "duration \<Rightarrow> nat" where
  "as_millis d = d div 1000000"

lemma as_millis_from_millis [simp]: "as_millis (from_millis ms) = unat ms"
  by (simp add: as_millis_def from_millis_def)

section \<open>Serial\<close>

datatype DataBits = Five | Six | Seven | Eight
datatype Parity = ParityNone | Odd | Even
datatype StopBits = One | Two
datatype FlowControl = FlowNone | Software | HardwareFlow

record ControlLines =
  cl_data_terminal_ready :: bool
  cl_request_to_send :: bool

record SerialConfig =
  sc_baud_rate :: u32
  sc_data_bits :: DataBits
  sc_parity :: Parity
  sc_stop_bits :: StopBits
  sc_flow_control :: FlowControl
  sc_read_timeout :: duration

definition SerialConfig_default :: SerialConfig where
  "SerialConfig_default = \<lparr>sc_baud_rate = 115200, sc_data_bits = Eight, sc_parity = ParityNone,
     sc_stop_bits = One, sc_flow_control = FlowNone, sc_read_timeout = from_millis 100\<rparr>"

section \<open>USB\<close>

definition MAX_USB_TRANSFER_BYTES :: usize where "MAX_USB_TRANSFER_BYTES = 16 * 1024"
definition MAX_USB_PENDING_TRANSFERS :: usize where "MAX_USB_PENDING_TRANSFERS = 64"
definition MAX_USB_INTERFACE_NUMBER :: usize where "MAX_USB_INTERFACE_NUMBER = 255"

datatype UsbInterfaceClaim = UsbInterfaceClaim (claim_number: u8)

definition UsbInterfaceClaim_new :: "usize \<Rightarrow> UsbInterfaceClaim hal_result" where
  "UsbInterfaceClaim_new interface =
     (if interface > MAX_USB_INTERFACE_NUMBER then
        and_then (HalError_new ''usb.interface.invalid'' InvalidArgument ''usb.interface_claim'' False
          ''USB interface number is outside the u8 range'') Err
      else Ok (UsbInterfaceClaim (of_nat interface)))"

datatype UsbTransfer =
    ControlOut u8 u8 u16 u16 "u8 list"
  | ControlIn u8 u8 u16 u16 usize
  | BulkOut u8 "u8 list"
  | BulkIn u8 usize
  | InterruptOut u8 "u8 list"
  | InterruptIn u8 usize

definition invalid_transfer :: "string \<Rightarrow> HalError" where
  "invalid_transfer message = hal_error ''usb.transfer.invalid'' InvalidArgument ''usb.transfer'' False message"

definition validate_control_direction :: "u8 \<Rightarrow> bool \<Rightarrow> unit hal_result" where
  "validate_control_direction request_type input =
     (if ((request_type AND 0x80) \<noteq> 0) \<noteq> input
      then Err (invalid_transfer ''control request direction does not match transfer'') else Ok ())"

definition validate_endpoint :: "u8 \<Rightarrow> bool \<Rightarrow> unit hal_result" where
  "validate_endpoint endpoint input =
     (if endpoint AND 0x0f = 0 \<or> ((endpoint AND 0x80) \<noteq> 0) \<noteq> input
      then Err (invalid_transfer ''endpoint direction or number is invalid'') else Ok ())"

definition validate_size :: "usize \<Rightarrow> unit hal_result" where
  "validate_size len =
     (if len > MAX_USB_TRANSFER_BYTES
      then Err (invalid_transfer ''transfer payload exceeds the bound'') else Ok ())"

fun UsbTransfer_validate :: "UsbTransfer \<Rightarrow> unit hal_result" where
  "UsbTransfer_validate (ControlOut request_type request value index data) =
     and_then (validate_control_direction request_type False) (\<lambda>_. validate_size (length data))"
| "UsbTransfer_validate (ControlIn request_type request value index max_bytes) =
     and_then (validate_control_direction request_type True) (\<lambda>_. validate_size max_bytes)"
| "UsbTransfer_validate (BulkOut endpoint data) =
     and_then (validate_endpoint endpoint False) (\<lambda>_. validate_size (length data))"
| "UsbTransfer_validate (InterruptOut endpoint data) =
     and_then (validate_endpoint endpoint False) (\<lambda>_. validate_size (length data))"
| "UsbTransfer_validate (BulkIn endpoint max_bytes) =
     and_then (validate_endpoint endpoint True) (\<lambda>_. validate_size max_bytes)"
| "UsbTransfer_validate (InterruptIn endpoint max_bytes) =
     and_then (validate_endpoint endpoint True) (\<lambda>_. validate_size max_bytes)"

text \<open>Every constructor builds the transfer and validates it.\<close>

definition validated_transfer :: "UsbTransfer \<Rightarrow> UsbTransfer hal_result" where
  "validated_transfer transfer = and_then (UsbTransfer_validate transfer) (\<lambda>_. Ok transfer)"

definition control_out :: "u8 \<Rightarrow> u8 \<Rightarrow> u16 \<Rightarrow> u16 \<Rightarrow> u8 list \<Rightarrow> UsbTransfer hal_result" where
  "control_out request_type request value index data =
     validated_transfer (ControlOut request_type request value index data)"

definition control_in :: "u8 \<Rightarrow> u8 \<Rightarrow> u16 \<Rightarrow> u16 \<Rightarrow> usize \<Rightarrow> UsbTransfer hal_result" where
  "control_in request_type request value index max_bytes =
     validated_transfer (ControlIn request_type request value index max_bytes)"

definition bulk_out :: "u8 \<Rightarrow> u8 list \<Rightarrow> UsbTransfer hal_result" where
  "bulk_out endpoint data = validated_transfer (BulkOut endpoint data)"

definition bulk_in :: "u8 \<Rightarrow> usize \<Rightarrow> UsbTransfer hal_result" where
  "bulk_in endpoint max_bytes = validated_transfer (BulkIn endpoint max_bytes)"

definition interrupt_out :: "u8 \<Rightarrow> u8 list \<Rightarrow> UsbTransfer hal_result" where
  "interrupt_out endpoint data = validated_transfer (InterruptOut endpoint data)"

definition interrupt_in :: "u8 \<Rightarrow> usize \<Rightarrow> UsbTransfer hal_result" where
  "interrupt_in endpoint max_bytes = validated_transfer (InterruptIn endpoint max_bytes)"

lemmas usb_constructor_defs = control_out_def control_in_def bulk_out_def bulk_in_def interrupt_out_def
  interrupt_in_def

section \<open>GPIO\<close>

definition MAX_GPIO_EVENTS :: usize where "MAX_GPIO_EVENTS = 1024"
definition DEFAULT_GPIO_EVENT_CAPACITY :: usize where "DEFAULT_GPIO_EVENT_CAPACITY = 256"

datatype GpioBias = Disabled | PullUp | PullDown
datatype GpioDrive = PushPull | OpenDrain | OpenSource
datatype GpioDirection = Input | Output

record GpioLineConfig =
  gl_direction :: GpioDirection
  gl_active_low :: bool
  gl_bias :: GpioBias
  gl_drive :: "GpioDrive option"
  gl_initial_value :: "bool option"

definition GpioLineConfig_input :: "bool \<Rightarrow> GpioBias \<Rightarrow> GpioLineConfig hal_result" where
  "GpioLineConfig_input active_low bias =
     Ok \<lparr>gl_direction = Input, gl_active_low = active_low, gl_bias = bias, gl_drive = None,
         gl_initial_value = None\<rparr>"

definition GpioLineConfig_output :: "bool \<Rightarrow> bool \<Rightarrow> GpioDrive \<Rightarrow> GpioLineConfig hal_result" where
  "GpioLineConfig_output active_low initial_value drive =
     Ok \<lparr>gl_direction = Output, gl_active_low = active_low, gl_bias = Disabled, gl_drive = Some drive,
         gl_initial_value = Some initial_value\<rparr>"

datatype GpioEdge = Rising | Falling

datatype EdgeMask = EdgeMask (edge_bits: u8)

definition EDGE_RISING :: EdgeMask where "EDGE_RISING = EdgeMask 0b01"
definition EDGE_FALLING :: EdgeMask where "EDGE_FALLING = EdgeMask 0b10"
definition EDGE_BOTH :: EdgeMask where "EDGE_BOTH = EdgeMask 0b11"
definition EDGE_EMPTY :: EdgeMask where "EDGE_EMPTY = EdgeMask 0"

lemmas edge_masks = EDGE_RISING_def EDGE_FALLING_def EDGE_BOTH_def EDGE_EMPTY_def

definition EdgeMask_contains :: "EdgeMask \<Rightarrow> GpioEdge \<Rightarrow> bool" where
  "EdgeMask_contains m edge \<longleftrightarrow>
     edge_bits m AND (case edge of Rising \<Rightarrow> edge_bits EDGE_RISING | Falling \<Rightarrow> edge_bits EDGE_FALLING) \<noteq> 0"

record GpioEdgeRequest =
  er_edges :: EdgeMask
  er_capacity :: usize

definition GpioEdgeRequest_new :: "EdgeMask \<Rightarrow> usize \<Rightarrow> GpioEdgeRequest hal_result" where
  "GpioEdgeRequest_new edges capacity =
     (if edge_bits edges = 0 \<or> capacity = 0 \<or> capacity > MAX_GPIO_EVENTS then
        and_then (HalError_new ''gpio.edge_request.invalid'' InvalidArgument ''gpio.edge_request'' False
          ''edge request must select edges and use a bounded non-zero capacity'') Err
      else Ok \<lparr>er_edges = edges, er_capacity = capacity\<rparr>)"

record GpioEdgeEvent =
  ge_edge :: GpioEdge
  ge_monotonic_ns :: u64
  ge_sequence :: u64

section \<open>Well-formed values\<close>

text \<open>
  A transfer respects the USB direction bit (bit 7 of the request type or of the endpoint
  address), uses a non-zero endpoint number and stays within the transfer bound.
\<close>

definition endpoint_ok :: "u8 \<Rightarrow> bool \<Rightarrow> bool" where
  "endpoint_ok endpoint input \<longleftrightarrow> bit endpoint 7 = input \<and> take_bit 4 endpoint \<noteq> 0"

fun usb_transfer_wf :: "UsbTransfer \<Rightarrow> bool" where
  "usb_transfer_wf (ControlOut rt rq v ix d) = (\<not> bit rt 7 \<and> length d \<le> 16384)"
| "usb_transfer_wf (ControlIn rt rq v ix n) = (bit rt 7 \<and> n \<le> 16384)"
| "usb_transfer_wf (BulkOut e d) = (endpoint_ok e False \<and> length d \<le> 16384)"
| "usb_transfer_wf (InterruptOut e d) = (endpoint_ok e False \<and> length d \<le> 16384)"
| "usb_transfer_wf (BulkIn e n) = (endpoint_ok e True \<and> n \<le> 16384)"
| "usb_transfer_wf (InterruptIn e n) = (endpoint_ok e True \<and> n \<le> 16384)"

text \<open>Drive and initial value belong to outputs; an output has no bias.\<close>

definition gpio_config_wf :: "GpioLineConfig \<Rightarrow> bool" where
  "gpio_config_wf c \<longleftrightarrow> (case gl_direction c of
       Input \<Rightarrow> gl_drive c = None \<and> gl_initial_value c = None
     | Output \<Rightarrow> gl_drive c \<noteq> None \<and> gl_initial_value c \<noteq> None \<and> gl_bias c = Disabled)"

definition edge_request_wf :: "GpioEdgeRequest \<Rightarrow> bool" where
  "edge_request_wf r \<longleftrightarrow> edge_bits (er_edges r) \<noteq> 0 \<and> 0 < er_capacity r \<and> er_capacity r \<le> 1024"

lemma direction_bit: "(w :: u8) AND 0x80 \<noteq> 0 \<longleftrightarrow> bit w 7"
  using bit_iff_and_push_bit_not_eq_0 [of w 7] by simp

lemma endpoint_number: "(w :: u8) AND 0x0f = take_bit 4 w"
  by (simp add: take_bit_eq_mask mask_eq_exp_minus_1)

lemma validate_usb_Ok [simp, ok_simps]:
  "validate_control_direction rt inp = Ok u \<longleftrightarrow> bit rt 7 = inp"
  "validate_endpoint e inp = Ok u \<longleftrightarrow> endpoint_ok e inp"
  "validate_size n = Ok u \<longleftrightarrow> n \<le> 16384"
  by (auto simp: validate_control_direction_def validate_endpoint_def validate_size_def direction_bit
      endpoint_number endpoint_ok_def MAX_USB_TRANSFER_BYTES_def)

lemma UsbTransfer_validate_Ok [simp, ok_simps]: "UsbTransfer_validate t = Ok u \<longleftrightarrow> usb_transfer_wf t"
  by (cases t) auto

lemma validated_transfer_Ok [simp, ok_simps]: "validated_transfer t = Ok t' \<longleftrightarrow> t' = t \<and> usb_transfer_wf t"
  by (auto simp: validated_transfer_def)

lemma UsbInterfaceClaim_new_Ok [ok_simps]:
  "UsbInterfaceClaim_new n = Ok c \<longleftrightarrow> n \<le> 255 \<and> unat (claim_number c) = n"
proof -
  have "unat (of_nat n :: u8) = n" if "n \<le> 255"
    using that by (simp add: unat_of_nat)
  then show ?thesis
    by (cases c) (auto simp: UsbInterfaceClaim_new_def MAX_USB_INTERFACE_NUMBER_def word_unat_eq_iff
        unat_of_nat)
qed

lemma GpioEdgeRequest_new_Ok [ok_simps]:
  "GpioEdgeRequest_new e n = Ok r \<longleftrightarrow> r = \<lparr>er_edges = e, er_capacity = n\<rparr> \<and> edge_request_wf r"
  by (auto simp: GpioEdgeRequest_new_def edge_request_wf_def MAX_GPIO_EVENTS_def)

lemma gpio_config_Ok:
  "GpioLineConfig_input al b = Ok c \<Longrightarrow> gpio_config_wf c"
  "GpioLineConfig_output al v d = Ok c \<Longrightarrow> gpio_config_wf c"
  by (auto simp: GpioLineConfig_input_def GpioLineConfig_output_def gpio_config_wf_def)

lemma errs_devices [errs]:
  "errs_wf (UsbInterfaceClaim_new n)" "errs_wf (UsbTransfer_validate t)" "errs_wf (validated_transfer t)"
  "errs_wf (GpioEdgeRequest_new e k)"
proof -
  have i: "hal_error_wf (invalid_transfer m)" for m by (simp add: invalid_transfer_def identifier_eval)
  have *: "errs_wf (validate_control_direction rt inp)" "errs_wf (validate_endpoint e inp)" "errs_wf (validate_size n)"
    for rt inp e n
    by (auto simp: validate_control_direction_def validate_endpoint_def validate_size_def i)
  have n: "errs_wf (and_then (HalError_new nm c op r m) Err)"
    if "valid_identifier nm" "valid_identifier op" for nm c op r m
    using that by (auto intro!: errs_wf_and_then simp: HalError_new_Ok)
  show t: "errs_wf (UsbTransfer_validate t)" for t by (cases t) (auto intro!: errs_wf_and_then simp: *)
  then show "errs_wf (validated_transfer t)" by (auto simp: validated_transfer_def intro!: errs_wf_and_then)
  show "errs_wf (UsbInterfaceClaim_new n)"
    unfolding UsbInterfaceClaim_new_def by (auto intro!: n simp: identifier_eval)
  show "errs_wf (GpioEdgeRequest_new e k)"
    unfolding GpioEdgeRequest_new_def by (auto intro!: n simp: identifier_eval)
qed

end
