(* ===== verification/Runtime_Registry.thy ===== *)
theory Runtime_Registry
  imports Lease_Table Hal_Devices
begin

text \<open>
  The registry of serial sessions (\<open>src/crates/robot-hal-runtime/src/registry.rs\<close>) and the
  handle side of the serial actor (\<open>serial_actor.rs\<close>). The registry is a client of the lease
  contract: its lemmas use only the facts of the interpretation \<open>leases\<close>. Watch channels are
  values: a field for the current value of \<open>open_cancel\<close>, and a returned signal for what is
  sent on \<open>done\<close> when an entry leaves the registry. The command channel is third-party code:
  the outcome of \<open>try_send\<close> on it is given by a function argument.
\<close>

section \<open>Definitions\<close>

text \<open>A command carries the identity of its one-shot reply channel.\<close>

datatype SerialCommand =
    SerialRead usize nat
  | SerialWrite "u8 list" nat
  | SerialFlush nat
  | SerialSetControlLines ControlLines nat

fun command_reply :: "SerialCommand \<Rightarrow> nat" where
  "command_reply (SerialRead max_bytes reply) = reply"
| "command_reply (SerialWrite bytes reply) = reply"
| "command_reply (SerialFlush reply) = reply"
| "command_reply (SerialSetControlLines lines reply) = reply"

definition serial_session_closed :: "string \<Rightarrow> HalError" where
  "serial_session_closed operation =
     runtime_error ''runtime.session.closed'' Conflict operation False ''the serial session is closed''"

text \<open>What \<open>reject_closed\<close> sends to the command's reply channel.\<close>

fun reject_closed :: "SerialCommand \<Rightarrow> HalError" where
  "reject_closed (SerialRead max_bytes reply) = serial_session_closed ''serial.read''"
| "reject_closed (SerialWrite bytes reply) = serial_session_closed ''serial.write''"
| "reject_closed (SerialFlush reply) = serial_session_closed ''serial.flush''"
| "reject_closed (SerialSetControlLines lines reply) = serial_session_closed ''serial.set_control_lines''"

definition COMMAND_QUEUE_CAPACITY :: usize where "COMMAND_QUEUE_CAPACITY = 64"

datatype TrySendError = TrySendFull | TrySendClosed

text \<open>An actor handle names the channels of one spawned actor.\<close>

datatype ActorHandle = ActorHandle nat

definition try_enqueue :: "(unit, TrySendError) result \<Rightarrow> string \<Rightarrow> unit hal_result" where
  "try_enqueue sent operation =
     map_err (\<lambda>error. case error of
         TrySendFull \<Rightarrow> runtime_error ''runtime.queue.full'' Unavailable operation True
           ''the bounded serial actor command queue has reached its 64-command capacity''
       | TrySendClosed \<Rightarrow> serial_session_closed operation) sent"

record SessionEntry =
  se_resource_id :: ResourceId
  se_owner_id :: OwnerId
  se_lease :: LeaseToken
  se_state :: SessionLifecycle
  se_actor :: "ActorHandle option"
  se_open_cancel :: bool

datatype CloseAction = AlreadyClosed | Wait ActorHandle ResourceId

record RevokeTarget =
  rt_actor :: "ActorHandle option"
  rt_session_id :: SessionId
  rt_resource_id :: ResourceId

record Registry =
  rg_leases :: LeaseTable
  rg_sessions :: "(SessionId, SessionEntry) hashmap"
  rg_closed_sessions :: "(SessionId, LeaseToken) hashmap"
  rg_closed_order :: "SessionId list"

definition CLOSED_SESSION_CAPACITY :: usize where "CLOSED_SESSION_CAPACITY = 256"

definition Registry_default :: Registry where
  "Registry_default = \<lparr>rg_leases = LeaseTable_default, rg_sessions = [], rg_closed_sessions = [],
     rg_closed_order = []\<rparr>"

definition reserve_open ::
  "Registry \<Rightarrow> LeaseId \<Rightarrow> ResourceId \<Rightarrow> SessionId \<Rightarrow> OwnerId \<Rightarrow> LeaseToken hal_result \<times> Registry" where
  "reserve_open g new_id resource_id session_id owner_id =
     (case reserve_control (rg_leases g) new_id resource_id session_id owner_id of
        (Err e, leases) \<Rightarrow> (Err e, g\<lparr>rg_leases := leases\<rparr>)
      | (Ok lease, leases) \<Rightarrow>
          (Ok lease, g\<lparr>rg_leases := leases, rg_sessions := hm_insert session_id
             \<lparr>se_resource_id = resource_id, se_owner_id = owner_id, se_lease = lease,
              se_state = Opening, se_actor = None, se_open_cancel = False\<rparr> (rg_sessions g)\<rparr>))"

definition finish_open ::
  "Registry \<Rightarrow> SessionId \<Rightarrow> ActorHandle \<Rightarrow> EventPublisher \<Rightarrow> bool \<times> Registry \<times> EventPublisher" where
  "finish_open g session_id actor events =
     (case hm_get (rg_sessions g) session_id of
        None \<Rightarrow> (False, g, events)
      | Some entry \<Rightarrow>
          let entry = entry\<lparr>se_actor := Some actor\<rparr>;
              g = g\<lparr>rg_sessions := hm_insert session_id entry (rg_sessions g)\<rparr>
          in if is_closing (se_state entry) then (False, g, events)
             else case commit (rg_leases g) (se_resource_id entry) session_id (se_lease entry) of
                 (False, leases) \<Rightarrow> (False, g\<lparr>rg_leases := leases\<rparr>, events)
               | (True, leases) \<Rightarrow>
                  (case commit_open ''serial.open'' (se_state entry) of
                     Err e \<Rightarrow> (False, g\<lparr>rg_leases := leases\<rparr>, events)
                   | Ok state \<Rightarrow>
                       (True,
                        g\<lparr>rg_leases := leases,
                          rg_sessions := hm_insert session_id (entry\<lparr>se_state := state\<rparr>) (rg_sessions g)\<rparr>,
                        publish SessionOpened (se_resource_id entry) session_id (se_owner_id entry)
                          (lt_generation (se_lease entry)) events)))"

text \<open>The signal is what is sent on the \<open>done\<close> channel of the removed entry.\<close>

definition cancel_open :: "Registry \<Rightarrow> SessionId \<Rightarrow> Registry \<times> (unit hal_result) option" where
  "cancel_open g session_id =
     (case hm_get (rg_sessions g) session_id of
        None \<Rightarrow> (g, None)
      | Some entry \<Rightarrow>
          (g\<lparr>rg_sessions := hm_remove session_id (rg_sessions g),
             rg_leases := snd (release (rg_leases g) (se_resource_id entry) session_id)\<rparr>,
           Some (Ok ())))"

definition session_not_found :: "string \<Rightarrow> HalError" where
  "session_not_found operation =
     runtime_error ''runtime.session.not_found'' NotFound operation False ''the serial session ID is unknown''"

definition validate_closed_lease :: "LeaseToken \<Rightarrow> LeaseToken \<Rightarrow> string \<Rightarrow> unit hal_result" where
  "validate_closed_lease closed supplied operation =
     (if lt_generation supplied < lt_generation closed then
        Err (runtime_error ''runtime.lease.stale_generation'' Conflict operation False
          ''the supplied lease generation predates the closed session generation'')
      else if supplied \<noteq> closed then
        Err (runtime_error ''runtime.lease.invalid_token'' Conflict operation False
          ''the supplied lease token does not match the closed session'')
      else Ok ())"

definition missing_session_error :: "Registry \<Rightarrow> SessionId \<Rightarrow> LeaseToken \<Rightarrow> string \<Rightarrow> HalError" where
  "missing_session_error g session_id lease operation =
     (case hm_get (rg_closed_sessions g) session_id of
        None \<Rightarrow> session_not_found operation
      | Some closed \<Rightarrow>
          (case validate_closed_lease closed lease operation of
             Ok _ \<Rightarrow> serial_session_closed operation
           | Err error \<Rightarrow> error))"

definition actor_missing :: "string \<Rightarrow> string \<Rightarrow> HalError" where
  "actor_missing operation message =
     runtime_error ''runtime.actor.unavailable'' Internal operation False message"

text \<open>\<open>try_send\<close> is the outcome of the channel's own \<open>try_send\<close> for the actor found.\<close>

definition enqueue ::
  "Registry \<Rightarrow> SessionId \<Rightarrow> LeaseToken \<Rightarrow> (ActorHandle \<Rightarrow> (unit, TrySendError) result) \<Rightarrow> string
     \<Rightarrow> ResourceId hal_result" where
  "enqueue g session_id lease try_send operation =
     (case hm_get (rg_sessions g) session_id of
        None \<Rightarrow> Err (missing_session_error g session_id lease operation)
      | Some entry \<Rightarrow>
          and_then (validate (rg_leases g) (se_resource_id entry) session_id (se_owner_id entry) lease operation)
          (\<lambda>_. and_then (map_err (with_resource_id (se_resource_id entry)) (admit_io operation (se_state entry)))
          (\<lambda>_. and_then (ok_or (with_resource_id (se_resource_id entry)
               (actor_missing operation ''the active serial session has no actor'')) (se_actor entry))
          (\<lambda>actor. and_then (map_err (with_resource_id (se_resource_id entry))
               (try_enqueue (try_send actor) operation))
          (\<lambda>_. Ok (se_resource_id entry))))))"

definition closed_close_result :: "Registry \<Rightarrow> SessionId \<Rightarrow> LeaseToken \<Rightarrow> CloseAction hal_result" where
  "closed_close_result g session_id lease =
     (case hm_get (rg_closed_sessions g) session_id of
        None \<Rightarrow> Err (session_not_found ''serial.close'')
      | Some closed \<Rightarrow>
          and_then (validate_closed_lease closed lease ''serial.close'') (\<lambda>_. Ok AlreadyClosed))"

definition begin_close :: "Registry \<Rightarrow> SessionId \<Rightarrow> LeaseToken \<Rightarrow> CloseAction hal_result \<times> Registry" where
  "begin_close g session_id lease =
     (case hm_get (rg_sessions g) session_id of
        None \<Rightarrow> (closed_close_result g session_id lease, g)
      | Some entry \<Rightarrow>
         (case validate (rg_leases g) (se_resource_id entry) session_id (se_owner_id entry) lease ''serial.close'' of
            Err e \<Rightarrow> (Err e, g)
          | Ok _ \<Rightarrow>
             (case lifecycle_begin_close ''serial.close'' (se_state entry) of
                Err e \<Rightarrow> (Err e, g)
              | Ok state \<Rightarrow>
                 (and_then (ok_or (with_resource_id (se_resource_id entry)
                      (actor_missing ''serial.close'' ''the serial session is still opening and has no actor''))
                      (se_actor entry))
                    (\<lambda>actor. Ok (Wait actor (se_resource_id entry))),
                  g\<lparr>rg_sessions := hm_insert session_id (entry\<lparr>se_state := state\<rparr>) (rg_sessions g)\<rparr>))))"

definition revoke_entry :: "SessionEntry \<Rightarrow> SessionEntry" where
  "revoke_entry entry =
     (let entry = entry\<lparr>se_state := (case lifecycle_begin_close ''runtime.owner.revoke'' (se_state entry) of
              Ok state \<Rightarrow> state | Err e \<Rightarrow> Closing)\<rparr>
      in if se_actor entry = None then entry\<lparr>se_open_cancel := True\<rparr> else entry)"

definition begin_revoke :: "Registry \<Rightarrow> OwnerId \<Rightarrow> RevokeTarget list \<times> Registry" where
  "begin_revoke g owner_id =
     (map (\<lambda>(session_id, entry). \<lparr>rt_actor = se_actor entry, rt_session_id = session_id,
            rt_resource_id = se_resource_id entry\<rparr>)
        (filter (\<lambda>(session_id, entry). se_owner_id entry = owner_id) (rg_sessions g)),
      g\<lparr>rg_sessions := hm_map (\<lambda>session_id entry.
          if se_owner_id entry = owner_id then revoke_entry entry else entry) (rg_sessions g)\<rparr>)"

text \<open>The \<open>while\<close> loop of \<open>remember_closed\<close> drops the oldest remembered sessions.\<close>

fun expire_closed ::
  "SessionId list \<Rightarrow> (SessionId, LeaseToken) hashmap \<Rightarrow> SessionId list \<times> (SessionId, LeaseToken) hashmap" where
  "expire_closed [] closed = ([], closed)"
| "expire_closed (expired # order) closed =
     (if length (expired # order) \<ge> CLOSED_SESSION_CAPACITY
      then expire_closed order (hm_remove expired closed)
      else (expired # order, closed))"

definition remember_closed :: "Registry \<Rightarrow> SessionId \<Rightarrow> LeaseToken \<Rightarrow> Registry" where
  "remember_closed g session_id lease =
     (if hm_contains (rg_closed_sessions g) session_id then g
      else case expire_closed (rg_closed_order g) (rg_closed_sessions g) of (order, closed) \<Rightarrow>
        g\<lparr>rg_closed_order := order @ [session_id], rg_closed_sessions := hm_insert session_id lease closed\<rparr>)"

definition finish_close ::
  "Registry \<Rightarrow> SessionId \<Rightarrow> EventPublisher \<Rightarrow> unit hal_result
     \<Rightarrow> Registry \<times> EventPublisher \<times> (unit hal_result) option" where
  "finish_close g session_id events close_result =
     (case hm_get (rg_sessions g) session_id of
        None \<Rightarrow> (g, events, None)
      | Some entry \<Rightarrow>
          let g = g\<lparr>rg_sessions := hm_remove session_id (rg_sessions g)\<rparr> in
          case release (rg_leases g) (se_resource_id entry) session_id of
            (exposed, leases) \<Rightarrow>
              let g = g\<lparr>rg_leases := leases\<rparr> in
              if exposed then
                (remember_closed g session_id (se_lease entry),
                 publish SessionClosed (se_resource_id entry) session_id (se_owner_id entry)
                   (lt_generation (se_lease entry)) events,
                 Some close_result)
              else (g, events, Some close_result))"

section \<open>The invariant\<close>

text \<open>
  Sessions and leases correspond: every session holds the lease it was registered with, every
  lease in the table belongs to a registered session, an active session has a committed lease
  and an actor, and an opening one has neither.
\<close>

definition entry_wf :: "Registry \<Rightarrow> SessionId \<Rightarrow> SessionEntry \<Rightarrow> bool" where
  "entry_wf g s e \<longleftrightarrow> (\<exists>c. lease_holder (rg_leases g) (se_resource_id e) = Some (s, se_owner_id e, se_lease e, c)
     \<and> (se_state e = Active \<longrightarrow> c) \<and> (c \<longrightarrow> se_actor e \<noteq> None) \<and> (se_state e = Opening \<longrightarrow> se_actor e = None))"

definition closed_wf :: "Registry \<Rightarrow> bool" where
  "closed_wf g \<longleftrightarrow> hm_wf (rg_closed_sessions g) \<and> distinct (rg_closed_order g)
     \<and> set (rg_closed_order g) = dom (hm_get (rg_closed_sessions g))
     \<and> length (rg_closed_order g) \<le> CLOSED_SESSION_CAPACITY"

definition registry_wf :: "Registry \<Rightarrow> bool" where
  "registry_wf g \<longleftrightarrow> lease_table_wf (rg_leases g) \<and> hm_wf (rg_sessions g) \<and> closed_wf g
     \<and> (\<forall>s e. hm_get (rg_sessions g) s = Some e \<longrightarrow> entry_wf g s e)
     \<and> (\<forall>r s ow tok c. lease_holder (rg_leases g) r = Some (s, ow, tok, c) \<longrightarrow>
          (\<exists>e. hm_get (rg_sessions g) s = Some e \<and> se_resource_id e = r))"

lemma registry_wf_default [simp]: "registry_wf Registry_default"
  by (auto simp: registry_wf_def Registry_default_def closed_wf_def)

lemma registry_wfD:
  assumes "registry_wf g"
  shows "lease_table_wf (rg_leases g)" "hm_wf (rg_sessions g)" "closed_wf g"
    and "hm_get (rg_sessions g) s = Some e \<Longrightarrow> entry_wf g s e"
    and "lease_holder (rg_leases g) r = Some (s, ow, tok, c) \<Longrightarrow>
      \<exists>e. hm_get (rg_sessions g) s = Some e \<and> se_resource_id e = r"
  using assms by (auto simp: registry_wf_def)

lemma entry_holder:
  "registry_wf g \<Longrightarrow> hm_get (rg_sessions g) s = Some e \<Longrightarrow>
     \<exists>c. lease_holder (rg_leases g) (se_resource_id e) = Some (s, se_owner_id e, se_lease e, c)"
  by (drule registry_wfD(4)) (auto simp: entry_wf_def)

text \<open>No two sessions share a resource.\<close>

lemma session_of_resource_unique:
  assumes "registry_wf g" "hm_get (rg_sessions g) s = Some e" "hm_get (rg_sessions g) s' = Some e'"
    and "se_resource_id e = se_resource_id e'"
  shows "s = s'"
  using entry_holder [OF assms(1,2)] entry_holder [OF assms(1,3)] assms(4) by auto

lemma reserve_open_Err: "reserve_open g i r s ow = (Err e, g') \<Longrightarrow> g' = g"
  using reserve_control_Err
  by (auto simp: reserve_open_def split: prod.splits result.splits)

lemma reserve_open_Ok:
  assumes "reserve_open g i r s ow = (Ok tok, g')" "registry_wf g"
  obtains t where "reserve_control (rg_leases g) i r s ow = (Ok tok, t)"
    and "g' = g\<lparr>rg_leases := t, rg_sessions := hm_insert s \<lparr>se_resource_id = r, se_owner_id = ow,
       se_lease = tok, se_state = Opening, se_actor = None, se_open_cancel = False\<rparr> (rg_sessions g)\<rparr>"
    and "lease_table_wf t" "lease_holder (rg_leases g) r = None"
    and "lease_holder t = (lease_holder (rg_leases g))(r \<mapsto> (s, ow, tok, False))"
proof -
  from assms(1) obtain t where res: "reserve_control (rg_leases g) i r s ow = (Ok tok, t)"
    and g': "g' = g\<lparr>rg_leases := t, rg_sessions := hm_insert s \<lparr>se_resource_id = r, se_owner_id = ow,
       se_lease = tok, se_state = Opening, se_actor = None, se_open_cancel = False\<rparr> (rg_sessions g)\<rparr>"
    by (auto simp: reserve_open_def split: prod.splits result.splits)
  from leases.acquire_Ok [OF registry_wfD(1) [OF assms(2)] res] that [OF res g'] show ?thesis by simp
qed

lemma closed_wf_update [simp]:
  "closed_wf (g\<lparr>rg_leases := t\<rparr>) = closed_wf g" "closed_wf (g\<lparr>rg_sessions := m\<rparr>) = closed_wf g"
  by (simp_all add: closed_wf_def)

lemma registry_wf_reserve_open:
  assumes wf: "registry_wf g" and run: "reserve_open g i r s ow = (res, g')"
    and fresh: "hm_get (rg_sessions g) s = None"
  shows "registry_wf g'"
proof (cases res)
  case (Err e)
  with run have "g' = g" by (simp add: reserve_open_Err)
  with wf show ?thesis by simp
next
  case (Ok tok)
  with run have "reserve_open g i r s ow = (Ok tok, g')" by simp
  then obtain t where g': "g' = g\<lparr>rg_leases := t, rg_sessions := hm_insert s \<lparr>se_resource_id = r, se_owner_id = ow,
       se_lease = tok, se_state = Opening, se_actor = None, se_open_cancel = False\<rparr> (rg_sessions g)\<rparr>"
    and t: "lease_table_wf t" "lease_holder (rg_leases g) r = None"
        "lease_holder t = (lease_holder (rg_leases g))(r \<mapsto> (s, ow, tok, False))"
    using wf by (rule reserve_open_Ok)
  have fields: "rg_leases g' = t" "closed_wf g' = closed_wf g"
    and sess: "hm_get (rg_sessions g') = (hm_get (rg_sessions g))(s \<mapsto> \<lparr>se_resource_id = r, se_owner_id = ow,
       se_lease = tok, se_state = Opening, se_actor = None, se_open_cancel = False\<rparr>)"
    by (simp_all add: g')
  have old: "entry_wf g' s' e" if "hm_get (rg_sessions g) s' = Some e" for s' e
  proof -
    have "se_resource_id e \<noteq> r" using entry_holder [OF wf that] t(2) by auto
    with registry_wfD(4) [OF wf that] show ?thesis by (simp add: entry_wf_def fields t(3))
  qed
  have new: "entry_wf g' s \<lparr>se_resource_id = r, se_owner_id = ow,
       se_lease = tok, se_state = Opening, se_actor = None, se_open_cancel = False\<rparr>"
    by (auto simp: entry_wf_def fields t(3))
  have "entry_wf g' s' e" if "hm_get (rg_sessions g') s' = Some e" for s' e
    using that old new by (cases "s' = s") (auto simp: sess)
  moreover have "\<exists>e. hm_get (rg_sessions g') s' = Some e \<and> se_resource_id e = r'"
    if "lease_holder (rg_leases g') r' = Some (s', ow', tok', c)" for r' s' ow' tok' c
  proof (cases "r' = r")
    case True
    with that show ?thesis by (simp add: fields t(3) sess)
  next
    case False
    with that have "lease_holder (rg_leases g) r' = Some (s', ow', tok', c)" by (simp add: fields t(3))
    from registry_wfD(5) [OF wf this] fresh show ?thesis by (auto simp: sess)
  qed
  moreover have "hm_wf (rg_sessions g')" using registry_wfD(2) [OF wf] by (simp add: g')
  ultimately show ?thesis
    using t(1) registry_wfD(3) [OF wf] unfolding registry_wf_def fields by blast
qed

text \<open>Updating one entry without touching its identity.\<close>

lemma registry_wf_update_entry:
  assumes wf: "registry_wf g" and e: "hm_get (rg_sessions g) s = Some e"
    and same: "se_resource_id e' = se_resource_id e" "se_owner_id e' = se_owner_id e" "se_lease e' = se_lease e"
    and state: "se_state e' = Active \<Longrightarrow> se_state e = Active" "se_actor e \<noteq> None \<Longrightarrow> se_actor e' \<noteq> None"
      "se_state e' = Opening \<Longrightarrow> se_actor e' = None"
  shows "registry_wf (g\<lparr>rg_sessions := hm_insert s e' (rg_sessions g)\<rparr>)"
  unfolding registry_wf_def
proof (intro conjI allI impI)
  let ?g = "g\<lparr>rg_sessions := hm_insert s e' (rg_sessions g)\<rparr>"
  show "entry_wf ?g s1 e1" if "hm_get (rg_sessions ?g) s1 = Some e1" for s1 e1
    using that registry_wfD(4) [OF wf, of s1 e1] registry_wfD(4) [OF wf e] same state
    by (auto simp: entry_wf_def split: if_splits)
  show "\<exists>e. hm_get (rg_sessions ?g) s1 = Some e \<and> se_resource_id e = r"
    if "lease_holder (rg_leases ?g) r = Some (s1, ow, tok, c)" for r s1 ow tok c
    using that registry_wfD(5) [OF wf, of r s1 ow tok c] e same(1) by auto
qed (use wf in \<open>simp_all add: registry_wfD(1-3)\<close>)

lemma registry_wf_remove:
  assumes wf: "registry_wf g" and e: "hm_get (rg_sessions g) s = Some e"
    and rel: "release (rg_leases g) (se_resource_id e) s = (b, t)"
  shows "registry_wf (g\<lparr>rg_sessions := hm_remove s (rg_sessions g), rg_leases := t\<rparr>)"
  unfolding registry_wf_def
proof (intro conjI allI impI)
  let ?g = "g\<lparr>rg_sessions := hm_remove s (rg_sessions g), rg_leases := t\<rparr>"
  obtain c where c: "lease_holder (rg_leases g) (se_resource_id e) = Some (s, se_owner_id e, se_lease e, c)"
    using entry_holder [OF wf e] by blast
  from leases.giveup [OF registry_wfD(1) [OF wf] rel] c
  have t: "lease_table_wf t" "lease_holder t = (lease_holder (rg_leases g))(se_resource_id e := None)" by auto
  show "entry_wf ?g s1 e1" if "hm_get (rg_sessions ?g) s1 = Some e1" for s1 e1
  proof -
    from that have s1: "s1 \<noteq> s" "hm_get (rg_sessions g) s1 = Some e1" by (auto split: if_splits)
    with session_of_resource_unique [OF wf s1(2) e] have "se_resource_id e1 \<noteq> se_resource_id e" by auto
    with registry_wfD(4) [OF wf s1(2)] show ?thesis by (simp add: entry_wf_def t(2))
  qed
  show "\<exists>e. hm_get (rg_sessions ?g) s1 = Some e \<and> se_resource_id e = r"
    if "lease_holder (rg_leases ?g) r = Some (s1, ow, tok, c1)" for r s1 ow tok c1
  proof -
    from that have r: "r \<noteq> se_resource_id e" "lease_holder (rg_leases g) r = Some (s1, ow, tok, c1)"
      by (auto simp: t(2) split: if_splits)
    from registry_wfD(5) [OF wf r(2)] obtain e1 where "hm_get (rg_sessions g) s1 = Some e1" "se_resource_id e1 = r"
      by auto
    with r e show ?thesis by auto
  qed
  show "lease_table_wf (rg_leases ?g)" using t by simp
qed (use wf in \<open>simp_all add: registry_wfD(1-3)\<close>)

lemma registry_wf_cancel_open:
  assumes "registry_wf g"
  shows "registry_wf (fst (cancel_open g s))"
proof (cases "hm_get (rg_sessions g) s")
  case None
  with assms show ?thesis by (simp add: cancel_open_def)
next
  case (Some e)
  obtain b t where rel: "release (rg_leases g) (se_resource_id e) s = (b, t)" by fastforce
  from registry_wf_remove [OF assms Some rel] show ?thesis by (simp add: cancel_open_def Some rel)
qed

lemma registry_wf_begin_close:
  assumes "registry_wf g"
  shows "registry_wf (snd (begin_close g s lease))"
proof (cases "hm_get (rg_sessions g) s")
  case None
  with assms show ?thesis by (simp add: begin_close_def)
next
  case (Some e)
  have "registry_wf (g\<lparr>rg_sessions := hm_insert s (e\<lparr>se_state := Closing\<rparr>) (rg_sessions g)\<rparr>)"
    by (rule registry_wf_update_entry [OF assms Some]) simp_all
  with assms show ?thesis by (simp add: begin_close_def Some split: result.split)
qed

lemma revoke_entry_fields [simp]:
  "se_resource_id (revoke_entry e) = se_resource_id e" "se_owner_id (revoke_entry e) = se_owner_id e"
  "se_lease (revoke_entry e) = se_lease e" "se_actor (revoke_entry e) = se_actor e"
  "se_state (revoke_entry e) = Closing"
  by (simp_all add: revoke_entry_def Let_def)

lemma registry_wf_begin_revoke:
  assumes wf: "registry_wf g"
  shows "registry_wf (snd (begin_revoke g ow))"
proof -
  let ?g = "snd (begin_revoke g ow)"
  let ?f = "\<lambda>e. if se_owner_id e = ow then revoke_entry e else e"
  have f: "rg_leases ?g = rg_leases g" "closed_wf ?g = closed_wf g" "hm_wf (rg_sessions ?g) = hm_wf (rg_sessions g)"
    and sess: "hm_get (rg_sessions ?g) s = map_option ?f (hm_get (rg_sessions g) s)" for s
    by (simp_all add: begin_revoke_def hm_get_map)
  have "entry_wf ?g s e" if "hm_get (rg_sessions ?g) s = Some e" for s e
  proof -
    from that obtain e0 where e0: "hm_get (rg_sessions g) s = Some e0" "e = ?f e0" by (auto simp: sess)
    from registry_wfD(4) [OF wf e0(1)] show ?thesis
      by (cases "se_owner_id e0 = ow") (auto simp: entry_wf_def f e0(2))
  qed
  moreover have "\<exists>e. hm_get (rg_sessions ?g) s = Some e \<and> se_resource_id e = r"
    if "lease_holder (rg_leases ?g) r = Some (s, ow', tok, c)" for r s ow' tok c
  proof -
    from registry_wfD(5) [OF wf that [unfolded f]] obtain e
      where "hm_get (rg_sessions g) s = Some e" "se_resource_id e = r" by blast
    then show ?thesis by (simp add: sess)
  qed
  ultimately show ?thesis
    using registry_wfD(1-3) [OF wf] unfolding registry_wf_def f by blast
qed

subsection \<open>Remembered closed sessions\<close>

lemma expire_closed_length:
  "length (fst (expire_closed order closed)) < CLOSED_SESSION_CAPACITY"
  by (induction order closed rule: expire_closed.induct) (auto simp: CLOSED_SESSION_CAPACITY_def)

lemma expire_closed_wf:
  assumes "hm_wf closed" "distinct order" "set order = dom (hm_get closed)"
    and "expire_closed order closed = (order', closed')"
  shows "hm_wf closed' \<and> distinct order' \<and> set order' = dom (hm_get closed') \<and> suffix order' order
    \<and> (\<forall>s\<in>set order'. hm_get closed' s = hm_get closed s)"
  using assms
proof (induction order closed rule: expire_closed.induct)
  case (1 closed)
  then show ?case by simp
next
  case (2 x order closed)
  show ?case
  proof (cases "length (x # order) \<ge> CLOSED_SESSION_CAPACITY")
    case True
    have dom: "set order = dom (hm_get (hm_remove x closed))"
      using 2(3,4) by auto
    have "hm_wf closed' \<and> distinct order' \<and> set order' = dom (hm_get closed') \<and> suffix order' order
        \<and> (\<forall>s\<in>set order'. hm_get closed' s = hm_get (hm_remove x closed) s)"
      by (rule 2(1) [OF True _ _ dom]) (use 2(2,3,5) True in simp_all)
    moreover from this have "x \<notin> set order'"
      using 2(3) by (auto dest: set_mono_suffix)
    ultimately show ?thesis by (simp add: suffix_ConsI)
  next
    case False
    with 2(5) have "order' = x # order" "closed' = closed" by auto
    with 2(2-4) show ?thesis by simp
  qed
qed

lemma closed_wf_remember:
  assumes "closed_wf g"
  shows "closed_wf (remember_closed g s lease)"
proof (cases "hm_contains (rg_closed_sessions g) s")
  case True
  with assms show ?thesis by (simp add: remember_closed_def)
next
  case False
  obtain order closed where ex: "expire_closed (rg_closed_order g) (rg_closed_sessions g) = (order, closed)" by fastforce
  have c: "hm_wf closed" "distinct order" "set order = dom (hm_get closed)" "suffix order (rg_closed_order g)"
    using expire_closed_wf [OF _ _ _ ex] assms by (auto simp: closed_wf_def)
  have "s \<notin> set order"
    using False assms set_mono_suffix [OF c(4)] by (auto simp: closed_wf_def)
  moreover have "length order < CLOSED_SESSION_CAPACITY"
    using expire_closed_length [of "rg_closed_order g" "rg_closed_sessions g"] ex by simp
  ultimately show ?thesis
    using False c by (auto simp: remember_closed_def ex closed_wf_def)
qed

lemma remember_closed_fields [simp]:
  "rg_leases (remember_closed g s lease) = rg_leases g"
  "rg_sessions (remember_closed g s lease) = rg_sessions g"
  by (simp_all add: remember_closed_def split: prod.split)

lemma registry_wf_closed:
  "registry_wf g \<Longrightarrow> rg_leases g' = rg_leases g \<Longrightarrow> rg_sessions g' = rg_sessions g \<Longrightarrow> closed_wf g' \<Longrightarrow> registry_wf g'"
  unfolding registry_wf_def entry_wf_def by simp

lemma registry_wf_finish_close:
  assumes wf: "registry_wf g"
  shows "registry_wf (fst (finish_close g s events result))"
proof (cases "hm_get (rg_sessions g) s")
  case None
  with wf show ?thesis by (simp add: finish_close_def)
next
  case (Some e)
  obtain b t where rel: "release (rg_leases g) (se_resource_id e) s = (b, t)" by fastforce
  let ?g = "g\<lparr>rg_sessions := hm_remove s (rg_sessions g), rg_leases := t\<rparr>"
  have g: "registry_wf ?g" by (rule registry_wf_remove [OF wf Some rel])
  have "registry_wf (remember_closed ?g s (se_lease e))"
    using closed_wf_remember [OF registry_wfD(3) [OF g]] by (intro registry_wf_closed [OF g]) simp_all
  with g show ?thesis by (simp add: finish_close_def Some rel Let_def)
qed

lemma registry_wf_finish_open:
  assumes wf: "registry_wf g"
  shows "registry_wf (fst (snd (finish_open g s a events)))"
proof (cases "hm_get (rg_sessions g) s")
  case None
  with wf show ?thesis by (simp add: finish_open_def)
next
  case (Some e)
  let ?e = "e\<lparr>se_actor := Some a\<rparr>"
  let ?g = "g\<lparr>rg_sessions := hm_insert s ?e (rg_sessions g)\<rparr>"
  obtain c where c: "lease_holder (rg_leases g) (se_resource_id e) = Some (s, se_owner_id e, se_lease e, c)"
    using entry_holder [OF wf Some] by blast
  obtain b t where com: "commit (rg_leases g) (se_resource_id e) s (se_lease e) = (b, t)" by fastforce
  from leases.confirm [OF registry_wfD(1) [OF wf] com] c
  have b: "b" and t: "lease_table_wf t"
    "lease_holder t = (lease_holder (rg_leases g))(se_resource_id e \<mapsto> (s, se_owner_id e, se_lease e, True))"
    by auto
  have wf': "registry_wf (g\<lparr>rg_leases := t, rg_sessions := hm_insert s e' (rg_sessions g)\<rparr>)"
    if e': "se_resource_id e' = se_resource_id e" "se_owner_id e' = se_owner_id e" "se_lease e' = se_lease e"
      "se_actor e' \<noteq> None" "se_state e' \<noteq> Opening" for e'
  proof -
    let ?h = "g\<lparr>rg_leases := t, rg_sessions := hm_insert s e' (rg_sessions g)\<rparr>"
    have "entry_wf ?h s1 e1" if "hm_get (rg_sessions ?h) s1 = Some e1" for s1 e1
    proof (cases "s1 = s")
      case True
      with that e' show ?thesis by (auto simp: entry_wf_def t(2))
    next
      case False
      with that have e1: "hm_get (rg_sessions g) s1 = Some e1" by simp
      with session_of_resource_unique [OF wf e1 Some] False have "se_resource_id e1 \<noteq> se_resource_id e" by auto
      with registry_wfD(4) [OF wf e1] show ?thesis by (simp add: entry_wf_def t(2))
    qed
    moreover have "\<exists>e. hm_get (rg_sessions ?h) s1 = Some e \<and> se_resource_id e = r"
      if "lease_holder (rg_leases ?h) r = Some (s1, ow, tok, c1)" for r s1 ow tok c1
    proof (cases "r = se_resource_id e")
      case True
      with that e' show ?thesis by (simp add: t(2))
    next
      case False
      with that have "lease_holder (rg_leases g) r = Some (s1, ow, tok, c1)" by (simp add: t(2))
      from registry_wfD(5) [OF wf this] Some False show ?thesis by (cases "s1 = s") auto
    qed
    moreover have "lease_table_wf (rg_leases ?h)" "hm_wf (rg_sessions ?h)" "closed_wf ?h"
      using t(1) registry_wfD(2,3) [OF wf] by simp_all
    ultimately show ?thesis unfolding registry_wf_def by blast
  qed
  show ?thesis
  proof (cases "se_state e")
    case Opening
    have "registry_wf (g\<lparr>rg_leases := t, rg_sessions := hm_insert s (?e\<lparr>se_state := Active\<rparr>) (rg_sessions g)\<rparr>)"
      by (rule wf') simp_all
    with Opening show ?thesis
      by (simp add: finish_open_def Some Let_def is_closing_def com b commit_open_def)
  next
    case Active
    have "registry_wf (g\<lparr>rg_leases := t, rg_sessions := hm_insert s ?e (rg_sessions g)\<rparr>)"
      by (rule wf') (simp_all add: Active)
    moreover have "g\<lparr>rg_leases := t, rg_sessions := m\<rparr> = g\<lparr>rg_sessions := m, rg_leases := t\<rparr>" for m by simp
    ultimately show ?thesis
      by (simp add: Active finish_open_def Some Let_def is_closing_def com b commit_open_def)
  next
    case Closing
    have "registry_wf ?g"
      by (rule registry_wf_update_entry [OF wf Some]) (simp_all add: Closing)
    with Closing show ?thesis by (simp add: finish_open_def Some Let_def is_closing_def)
  qed
qed

section \<open>The close replay window\<close>

lemma expire_closed_order: "fst (expire_closed order closed) = drop (length order - 255) order"
proof (induction order closed rule: expire_closed.induct)
  case (1 closed)
  then show ?case by simp
next
  case (2 x order closed)
  have "length order - 254 = Suc (length order - 255)" if "255 \<le> length order" using that by simp
  with 2 show ?case
    by (cases "255 \<le> length order") (simp_all add: CLOSED_SESSION_CAPACITY_def)
qed

text \<open>The operations of the registry, in any order; \<open>enqueue\<close> does not change it.\<close>

datatype RegistryOp =
    ReserveOpen LeaseId ResourceId SessionId OwnerId
  | FinishOpen SessionId ActorHandle
  | CancelOpen SessionId
  | BeginClose SessionId LeaseToken
  | BeginRevoke OwnerId
  | FinishClose SessionId "unit hal_result"

fun registry_step :: "RegistryOp \<Rightarrow> Registry \<times> EventPublisher \<Rightarrow> Registry \<times> EventPublisher" where
  "registry_step (ReserveOpen i r s ow) (g, ev) = (snd (reserve_open g i r s ow), ev)"
| "registry_step (FinishOpen s actor) (g, ev) = snd (finish_open g s actor ev)"
| "registry_step (CancelOpen s) (g, ev) = (fst (cancel_open g s), ev)"
| "registry_step (BeginClose s lease) (g, ev) = (snd (begin_close g s lease), ev)"
| "registry_step (BeginRevoke ow) (g, ev) = (snd (begin_revoke g ow), ev)"
| "registry_step (FinishClose s result) (g, ev) =
     (case finish_close g s ev result of (g', ev', signal) \<Rightarrow> (g', ev'))"

fun opens_session :: "SessionId \<Rightarrow> RegistryOp \<Rightarrow> bool" where
  "opens_session s (ReserveOpen i r s' ow) = (s' = s)"
| "opens_session s _ = False"

text \<open>The number of sessions that are newly remembered as closed in a run.\<close>

fun closes_in :: "RegistryOp list \<Rightarrow> Registry \<times> EventPublisher \<Rightarrow> nat" where
  "closes_in [] st = 0"
| "closes_in (oper # ops) st =
     of_bool (rg_closed_order (fst (registry_step oper st)) \<noteq> rg_closed_order (fst st)) + closes_in ops (registry_step oper st)"

text \<open>What the registry knows of a closed session after \<open>n\<close> others have been closed.\<close>

definition remembered :: "Registry \<Rightarrow> SessionId \<Rightarrow> LeaseToken \<Rightarrow> nat \<Rightarrow> bool" where
  "remembered g s lease n \<longleftrightarrow> closed_wf g \<and> hm_get (rg_sessions g) s = None
     \<and> (if n < 256 then (\<exists>older newer. rg_closed_order g = older @ s # newer \<and> length newer = n)
          \<and> hm_get (rg_closed_sessions g) s = Some lease
        else s \<notin> set (rg_closed_order g))"

lemma remembered_cong:
  assumes "remembered g s lease n" "rg_closed_order g' = rg_closed_order g" "rg_closed_sessions g' = rg_closed_sessions g"
    and "hm_get (rg_sessions g') s = None"
  shows "remembered g' s lease n"
proof -
  have "closed_wf g" using assms(1) by (simp add: remembered_def)
  then have "closed_wf g'" using assms(2,3) by (simp add: closed_wf_def)
  then show ?thesis using assms by (simp add: remembered_def)
qed

lemma remember_closed_order:
  assumes "closed_wf g" "hm_get (rg_closed_sessions g) s = None"
  shows "rg_closed_order (remember_closed g s lease) = drop (length (rg_closed_order g) - 255) (rg_closed_order g) @ [s]"
    and "s' \<in> set (drop (length (rg_closed_order g) - 255) (rg_closed_order g)) \<Longrightarrow>
      hm_get (rg_closed_sessions (remember_closed g s lease)) s' = hm_get (rg_closed_sessions g) s'"
proof -
  obtain order closed where ex: "expire_closed (rg_closed_order g) (rg_closed_sessions g) = (order, closed)" by fastforce
  have o: "order = drop (length (rg_closed_order g) - 255) (rg_closed_order g)"
    using expire_closed_order [of "rg_closed_order g" "rg_closed_sessions g"] by (simp add: ex)
  then show "rg_closed_order (remember_closed g s lease) = drop (length (rg_closed_order g) - 255) (rg_closed_order g) @ [s]"
    using assms(2) by (simp add: remember_closed_def ex)
  have "\<forall>s\<in>set order. hm_get closed s = hm_get (rg_closed_sessions g) s"
    using expire_closed_wf [OF _ _ _ ex] assms(1) by (simp add: closed_wf_def)
  moreover have "s' \<noteq> s" if "s' \<in> set (rg_closed_order g)" using that assms by (auto simp: closed_wf_def)
  ultimately show "hm_get (rg_closed_sessions (remember_closed g s lease)) s' = hm_get (rg_closed_sessions g) s'"
    if "s' \<in> set (drop (length (rg_closed_order g) - 255) (rg_closed_order g))"
    using that assms(2) set_drop_subset [of "length (rg_closed_order g) - 255" "rg_closed_order g"]
    by (auto simp: remember_closed_def ex o)
qed

lemma remembered_first:
  assumes "closed_wf g" "hm_get (rg_sessions g) s = None" "hm_get (rg_closed_sessions g) s = None"
  shows "remembered (remember_closed g s lease) s lease 0"
proof -
  have "hm_get (rg_closed_sessions (remember_closed g s lease)) s = Some lease"
    using assms(3) by (auto simp: remember_closed_def split: prod.split)
  then show ?thesis
    using assms closed_wf_remember [OF assms(1)] remember_closed_order(1) [OF assms(1,3)] by (auto simp: remembered_def)
qed

lemma remembered_next:
  assumes "remembered g s lease n" "s' \<noteq> s" "hm_get (rg_closed_sessions g) s' = None"
  shows "remembered (remember_closed g s' l) s lease (Suc n)"
proof -
  let ?o = "rg_closed_order g" and ?g = "remember_closed g s' l"
  have wf: "closed_wf g" "hm_get (rg_sessions g) s = None" using assms(1) by (simp_all add: remembered_def)
  have order: "rg_closed_order ?g = drop (length ?o - 255) ?o @ [s']" by (rule remember_closed_order(1) [OF wf(1) assms(3)])
  have len: "length ?o \<le> 256" using wf(1) by (simp add: closed_wf_def CLOSED_SESSION_CAPACITY_def)
  have wf': "closed_wf ?g" "hm_get (rg_sessions ?g) s = None" using closed_wf_remember [OF wf(1)] wf(2) by simp_all
  consider "n < 255" | "n = 255" | "256 \<le> n" by linarith
  then show ?thesis
  proof cases
    case 1
    then obtain older newer where o: "?o = older @ s # newer" "length newer = n" and m: "hm_get (rg_closed_sessions g) s = Some lease"
      using assms(1) by (auto simp: remembered_def)
    have d: "drop (length ?o - 255) ?o = drop (length ?o - 255) older @ s # newer" using o 1 len by simp
    then have "hm_get (rg_closed_sessions ?g) s = Some lease" using remember_closed_order(2) [OF wf(1) assms(3)] m by simp
    moreover have "\<exists>older newer. rg_closed_order ?g = older @ s # newer \<and> length newer = Suc n"
      by (intro exI [of _ "drop (length ?o - 255) older"] exI [of _ "newer @ [s']"]) (simp only: order d o(2), simp add: o(2))
    ultimately show ?thesis using 1 wf' by (simp add: remembered_def)
  next
    case 2
    then obtain older newer where o: "?o = older @ s # newer" "length newer = 255" using assms(1) by (auto simp: remembered_def)
    then have "older = []" using len by simp
    then have "s \<notin> set (drop (length ?o - 255) ?o)" using o wf(1) by (auto simp: closed_wf_def)
    then show ?thesis using 2 wf' assms(2) by (simp add: remembered_def order)
  next
    case 3
    then have "s \<notin> set (drop (length ?o - 255) ?o)" using assms(1) set_drop_subset [of _ ?o] by (auto simp: remembered_def)
    then show ?thesis using 3 wf' assms(2) by (simp add: remembered_def order)
  qed
qed

lemma remembered_contained: "hm_get (rg_closed_sessions g) s \<noteq> None \<Longrightarrow> remember_closed g s l = g"
  by (simp add: remember_closed_def)

lemma other_step_keeps:
  assumes "\<not> (\<exists>s' result. oper = FinishClose s' result)"
  shows "rg_closed_order (fst (registry_step oper (g, ev))) = rg_closed_order g"
    "rg_closed_sessions (fst (registry_step oper (g, ev))) = rg_closed_sessions g"
    "\<not> opens_session s oper \<Longrightarrow> hm_get (rg_sessions g) s = None \<Longrightarrow> hm_get (rg_sessions (fst (registry_step oper (g, ev)))) s = None"
  using assms
  by (cases oper; auto simp: reserve_open_def finish_open_def cancel_open_def begin_close_def begin_revoke_def hm_get_map Let_def
      split: option.splits prod.splits bool.splits result.splits)+

lemma remembered_step:
  assumes "remembered g s lease n" "\<not> opens_session s oper"
  shows "remembered (fst (registry_step oper (g, ev))) s lease
     (n + of_bool (rg_closed_order (fst (registry_step oper (g, ev))) \<noteq> rg_closed_order g))"
proof (cases "\<exists>s' result. oper = FinishClose s' result")
  case True
  then obtain s' result where FinishClose: "oper = FinishClose s' result" by blast
  show ?thesis
  proof (cases "hm_get (rg_sessions g) s'")
    case None
    then show ?thesis using FinishClose assms(1) by (simp add: finish_close_def)
  next
    case (Some e)
    then have "s' \<noteq> s" using assms(1) by (auto simp: remembered_def)
    obtain exposed leases where rel: "release (rg_leases g) (se_resource_id e) s' = (exposed, leases)" by fastforce
    let ?h = "g\<lparr>rg_sessions := hm_remove s' (rg_sessions g), rg_leases := leases\<rparr>"
    have h: "remembered ?h s lease n" using assms(1) by (intro remembered_cong [OF assms(1)]) (auto simp: remembered_def)
    have step: "fst (registry_step oper (g, ev)) = (if exposed then remember_closed ?h s' (se_lease e) else ?h)"
      using FinishClose Some rel by (simp add: finish_close_def Let_def)
    have "rg_closed_order (remember_closed ?h s' (se_lease e)) \<noteq> rg_closed_order g" if "hm_get (rg_closed_sessions g) s' = None"
    proof -
      have "closed_wf ?h" using h by (simp add: remembered_def)
      then have "s' \<in> set (rg_closed_order (remember_closed ?h s' (se_lease e)))" "s' \<notin> set (rg_closed_order g)"
        using remember_closed_order(1) [of ?h s' "se_lease e"] that by (auto simp: closed_wf_def)
      then show ?thesis by auto
    qed
    then show ?thesis using h remembered_next [OF h \<open>s' \<noteq> s\<close>] remembered_contained [of ?h s' "se_lease e"]
      by (cases "hm_get (rg_closed_sessions g) s'") (auto simp: step)
  qed
next
  case False
  note keeps = other_step_keeps [OF False]
  have "hm_get (rg_sessions g) s = None" using assms(1) by (simp add: remembered_def)
  then show ?thesis using remembered_cong [OF assms(1) keeps(1,2) keeps(3) [OF assms(2)]] by (simp add: keeps(1))
qed

lemma remembered_run:
  "remembered (fst st) s lease n \<Longrightarrow> list_all (\<lambda>oper. \<not> opens_session s oper) ops
     \<Longrightarrow> remembered (fst (fold registry_step ops st)) s lease (n + closes_in ops st)"
proof (induction ops arbitrary: st n)
  case (Cons oper ops)
  have "remembered (fst (registry_step oper st)) s lease
      (n + of_bool (rg_closed_order (fst (registry_step oper st)) \<noteq> rg_closed_order (fst st)))"
    using remembered_step [of "fst st" s lease n oper "snd st"] Cons.prems by simp
  from Cons.IH [OF this] Cons.prems(2) show ?case by (simp add: add.assoc del: of_bool_eq_iff)
qed simp

lemma errs_registry [errs]:
  assumes "valid_identifier (ResourceId_as_str r)"
  shows "errs_wf (fst (reserve_open g i r s ow))"
proof (cases "reserve_control (rg_leases g) i r s ow")
  case (Pair res t)
  then have "errs_wf res" using errs_leases(1) [OF assms, of "rg_leases g" i s ow] by simp
  with Pair show ?thesis by (cases res) (simp_all add: reserve_open_def)
qed

lemma errs_closed_session [errs]:
  "errs_wf (closed_close_result g s lease)"
  "valid_identifier operation \<Longrightarrow> hal_error_wf (missing_session_error g s lease operation)"
proof -
  have v: "errs_wf (validate_closed_lease c l operation)" if "valid_identifier operation" for c l operation
    using that by (simp add: validate_closed_lease_def) (simp add: identifier_eval)
  have sc: "valid_identifier ''serial.close''" by (simp add: identifier_eval)
  show "errs_wf (closed_close_result g s lease)"
    by (auto simp: closed_close_result_def session_not_found_def sc split: option.split intro!: errs_wf_and_then v)
      (simp add: identifier_eval)
  show "hal_error_wf (missing_session_error g s lease operation)" if o: "valid_identifier operation"
  proof (cases "hm_get (rg_closed_sessions g) s")
    case None
    with o show ?thesis by (simp add: missing_session_error_def session_not_found_def) (simp add: identifier_eval)
  next
    case (Some c)
    with v [OF o, of c lease] o show ?thesis
      by (cases "validate_closed_lease c lease operation")
        (simp_all add: missing_session_error_def serial_session_closed_def, simp add: identifier_eval)
  qed
qed

section \<open>Properties\<close>

text \<open>
  C23. Close replay: take a session with a committed lease that is closed, and any sequence of registry
  operations that does not open a session under the same identifier. Closing it again with its own lease
  is answered as already closed, without effect, as long as at most 255 other sessions have been closed
  in the meantime; after the 256th the session is unknown.
\<close>

theorem close_replay_window:
  fixes result :: "unit hal_result" and events :: EventPublisher
  assumes "registry_wf g" "hm_get (rg_closed_sessions g) s = None"
    and "hm_get (rg_sessions g) s = Some e" "lease_holder (rg_leases g) (se_resource_id e) = Some (s, se_owner_id e, se_lease e, True)"
    and "list_all (\<lambda>oper. \<not> opens_session s oper) ops"
  defines "closed \<equiv> registry_step (FinishClose s result) (g, events)"
  shows "begin_close (fst (fold registry_step ops closed)) s (se_lease e) =
    ((if closes_in ops closed \<le> 255 then Ok AlreadyClosed else Err (session_not_found ''serial.close'')),
     fst (fold registry_step ops closed))"
proof -
  obtain b leases where "release (rg_leases g) (se_resource_id e) s = (b, leases)" by fastforce
  with leases.giveup [OF registry_wfD(1) [OF assms(1)] this] assms(4)
  have rel: "release (rg_leases g) (se_resource_id e) s = (True, leases)" by simp
  let ?h = "g\<lparr>rg_sessions := hm_remove s (rg_sessions g), rg_leases := leases\<rparr>"
  have "closed_wf ?h" using registry_wfD(3) [OF assms(1)] by simp
  then have "remembered (fst closed) s (se_lease e) 0"
    using remembered_first [of ?h s "se_lease e"] assms(2,3) by (simp add: closed_def finish_close_def rel Let_def)
  from remembered_run [OF this assms(5)]
  have r: "remembered (fst (fold registry_step ops closed)) s (se_lease e) (closes_in ops closed)" by simp
  show ?thesis
  proof (cases "closes_in ops closed < 256")
    case True
    then show ?thesis using r by (simp add: remembered_def begin_close_def closed_close_result_def validate_closed_lease_def)
  next
    case False
    then have "hm_get (rg_closed_sessions (fst (fold registry_step ops closed))) s = None"
      using r by (auto simp: remembered_def closed_wf_def)
    then show ?thesis using r False by (simp add: remembered_def begin_close_def closed_close_result_def)
  qed
qed


text \<open>Witness: a session is opened, committed and closed; then another one is.\<close>

definition session_ops :: "string \<Rightarrow> RegistryOp list" where
  "session_ops name = [ReserveOpen (LeaseId name) (ResourceId name) (SessionId name) (OwnerId ''o''),
     FinishOpen (SessionId name) (ActorHandle 0)]"

definition registry_open :: Registry where
  "registry_open = fst (fold registry_step (session_ops ''a'') (Registry_default, EventPublisher_new))"

lemmas registry_eval = session_ops_def reserve_open_def finish_open_def finish_close_def reserve_control_def commit_def
  release_def remember_closed_def Registry_default_def LeaseTable_default_def LeaseToken_new_def checked_add_def
  is_closing_def commit_open_def CLOSED_SESSION_CAPACITY_def Let_def

lemma registry_open:
  "registry_wf registry_open"
  "registry_open = \<lparr>rg_leases = \<lparr>tb_current_generations = [(ResourceId ''a'', 1)], tb_active = [(ResourceId ''a'',
        \<lparr>al_session_id = SessionId ''a'', al_owner_id = OwnerId ''o'', al_token = LeaseToken_new (LeaseId ''a'') 1 Control,
         al_committed = True\<rparr>)]\<rparr>,
     rg_sessions = [(SessionId ''a'', \<lparr>se_resource_id = ResourceId ''a'', se_owner_id = OwnerId ''o'',
        se_lease = LeaseToken_new (LeaseId ''a'') 1 Control, se_state = Active, se_actor = Some (ActorHandle 0),
        se_open_cancel = False\<rparr>)],
     rg_closed_sessions = [], rg_closed_order = []\<rparr>"
proof -
  let ?g = "snd (reserve_open Registry_default (LeaseId ''a'') (ResourceId ''a'') (SessionId ''a'') (OwnerId ''o''))"
  have "registry_wf ?g"
    by (rule registry_wf_reserve_open [OF registry_wf_default prod.collapse [symmetric]]) (simp add: Registry_default_def)
  from registry_wf_finish_open [OF this] show "registry_wf registry_open"
    by (simp add: registry_open_def session_ops_def)
qed (simp add: registry_open_def registry_eval)

lemma close_replay_window_witness:
  "let lease = LeaseToken_new (LeaseId ''a'') 1 Control;
       closed = registry_step (FinishClose (SessionId ''a'') (Ok ())) (registry_open, EventPublisher_new);
       ops = session_ops ''b'' @ [FinishClose (SessionId ''b'') (Ok ())]
   in closes_in ops closed = 1
     \<and> fst (begin_close (fst (fold registry_step ops closed)) (SessionId ''a'') lease) = Ok AlreadyClosed"
proof -
  let ?closed = "registry_step (FinishClose (SessionId ''a'') (Ok ())) (registry_open, EventPublisher_new)"
  let ?ops = "session_ops ''b'' @ [FinishClose (SessionId ''b'') (Ok ())]"
  have "closes_in ?ops ?closed = 1" by (simp add: registry_open(2) registry_eval)
  moreover have "list_all (\<lambda>oper. \<not> opens_session (SessionId ''a'') oper) ?ops" by (simp add: session_ops_def)
  moreover have "lease_holder (rg_leases registry_open) (ResourceId ''a'')
      = Some (SessionId ''a'', OwnerId ''o'', LeaseToken_new (LeaseId ''a'') 1 Control, True)"
    by (simp add: registry_open(2) lease_holder_def)
  ultimately show ?thesis
    using close_replay_window [OF registry_open(1), of "SessionId ''a''" _ ?ops "Ok ()" EventPublisher_new]
    by (simp add: registry_open(2) Let_def)
qed

end
