(* ===== verification/Hal_Can.thy ===== *)
theory Hal_Can
  imports Hal_Core
begin

text \<open>
  The CAN interface crate (\<open>src/crates/robot-hal-can/src/\<close>): identifiers, frames, timestamps,
  receive filters, link configurations and bus status, with the constructors that validate them.
  The predicates named \<open>..._wf\<close> say which values a constructor lets through.
\<close>

section \<open>Frames\<close>

definition MAX_CLASSIC_DATA_BYTES :: usize where "MAX_CLASSIC_DATA_BYTES = 8"
definition MAX_FD_DATA_BYTES :: usize where "MAX_FD_DATA_BYTES = 64"
definition MAX_CAN_FILTERS :: usize where "MAX_CAN_FILTERS = 64"
definition MAX_CAN_BATCH_FRAMES :: usize where "MAX_CAN_BATCH_FRAMES = 64"
definition MAX_CAN_ERROR_CLASSES :: usize where "MAX_CAN_ERROR_CLASSES = 10"
definition DEFAULT_CAN_RX_CAPACITY :: usize where "DEFAULT_CAN_RX_CAPACITY = 256"
definition DEFAULT_CAN_TX_CAPACITY :: usize where "DEFAULT_CAN_TX_CAPACITY = 64"

lemmas can_limits = MAX_CLASSIC_DATA_BYTES_def MAX_FD_DATA_BYTES_def MAX_CAN_FILTERS_def
  MAX_CAN_BATCH_FRAMES_def MAX_CAN_ERROR_CLASSES_def DEFAULT_CAN_RX_CAPACITY_def DEFAULT_CAN_TX_CAPACITY_def

definition invalid_frame :: "string \<Rightarrow> HalError" where
  "invalid_frame message = hal_error ''can.frame.invalid'' InvalidArgument ''can.frame'' False message"

datatype CanId = StandardId u16 | ExtendedId u32

fun validate_id :: "CanId \<Rightarrow> unit hal_result" where
  "validate_id (StandardId value) =
     (if value \<le> 0x7ff then Ok () else Err (invalid_frame ''standard CAN identifier exceeds 11 bits''))"
| "validate_id (ExtendedId value) =
     (if value \<le> 0x1fffffff then Ok () else Err (invalid_frame ''extended CAN identifier exceeds 29 bits''))"

definition valid_fd_data_length :: "usize \<Rightarrow> bool" where
  "valid_fd_data_length n \<longleftrightarrow> n \<le> 8 \<or> n = 12 \<or> n = 16 \<or> n = 20 \<or> n = 24 \<or> n = 32 \<or> n = 48 \<or> n = 64"

definition CanId_standard :: "u16 \<Rightarrow> CanId hal_result" where
  "CanId_standard value =
     (if value > 0x7ff then Err (invalid_frame ''standard CAN identifier exceeds 11 bits'')
      else Ok (StandardId value))"

definition CanId_extended :: "u32 \<Rightarrow> CanId hal_result" where
  "CanId_extended value =
     (if value > 0x1fffffff then Err (invalid_frame ''extended CAN identifier exceeds 29 bits'')
      else Ok (ExtendedId value))"

fun CanId_value :: "CanId \<Rightarrow> u32" where
  "CanId_value (StandardId value) = ucast value"
| "CanId_value (ExtendedId value) = value"

fun is_standard :: "CanId \<Rightarrow> bool" where
  "is_standard (StandardId value) = True"
| "is_standard (ExtendedId value) = False"

fun is_extended :: "CanId \<Rightarrow> bool" where
  "is_extended (StandardId value) = False"
| "is_extended (ExtendedId value) = True"

datatype CanErrorClass = TxTimeout | LostArbitration | Controller | Protocol | Transceiver
  | NoAcknowledgement | BusOff | BusError | Restarted | OtherError

datatype CanFrame =
    ClassicData CanId "u8 list"
  | ClassicRemote CanId u8
  | FdData CanId "u8 list" bool bool
  | ErrorFrame "CanErrorClass list" "u8 list"

definition classic_data :: "CanId \<Rightarrow> u8 list \<Rightarrow> CanFrame hal_result" where
  "classic_data cid data =
     and_then (validate_id cid) (\<lambda>_.
       if length data > MAX_CLASSIC_DATA_BYTES then Err (invalid_frame ''Classical CAN data exceeds 8 bytes'')
       else Ok (ClassicData cid data))"

definition classic_remote :: "CanId \<Rightarrow> u8 \<Rightarrow> CanFrame hal_result" where
  "classic_remote cid dlc =
     and_then (validate_id cid) (\<lambda>_.
       if unat dlc > MAX_CLASSIC_DATA_BYTES then Err (invalid_frame ''Classical CAN remote DLC exceeds 8'')
       else Ok (ClassicRemote cid dlc))"

definition fd_data :: "CanId \<Rightarrow> u8 list \<Rightarrow> bool \<Rightarrow> bool \<Rightarrow> CanFrame hal_result" where
  "fd_data cid data bitrate_switch error_state_indicator =
     and_then (validate_id cid) (\<lambda>_.
       if \<not> valid_fd_data_length (length data) then
         Err (invalid_frame ''CAN FD data length must be one of 0..=8, 12, 16, 20, 24, 32, 48, or 64'')
       else Ok (FdData cid data bitrate_switch error_state_indicator))"

definition error_frame :: "CanErrorClass list \<Rightarrow> u8 list \<Rightarrow> CanFrame hal_result" where
  "error_frame classes data =
     (if classes = [] \<or> length classes > MAX_CAN_ERROR_CLASSES then
        Err (invalid_frame ''CAN error frame must contain 1..=10 classes'')
      else if length data > MAX_CLASSIC_DATA_BYTES then
        Err (invalid_frame ''CAN error diagnostics exceed 8 bytes'')
      else Ok (ErrorFrame classes data))"

fun CanFrame_validate :: "CanFrame \<Rightarrow> unit hal_result" where
  "CanFrame_validate (ClassicData cid data) =
     and_then (validate_id cid) (\<lambda>_.
       if length data > MAX_CLASSIC_DATA_BYTES then Err (invalid_frame ''Classical CAN data exceeds 8 bytes'')
       else Ok ())"
| "CanFrame_validate (ClassicRemote cid dlc) =
     and_then (validate_id cid) (\<lambda>_.
       if unat dlc > MAX_CLASSIC_DATA_BYTES then Err (invalid_frame ''Classical CAN remote DLC exceeds 8'')
       else Ok ())"
| "CanFrame_validate (FdData cid data bitrate_switch error_state_indicator) =
     and_then (validate_id cid) (\<lambda>_.
       if \<not> valid_fd_data_length (length data) then
         Err (invalid_frame ''CAN FD data length must be one of 0..=8, 12, 16, 20, 24, 32, 48, or 64'')
       else Ok ())"
| "CanFrame_validate (ErrorFrame classes data) =
     (if classes = [] \<or> length classes > MAX_CAN_ERROR_CLASSES then
        Err (invalid_frame ''CAN error frame must contain 1..=10 classes'')
      else if length data > MAX_CLASSIC_DATA_BYTES then
        Err (invalid_frame ''CAN error diagnostics exceed 8 bytes'')
      else Ok ())"

fun CanFrame_id :: "CanFrame \<Rightarrow> CanId option" where
  "CanFrame_id (ClassicData cid data) = Some cid"
| "CanFrame_id (ClassicRemote cid dlc) = Some cid"
| "CanFrame_id (FdData cid data brs esi) = Some cid"
| "CanFrame_id (ErrorFrame classes data) = None"

fun CanFrame_data :: "CanFrame \<Rightarrow> u8 list" where
  "CanFrame_data (ClassicData cid data) = data"
| "CanFrame_data (FdData cid data brs esi) = data"
| "CanFrame_data (ErrorFrame classes data) = data"
| "CanFrame_data (ClassicRemote cid dlc) = []"

fun is_error :: "CanFrame \<Rightarrow> bool" where
  "is_error (ErrorFrame classes data) = True"
| "is_error frame = False"

fun is_remote :: "CanFrame \<Rightarrow> bool" where
  "is_remote (ClassicRemote cid dlc) = True"
| "is_remote frame = False"

fun is_data :: "CanFrame \<Rightarrow> bool" where
  "is_data (ClassicData cid data) = True"
| "is_data (FdData cid data brs esi) = True"
| "is_data frame = False"

datatype CanTimestampSource = Hardware | Kernel | HostMonotonic

record CanTimestamp =
  ct_timestamp_ns :: u64
  ct_source :: CanTimestampSource
  ct_clock_domain :: string

definition CanTimestamp_new :: "u64 \<Rightarrow> CanTimestampSource \<Rightarrow> string \<Rightarrow> CanTimestamp hal_result" where
  "CanTimestamp_new timestamp_ns source clock_domain =
     (if clock_domain = [] then Err (invalid_frame ''CAN timestamp clock domain must not be empty'')
      else if length clock_domain > 255 then
        Err (invalid_frame ''CAN timestamp clock domain exceeds 255 bytes'')
      else if \<not> is_ascii clock_domain then
        Err (invalid_frame ''CAN timestamp clock domain must be ASCII'')
      else Ok \<lparr>ct_timestamp_ns = timestamp_ns, ct_source = source, ct_clock_domain = clock_domain\<rparr>)"

record ReceivedCanFrame =
  rf_frame :: CanFrame
  rf_timestamp :: "CanTimestamp option"

record CanBatchSendError =
  bs_error :: HalError
  bs_committed :: usize

definition CanBatchSendError_new :: "HalError \<Rightarrow> CanBatchSendError" where
  "CanBatchSendError_new error = \<lparr>bs_error = error, bs_committed = 0\<rparr>"

definition backend_prefix :: "HalError \<Rightarrow> usize \<Rightarrow> CanBatchSendError" where
  "backend_prefix error committed = \<lparr>bs_error = error, bs_committed = committed\<rparr>"

section \<open>Filters\<close>

datatype CanIdFormat = StandardFormat | ExtendedFormat | EitherFormat

record CanFrameClasses =
  fc_data :: bool
  fc_remote :: bool
  fc_error :: bool

definition CanFrameClasses_new :: "bool \<Rightarrow> bool \<Rightarrow> bool \<Rightarrow> CanFrameClasses" where
  "CanFrameClasses_new data remote error = \<lparr>fc_data = data, fc_remote = remote, fc_error = error\<rparr>"

definition data_only :: CanFrameClasses where
  "data_only = CanFrameClasses_new True False False"

definition classes_any :: "CanFrameClasses \<Rightarrow> bool" where
  "classes_any c \<longleftrightarrow> fc_data c \<or> fc_remote c \<or> fc_error c"

record CanFilter =
  cf_id :: u32
  cf_mask :: u32
  cf_format :: CanIdFormat
  cf_classes :: CanFrameClasses

definition invalid_filter :: "string \<Rightarrow> HalError" where
  "invalid_filter message = hal_error ''can.filter.invalid'' InvalidArgument ''can.filter'' False message"

definition CanFilter_new :: "u32 \<Rightarrow> u32 \<Rightarrow> CanIdFormat \<Rightarrow> CanFrameClasses \<Rightarrow> CanFilter hal_result" where
  "CanFilter_new cid cmask format classes =
     (let width = (if format = StandardFormat then 0x7ff else 0x1fffffff) in
      if cid > width \<or> cmask > width then Err (invalid_filter ''CAN filter ID or mask exceeds format width'')
      else if \<not> classes_any classes then Err (invalid_filter ''CAN filter must enable a frame class'')
      else Ok \<lparr>cf_id = cid, cf_mask = cmask, cf_format = format, cf_classes = classes\<rparr>)"

definition filter_id_matches :: "CanFilter \<Rightarrow> CanId \<Rightarrow> bool \<Rightarrow> bool" where
  "filter_id_matches f cid class_enabled =
     (if \<not> class_enabled then False
      else
        (case cf_format f of
           StandardFormat \<Rightarrow> is_standard cid
         | ExtendedFormat \<Rightarrow> \<not> is_standard cid
         | EitherFormat \<Rightarrow> True)
        \<and> (CanId_value cid AND cf_mask f) = (cf_id f AND cf_mask f))"

fun CanFilter_matches :: "CanFilter \<Rightarrow> CanFrame \<Rightarrow> bool" where
  "CanFilter_matches f (ErrorFrame classes data) = fc_error (cf_classes f)"
| "CanFilter_matches f (ClassicData cid data) = filter_id_matches f cid (fc_data (cf_classes f))"
| "CanFilter_matches f (FdData cid data brs esi) = filter_id_matches f cid (fc_data (cf_classes f))"
| "CanFilter_matches f (ClassicRemote cid dlc) = filter_id_matches f cid (fc_remote (cf_classes f))"

datatype CanFilterSet = CanFilterSet (filter_slice: "CanFilter list")

definition CanFilterSet_new :: "CanFilter list \<Rightarrow> CanFilterSet hal_result" where
  "CanFilterSet_new filters =
     (if length filters > MAX_CAN_FILTERS then Err (invalid_filter ''CAN filter set exceeds 64 filters'')
      else Ok (CanFilterSet filters))"

definition CanFilterSet_matches :: "CanFilterSet \<Rightarrow> CanFrame \<Rightarrow> bool" where
  "CanFilterSet_matches fs frame \<longleftrightarrow>
     filter_slice fs = [] \<or> list_ex (\<lambda>f. CanFilter_matches f frame) (filter_slice fs)"

section \<open>Configuration and status\<close>

datatype CanMode = Classic | Fd

definition invalid_config :: "string \<Rightarrow> HalError" where
  "invalid_config message =
     hal_error ''can.configuration.invalid'' InvalidArgument ''can.configuration'' False message"

definition is_some_and :: "('a \<Rightarrow> bool) \<Rightarrow> 'a option \<Rightarrow> bool" where
  "is_some_and p x = (case x of None \<Rightarrow> False | Some v \<Rightarrow> p v)"

record CanBitTiming =
  bt_bitrate :: u32
  bt_sample_point_permill :: "u16 option"
  bt_sjw :: "u16 option"

definition CanBitTiming_new :: "u32 \<Rightarrow> u16 option \<Rightarrow> u16 option \<Rightarrow> CanBitTiming hal_result" where
  "CanBitTiming_new bitrate sample_point_permill sjw =
     (if bitrate = 0 then Err (invalid_config ''CAN bitrate must be nonzero'')
      else if is_some_and (\<lambda>value. \<not> (1 \<le> value \<and> value \<le> 999)) sample_point_permill then
        Err (invalid_config ''CAN sample point must be 1..=999 permill'')
      else if is_some_and (\<lambda>value. value = 0) sjw then Err (invalid_config ''CAN SJW must be nonzero'')
      else Ok \<lparr>bt_bitrate = bitrate, bt_sample_point_permill = sample_point_permill, bt_sjw = sjw\<rparr>)"

record CanLinkExpectation =
  cx_mode :: "CanMode option"
  cx_nominal_bitrate :: "u32 option"
  cx_data_bitrate :: "u32 option"
  cx_listen_only :: "bool option"
  cx_loopback :: "bool option"

definition CanLinkExpectation_new ::
  "CanMode option \<Rightarrow> u32 option \<Rightarrow> u32 option \<Rightarrow> bool option \<Rightarrow> bool option \<Rightarrow> CanLinkExpectation hal_result" where
  "CanLinkExpectation_new mode nominal_bitrate data_bitrate listen_only loopback =
     (if is_some_and (\<lambda>value. value = 0) nominal_bitrate \<or> is_some_and (\<lambda>value. value = 0) data_bitrate then
        Err (invalid_config ''CAN expected bitrates must be nonzero'')
      else if mode = Some Classic \<and> data_bitrate \<noteq> None then
        Err (invalid_config ''Classical CAN expectation cannot include data bitrate'')
      else Ok \<lparr>cx_mode = mode, cx_nominal_bitrate = nominal_bitrate, cx_data_bitrate = data_bitrate,
               cx_listen_only = listen_only, cx_loopback = loopback\<rparr>)"

record CanConfigureConfig =
  cc_mode :: CanMode
  cc_nominal :: CanBitTiming
  cc_data :: "CanBitTiming option"
  cc_listen_only :: bool
  cc_loopback :: bool
  cc_restart_ms :: "u32 option"

definition CanConfigureConfig_new_with_restart ::
  "CanMode \<Rightarrow> CanBitTiming \<Rightarrow> CanBitTiming option \<Rightarrow> bool \<Rightarrow> bool \<Rightarrow> u32 option \<Rightarrow> CanConfigureConfig hal_result" where
  "CanConfigureConfig_new_with_restart mode nominal data listen_only loopback restart_ms =
     (if is_some_and (\<lambda>value. value = 0) restart_ms then
        Err (invalid_config ''CAN restart time must be nonzero when specified'')
      else if mode = Classic \<and> data \<noteq> None then
        Err (invalid_config ''Classical CAN configuration cannot include data timing'')
      else if mode = Fd \<and> data = None then
        Err (invalid_config ''CAN FD configuration requires data timing'')
      else Ok \<lparr>cc_mode = mode, cc_nominal = nominal, cc_data = data, cc_listen_only = listen_only,
               cc_loopback = loopback, cc_restart_ms = restart_ms\<rparr>)"

definition CanConfigureConfig_new ::
  "CanMode \<Rightarrow> CanBitTiming \<Rightarrow> CanBitTiming option \<Rightarrow> bool \<Rightarrow> bool \<Rightarrow> CanConfigureConfig hal_result" where
  "CanConfigureConfig_new mode nominal data listen_only loopback =
     CanConfigureConfig_new_with_restart mode nominal data listen_only loopback None"

datatype CanOpenConfig = Attach CanLinkExpectation | Configure CanConfigureConfig

datatype CanBusState = BusActive | BusWarning | BusPassive | BusBusOff | BusStopped | BusUnknown

record CanBusStatus =
  st_state :: CanBusState
  st_tx_error_counter :: "u32 option"
  st_rx_error_counter :: "u32 option"

record CanActiveConfig =
  ac_mode :: CanMode
  ac_nominal :: CanBitTiming
  ac_data :: "CanBitTiming option"
  ac_listen_only :: bool
  ac_loopback :: bool
  ac_clock_domain :: string

definition CanActiveConfig_new ::
  "CanMode \<Rightarrow> CanBitTiming \<Rightarrow> CanBitTiming option \<Rightarrow> bool \<Rightarrow> bool \<Rightarrow> string \<Rightarrow> CanActiveConfig hal_result" where
  "CanActiveConfig_new mode nominal data listen_only loopback clock_domain =
     (if clock_domain = [] \<or> length clock_domain > 255 \<or> \<not> is_ascii clock_domain then
        Err (hal_error ''can.configuration.invalid'' InvalidArgument ''can.active_configuration'' False
          ''CAN clock domain must be non-empty ASCII of at most 255 bytes'')
      else if mode = Classic \<and> data \<noteq> None \<or> mode = Fd \<and> data = None then
        Err (hal_error ''can.configuration.invalid'' InvalidArgument ''can.active_configuration'' False
          ''CAN active configuration has incompatible mode and data timing'')
      else Ok \<lparr>ac_mode = mode, ac_nominal = nominal, ac_data = data, ac_listen_only = listen_only,
               ac_loopback = loopback, ac_clock_domain = clock_domain\<rparr>)"

section \<open>Well-formed values\<close>

fun can_id_wf :: "CanId \<Rightarrow> bool" where
  "can_id_wf (StandardId v) = (v \<le> 0x7ff)"
| "can_id_wf (ExtendedId v) = (v \<le> 0x1fffffff)"

fun can_frame_wf :: "CanFrame \<Rightarrow> bool" where
  "can_frame_wf (ClassicData i d) = (can_id_wf i \<and> length d \<le> 8)"
| "can_frame_wf (ClassicRemote i dlc) = (can_id_wf i \<and> dlc \<le> 8)"
| "can_frame_wf (FdData i d brs esi) = (can_id_wf i \<and> valid_fd_data_length (length d))"
| "can_frame_wf (ErrorFrame cs d) = (cs \<noteq> [] \<and> length cs \<le> 10 \<and> length d \<le> 8)"

definition can_timestamp_wf :: "CanTimestamp \<Rightarrow> bool" where
  "can_timestamp_wf t \<longleftrightarrow> valid_identifier (ct_clock_domain t)"

definition received_frame_wf :: "ReceivedCanFrame \<Rightarrow> bool" where
  "received_frame_wf f \<longleftrightarrow> can_frame_wf (rf_frame f) \<and> pred_option can_timestamp_wf (rf_timestamp f)"

definition format_width :: "CanIdFormat \<Rightarrow> u32" where
  "format_width f = (if f = StandardFormat then 0x7ff else 0x1fffffff)"

definition can_filter_wf :: "CanFilter \<Rightarrow> bool" where
  "can_filter_wf f \<longleftrightarrow> cf_id f \<le> format_width (cf_format f) \<and> cf_mask f \<le> format_width (cf_format f)
     \<and> classes_any (cf_classes f)"

definition bit_timing_wf :: "CanBitTiming \<Rightarrow> bool" where
  "bit_timing_wf t \<longleftrightarrow> bt_bitrate t \<noteq> 0
     \<and> pred_option (\<lambda>v. 1 \<le> v \<and> v \<le> 999) (bt_sample_point_permill t) \<and> pred_option (\<lambda>v. v \<noteq> 0) (bt_sjw t)"

definition expectation_wf :: "CanLinkExpectation \<Rightarrow> bool" where
  "expectation_wf x \<longleftrightarrow> pred_option (\<lambda>v. v \<noteq> 0) (cx_nominal_bitrate x) \<and> pred_option (\<lambda>v. v \<noteq> 0) (cx_data_bitrate x)
     \<and> \<not> (cx_mode x = Some Classic \<and> cx_data_bitrate x \<noteq> None)"

text \<open>Data timing is present exactly in FD mode.\<close>

definition mode_data_ok :: "CanMode \<Rightarrow> 'a option \<Rightarrow> bool" where
  "mode_data_ok m d \<longleftrightarrow> (m = Fd \<longleftrightarrow> d \<noteq> None)"

definition configure_wf :: "CanConfigureConfig \<Rightarrow> bool" where
  "configure_wf c \<longleftrightarrow> mode_data_ok (cc_mode c) (cc_data c) \<and> pred_option (\<lambda>v. v \<noteq> 0) (cc_restart_ms c)"

definition active_config_wf :: "CanActiveConfig \<Rightarrow> bool" where
  "active_config_wf c \<longleftrightarrow> mode_data_ok (ac_mode c) (ac_data c) \<and> valid_identifier (ac_clock_domain c)"

lemma is_some_and_iff: "is_some_and p x \<longleftrightarrow> (\<exists>v. x = Some v \<and> p v)"
  by (cases x) (auto simp: is_some_and_def)

lemma validate_id_Ok [simp, ok_simps]: "validate_id i = Ok u \<longleftrightarrow> can_id_wf i"
  by (cases i) auto

lemma CanId_Ok [simp, ok_simps]:
  "CanId_standard v = Ok i \<longleftrightarrow> v \<le> 0x7ff \<and> i = StandardId v"
  "CanId_extended w = Ok i \<longleftrightarrow> w \<le> 0x1fffffff \<and> i = ExtendedId w"
  by (auto simp: CanId_standard_def CanId_extended_def)

lemma dlc_le: "unat (dlc :: u8) \<le> 8 \<longleftrightarrow> dlc \<le> 8"
  by (simp add: word_le_nat_alt)

lemma CanFrame_Ok [ok_simps]:
  "classic_data i d = Ok f \<longleftrightarrow> f = ClassicData i d \<and> can_frame_wf f"
  "classic_remote i dlc = Ok f \<longleftrightarrow> f = ClassicRemote i dlc \<and> can_frame_wf f"
  "fd_data i d brs esi = Ok f \<longleftrightarrow> f = FdData i d brs esi \<and> can_frame_wf f"
  "error_frame cs d = Ok f \<longleftrightarrow> f = ErrorFrame cs d \<and> can_frame_wf f"
  by (auto simp: classic_data_def classic_remote_def fd_data_def error_frame_def can_limits dlc_le [symmetric])

lemma CanFrame_validate_Ok [simp, ok_simps]: "CanFrame_validate f = Ok u \<longleftrightarrow> can_frame_wf f"
  by (cases f) (auto simp: can_limits dlc_le [symmetric])

lemma CanTimestamp_new_Ok [ok_simps]:
  "CanTimestamp_new ns src clk = Ok t \<longleftrightarrow>
     t = \<lparr>ct_timestamp_ns = ns, ct_source = src, ct_clock_domain = clk\<rparr> \<and> can_timestamp_wf t"
  by (auto simp: CanTimestamp_new_def can_timestamp_wf_def valid_identifier_def)

lemma CanFilter_new_Ok [ok_simps]:
  "CanFilter_new i m fmt cl = Ok f \<longleftrightarrow>
     f = \<lparr>cf_id = i, cf_mask = m, cf_format = fmt, cf_classes = cl\<rparr> \<and> can_filter_wf f"
  by (auto simp: CanFilter_new_def can_filter_wf_def format_width_def Let_def)

lemma CanFilterSet_new_Ok [simp, ok_simps]:
  "CanFilterSet_new fs = Ok s \<longleftrightarrow> s = CanFilterSet fs \<and> length fs \<le> 64"
  by (auto simp: CanFilterSet_new_def can_limits)

lemma CanBitTiming_new_Ok [ok_simps]:
  "CanBitTiming_new b sp sjw = Ok t \<longleftrightarrow>
     t = \<lparr>bt_bitrate = b, bt_sample_point_permill = sp, bt_sjw = sjw\<rparr> \<and> bit_timing_wf t"
  by (cases sp; cases sjw) (auto simp: CanBitTiming_new_def bit_timing_wf_def is_some_and_def)

lemma CanLinkExpectation_new_Ok [ok_simps]:
  "CanLinkExpectation_new m nb db lo lb = Ok x \<longleftrightarrow>
     x = \<lparr>cx_mode = m, cx_nominal_bitrate = nb, cx_data_bitrate = db, cx_listen_only = lo, cx_loopback = lb\<rparr>
     \<and> expectation_wf x"
  by (cases nb; cases db) (auto simp: CanLinkExpectation_new_def expectation_wf_def is_some_and_def)

lemma CanMode_neq: "m \<noteq> Classic \<longleftrightarrow> m = Fd"
  by (cases m) auto

lemma CanConfigureConfig_new_Ok [ok_simps]:
  "CanConfigureConfig_new_with_restart m n d lo lb r = Ok c \<longleftrightarrow>
     c = \<lparr>cc_mode = m, cc_nominal = n, cc_data = d, cc_listen_only = lo, cc_loopback = lb, cc_restart_ms = r\<rparr>
     \<and> configure_wf c"
  by (cases r; cases m; cases d)
    (auto simp: CanConfigureConfig_new_with_restart_def configure_wf_def mode_data_ok_def is_some_and_def)

lemma CanActiveConfig_new_Ok [ok_simps]:
  "CanActiveConfig_new m n d lo lb clk = Ok c \<longleftrightarrow>
     c = \<lparr>ac_mode = m, ac_nominal = n, ac_data = d, ac_listen_only = lo, ac_loopback = lb, ac_clock_domain = clk\<rparr>
     \<and> active_config_wf c"
  by (cases m; cases d) (auto simp: CanActiveConfig_new_def active_config_wf_def mode_data_ok_def valid_identifier_def)

lemma can_error_wf [simp]:
  "hal_error_wf (invalid_frame m)" "hal_error_wf (invalid_filter m)" "hal_error_wf (invalid_config m)"
  by (simp_all add: invalid_frame_def invalid_filter_def invalid_config_def identifier_eval)

lemma errs_can [errs]:
  "errs_wf (classic_data i d)" "errs_wf (classic_remote i dlc)" "errs_wf (fd_data i d brs esi)"
  "errs_wf (error_frame cs d)" "errs_wf (CanFrame_validate f)" "errs_wf (CanTimestamp_new ns src clk)"
  "errs_wf (CanFilter_new fi fm fmt cl)" "errs_wf (CanFilterSet_new fs)" "errs_wf (CanBitTiming_new b sp sjw)"
  "errs_wf (CanLinkExpectation_new mo nb db lo lb)" "errs_wf (CanConfigureConfig_new_with_restart m n dt l2 lb2 r)"
proof -
  have "errs_wf (validate_id i)" for i by (cases i) auto
  then show "errs_wf (classic_data i d)" "errs_wf (classic_remote i dlc)" "errs_wf (fd_data i d brs esi)"
    "errs_wf (CanFrame_validate f)"
    by (auto simp: classic_data_def classic_remote_def fd_data_def intro!: errs_wf_and_then)
      (cases f; auto intro!: errs_wf_and_then)
qed (simp_all add: error_frame_def CanTimestamp_new_def CanFilter_new_def CanFilterSet_new_def
    CanBitTiming_new_def CanLinkExpectation_new_def CanConfigureConfig_new_with_restart_def Let_def)

section \<open>Properties\<close>

text \<open>The constructor a frame of each shape goes through.\<close>

fun rebuild_frame :: "CanFrame \<Rightarrow> CanFrame hal_result" where
  "rebuild_frame (ClassicData i d) = classic_data i d"
| "rebuild_frame (ClassicRemote i dlc) = classic_remote i dlc"
| "rebuild_frame (FdData i d brs esi) = fd_data i d brs esi"
| "rebuild_frame (ErrorFrame cs d) = error_frame cs d"

text \<open>
  C33. Ingress validation and construction agree: \<open>CanFrame::validate\<close> accepts a frame exactly when
  the constructor of its shape produces it, and reports the same error otherwise.
\<close>

theorem frame_validate_matches_constructor:
  "rebuild_frame f = map_ok (\<lambda>_. f) (CanFrame_validate f)"
proof -
  have "and_then r (\<lambda>_. if b then Err e else Ok y) = map_ok (\<lambda>_. y) (and_then r (\<lambda>_. if b then Err e else Ok ()))"
    for r :: "unit hal_result" and b e and y :: CanFrame
    by (cases r) simp_all
  then show ?thesis
    by (cases f) (auto simp: classic_data_def classic_remote_def fd_data_def error_frame_def)
qed

text \<open>The payload length of each CAN FD data length code.\<close>

definition fd_dlc_length :: "nat \<Rightarrow> nat" where
  "fd_dlc_length dlc = (if dlc \<le> 8 then dlc else [12, 16, 20, 24, 32, 48, 64] ! (dlc - 9))"

text \<open>
  The accepted CAN FD payload lengths are exactly those of the sixteen data length codes.
\<close>

theorem fd_lengths_are_dlc_codes:
  "valid_fd_data_length n \<longleftrightarrow> n \<in> fd_dlc_length ` {..<16}"
proof -
  have "{..<16::nat} = {..8} \<union> {9, 10, 11, 12, 13, 14, 15}" by auto
  then have "fd_dlc_length ` {..<16} = fd_dlc_length ` {..8} \<union> fd_dlc_length ` {9, 10, 11, 12, 13, 14, 15}"
    by (simp only: image_Un)
  moreover have "fd_dlc_length ` {9, 10, 11, 12, 13, 14, 15} = {12, 16, 20, 24, 32, 48, 64}"
    by (simp add: fd_dlc_length_def)
  moreover have "fd_dlc_length ` {..8} = {..8}" by (auto simp: fd_dlc_length_def image_def)
  ultimately show ?thesis by (auto simp: valid_fd_data_length_def)
qed

text \<open>
  Filter semantics: a filter accepts a frame that carries an identifier exactly when the class
  of the frame is enabled, the identifier has the required format, and it agrees with the filter
  identifier on every bit selected by the mask; an error frame needs only its class.
\<close>

theorem filter_matches_bits:
  "CanFilter_matches f frame \<longleftrightarrow>
     (case CanFrame_id frame of
        None \<Rightarrow> fc_error (cf_classes f)
      | Some i \<Rightarrow> (if is_remote frame then fc_remote (cf_classes f) else fc_data (cf_classes f))
          \<and> (cf_format f = StandardFormat \<longrightarrow> is_standard i) \<and> (cf_format f = ExtendedFormat \<longrightarrow> is_extended i)
          \<and> (\<forall>n<32. bit (cf_mask f) n \<longrightarrow> bit (CanId_value i) n = bit (cf_id f) n))"
proof -
  have mask: "a AND m = b AND m \<longleftrightarrow> (\<forall>n<32. bit m n \<longrightarrow> bit a n = bit b n)" for a b m :: u32
    by (auto simp: bit_eq_iff bit_simps)
  have ext: "is_extended i \<longleftrightarrow> \<not> is_standard i" for i by (cases i) auto
  show ?thesis
    by (cases frame) (auto simp: filter_id_matches_def mask ext split: CanIdFormat.splits)
qed

lemma filter_matches_bits_witness:
  "let f = \<lparr>cf_id = 0x100, cf_mask = 0x700, cf_format = StandardFormat, cf_classes = data_only\<rparr>;
       frame = ClassicData (StandardId 0x123) [1, 2]
   in CanFilter_matches f frame \<and> \<not> CanFilter_matches f (ClassicData (StandardId 0x223) [])
      \<and> (\<forall>n<32. bit (0x700 :: u32) n \<longrightarrow> bit (0x123 :: u32) n = bit (0x100 :: u32) n)"
proof -
  let ?f = "\<lparr>cf_id = 0x100, cf_mask = 0x700, cf_format = StandardFormat, cf_classes = data_only\<rparr>"
  have m: "CanFilter_matches ?f (ClassicData (StandardId 0x123) [1, 2])"
    "\<not> CanFilter_matches ?f (ClassicData (StandardId 0x223) [])"
    by (simp_all add: filter_id_matches_def data_only_def CanFrameClasses_new_def)
  from m(1) have "\<forall>n<32. bit (0x700 :: u32) n \<longrightarrow> bit (0x123 :: u32) n = bit (0x100 :: u32) n"
    unfolding filter_matches_bits by simp
  with m show ?thesis by (simp add: Let_def)
qed

end
