(* ===== verification/Hal_Camera.thy ===== *)
theory Hal_Camera
  imports Hal_Core
begin

text \<open>
  The camera interface crate (\<open>src/crates/robot-hal-camera\<close>): formats and their worst-case
  payload, plane layouts, frame metadata, frames, and control descriptors. The overlap check on
  plane ranges is shared with the shared-memory ring.
\<close>

section \<open>Formats\<close>

definition MAX_CAMERA_WIDTH :: u32 where "MAX_CAMERA_WIDTH = 4096"
definition MAX_CAMERA_HEIGHT :: u32 where "MAX_CAMERA_HEIGHT = 2160"
definition MAX_CAMERA_FRAME_BYTES :: usize where "MAX_CAMERA_FRAME_BYTES = 24 * 1024 * 1024"
definition DEFAULT_CAMERA_SLOT_COUNT :: usize where "DEFAULT_CAMERA_SLOT_COUNT = 4"
definition MIN_CAMERA_SLOT_COUNT :: usize where "MIN_CAMERA_SLOT_COUNT = 4"
definition MAX_CAMERA_SLOT_COUNT :: usize where "MAX_CAMERA_SLOT_COUNT = 8"

lemmas camera_limits = MAX_CAMERA_WIDTH_def MAX_CAMERA_HEIGHT_def MAX_CAMERA_FRAME_BYTES_def
  DEFAULT_CAMERA_SLOT_COUNT_def MIN_CAMERA_SLOT_COUNT_def MAX_CAMERA_SLOT_COUNT_def

datatype CameraPixelFormat = Nv12 | Yuyv | Mjpeg

record CameraFormat =
  cfm_pixel_format :: CameraPixelFormat
  cfm_width :: u32
  cfm_height :: u32

definition invalid_format :: "string \<Rightarrow> string \<Rightarrow> HalError" where
  "invalid_format operation message =
     hal_error ''camera.format.invalid'' InvalidArgument operation False message"

definition camera_invalid_frame :: "string \<Rightarrow> string \<Rightarrow> HalError" where
  "camera_invalid_frame operation message =
     hal_error ''camera.frame.invalid'' InvalidArgument operation False message"

definition invalid_control_descriptor :: "string \<Rightarrow> string \<Rightarrow> HalError" where
  "invalid_control_descriptor operation message =
     hal_error ''camera.control.invalid'' InvalidArgument operation False message"

definition worst_case_frame_bytes :: "CameraFormat \<Rightarrow> usize hal_result" where
  "worst_case_frame_bytes f =
     and_then (ok_or (invalid_format ''camera.format'' ''camera dimensions overflow'')
       (usize_checked_mul (unat (cfm_width f)) (unat (cfm_height f)))) (\<lambda>pixels.
     case cfm_pixel_format f of
       Nv12 \<Rightarrow> ok_or (invalid_format ''camera.format'' ''NV12 frame size overflows'')
         (map_option (\<lambda>bytes. bytes div 2) (usize_checked_mul pixels 3))
     | Yuyv \<Rightarrow> ok_or (invalid_format ''camera.format'' ''YUYV frame size overflows'')
         (usize_checked_mul pixels 2)
     | Mjpeg \<Rightarrow> Ok MAX_CAMERA_FRAME_BYTES)"

definition CameraFormat_validate :: "CameraFormat \<Rightarrow> unit hal_result" where
  "CameraFormat_validate f =
     (if cfm_width f = 0 \<or> cfm_height f = 0 \<or> cfm_width f > MAX_CAMERA_WIDTH
         \<or> cfm_height f > MAX_CAMERA_HEIGHT then
        Err (invalid_format ''camera.format'' ''camera dimensions must be non-zero and within public bounds'')
      else and_then (worst_case_frame_bytes f) (\<lambda>bytes.
        if bytes > MAX_CAMERA_FRAME_BYTES then
          Err (invalid_format ''camera.format'' ''camera format worst-case payload exceeds the frame bound'')
        else Ok ()))"

definition CameraFormat_new :: "CameraPixelFormat \<Rightarrow> u32 \<Rightarrow> u32 \<Rightarrow> CameraFormat hal_result" where
  "CameraFormat_new pixel_format width height =
     (let format = \<lparr>cfm_pixel_format = pixel_format, cfm_width = width, cfm_height = height\<rparr>
      in and_then (CameraFormat_validate format) (\<lambda>_. Ok format))"

record CameraRequest =
  cq_format :: CameraFormat
  cq_slot_count :: usize

definition CameraRequest_new :: "CameraFormat \<Rightarrow> usize \<Rightarrow> CameraRequest hal_result" where
  "CameraRequest_new format slot_count =
     and_then (CameraFormat_validate format) (\<lambda>_.
     if \<not> (MIN_CAMERA_SLOT_COUNT \<le> slot_count \<and> slot_count \<le> MAX_CAMERA_SLOT_COUNT) then
       and_then (HalError_new ''camera.request.invalid'' InvalidArgument ''camera.request'' False
         ''camera slot count must be within the inclusive public range'') Err
     else Ok \<lparr>cq_format = format, cq_slot_count = slot_count\<rparr>)"

section \<open>Planes\<close>

record CameraPlaneLayout =
  cp_offset :: usize
  cp_length :: usize
  cp_stride :: usize

definition CameraPlaneLayout_new :: "usize \<Rightarrow> usize \<Rightarrow> usize \<Rightarrow> CameraPlaneLayout hal_result" where
  "CameraPlaneLayout_new offset len stride =
     (if len = 0 \<or> stride = 0 then
        and_then (HalError_new ''camera.frame.invalid'' InvalidArgument ''camera.plane_layout'' False
          ''camera plane length and stride must be non-zero'') Err
      else and_then (ok_or (camera_invalid_frame ''camera.plane_layout'' ''camera plane range overflows'')
          (usize_checked_add offset len)) (\<lambda>_.
        Ok \<lparr>cp_offset = offset, cp_length = len, cp_stride = stride\<rparr>))"

text \<open>The \<open>windows(2).any(...)\<close> test on ranges sorted by their start.\<close>

fun windows_overlap :: "(usize \<times> usize) list \<Rightarrow> bool" where
  "windows_overlap (a # b # rest) = (snd a > fst b \<or> windows_overlap (b # rest))"
| "windows_overlap _ = False"

definition frame_metadata_error :: "string \<Rightarrow> HalError" where
  "frame_metadata_error message = camera_invalid_frame ''camera.frame_metadata'' message"

text \<open>
  \<open>a < rows * stride?\<close> with the checked multiplication of the source: the error of the
  overflow is reported before the comparison.
\<close>

definition shorter_than_rows :: "string \<Rightarrow> usize \<Rightarrow> usize \<Rightarrow> usize \<Rightarrow> bool hal_result" where
  "shorter_than_rows message len stride rows =
     map_ok (\<lambda>size. len < size) (ok_or (frame_metadata_error message) (usize_checked_mul stride rows))"

text \<open>The lazy disjunction of fallible conditions.\<close>

definition or_lazy :: "(bool, 'e) result \<Rightarrow> (bool, 'e) result \<Rightarrow> (bool, 'e) result" where
  "or_lazy a b = and_then a (\<lambda>x. if x then Ok True else b)"

definition plane_size_check :: "CameraFormat \<Rightarrow> CameraPlaneLayout list \<Rightarrow> unit hal_result" where
  "plane_size_check format planes =
     (let width = unat (cfm_width format); height = unat (cfm_height format) in
      case cfm_pixel_format format of
        Nv12 \<Rightarrow>
          (let y = planes ! 0; uv = planes ! 1 in
           and_then
             (or_lazy (Ok (cp_stride y < width)) (or_lazy (Ok (cp_stride uv < width))
               (or_lazy (shorter_than_rows ''camera Y plane layout overflows'' (cp_length y) (cp_stride y) height)
                 (shorter_than_rows ''camera UV plane layout overflows'' (cp_length uv) (cp_stride uv)
                    ((height + 1) div 2)))))
             (\<lambda>small. if small then
                Err (frame_metadata_error ''NV12 plane layout is smaller than its format dimensions'')
              else Ok ()))
      | Yuyv \<Rightarrow>
          (let plane = planes ! 0 in
           and_then (ok_or (frame_metadata_error ''camera YUYV stride overflows'') (usize_checked_mul width 2))
             (\<lambda>minimum_stride.
           and_then
             (or_lazy (Ok (cp_stride plane < minimum_stride))
               (shorter_than_rows ''camera YUYV plane layout overflows'' (cp_length plane) (cp_stride plane) height))
             (\<lambda>small. if small then
                Err (frame_metadata_error ''YUYV plane layout is smaller than its format dimensions'')
              else Ok ())))
      | Mjpeg \<Rightarrow> Ok ())"

definition plane_range :: "CameraPlaneLayout \<Rightarrow> (usize \<times> usize) hal_result" where
  "plane_range plane =
     ok_or (frame_metadata_error ''camera plane range overflows'')
       (map_option (\<lambda>end. (cp_offset plane, end)) (usize_checked_add (cp_offset plane) (cp_length plane)))"

definition validate_plane_layouts :: "CameraFormat \<Rightarrow> CameraPlaneLayout list \<Rightarrow> unit hal_result" where
  "validate_plane_layouts format planes =
     (let expected_plane_count = (case cfm_pixel_format format of Nv12 \<Rightarrow> 2 | Yuyv \<Rightarrow> 1 | Mjpeg \<Rightarrow> 1) in
      if length planes \<noteq> expected_plane_count then
        Err (frame_metadata_error ''camera plane count does not match the pixel format'')
      else and_then (plane_size_check format planes) (\<lambda>_.
        and_then (collect_results (map plane_range planes)) (\<lambda>ranges.
        if windows_overlap (sort_key fst ranges) then
          Err (frame_metadata_error ''camera plane ranges must not overlap'')
        else Ok ())))"

definition plane_escapes :: "usize \<Rightarrow> CameraPlaneLayout \<Rightarrow> bool" where
  "plane_escapes payload_length plane =
     (case usize_checked_add (cp_offset plane) (cp_length plane) of
        None \<Rightarrow> True | Some end \<Rightarrow> end > payload_length)"

definition validate_plane_layouts_against_payload ::
  "CameraFormat \<Rightarrow> CameraPlaneLayout list \<Rightarrow> usize \<Rightarrow> unit hal_result" where
  "validate_plane_layouts_against_payload format planes payload_length =
     and_then (validate_plane_layouts format planes) (\<lambda>_.
     if list_ex (plane_escapes payload_length) planes then
       Err (camera_invalid_frame ''camera.frame'' ''camera plane layout exceeds payload bounds'')
     else Ok ())"

section \<open>Frames\<close>

record CameraFrameMetadata =
  cm_format :: CameraFormat
  cm_planes :: "CameraPlaneLayout list"
  cm_sequence :: u64
  cm_monotonic_timestamp_ns :: u64
  cm_clock_domain :: string
  cm_dropped_count :: u64

definition CameraFrameMetadata_new ::
  "CameraFormat \<Rightarrow> CameraPlaneLayout list \<Rightarrow> u64 \<Rightarrow> u64 \<Rightarrow> string \<Rightarrow> u64 \<Rightarrow> CameraFrameMetadata hal_result"
  where
  "CameraFrameMetadata_new format planes sequence monotonic_timestamp_ns clock_domain dropped_count =
     and_then (CameraFormat_validate format) (\<lambda>_.
     if clock_domain = [] \<or> \<not> is_ascii clock_domain \<or> length clock_domain > 255 then
       and_then (HalError_new ''camera.frame.invalid'' InvalidArgument ''camera.frame_metadata'' False
         ''camera clock domain must be non-empty ASCII of at most 255 bytes'') Err
     else if planes = [] then
       Err (frame_metadata_error ''camera frames must declare one or more planes'')
     else and_then (validate_plane_layouts format planes) (\<lambda>_.
       Ok \<lparr>cm_format = format, cm_planes = planes, cm_sequence = sequence,
           cm_monotonic_timestamp_ns = monotonic_timestamp_ns, cm_clock_domain = clock_domain,
           cm_dropped_count = dropped_count\<rparr>))"

record CameraFrame =
  cfr_metadata :: CameraFrameMetadata
  cfr_payload :: "u8 list"

definition CameraFrame_new :: "CameraFrameMetadata \<Rightarrow> u8 list \<Rightarrow> CameraFrame hal_result" where
  "CameraFrame_new metadata payload =
     (if length payload > MAX_CAMERA_FRAME_BYTES
         \<or> list_ex (plane_escapes (length payload)) (cm_planes metadata) then
        Err (camera_invalid_frame ''camera.frame'' ''camera frame payload or plane layout exceeds public bounds'')
      else and_then (validate_plane_layouts_against_payload (cm_format metadata) (cm_planes metadata)
          (length payload)) (\<lambda>_.
        Ok \<lparr>cfr_metadata = metadata, cfr_payload = payload\<rparr>))"

text \<open>
  The copier the default \<open>capture_into\<close> hands to the sink: it fills a prefix of the destination
  and returns the number of bytes, or leaves the destination alone.
\<close>

definition capture_copy :: "u8 list \<Rightarrow> u8 list \<Rightarrow> usize hal_result \<times> u8 list" where
  "capture_copy payload destination =
     (if length payload > length destination then
        (Err (camera_invalid_frame ''camera.capture_into''
           ''camera frame payload exceeds the provided sink capacity''), destination)
      else (Ok (length payload), payload @ drop (length payload) destination))"

section \<open>Controls\<close>

datatype CameraControlKind = Exposure | Gain | WhiteBalance | Focus

datatype CameraControlValue = IntegerValue int | EnumValue string

datatype CameraControlValues =
    RangeValues (rv_minimum: int) (rv_maximum: int) (rv_step: int)
  | Enumerated "CameraControlValue list"

definition control_range :: "int \<Rightarrow> int \<Rightarrow> int \<Rightarrow> CameraControlValues hal_result" where
  "control_range minimum maximum step =
     (if minimum > maximum \<or> step \<le> 0 then
        Err (invalid_control_descriptor ''camera.control_values''
          ''camera control range must be ordered with a positive step'')
      else Ok (RangeValues minimum maximum step))"

definition control_enumerated :: "CameraControlValue list \<Rightarrow> CameraControlValues hal_result" where
  "control_enumerated values =
     (if values = [] then
        Err (invalid_control_descriptor ''camera.control_values''
          ''camera enumerated controls must have one or more values'')
      else Ok (Enumerated values))"

text \<open>
  \<open>i64\<close> subtraction and remainder as release builds compute them: the subtraction wraps to the
  64-bit range, the remainder has the sign of the dividend.
\<close>

definition i64_wrap :: "int \<Rightarrow> int" where
  "i64_wrap z = (z + 2 ^ 63) mod 2 ^ 64 - 2 ^ 63"

definition i64_rem :: "int \<Rightarrow> int \<Rightarrow> int" where
  "i64_rem a b = (if a \<ge> 0 then a mod \<bar>b\<bar> else - ((- a) mod \<bar>b\<bar>))"

fun control_contains :: "CameraControlValues \<Rightarrow> CameraControlValue \<Rightarrow> bool" where
  "control_contains (RangeValues minimum maximum step) (IntegerValue value) =
     (value \<ge> minimum \<and> value \<le> maximum \<and> i64_rem (i64_wrap (value - minimum)) step = 0)"
| "control_contains (Enumerated values) value = (value \<in> set values)"
| "control_contains _ _ = False"

record CameraControlDescriptor =
  cd_kind :: CameraControlKind
  cd_readable :: bool
  cd_writable :: bool
  cd_auto_supported :: bool
  cd_values :: CameraControlValues
  cd_current_value_available :: bool
  cd_diagnostic :: "string option"

definition CameraControlDescriptor_new ::
  "CameraControlKind \<Rightarrow> bool \<Rightarrow> bool \<Rightarrow> bool \<Rightarrow> CameraControlValues \<Rightarrow> bool \<Rightarrow> string option
     \<Rightarrow> CameraControlDescriptor hal_result" where
  "CameraControlDescriptor_new kind readable writable auto_supported values current_value_available diagnostic =
     (if \<not> readable \<and> current_value_available then
        Err (invalid_control_descriptor ''camera.control_descriptor''
          ''unreadable controls cannot advertise a current value'')
      else Ok \<lparr>cd_kind = kind, cd_readable = readable, cd_writable = writable,
        cd_auto_supported = auto_supported, cd_values = values,
        cd_current_value_available = current_value_available, cd_diagnostic = diagnostic\<rparr>)"

section \<open>Disjoint ranges\<close>

definition disjoint_range :: "usize \<times> usize \<Rightarrow> usize \<times> usize \<Rightarrow> bool" where
  "disjoint_range a b \<longleftrightarrow> snd a \<le> fst b \<or> snd b \<le> fst a"

abbreviation ranges_disjoint :: "(usize \<times> usize) list \<Rightarrow> bool" where
  "ranges_disjoint \<equiv> sorted_wrt disjoint_range"

lemma sorted_wrt_symmetric_cong:
  assumes sym: "\<And>a b. R a b = R b a" and eq: "mset xs = mset ys"
  shows "sorted_wrt R xs = sorted_wrt R ys"
  using eq
proof (induction xs arbitrary: ys)
  case Nil
  then show ?case by simp
next
  case (Cons x xs)
  then have "x \<in> set ys" by (metis list.set_intros(1) set_mset_mset)
  then obtain as bs where ys: "ys = as @ x # bs" by (meson split_list)
  with Cons.prems have m: "mset xs = mset (as @ bs)" by simp
  then have "set xs = set as \<union> set bs" by (metis set_append set_mset_mset)
  with Cons.IH [OF m] show ?case by (auto simp: ys sorted_wrt_append sym)
qed

lemma windows_overlap_sorted:
  assumes "sorted (map fst rs)" "\<forall>r\<in>set rs. fst r < snd r"
  shows "\<not> windows_overlap rs \<longleftrightarrow> ranges_disjoint rs"
  using assms
proof (induction rs rule: windows_overlap.induct)
  case (1 a b rest)
  have IH: "\<not> windows_overlap (b # rest) \<longleftrightarrow> ranges_disjoint (b # rest)"
    using 1 by simp
  have above: "\<forall>r\<in>set (b # rest). fst b \<le> fst r" using 1 by auto
  have "fst b < snd b" "fst a \<le> fst b" using 1 by auto
  then have "(\<forall>r\<in>set (b # rest). disjoint_range a r) \<longleftrightarrow> snd a \<le> fst b"
    using above unfolding disjoint_range_def by (meson dual_order.trans list.set_intros(1) not_le)
  then show ?case
    using IH by (simp only: windows_overlap.simps sorted_wrt.simps(2) de_Morgan_disj not_less)
qed simp_all

lemma windows_overlap_iff:
  assumes "\<forall>r\<in>set rs. fst r < snd r"
  shows "\<not> windows_overlap (sort_key fst rs) \<longleftrightarrow> ranges_disjoint rs"
  using windows_overlap_sorted [of "sort_key fst rs"] assms
    sorted_wrt_symmetric_cong [of disjoint_range "sort_key fst rs" rs]
  by (auto simp: disjoint_range_def)


section \<open>Well-formed values\<close>

definition camera_format_wf :: "CameraFormat \<Rightarrow> bool" where
  "camera_format_wf f \<longleftrightarrow> 0 < unat (cfm_width f) \<and> unat (cfm_width f) \<le> 4096
     \<and> 0 < unat (cfm_height f) \<and> unat (cfm_height f) \<le> 2160"

definition plane_wf :: "CameraPlaneLayout \<Rightarrow> bool" where
  "plane_wf p \<longleftrightarrow> 0 < cp_length p \<and> 0 < cp_stride p \<and> cp_offset p + cp_length p \<le> usize_max"

text \<open>The bytes of the payload a plane describes, and the rows it has to hold.\<close>

definition plane_bytes :: "CameraPlaneLayout \<Rightarrow> nat set" where
  "plane_bytes p = {cp_offset p ..< cp_offset p + cp_length p}"

definition plane_span :: "CameraPlaneLayout \<Rightarrow> usize \<times> usize" where
  "plane_span p = (cp_offset p, cp_offset p + cp_length p)"

definition plane_holds :: "CameraPlaneLayout \<Rightarrow> nat \<Rightarrow> nat \<Rightarrow> bool" where
  "plane_holds p row_bytes rows \<longleftrightarrow> row_bytes \<le> cp_stride p \<and> cp_stride p * rows \<le> cp_length p"

definition planes_cover :: "CameraFormat \<Rightarrow> CameraPlaneLayout list \<Rightarrow> bool" where
  "planes_cover f ps \<longleftrightarrow>
     (let w = unat (cfm_width f); h = unat (cfm_height f) in
      case cfm_pixel_format f of
        Nv12 \<Rightarrow> length ps = 2 \<and> plane_holds (ps ! 0) w h \<and> plane_holds (ps ! 1) w ((h + 1) div 2)
      | Yuyv \<Rightarrow> length ps = 1 \<and> plane_holds (ps ! 0) (2 * w) h
      | Mjpeg \<Rightarrow> length ps = 1)"

lemma word_bound_unat: "(w :: u32) \<le> 4096 \<longleftrightarrow> unat w \<le> 4096" "w \<le> 2160 \<longleftrightarrow> unat w \<le> 2160"
  by (simp_all add: word_le_nat_alt)

lemma dimension_product:
  assumes "w \<le> 4096" "h \<le> (2160 :: nat)"
  shows "w * h \<le> 8847360"
  using mult_le_mono [OF assms] by simp

lemma worst_case_frame_bytes_wf:
  assumes "camera_format_wf f"
  shows "worst_case_frame_bytes f =
     Ok (let n = unat (cfm_width f) * unat (cfm_height f) in
         case cfm_pixel_format f of Nv12 \<Rightarrow> n * 3 div 2 | Yuyv \<Rightarrow> n * 2 | Mjpeg \<Rightarrow> 24 * 1024 * 1024)"
proof -
  have "unat (cfm_width f) * unat (cfm_height f) \<le> 8847360"
    using assms by (intro dimension_product) (auto simp: camera_format_wf_def)
  moreover from this have "unat (cfm_height f) * unat (cfm_width f) \<le> 8847360" by (simp add: mult.commute)
  ultimately show ?thesis
    by (simp add: worst_case_frame_bytes_def usize_checked_mul_def usize_max_def camera_limits Let_def
        split: CameraPixelFormat.split)
qed

lemma worst_case_bound:
  assumes "camera_format_wf f" "worst_case_frame_bytes f = Ok n"
  shows "n \<le> MAX_CAMERA_FRAME_BYTES"
proof -
  have "unat (cfm_width f) * unat (cfm_height f) \<le> 8847360"
    using assms by (intro dimension_product) (auto simp: camera_format_wf_def)
  then show ?thesis
    using assms(2) unfolding worst_case_frame_bytes_wf [OF assms(1)]
    by (auto simp: camera_limits Let_def split: CameraPixelFormat.splits)
qed

lemma CameraFormat_validate_Ok [simp, ok_simps]: "CameraFormat_validate f = Ok u \<longleftrightarrow> camera_format_wf f"
proof
  assume "CameraFormat_validate f = Ok u"
  then show "camera_format_wf f"
    by (auto simp: CameraFormat_validate_def camera_format_wf_def camera_limits word_bound_unat not_less
        unat_eq_0 simp flip: neq0_conv split: if_splits)
next
  assume wf: "camera_format_wf f"
  then have "cfm_width f \<noteq> 0" "cfm_height f \<noteq> 0" by (auto simp: camera_format_wf_def)
  moreover obtain n where n: "worst_case_frame_bytes f = Ok n" using worst_case_frame_bytes_wf [OF wf] by simp
  ultimately show "CameraFormat_validate f = Ok u"
    using wf worst_case_bound [OF wf n]
    by (simp add: CameraFormat_validate_def camera_format_wf_def camera_limits word_bound_unat not_less)
qed

lemma CameraFormat_new_Ok [simp, ok_simps]:
  "CameraFormat_new px w h = Ok f \<longleftrightarrow>
     f = \<lparr>cfm_pixel_format = px, cfm_width = w, cfm_height = h\<rparr> \<and> camera_format_wf f"
  by (auto simp: CameraFormat_new_def Let_def)

lemma CameraRequest_new_Ok [ok_simps]:
  "CameraRequest_new f n = Ok r \<longleftrightarrow>
     r = \<lparr>cq_format = f, cq_slot_count = n\<rparr> \<and> camera_format_wf f \<and> 4 \<le> n \<and> n \<le> 8"
  by (auto simp: CameraRequest_new_def camera_limits)

lemma CameraPlaneLayout_new_Ok [ok_simps]:
  "CameraPlaneLayout_new off len st = Ok p \<longleftrightarrow>
     p = \<lparr>cp_offset = off, cp_length = len, cp_stride = st\<rparr> \<and> plane_wf p"
  by (auto simp: CameraPlaneLayout_new_def plane_wf_def)

lemma shorter_than_rows_Ok:
  "shorter_than_rows m len st rows = Ok b \<longleftrightarrow> st * rows \<le> usize_max \<and> b = (len < st * rows)"
  by (auto simp: shorter_than_rows_def)

lemma or_lazy_Ok [simp]:
  "or_lazy a b = Ok False \<longleftrightarrow> a = Ok False \<and> b = Ok False"
  "or_lazy (Ok x) b = (if x then Ok True else b)"
  by (auto simp: or_lazy_def)

lemma and_then_unless:
  "and_then r (\<lambda>small. if small then Err e else Ok ()) = Ok u \<longleftrightarrow> r = Ok False"
  by (cases r) (auto split: if_splits)

lemma plane_holds_bounded:
  "plane_wf p \<Longrightarrow> plane_holds p w rows \<Longrightarrow> cp_stride p * rows \<le> usize_max"
  unfolding plane_wf_def plane_holds_def by linarith


lemma shorter_than_rows_False:
  assumes "plane_wf p"
  shows "cp_stride p < w \<or> \<not> shorter_than_rows m (cp_length p) (cp_stride p) rows = Ok False
     \<longleftrightarrow> \<not> plane_holds p w rows"
  using plane_holds_bounded [OF assms] by (auto simp: shorter_than_rows_Ok plane_holds_def)

lemma plane_size_check_Ok:
  assumes wf: "\<forall>p\<in>set ps. plane_wf p" and f: "camera_format_wf f"
    and len: "length ps = (case cfm_pixel_format f of Nv12 \<Rightarrow> 2 | Yuyv \<Rightarrow> 1 | Mjpeg \<Rightarrow> 1)"
  shows "plane_size_check f ps = Ok u \<longleftrightarrow> planes_cover f ps"
proof (cases "cfm_pixel_format f")
  case Nv12
  with len wf have "plane_wf (ps ! 0)" "plane_wf (ps ! 1)" by simp_all
  note H = shorter_than_rows_False [OF this(1)] shorter_than_rows_False [OF this(2)]
  show ?thesis
    using len Nv12 H(1) [of "unat (cfm_width f)" _ "unat (cfm_height f)"]
      H(2) [of "unat (cfm_width f)" _ "(unat (cfm_height f) + 1) div 2"]
    by (auto simp: plane_size_check_def planes_cover_def Let_def and_then_unless)
next
  case Yuyv
  with len wf have "plane_wf (ps ! 0)" by simp
  note H = shorter_than_rows_False [OF this, of "2 * unat (cfm_width f)" _ "unat (cfm_height f)"]
  have "usize_checked_mul (unat (cfm_width f)) 2 = Some (2 * unat (cfm_width f))"
    using f by (simp add: camera_format_wf_def usize_max_def)
  then show ?thesis
    using len Yuyv H by (auto simp: plane_size_check_def planes_cover_def Let_def and_then_unless)
next
  case Mjpeg
  then show ?thesis using len by (simp add: plane_size_check_def planes_cover_def Let_def)
qed

lemma collect_plane_ranges:
  "\<forall>p\<in>set ps. plane_wf p \<Longrightarrow> collect_results (map plane_range ps) = Ok (map plane_span ps)"
  by (induction ps) (auto simp: plane_range_def plane_wf_def plane_span_def usize_checked_add_def)

lemma validate_plane_layouts_Ok:
  assumes "\<forall>p\<in>set ps. plane_wf p" and "camera_format_wf f"
  shows "validate_plane_layouts f ps = Ok u \<longleftrightarrow> planes_cover f ps \<and> ranges_disjoint (map plane_span ps)"
proof -
  have "\<forall>r\<in>set (map plane_span ps). fst r < snd r" using assms by (auto simp: plane_span_def plane_wf_def)
  note W = windows_overlap_iff [OF this]
  show ?thesis
  proof (cases "length ps = (case cfm_pixel_format f of Nv12 \<Rightarrow> 2 | Yuyv \<Rightarrow> 1 | Mjpeg \<Rightarrow> 1)")
    case True
    then show ?thesis
      using plane_size_check_Ok [OF assms True] W
      by (auto simp: validate_plane_layouts_def Let_def collect_plane_ranges [OF assms(1)])
  next
    case False
    then have "\<not> planes_cover f ps" by (auto simp: planes_cover_def Let_def split: CameraPixelFormat.splits)
    with False show ?thesis by (auto simp: validate_plane_layouts_def Let_def)
  qed
qed

definition metadata_wf :: "CameraFrameMetadata \<Rightarrow> bool" where
  "metadata_wf m \<longleftrightarrow> camera_format_wf (cm_format m) \<and> (\<forall>p\<in>set (cm_planes m). plane_wf p)
     \<and> planes_cover (cm_format m) (cm_planes m) \<and> ranges_disjoint (map plane_span (cm_planes m))
     \<and> valid_identifier (cm_clock_domain m)"

lemma planes_cover_nonempty: "planes_cover f ps \<Longrightarrow> ps \<noteq> []"
  by (auto simp: planes_cover_def Let_def split: CameraPixelFormat.splits)

lemma CameraFrameMetadata_new_Ok [ok_simps]:
  assumes "\<forall>p\<in>set ps. plane_wf p"
  shows "CameraFrameMetadata_new f ps sq ts cd dr = Ok m \<longleftrightarrow>
     m = \<lparr>cm_format = f, cm_planes = ps, cm_sequence = sq, cm_monotonic_timestamp_ns = ts,
         cm_clock_domain = cd, cm_dropped_count = dr\<rparr> \<and> metadata_wf m"
proof -
  have "is_ascii cd \<Longrightarrow> cd \<noteq> [] \<Longrightarrow> length cd \<le> 255 \<longleftrightarrow> valid_identifier cd" by (simp add: valid_identifier_def)
  then show ?thesis
    using assms planes_cover_nonempty [of f ps] validate_plane_layouts_Ok [OF assms, of f]
    by (auto simp: CameraFrameMetadata_new_def metadata_wf_def valid_identifier_def)
qed

lemma plane_escapes_iff: "plane_wf p \<Longrightarrow> plane_escapes n p \<longleftrightarrow> \<not> cp_offset p + cp_length p \<le> n"
  by (auto simp: plane_escapes_def plane_wf_def usize_checked_add_def)

lemma CameraFrame_new_Ok [ok_simps]:
  assumes "metadata_wf m"
  shows "CameraFrame_new m payload = Ok fr \<longleftrightarrow>
     fr = \<lparr>cfr_metadata = m, cfr_payload = payload\<rparr> \<and> length payload \<le> MAX_CAMERA_FRAME_BYTES
       \<and> (\<forall>p\<in>set (cm_planes m). cp_offset p + cp_length p \<le> length payload)"
proof -
  have "validate_plane_layouts (cm_format m) (cm_planes m) = Ok ()"
    using assms validate_plane_layouts_Ok by (auto simp: metadata_wf_def)
  moreover have "list_ex (plane_escapes n) (cm_planes m) \<longleftrightarrow>
      \<not> (\<forall>p\<in>set (cm_planes m). cp_offset p + cp_length p \<le> n)" for n
    using assms by (auto simp: metadata_wf_def list_ex_iff plane_escapes_iff)
  ultimately show ?thesis
    by (auto simp: CameraFrame_new_def validate_plane_layouts_against_payload_def)
qed

lemma ranges_disjoint_nth:
  "ranges_disjoint (map plane_span ps) \<Longrightarrow> i < length ps \<Longrightarrow> j < length ps \<Longrightarrow> i \<noteq> j \<Longrightarrow>
     plane_bytes (ps ! i) \<inter> plane_bytes (ps ! j) = {}"
proof (induction i j rule: linorder_wlog)
  case (le i j)
  then have "disjoint_range (plane_span (ps ! i)) (plane_span (ps ! j))"
    by (simp add: sorted_wrt_iff_nth_less)
  then show ?case by (auto simp: disjoint_range_def plane_span_def plane_bytes_def)
qed (auto simp: Int_commute)


lemma i64_wrap_id: "- (2 ^ 63) \<le> z \<Longrightarrow> z < 2 ^ 63 \<Longrightarrow> i64_wrap z = z"
  by (simp add: i64_wrap_def)

lemma errs_camera [errs]:
  "errs_wf (CameraFormat_validate f)" "errs_wf (CameraPlaneLayout_new off len st)"
  "errs_wf (control_range lo hi incr)" "errs_wf (control_enumerated vs)"
  "errs_wf (CameraControlDescriptor_new k r w a v c d)" "errs_wf (validate_plane_layouts f ps)"
proof -
  have i: "hal_error_wf (invalid_format ''camera.format'' m)"
    "hal_error_wf (camera_invalid_frame ''camera.plane_layout'' m)" "hal_error_wf (frame_metadata_error m)"
    "hal_error_wf (invalid_control_descriptor ''camera.control_values'' m)"
    "hal_error_wf (invalid_control_descriptor ''camera.control_descriptor'' m)" for m
    by (simp_all add: invalid_format_def camera_invalid_frame_def frame_metadata_error_def
        invalid_control_descriptor_def identifier_eval)
  show "errs_wf (CameraFormat_validate f)"
    by (auto simp: CameraFormat_validate_def worst_case_frame_bytes_def i intro!: errs_wf_and_then
        split: CameraPixelFormat.split)
  show "errs_wf (CameraPlaneLayout_new off len st)"
    by (auto simp: CameraPlaneLayout_new_def i HalError_new_Ok identifier_eval intro!: errs_wf_and_then)
  show "errs_wf (control_range lo hi incr)" "errs_wf (control_enumerated vs)"
    "errs_wf (CameraControlDescriptor_new k r w a v c d)"
    by (simp_all add: control_range_def control_enumerated_def CameraControlDescriptor_new_def i)
  have r: "errs_wf (or_lazy (Ok b) x) = (b \<or> errs_wf x)" for b and x :: "bool hal_result" by simp
  have o: "errs_wf x \<Longrightarrow> errs_wf y \<Longrightarrow> errs_wf (or_lazy x y)" for x y :: "bool hal_result"
    by (auto simp: or_lazy_def intro!: errs_wf_and_then)
  have h: "errs_wf (shorter_than_rows m a b c)" for m a b c by (simp add: shorter_than_rows_def i)
  have "errs_wf (plane_size_check f ps)"
    unfolding plane_size_check_def Let_def
    by (auto simp: i intro!: errs_wf_and_then o h split: CameraPixelFormat.split)
  then show "errs_wf (validate_plane_layouts f ps)"
    by (auto simp: validate_plane_layouts_def Let_def i plane_range_def intro!: errs_wf_and_then errs_wf_collect)
qed

section \<open>Properties\<close>

text \<open>
  C27. Memory safety of accepted frames: when the planes were built by their constructor and the
  metadata and the frame were accepted, every byte a plane describes lies inside the payload, no
  two planes share a byte, and the planes have room for all the rows of the format.
\<close>

theorem camera_frame_planes_safe:
  assumes "\<forall>p\<in>set planes. CameraPlaneLayout_new (cp_offset p) (cp_length p) (cp_stride p) = Ok p"
    and "CameraFrameMetadata_new format planes sequence timestamp clock dropped = Ok metadata"
    and "CameraFrame_new metadata payload = Ok frame"
  shows "(\<forall>p\<in>set planes. plane_bytes p \<subseteq> {..<length payload})
     \<and> (\<forall>i<length planes. \<forall>j<length planes. i \<noteq> j \<longrightarrow> plane_bytes (planes ! i) \<inter> plane_bytes (planes ! j) = {})
     \<and> planes_cover format planes \<and> length payload \<le> MAX_CAMERA_FRAME_BYTES"
proof -
  have wf: "\<forall>p\<in>set planes. plane_wf p" using assms(1) by (auto simp: CameraPlaneLayout_new_Ok)
  with assms(2) have m: "metadata_wf metadata" "cm_planes metadata = planes" "cm_format metadata = format"
    by (auto simp: CameraFrameMetadata_new_Ok)
  with assms(3) have b: "\<forall>p\<in>set planes. cp_offset p + cp_length p \<le> length payload"
    "length payload \<le> MAX_CAMERA_FRAME_BYTES"
    by (auto simp: CameraFrame_new_Ok)
  have "ranges_disjoint (map plane_span planes)" "planes_cover format planes"
    using m by (auto simp: metadata_wf_def)
  moreover have "\<forall>p\<in>set planes. plane_bytes p \<subseteq> {..<length payload}"
    using b(1) by (auto simp: plane_bytes_def)
  ultimately show ?thesis using b(2) ranges_disjoint_nth by blast
qed

lemma camera_frame_planes_safe_witness:
  "let p = \<lparr>cp_offset = 2, cp_length = 8, cp_stride = 4\<rparr>;
       format = \<lparr>cfm_pixel_format = Yuyv, cfm_width = 2, cfm_height = 2\<rparr>
   in plane_bytes p \<subseteq> {..<(10 :: nat)} \<and> planes_cover format [p]"
proof -
  let ?p = "\<lparr>cp_offset = 2, cp_length = 8, cp_stride = 4\<rparr>"
  let ?f = "\<lparr>cfm_pixel_format = Yuyv, cfm_width = 2, cfm_height = 2\<rparr>"
  let ?m = "\<lparr>cm_format = ?f, cm_planes = [?p], cm_sequence = 1, cm_monotonic_timestamp_ns = 7,
    cm_clock_domain = ''mono'', cm_dropped_count = 0\<rparr>"
  have p: "\<forall>p\<in>set [?p]. CameraPlaneLayout_new (cp_offset p) (cp_length p) (cp_stride p) = Ok p"
    by (simp add: CameraPlaneLayout_new_Ok plane_wf_def usize_max_def)
  have wf: "metadata_wf ?m"
    by (simp add: metadata_wf_def camera_format_wf_def plane_wf_def usize_max_def planes_cover_def
        plane_holds_def identifier_eval)
  have m: "CameraFrameMetadata_new ?f [?p] 1 7 ''mono'' 0 = Ok ?m"
    using wf p by (subst CameraFrameMetadata_new_Ok) (auto simp: CameraPlaneLayout_new_Ok)
  have f: "CameraFrame_new ?m (replicate 10 0) = Ok \<lparr>cfr_metadata = ?m, cfr_payload = replicate 10 0\<rparr>"
    by (subst CameraFrame_new_Ok [OF wf]) (simp add: camera_limits)
  show ?thesis using camera_frame_planes_safe [OF p m f] by simp
qed

text \<open>
  C38. The worst case is not a bound for NV12 frames of odd height: every frame accepted for such a
  format has a payload longer than the worst-case size computed for the format, because the
  chroma plane is required to have the rounded-up number of rows while the worst case rounds down.
\<close>

theorem nv12_odd_height_exceeds_worst_case:
  assumes "\<forall>p\<in>set planes. CameraPlaneLayout_new (cp_offset p) (cp_length p) (cp_stride p) = Ok p"
    and "CameraFrameMetadata_new format planes sequence timestamp clock dropped = Ok metadata"
    and "CameraFrame_new metadata payload = Ok frame"
    and "cfm_pixel_format format = Nv12" and "odd (unat (cfm_height format))"
  shows "\<exists>n. worst_case_frame_bytes format = Ok n \<and> n < length payload"
proof -
  have wf: "\<forall>p\<in>set planes. plane_wf p" using assms(1) by (auto simp: CameraPlaneLayout_new_Ok)
  with assms(2) have m: "metadata_wf metadata" "cm_planes metadata = planes" "cm_format metadata = format"
    by (auto simp: CameraFrameMetadata_new_Ok)
  let ?w = "unat (cfm_width format)" let ?h = "unat (cfm_height format)"
  obtain k where k: "?h = 2 * k + 1" using assms(5) by (auto elim: oddE)
  have c: "planes_cover format planes" "camera_format_wf format" using m by (auto simp: metadata_wf_def)
  then obtain y uv where ps: "planes = [y, uv]"
    using assms(4) by (auto simp: planes_cover_def Let_def numeral_2_eq_2 length_Suc_conv)
  have "plane_holds y ?w ?h" "plane_holds uv ?w (k + 1)"
    using c(1) assms(4) ps k by (auto simp: planes_cover_def Let_def)
  then have "?w * ?h \<le> cp_length y" "?w * (k + 1) \<le> cp_length uv"
    unfolding plane_holds_def by (meson mult_le_mono1 order_trans)+
  moreover have "disjoint_range (plane_span y) (plane_span uv)" using m ps by (auto simp: metadata_wf_def)
  then have "cp_length y + cp_length uv \<le> length payload"
    using assms(3) m ps by (auto simp: CameraFrame_new_Ok disjoint_range_def plane_span_def)
  moreover have "worst_case_frame_bytes format = Ok (?w * ?h * 3 div 2)"
    using worst_case_frame_bytes_wf [OF c(2)] assms(4) by (simp add: Let_def)
  moreover have "0 < ?w" using c(2) by (simp add: camera_format_wf_def)
  ultimately show ?thesis using k by (auto simp: algebra_simps)
qed

lemma nv12_odd_height_exceeds_worst_case_witness:
  "\<exists>n. worst_case_frame_bytes \<lparr>cfm_pixel_format = Nv12, cfm_width = 3, cfm_height = 3\<rparr> = Ok n \<and> n < (15 :: nat)"
proof -
  let ?y = "\<lparr>cp_offset = 0, cp_length = 9, cp_stride = 3\<rparr>"
  let ?u = "\<lparr>cp_offset = 9, cp_length = 6, cp_stride = 3\<rparr>"
  let ?f = "\<lparr>cfm_pixel_format = Nv12, cfm_width = 3, cfm_height = 3\<rparr>"
  let ?m = "\<lparr>cm_format = ?f, cm_planes = [?y, ?u], cm_sequence = 1, cm_monotonic_timestamp_ns = 7,
    cm_clock_domain = ''mono'', cm_dropped_count = 0\<rparr>"
  have p: "\<forall>p\<in>set [?y, ?u]. CameraPlaneLayout_new (cp_offset p) (cp_length p) (cp_stride p) = Ok p"
    by (simp add: CameraPlaneLayout_new_Ok plane_wf_def usize_max_def)
  have wf: "metadata_wf ?m"
    by (simp add: metadata_wf_def camera_format_wf_def plane_wf_def usize_max_def planes_cover_def
        plane_holds_def identifier_eval plane_span_def disjoint_range_def)
  have m: "CameraFrameMetadata_new ?f [?y, ?u] 1 7 ''mono'' 0 = Ok ?m"
    using wf p by (subst CameraFrameMetadata_new_Ok) (auto simp: CameraPlaneLayout_new_Ok)
  have f: "CameraFrame_new ?m (replicate 15 0) = Ok \<lparr>cfr_metadata = ?m, cfr_payload = replicate 15 0\<rparr>"
    by (subst CameraFrame_new_Ok [OF wf]) (simp add: camera_limits)
  show ?thesis using nv12_odd_height_exceeds_worst_case [OF p m f] by simp
qed

section \<open>Control ranges\<close>

lemma progression_member:
  assumes "(0 :: int) < step"
  shows "(\<exists>k::nat. v = minimum + int k * step) \<longleftrightarrow> minimum \<le> v \<and> step dvd v - minimum"
proof
  assume "minimum \<le> v \<and> step dvd v - minimum"
  then obtain q where "v - minimum = step * q" "0 \<le> v - minimum" by (auto elim: dvdE)
  moreover from this assms have "0 \<le> q" by (simp add: zero_le_mult_iff)
  ultimately show "\<exists>k::nat. v = minimum + int k * step"
    by (intro exI [of _ "nat q"]) (simp add: mult.commute)
qed (use assms in auto)

lemma i64_rem_zero: "0 < b \<Longrightarrow> i64_rem a b = 0 \<longleftrightarrow> b dvd a"
  by (auto simp: i64_rem_def dvd_eq_mod_eq_0 [symmetric])

lemma i64_wrap_high:
  assumes "2 ^ 63 \<le> z" "z < 2 ^ 64"
  shows "i64_wrap z = z - 2 ^ 64"
proof -
  have "(z + 2 ^ 63) mod 2 ^ 64 = (z - 2 ^ 63) mod 2 ^ 64"
    using mod_add_self2 [of "z - 2 ^ 63" "2 ^ 64 :: int"] by (simp add: algebra_simps)
  then show ?thesis using assms by (simp add: i64_wrap_def)
qed

lemma contains_range:
  assumes "control_range minimum maximum step = Ok values" and "- (2 ^ 63) \<le> minimum" "maximum < 2 ^ 63"
  shows "control_contains values (IntegerValue v) \<longleftrightarrow> minimum \<le> v \<and> v \<le> maximum
    \<and> (if v - minimum < 2 ^ 63 then step dvd v - minimum else step dvd v - minimum - 2 ^ 64)"
proof -
  have v: "values = RangeValues minimum maximum step" "0 < step"
    using assms(1) by (auto simp: control_range_def split: if_splits)
  show ?thesis using assms(2,3) v
    by (auto simp: i64_rem_zero i64_wrap_id i64_wrap_high)
qed

text \<open>
  C39. What a control range contains, for bounds and steps of 64-bit integers: as long as the distance
  from the minimum fits a signed 64-bit integer, or the step divides 2 to the 64, the accepted
  integers are exactly the members of the arithmetic progression that starts at the minimum and ends
  at the maximum. For every other step the wrapped subtraction decides wrongly on every member at a
  greater distance: it is rejected. So all members are accepted iff none of them is that far away or
  the step divides 2 to the 64.
\<close>

theorem control_contains_exact:
  assumes "control_range minimum maximum step = Ok values" and "- (2 ^ 63) \<le> minimum" "maximum < 2 ^ 63"
  defines "member v \<equiv> \<exists>k::nat. v = minimum + int k * step \<and> v \<le> maximum"
  shows "(v - minimum < 2 ^ 63 \<or> step dvd 2 ^ 64 \<longrightarrow> (control_contains values (IntegerValue v) \<longleftrightarrow> member v))
    \<and> (2 ^ 63 \<le> v - minimum \<and> \<not> step dvd 2 ^ 64 \<and> member v \<longrightarrow> \<not> control_contains values (IntegerValue v))
    \<and> ((\<forall>v. member v \<longrightarrow> control_contains values (IntegerValue v)) \<longleftrightarrow>
         step dvd 2 ^ 64 \<or> (\<forall>v. member v \<longrightarrow> v - minimum < 2 ^ 63))"
proof -
  have "0 < step" using assms(1) by (auto simp: control_range_def split: if_splits)
  then have m: "member v \<longleftrightarrow> minimum \<le> v \<and> v \<le> maximum \<and> step dvd v - minimum" for v
    using progression_member [of step v minimum] by (auto simp: member_def)
  have s: "step dvd 2 ^ 64 \<Longrightarrow> step dvd v - minimum - 2 ^ 64 \<longleftrightarrow> step dvd v - minimum" for v
    by (simp only: dvd_diff_left_iff)
  have n: "step dvd v - minimum \<Longrightarrow> step dvd v - minimum - 2 ^ 64 \<Longrightarrow> step dvd 2 ^ 64" for v
    using dvd_diff [of step "v - minimum" "v - minimum - 2 ^ 64"] by (simp add: algebra_simps)
  have c: "control_contains values (IntegerValue v) \<longleftrightarrow> minimum \<le> v \<and> v \<le> maximum
    \<and> (if v - minimum < 2 ^ 63 then step dvd v - minimum else step dvd v - minimum - 2 ^ 64)" for v
    by (rule contains_range [OF assms(1-3)])
  have far: "\<not> control_contains values (IntegerValue v)" if "\<not> v - minimum < 2 ^ 63" "\<not> step dvd 2 ^ 64" "member v" for v
    using that n [of v] unfolding c m by auto
  have near: "control_contains values (IntegerValue v) \<longleftrightarrow> member v" if "v - minimum < 2 ^ 63 \<or> step dvd 2 ^ 64" for v
    using that s [of v] unfolding c m by auto
  show ?thesis using far near by (meson not_le)
qed

text \<open>Witness: all 64-bit integers in steps of three; the last member is the maximum itself.\<close>

lemma control_contains_exact_witness:
  "control_range (- (2 ^ 63)) (2 ^ 63 - 1) 3 = Ok (RangeValues (- (2 ^ 63)) (2 ^ 63 - 1) 3)
   \<and> (2 ^ 63 - 1 :: int) = - (2 ^ 63) + int 6148914691236517205 * 3
   \<and> control_contains (RangeValues (- (2 ^ 63)) (2 ^ 63 - 1) 3) (IntegerValue (- 5))
   \<and> \<not> control_contains (RangeValues (- (2 ^ 63)) (2 ^ 63 - 1) 3) (IntegerValue (2 ^ 63 - 1))"
proof -
  let ?r = "RangeValues (- (2 ^ 63)) (2 ^ 63 - 1) 3"
  have r: "control_range (- (2 ^ 63)) (2 ^ 63 - 1) 3 = Ok ?r" by (simp add: control_range_def)
  have last: "(2 ^ 63 - 1 :: int) = - (2 ^ 63) + int 6148914691236517205 * 3" by simp
  have mid: "(- 5 :: int) = - (2 ^ 63) + int 3074457345618258601 * 3" by simp
  have step: "\<not> (3 :: int) dvd 2 ^ 64" by simp
  have hi: "(2 ^ 63 - 1 :: int) < 2 ^ 63" by simp
  note exact = control_contains_exact [OF r order.refl hi]
  have far: "(2 ^ 63 :: int) \<le> 2 ^ 63 - 1 - - (2 ^ 63)" and near: "- 5 - - (2 ^ 63) < (2 ^ 63 :: int)"
    and le: "(- 5 :: int) \<le> 2 ^ 63 - 1" by simp_all
  have "control_contains ?r (IntegerValue (- 5))"
    using exact [of "- 5"] near mid le by blast
  moreover have "\<not> control_contains ?r (IntegerValue (2 ^ 63 - 1))"
    using exact [of "2 ^ 63 - 1"] far step last order.refl by blast
  ultimately show ?thesis using r last by blast
qed

end
