(* ===== verification/Shm_Layout.thy ===== *)
theory Shm_Layout
  imports Hal_Camera
begin

text \<open>
  The layout half of the shared-memory adapter (\<open>src/adapters/shared-memory/src/layout.rs\<close> and
  the error helpers of \<open>lib.rs\<close>): plane layouts kept at 32 bits, frame metadata, slot states,
  mapping descriptors and the ring configuration that fixes slot stride and mapping length.
\<close>

definition MAX_MAPPING_BYTES :: usize where "MAX_MAPPING_BYTES = 256 * 1024 * 1024"
definition HEADER_BYTES :: usize where "HEADER_BYTES = 192"
definition SLOT_HEADER_BYTES :: usize where "SLOT_HEADER_BYTES = 128"
definition SLOT_ALIGNMENT :: usize where "SLOT_ALIGNMENT = 64"
definition MAGIC :: "u8 list" where "MAGIC = map of_char ''SHRING04''"
definition LAYOUT_MAJOR :: u16 where "LAYOUT_MAJOR = 1"
definition LAYOUT_MINOR :: u16 where "LAYOUT_MINOR = 0"
definition MAX_PLANES :: usize where "MAX_PLANES = 3"

lemmas shm_limits = MAX_MAPPING_BYTES_def HEADER_BYTES_def SLOT_HEADER_BYTES_def SLOT_ALIGNMENT_def
  MAX_PLANES_def

definition shm_invalid :: "string \<Rightarrow> string \<Rightarrow> HalError" where
  "shm_invalid operation message = hal_error ''shared_memory.invalid'' InvalidArgument operation False message"

definition shm_unavailable :: "string \<Rightarrow> string \<Rightarrow> HalError" where
  "shm_unavailable operation message =
     hal_error ''shared_memory.unavailable'' Unavailable operation False message"

definition shm_internal :: "string \<Rightarrow> string \<Rightarrow> HalError" where
  "shm_internal operation message = hal_error ''shared_memory.internal'' Internal operation False message"

section \<open>Pixel formats and planes\<close>

datatype PixelFormat = PfNv12 | PfYuyv | PfMjpeg

fun PixelFormat_raw :: "PixelFormat \<Rightarrow> u32" where
  "PixelFormat_raw PfNv12 = 1"
| "PixelFormat_raw PfYuyv = 2"
| "PixelFormat_raw PfMjpeg = 3"

definition PixelFormat_try_from :: "u32 \<Rightarrow> PixelFormat hal_result" where
  "PixelFormat_try_from value =
     (if value = 1 then Ok PfNv12 else if value = 2 then Ok PfYuyv else if value = 3 then Ok PfMjpeg
      else Err (shm_invalid ''shared_memory.layout'' ''unknown pixel format''))"

fun PixelFormat_from :: "CameraPixelFormat \<Rightarrow> PixelFormat" where
  "PixelFormat_from Nv12 = PfNv12"
| "PixelFormat_from Yuyv = PfYuyv"
| "PixelFormat_from Mjpeg = PfMjpeg"

record PlaneLayout =
  pl_offset :: u32
  pl_length :: u32
  pl_stride :: u32

definition u32_try_from :: "HalError \<Rightarrow> usize \<Rightarrow> u32 hal_result" where
  "u32_try_from e n = (if n < 2 ^ 32 then Ok (of_nat n) else Err e)"

definition PlaneLayout_new :: "usize \<Rightarrow> usize \<Rightarrow> usize \<Rightarrow> PlaneLayout hal_result" where
  "PlaneLayout_new offset len stride =
     and_then (u32_try_from (shm_invalid ''shared_memory.plane'' ''plane offset exceeds layout range'') offset) (\<lambda>offset.
     and_then (u32_try_from (shm_invalid ''shared_memory.plane'' ''plane length exceeds layout range'') len) (\<lambda>len.
     and_then (u32_try_from (shm_invalid ''shared_memory.plane'' ''plane stride exceeds layout range'') stride) (\<lambda>stride.
     if len = 0 \<or> stride = 0 then
       Err (shm_invalid ''shared_memory.plane'' ''plane length and stride must be non-zero'')
     else and_then (ok_or (shm_invalid ''shared_memory.plane'' ''plane range overflows'') (checked_add offset len)) (\<lambda>_.
       Ok \<lparr>pl_offset = offset, pl_length = len, pl_stride = stride\<rparr>))))"

definition validate_dimensions :: "PixelFormat \<Rightarrow> u32 \<Rightarrow> u32 \<Rightarrow> unit hal_result" where
  "validate_dimensions format width height =
     (if width = 0 \<or> height = 0 \<or> width > MAX_CAMERA_WIDTH \<or> height > MAX_CAMERA_HEIGHT then
        Err (shm_invalid ''shared_memory.layout'' ''frame dimensions are outside the negotiated bounds'')
      else if format = PfNv12 \<and> (width mod 2 \<noteq> 0 \<or> height mod 2 \<noteq> 0) then
        Err (shm_invalid ''shared_memory.layout'' ''NV12 dimensions must be even'')
      else Ok ())"

text \<open>The first loop of \<open>validate_planes\<close>: every plane ends inside the payload.\<close>

fun planes_inside :: "usize \<Rightarrow> PlaneLayout list \<Rightarrow> unit hal_result" where
  "planes_inside payload_length [] = Ok ()"
| "planes_inside payload_length (plane # rest) =
     and_then (ok_or (shm_invalid ''shared_memory.layout'' ''plane range overflows'')
       (usize_checked_add (unat (pl_offset plane)) (unat (pl_length plane)))) (\<lambda>end.
     if end > payload_length then
       Err (shm_invalid ''shared_memory.layout'' ''plane range escapes the frame payload'')
     else planes_inside payload_length rest)"

text \<open>Minimum stride and rows per plane.\<close>

definition plane_minimum :: "PixelFormat \<Rightarrow> usize \<Rightarrow> usize \<Rightarrow> (usize \<times> usize) list" where
  "plane_minimum format width height =
     (case format of
        PfNv12 \<Rightarrow> [(width, height), (width, height div 2), (0, 0)]
      | PfYuyv \<Rightarrow> [(case usize_checked_mul width 2 of None \<Rightarrow> usize_max | Some s \<Rightarrow> s, height), (0, 0), (0, 0)]
      | PfMjpeg \<Rightarrow> [(0, 0), (0, 0), (0, 0)])"

text \<open>The second loop: every plane holds the rows of the format.\<close>

fun planes_hold :: "(PlaneLayout \<times> usize \<times> usize) list \<Rightarrow> unit hal_result" where
  "planes_hold [] = Ok ()"
| "planes_hold ((plane, minimum_stride, rows) # rest) =
     (if unat (pl_stride plane) < minimum_stride then
        Err (shm_invalid ''shared_memory.layout'' ''plane dimensions do not cover the negotiated frame'')
      else and_then (ok_or (shm_invalid ''shared_memory.layout'' ''plane size overflows'')
          (usize_checked_mul (unat (pl_stride plane)) rows)) (\<lambda>size.
        if unat (pl_length plane) < size then
          Err (shm_invalid ''shared_memory.layout'' ''plane dimensions do not cover the negotiated frame'')
        else planes_hold rest))"

definition pl_span :: "PlaneLayout \<Rightarrow> usize \<times> usize" where
  "pl_span plane = (unat (pl_offset plane), unat (pl_offset plane) + unat (pl_length plane))"

definition validate_planes ::
  "PixelFormat \<Rightarrow> u32 \<Rightarrow> u32 \<Rightarrow> PlaneLayout list \<Rightarrow> usize \<Rightarrow> unit hal_result" where
  "validate_planes format width height planes payload_length =
     (let expected_count = (if format = PfNv12 then 2 else 1) in
      if length planes \<noteq> expected_count \<or> length planes > MAX_PLANES then
        Err (shm_invalid ''shared_memory.layout'' ''plane count does not match the pixel format'')
      else and_then (planes_inside payload_length planes) (\<lambda>_.
        and_then (planes_hold (zip planes (plane_minimum format (unat width) (unat height)))) (\<lambda>_.
        if windows_overlap (sort_key fst (map pl_span planes)) then
          Err (shm_invalid ''shared_memory.layout'' ''plane ranges overlap'')
        else Ok ())))"

section \<open>Frame metadata, slots, descriptors\<close>

record FrameMetadata =
  fm_format :: PixelFormat
  fm_width :: u32
  fm_height :: u32
  fm_sequence :: u64
  fm_generation :: u64
  fm_monotonic_timestamp_ns :: u64
  fm_dropped_count :: u64
  fm_planes :: "PlaneLayout list"

definition FrameMetadata_new ::
  "PixelFormat \<Rightarrow> u32 \<Rightarrow> u32 \<Rightarrow> u64 \<Rightarrow> u64 \<Rightarrow> u64 \<Rightarrow> u64 \<Rightarrow> PlaneLayout list \<Rightarrow> FrameMetadata hal_result" where
  "FrameMetadata_new format width height sequence generation monotonic_timestamp_ns dropped_count planes =
     and_then (validate_dimensions format width height) (\<lambda>_.
     and_then (validate_planes format width height planes MAX_CAMERA_FRAME_BYTES) (\<lambda>_.
     Ok \<lparr>fm_format = format, fm_width = width, fm_height = height, fm_sequence = sequence,
         fm_generation = generation, fm_monotonic_timestamp_ns = monotonic_timestamp_ns,
         fm_dropped_count = dropped_count, fm_planes = planes\<rparr>))"

datatype SlotState = Free | Writing | Ready | Pinned

fun SlotState_raw :: "SlotState \<Rightarrow> u64" where
  "SlotState_raw Free = 0"
| "SlotState_raw Writing = 1"
| "SlotState_raw Ready = 2"
| "SlotState_raw Pinned = 3"

definition SlotState_from_raw :: "u64 \<Rightarrow> SlotState hal_result" where
  "SlotState_from_raw value =
     (if value = 0 then Ok Free else if value = 1 then Ok Writing else if value = 2 then Ok Ready
      else if value = 3 then Ok Pinned else Err (shm_invalid ''shared_memory.slot'' ''slot state is invalid''))"

datatype MappingToken = MappingToken (token_bytes: "u8 list")
datatype MappingIdentity = MappingIdentity (identity_bytes: "u8 list")

record MappingDescriptor =
  md_name :: string
  md_identity :: MappingIdentity
  md_token :: MappingToken
  md_total_length :: usize

definition MappingDescriptor_new ::
  "string \<Rightarrow> u8 list \<Rightarrow> u8 list \<Rightarrow> usize \<Rightarrow> MappingDescriptor hal_result" where
  "MappingDescriptor_new mapping_name mapping_identity capability_token total_length =
     (if mapping_name = [] \<or> \<not> is_ascii mapping_name \<or> length mapping_name > 255 \<or> total_length = 0
         \<or> total_length > MAX_MAPPING_BYTES then
        Err (shm_invalid ''shared_memory.descriptor'' ''mapping descriptor fields are invalid'')
      else Ok \<lparr>md_name = mapping_name, md_identity = MappingIdentity mapping_identity,
        md_token = MappingToken capability_token, md_total_length = total_length\<rparr>)"

section \<open>Ring configuration\<close>

definition align_up :: "usize \<Rightarrow> usize \<Rightarrow> usize hal_result" where
  "align_up value alignment =
     ok_or (shm_invalid ''shared_memory.layout'' ''alignment overflows'')
       (map_option (\<lambda>v. v div alignment * alignment) (usize_checked_add value (alignment - 1)))"

record RingConfig =
  rc_format :: CameraFormat
  rc_slot_count :: usize
  rc_payload_capacity :: usize
  rc_slot_stride :: usize
  rc_total_length :: usize

definition RingConfig_new :: "CameraFormat \<Rightarrow> usize \<Rightarrow> usize \<Rightarrow> RingConfig hal_result" where
  "RingConfig_new format slot_count payload_capacity =
     and_then (CameraFormat_validate format) (\<lambda>_.
     if \<not> (MIN_CAMERA_SLOT_COUNT \<le> slot_count \<and> slot_count \<le> MAX_CAMERA_SLOT_COUNT) then
       Err (shm_invalid ''shared_memory.config'' ''slot count must be within the inclusive public range'')
     else and_then (or_lazy (Ok (payload_capacity > MAX_CAMERA_FRAME_BYTES))
         (map_ok (\<lambda>worst. payload_capacity < worst) (worst_case_frame_bytes format))) (\<lambda>bad.
     if bad then
       Err (shm_invalid ''shared_memory.config''
         ''payload capacity must cover the negotiated format within the frame bound'')
     else and_then (ok_or (shm_invalid ''shared_memory.config'' ''slot stride overflows'')
         (usize_checked_add SLOT_HEADER_BYTES payload_capacity)) (\<lambda>used.
     and_then (align_up used SLOT_ALIGNMENT) (\<lambda>slot_stride.
     and_then (ok_or (shm_invalid ''shared_memory.config'' ''mapping length overflows'')
         (usize_checked_mul slot_stride slot_count)) (\<lambda>slots.
     and_then (ok_or (shm_invalid ''shared_memory.config'' ''mapping length overflows'')
         (usize_checked_add HEADER_BYTES slots)) (\<lambda>total_length.
     if total_length > MAX_MAPPING_BYTES then
       Err (shm_invalid ''shared_memory.config'' ''mapping length exceeds the bounded shared-memory limit'')
     else Ok \<lparr>rc_format = format, rc_slot_count = slot_count, rc_payload_capacity = payload_capacity,
       rc_slot_stride = slot_stride, rc_total_length = total_length\<rparr>))))))"

record ValidatedHeader =
  vh_config :: RingConfig
  vh_identity :: MappingIdentity


section \<open>Well-formed layouts\<close>

lemma SlotState_raw_inj [simp]: "SlotState_raw a = SlotState_raw b \<longleftrightarrow> a = b"
  by (cases a; cases b) simp_all

lemma SlotState_from_raw_Ok [simp, ok_simps]: "SlotState_from_raw v = Ok s \<longleftrightarrow> v = SlotState_raw s"
  by (cases s) (auto simp: SlotState_from_raw_def)

lemma PixelFormat_try_from_Ok [simp, ok_simps]: "PixelFormat_try_from v = Ok f \<longleftrightarrow> v = PixelFormat_raw f"
  by (cases f) (auto simp: PixelFormat_try_from_def)

lemma PixelFormat_from_inj [simp]: "PixelFormat_from a = PixelFormat_from b \<longleftrightarrow> a = b"
  by (cases a; cases b) simp_all

definition pl_wf :: "PlaneLayout \<Rightarrow> bool" where
  "pl_wf p \<longleftrightarrow> pl_length p \<noteq> 0 \<and> pl_stride p \<noteq> 0 \<and> unat (pl_offset p) + unat (pl_length p) < 2 ^ 32"

lemma u32_try_from_Ok [simp, ok_simps]: "u32_try_from e n = Ok w \<longleftrightarrow> unat w = n"
proof -
  have "unat w < 2 ^ LENGTH(32)" for w :: u32 by (rule unsigned_less)
  then show ?thesis by (auto simp: u32_try_from_def unat_of_nat word_unat_eq_iff)
qed

lemma PlaneLayout_new_Ok [ok_simps]:
  "PlaneLayout_new off len st = Ok p \<longleftrightarrow>
     unat (pl_offset p) = off \<and> unat (pl_length p) = len \<and> unat (pl_stride p) = st \<and> pl_wf p"
  by (cases p) (auto simp: PlaneLayout_new_def pl_wf_def checked_add_def)

lemma PlaneLayout_new_unat [simp]:
  "pl_wf p \<Longrightarrow> PlaneLayout_new (unat (pl_offset p)) (unat (pl_length p)) (unat (pl_stride p)) = Ok p"
  by (simp add: PlaneLayout_new_Ok)

text \<open>Dimensions a frame of the ring may have.\<close>

definition dimensions_wf :: "PixelFormat \<Rightarrow> u32 \<Rightarrow> u32 \<Rightarrow> bool" where
  "dimensions_wf f w h \<longleftrightarrow> 0 < unat w \<and> unat w \<le> 4096 \<and> 0 < unat h \<and> unat h \<le> 2160
     \<and> (f = PfNv12 \<longrightarrow> even (unat w) \<and> even (unat h))"

lemma word_even_unat: "(w :: u32) mod 2 = 0 \<longleftrightarrow> even (unat w)"
  by (simp add: word_unat_eq_iff unat_mod even_iff_mod_2_eq_zero)

lemma validate_dimensions_Ok [simp, ok_simps]: "validate_dimensions f w h = Ok u \<longleftrightarrow> dimensions_wf f w h"
  by (auto simp: validate_dimensions_def dimensions_wf_def camera_limits word_less_nat_alt not_less word_even_unat
      unat_eq_0 simp flip: neq0_conv)

definition pl_covers :: "PixelFormat \<Rightarrow> nat \<Rightarrow> nat \<Rightarrow> PlaneLayout list \<Rightarrow> bool" where
  "pl_covers f w h ps \<longleftrightarrow>
     (let holds = (\<lambda>p row rows. row \<le> unat (pl_stride p) \<and> unat (pl_stride p) * rows \<le> unat (pl_length p)) in
      case f of
        PfNv12 \<Rightarrow> length ps = 2 \<and> holds (ps ! 0) w h \<and> holds (ps ! 1) w (h div 2)
      | PfYuyv \<Rightarrow> length ps = 1 \<and> holds (ps ! 0) (2 * w) h
      | PfMjpeg \<Rightarrow> length ps = 1)"

definition planes_valid :: "PixelFormat \<Rightarrow> nat \<Rightarrow> nat \<Rightarrow> PlaneLayout list \<Rightarrow> nat \<Rightarrow> bool" where
  "planes_valid f w h ps n \<longleftrightarrow> pl_covers f w h ps \<and> (\<forall>p\<in>set ps. snd (pl_span p) \<le> n)
     \<and> ranges_disjoint (map pl_span ps)"

lemma unat_u32_le: "unat (w :: u32) \<le> 4294967295"
proof -
  have "unat w < 2 ^ LENGTH(32)" by (rule unsigned_less)
  then show ?thesis by simp
qed

lemma length_one_two: "length xs = Suc 0 \<longleftrightarrow> (\<exists>a. xs = [a])" "length xs = 2 \<longleftrightarrow> (\<exists>a b. xs = [a, b])"
  by (auto simp: numeral_2_eq_2 length_Suc_conv)

lemma planes_inside_Ok [simp]: "planes_inside n ps = Ok u \<longleftrightarrow> (\<forall>p\<in>set ps. snd (pl_span p) \<le> n)"
proof (induction ps)
  case (Cons p ps)
  have "unat (pl_offset p) + unat (pl_length p) \<le> usize_max"
    using unat_u32_le [of "pl_offset p"] unat_u32_le [of "pl_length p"] by (simp add: usize_max_def)
  then show ?case using Cons by (auto simp: pl_span_def)
qed simp

text \<open>A stride of 32 bits times a bounded row count never overflows, so the check is arithmetic only.\<close>

lemma planes_hold_step:
  assumes "rows \<le> 2160"
  shows "planes_hold ((p, row, rows) # rest) = Ok u \<longleftrightarrow>
     row \<le> unat (pl_stride p) \<and> unat (pl_stride p) * rows \<le> unat (pl_length p) \<and> planes_hold rest = Ok u"
proof -
  have "unat (pl_stride p) * rows \<le> 4294967295 * 2160" using unat_u32_le assms by (rule mult_le_mono)
  then show ?thesis by (auto simp: usize_max_def not_less)
qed

lemma validate_planes_Ok:
  assumes wf: "\<forall>p\<in>set ps. pl_wf p" and w: "unat w \<le> 4096" and h: "unat h \<le> 2160"
  shows "validate_planes f w h ps n = Ok u \<longleftrightarrow> planes_valid f (unat w) (unat h) ps n"
proof -
  have "\<forall>r\<in>set (map pl_span ps). fst r < snd r"
    using wf by (auto simp: pl_span_def pl_wf_def unat_gt_0)
  note W = windows_overlap_iff [OF this]
  have h2: "unat h div 2 \<le> 2160" using h by simp
  have y: "usize_checked_mul (unat w) 2 = Some (2 * unat w)" using w by (simp add: usize_max_def)
  have "length ps = (if f = PfNv12 then 2 else 1) \<Longrightarrow>
      planes_hold (zip ps (plane_minimum f (unat w) (unat h))) = Ok u \<longleftrightarrow> pl_covers f (unat w) (unat h) ps" for u
    by (cases f) (auto simp: length_one_two pl_covers_def plane_minimum_def y
        planes_hold_step [OF h] planes_hold_step [OF h2] planes_hold_step simp del: planes_hold.simps(2))
  moreover have "pl_covers f (unat w) (unat h) ps \<Longrightarrow> length ps = (if f = PfNv12 then 2 else 1)"
    by (auto simp: pl_covers_def Let_def split: PixelFormat.splits)
  ultimately show ?thesis
    using W by (auto simp: validate_planes_def planes_valid_def shm_limits Let_def)
qed

definition frame_metadata_wf :: "FrameMetadata \<Rightarrow> bool" where
  "frame_metadata_wf m \<longleftrightarrow> dimensions_wf (fm_format m) (fm_width m) (fm_height m)
     \<and> (\<forall>p\<in>set (fm_planes m). pl_wf p)
     \<and> planes_valid (fm_format m) (unat (fm_width m)) (unat (fm_height m)) (fm_planes m) MAX_CAMERA_FRAME_BYTES"

lemma FrameMetadata_new_Ok [ok_simps]:
  assumes "\<forall>p\<in>set ps. pl_wf p"
  shows "FrameMetadata_new f w h sq g ts dr ps = Ok m \<longleftrightarrow>
     m = \<lparr>fm_format = f, fm_width = w, fm_height = h, fm_sequence = sq, fm_generation = g,
         fm_monotonic_timestamp_ns = ts, fm_dropped_count = dr, fm_planes = ps\<rparr> \<and> frame_metadata_wf m"
proof -
  have "dimensions_wf f w h \<Longrightarrow> validate_planes f w h ps k = Ok () \<longleftrightarrow> planes_valid f (unat w) (unat h) ps k" for k
    by (rule validate_planes_Ok) (use assms in \<open>auto simp: dimensions_wf_def\<close>)
  then show ?thesis using assms by (auto simp: FrameMetadata_new_def frame_metadata_wf_def)
qed

lemma MappingDescriptor_new_Ok [ok_simps]:
  "MappingDescriptor_new n i t l = Ok d \<longleftrightarrow>
     d = \<lparr>md_name = n, md_identity = MappingIdentity i, md_token = MappingToken t, md_total_length = l\<rparr>
     \<and> valid_identifier n \<and> 0 < l \<and> l \<le> MAX_MAPPING_BYTES"
  by (auto simp: MappingDescriptor_new_def valid_identifier_def)

section \<open>Ring geometry\<close>

definition ring_config :: "CameraFormat \<Rightarrow> usize \<Rightarrow> usize \<Rightarrow> RingConfig" where
  "ring_config f n cap = (let stride = (SLOT_HEADER_BYTES + cap + 63) div 64 * 64 in
     \<lparr>rc_format = f, rc_slot_count = n, rc_payload_capacity = cap, rc_slot_stride = stride,
      rc_total_length = HEADER_BYTES + stride * n\<rparr>)"

definition ring_config_wf :: "RingConfig \<Rightarrow> bool" where
  "ring_config_wf c \<longleftrightarrow> c = ring_config (rc_format c) (rc_slot_count c) (rc_payload_capacity c)
     \<and> camera_format_wf (rc_format c) \<and> 4 \<le> rc_slot_count c \<and> rc_slot_count c \<le> 8
     \<and> rc_payload_capacity c \<le> MAX_CAMERA_FRAME_BYTES
     \<and> (\<exists>w\<le>rc_payload_capacity c. worst_case_frame_bytes (rc_format c) = Ok w)"

lemma ring_stride_bounds:
  fixes cap :: nat
  shows "128 + cap \<le> (128 + cap + 63) div 64 * 64" "(128 + cap + 63) div 64 * 64 \<le> 191 + cap"
  using div_mult_mod_eq [of "128 + cap + 63" 64] mod_less_divisor [of 64 "128 + cap + 63"]
  by linarith+

lemma RingConfig_new_Ok [ok_simps]:
  "RingConfig_new f n cap = Ok c \<longleftrightarrow> c = ring_config f n cap \<and> ring_config_wf c"
proof (cases "camera_format_wf f \<and> 4 \<le> n \<and> n \<le> 8 \<and> cap \<le> MAX_CAMERA_FRAME_BYTES")
  case True
  then obtain w where w: "worst_case_frame_bytes f = Ok w" using worst_case_frame_bytes_wf by auto
  obtain s where s: "s = (SLOT_HEADER_BYTES + cap + 63) div 64 * 64" by blast
  have "s \<le> 191 + cap" unfolding s SLOT_HEADER_BYTES_def by (rule ring_stride_bounds(2))
  then have "s \<le> 25166015" using True by (simp add: camera_limits)
  then have "s * n \<le> 25166015 * 8" using True by (intro mult_le_mono) auto
  then have a: "s * n \<le> usize_max" "HEADER_BYTES + s * n \<le> usize_max" "HEADER_BYTES + s * n \<le> MAX_MAPPING_BYTES"
    by (simp_all add: usize_max_def shm_limits)
  have b: "SLOT_HEADER_BYTES + cap \<le> usize_max" "SLOT_HEADER_BYTES + cap + 63 \<le> usize_max"
    using True by (simp_all add: usize_max_def camera_limits shm_limits)
  have al: "align_up (SLOT_HEADER_BYTES + cap) SLOT_ALIGNMENT = Ok s"
    using b(2) unfolding align_up_def usize_checked_add_def s SLOT_ALIGNMENT_def by simp
  have v: "CameraFormat_validate f = Ok ()" using True by simp
  have "RingConfig_new f n cap = (if cap < w then Err (shm_invalid ''shared_memory.config''
         ''payload capacity must cover the negotiated format within the frame bound'') else Ok (ring_config f n cap))"
    using True w a b al
    by (simp add: v RingConfig_new_def ring_config_def s [symmetric] usize_checked_add_def usize_checked_mul_def
        MIN_CAMERA_SLOT_COUNT_def MAX_CAMERA_SLOT_COUNT_def)
  then show ?thesis using True w by (auto simp: ring_config_wf_def ring_config_def Let_def)
next
  case False
  have "ring_config_wf (ring_config f n cap) \<longrightarrow> camera_format_wf f \<and> 4 \<le> n \<and> n \<le> 8 \<and> cap \<le> MAX_CAMERA_FRAME_BYTES"
    by (simp add: ring_config_wf_def ring_config_def Let_def)
  moreover have "RingConfig_new f n cap \<noteq> Ok c"
  proof (cases "4 \<le> n \<and> n \<le> 8")
    case slots: True
    show ?thesis
    proof (cases "camera_format_wf f")
      case f: True
      with False slots have "cap > MAX_CAMERA_FRAME_BYTES" by simp
      with slots show ?thesis
        by (simp add: RingConfig_new_def MIN_CAMERA_SLOT_COUNT_def MAX_CAMERA_SLOT_COUNT_def)
    qed (simp add: RingConfig_new_def)
  qed (auto simp: RingConfig_new_def MIN_CAMERA_SLOT_COUNT_def MAX_CAMERA_SLOT_COUNT_def)
  ultimately show ?thesis using False by blast
qed

text \<open>The byte range of a slot.\<close>

definition slot_base :: "RingConfig \<Rightarrow> usize \<Rightarrow> usize" where
  "slot_base config index = HEADER_BYTES + index * rc_slot_stride config"

lemma ring_config_wf_stride:
  assumes "ring_config_wf c"
  shows "rc_slot_stride c = (128 + rc_payload_capacity c + 63) div 64 * 64"
    "rc_total_length c = 192 + rc_slot_stride c * rc_slot_count c"
    "128 + rc_payload_capacity c \<le> rc_slot_stride c"
proof -
  have c: "c = ring_config (rc_format c) (rc_slot_count c) (rc_payload_capacity c)"
    using assms by (simp add: ring_config_wf_def)
  show "rc_slot_stride c = (128 + rc_payload_capacity c + 63) div 64 * 64"
    by (subst c) (simp add: ring_config_def Let_def shm_limits)
  then show "128 + rc_payload_capacity c \<le> rc_slot_stride c" using ring_stride_bounds(1) by simp
  show "rc_total_length c = 192 + rc_slot_stride c * rc_slot_count c"
    by (subst c, subst (2) c) (simp add: ring_config_def Let_def shm_limits)
qed

lemma slot_base_bounds:
  assumes "ring_config_wf c" "i < rc_slot_count c"
  shows "192 \<le> slot_base c i" "slot_base c i + rc_slot_stride c \<le> rc_total_length c"
proof -
  show "192 \<le> slot_base c i" by (simp add: slot_base_def shm_limits)
  have "i * rc_slot_stride c + rc_slot_stride c = (i + 1) * rc_slot_stride c" by simp
  also have "\<dots> \<le> rc_slot_count c * rc_slot_stride c" using assms(2) by (intro mult_le_mono1) simp
  finally show "slot_base c i + rc_slot_stride c \<le> rc_total_length c"
    using ring_config_wf_stride(2) [OF assms(1)] by (simp add: slot_base_def shm_limits mult.commute)
qed

lemma slot_base_apart: "i < j \<Longrightarrow> slot_base c i + rc_slot_stride c \<le> slot_base c j"
proof -
  assume "i < j"
  then have "(i + 1) * rc_slot_stride c \<le> j * rc_slot_stride c" by (intro mult_le_mono1) simp
  then show ?thesis by (simp add: slot_base_def)
qed


section \<open>Properties\<close>

text \<open>
  C35. Geometry of the ring: an accepted configuration has a mapping of at most 256 MiB in which every
  slot starts at a multiple of 64 bytes after the header, holds its header and the whole payload
  capacity, and ends where the next slot begins or the mapping ends.
\<close>

theorem ring_geometry:
  assumes "RingConfig_new format slots capacity = Ok config" and "index < slots"
  shows "rc_total_length config \<le> MAX_MAPPING_BYTES \<and> 64 dvd slot_base config index
     \<and> HEADER_BYTES \<le> slot_base config index
     \<and> slot_base config index + SLOT_HEADER_BYTES + capacity \<le> slot_base config (index + 1)
     \<and> slot_base config (index + 1) \<le> rc_total_length config"
proof -
  have c: "ring_config_wf config" "config = ring_config format slots capacity"
    using assms(1) by (auto simp: RingConfig_new_Ok)
  have f: "rc_slot_count config = slots" "rc_payload_capacity config = capacity"
    by (simp_all add: c(2) ring_config_def Let_def)
  note s = ring_config_wf_stride [OF c(1)]
  have step: "slot_base config (index + 1) = slot_base config index + rc_slot_stride config"
    by (simp add: slot_base_def)
  have "rc_slot_stride config \<le> 191 + capacity" unfolding s(1) f by (rule ring_stride_bounds(2))
  moreover have "capacity \<le> 25165824" using c(1) f by (simp add: ring_config_wf_def camera_limits)
  ultimately have "rc_slot_stride config \<le> 191 + 25165824" by linarith
  moreover have "slots \<le> 8" using c(1) f by (simp add: ring_config_wf_def)
  ultimately have "rc_slot_stride config * slots \<le> (191 + 25165824) * 8" by (rule mult_le_mono)
  moreover have "64 dvd rc_slot_stride config" unfolding s(1) by simp
  ultimately show ?thesis
    using s(2,3) f slot_base_bounds [OF c(1), of index] assms(2) step
    by (simp add: shm_limits slot_base_def dvd_add dvd_mult)
qed

lemma ring_geometry_witness:
  "\<exists>config. RingConfig_new \<lparr>cfm_pixel_format = Yuyv, cfm_width = 2, cfm_height = 2\<rparr> 4 64 = Ok config
     \<and> slot_base config 3 + SLOT_HEADER_BYTES + 64 \<le> rc_total_length config"
proof -
  let ?f = "\<lparr>cfm_pixel_format = Yuyv, cfm_width = 2, cfm_height = 2\<rparr>"
  have "ring_config_wf (ring_config ?f 4 64)"
    by (simp add: ring_config_wf_def ring_config_def Let_def camera_format_wf_def camera_limits
        worst_case_frame_bytes_def usize_checked_mul_def usize_max_def)
  then have n: "RingConfig_new ?f 4 64 = Ok (ring_config ?f 4 64)" by (subst RingConfig_new_Ok) simp
  from ring_geometry [OF n, of 3] n show ?thesis by auto
qed

end
