(* ===== verification/Shm_Memory.thy ===== *)
theory Shm_Memory
  imports Shm_Layout
begin

text \<open>
  The bytes of a mapping and the little-endian accessors of
  \<open>src/adapters/shared-memory/src/ring.rs\<close>. A mapping is a list of bytes; a pointer is an offset
  into it. Accesses outside the list have no meaning in the source; the lemmas about the ring show
  that they do not happen.
\<close>

type_synonym mem = "u8 list"

definition read_bytes :: "usize \<Rightarrow> usize \<Rightarrow> mem \<Rightarrow> u8 list" where
  "read_bytes off n m = take n (drop off m)"

definition write_bytes :: "usize \<Rightarrow> u8 list \<Rightarrow> mem \<Rightarrow> mem" where
  "write_bytes off bs m = take off m @ bs @ drop (off + length bs) m"

definition to_le :: "'a::len word \<Rightarrow> u8 list" where
  "to_le w = map (\<lambda>i. ucast (drop_bit (8 * i) w)) [0..<LENGTH('a) div 8]"

definition from_le :: "u8 list \<Rightarrow> 'a::len word" where
  "from_le bs = foldr (\<lambda>b acc. ucast b OR push_bit 8 acc) bs 0"

definition write_u16 :: "usize \<Rightarrow> u16 \<Rightarrow> mem \<Rightarrow> mem" where "write_u16 off v m = write_bytes off (to_le v) m"
definition write_u32 :: "usize \<Rightarrow> u32 \<Rightarrow> mem \<Rightarrow> mem" where "write_u32 off v m = write_bytes off (to_le v) m"
definition write_u64 :: "usize \<Rightarrow> u64 \<Rightarrow> mem \<Rightarrow> mem" where "write_u64 off v m = write_bytes off (to_le v) m"
definition read_u16 :: "usize \<Rightarrow> mem \<Rightarrow> u16" where "read_u16 off m = from_le (read_bytes off 2 m)"
definition read_u32 :: "usize \<Rightarrow> mem \<Rightarrow> u32" where "read_u32 off m = from_le (read_bytes off 4 m)"
definition read_u64 :: "usize \<Rightarrow> mem \<Rightarrow> u64" where "read_u64 off m = from_le (read_bytes off 8 m)"

lemmas mem_access_defs = write_u16_def write_u32_def write_u64_def read_u16_def read_u32_def read_u64_def

lemma length_to_le [simp]:
  "length (to_le (a :: u16)) = 2" "length (to_le (b :: u32)) = 4" "length (to_le (c :: u64)) = 8"
  by (simp_all add: to_le_def)

lemma bit_from_le:
  "bit (from_le bs :: 'a::len word) n \<longleftrightarrow> n < LENGTH('a) \<and> n div 8 < length bs \<and> bit (bs ! (n div 8)) (n mod 8)"
proof (induction bs arbitrary: n)
  case Nil
  then show ?case by (simp add: from_le_def)
next
  case (Cons b bs)
  have "\<not> bit b n" if "8 \<le> n" using that bit_imp_le_length [of b n] by auto
  moreover have "n div 8 = Suc ((n - 8) div 8)" "(n - 8) mod 8 = n mod 8" if "8 \<le> n"
    using that by (simp_all add: le_div_geq le_mod_geq)
  ultimately show ?case
    using Cons.IH [of "n - 8"] by (cases "n < 8") (auto simp: from_le_def bit_simps)
qed

lemma from_le_to_le:
  assumes "8 dvd LENGTH('a)"
  shows "from_le (to_le w) = (w :: 'a::len word)"
proof (rule bit_word_eqI)
  fix n assume n: "n < LENGTH('a)"
  then have "n div 8 < LENGTH('a) div 8"
    using assms by (metis dvd_div_mult_self less_mult_imp_div_less)
  with n show "bit (from_le (to_le w) :: 'a word) n = bit w n"
    by (simp add: bit_from_le to_le_def bit_simps)
qed

lemma from_le_to_le_width [simp]:
  "from_le (to_le (a :: u16)) = a" "from_le (to_le (b :: u32)) = b" "from_le (to_le (c :: u64)) = c"
  by (simp_all add: from_le_to_le)

lemma length_read_bytes [simp]: "length (read_bytes off n m) = min n (length m - off)"
  by (simp add: read_bytes_def min.commute)

lemma length_write_bytes [simp]:
  "off + length bs \<le> length m \<Longrightarrow> length (write_bytes off bs m) = length m"
  by (simp add: write_bytes_def)

lemma read_write_same [simp]:
  "off + length bs \<le> length m \<Longrightarrow> n = length bs \<Longrightarrow> read_bytes off n (write_bytes off bs m) = bs"
  by (simp add: read_bytes_def write_bytes_def)

lemma read_write_before [simp]:
  "a + n \<le> off \<Longrightarrow> off \<le> length m \<Longrightarrow> read_bytes a n (write_bytes off bs m) = read_bytes a n m"
  by (simp add: read_bytes_def write_bytes_def take_drop)

lemma read_write_after [simp]:
  "off + length bs \<le> a \<Longrightarrow> off \<le> length m \<Longrightarrow> read_bytes a n (write_bytes off bs m) = read_bytes a n m"
  by (simp add: read_bytes_def write_bytes_def)

lemma read_read [simp]: "k + n \<le> len \<Longrightarrow> read_bytes k n (read_bytes off len m) = read_bytes (off + k) n m"
  by (simp add: read_bytes_def take_drop ac_simps)

text \<open>A write inside a region is the write on the bytes of the region.\<close>

lemma read_write_inside:
  assumes "k + length bs \<le> n" "off + n \<le> length m"
  shows "read_bytes off n (write_bytes (off + k) bs m) = write_bytes k bs (read_bytes off n m)"
proof -
  have "take n (drop off (take (off + k) m @ bs @ drop (off + k + length bs) m))
      = take k (drop off m) @ bs @ take (n - k - length bs) (drop (off + k + length bs) m)"
    using assms by (simp add: take_drop add.commute)
  moreover have "drop (k + length bs) (take n (drop off m)) = take (n - k - length bs) (drop (off + k + length bs) m)"
    by (simp add: drop_take ac_simps)
  ultimately show ?thesis using assms by (simp add: read_bytes_def write_bytes_def min_def ac_simps)
qed

lemma read_bytes_all: "length m = n \<Longrightarrow> read_bytes 0 n m = m"
  by (simp add: read_bytes_def)

end
