(* ===== verification/Shm_Ring.thy ===== *)
theory Shm_Ring
  imports Shm_Memory
begin

text \<open>
  The frame ring of \<open>src/adapters/shared-memory/src/ring.rs\<close> at byte level: the broker's mapping
  with its header and slots, publication into a slot, the lease on the newest frame, and the
  read-only side that copies a leased frame out. The outcomes of operating-system calls (locks,
  unlocks, creation and unlinking of the mapping, random bytes) and the SHA-256 function are
  arguments of the definitions.
\<close>

section \<open>Layout offsets\<close>

definition HEADER_MAGIC :: usize where "HEADER_MAGIC = 0"
definition HEADER_MAJOR :: usize where "HEADER_MAJOR = 8"
definition HEADER_MINOR :: usize where "HEADER_MINOR = 10"
definition HEADER_TOTAL_LENGTH :: usize where "HEADER_TOTAL_LENGTH = 16"
definition HEADER_SLOT_COUNT :: usize where "HEADER_SLOT_COUNT = 24"
definition HEADER_SLOT_STRIDE :: usize where "HEADER_SLOT_STRIDE = 32"
definition HEADER_FORMAT :: usize where "HEADER_FORMAT = 40"
definition HEADER_WIDTH :: usize where "HEADER_WIDTH = 44"
definition HEADER_HEIGHT :: usize where "HEADER_HEIGHT = 48"
definition HEADER_PAYLOAD_CAPACITY :: usize where "HEADER_PAYLOAD_CAPACITY = 56"
definition HEADER_IDENTITY :: usize where "HEADER_IDENTITY = 64"
definition HEADER_TOKEN_HASH :: usize where "HEADER_TOKEN_HASH = 96"
definition HEADER_DROPPED_COUNT :: usize where "HEADER_DROPPED_COUNT = 128"
definition HEADER_TERMINAL_STATE :: usize where "HEADER_TERMINAL_STATE = 136"
definition TERMINAL_STATE_OPEN :: u64 where "TERMINAL_STATE_OPEN = 0"
definition TERMINAL_STATE_CLOSED :: u64 where "TERMINAL_STATE_CLOSED = 1"
definition SLOT_STATE :: usize where "SLOT_STATE = 0"
definition SLOT_SEQUENCE :: usize where "SLOT_SEQUENCE = 8"
definition SLOT_GENERATION :: usize where "SLOT_GENERATION = 16"
definition SLOT_TIMESTAMP :: usize where "SLOT_TIMESTAMP = 24"
definition SLOT_DROPPED :: usize where "SLOT_DROPPED = 32"
definition SLOT_PAYLOAD_LENGTH :: usize where "SLOT_PAYLOAD_LENGTH = 40"
definition SLOT_PLANE_COUNT :: usize where "SLOT_PLANE_COUNT = 48"
definition SLOT_PLANES :: usize where "SLOT_PLANES = 56"
definition PLANE_BYTES :: usize where "PLANE_BYTES = 12"

lemmas header_offsets = HEADER_MAGIC_def HEADER_MAJOR_def HEADER_MINOR_def HEADER_TOTAL_LENGTH_def
  HEADER_SLOT_COUNT_def HEADER_SLOT_STRIDE_def HEADER_FORMAT_def HEADER_WIDTH_def HEADER_HEIGHT_def
  HEADER_PAYLOAD_CAPACITY_def HEADER_IDENTITY_def HEADER_TOKEN_HASH_def HEADER_DROPPED_COUNT_def
  HEADER_TERMINAL_STATE_def

lemmas slot_offsets = SLOT_STATE_def SLOT_SEQUENCE_def SLOT_GENERATION_def SLOT_TIMESTAMP_def SLOT_DROPPED_def
  SLOT_PAYLOAD_LENGTH_def SLOT_PLANE_COUNT_def SLOT_PLANES_def PLANE_BYTES_def

section \<open>Broker state\<close>

text \<open>Outcome of a lock, unlock or unlink call of the operating system.\<close>

datatype IoError = WouldBlock (io_text: string) | OtherIo (io_text: string)

type_synonym io_outcome = "(unit, IoError) result"

record FrameLease =
  fl_identity :: MappingIdentity
  fl_slot_index :: usize
  fl_sequence :: u64
  fl_generation :: u64

record BrokerMapping =
  bm_mapping :: mem
  bm_descriptor :: MappingDescriptor
  bm_config :: RingConfig
  bm_closed :: bool
  bm_pinned :: "FrameLease option"

text \<open>Sequencing of fallible steps on the broker: a failing step keeps the state it reached.\<close>

fun then_st :: "'a hal_result \<times> 's \<Rightarrow> ('a \<Rightarrow> 's \<Rightarrow> 'b hal_result \<times> 's) \<Rightarrow> 'b hal_result \<times> 's" where
  "then_st (Ok x, s) f = f x s"
| "then_st (Err e, s) f = (Err e, s)"

definition io_check :: "string \<Rightarrow> io_outcome \<Rightarrow> unit hal_result" where
  "io_check operation outcome = map_err (\<lambda>e. shm_unavailable operation (io_text e)) outcome"

definition slot_state :: "BrokerMapping \<Rightarrow> usize \<Rightarrow> SlotState hal_result" where
  "slot_state b index = SlotState_from_raw (read_u64 (slot_base (bm_config b) index + SLOT_STATE) (bm_mapping b))"

definition write_slot_state :: "BrokerMapping \<Rightarrow> usize \<Rightarrow> SlotState \<Rightarrow> BrokerMapping" where
  "write_slot_state b index state =
     b\<lparr>bm_mapping := write_u64 (slot_base (bm_config b) index + SLOT_STATE) (SlotState_raw state) (bm_mapping b)\<rparr>"

definition slot_sequence :: "BrokerMapping \<Rightarrow> usize \<Rightarrow> u64" where
  "slot_sequence b index = read_u64 (slot_base (bm_config b) index + SLOT_SEQUENCE) (bm_mapping b)"

definition slot_generation :: "BrokerMapping \<Rightarrow> usize \<Rightarrow> u64" where
  "slot_generation b index = read_u64 (slot_base (bm_config b) index + SLOT_GENERATION) (bm_mapping b)"

definition dropped_count_locked :: "BrokerMapping \<Rightarrow> u64" where
  "dropped_count_locked b = read_u64 HEADER_DROPPED_COUNT (bm_mapping b)"

definition dropped_count :: "io_outcome \<Rightarrow> BrokerMapping \<Rightarrow> u64" where
  "dropped_count lock b = (case lock of Ok _ \<Rightarrow> dropped_count_locked b | Err _ \<Rightarrow> 0)"

definition increment_dropped_locked :: "BrokerMapping \<Rightarrow> unit hal_result \<times> BrokerMapping" where
  "increment_dropped_locked b =
     (case checked_add (dropped_count_locked b) 1 of
        None \<Rightarrow> (Err (shm_invalid ''shared_memory.publish'' ''dropped-frame counter overflow''), b)
      | Some v \<Rightarrow> (Ok (), b\<lparr>bm_mapping := write_u64 HEADER_DROPPED_COUNT v (bm_mapping b)\<rparr>))"

definition increment_dropped_unlocked ::
  "io_outcome \<Rightarrow> io_outcome \<Rightarrow> BrokerMapping \<Rightarrow> unit hal_result \<times> BrokerMapping" where
  "increment_dropped_unlocked lock unlock b =
     (if is_ok lock then then_st (increment_dropped_locked b) (\<lambda>_ b'. (io_check ''shared_memory.publish'' unlock, b'))
      else (Ok (), b))"

section \<open>Creation\<close>

definition hex_digit :: "nat \<Rightarrow> char" where
  "hex_digit n = ''0123456789abcdef'' ! n"

definition hex_byte :: "u8 \<Rightarrow> string" where
  "hex_byte b = [hex_digit (unat b div 16), hex_digit (unat b mod 16)]"

definition write_header :: "(u8 list \<Rightarrow> u8 list) \<Rightarrow> BrokerMapping \<Rightarrow> MappingIdentity \<Rightarrow> BrokerMapping" where
  "write_header sha256 b identity =
     (let c = bm_config b in
      b\<lparr>bm_mapping :=
        write_u64 HEADER_TERMINAL_STATE TERMINAL_STATE_OPEN
        (write_bytes HEADER_TOKEN_HASH (sha256 (token_bytes (md_token (bm_descriptor b))))
        (write_bytes HEADER_IDENTITY (identity_bytes identity)
        (write_u64 HEADER_PAYLOAD_CAPACITY (of_nat (rc_payload_capacity c))
        (write_u32 HEADER_HEIGHT (cfm_height (rc_format c))
        (write_u32 HEADER_WIDTH (cfm_width (rc_format c))
        (write_u32 HEADER_FORMAT (PixelFormat_raw (PixelFormat_from (cfm_pixel_format (rc_format c))))
        (write_u64 HEADER_SLOT_STRIDE (of_nat (rc_slot_stride c))
        (write_u64 HEADER_SLOT_COUNT (of_nat (rc_slot_count c))
        (write_u64 HEADER_TOTAL_LENGTH (of_nat (rc_total_length c))
        (write_u16 HEADER_MINOR LAYOUT_MINOR
        (write_u16 HEADER_MAJOR LAYOUT_MAJOR
        (write_bytes HEADER_MAGIC MAGIC (bm_mapping b)))))))))))))\<rparr>)"

text \<open>
  \<open>fill_identity\<close>, \<open>fill_token\<close> and \<open>fill_name\<close> are the outcomes of the random generator,
  \<open>created\<close> is the outcome of creating the mapping object.
\<close>

definition BrokerMapping_create ::
  "(u8 list \<Rightarrow> u8 list) \<Rightarrow> (u8 list, string) result \<Rightarrow> (u8 list, string) result \<Rightarrow> (u8 list, string) result
     \<Rightarrow> (mem, IoError) result \<Rightarrow> RingConfig \<Rightarrow> BrokerMapping hal_result" where
  "BrokerMapping_create sha256 fill_identity fill_token fill_name created config =
     and_then (map_err (shm_internal ''shared_memory.identity'') fill_identity) (\<lambda>identity.
     and_then (map_err (shm_internal ''shared_memory.token'') fill_token) (\<lambda>token.
     and_then (map_err (shm_internal ''shared_memory.create'') fill_name) (\<lambda>name_bytes.
     let name = ''/robot-hal-'' @ concat (map hex_byte name_bytes) in
     and_then (map_err (\<lambda>e. shm_unavailable ''shared_memory.create'' (io_text e)) created) (\<lambda>mapping.
     let descriptor = \<lparr>md_name = name, md_identity = MappingIdentity identity, md_token = MappingToken token,
           md_total_length = rc_total_length config\<rparr>;
         result = \<lparr>bm_mapping = mapping, bm_descriptor = descriptor, bm_config = config, bm_closed = False,
           bm_pinned = None\<rparr>
     in Ok (write_header sha256 result (MappingIdentity identity))))))"

section \<open>Leases\<close>

fun scan_latest :: "BrokerMapping \<Rightarrow> usize list \<Rightarrow> (usize \<times> u64) option \<Rightarrow> (usize \<times> u64) option hal_result" where
  "scan_latest b [] latest = Ok latest"
| "scan_latest b (index # rest) latest =
     and_then (slot_state b index) (\<lambda>state.
     if state \<noteq> Ready then scan_latest b rest latest
     else let sequence = slot_sequence b index in
       scan_latest b rest
         (if (case latest of None \<Rightarrow> True | Some (_, current) \<Rightarrow> sequence > current)
          then Some (index, sequence) else latest))"

definition release_pin_locked :: "BrokerMapping \<Rightarrow> unit hal_result \<times> BrokerMapping" where
  "release_pin_locked b =
     (case bm_pinned b of
        None \<Rightarrow> (Ok (), b)
      | Some lease \<Rightarrow>
          let b' = b\<lparr>bm_pinned := None\<rparr> in
          if fl_identity lease = md_identity (bm_descriptor b')
             \<and> slot_sequence b' (fl_slot_index lease) = fl_sequence lease
             \<and> slot_generation b' (fl_slot_index lease) = fl_generation lease then
            then_st (slot_state b' (fl_slot_index lease), b') (\<lambda>state b'.
              (Ok (), if state = Pinned then write_slot_state b' (fl_slot_index lease) Free else b'))
          else (Ok (), b'))"

definition next_frame_lease_locked :: "BrokerMapping \<Rightarrow> FrameLease option hal_result \<times> BrokerMapping" where
  "next_frame_lease_locked b =
     then_st (release_pin_locked b) (\<lambda>_ b.
     then_st (scan_latest b [0..<rc_slot_count (bm_config b)] None, b) (\<lambda>latest b.
     case latest of
       None \<Rightarrow> (Ok None, b)
     | Some (index, sequence) \<Rightarrow>
         then_st (slot_state b index, b) (\<lambda>state b.
         if state \<noteq> Ready then (Ok None, b)
         else
           let b1 = write_slot_state b index Pinned;
               generation = slot_generation b1 index
           in if slot_sequence b1 index \<noteq> sequence then (Ok None, write_slot_state b1 index Ready)
              else
                let lease = \<lparr>fl_identity = md_identity (bm_descriptor b1), fl_slot_index = index,
                      fl_sequence = sequence, fl_generation = generation\<rparr>
                in (Ok (Some lease), b1\<lparr>bm_pinned := Some lease\<rparr>))))"

text \<open>Operations under the exclusive lock: lock, run, unlock; a failed unlock hides the result.\<close>

definition locked ::
  "string \<Rightarrow> io_outcome \<Rightarrow> io_outcome \<Rightarrow> (BrokerMapping \<Rightarrow> 'a hal_result \<times> BrokerMapping) \<Rightarrow> BrokerMapping
     \<Rightarrow> 'a hal_result \<times> BrokerMapping" where
  "locked operation lock unlock body b =
     then_st (io_check operation lock, b) (\<lambda>_ b.
     let (result, b') = body b in then_st (io_check operation unlock, b') (\<lambda>_ b'. (result, b')))"

definition next_frame_lease ::
  "io_outcome \<Rightarrow> io_outcome \<Rightarrow> BrokerMapping \<Rightarrow> FrameLease option hal_result \<times> BrokerMapping" where
  "next_frame_lease lock unlock b = locked ''shared_memory.lease'' lock unlock next_frame_lease_locked b"

definition release_pin :: "io_outcome \<Rightarrow> io_outcome \<Rightarrow> BrokerMapping \<Rightarrow> unit hal_result \<times> BrokerMapping" where
  "release_pin lock unlock b = locked ''shared_memory.release'' lock unlock release_pin_locked b"

section \<open>Reading a slot\<close>

definition read_payload_length :: "mem \<Rightarrow> RingConfig \<Rightarrow> usize \<Rightarrow> usize hal_result" where
  "read_payload_length m config index =
     (let len = unat (read_u64 (slot_base config index + SLOT_PAYLOAD_LENGTH) m) in
      if len > rc_payload_capacity config
      then Err (shm_invalid ''shared_memory.read'' ''slot payload exceeds the validated capacity'')
      else Ok len)"

definition read_plane :: "mem \<Rightarrow> usize \<Rightarrow> usize \<Rightarrow> PlaneLayout hal_result" where
  "read_plane m base index =
     (let offset = SLOT_PLANES + index * PLANE_BYTES in
      PlaneLayout_new (unat (read_u32 (base + offset) m)) (unat (read_u32 (base + (offset + 4)) m))
        (unat (read_u32 (base + (offset + 8)) m)))"

definition read_metadata :: "mem \<Rightarrow> RingConfig \<Rightarrow> usize \<Rightarrow> u64 \<Rightarrow> u64 \<Rightarrow> FrameMetadata hal_result" where
  "read_metadata m config index sequence generation =
     (let base = slot_base config index;
          timestamp = read_u64 (base + SLOT_TIMESTAMP) m;
          dropped = read_u64 (base + SLOT_DROPPED) m;
          payload_length = unat (read_u64 (base + SLOT_PAYLOAD_LENGTH) m);
          plane_count = unat (read_u64 (base + SLOT_PLANE_COUNT) m)
      in if payload_length > rc_payload_capacity config \<or> plane_count > MAX_PLANES then
           Err (shm_invalid ''shared_memory.read'' ''slot payload or plane count exceeds the validated layout'')
         else and_then (collect_results (map (read_plane m base) [0..<plane_count])) (\<lambda>planes.
           let format = PixelFormat_from (cfm_pixel_format (rc_format config));
               width = cfm_width (rc_format config); height = cfm_height (rc_format config) in
           and_then (validate_planes format width height planes payload_length) (\<lambda>_.
           FrameMetadata_new format width height sequence generation timestamp dropped planes)))"

record CopiedFrame =
  cpf_metadata :: FrameMetadata
  cpf_payload :: "u8 list"

definition frame_view :: "BrokerMapping \<Rightarrow> FrameLease \<Rightarrow> CopiedFrame hal_result" where
  "frame_view b lease =
     (let stale = Err (shm_invalid ''shared_memory.acquire'' ''pinned lease no longer matches slot'');
          index = fl_slot_index lease in
      if fl_identity lease \<noteq> md_identity (bm_descriptor b) then stale
      else and_then (slot_state b index) (\<lambda>state.
        if state \<noteq> Pinned \<or> slot_sequence b index \<noteq> fl_sequence lease
           \<or> slot_generation b index \<noteq> fl_generation lease then stale
        else and_then (read_metadata (bm_mapping b) (bm_config b) index (fl_sequence lease) (fl_generation lease)) (\<lambda>metadata.
          and_then (read_payload_length (bm_mapping b) (bm_config b) index) (\<lambda>payload_length.
          Ok \<lparr>cpf_metadata = metadata,
              cpf_payload = read_bytes (slot_base (bm_config b) index + SLOT_HEADER_BYTES) payload_length
                (bm_mapping b)\<rparr>))))"

definition acquire ::
  "io_outcome \<Rightarrow> io_outcome \<Rightarrow> io_outcome \<Rightarrow> BrokerMapping \<Rightarrow> CopiedFrame option hal_result \<times> BrokerMapping" where
  "acquire lock unlock lock_shared b =
     then_st (io_check ''shared_memory.acquire'' lock, b) (\<lambda>_ b.
     then_st (next_frame_lease_locked b) (\<lambda>lease b.
     then_st (io_check ''shared_memory.acquire'' unlock, b) (\<lambda>_ b.
     case lease of
       None \<Rightarrow> (Ok None, b)
     | Some lease \<Rightarrow> then_st (io_check ''shared_memory.acquire'' lock_shared, b) (\<lambda>_ b.
         (map_ok Some (frame_view b lease), b)))))"


section \<open>Publication\<close>

fun scan_writable :: "BrokerMapping \<Rightarrow> usize list \<Rightarrow> (usize \<times> u64) option \<Rightarrow> usize option hal_result" where
  "scan_writable b [] oldest = Ok (map_option fst oldest)"
| "scan_writable b (index # rest) oldest =
     and_then (slot_state b index) (\<lambda>state.
     case state of
       Free \<Rightarrow> Ok (Some index)
     | Ready \<Rightarrow>
         let sequence = slot_sequence b index in
         scan_writable b rest
           (if (case oldest of None \<Rightarrow> True | Some (_, oldest_sequence) \<Rightarrow> sequence < oldest_sequence)
            then Some (index, sequence) else oldest)
     | _ \<Rightarrow> scan_writable b rest oldest)"

definition select_writable_slot :: "BrokerMapping \<Rightarrow> usize option hal_result" where
  "select_writable_slot b = scan_writable b [0..<rc_slot_count (bm_config b)] None"

text \<open>
  A payload copier sees the destination bytes and returns its result and the bytes it left there.
\<close>

type_synonym copier = "u8 list \<Rightarrow> usize hal_result \<times> u8 list"

fun write_planes :: "usize \<Rightarrow> usize \<Rightarrow> PlaneLayout list \<Rightarrow> mem \<Rightarrow> mem" where
  "write_planes base index [] m = m"
| "write_planes base index (plane # rest) m =
     (let offset = SLOT_PLANES + index * PLANE_BYTES in
      write_planes base (index + 1) rest
        (write_u32 (base + (offset + 8)) (pl_stride plane)
        (write_u32 (base + (offset + 4)) (pl_length plane)
        (write_u32 (base + offset) (pl_offset plane) m))))"

definition write_slot_metadata :: "usize \<Rightarrow> FrameMetadata \<Rightarrow> usize \<Rightarrow> u64 \<Rightarrow> mem \<Rightarrow> mem" where
  "write_slot_metadata base metadata payload_length dropped m =
     write_u64 (base + SLOT_SEQUENCE) (fm_sequence metadata)
     (write_planes base 0 (fm_planes metadata)
     (write_u64 (base + SLOT_PLANE_COUNT) (of_nat (length (fm_planes metadata)))
     (write_u64 (base + SLOT_PAYLOAD_LENGTH) (of_nat payload_length)
     (write_u64 (base + SLOT_DROPPED) dropped
     (write_u64 (base + SLOT_TIMESTAMP) (fm_monotonic_timestamp_ns metadata)
     (write_u64 (base + SLOT_GENERATION) (fm_generation metadata) m))))))"

text \<open>The closure of \<open>publish_locked_with\<close> that fills the selected slot.\<close>

definition fill_slot ::
  "FrameMetadata \<Rightarrow> copier \<Rightarrow> usize \<Rightarrow> BrokerMapping \<Rightarrow> unit hal_result \<times> BrokerMapping" where
  "fill_slot metadata copy_payload index b =
     (let config = bm_config b; base = slot_base config index;
          (copied, payload) = copy_payload
            (read_bytes (base + SLOT_HEADER_BYTES) (rc_payload_capacity config) (bm_mapping b));
          b = b\<lparr>bm_mapping := write_bytes (base + SLOT_HEADER_BYTES) payload (bm_mapping b)\<rparr>
      in then_st (copied, b) (\<lambda>payload_length b.
         if payload_length > rc_payload_capacity config then
           (Err (shm_invalid ''shared_memory.publish'' ''payload copier exceeded the negotiated slot capacity''), b)
         else then_st (validate_planes (fm_format metadata) (fm_width metadata) (fm_height metadata)
             (fm_planes metadata) payload_length, b) (\<lambda>_ b.
           (Ok (), b\<lparr>bm_mapping :=
              write_slot_metadata base metadata payload_length (dropped_count_locked b) (bm_mapping b)\<rparr>))))"

definition publish_locked_with ::
  "FrameMetadata \<Rightarrow> copier \<Rightarrow> BrokerMapping \<Rightarrow> unit hal_result \<times> BrokerMapping" where
  "publish_locked_with metadata copy_payload b =
     then_st (select_writable_slot b, b) (\<lambda>selected b.
     case selected of
       None \<Rightarrow> increment_dropped_locked b
     | Some index \<Rightarrow>
         then_st (slot_state b index, b) (\<lambda>previous_state b.
         then_st (if previous_state = Ready then increment_dropped_locked b else (Ok (), b)) (\<lambda>_ b.
         let (result, b) = fill_slot metadata copy_payload index (write_slot_state b index Writing)
         in (result, write_slot_state b index (if is_ok result then Ready else previous_state)))))"

definition publish_with ::
  "io_outcome \<Rightarrow> io_outcome \<Rightarrow> io_outcome \<Rightarrow> FrameMetadata \<Rightarrow> copier \<Rightarrow> BrokerMapping
     \<Rightarrow> unit hal_result \<times> BrokerMapping" where
  "publish_with lock retry unlock metadata copy_payload b =
     then_st (validate_dimensions (fm_format metadata) (fm_width metadata) (fm_height metadata), b) (\<lambda>_ b.
     case lock of
       Ok _ \<Rightarrow>
         let (result, b') = publish_locked_with metadata copy_payload b
         in then_st (io_check ''shared_memory.publish'' unlock, b') (\<lambda>_ b'. (result, b'))
     | Err (WouldBlock _) \<Rightarrow> increment_dropped_unlocked retry unlock b
     | Err (OtherIo text) \<Rightarrow> (Err (shm_unavailable ''shared_memory.publish'' text), b))"

definition payload_copier :: "u8 list \<Rightarrow> copier" where
  "payload_copier payload destination =
     (if length payload > length destination then
        (Err (shm_invalid ''shared_memory.publish'' ''payload exceeds the negotiated slot capacity''), destination)
      else (Ok (length payload), payload @ drop (length payload) destination))"

definition publish_payload ::
  "io_outcome \<Rightarrow> io_outcome \<Rightarrow> io_outcome \<Rightarrow> FrameMetadata \<Rightarrow> u8 list \<Rightarrow> BrokerMapping
     \<Rightarrow> unit hal_result \<times> BrokerMapping" where
  "publish_payload lock retry unlock metadata payload b =
     publish_with lock retry unlock metadata (payload_copier payload) b"

section \<open>The read-only side\<close>

definition validate_header ::
  "(u8 list \<Rightarrow> u8 list) \<Rightarrow> mem \<Rightarrow> usize \<Rightarrow> MappingDescriptor \<Rightarrow> ValidatedHeader hal_result" where
  "validate_header sha256 m mapped_length descriptor =
     (let magic = read_bytes HEADER_MAGIC (length MAGIC) m;
          major = read_u16 HEADER_MAJOR m; minor = read_u16 HEADER_MINOR m;
          total_length = unat (read_u64 HEADER_TOTAL_LENGTH m);
          slot_count = unat (read_u64 HEADER_SLOT_COUNT m);
          slot_stride = unat (read_u64 HEADER_SLOT_STRIDE m);
          format = read_u32 HEADER_FORMAT m; width = read_u32 HEADER_WIDTH m; height = read_u32 HEADER_HEIGHT m;
          capacity = unat (read_u64 HEADER_PAYLOAD_CAPACITY m)
      in if magic \<noteq> MAGIC \<or> major \<noteq> LAYOUT_MAJOR \<or> minor > LAYOUT_MINOR then
           Err (shm_invalid ''shared_memory.open'' ''mapping magic or layout version is incompatible'')
         else if total_length \<noteq> md_total_length descriptor \<or> mapped_length < total_length then
           Err (shm_invalid ''shared_memory.open'' ''mapping total length does not match its descriptor'')
         else and_then (PixelFormat_try_from format) (\<lambda>format.
           and_then (CameraFormat_new
             (case format of PfNv12 \<Rightarrow> Nv12 | PfYuyv \<Rightarrow> Yuyv | PfMjpeg \<Rightarrow> Mjpeg) width height) (\<lambda>camera_format.
           and_then (RingConfig_new camera_format slot_count capacity) (\<lambda>config.
           if rc_slot_stride config \<noteq> slot_stride then
             Err (shm_invalid ''shared_memory.open'' ''mapping slot stride violates the fixed layout'')
           else if \<not> (read_bytes HEADER_IDENTITY 32 m = identity_bytes (md_identity descriptor)
               \<and> read_bytes HEADER_TOKEN_HASH 32 m = sha256 (token_bytes (md_token descriptor))) then
             Err (shm_invalid ''shared_memory.open''
               ''mapping session identity or capability token does not match'')
           else Ok \<lparr>vh_config = config, vh_identity = md_identity descriptor\<rparr>))))"

definition validated_header :: "(u8 list \<Rightarrow> u8 list) \<Rightarrow> BrokerMapping \<Rightarrow> ValidatedHeader hal_result" where
  "validated_header sha256 b =
     validate_header sha256 (bm_mapping b) (rc_total_length (bm_config b)) (bm_descriptor b)"

text \<open>
  The reader's handle. The mapping is shared memory, so the bytes are an argument of each read.
\<close>

record ReadOnlyMapping =
  rm_header :: ValidatedHeader
  rm_expected_generation :: "u64 option"

definition ReadOnlyMapping_open ::
  "(u8 list \<Rightarrow> u8 list) \<Rightarrow> (mem, IoError) result \<Rightarrow> MappingDescriptor \<Rightarrow> ReadOnlyMapping hal_result" where
  "ReadOnlyMapping_open sha256 opened descriptor =
     and_then (map_err (\<lambda>e. shm_unavailable ''shared_memory.open'' (io_text e)) opened) (\<lambda>m.
     and_then (validate_header sha256 m (md_total_length descriptor) descriptor) (\<lambda>header.
     Ok \<lparr>rm_header = header, rm_expected_generation = None\<rparr>))"

abbreviation rm_config :: "ReadOnlyMapping \<Rightarrow> RingConfig" where
  "rm_config r \<equiv> vh_config (rm_header r)"

definition rm_slot_state :: "ReadOnlyMapping \<Rightarrow> mem \<Rightarrow> usize \<Rightarrow> SlotState hal_result" where
  "rm_slot_state r m index = SlotState_from_raw (read_u64 (slot_base (rm_config r) index + SLOT_STATE) m)"

definition rm_terminal_state :: "mem \<Rightarrow> u64" where
  "rm_terminal_state m = read_u64 HEADER_TERMINAL_STATE m"

definition rm_slot_sequence :: "ReadOnlyMapping \<Rightarrow> mem \<Rightarrow> usize \<Rightarrow> u64" where
  "rm_slot_sequence r m index = read_u64 (slot_base (rm_config r) index + SLOT_SEQUENCE) m"

definition rm_slot_generation :: "ReadOnlyMapping \<Rightarrow> mem \<Rightarrow> usize \<Rightarrow> u64" where
  "rm_slot_generation r m index = read_u64 (slot_base (rm_config r) index + SLOT_GENERATION) m"

text \<open>The two methods below repeat the bodies of the free functions on the validated header.\<close>

definition rm_slot_payload_length :: "ReadOnlyMapping \<Rightarrow> mem \<Rightarrow> usize \<Rightarrow> usize hal_result" where
  "rm_slot_payload_length r m index = read_payload_length m (rm_config r) index"

definition rm_read_metadata :: "ReadOnlyMapping \<Rightarrow> mem \<Rightarrow> usize \<Rightarrow> u64 \<Rightarrow> u64 \<Rightarrow> FrameMetadata hal_result" where
  "rm_read_metadata r m index sequence generation = read_metadata m (rm_config r) index sequence generation"

definition copy_locked :: "ReadOnlyMapping \<Rightarrow> mem \<Rightarrow> FrameLease \<Rightarrow> CopiedFrame option hal_result" where
  "copy_locked r m lease =
     (let index = fl_slot_index lease in
      if rm_terminal_state m \<noteq> TERMINAL_STATE_OPEN then Ok None
      else if index \<ge> rc_slot_count (rm_config r) then Ok None
      else and_then (rm_slot_state r m index) (\<lambda>state.
        if state \<noteq> Pinned then Ok None
        else
          let generation = rm_slot_generation r m index in
          if (case rm_expected_generation r of None \<Rightarrow> False | Some value \<Rightarrow> value \<noteq> generation)
             \<or> generation \<noteq> fl_generation lease \<or> rm_slot_sequence r m index \<noteq> fl_sequence lease then Ok None
          else and_then (rm_read_metadata r m index (fl_sequence lease) generation) (\<lambda>metadata.
            if rm_slot_sequence r m index \<noteq> fl_sequence lease \<or> rm_slot_generation r m index \<noteq> generation
            then Ok None
            else and_then (rm_slot_payload_length r m index) (\<lambda>payload_length.
              Ok (Some \<lparr>cpf_metadata = metadata,
                cpf_payload = read_bytes (slot_base (rm_config r) index + SLOT_HEADER_BYTES) payload_length m\<rparr>)))))"

definition copy_frame ::
  "io_outcome \<Rightarrow> io_outcome \<Rightarrow> ReadOnlyMapping \<Rightarrow> mem \<Rightarrow> FrameLease \<Rightarrow> CopiedFrame option hal_result" where
  "copy_frame lock unlock r m lease =
     (if fl_identity lease \<noteq> vh_identity (rm_header r) then Ok None
      else and_then (io_check ''shared_memory.copy'' lock) (\<lambda>_.
        let result = copy_locked r m lease in
        and_then (io_check ''shared_memory.copy'' unlock) (\<lambda>_. result)))"

section \<open>Closing\<close>

text \<open>
  The waiting loop of \<open>close\<close> on the outcomes of its successive lock attempts; \<open>None\<close> while every
  attempt so far found the lock taken.
\<close>

fun close_wait :: "io_outcome list \<Rightarrow> unit hal_result option" where
  "close_wait [] = None"
| "close_wait (Ok _ # rest) = Some (Ok ())"
| "close_wait (Err (WouldBlock _) # rest) = close_wait rest"
| "close_wait (Err (OtherIo text) # rest) = Some (Err (shm_unavailable ''shared_memory.close'' text))"

definition close_mapping ::
  "io_outcome list \<Rightarrow> io_outcome \<Rightarrow> io_outcome \<Rightarrow> BrokerMapping \<Rightarrow> (unit hal_result \<times> BrokerMapping) option" where
  "close_mapping attempts unlock unlink b =
     (if bm_closed b then Some (Ok (), b)
      else map_option (\<lambda>waited.
        then_st (waited, b) (\<lambda>_ b.
        let b = b\<lparr>bm_mapping := write_u64 HEADER_TERMINAL_STATE TERMINAL_STATE_CLOSED (bm_mapping b)\<rparr> in
        then_st (io_check ''shared_memory.close'' unlock, b) (\<lambda>_ b.
        then_st (io_check ''shared_memory.close'' unlink, b) (\<lambda>_ b.
        (Ok (), b\<lparr>bm_closed := True\<rparr>))))) (close_wait attempts))"

end
