(* ===== verification/Shm_Ring_Correct.thy ===== *)
theory Shm_Ring_Correct
  imports Shm_Ring
begin

text \<open>
  Correctness of the frame ring: the byte-level operations refine operations on a list of slots,
  where a slot is free or holds a frame that is ready or pinned. The lemmas about regions show
  that slots and header never overlap and that every access stays inside the mapping.
\<close>

section \<open>Regions of the mapping\<close>

definition ring_mem_wf :: "RingConfig \<Rightarrow> mem \<Rightarrow> bool" where
  "ring_mem_wf c m \<longleftrightarrow> ring_config_wf c \<and> length m = rc_total_length c"

definition slot_bytes :: "RingConfig \<Rightarrow> usize \<Rightarrow> mem \<Rightarrow> u8 list" where
  "slot_bytes c i m = read_bytes (slot_base c i) (rc_slot_stride c) m"

definition header_bytes :: "mem \<Rightarrow> u8 list" where
  "header_bytes m = read_bytes 0 192 m"

lemma length_slot_bytes:
  "ring_mem_wf c m \<Longrightarrow> i < rc_slot_count c \<Longrightarrow> length (slot_bytes c i m) = rc_slot_stride c"
  using slot_base_bounds(2) [of c i] by (simp add: slot_bytes_def ring_mem_wf_def)

lemma length_header_bytes [simp]: "ring_mem_wf c m \<Longrightarrow> length (header_bytes m) = 192"
  by (simp add: header_bytes_def ring_mem_wf_def ring_config_wf_stride)

lemma stride_ge: "ring_mem_wf c m \<Longrightarrow> 128 + rc_payload_capacity c \<le> rc_slot_stride c"
  by (simp add: ring_mem_wf_def ring_config_wf_stride)

text \<open>Reads of a slot and of the header are reads of their regions.\<close>

lemma slot_read:
  "k + n \<le> rc_slot_stride c \<Longrightarrow> read_bytes (slot_base c i + k) n m = read_bytes k n (slot_bytes c i m)"
  by (simp add: slot_bytes_def)

lemma header_read: "k + n \<le> 192 \<Longrightarrow> read_bytes k n m = read_bytes k n (header_bytes m)"
  by (simp add: header_bytes_def)

text \<open>A write to one region is that write on the region, and leaves the others alone.\<close>

lemma slot_write_mem_wf:
  assumes "ring_mem_wf c m" "i < rc_slot_count c" "k + length bs \<le> rc_slot_stride c"
  shows "ring_mem_wf c (write_bytes (slot_base c i + k) bs m)"
  using assms slot_base_bounds(2) [of c i] by (simp add: ring_mem_wf_def)

lemma slot_write_same:
  assumes "ring_mem_wf c m" "i < rc_slot_count c" "k + length bs \<le> rc_slot_stride c"
  shows "slot_bytes c i (write_bytes (slot_base c i + k) bs m) = write_bytes k bs (slot_bytes c i m)"
  unfolding slot_bytes_def
  using assms slot_base_bounds(2) [of c i] by (intro read_write_inside) (auto simp: ring_mem_wf_def)

lemma slot_write_other:
  assumes "ring_mem_wf c m" "i < rc_slot_count c" "j \<noteq> i" "k + length bs \<le> rc_slot_stride c"
  shows "slot_bytes c j (write_bytes (slot_base c i + k) bs m) = slot_bytes c j m"
proof -
  have le: "slot_base c i + k \<le> length m" using assms slot_base_bounds(2) [of c i] by (simp add: ring_mem_wf_def)
  show ?thesis
  proof (cases "j < i")
    case True
    then show ?thesis unfolding slot_bytes_def
      using slot_base_apart [of j i c] le by (intro read_write_before) auto
  next
    case False
    then have "i < j" using assms by simp
    then show ?thesis unfolding slot_bytes_def
      using slot_base_apart [of i j c] le assms(4) by (intro read_write_after) auto
  qed
qed

lemma slot_write_header:
  assumes "ring_mem_wf c m" "i < rc_slot_count c" "k + length bs \<le> rc_slot_stride c"
  shows "header_bytes (write_bytes (slot_base c i + k) bs m) = header_bytes m"
  unfolding header_bytes_def
  using assms slot_base_bounds [of c i] by (intro read_write_before) (auto simp: ring_mem_wf_def)

lemma header_write_mem_wf:
  "ring_mem_wf c m \<Longrightarrow> k + length bs \<le> 192 \<Longrightarrow> ring_mem_wf c (write_bytes k bs m)"
  by (simp add: ring_mem_wf_def ring_config_wf_stride)

lemma header_write_slot:
  assumes "ring_mem_wf c m" "k + length bs \<le> 192"
  shows "slot_bytes c j (write_bytes k bs m) = slot_bytes c j m"
  unfolding slot_bytes_def
  using assms by (intro read_write_after) (auto simp: ring_mem_wf_def ring_config_wf_stride slot_base_def shm_limits)

lemma header_write_same:
  assumes "ring_mem_wf c m" "k + length bs \<le> 192"
  shows "header_bytes (write_bytes k bs m) = write_bytes k bs (header_bytes m)"
  unfolding header_bytes_def
  using read_write_inside [of k bs 192 0 m] assms by (simp add: ring_mem_wf_def ring_config_wf_stride)

section \<open>Abstract ring\<close>

record Frame =
  fr_sequence :: u64
  fr_generation :: u64
  fr_timestamp :: u64
  fr_dropped :: u64
  fr_planes :: "PlaneLayout list"
  fr_length :: u64
  fr_payload :: "u8 list"

datatype Slot = SFree | SReady Frame | SPinned Frame

definition plane_in :: "u8 list \<Rightarrow> nat \<Rightarrow> PlaneLayout" where
  "plane_in sb k = \<lparr>pl_offset = read_u32 (56 + k * 12) sb, pl_length = read_u32 (56 + k * 12 + 4) sb,
     pl_stride = read_u32 (56 + k * 12 + 8) sb\<rparr>"

definition frame_in :: "u8 list \<Rightarrow> Frame" where
  "frame_in sb = \<lparr>fr_sequence = read_u64 8 sb, fr_generation = read_u64 16 sb, fr_timestamp = read_u64 24 sb,
     fr_dropped = read_u64 32 sb, fr_planes = map (plane_in sb) [0..<unat (read_u64 48 sb)],
     fr_length = read_u64 40 sb, fr_payload = read_bytes 128 (unat (read_u64 40 sb)) sb\<rparr>"

definition state_in :: "u8 list \<Rightarrow> u64" where
  "state_in sb = read_u64 0 sb"

definition abs_slot :: "u8 list \<Rightarrow> Slot" where
  "abs_slot sb = (if state_in sb = 2 then SReady (frame_in sb) else if state_in sb = 3 then SPinned (frame_in sb)
     else SFree)"

definition abs_ring :: "BrokerMapping \<Rightarrow> Slot list" where
  "abs_ring b = map (\<lambda>i. abs_slot (slot_bytes (bm_config b) i (bm_mapping b))) [0..<rc_slot_count (bm_config b)]"

text \<open>
  Between operations no slot is being written, and exactly the slot of the broker's current lease
  is pinned, with the sequence and generation of the lease.
\<close>

abbreviation bm_slot :: "BrokerMapping \<Rightarrow> usize \<Rightarrow> u8 list" where
  "bm_slot b i \<equiv> slot_bytes (bm_config b) i (bm_mapping b)"

definition pin_ok :: "MappingIdentity \<Rightarrow> Slot list \<Rightarrow> FrameLease option \<Rightarrow> bool" where
  "pin_ok identity slots pinned \<longleftrightarrow> (case pinned of
     None \<Rightarrow> \<forall>f. SPinned f \<notin> set slots
   | Some l \<Rightarrow> fl_slot_index l < length slots \<and> fl_identity l = identity
       \<and> (\<exists>f. slots ! fl_slot_index l = SPinned f \<and> fr_sequence f = fl_sequence l \<and> fr_generation f = fl_generation l)
       \<and> (\<forall>i<length slots. \<forall>f. slots ! i = SPinned f \<longrightarrow> i = fl_slot_index l))"

lemma pin_ok_unique:
  assumes "pin_ok ident slots p" "i < length slots" "j < length slots" "slots ! i = SPinned f" "slots ! j = SPinned g"
  shows "i = j"
proof (cases p)
  case None
  then show ?thesis using assms nth_mem [OF assms(2)] by (auto simp: pin_ok_def)
next
  case (Some l)
  then have "i = fl_slot_index l" "j = fl_slot_index l" using assms unfolding pin_ok_def by auto
  then show ?thesis by simp
qed

definition ring_wf :: "BrokerMapping \<Rightarrow> bool" where
  "ring_wf b \<longleftrightarrow> ring_mem_wf (bm_config b) (bm_mapping b)
     \<and> (\<forall>i<rc_slot_count (bm_config b). state_in (bm_slot b i) \<in> {0, 2, 3})
     \<and> pin_ok (md_identity (bm_descriptor b)) (abs_ring b) (bm_pinned b)"

lemma ring_wf_mem: "ring_wf b \<Longrightarrow> ring_mem_wf (bm_config b) (bm_mapping b)"
  by (simp add: ring_wf_def)

lemma slot_count_bounds: "ring_mem_wf c m \<Longrightarrow> 4 \<le> rc_slot_count c \<and> rc_slot_count c \<le> 8"
  by (simp add: ring_mem_wf_def ring_config_wf_def)

lemma read_slot_u64:
  assumes "ring_mem_wf c m" "k + 8 \<le> 128"
  shows "read_u64 (slot_base c i + k) m = read_u64 k (slot_bytes c i m)"
  unfolding read_u64_def using assms stride_ge [OF assms(1)] by (simp add: slot_read)

lemma slot_state_eq:
  "ring_mem_wf (bm_config b) (bm_mapping b) \<Longrightarrow> slot_state b i = SlotState_from_raw (state_in (bm_slot b i))"
  by (simp add: slot_state_def SLOT_STATE_def state_in_def read_slot_u64 [where k = 0, simplified])

lemma slot_sequence_eq:
  "ring_mem_wf (bm_config b) (bm_mapping b) \<Longrightarrow> slot_sequence b i = read_u64 8 (bm_slot b i)"
  by (simp add: slot_sequence_def SLOT_SEQUENCE_def read_slot_u64)

lemma slot_generation_eq:
  "ring_mem_wf (bm_config b) (bm_mapping b) \<Longrightarrow> slot_generation b i = read_u64 16 (bm_slot b i)"
  by (simp add: slot_generation_def SLOT_GENERATION_def read_slot_u64)

lemma slot_state_cases:
  assumes "ring_wf b" "i < rc_slot_count (bm_config b)"
  shows "slot_state b i = Ok (case abs_slot (bm_slot b i) of SFree \<Rightarrow> Free | SReady _ \<Rightarrow> Ready | SPinned _ \<Rightarrow> Pinned)"
  using assms unfolding slot_state_eq [OF ring_wf_mem [OF assms(1)]]
  by (auto simp: ring_wf_def abs_slot_def SlotState_from_raw_def)

lemma abs_ring_nth: "i < rc_slot_count (bm_config b) \<Longrightarrow> abs_ring b ! i = abs_slot (bm_slot b i)"
  by (simp add: abs_ring_def)

lemma length_abs_ring [simp]: "length (abs_ring b) = rc_slot_count (bm_config b)"
  by (simp add: abs_ring_def)


section \<open>Slot scans\<close>

text \<open>
  The slot a lease takes: a ready slot of the largest sequence, the first of them; the slot a
  publication takes: the first free slot, or the first ready slot of the smallest sequence.
\<close>

definition newest :: "Slot list \<Rightarrow> nat \<Rightarrow> Frame \<Rightarrow> bool" where
  "newest slots i f \<longleftrightarrow> i < length slots \<and> slots ! i = SReady f
     \<and> (\<forall>j<length slots. \<forall>g. slots ! j = SReady g \<longrightarrow>
          fr_sequence g \<le> fr_sequence f \<and> (j < i \<longrightarrow> fr_sequence g < fr_sequence f))"

definition oldest :: "Slot list \<Rightarrow> nat \<Rightarrow> Frame \<Rightarrow> bool" where
  "oldest slots i f \<longleftrightarrow> i < length slots \<and> slots ! i = SReady f
     \<and> (\<forall>j<length slots. \<forall>g. slots ! j = SReady g \<longrightarrow>
          fr_sequence f \<le> fr_sequence g \<and> (j < i \<longrightarrow> fr_sequence f < fr_sequence g))"

definition victim :: "Slot list \<Rightarrow> nat \<Rightarrow> bool" where
  "victim slots i \<longleftrightarrow>
     (i < length slots \<and> slots ! i = SFree \<and> (\<forall>j<i. slots ! j \<noteq> SFree))
     \<or> (SFree \<notin> set slots \<and> (\<exists>f. oldest slots i f))"

definition no_ready :: "Slot list \<Rightarrow> bool" where
  "no_ready slots \<longleftrightarrow> (\<forall>f. SReady f \<notin> set slots)"

text \<open>One step of a scan that keeps the best sequence so far.\<close>

definition scan_step :: "(u64 \<Rightarrow> u64 \<Rightarrow> bool) \<Rightarrow> Slot list \<Rightarrow> (nat \<times> u64) option \<Rightarrow> nat \<Rightarrow> (nat \<times> u64) option" where
  "scan_step better slots acc i =
     (case slots ! i of
        SReady f \<Rightarrow> if (case acc of None \<Rightarrow> True | Some (_, c) \<Rightarrow> better (fr_sequence f) c)
                    then Some (i, fr_sequence f) else acc
      | _ \<Rightarrow> acc)"

lemma scan_step_simps:
  "slots ! i = SReady f \<Longrightarrow> scan_step better slots acc i =
     (if (case acc of None \<Rightarrow> True | Some (_, c) \<Rightarrow> better (fr_sequence f) c) then Some (i, fr_sequence f) else acc)"
  "(\<forall>f. slots ! i \<noteq> SReady f) \<Longrightarrow> scan_step better slots acc i = acc"
  by (auto simp: scan_step_def split: Slot.split)

text \<open>What a scan of the first \<open>n\<close> slots has found, for an order \<open>r\<close> on sequences.\<close>

definition best_of ::
  "(u64 \<Rightarrow> u64 \<Rightarrow> bool) \<Rightarrow> Slot list \<Rightarrow> nat \<Rightarrow> (nat \<times> u64) option \<Rightarrow> bool" where
  "best_of r slots n acc \<longleftrightarrow> (case acc of
     None \<Rightarrow> (\<forall>j<n. \<forall>f. slots ! j \<noteq> SReady f)
   | Some (i, q) \<Rightarrow> i < n \<and> (\<exists>f. slots ! i = SReady f \<and> fr_sequence f = q)
       \<and> (\<forall>j<n. \<forall>g. slots ! j = SReady g \<longrightarrow> r (fr_sequence g) q \<and> (j < i \<longrightarrow> \<not> r q (fr_sequence g))))"

lemma best_of_step:
  assumes total: "\<And>a b. r a b \<or> r b a" and trans: "\<And>a b c. r a b \<Longrightarrow> r b c \<Longrightarrow> r a c"
    and best: "best_of r slots n acc"
  shows "best_of r slots (Suc n) (scan_step (\<lambda>a b. \<not> r a b) slots acc n)"
proof (cases "slots ! n")
  case (SReady f)
  have refl: "r a a" for a using total by blast
  show ?thesis
  proof (cases acc)
    case None
    then show ?thesis
      using best refl by (auto simp: best_of_def scan_step_simps(1) [OF SReady] SReady less_Suc_eq)
  next
    case (Some a)
    then obtain i q where a: "acc = Some (i, q)" by (cases a) auto
    show ?thesis
    proof (cases "r (fr_sequence f) q")
      case False
      then have "\<forall>x. r x q \<longrightarrow> r x (fr_sequence f) \<and> \<not> r (fr_sequence f) x"
        using total trans by blast
      then show ?thesis
        using best False refl by (auto simp: a best_of_def scan_step_simps(1) [OF SReady] SReady less_Suc_eq)
    next
      case True
      then show ?thesis
        using best by (auto simp: a best_of_def scan_step_simps(1) [OF SReady] SReady less_Suc_eq)
    qed
  qed
qed (use best in \<open>auto simp: best_of_def scan_step_simps(2) less_Suc_eq split: option.splits\<close>)

lemma scan_fold:
  assumes "\<And>a b. r a b \<or> r b a" and "\<And>a b c. r a b \<Longrightarrow> r b c \<Longrightarrow> r a c"
  shows "best_of r slots n (foldl (scan_step (\<lambda>a b. \<not> r a b) slots) None [0..<n])"
proof (induction n)
  case 0
  then show ?case by (simp add: best_of_def)
next
  case (Suc n)
  then show ?case using best_of_step [where r = r, OF assms] by simp
qed

lemma scan_latest_fold:
  assumes "ring_wf b" "set is \<subseteq> {..<rc_slot_count (bm_config b)}"
  shows "scan_latest b is acc = Ok (foldl (scan_step (\<lambda>a c. \<not> a \<le> c) (abs_ring b)) acc is)"
  using assms(2)
proof (induction "is" arbitrary: acc)
  case (Cons i rest)
  have i: "i < rc_slot_count (bm_config b)" using Cons by simp
  have seq: "slot_sequence b i = fr_sequence f" if "abs_slot (bm_slot b i) = SReady f" for f
    using that slot_sequence_eq [OF ring_wf_mem [OF assms(1)]]
    by (auto simp: abs_slot_def frame_in_def split: if_splits)
  show ?case
    using Cons slot_state_cases [OF assms(1) i] seq
    by (cases "abs_slot (bm_slot b i)") (auto simp: scan_step_def abs_ring_nth [OF i] Let_def not_le)
qed simp

lemma scan_writable_fold:
  assumes "ring_wf b" "set is \<subseteq> {..<rc_slot_count (bm_config b)}"
  shows "scan_writable b is acc = Ok
     (case find (\<lambda>i. abs_ring b ! i = SFree) is of
        Some i \<Rightarrow> Some i
      | None \<Rightarrow> map_option fst (foldl (scan_step (\<lambda>a c. \<not> a \<ge> c) (abs_ring b)) acc is))"
  using assms(2)
proof (induction "is" arbitrary: acc)
  case (Cons i rest)
  have i: "i < rc_slot_count (bm_config b)" using Cons by simp
  have seq: "slot_sequence b i = fr_sequence f" if "abs_slot (bm_slot b i) = SReady f" for f
    using that slot_sequence_eq [OF ring_wf_mem [OF assms(1)]]
    by (auto simp: abs_slot_def frame_in_def split: if_splits)
  show ?case
    using Cons slot_state_cases [OF assms(1) i] seq
    by (cases "abs_slot (bm_slot b i)") (auto simp: scan_step_def abs_ring_nth [OF i] Let_def not_le split: option.split)
qed simp

lemma scan_latest_newest:
  assumes "ring_wf b"
  shows "scan_latest b [0..<rc_slot_count (bm_config b)] None = Ok None \<and> no_ready (abs_ring b)
     \<or> (\<exists>i f. scan_latest b [0..<rc_slot_count (bm_config b)] None = Ok (Some (i, fr_sequence f))
          \<and> newest (abs_ring b) i f)"
proof -
  let ?n = "rc_slot_count (bm_config b)"
  obtain acc where s: "scan_latest b [0..<?n] None = Ok acc"
    and acc: "acc = foldl (scan_step (\<lambda>a c. \<not> a \<le> c) (abs_ring b)) None [0..<?n]"
    using scan_latest_fold [OF assms, of "[0..<?n]" None] by (auto simp: lessThan_atLeast0)
  have "best_of (\<le>) (abs_ring b) ?n acc" unfolding acc by (rule scan_fold) auto
  then show ?thesis
    using s by (cases acc) (auto simp: best_of_def no_ready_def newest_def in_set_conv_nth not_le)
qed

lemma select_writable_victim:
  assumes "ring_wf b"
  shows "\<exists>i. select_writable_slot b = Ok (Some i) \<and> victim (abs_ring b) i"
proof -
  let ?n = "rc_slot_count (bm_config b)"
  let ?r = "foldl (scan_step (\<lambda>a c. \<not> a \<ge> c) (abs_ring b)) None [0..<?n]"
  have s: "select_writable_slot b = Ok (case find (\<lambda>i. abs_ring b ! i = SFree) [0..<?n] of
        Some i \<Rightarrow> Some i | None \<Rightarrow> map_option fst ?r)"
    unfolding select_writable_slot_def by (rule scan_writable_fold [OF assms]) auto
  show ?thesis
  proof (cases "find (\<lambda>i. abs_ring b ! i = SFree) [0..<?n]")
    case (Some i)
    then have "select_writable_slot b = Ok (Some i)" using s by simp
    moreover have "victim (abs_ring b) i" using Some by (auto simp: victim_def find_Some_iff)
    ultimately show ?thesis by blast
  next
    case None
    then have free: "\<forall>i<?n. abs_ring b ! i \<noteq> SFree" by (auto simp: find_None_iff)
    have F: "best_of (\<ge>) (abs_ring b) ?n ?r" by (rule scan_fold) auto
    show ?thesis
    proof (cases ?r)
      case (Some a)
      then show ?thesis using F s None free by (cases a) (auto simp: victim_def oldest_def best_of_def in_set_conv_nth not_le)
    next
      case no: None
      have n: "0 < ?n" "1 < ?n" using slot_count_bounds [OF ring_wf_mem [OF assms]] by simp_all
      have "\<exists>f. abs_slot (bm_slot b i) = SPinned f" if "i < ?n" for i
        using F no free that by (cases "abs_slot (bm_slot b i)") (auto simp: best_of_def abs_ring_nth)
      then have "\<exists>f. abs_ring b ! 0 = SPinned f" "\<exists>f. abs_ring b ! 1 = SPinned f"
        using n by (simp_all only: abs_ring_nth)
      moreover have "pin_ok (md_identity (bm_descriptor b)) (abs_ring b) (bm_pinned b)"
        using assms by (simp add: ring_wf_def)
      ultimately show ?thesis
        using n by (metis length_abs_ring pin_ok_unique zero_neq_one)
    qed
  qed
qed


section \<open>Steps that touch one slot\<close>

lemma write_slot_state_fields [simp]:
  "bm_config (write_slot_state b i s) = bm_config b" "bm_descriptor (write_slot_state b i s) = bm_descriptor b"
  "bm_pinned (write_slot_state b i s) = bm_pinned b" "bm_closed (write_slot_state b i s) = bm_closed b"
  by (simp_all add: write_slot_state_def)

lemma write_slot_state_slot:
  assumes "ring_mem_wf (bm_config b) (bm_mapping b)" "i < rc_slot_count (bm_config b)"
  shows "bm_slot (write_slot_state b i s) j =
      (if j = i then write_bytes 0 (to_le (SlotState_raw s)) (bm_slot b i) else bm_slot b j)"
    and "ring_mem_wf (bm_config b) (bm_mapping (write_slot_state b i s))"
    and "header_bytes (bm_mapping (write_slot_state b i s)) = header_bytes (bm_mapping b)"
  using slot_write_same [OF assms, of 0] slot_write_other [OF assms, of j 0] slot_write_mem_wf [OF assms, of 0]
    slot_write_header [OF assms, of 0] stride_ge [OF assms(1)]
  by (auto simp: write_slot_state_def SLOT_STATE_def write_u64_def)

lemma state_write:
  assumes "128 \<le> length sb"
  shows "state_in (write_bytes 0 (to_le v) sb) = v" "frame_in (write_bytes 0 (to_le (v :: u64)) sb) = frame_in sb"
proof -
  have r: "read_bytes k n (write_bytes 0 (to_le v) sb) = read_bytes k n sb" if "8 \<le> k" for k n
    using that by simp
  show "state_in (write_bytes 0 (to_le v) sb) = v" using assms by (simp add: state_in_def read_u64_def)
  show "frame_in (write_bytes 0 (to_le v) sb) = frame_in sb"
    by (simp add: frame_in_def plane_in_def read_u64_def read_u32_def r)
qed

lemma abs_ring_update:
  assumes "bm_config b' = bm_config b" "i < rc_slot_count (bm_config b)"
    and "\<And>j. j \<noteq> i \<Longrightarrow> bm_slot b' j = bm_slot b j"
  shows "abs_ring b' = (abs_ring b)[i := abs_slot (bm_slot b' i)]"
  using assms by (intro nth_equalityI) (auto simp: abs_ring_nth nth_list_update)

lemma slot_long:
  "ring_mem_wf c m \<Longrightarrow> i < rc_slot_count c \<Longrightarrow> 128 + rc_payload_capacity c \<le> length (slot_bytes c i m)"
  using length_slot_bytes stride_ge by simp

text \<open>Setting the state of a slot, on the abstract ring.\<close>

fun set_state :: "SlotState \<Rightarrow> Frame \<Rightarrow> Slot" where
  "set_state Ready f = SReady f"
| "set_state Pinned f = SPinned f"
| "set_state _ f = SFree"

lemma abs_slot_write_state:
  "128 \<le> length sb \<Longrightarrow> abs_slot (write_bytes 0 (to_le (SlotState_raw s)) sb) = set_state s (frame_in sb)"
  by (cases s) (simp_all add: abs_slot_def state_write)

lemma abs_ring_write_state:
  assumes "ring_mem_wf (bm_config b) (bm_mapping b)" "i < rc_slot_count (bm_config b)"
  shows "abs_ring (write_slot_state b i s) = (abs_ring b)[i := set_state s (frame_in (bm_slot b i))]"
proof -
  have "abs_ring (write_slot_state b i s) = (abs_ring b)[i := abs_slot (bm_slot (write_slot_state b i s) i)]"
    by (rule abs_ring_update) (use assms(2) write_slot_state_slot(1) [OF assms, of s] in auto)
  moreover have "bm_slot (write_slot_state b i s) i = write_bytes 0 (to_le (SlotState_raw s)) (bm_slot b i)"
    using write_slot_state_slot(1) [OF assms, of s i] by simp
  ultimately show ?thesis using slot_long [OF assms] by (simp only:) (simp add: abs_slot_write_state)
qed


section \<open>Releasing and leasing\<close>

fun unpin :: "Slot \<Rightarrow> Slot" where
  "unpin (SPinned f) = SFree"
| "unpin s = s"

lemma unpin_simps [simp]:
  "unpin s = SReady f \<longleftrightarrow> s = SReady f" "SReady f = unpin s \<longleftrightarrow> s = SReady f"
  "unpin s \<noteq> SPinned f" "SPinned f \<noteq> unpin s"
  by (cases s; auto)+

lemma unpin_ready: "SReady f \<in> set (map unpin slots) \<longleftrightarrow> SReady f \<in> set slots"
  by (simp add: image_iff)

lemma newest_unpin [simp]: "newest (map unpin slots) i f = newest slots i f"
  by (auto simp: newest_def)

lemma no_ready_unpin [simp]: "no_ready (map unpin slots) = no_ready slots"
  unfolding no_ready_def unpin_ready by simp

lemma map_unpin_single:
  assumes "pin_ok ident slots (Some l)"
  shows "map unpin slots = slots[fl_slot_index l := SFree]"
proof (rule nth_equalityI)
  fix i assume i: "i < length (map unpin slots)"
  obtain f where f: "slots ! fl_slot_index l = SPinned f" using assms by (auto simp: pin_ok_def)
  show "map unpin slots ! i = slots[fl_slot_index l := SFree] ! i"
  proof (cases "i = fl_slot_index l")
    case False
    then have "\<forall>g. slots ! i \<noteq> SPinned g" using assms i unfolding pin_ok_def by auto
    then show ?thesis using False i by (cases "slots ! i") simp_all
  qed (use i f in simp)
qed simp

lemma map_unpin_none: "pin_ok ident slots None \<Longrightarrow> map unpin slots = slots"
proof (rule map_idI)
  fix s assume "pin_ok ident slots None" "s \<in> set slots"
  then show "unpin s = s" by (cases s) (auto simp: pin_ok_def)
qed

text \<open>The frame an abstract slot holds is the frame in its bytes.\<close>

lemma abs_slot_frame:
  "abs_slot sb = SReady f \<Longrightarrow> frame_in sb = f" "abs_slot sb = SPinned f \<Longrightarrow> frame_in sb = f"
  by (auto simp: abs_slot_def split: if_splits)

lemma ring_wf_write_state:
  assumes "ring_wf b" "i < rc_slot_count (bm_config b)" "s \<noteq> Writing"
    and "pin_ok (md_identity (bm_descriptor b)) ((abs_ring b)[i := set_state s (frame_in (bm_slot b i))]) pinned"
  shows "ring_wf ((write_slot_state b i s)\<lparr>bm_pinned := pinned\<rparr>)"
proof -
  note m = ring_wf_mem [OF assms(1)]
  have "SlotState_raw s \<in> {0, 2, 3}" using assms(3) by (cases s) simp_all
  moreover have "abs_ring (b'\<lparr>bm_pinned := pinned\<rparr>) = abs_ring b'" for b' :: BrokerMapping by (simp add: abs_ring_def)
  ultimately show ?thesis
    using assms write_slot_state_slot [OF m assms(2)] abs_ring_write_state [OF m assms(2)] slot_long [OF m assms(2)]
    by (auto simp: ring_wf_def state_write)
qed

lemma release_pin_refines:
  assumes "ring_wf b"
  obtains b' where "release_pin_locked b = (Ok (), b')" "ring_wf b'" "bm_pinned b' = None"
    "abs_ring b' = map unpin (abs_ring b)" "bm_config b' = bm_config b" "bm_descriptor b' = bm_descriptor b"
    "header_bytes (bm_mapping b') = header_bytes (bm_mapping b)"
proof (cases "bm_pinned b")
  case None
  then show ?thesis
    using that [of b] assms map_unpin_none by (auto simp: release_pin_locked_def ring_wf_def)
next
  case (Some l)
  let ?i = "fl_slot_index l" and ?b = "b\<lparr>bm_pinned := None\<rparr>"
  have pin: "pin_ok (md_identity (bm_descriptor b)) (abs_ring b) (Some l)" using assms Some by (simp add: ring_wf_def)
  then obtain f where f: "abs_ring b ! ?i = SPinned f" "fr_sequence f = fl_sequence l"
      "fr_generation f = fl_generation l" "fl_identity l = md_identity (bm_descriptor b)"
    and i: "?i < rc_slot_count (bm_config b)"
    by (auto simp: pin_ok_def)
  note m = ring_wf_mem [OF assms]
  have "slot_state b ?i = Ok Pinned" "frame_in (bm_slot b ?i) = f"
    using slot_state_cases [OF assms i] f(1) abs_slot_frame(2) by (simp_all add: abs_ring_nth [OF i])
  moreover have "slot_state ?b ?i = slot_state b ?i" "slot_sequence ?b ?i = slot_sequence b ?i"
      "slot_generation ?b ?i = slot_generation b ?i"
    by (simp_all add: slot_state_def slot_sequence_def slot_generation_def)
  ultimately have "release_pin_locked b = (Ok (), write_slot_state ?b ?i Free)"
    using f Some slot_sequence_eq [OF m, of ?i] slot_generation_eq [OF m, of ?i]
    by (auto simp: release_pin_locked_def Let_def frame_in_def)
  moreover have "write_slot_state ?b ?i Free = (write_slot_state b ?i Free)\<lparr>bm_pinned := None\<rparr>" (is "_ = ?b'")
    by (simp add: write_slot_state_def)
  moreover have abs: "abs_ring ?b' = map unpin (abs_ring b)"
    using abs_ring_write_state [OF m i, of Free] map_unpin_single [OF pin] by (simp add: abs_ring_def)
  moreover have "ring_wf ?b'"
    by (rule ring_wf_write_state [OF assms i])
      (use map_unpin_single [OF pin] in \<open>auto simp: pin_ok_def simp flip: map_unpin_single [OF pin]\<close>)
  ultimately show ?thesis
    using that write_slot_state_slot(3) [OF m i] by simp
qed

lemma lease_refines:
  assumes "ring_wf b"
  obtains (none) b' where "next_frame_lease_locked b = (Ok None, b')" "ring_wf b'" "no_ready (abs_ring b)"
      "abs_ring b' = map unpin (abs_ring b)" "bm_config b' = bm_config b" "bm_descriptor b' = bm_descriptor b"
      "bm_pinned b' = None" "header_bytes (bm_mapping b') = header_bytes (bm_mapping b)"
    | (leased) b' i f l where "next_frame_lease_locked b = (Ok (Some l), b')" "ring_wf b'" "newest (abs_ring b) i f"
      "l = \<lparr>fl_identity = md_identity (bm_descriptor b), fl_slot_index = i, fl_sequence = fr_sequence f,
            fl_generation = fr_generation f\<rparr>"
      "abs_ring b' = (map unpin (abs_ring b))[i := SPinned f]" "bm_config b' = bm_config b"
      "bm_descriptor b' = bm_descriptor b" "bm_pinned b' = Some l"
      "header_bytes (bm_mapping b') = header_bytes (bm_mapping b)"
proof -
  obtain b1 where b1: "release_pin_locked b = (Ok (), b1)" "ring_wf b1" "bm_pinned b1 = None"
    "abs_ring b1 = map unpin (abs_ring b)" "bm_config b1 = bm_config b" "bm_descriptor b1 = bm_descriptor b"
    "header_bytes (bm_mapping b1) = header_bytes (bm_mapping b)"
    by (rule release_pin_refines [OF assms])
  note m = ring_wf_mem [OF b1(2)]
  from scan_latest_newest [OF b1(2)] show ?thesis
  proof (elim disjE exE conjE)
    assume "scan_latest b1 [0..<rc_slot_count (bm_config b1)] None = Ok None" "no_ready (abs_ring b1)"
    then show ?thesis using none [of b1] b1 by (simp add: next_frame_lease_locked_def)
  next
    fix i f
    assume sc: "scan_latest b1 [0..<rc_slot_count (bm_config b1)] None = Ok (Some (i, fr_sequence f))"
      and new: "newest (abs_ring b1) i f"
    have i: "i < rc_slot_count (bm_config b1)" and r: "abs_slot (bm_slot b1 i) = SReady f"
      using new by (auto simp: newest_def abs_ring_nth)
    let ?l = "\<lparr>fl_identity = md_identity (bm_descriptor b), fl_slot_index = i, fl_sequence = fr_sequence f,
            fl_generation = fr_generation f\<rparr>"
    let ?b2 = "write_slot_state b1 i Pinned" and ?b' = "(write_slot_state b1 i Pinned)\<lparr>bm_pinned := Some ?l\<rparr>"
    have fr: "frame_in (bm_slot b1 i) = f" using abs_slot_frame(1) [OF r] .
    note s2 = write_slot_state_slot [OF m i, of Pinned]
    have fr2: "frame_in (bm_slot ?b2 i) = f"
      using s2(1) [of i] slot_long [OF m i] fr by (simp add: state_write)
    have m2: "ring_mem_wf (bm_config ?b2) (bm_mapping ?b2)" using s2(2) by simp
    have "slot_sequence ?b2 i = fr_sequence f" "slot_generation ?b2 i = fr_generation f"
      using slot_sequence_eq [OF m2, of i] slot_generation_eq [OF m2, of i] fr2 by (auto simp: frame_in_def)
    then have "next_frame_lease_locked b = (Ok (Some ?l), ?b')"
      using b1 sc slot_state_cases [OF b1(2) i] r by (simp add: next_frame_lease_locked_def Let_def)
    moreover have "abs_ring ?b' = (map unpin (abs_ring b))[i := SPinned f]"
      using abs_ring_write_state [OF m i, of Pinned] fr b1(4) by (simp add: abs_ring_def)
    moreover have "ring_wf ?b'"
      by (rule ring_wf_write_state [OF b1(2) i])
        (use fr i b1(4,5,6) in \<open>auto simp: pin_ok_def nth_list_update\<close>)
    ultimately show ?thesis
      using leased [of ?l ?b' i f] new b1 s2(3) by simp
  qed
qed


section \<open>Writes local to a slot\<close>

text \<open>
  \<open>slot_op c i g gl\<close>: the memory transformer \<open>g\<close> acts as \<open>gl\<close> on the bytes of slot \<open>i\<close> and
  touches neither the header nor another slot.
\<close>

definition slot_op :: "RingConfig \<Rightarrow> nat \<Rightarrow> (mem \<Rightarrow> mem) \<Rightarrow> (u8 list \<Rightarrow> u8 list) \<Rightarrow> bool" where
  "slot_op c i g gl \<longleftrightarrow> (\<forall>m. ring_mem_wf c m \<longrightarrow> ring_mem_wf c (g m) \<and> slot_bytes c i (g m) = gl (slot_bytes c i m)
     \<and> (\<forall>j. j \<noteq> i \<longrightarrow> slot_bytes c j (g m) = slot_bytes c j m) \<and> header_bytes (g m) = header_bytes m)"

lemma slot_opD:
  assumes "slot_op c i g gl" "ring_mem_wf c m"
  shows "ring_mem_wf c (g m)" "slot_bytes c i (g m) = gl (slot_bytes c i m)"
    "j \<noteq> i \<Longrightarrow> slot_bytes c j (g m) = slot_bytes c j m" "header_bytes (g m) = header_bytes m"
  using assms by (auto simp: slot_op_def)

lemma slot_op_comp: "slot_op c i g gl \<Longrightarrow> slot_op c i h hl \<Longrightarrow> slot_op c i (\<lambda>m. h (g m)) (\<lambda>s. hl (gl s))"
  by (simp add: slot_op_def)

lemma slot_op_id: "slot_op c i (\<lambda>m. m) (\<lambda>s. s)"
  by (simp add: slot_op_def)

lemma slot_op_bytes:
  assumes "ring_config_wf c" "i < rc_slot_count c" "k + length bs \<le> 128 + rc_payload_capacity c"
  shows "slot_op c i (write_bytes (slot_base c i + k) bs) (write_bytes k bs)"
proof -
  have "k + length bs \<le> rc_slot_stride c" using assms ring_config_wf_stride(3) [OF assms(1)] by simp
  then show ?thesis
    using assms slot_write_mem_wf slot_write_same slot_write_other slot_write_header by (simp add: slot_op_def)
qed

lemma slot_op_u64:
  "ring_config_wf c \<Longrightarrow> i < rc_slot_count c \<Longrightarrow> k + 8 \<le> 128 \<Longrightarrow> slot_op c i g gl \<Longrightarrow>
     slot_op c i (\<lambda>m. write_u64 (slot_base c i + k) v (g m)) (\<lambda>s. write_u64 (0 + k) v (gl s))"
  unfolding write_u64_def using slot_op_comp [OF _ slot_op_bytes [of c i k "to_le v"]] by simp

lemma slot_op_u32:
  "ring_config_wf c \<Longrightarrow> i < rc_slot_count c \<Longrightarrow> k + 4 \<le> 128 \<Longrightarrow> slot_op c i g gl \<Longrightarrow>
     slot_op c i (\<lambda>m. write_u32 (slot_base c i + k) v (g m)) (\<lambda>s. write_u32 (0 + k) v (gl s))"
  unfolding write_u32_def using slot_op_comp [OF _ slot_op_bytes [of c i k "to_le v"]] by simp

lemma slot_op_planes:
  assumes "ring_config_wf c" "i < rc_slot_count c" "k + length ps \<le> 3" "slot_op c i g gl"
  shows "slot_op c i (\<lambda>m. write_planes (slot_base c i) k ps (g m)) (\<lambda>s. write_planes 0 k ps (gl s))"
  using assms(3,4)
proof (induction ps arbitrary: k g gl)
  case (Cons p ps)
  have "56 + k * 12 + 12 \<le> 128" using Cons.prems(1) by simp
  then show ?case
    unfolding write_planes.simps Let_def slot_offsets
    by (intro Cons.IH slot_op_u32 assms(1,2) Cons.prems(2)) (use Cons.prems(1) in auto)
qed simp

lemma slot_op_metadata:
  assumes "ring_config_wf c" "i < rc_slot_count c" "length (fm_planes md) \<le> 3"
  shows "slot_op c i (write_slot_metadata (slot_base c i) md n dr) (write_slot_metadata 0 md n dr)"
  unfolding write_slot_metadata_def slot_offsets
  by (intro slot_op_u64 slot_op_planes assms slot_op_id) (use assms(3) in simp_all)

text \<open>What a filled slot holds.\<close>

definition published_frame :: "FrameMetadata \<Rightarrow> usize \<Rightarrow> u64 \<Rightarrow> u8 list \<Rightarrow> Frame" where
  "published_frame md n dropped payload =
     \<lparr>fr_sequence = fm_sequence md, fr_generation = fm_generation md, fr_timestamp = fm_monotonic_timestamp_ns md,
      fr_dropped = dropped, fr_planes = fm_planes md, fr_length = of_nat n,
      fr_payload = take n payload\<rparr>"

text \<open>Reads through a chain of writes to the slot header, for slots of at least 128 bytes.\<close>

definition long_slot :: "u8 list \<Rightarrow> bool" where
  "long_slot sb \<longleftrightarrow> 128 \<le> length sb"

lemma long_slot_write: "long_slot sb \<Longrightarrow> long_slot (write_bytes off bs sb)"
  by (auto simp: long_slot_def write_bytes_def)

lemma slot_rw_same: "long_slot sb \<Longrightarrow> off + length bs \<le> 128 \<Longrightarrow> n = length bs \<Longrightarrow>
    read_bytes off n (write_bytes off bs sb) = bs"
  by (simp add: long_slot_def)

lemma slot_rw_other: "long_slot sb \<Longrightarrow> off + length bs \<le> 128 \<Longrightarrow> a + n \<le> off \<or> off + length bs \<le> a \<Longrightarrow>
    read_bytes a n (write_bytes off bs sb) = read_bytes a n sb"
  by (auto simp: long_slot_def)

lemmas slot_rw = long_slot_write slot_rw_same slot_rw_other

lemma frame_in_metadata:
  assumes "length (fm_planes md) = 1 \<or> length (fm_planes md) = 2" "128 + n \<le> length sb" "n < 2 ^ 64"
  shows "frame_in (write_slot_metadata 0 md n dr sb) = published_frame md n dr (drop 128 sb)"
    "state_in (write_slot_metadata 0 md n dr sb) = state_in sb"
proof -
  have u: "unat (of_nat n :: u64) = n" using assms(3) by (simp add: unat_of_nat)
  have l: "long_slot sb" using assms(2) by (simp add: long_slot_def)
  from assms(1) consider p where "fm_planes md = [p]" | p q where "fm_planes md = [p, q]"
    by (auto simp: length_one_two)
  note cs = this
  let ?w = "write_slot_metadata 0 md n dr sb"
  note w = write_slot_metadata_def slot_offsets mem_access_defs slot_rw l
  note del = read_write_same read_write_before read_write_after length_write_bytes
  have u64: "read_u64 8 ?w = fm_sequence md" "read_u64 16 ?w = fm_generation md"
    "read_u64 24 ?w = fm_monotonic_timestamp_ns md" "read_u64 32 ?w = dr" "read_u64 40 ?w = of_nat n"
    "read_u64 48 ?w = of_nat (length (fm_planes md))" "read_u64 0 ?w = read_u64 0 sb"
    "read_bytes 128 k ?w = read_bytes 128 k sb" for k
    using cs by (cases; simp add: w del: del)+
  have planes: "map (plane_in ?w) [0..<length (fm_planes md)] = fm_planes md"
    using cs by (cases; simp add: w plane_in_def del: del)
  have c: "unat (of_nat (length (fm_planes md)) :: u64) = length (fm_planes md)"
    using cs by cases simp_all
  show "frame_in ?w = published_frame md n dr (drop 128 sb)"
    unfolding frame_in_def published_frame_def u64 u c planes by (simp only: read_bytes_def)
  show "state_in ?w = state_in sb" using u64 by (simp add: state_in_def)
qed


section \<open>Publication\<close>

text \<open>Two brokers that differ at most in header counters.\<close>

definition slots_same :: "BrokerMapping \<Rightarrow> BrokerMapping \<Rightarrow> bool" where
  "slots_same b b' \<longleftrightarrow> bm_config b' = bm_config b \<and> bm_descriptor b' = bm_descriptor b \<and> bm_pinned b' = bm_pinned b
     \<and> ring_mem_wf (bm_config b) (bm_mapping b') \<and> (\<forall>j. bm_slot b' j = bm_slot b j)
     \<and> rm_terminal_state (bm_mapping b') = rm_terminal_state (bm_mapping b)"

lemma slots_same_ring:
  assumes "slots_same b b'"
  shows "abs_ring b' = abs_ring b" "ring_wf b \<Longrightarrow> ring_wf b'"
proof -
  show a: "abs_ring b' = abs_ring b"
    using assms by (auto simp: slots_same_def abs_ring_def)
  show "ring_wf b \<Longrightarrow> ring_wf b'"
    using assms a by (auto simp: ring_wf_def slots_same_def)
qed

lemma dropped_count_header: "dropped_count_locked b = read_u64 128 (header_bytes (bm_mapping b))"
  unfolding dropped_count_locked_def read_u64_def HEADER_DROPPED_COUNT_def by (subst header_read) simp_all

lemma terminal_state_header: "rm_terminal_state m = read_u64 136 (header_bytes m)"
  unfolding rm_terminal_state_def read_u64_def HEADER_TERMINAL_STATE_def by (subst header_read) simp_all

lemma increment_dropped_spec:
  assumes "ring_mem_wf (bm_config b) (bm_mapping b)"
  shows "dropped_count_locked b = - 1 \<Longrightarrow> \<exists>e. increment_dropped_locked b = (Err e, b)"
    and "dropped_count_locked b \<noteq> - 1 \<Longrightarrow> \<exists>b'. increment_dropped_locked b = (Ok (), b') \<and> slots_same b b'
       \<and> dropped_count_locked b' = dropped_count_locked b + 1"
proof -
  show "\<exists>e. increment_dropped_locked b = (Err e, b)" if "dropped_count_locked b = - 1"
    using that checked_add_one_Some [of "dropped_count_locked b"]
    by (auto simp: increment_dropped_locked_def split: option.splits)
  assume "dropped_count_locked b \<noteq> - 1"
  then have c: "checked_add (dropped_count_locked b) 1 = Some (dropped_count_locked b + 1)"
    by (simp add: checked_add_one_Some)
  let ?v = "dropped_count_locked b + 1"
  let ?b' = "b\<lparr>bm_mapping := write_u64 HEADER_DROPPED_COUNT ?v (bm_mapping b)\<rparr>"
  have h: "header_bytes (bm_mapping ?b') = write_bytes 128 (to_le ?v) (header_bytes (bm_mapping b))"
    using header_write_same [OF assms, of 128 "to_le ?v"] by (simp add: write_u64_def HEADER_DROPPED_COUNT_def)
  have "slots_same b ?b'"
    using header_write_slot [OF assms, of 128 "to_le ?v"] header_write_mem_wf [OF assms, of 128 "to_le ?v"] h assms
    by (simp add: slots_same_def terminal_state_header read_u64_def write_u64_def HEADER_DROPPED_COUNT_def)
  moreover have "dropped_count_locked ?b' = ?v"
    by (subst dropped_count_header, subst h) (use assms in \<open>simp add: read_u64_def\<close>)
  ultimately show "\<exists>b'. increment_dropped_locked b = (Ok (), b') \<and> slots_same b b'
       \<and> dropped_count_locked b' = dropped_count_locked b + 1"
    using c by (auto simp: increment_dropped_locked_def)
qed

text \<open>A broker after memory transformers local to slot \<open>i\<close>.\<close>

lemma slot_op_broker:
  assumes "slot_op (bm_config b) i g gl" "ring_mem_wf (bm_config b) (bm_mapping b)"
    and "b' = b\<lparr>bm_mapping := g (bm_mapping b)\<rparr>"
  shows "bm_slot b' i = gl (bm_slot b i)" "j \<noteq> i \<Longrightarrow> bm_slot b' j = bm_slot b j"
    "ring_mem_wf (bm_config b) (bm_mapping b')" "header_bytes (bm_mapping b') = header_bytes (bm_mapping b)"
  using slot_opD [OF assms(1,2)] by (auto simp: assms(3))

lemma write_slot_state_op:
  "write_slot_state b i s = b\<lparr>bm_mapping := write_u64 (slot_base (bm_config b) i + 0) (SlotState_raw s) (bm_mapping b)\<rparr>"
  by (simp add: write_slot_state_def SLOT_STATE_def)

text \<open>The steps of a publication into slot \<open>i\<close> that succeed, as one transformer of the mapping.\<close>

lemma failed_op:
  assumes c: "ring_config_wf c" "i < rc_slot_count c" and d: "length d = rc_payload_capacity c"
  shows "slot_op c i
     (\<lambda>m. write_bytes (slot_base c i + 128) d (write_u64 (slot_base c i + 0) 1 m))
     (\<lambda>sb. write_bytes 128 d (write_u64 (0 + 0) 1 sb))"
    "slot_op c i
     (\<lambda>m. write_u64 (slot_base c i + 0) st (write_bytes (slot_base c i + 128) d (write_u64 (slot_base c i + 0) 1 m)))
     (\<lambda>sb. write_u64 (0 + 0) st (write_bytes 128 d (write_u64 (0 + 0) 1 sb)))"
proof -
  show b: "slot_op c i (\<lambda>m. write_bytes (slot_base c i + 128) d (write_u64 (slot_base c i + 0) 1 m))
     (\<lambda>sb. write_bytes 128 d (write_u64 (0 + 0) 1 sb))"
    by (rule slot_op_comp [OF slot_op_u64 [OF c _ slot_op_id] slot_op_bytes [OF c]]) (simp_all add: d)
  show "slot_op c i
     (\<lambda>m. write_u64 (slot_base c i + 0) st (write_bytes (slot_base c i + 128) d (write_u64 (slot_base c i + 0) 1 m)))
     (\<lambda>sb. write_u64 (0 + 0) st (write_bytes 128 d (write_u64 (0 + 0) 1 sb)))"
    by (rule slot_op_u64 [OF c _ b]) simp
qed

lemma publish_op:
  assumes c: "ring_config_wf c" "i < rc_slot_count c" and d: "length d = rc_payload_capacity c"
    and p: "length (fm_planes md) \<le> 3"
  shows "slot_op c i
     (\<lambda>m. write_u64 (slot_base c i + 0) st (write_slot_metadata (slot_base c i) md n dr
        (write_bytes (slot_base c i + 128) d (write_u64 (slot_base c i + 0) 1 m))))
     (\<lambda>sb. write_u64 (0 + 0) st (write_slot_metadata 0 md n dr (write_bytes 128 d (write_u64 (0 + 0) 1 sb))))"
  by (rule slot_op_u64 [OF c _ slot_op_comp [OF failed_op(1) [OF c d] slot_op_metadata [OF c p]]]) simp

definition failed_mapping :: "RingConfig \<Rightarrow> nat \<Rightarrow> SlotState \<Rightarrow> u8 list \<Rightarrow> mem \<Rightarrow> mem" where
  "failed_mapping c i previous d m = write_u64 (slot_base c i + 0) (SlotState_raw previous)
     (write_bytes (slot_base c i + 128) d (write_u64 (slot_base c i + 0) 1 m))"

definition filled_mapping :: "RingConfig \<Rightarrow> nat \<Rightarrow> FrameMetadata \<Rightarrow> usize \<Rightarrow> u64 \<Rightarrow> u8 list \<Rightarrow> mem \<Rightarrow> mem" where
  "filled_mapping c i md n dr d m = write_u64 (slot_base c i + 0) (SlotState_raw Ready)
     (write_slot_metadata (slot_base c i) md n dr
       (write_bytes (slot_base c i + 128) d (write_u64 (slot_base c i + 0) 1 m)))"

lemma publish_steps:
  assumes sel: "select_writable_slot b = Ok (Some i)" "slot_state b i = Ok previous"
    and inc: "(if previous = Ready then increment_dropped_locked b else (Ok (), b)) = (Ok (), b1)" "slots_same b b1"
    and i: "i < rc_slot_count (bm_config b)"
    and copy: "copier (read_bytes 128 (rc_payload_capacity (bm_config b)) (bm_slot b i)) = (r, d)"
      "length d = rc_payload_capacity (bm_config b)"
  shows "publish_locked_with md copier b =
     (let failed = b1\<lparr>bm_mapping := failed_mapping (bm_config b) i previous d (bm_mapping b1)\<rparr> in
      case r of
        Err e \<Rightarrow> (Err e, failed)
      | Ok n \<Rightarrow> if n > rc_payload_capacity (bm_config b) then
            (Err (shm_invalid ''shared_memory.publish'' ''payload copier exceeded the negotiated slot capacity''), failed)
          else (case validate_planes (fm_format md) (fm_width md) (fm_height md) (fm_planes md) n of
              Err e \<Rightarrow> (Err e, failed)
            | Ok _ \<Rightarrow> (Ok (), b1\<lparr>bm_mapping :=
                filled_mapping (bm_config b) i md n (dropped_count_locked b1) d (bm_mapping b1)\<rparr>)))"
proof -
  let ?c = "bm_config b"
  have b1: "bm_config b1 = ?c" "ring_mem_wf ?c (bm_mapping b1)" "slot_bytes ?c i (bm_mapping b1) = bm_slot b i"
    using inc(2) unfolding slots_same_def by auto
  then have c: "ring_config_wf ?c" by (simp add: ring_mem_wf_def)
  let ?w = "write_slot_state b1 i Writing"
  have w: "?w = b1\<lparr>bm_mapping := write_u64 (slot_base ?c i + 0) 1 (bm_mapping b1)\<rparr>"
    by (simp add: write_slot_state_op b1(1))
  note op = slot_op_u64 [OF c i, of 0 "\<lambda>m. m" "\<lambda>s. s" 1, OF _ slot_op_id, simplified]
  have "read_bytes (slot_base ?c i + 128) (rc_payload_capacity ?c) (bm_mapping ?w) =
      read_bytes 128 (rc_payload_capacity ?c) (slot_bytes ?c i (bm_mapping ?w))"
    by (rule slot_read) (rule ring_config_wf_stride(3) [OF c])
  also have "slot_bytes ?c i (bm_mapping ?w) = write_bytes 0 (to_le (1 :: u64)) (bm_slot b i)"
    using slot_opD(2) [OF op b1(2)] b1(3) by (simp add: w write_u64_def)
  also have "read_bytes 128 (rc_payload_capacity ?c) (write_bytes 0 (to_le (1 :: u64)) (bm_slot b i)) =
      read_bytes 128 (rc_payload_capacity ?c) (bm_slot b i)"
    by simp
  finally have dest: "copier (read_bytes (slot_base ?c i + 128) (rc_payload_capacity ?c)
      (bm_mapping ?w)) = (r, d)" using copy(1) by simp
  let ?f = "?w\<lparr>bm_mapping := write_bytes (slot_base ?c i + 128) d (bm_mapping ?w)\<rparr>"
  have "header_bytes (bm_mapping ?f) = header_bytes (bm_mapping b1)"
    using slot_opD(4) [OF slot_op_comp [OF op slot_op_bytes [OF c i]] b1(2), of 128 d] copy(2) by (simp add: w)
  then have dr: "dropped_count_locked ?f = dropped_count_locked b1" by (simp add: dropped_count_header)
  have "fill_slot md copier i ?w = then_st (r, ?f) (\<lambda>payload_length b.
         if payload_length > rc_payload_capacity ?c then
           (Err (shm_invalid ''shared_memory.publish'' ''payload copier exceeded the negotiated slot capacity''), b)
         else then_st (validate_planes (fm_format md) (fm_width md) (fm_height md)
             (fm_planes md) payload_length, b) (\<lambda>_ b.
           (Ok (), b\<lparr>bm_mapping :=
              write_slot_metadata (slot_base ?c i) md payload_length (dropped_count_locked b) (bm_mapping b)\<rparr>)))"
    using dest by (simp add: fill_slot_def Let_def b1(1) SLOT_HEADER_BYTES_def)
  then show ?thesis
    using sel inc(1) dr
    by (auto simp: publish_locked_with_def Let_def failed_mapping_def filled_mapping_def w write_slot_state_op b1(1)
        split: result.split)
qed


lemma pin_ok_update:
  assumes ok: "pin_ok ident slots p" and i: "\<forall>f. slots ! i \<noteq> SPinned f" "\<forall>f. s \<noteq> SPinned f"
  shows "pin_ok ident (slots[i := s]) p"
proof (cases p)
  case None
  then have "\<forall>f. SPinned f \<notin> set slots" using ok by (simp add: pin_ok_def)
  then show ?thesis using None i(2) set_update_subset_insert [of slots i s] by (auto simp: pin_ok_def)
next
  case (Some l)
  then obtain f where "slots ! fl_slot_index l = SPinned f" using ok by (auto simp: pin_ok_def)
  with i(1) have ne: "i \<noteq> fl_slot_index l" by auto
  have "j = fl_slot_index l" if "j < length slots" "slots[i := s] ! j = SPinned g" for j g
    using that i ok Some unfolding pin_ok_def by (cases "j = i") auto
  then show ?thesis using ok Some ne by (auto simp: pin_ok_def)
qed

lemma long_slot_metadata:
  assumes "long_slot sb"
  shows "long_slot (write_slot_metadata 0 md n dr sb)"
proof -
  have "long_slot s \<Longrightarrow> long_slot (write_planes 0 k ps s)" for k ps s
    by (induction ps arbitrary: k s) (simp_all add: Let_def write_u32_def long_slot_write)
  then show ?thesis using assms by (simp add: write_slot_metadata_def write_u64_def long_slot_write)
qed

lemma abs_slot_filled:
  assumes md: "frame_metadata_wf md" and d: "length d = cap" "n \<le> cap" "128 + cap \<le> length sb" "cap < 2 ^ 64"
  shows "state_in (write_u64 0 2 (write_slot_metadata 0 md n dr (write_bytes 128 d (write_u64 0 1 sb)))) = 2"
    "abs_slot (write_u64 0 2 (write_slot_metadata 0 md n dr (write_bytes 128 d (write_u64 0 1 sb))))
       = SReady (published_frame md n dr d)"
proof -
  let ?s = "write_bytes 128 d (write_u64 0 1 sb)"
  have len: "length ?s = length sb" using d by (simp add: write_u64_def)
  have p: "length (fm_planes md) = 1 \<or> length (fm_planes md) = 2"
    using md by (auto simp: frame_metadata_wf_def planes_valid_def pl_covers_def Let_def split: PixelFormat.splits)
  have l: "128 \<le> length (write_slot_metadata 0 md n dr ?s)"
    using long_slot_metadata [of ?s md n dr] len d by (simp add: long_slot_def)
  have "drop 128 ?s = d @ drop (128 + cap) (write_u64 0 1 sb)" using d by (simp add: write_bytes_def write_u64_def)
  then have f: "frame_in (write_slot_metadata 0 md n dr ?s) = published_frame md n dr d"
    using frame_in_metadata(1) [OF p, of n ?s dr] len d by (simp add: published_frame_def)
  show "state_in (write_u64 0 2 (write_slot_metadata 0 md n dr ?s)) = 2"
    using state_write(1) [OF l] by (simp add: write_u64_def)
  show "abs_slot (write_u64 0 2 (write_slot_metadata 0 md n dr ?s)) = SReady (published_frame md n dr d)"
    using abs_slot_write_state [OF l, of Ready] f by (simp add: write_u64_def)
qed

text \<open>The frame a slot shows once its payload bytes were overwritten by \<open>d\<close>.\<close>

definition overwritten :: "u8 list \<Rightarrow> u8 list \<Rightarrow> Frame" where
  "overwritten d sb = frame_in (write_bytes 128 d (write_u64 0 1 sb))"

lemma overwritten_fields:
  assumes d: "128 + length d \<le> length sb"
  shows "fr_sequence (overwritten d sb) = fr_sequence (frame_in sb)"
    "fr_generation (overwritten d sb) = fr_generation (frame_in sb)"
    "unat (read_u64 40 sb) \<le> length d \<Longrightarrow> fr_payload (overwritten d sb) = take (unat (read_u64 40 sb)) d"
proof -
  let ?s = "write_bytes 128 d (write_u64 0 1 sb)"
  have u: "read_u64 k ?s = read_u64 k sb" if "8 \<le> k" "k + 8 \<le> 128" for k
    using that d by (simp add: read_u64_def write_u64_def)
  show "fr_sequence (overwritten d sb) = fr_sequence (frame_in sb)"
    "fr_generation (overwritten d sb) = fr_generation (frame_in sb)"
    by (simp_all add: overwritten_def frame_in_def u)
  have "fr_payload (overwritten d sb) = read_bytes 128 (unat (read_u64 40 sb)) ?s"
    by (simp add: overwritten_def frame_in_def u)
  also have "\<dots> = take (unat (read_u64 40 sb)) (d @ drop (128 + length d) (write_u64 0 1 sb))"
    using d by (simp add: read_bytes_def write_bytes_def write_u64_def)
  finally show "unat (read_u64 40 sb) \<le> length d \<Longrightarrow> fr_payload (overwritten d sb) = take (unat (read_u64 40 sb)) d"
    by simp
qed

lemma abs_slot_failed:
  assumes d: "128 + length d \<le> length sb"
  shows "state_in (write_u64 0 (SlotState_raw st) (write_bytes 128 d (write_u64 0 1 sb))) = SlotState_raw st"
    "abs_slot (write_u64 0 (SlotState_raw st) (write_bytes 128 d (write_u64 0 1 sb))) = set_state st (overwritten d sb)"
proof -
  let ?s = "write_bytes 128 d (write_u64 0 1 sb)"
  have l: "128 \<le> length ?s" using d by (simp add: write_u64_def)
  show "state_in (write_u64 0 (SlotState_raw st) ?s) = SlotState_raw st"
    using state_write(1) [OF l] by (simp add: write_u64_def)
  show "abs_slot (write_u64 0 (SlotState_raw st) ?s) = set_state st (overwritten d sb)"
    using abs_slot_write_state [OF l, of st] by (simp add: write_u64_def overwritten_def)
qed

text \<open>A change local to slot \<open>i\<close> that leaves it free or ready keeps the invariant.\<close>

lemma ring_wf_slot_op:
  assumes wf: "ring_wf b" and same: "slots_same b b1" and op: "slot_op (bm_config b) i g gl"
    and i: "i < rc_slot_count (bm_config b)" "\<forall>f. abs_ring b ! i \<noteq> SPinned f"
    and st: "state_in (gl (bm_slot b i)) \<in> {0, 2}"
    and b': "b' = b1\<lparr>bm_mapping := g (bm_mapping b1)\<rparr>"
  shows "ring_wf b'" "abs_ring b' = (abs_ring b)[i := abs_slot (gl (bm_slot b i))]"
    "bm_config b' = bm_config b" "bm_descriptor b' = bm_descriptor b" "bm_pinned b' = bm_pinned b"
    "dropped_count_locked b' = dropped_count_locked b1"
    "rm_terminal_state (bm_mapping b') = rm_terminal_state (bm_mapping b)"
    "j \<noteq> i \<Longrightarrow> bm_slot b' j = bm_slot b j"
proof -
  have b1: "bm_config b1 = bm_config b" "bm_descriptor b1 = bm_descriptor b" "bm_pinned b1 = bm_pinned b"
    "ring_mem_wf (bm_config b1) (bm_mapping b1)" "\<And>j. bm_slot b1 j = bm_slot b j"
    "rm_terminal_state (bm_mapping b1) = rm_terminal_state (bm_mapping b)"
    using same by (auto simp: slots_same_def)
  note o = slot_op_broker [OF op [folded b1(1)] b1(4) b']
  show c: "bm_config b' = bm_config b" "bm_descriptor b' = bm_descriptor b" "bm_pinned b' = bm_pinned b"
    using b1 by (simp_all add: b')
  show h: "dropped_count_locked b' = dropped_count_locked b1"
    "rm_terminal_state (bm_mapping b') = rm_terminal_state (bm_mapping b)"
    using o(4) b1(6) by (simp_all add: dropped_count_header terminal_state_header)
  have si: "bm_slot b' i = gl (bm_slot b i)" using o(1) b1(5) by simp
  show sj: "bm_slot b' j = bm_slot b j" if "j \<noteq> i" for j using o(2) [OF that] b1(5) by simp
  show a: "abs_ring b' = (abs_ring b)[i := abs_slot (gl (bm_slot b i))]"
    using abs_ring_update [OF c(1) i(1) sj] si by simp
  have "\<forall>f. abs_slot (gl (bm_slot b i)) \<noteq> SPinned f" using st by (auto simp: abs_slot_def)
  then have "pin_ok (md_identity (bm_descriptor b')) (abs_ring b') (bm_pinned b')"
    unfolding a c by (intro pin_ok_update) (use wf i(2) in \<open>auto simp: ring_wf_def\<close>)
  moreover have "\<forall>k<rc_slot_count (bm_config b). state_in (bm_slot b' k) \<in> {0, 2, 3}"
    using wf st si sj unfolding ring_wf_def by (metis insertI1 insertI2 insertE empty_iff)
  ultimately show "ring_wf b'" using o(3) b1(1) c(1) by (simp add: ring_wf_def)
qed


text \<open>What no publication changes, apart from slot \<open>i\<close>.\<close>

definition unchanged_but :: "nat \<Rightarrow> BrokerMapping \<Rightarrow> BrokerMapping \<Rightarrow> bool" where
  "unchanged_but i b b' \<longleftrightarrow> bm_config b' = bm_config b \<and> bm_descriptor b' = bm_descriptor b
     \<and> bm_pinned b' = bm_pinned b \<and> rm_terminal_state (bm_mapping b') = rm_terminal_state (bm_mapping b)
     \<and> (\<forall>j. j \<noteq> i \<longrightarrow> bm_slot b' j = bm_slot b j)"

abbreviation slot_payload :: "BrokerMapping \<Rightarrow> nat \<Rightarrow> u8 list" where
  "slot_payload b i \<equiv> read_bytes 128 (rc_payload_capacity (bm_config b)) (bm_slot b i)"

lemma victim_facts:
  assumes "victim (abs_ring b) i"
  shows "i < rc_slot_count (bm_config b)" "\<forall>f. abs_ring b ! i \<noteq> SPinned f"
  using assms by (auto simp: victim_def oldest_def)

lemma publish_start:
  assumes wf: "ring_wf b" and v: "victim (abs_ring b) i"
  defines "previous \<equiv> (if abs_ring b ! i = SFree then Free else Ready)"
  shows "slot_state b i = Ok previous"
    "(\<exists>f e. abs_ring b ! i = SReady f \<and> dropped_count_locked b = - 1 \<and> increment_dropped_locked b = (Err e, b))
     \<or> (\<exists>b1. (if previous = Ready then increment_dropped_locked b else (Ok (), b)) = (Ok (), b1) \<and> slots_same b b1
          \<and> dropped_count_locked b1 = dropped_count_locked b + (if abs_ring b ! i = SFree then 0 else 1))"
proof -
  note i = victim_facts [OF v]
  show "slot_state b i = Ok previous"
    using slot_state_cases [OF wf i(1)] i(2) unfolding previous_def abs_ring_nth [OF i(1)]
    by (cases "abs_slot (bm_slot b i)") auto
  note inc = increment_dropped_spec [OF ring_wf_mem [OF wf]]
  have same: "slots_same b b" using ring_wf_mem [OF wf] by (simp add: slots_same_def)
  show "(\<exists>f e. abs_ring b ! i = SReady f \<and> dropped_count_locked b = - 1 \<and> increment_dropped_locked b = (Err e, b))
     \<or> (\<exists>b1. (if previous = Ready then increment_dropped_locked b else (Ok (), b)) = (Ok (), b1) \<and> slots_same b b1
          \<and> dropped_count_locked b1 = dropped_count_locked b + (if abs_ring b ! i = SFree then 0 else 1))"
  proof (cases "abs_ring b ! i")
    case SFree
    then show ?thesis using same by (simp add: previous_def)
  next
    case (SReady f)
    then show ?thesis using inc by (cases "dropped_count_locked b = - 1") (auto simp: previous_def)
  next
    case (SPinned f)
    then show ?thesis using i(2) by simp
  qed
qed

lemma failed_ring:
  assumes wf: "ring_wf b" and same: "slots_same b b1" and v: "victim (abs_ring b) i"
    and d: "length d = rc_payload_capacity (bm_config b)" and prev: "previous = Free \<or> previous = Ready"
    and b': "b' = b1\<lparr>bm_mapping := failed_mapping (bm_config b) i previous d (bm_mapping b1)\<rparr>"
  shows "ring_wf b'" "unchanged_but i b b'"
    "abs_ring b' = (abs_ring b)[i := set_state previous (overwritten d (bm_slot b i))]"
proof -
  note i = victim_facts [OF v]
  note m = ring_wf_mem [OF wf]
  have c: "ring_config_wf (bm_config b)" using m by (simp add: ring_mem_wf_def)
  have raw: "SlotState_raw previous \<in> {0, 2}" using prev by auto
  have fail: "b' = b1\<lparr>bm_mapping := (\<lambda>m. write_u64 (slot_base (bm_config b) i + 0) (SlotState_raw previous)
      (write_bytes (slot_base (bm_config b) i + 128) d (write_u64 (slot_base (bm_config b) i + 0) 1 m))) (bm_mapping b1)\<rparr>"
    by (simp add: b' failed_mapping_def)
  have "128 + length d \<le> length (bm_slot b i)" using slot_long [OF m i(1)] d by simp
  note S = abs_slot_failed [OF this, of previous]
  have op: "slot_op (bm_config b) i (\<lambda>m. write_u64 (slot_base (bm_config b) i + 0) (SlotState_raw previous)
      (write_bytes (slot_base (bm_config b) i + 128) d (write_u64 (slot_base (bm_config b) i + 0) 1 m)))
      (\<lambda>sb. write_u64 (0 + 0) (SlotState_raw previous) (write_bytes 128 d (write_u64 (0 + 0) 1 sb)))"
    by (rule failed_op(2) [OF c i(1) d])
  note R = ring_wf_slot_op [OF wf same op i _ fail]
  show "ring_wf b'" "abs_ring b' = (abs_ring b)[i := set_state previous (overwritten d (bm_slot b i))]"
    using R(1,2) S raw by simp_all
  show "unchanged_but i b b'" using R(3-5,7,8) S raw by (simp add: unchanged_but_def)
qed

lemma filled_ring:
  assumes wf: "ring_wf b" and same: "slots_same b b1" and v: "victim (abs_ring b) i" and md: "frame_metadata_wf md"
    and d: "length d = rc_payload_capacity (bm_config b)" "n \<le> rc_payload_capacity (bm_config b)"
    and b': "b' = b1\<lparr>bm_mapping := filled_mapping (bm_config b) i md n dr d (bm_mapping b1)\<rparr>"
  shows "ring_wf b'" "unchanged_but i b b'" "dropped_count_locked b' = dropped_count_locked b1"
    "abs_ring b' = (abs_ring b)[i := SReady (published_frame md n dr d)]"
proof -
  note i = victim_facts [OF v]
  note m = ring_wf_mem [OF wf]
  have c: "ring_config_wf (bm_config b)" using m by (simp add: ring_mem_wf_def)
  have cap: "rc_payload_capacity (bm_config b) < 2 ^ 64" using c by (simp add: ring_config_wf_def camera_limits)
  have pl: "length (fm_planes md) \<le> 3"
    using md by (auto simp: frame_metadata_wf_def planes_valid_def pl_covers_def Let_def split: PixelFormat.splits)
  have fill: "b' = b1\<lparr>bm_mapping := (\<lambda>m. write_u64 (slot_base (bm_config b) i + 0) (SlotState_raw Ready)
      (write_slot_metadata (slot_base (bm_config b) i) md n dr (write_bytes (slot_base (bm_config b) i + 128) d
        (write_u64 (slot_base (bm_config b) i + 0) 1 m)))) (bm_mapping b1)\<rparr>"
    by (simp add: b' filled_mapping_def)
  note S = abs_slot_filled [OF md d slot_long [OF m i(1)] cap, of dr]
  note R = ring_wf_slot_op [OF wf same publish_op [OF c i(1) d(1) pl] i _ fill]
  show "ring_wf b'" "abs_ring b' = (abs_ring b)[i := SReady (published_frame md n dr d)]"
    "dropped_count_locked b' = dropped_count_locked b1"
    using R(1,2,6) S by simp_all
  show "unchanged_but i b b'" using R(3-5,7,8) S by (simp add: unchanged_but_def)
qed

lemma publish_refines:
  assumes wf: "ring_wf b" and md: "frame_metadata_wf md" and len: "\<And>d. length (snd (copier d)) = length d"
  obtains (full) i f e where "victim (abs_ring b) i" "abs_ring b ! i = SReady f" "dropped_count_locked b = - 1"
      "publish_locked_with md copier b = (Err e, b)"
    | (published) i n d b' where "victim (abs_ring b) i" "copier (slot_payload b i) = (Ok n, d)"
      "n \<le> rc_payload_capacity (bm_config b)" "length d = rc_payload_capacity (bm_config b)"
      "publish_locked_with md copier b = (Ok (), b')" "ring_wf b'" "unchanged_but i b b'"
      "dropped_count_locked b' = dropped_count_locked b + (if abs_ring b ! i = SFree then 0 else 1)"
      "abs_ring b' = (abs_ring b)[i := SReady (published_frame md n (dropped_count_locked b') d)]"
      "planes_valid (fm_format md) (unat (fm_width md)) (unat (fm_height md)) (fm_planes md) n"
    | (failed) i r d e b' where "victim (abs_ring b) i" "copier (slot_payload b i) = (r, d)"
      "length d = rc_payload_capacity (bm_config b)"
      "publish_locked_with md copier b = (Err e, b')" "ring_wf b'" "unchanged_but i b b'"
      "abs_ring b' = (abs_ring b)[i := set_state (if abs_ring b ! i = SFree then Free else Ready) (overwritten d (bm_slot b i))]"
      "\<forall>n. r = Ok n \<longrightarrow> \<not> (n \<le> rc_payload_capacity (bm_config b)
         \<and> planes_valid (fm_format md) (unat (fm_width md)) (unat (fm_height md)) (fm_planes md) n)"
      "\<forall>e0. r = Err e0 \<longrightarrow> e = e0"
proof -
  obtain i where sel: "select_writable_slot b = Ok (Some i)" and v: "victim (abs_ring b) i"
    using select_writable_victim [OF wf] by blast
  let ?c = "bm_config b" and ?prev = "if abs_ring b ! i = SFree then Free else Ready"
  note i = victim_facts [OF v]
  note m = ring_wf_mem [OF wf]
  have c: "ring_config_wf ?c" using m by (simp add: ring_mem_wf_def)
  note st = publish_start(1) [OF wf v]
  obtain r d where cp: "copier (slot_payload b i) = (r, d)" by fastforce
  have "length (slot_payload b i) = rc_payload_capacity ?c"
    using slot_long [OF m i(1)] by simp
  with len [of "slot_payload b i"] cp have d: "length d = rc_payload_capacity ?c" by simp
  have vp: "validate_planes (fm_format md) (fm_width md) (fm_height md) (fm_planes md) n = Ok u \<longleftrightarrow>
      planes_valid (fm_format md) (unat (fm_width md)) (unat (fm_height md)) (fm_planes md) n" for n u
    by (rule validate_planes_Ok) (use md in \<open>auto simp: frame_metadata_wf_def dimensions_wf_def\<close>)
  from publish_start(2) [OF wf v] show ?thesis
  proof (elim disjE exE conjE)
    fix f e assume "abs_ring b ! i = SReady f" "dropped_count_locked b = - 1" "increment_dropped_locked b = (Err e, b)"
    then show ?thesis using full [OF v] sel st by (simp add: publish_locked_with_def)
  next
    fix b1 assume inc: "(if ?prev = Ready then increment_dropped_locked b else (Ok (), b)) = (Ok (), b1)"
      "slots_same b b1" "dropped_count_locked b1 = dropped_count_locked b + (if abs_ring b ! i = SFree then 0 else 1)"
    note steps = publish_steps [OF sel st inc(1,2) i(1), of copier r d md, OF cp d]
    let ?fail = "b1\<lparr>bm_mapping := failed_mapping ?c i ?prev d (bm_mapping b1)\<rparr>"
    have pv: "?prev = Free \<or> ?prev = Ready" by simp
    note F = failed_ring [OF wf inc(2) v d pv, of ?fail, OF refl]
    show ?thesis
    proof (cases "\<exists>n. r = Ok n \<and> n \<le> rc_payload_capacity ?c
        \<and> planes_valid (fm_format md) (unat (fm_width md)) (unat (fm_height md)) (fm_planes md) n")
      case True
      then obtain n where n: "r = Ok n" "n \<le> rc_payload_capacity ?c"
        "planes_valid (fm_format md) (unat (fm_width md)) (unat (fm_height md)) (fm_planes md) n" by blast
      let ?ok = "b1\<lparr>bm_mapping := filled_mapping ?c i md n (dropped_count_locked b1) d (bm_mapping b1)\<rparr>"
      note R = filled_ring [OF wf inc(2) v md d n(2), of ?ok, OF refl]
      have "validate_planes (fm_format md) (fm_width md) (fm_height md) (fm_planes md) n = Ok ()" using vp n(3) by simp
      then have "publish_locked_with md copier b = (Ok (), ?ok)" using steps n by (simp add: Let_def)
      then show ?thesis
        using published [OF v, of n d ?ok] cp d n R inc(3) by simp
    next
      case False
      then obtain e where "publish_locked_with md copier b = (Err e, ?fail)" "\<forall>e0. r = Err e0 \<longrightarrow> e = e0"
        using steps vp by (auto simp: Let_def split: result.splits if_splits)
      then show ?thesis using failed [OF v cp d _ F] False by simp
    qed
  qed
qed

end
