(* ===== verification/Shm_Ring_Props.thy ===== *)
theory Shm_Ring_Props
  imports Shm_Ring_Correct
begin

text \<open>
  What the frame ring promises across its two sides: the header round trip between broker and
  reader, publication followed by lease and copy, stability of a leased frame, runs of ring
  operations, and closing.
\<close>

section \<open>Reading a slot through its frame\<close>

definition config_format :: "RingConfig \<Rightarrow> PixelFormat" where
  "config_format c = PixelFormat_from (cfm_pixel_format (rc_format c))"

definition frame_metadata :: "RingConfig \<Rightarrow> Frame \<Rightarrow> FrameMetadata" where
  "frame_metadata c f = \<lparr>fm_format = config_format c, fm_width = cfm_width (rc_format c),
     fm_height = cfm_height (rc_format c), fm_sequence = fr_sequence f, fm_generation = fr_generation f,
     fm_monotonic_timestamp_ns = fr_timestamp f, fm_dropped_count = fr_dropped f, fm_planes = fr_planes f\<rparr>"

text \<open>A frame the reader accepts under the negotiated format.\<close>

definition frame_ok :: "RingConfig \<Rightarrow> Frame \<Rightarrow> bool" where
  "frame_ok c f \<longleftrightarrow> unat (fr_length f) \<le> rc_payload_capacity c \<and> (\<forall>p\<in>set (fr_planes f). pl_wf p)
     \<and> dimensions_wf (config_format c) (cfm_width (rc_format c)) (cfm_height (rc_format c))
     \<and> planes_valid (config_format c) (unat (cfm_width (rc_format c))) (unat (cfm_height (rc_format c)))
         (fr_planes f) (unat (fr_length f))"

lemma read_plane_slot:
  assumes m: "ring_mem_wf c m" and k: "k < 3" and wf: "pl_wf (plane_in (slot_bytes c i m) k)"
  shows "read_plane m (slot_base c i) k = Ok (plane_in (slot_bytes c i m) k)"
proof -
  have r: "read_u32 (slot_base c i + off) m = read_u32 off (slot_bytes c i m)" if "off + 4 \<le> 128" for off
    unfolding read_u32_def using that stride_ge [OF m] by (simp add: slot_read)
  have "56 + k * 12 + 8 + 4 \<le> 128" using k by simp
  then show ?thesis
    using PlaneLayout_new_unat [OF wf] by (simp add: read_plane_def slot_offsets r plane_in_def Let_def)
qed

lemma collect_planes:
  assumes "\<And>k. k < n \<Longrightarrow> g k = Ok (h k)"
  shows "collect_results (map g [0..<n]) = Ok (map h [0..<n])"
proof -
  have "list_all (\<lambda>k. g k = Ok (h k)) ks \<Longrightarrow> collect_results (map g ks) = Ok (map h ks)" for ks
    by (induction ks) auto
  then show ?thesis using assms by (simp add: list_all_iff)
qed

lemma planes_valid_le: "planes_valid f w h ps n \<Longrightarrow> n \<le> k \<Longrightarrow> planes_valid f w h ps k"
  by (auto simp: planes_valid_def)

lemma planes_valid_length: "planes_valid f w h ps n \<Longrightarrow> length ps \<le> 2"
  by (auto simp: planes_valid_def pl_covers_def Let_def split: PixelFormat.splits)

lemma read_frame:
  assumes m: "ring_mem_wf c m" and i: "i < rc_slot_count c" and f: "frame_in (slot_bytes c i m) = f" "frame_ok c f"
  shows "read_metadata m c i (fr_sequence f) (fr_generation f) = Ok (frame_metadata c f)"
    "read_payload_length m c i = Ok (unat (fr_length f))"
    "read_bytes (slot_base c i + 128) (unat (fr_length f)) m = fr_payload f"
proof -
  let ?sb = "slot_bytes c i m"
  note u = read_slot_u64 [OF m, of _ i]
  have c: "ring_config_wf c" using m by (simp add: ring_mem_wf_def)
  have len: "unat (read_u64 40 ?sb) = unat (fr_length f)" "unat (read_u64 48 ?sb) = length (fr_planes f)"
    using f(1) by (auto simp: frame_in_def)
  have le2: "length (fr_planes f) \<le> 2" using f(2) planes_valid_length by (auto simp: frame_ok_def)
  have planes: "fr_planes f = map (plane_in ?sb) [0..<length (fr_planes f)]"
  proof -
    have "fr_planes (frame_in ?sb) = map (plane_in ?sb) [0..<unat (read_u64 48 ?sb)]" by (simp add: frame_in_def)
    then show ?thesis using f(1) len(2) by simp
  qed
  have "read_plane m (slot_base c i) k = Ok (plane_in ?sb k)" if "k < length (fr_planes f)" for k
  proof (rule read_plane_slot [OF m])
    have "plane_in ?sb k = fr_planes f ! k" using planes that by (metis add_0 nth_map_upt diff_zero)
    then show "pl_wf (plane_in ?sb k)" using f(2) that by (simp add: frame_ok_def)
  qed (use that le2 in simp)
  then have coll: "collect_results (map (read_plane m (slot_base c i)) [0..<length (fr_planes f)]) = Ok (fr_planes f)"
    using collect_planes [of "length (fr_planes f)"] planes by metis
  have ok: "frame_metadata_wf (frame_metadata c f)"
    using f(2) c planes_valid_le unfolding frame_metadata_wf_def frame_ok_def frame_metadata_def ring_config_wf_def
    by fastforce
  have "validate_planes (config_format c) (cfm_width (rc_format c)) (cfm_height (rc_format c)) (fr_planes f)
      (unat (fr_length f)) = Ok ()"
    by (subst validate_planes_Ok) (use f(2) in \<open>auto simp: frame_ok_def dimensions_wf_def\<close>)
  moreover have "FrameMetadata_new (config_format c) (cfm_width (rc_format c)) (cfm_height (rc_format c)) (fr_sequence f)
      (fr_generation f) (fr_timestamp f) (fr_dropped f) (fr_planes f) = Ok (frame_metadata c f)"
    by (subst FrameMetadata_new_Ok) (use f(2) ok in \<open>auto simp: frame_ok_def frame_metadata_def\<close>)
  moreover have "read_u64 24 ?sb = fr_timestamp f" "read_u64 32 ?sb = fr_dropped f" using f(1) by (auto simp: frame_in_def)
  ultimately show "read_metadata m c i (fr_sequence f) (fr_generation f) = Ok (frame_metadata c f)"
    using coll le2 f(2) len
    by (simp add: read_metadata_def slot_offsets u Let_def MAX_PLANES_def frame_ok_def config_format_def)
  show "read_payload_length m c i = Ok (unat (fr_length f))"
    using f(2) len by (simp add: read_payload_length_def slot_offsets u frame_ok_def)
  have "128 + unat (fr_length f) \<le> rc_slot_stride c" using f(2) stride_ge [OF m] by (simp add: frame_ok_def)
  then have "read_bytes (slot_base c i + 128) (unat (fr_length f)) m = read_bytes 128 (unat (fr_length f)) ?sb"
    by (rule slot_read)
  also have "\<dots> = fr_payload (frame_in ?sb)" using len(1) by (simp add: frame_in_def)
  also have "\<dots> = fr_payload f" using f(1) by simp
  finally show "read_bytes (slot_base c i + 128) (unat (fr_length f)) m = fr_payload f" .
qed

text \<open>The copy of a pinned frame by a reader that has the broker's configuration.\<close>

lemma copy_pinned:
  assumes m: "ring_mem_wf (rm_config r) m" and l: "fl_slot_index l < rc_slot_count (rm_config r)"
    and s: "abs_slot (slot_bytes (rm_config r) (fl_slot_index l) m) = SPinned f" "frame_ok (rm_config r) f"
    and q: "fl_sequence l = fr_sequence f" "fl_generation l = fr_generation f"
    and r: "rm_expected_generation r = None" "rm_terminal_state m = TERMINAL_STATE_OPEN"
  shows "copy_locked r m l = Ok (Some \<lparr>cpf_metadata = frame_metadata (rm_config r) f, cpf_payload = fr_payload f\<rparr>)"
proof -
  let ?c = "rm_config r" and ?i = "fl_slot_index l"
  have f: "frame_in (slot_bytes ?c ?i m) = f" using abs_slot_frame(2) [OF s(1)] .
  have st: "state_in (slot_bytes ?c ?i m) = 3" using s(1) by (auto simp: abs_slot_def split: if_splits)
  have "rm_slot_state r m ?i = Ok Pinned"
    using st read_slot_u64 [OF m, of 0 ?i] by (simp add: rm_slot_state_def SLOT_STATE_def state_in_def)
  moreover have "rm_slot_sequence r m ?i = fr_sequence f" "rm_slot_generation r m ?i = fr_generation f"
    using f read_slot_u64 [OF m, of _ ?i]
    by (auto simp: rm_slot_sequence_def rm_slot_generation_def slot_offsets frame_in_def)
  ultimately show ?thesis
    using q r l read_frame [OF m l f s(2)]
    by (simp add: copy_locked_def Let_def rm_read_metadata_def rm_slot_payload_length_def SLOT_HEADER_BYTES_def)
qed

text \<open>A copy depends only on the bytes of the leased slot and on the terminal state.\<close>

lemma copy_locked_cong:
  assumes m: "ring_mem_wf (rm_config r) m" "ring_mem_wf (rm_config r) m'"
    and same: "slot_bytes (rm_config r) (fl_slot_index l) m = slot_bytes (rm_config r) (fl_slot_index l) m'"
      "rm_terminal_state m = rm_terminal_state m'"
  shows "copy_locked r m l = copy_locked r m' l"
proof -
  let ?c = "rm_config r" and ?i = "fl_slot_index l"
  have b: "read_bytes (slot_base ?c ?i + k) n m = read_bytes (slot_base ?c ?i + k) n m'" if "k + n \<le> rc_slot_stride ?c" for k n
    using that same(1) by (simp add: slot_read)
  have le: "128 \<le> rc_slot_stride ?c" using stride_ge [OF m(1)] by simp
  have u: "read_u64 (slot_base ?c ?i + k) m = read_u64 (slot_base ?c ?i + k) m'"
    "read_u32 (slot_base ?c ?i + k) m = read_u32 (slot_base ?c ?i + k) m'" if "k + 8 \<le> 128" for k
    using b that le by (simp_all add: read_u64_def read_u32_def)
  have p: "read_plane m (slot_base ?c ?i) k = read_plane m' (slot_base ?c ?i) k" if "k < 4" for k
    using that by (simp add: read_plane_def slot_offsets u Let_def)
  have mp: "map (read_plane m (slot_base ?c ?i)) [0..<n] = map (read_plane m' (slot_base ?c ?i)) [0..<n]" if "n \<le> 3" for n
    using p that by simp
  have md: "read_metadata m ?c ?i q g = read_metadata m' ?c ?i q g" for q g
    by (simp add: mp read_metadata_def slot_offsets u Let_def MAX_PLANES_def not_less)
  have pl: "read_payload_length m ?c ?i = read_payload_length m' ?c ?i"
    by (simp add: read_payload_length_def slot_offsets u)
  have "read_bytes (slot_base ?c ?i + 128) n m = read_bytes (slot_base ?c ?i + 128) n m'"
    if "read_payload_length m' ?c ?i = Ok n" for n
    using that stride_ge [OF m(1)] by (intro b) (auto simp: read_payload_length_def Let_def split: if_splits)
  then have pay: "and_then (read_payload_length m' ?c ?i) (\<lambda>n. Ok (Some \<lparr>cpf_metadata = x,
        cpf_payload = read_bytes (slot_base ?c ?i + 128) n m\<rparr>)) =
      and_then (read_payload_length m' ?c ?i) (\<lambda>n. Ok (Some \<lparr>cpf_metadata = x,
        cpf_payload = read_bytes (slot_base ?c ?i + 128) n m'\<rparr>))" for x
    by (cases "read_payload_length m' ?c ?i") auto
  have acc: "rm_slot_state r m ?i = rm_slot_state r m' ?i" "rm_slot_generation r m ?i = rm_slot_generation r m' ?i"
    "rm_slot_sequence r m ?i = rm_slot_sequence r m' ?i"
    unfolding rm_slot_state_def rm_slot_generation_def rm_slot_sequence_def slot_offsets by (simp_all only: u)
  show ?thesis
    unfolding copy_locked_def Let_def same(2) acc rm_read_metadata_def rm_slot_payload_length_def md pl
      SLOT_HEADER_BYTES_def pay ..
qed


section \<open>The header\<close>

definition long_header :: "mem \<Rightarrow> bool" where
  "long_header m \<longleftrightarrow> 192 \<le> length m"

lemma header_rw:
  "long_header m \<Longrightarrow> long_header (write_bytes off bs m)"
  "long_header m \<Longrightarrow> off + length bs \<le> 192 \<Longrightarrow> n = length bs \<Longrightarrow> read_bytes off n (write_bytes off bs m) = bs"
  "long_header m \<Longrightarrow> off + length bs \<le> 192 \<Longrightarrow> a + n \<le> off \<or> off + length bs \<le> a \<Longrightarrow>
     read_bytes a n (write_bytes off bs m) = read_bytes a n m"
  by (auto simp: long_header_def write_bytes_def read_bytes_def take_drop)

lemma write_header_reads:
  assumes m: "long_header (bm_mapping b)" and len: "length (identity_bytes ident) = 32" "\<And>x. length (sha256 x) = 32"
  defines "w \<equiv> bm_mapping (write_header sha256 b ident)" and "c \<equiv> bm_config b"
  shows "read_bytes 0 8 w = MAGIC" "read_u16 8 w = LAYOUT_MAJOR" "read_u16 10 w = LAYOUT_MINOR"
    "read_u64 16 w = of_nat (rc_total_length c)" "read_u64 24 w = of_nat (rc_slot_count c)"
    "read_u64 32 w = of_nat (rc_slot_stride c)" "read_u32 40 w = PixelFormat_raw (config_format c)"
    "read_u32 44 w = cfm_width (rc_format c)" "read_u32 48 w = cfm_height (rc_format c)"
    "read_u64 56 w = of_nat (rc_payload_capacity c)" "read_bytes 64 32 w = identity_bytes ident"
    "read_bytes 96 32 w = sha256 (token_bytes (md_token (bm_descriptor b)))" "read_u64 136 w = TERMINAL_STATE_OPEN"
    "192 \<le> k \<Longrightarrow> read_bytes k n w = read_bytes k n (bm_mapping b)"
    "read_u64 128 w = read_u64 128 (bm_mapping b)"
  by (simp_all add: w_def c_def write_header_def header_offsets mem_access_defs header_rw m len MAGIC_def
      config_format_def Let_def del: read_write_same read_write_before read_write_after length_write_bytes)


lemma ring_config_sizes:
  assumes "ring_config_wf c"
  shows "192 \<le> rc_total_length c" "rc_total_length c < 2 ^ 64" "rc_slot_count c < 2 ^ 64"
    "rc_slot_stride c < 2 ^ 64" "rc_payload_capacity c < 2 ^ 64"
proof -
  note s = ring_config_wf_stride [OF assms]
  have b: "4 \<le> rc_slot_count c" "rc_slot_count c \<le> 8" "rc_payload_capacity c \<le> 25165824"
    using assms by (auto simp: ring_config_wf_def camera_limits)
  have st: "rc_slot_stride c \<le> 191 + rc_payload_capacity c"
    unfolding s(1) using ring_stride_bounds(2) .
  have "rc_slot_stride c * rc_slot_count c \<le> (191 + 25165824) * 8"
    using st b by (intro mult_le_mono) auto
  then show "192 \<le> rc_total_length c" "rc_total_length c < 2 ^ 64" "rc_slot_count c < 2 ^ 64"
    "rc_slot_stride c < 2 ^ 64" "rc_payload_capacity c < 2 ^ 64"
    using b st s(2) by simp_all
qed

lemma RingConfig_new_wf: "ring_config_wf c \<Longrightarrow> RingConfig_new (rc_format c) (rc_slot_count c) (rc_payload_capacity c) = Ok c"
  by (subst RingConfig_new_Ok) (simp add: ring_config_wf_def)

lemma config_format_back:
  "(case config_format c of PfNv12 \<Rightarrow> Nv12 | PfYuyv \<Rightarrow> Yuyv | PfMjpeg \<Rightarrow> Mjpeg) = cfm_pixel_format (rc_format c)"
  by (cases "cfm_pixel_format (rc_format c)") (simp_all add: config_format_def)

text \<open>The mapping a successful creation yields, on zeroed memory as the platform provides it.\<close>

definition fresh_broker ::
  "(u8 list \<Rightarrow> u8 list) \<Rightarrow> u8 list \<Rightarrow> u8 list \<Rightarrow> u8 list \<Rightarrow> RingConfig \<Rightarrow> BrokerMapping hal_result" where
  "fresh_broker sha256 ident token name c =
     BrokerMapping_create sha256 (Ok ident) (Ok token) (Ok name) (Ok (replicate (rc_total_length c) 0)) c"

lemma length_write_header:
  assumes "long_header (bm_mapping b)" "length (identity_bytes ident) = 32" "\<And>x. length (sha256 x) = 32"
  shows "length (bm_mapping (write_header sha256 b ident)) = length (bm_mapping b)"
proof -
  have w: "length (write_bytes off bs m) = length m" if "long_header m" "off + length bs \<le> 192" for off bs m
    using that by (simp add: long_header_def)
  show ?thesis
    by (simp add: write_header_def header_offsets mem_access_defs w header_rw(1) assms MAGIC_def Let_def
        del: length_write_bytes)
qed

lemma fresh_broker_Ok:
  assumes "fresh_broker sha256 ident token name c = Ok b"
  obtains b0 where "b = write_header sha256 b0 (MappingIdentity ident)" "bm_mapping b0 = replicate (rc_total_length c) 0"
    "bm_config b0 = c" "md_identity (bm_descriptor b0) = MappingIdentity ident"
    "md_token (bm_descriptor b0) = MappingToken token" "md_total_length (bm_descriptor b0) = rc_total_length c"
    "bm_pinned b0 = None" "bm_closed b0 = False"
  using that assms by (auto simp: fresh_broker_def BrokerMapping_create_def Let_def)

lemma write_header_fields [simp]:
  "bm_config (write_header sha256 b ident) = bm_config b" "bm_descriptor (write_header sha256 b ident) = bm_descriptor b"
  "bm_pinned (write_header sha256 b ident) = bm_pinned b" "bm_closed (write_header sha256 b ident) = bm_closed b"
  by (simp_all add: write_header_def Let_def)

lemma fresh_ring_wf:
  assumes c: "ring_config_wf c" and len: "length ident = 32" "\<And>x. length (sha256 x) = 32"
    and b: "fresh_broker sha256 ident token name c = Ok b"
  shows "ring_wf b" "abs_ring b = replicate (rc_slot_count c) SFree" "bm_pinned b = None" "bm_config b = c"
    "rm_terminal_state (bm_mapping b) = TERMINAL_STATE_OPEN" "md_identity (bm_descriptor b) = MappingIdentity ident"
proof -
  obtain b0 where b0: "b = write_header sha256 b0 (MappingIdentity ident)" "bm_mapping b0 = replicate (rc_total_length c) 0"
    "bm_config b0 = c" "md_identity (bm_descriptor b0) = MappingIdentity ident" "bm_pinned b0 = None"
    using fresh_broker_Ok [OF b] by metis
  have l: "long_header (bm_mapping b0)" using ring_config_sizes(1) [OF c] b0(2) by (simp add: long_header_def)
  note reads = write_header_reads [OF l, of "MappingIdentity ident" sha256, simplified, OF len]
  show f: "bm_pinned b = None" "bm_config b = c" "md_identity (bm_descriptor b) = MappingIdentity ident"
    using b0 by simp_all
  show "rm_terminal_state (bm_mapping b) = TERMINAL_STATE_OPEN"
    using reads(13) b0(1) by (simp add: rm_terminal_state_def HEADER_TERMINAL_STATE_def)
  have mem: "ring_mem_wf c (bm_mapping b)"
    using length_write_header [OF l, of "MappingIdentity ident" sha256] len b0 c by (simp add: ring_mem_wf_def)
  have z: "state_in (bm_slot b i) = 0" if "i < rc_slot_count c" for i
  proof -
    have "read_bytes (slot_base c i) (rc_slot_stride c) (bm_mapping b) = read_bytes (slot_base c i) (rc_slot_stride c) (replicate (rc_total_length c) 0)"
      unfolding b0(1) using reads(14) b0(2) by (simp add: slot_base_def HEADER_BYTES_def)
    then have "bm_slot b i = replicate (rc_slot_stride c) 0"
      using slot_base_bounds(2) [OF c that] by (simp add: slot_bytes_def f(2) read_bytes_def min_def)
    moreover have "8 \<le> rc_slot_stride c" using stride_ge [OF mem] by simp
    ultimately show ?thesis
      by (simp add: state_in_def read_u64_def read_bytes_def min_def from_le_def numeral_eq_Suc)
  qed
  show a: "abs_ring b = replicate (rc_slot_count c) SFree"
    by (intro nth_equalityI) (use z f in \<open>auto simp: abs_ring_nth abs_slot_def\<close>)
  show "ring_wf b" using mem z f a by (auto simp: ring_wf_def pin_ok_def)
qed


section \<open>Runs of ring operations\<close>

datatype RingOp = OpPublish FrameMetadata copier | OpLease | OpRelease

fun ring_step :: "RingOp \<Rightarrow> BrokerMapping \<Rightarrow> BrokerMapping" where
  "ring_step (OpPublish metadata copier) b = snd (publish_locked_with metadata copier b)"
| "ring_step OpLease b = snd (next_frame_lease_locked b)"
| "ring_step OpRelease b = snd (release_pin_locked b)"

fun ring_op_ok :: "RingOp \<Rightarrow> bool" where
  "ring_op_ok (OpPublish metadata copier) \<longleftrightarrow> frame_metadata_wf metadata \<and> (\<forall>d. length (snd (copier d)) = length d)"
| "ring_op_ok _ \<longleftrightarrow> True"

lemma ring_step_wf:
  assumes "ring_wf b" "ring_op_ok op"
  shows "ring_wf (ring_step op b)" "bm_config (ring_step op b) = bm_config b"
    "rm_terminal_state (bm_mapping (ring_step op b)) = rm_terminal_state (bm_mapping b)"
proof -
  have "ring_wf (ring_step op b) \<and> bm_config (ring_step op b) = bm_config b
      \<and> rm_terminal_state (bm_mapping (ring_step op b)) = rm_terminal_state (bm_mapping b)"
  proof (cases op)
    case (OpPublish md cp)
    then have ok: "frame_metadata_wf md" "\<And>d. length (snd (cp d)) = length d" using assms(2) by auto
    show ?thesis
      by (cases rule: publish_refines [OF assms(1) ok]) (simp_all add: OpPublish unchanged_but_def assms(1))
  next
    case OpLease
    show ?thesis by (cases rule: lease_refines [OF assms(1)]) (simp_all add: OpLease terminal_state_header)
  next
    case OpRelease
    show ?thesis by (cases rule: release_pin_refines [OF assms(1)]) (simp_all add: OpRelease terminal_state_header)
  qed
  then show "ring_wf (ring_step op b)" "bm_config (ring_step op b) = bm_config b"
    "rm_terminal_state (bm_mapping (ring_step op b)) = rm_terminal_state (bm_mapping b)" by auto
qed

lemma ring_run_wf:
  assumes "ring_wf b" "list_all ring_op_ok ops"
  shows "ring_wf (fold ring_step ops b)" "bm_config (fold ring_step ops b) = bm_config b"
    "rm_terminal_state (bm_mapping (fold ring_step ops b)) = rm_terminal_state (bm_mapping b)"
  using assms by (induction ops arbitrary: b) (auto simp: ring_step_wf)

lemma payload_copier_length: "length (snd (payload_copier p d)) = length d"
  by (simp add: payload_copier_def)

text \<open>Publications leave the slot of the current lease alone.\<close>

lemma publish_keeps_pin:
  assumes wf: "ring_wf b" and pin: "bm_pinned b = Some l" and ok: "ring_op_ok (OpPublish md cp)"
  defines "b' \<equiv> ring_step (OpPublish md cp) b"
  shows "bm_pinned b' = Some l" "bm_slot b' (fl_slot_index l) = bm_slot b (fl_slot_index l)"
proof -
  have ok': "frame_metadata_wf md" "\<And>d. length (snd (cp d)) = length d" using ok by auto
  have p: "\<exists>f. abs_ring b ! fl_slot_index l = SPinned f" using wf pin by (auto simp: ring_wf_def pin_ok_def)
  have keep: "bm_pinned x = Some l \<and> bm_slot x (fl_slot_index l) = bm_slot b (fl_slot_index l)"
    if "victim (abs_ring b) i" "unchanged_but i b x" for i x
  proof -
    have "fl_slot_index l \<noteq> i" using victim_facts(2) [OF that(1)] p by auto
    then show ?thesis using that(2) pin unfolding unchanged_but_def by auto
  qed
  have refl: "unchanged_but i b b" for i by (simp add: unchanged_but_def)
  have "\<exists>i. victim (abs_ring b) i \<and> unchanged_but i b b'"
    by (cases rule: publish_refines [OF wf ok']) (use refl in \<open>auto simp: b'_def\<close>)
  then show "bm_pinned b' = Some l" "bm_slot b' (fl_slot_index l) = bm_slot b (fl_slot_index l)"
    using keep by blast+
qed

fun is_publish :: "RingOp \<Rightarrow> bool" where
  "is_publish (OpPublish _ _) = True"
| "is_publish _ = False"

lemma publishes_keep_pin:
  assumes "ring_wf b" "bm_pinned b = Some l" "list_all (\<lambda>op. is_publish op \<and> ring_op_ok op) ops"
  shows "bm_slot (fold ring_step ops b) (fl_slot_index l) = bm_slot b (fl_slot_index l)"
  using assms
proof (induction ops arbitrary: b)
  case (Cons op ops)
  obtain md cp where op: "op = OpPublish md cp" using Cons.prems(3) by (cases op) auto
  have ok: "ring_op_ok (OpPublish md cp)" using Cons.prems(3) op by simp
  note k = publish_keeps_pin [OF Cons.prems(1,2) ok]
  show ?case
    using Cons.IH [of "ring_step op b"] Cons.prems(3) k ring_step_wf(1) [OF Cons.prems(1) ok] op by simp
qed simp


text \<open>A publication whose payload and planes fit succeeds, unless the drop counter is exhausted.\<close>

lemma publish_succeeds:
  assumes wf: "ring_wf b" and md: "frame_metadata_wf md" and len: "length payload \<le> rc_payload_capacity (bm_config b)"
    and pl: "planes_valid (fm_format md) (unat (fm_width md)) (unat (fm_height md)) (fm_planes md) (length payload)"
    and dr: "dropped_count_locked b \<noteq> - 1"
  obtains i b' where "victim (abs_ring b) i" "publish_locked_with md (payload_copier payload) b = (Ok (), b')"
    "ring_wf b'" "unchanged_but i b b'"
    "dropped_count_locked b' = dropped_count_locked b + (if abs_ring b ! i = SFree then 0 else 1)"
    "abs_ring b' = (abs_ring b)[i := SReady (published_frame md (length payload) (dropped_count_locked b') payload)]"
proof (cases rule: publish_refines [OF wf md payload_copier_length [of payload]])
  case (1 i f e)
  then show ?thesis using dr by simp
next
  case (2 i n d b')
  have "length (slot_payload b i) = rc_payload_capacity (bm_config b)"
    using slot_long [OF ring_wf_mem [OF wf] victim_facts(1) [OF 2(1)]] by simp
  then have "n = length payload" "take n d = payload" using 2(2) len by (auto simp: payload_copier_def)
  then have "published_frame md n x d = published_frame md (length payload) x payload" for x
    by (simp add: published_frame_def)
  then show ?thesis using that [OF 2(1,5,6,7,8)] 2(9) by simp
next
  case (3 i r d e b')
  have "length (slot_payload b i) = rc_payload_capacity (bm_config b)"
    using slot_long [OF ring_wf_mem [OF wf] victim_facts(1) [OF 3(1)]] by simp
  then have "r = Ok (length payload)" using 3(2) len by (simp add: payload_copier_def)
  then show ?thesis using 3(8) len pl by simp
qed

lemma fresh_dropped:
  assumes c: "ring_config_wf c" and len: "length ident = 32" "\<And>x. length (sha256 x) = 32"
    and b: "fresh_broker sha256 ident token name c = Ok b"
  shows "dropped_count_locked b = 0"
proof -
  obtain b0 where b0: "b = write_header sha256 b0 (MappingIdentity ident)" "bm_mapping b0 = replicate (rc_total_length c) 0"
    using fresh_broker_Ok [OF b] by metis
  note s = ring_config_sizes(1) [OF c]
  have l: "long_header (bm_mapping b0)" using s b0(2) by (simp add: long_header_def)
  have "read_u64 128 (bm_mapping b) = read_u64 128 (bm_mapping b0)"
    using write_header_reads(15) [OF l, of "MappingIdentity ident" sha256, simplified, OF len] b0(1) by simp
  also have "\<dots> = 0" using s by (simp add: b0(2) read_u64_def read_bytes_def from_le_def min_def numeral_eq_Suc)
  finally show ?thesis by (simp add: dropped_count_locked_def HEADER_DROPPED_COUNT_def)
qed

section \<open>A concrete ring\<close>

definition sample_config :: RingConfig where
  "sample_config = ring_config \<lparr>cfm_pixel_format = Yuyv, cfm_width = 2, cfm_height = 2\<rparr> 4 64"

definition sample_sha :: "u8 list \<Rightarrow> u8 list" where
  "sample_sha bs = take 32 (bs @ replicate 32 0)"

definition sample_broker :: BrokerMapping where
  "sample_broker = (case fresh_broker sample_sha (replicate 32 7) (replicate 32 9) (replicate 9 1) sample_config of
     Ok b \<Rightarrow> b)"

definition sample_metadata :: "u64 \<Rightarrow> FrameMetadata" where
  "sample_metadata q = \<lparr>fm_format = PfYuyv, fm_width = 2, fm_height = 2, fm_sequence = q, fm_generation = 1,
     fm_monotonic_timestamp_ns = 123, fm_dropped_count = 0,
     fm_planes = [\<lparr>pl_offset = 0, pl_length = 8, pl_stride = 4\<rparr>]\<rparr>"

lemma sample_config_wf: "ring_config_wf sample_config"
  by (simp add: sample_config_def ring_config_wf_def ring_config_def Let_def camera_format_wf_def camera_limits
      worst_case_frame_bytes_def usize_checked_mul_def usize_max_def)

lemma sample_sha_length: "length (sample_sha bs) = 32"
  by (simp add: sample_sha_def)

lemma sample_broker_Ok:
  "fresh_broker sample_sha (replicate 32 7) (replicate 32 9) (replicate 9 1) sample_config = Ok sample_broker"
  by (simp add: sample_broker_def fresh_broker_def BrokerMapping_create_def Let_def)

lemmas sample_ring = fresh_ring_wf [OF sample_config_wf _ sample_sha_length sample_broker_Ok, simplified]
  fresh_dropped [OF sample_config_wf _ sample_sha_length sample_broker_Ok, simplified]

lemma sample_metadata_wf: "frame_metadata_wf (sample_metadata q)"
  "planes_valid PfYuyv 2 2 (fm_planes (sample_metadata q)) 8"
  by (simp_all add: sample_metadata_def frame_metadata_wf_def dimensions_wf_def pl_wf_def planes_valid_def pl_covers_def
      pl_span_def camera_limits)

lemma sample_publish:
  assumes "ring_wf b" "bm_config b = sample_config" "dropped_count_locked b \<noteq> - 1" "length payload = 8"
  obtains i b' where "victim (abs_ring b) i" "publish_locked_with (sample_metadata q) (payload_copier payload) b = (Ok (), b')"
    "ring_wf b'" "unchanged_but i b b'"
    "dropped_count_locked b' = dropped_count_locked b + (if abs_ring b ! i = SFree then 0 else 1)"
    "abs_ring b' = (abs_ring b)[i := SReady (published_frame (sample_metadata q) 8 (dropped_count_locked b') payload)]"
proof (rule publish_succeeds [OF assms(1) sample_metadata_wf(1) [of q], of payload])
  show "length payload \<le> rc_payload_capacity (bm_config b)"
    using assms by (simp add: sample_config_def ring_config_def Let_def)
  show "planes_valid (fm_format (sample_metadata q)) (unat (fm_width (sample_metadata q)))
      (unat (fm_height (sample_metadata q))) (fm_planes (sample_metadata q)) (length payload)"
    using sample_metadata_wf(2) [of q] assms(4) by (simp add: sample_metadata_def)
qed (use assms that in auto)


lemma sample_slot_count: "rc_slot_count sample_config = 4" "rc_payload_capacity sample_config = 64"
  by (simp_all add: sample_config_def ring_config_def Let_def)

lemma sample_filled:
  "k \<le> 4 \<Longrightarrow> \<exists>b. ring_wf b \<and> bm_config b = sample_config \<and> dropped_count_locked b = 0
     \<and> (\<forall>j<k. \<exists>f. abs_ring b ! j = SReady f) \<and> (\<forall>j. k \<le> j \<and> j < 4 \<longrightarrow> abs_ring b ! j = SFree)"
proof (induction k)
  case 0
  show ?case by (rule exI [of _ sample_broker]) (simp add: sample_ring sample_slot_count)
next
  case (Suc k)
  then obtain b where b: "ring_wf b" "bm_config b = sample_config" "dropped_count_locked b = 0"
    "\<forall>j<k. \<exists>f. abs_ring b ! j = SReady f" "\<forall>j. k \<le> j \<and> j < 4 \<longrightarrow> abs_ring b ! j = SFree"
    by auto
  obtain i b' where p: "victim (abs_ring b) i" "ring_wf b'" "unchanged_but i b b'"
    "dropped_count_locked b' = dropped_count_locked b + (if abs_ring b ! i = SFree then 0 else 1)"
    "abs_ring b' = (abs_ring b)[i := SReady (published_frame (sample_metadata 1) 8 (dropped_count_locked b') (replicate 8 1))]"
    by (rule sample_publish [OF b(1,2), of "replicate 8 1" 1]) (auto simp: b)
  have len: "length (abs_ring b) = 4" by (simp add: b(2) sample_slot_count)
  have free: "abs_ring b ! k = SFree" "k < 4" using b(5) Suc.prems by simp_all
  then have "SFree \<in> set (abs_ring b)" using len by (metis nth_mem)
  then have v: "abs_ring b ! i = SFree" "\<forall>j<i. abs_ring b ! j \<noteq> SFree" "i < 4"
    using p(1) len by (auto simp: victim_def)
  have "i = k"
  proof (rule linorder_cases [of i k])
    assume "i < k"
    then show ?thesis using b(4) v(1) by fastforce
  qed (use v(2) free in auto)
  then show ?case
    using p b v(1) free len by (intro exI [of _ b']) (auto simp: unchanged_but_def nth_list_update less_Suc_eq)
qed

section \<open>Properties\<close>

text \<open>
  C5. Capability check of the mapping: a reader can open a freshly created mapping exactly with a
  descriptor that carries its length and identity and a token with the same hash, and it then has the
  configuration the broker was created with.
\<close>

theorem reader_opens_iff:
  assumes "RingConfig_new format slots capacity = Ok config"
    and "length ident = 32" and "\<forall>bytes. length (sha256 bytes) = 32"
    and "fresh_broker sha256 ident token name config = Ok b"
  shows "ReadOnlyMapping_open sha256 (Ok (bm_mapping b)) d = Ok r \<longleftrightarrow>
     md_total_length d = rc_total_length config \<and> md_identity d = MappingIdentity ident
     \<and> sha256 (token_bytes (md_token d)) = sha256 token
     \<and> r = \<lparr>rm_header = \<lparr>vh_config = config, vh_identity = MappingIdentity ident\<rparr>, rm_expected_generation = None\<rparr>"
proof -
  have c: "ring_config_wf config" using assms(1) RingConfig_new_Ok by blast
  obtain b0 where b0: "b = write_header sha256 b0 (MappingIdentity ident)" "bm_mapping b0 = replicate (rc_total_length config) 0"
    "bm_config b0 = config" "md_token (bm_descriptor b0) = MappingToken token"
    using fresh_broker_Ok [OF assms(4)] by metis
  note sz = ring_config_sizes [OF c]
  have l: "long_header (bm_mapping b0)" using sz(1) b0(2) by (simp add: long_header_def)
  have h: "\<And>bytes. length (sha256 bytes) = 32" using assms(3) by simp
  note reads = write_header_reads(1-12) [OF l, of "MappingIdentity ident" sha256, simplified MappingIdentity.sel, OF assms(2) h, folded b0(1), unfolded b0(3,4) MappingToken.sel]
  have n: "unat (of_nat k :: u64) = k" if "k < 2 ^ 64" for k using that by (simp add: unat_of_nat)
  note ns = sz(2-5) [THEN n]
  have lm: "length MAGIC = 8" by (simp add: MAGIC_def)
  have pf: "PixelFormat_try_from (PixelFormat_raw (config_format config)) = Ok (config_format config)" by simp
  have f: "CameraFormat_new (cfm_pixel_format (rc_format config)) (cfm_width (rc_format config)) (cfm_height (rc_format config))
      = Ok (rc_format config)"
    using c by (simp add: ring_config_wf_def)
  have "validate_header sha256 (bm_mapping b) (md_total_length d) d =
     (if rc_total_length config \<noteq> md_total_length d then
        Err (shm_invalid ''shared_memory.open'' ''mapping total length does not match its descriptor'')
      else if ident \<noteq> identity_bytes (md_identity d) \<or> sha256 token \<noteq> sha256 (token_bytes (md_token d)) then
        Err (shm_invalid ''shared_memory.open'' ''mapping session identity or capability token does not match'')
      else Ok \<lparr>vh_config = config, vh_identity = md_identity d\<rparr>)"
    using f RingConfig_new_wf [OF c]
    by (simp add: validate_header_def header_offsets Let_def ns lm reads pf config_format_back del: CameraFormat_new_Ok)
  moreover have "ident = identity_bytes (md_identity d) \<longleftrightarrow> md_identity d = MappingIdentity ident"
    by (cases "md_identity d") auto
  ultimately show ?thesis by (auto simp: ReadOnlyMapping_open_def)
qed

lemma reader_opens_iff_witness:
  "ReadOnlyMapping_open sample_sha (Ok (bm_mapping sample_broker))
     \<lparr>md_name = ''x'', md_identity = MappingIdentity (replicate 32 7), md_token = MappingToken (replicate 32 9),
      md_total_length = 960\<rparr>
   = Ok \<lparr>rm_header = \<lparr>vh_config = sample_config, vh_identity = MappingIdentity (replicate 32 7)\<rparr>,
        rm_expected_generation = None\<rparr>
   \<and> \<not> is_ok (ReadOnlyMapping_open sample_sha (Ok (bm_mapping sample_broker))
     \<lparr>md_name = ''x'', md_identity = MappingIdentity (replicate 32 7), md_token = MappingToken (replicate 32 8),
      md_total_length = 960\<rparr>)"
proof -
  have n: "RingConfig_new \<lparr>cfm_pixel_format = Yuyv, cfm_width = 2, cfm_height = 2\<rparr> 4 64 = Ok sample_config"
    using RingConfig_new_wf [OF sample_config_wf] by (simp add: sample_config_def ring_config_def Let_def)
  note open_iff = reader_opens_iff [OF n _ _ sample_broker_Ok, simplified, OF allI, OF sample_sha_length]
  have t: "rc_total_length sample_config = 960" by (simp add: sample_config_def ring_config_def Let_def shm_limits)
  show ?thesis by (simp add: is_ok_iff open_iff t sample_sha_def numeral_eq_Suc)
qed


text \<open>
  C3. Refinement of the lease operation: on a well-formed ring, taking the next lease frees the
  previously leased slot and pins the ready frame of the largest sequence number, or reports that no
  frame is ready; nothing else changes, and it never fails.
\<close>

theorem lease_takes_newest:
  assumes "ring_wf b"
  shows "(fst (next_frame_lease_locked b) = Ok None \<and> no_ready (abs_ring b)
        \<and> abs_ring (snd (next_frame_lease_locked b)) = map unpin (abs_ring b))
     \<or> (\<exists>l f. fst (next_frame_lease_locked b) = Ok (Some l) \<and> newest (abs_ring b) (fl_slot_index l) f
        \<and> fl_sequence l = fr_sequence f \<and> fl_generation l = fr_generation f
        \<and> abs_ring (snd (next_frame_lease_locked b)) = (map unpin (abs_ring b))[fl_slot_index l := SPinned f])"
  by (cases rule: lease_refines [OF assms]) auto

lemma lease_takes_newest_witness:
  "fst (next_frame_lease_locked sample_broker) = Ok None"
proof -
  have "\<not> newest (abs_ring sample_broker) i f" for i f by (simp add: sample_ring newest_def)
  then show ?thesis using lease_takes_newest [OF sample_ring(1)] by blast
qed

text \<open>
  C4. Invariant of runs: starting from a freshly created mapping, after any sequence of publications
  (successful or not), leases and releases the ring is well formed: no slot is left half written,
  only the slot of the current lease is pinned, and a slot that is not pinned is always available to
  the next publication.
\<close>

theorem ring_run_invariant:
  assumes "RingConfig_new format slots capacity = Ok config"
    and "length ident = 32" and "\<forall>bytes. length (sha256 bytes) = 32"
    and "fresh_broker sha256 ident token name config = Ok b" and "list_all ring_op_ok ops"
  shows "ring_wf (fold ring_step ops b)
     \<and> (\<exists>i. select_writable_slot (fold ring_step ops b) = Ok (Some i)
          \<and> (\<forall>f. abs_ring (fold ring_step ops b) ! i \<noteq> SPinned f))"
proof -
  have c: "ring_config_wf config" using assms(1) RingConfig_new_Ok by blast
  have h: "\<And>bytes. length (sha256 bytes) = 32" using assms(3) by simp
  have wf: "ring_wf (fold ring_step ops b)"
    by (rule ring_run_wf(1) [OF fresh_ring_wf(1) [OF c assms(2) h assms(4)] assms(5)])
  obtain i where "select_writable_slot (fold ring_step ops b) = Ok (Some i)" "victim (abs_ring (fold ring_step ops b)) i"
    using select_writable_victim [OF wf] by blast
  with wf show ?thesis using victim_facts(2) by blast
qed

lemma ring_run_invariant_witness:
  "ring_wf (fold ring_step [OpPublish (sample_metadata 1) (payload_copier [1, 2]), OpLease, OpLease,
      OpPublish (sample_metadata 2) (payload_copier (replicate 8 3)), OpRelease] sample_broker)"
proof -
  have n: "RingConfig_new \<lparr>cfm_pixel_format = Yuyv, cfm_width = 2, cfm_height = 2\<rparr> 4 64 = Ok sample_config"
    using RingConfig_new_wf [OF sample_config_wf] by (simp add: sample_config_def ring_config_def Let_def)
  have "ring_op_ok (OpPublish (sample_metadata q) (payload_copier p))" for q p
    by (simp add: sample_metadata_wf payload_copier_length)
  then show ?thesis
    using ring_run_invariant [OF n _ _ sample_broker_Ok, of "[OpPublish (sample_metadata 1) (payload_copier [1, 2]),
        OpLease, OpLease, OpPublish (sample_metadata 2) (payload_copier (replicate 8 3)), OpRelease]"] sample_sha_length
    by (simp del: ring_step.simps ring_op_ok.simps(1))
qed

text \<open>
  C1. A frame travels unchanged: publishing a frame whose sequence is the newest, leasing it and copying
  it through the reader's side gives exactly the published metadata (with the broker's drop counter) and
  the published payload bytes.
\<close>

theorem publish_lease_copy:
  assumes "ring_wf b" and "frame_metadata_wf md"
    and "fm_format md = config_format (bm_config b)" and "fm_width md = cfm_width (rc_format (bm_config b))"
    and "fm_height md = cfm_height (rc_format (bm_config b))"
    and "length payload \<le> rc_payload_capacity (bm_config b)"
    and "planes_valid (fm_format md) (unat (fm_width md)) (unat (fm_height md)) (fm_planes md) (length payload)"
    and "\<forall>f. SReady f \<in> set (abs_ring b) \<longrightarrow> fr_sequence f < fm_sequence md"
    and "dropped_count_locked b \<noteq> - 1" and "rm_terminal_state (bm_mapping b) = TERMINAL_STATE_OPEN"
    and "vh_config (rm_header r) = bm_config b" and "rm_expected_generation r = None"
  shows "\<exists>b1 lease b2. publish_locked_with md (payload_copier payload) b = (Ok (), b1)
     \<and> next_frame_lease_locked b1 = (Ok (Some lease), b2)
     \<and> copy_locked r (bm_mapping b2) lease =
         Ok (Some \<lparr>cpf_metadata = md\<lparr>fm_dropped_count := dropped_count_locked b1\<rparr>, cpf_payload = payload\<rparr>)"
proof -
  obtain i b1 where p: "victim (abs_ring b) i" "publish_locked_with md (payload_copier payload) b = (Ok (), b1)"
    "ring_wf b1" "unchanged_but i b b1"
    "abs_ring b1 = (abs_ring b)[i := SReady (published_frame md (length payload) (dropped_count_locked b1) payload)]"
    by (rule publish_succeeds [OF assms(1,2,6,7,9)])
  let ?f = "published_frame md (length payload) (dropped_count_locked b1) payload" and ?c = "bm_config b"
  have i: "i < rc_slot_count ?c" using victim_facts(1) [OF p(1)] .
  have u: "bm_config b1 = ?c" "rm_terminal_state (bm_mapping b1) = TERMINAL_STATE_OPEN"
    using p(4) assms(10) by (auto simp: unchanged_but_def)
  have c: "ring_config_wf ?c" using ring_wf_mem [OF assms(1)] by (simp add: ring_mem_wf_def)
  have ln: "unat (of_nat (length payload) :: u64) = length payload"
    using assms(6) ring_config_sizes(5) [OF c] by (simp add: unat_of_nat)
  have ok: "frame_ok ?c ?f"
    using assms(2-7) ln by (auto simp: frame_ok_def published_frame_def frame_metadata_wf_def)
  have new: "newest (abs_ring b1) j g \<longleftrightarrow> j = i \<and> g = ?f" for j g
  proof -
    have r: "fr_sequence g < fm_sequence md" if "abs_ring b ! k = SReady g" "k < rc_slot_count ?c" for k g
      using assms(8) that by (metis length_abs_ring nth_mem)
    show ?thesis
      using r i unfolding newest_def p(5)
      by (auto simp: nth_list_update published_frame_def less_imp_le) (metis not_less)
  qed
  show ?thesis
  proof (cases rule: lease_refines [OF p(3)])
    case (1 b2)
    have "SReady ?f \<in> set (abs_ring b1)" unfolding p(5) using i by (simp add: set_update_memI)
    then show ?thesis using 1(3) by (auto simp: no_ready_def)
  next
    case (2 b2 j g l)
    then have jg: "j = i" "g = ?f" using new by auto
    have "abs_ring b2 ! i = SPinned ?f" unfolding 2(5) jg using i u(1) by simp
    then have a: "abs_slot (slot_bytes ?c i (bm_mapping b2)) = SPinned ?f"
      using abs_ring_nth [of i b2] i 2(6) u(1) by simp
    have t: "rm_terminal_state (bm_mapping b2) = TERMINAL_STATE_OPEN" using 2(9) u(2) by (simp add: terminal_state_header)
    have "copy_locked r (bm_mapping b2) l = Ok (Some \<lparr>cpf_metadata = frame_metadata (rm_config r) ?f,
        cpf_payload = fr_payload ?f\<rparr>)"
      by (rule copy_pinned) (use ring_wf_mem [OF 2(2)] 2(4,6) u(1) i a ok t assms(11,12) jg in simp_all)
    moreover have "frame_metadata (rm_config r) ?f = md\<lparr>fm_dropped_count := dropped_count_locked b1\<rparr>"
      using assms(3-5,11) by (simp add: frame_metadata_def published_frame_def)
    ultimately show ?thesis using p(2) 2(1) by (auto simp: published_frame_def)
  qed
qed


definition sample_reader :: ReadOnlyMapping where
  "sample_reader = \<lparr>rm_header = \<lparr>vh_config = sample_config, vh_identity = MappingIdentity (replicate 32 7)\<rparr>,
     rm_expected_generation = None\<rparr>"

lemma publish_lease_copy_witness:
  "\<exists>b1 lease b2. publish_locked_with (sample_metadata 5) (payload_copier [1, 2, 3, 4, 5, 6, 7, 8]) sample_broker = (Ok (), b1)
     \<and> next_frame_lease_locked b1 = (Ok (Some lease), b2)
     \<and> copy_locked sample_reader (bm_mapping b2) lease = Ok (Some
          \<lparr>cpf_metadata = (sample_metadata 5)\<lparr>fm_dropped_count := dropped_count_locked b1\<rparr>,
           cpf_payload = [1, 2, 3, 4, 5, 6, 7, 8]\<rparr>)"
proof (rule publish_lease_copy [OF sample_ring(1) sample_metadata_wf(1)])
  have l8: "length [1, 2, 3, 4, 5, 6, 7, 8 :: u8] = 8" by simp
  show "planes_valid (fm_format (sample_metadata 5)) (unat (fm_width (sample_metadata 5)))
      (unat (fm_height (sample_metadata 5))) (fm_planes (sample_metadata 5)) (length [1, 2, 3, 4, 5, 6, 7, 8 :: u8])"
    unfolding l8 using sample_metadata_wf(2) [of 5] by (simp add: sample_metadata_def)
qed (simp_all add: sample_ring sample_metadata_def sample_config_def ring_config_def config_format_def Let_def
    sample_reader_def)

text \<open>
  C2. A leased frame is stable: whatever publications follow the lease, succeeding or failing, a copy
  through the reader's side gives what it would have given right after the lease.
\<close>

theorem leased_frame_stable:
  assumes "ring_wf b" and "next_frame_lease_locked b = (Ok (Some l), b1)"
    and "list_all (\<lambda>op. is_publish op \<and> ring_op_ok op) ops" and "vh_config (rm_header r) = bm_config b"
  shows "copy_locked r (bm_mapping (fold ring_step ops b1)) l = copy_locked r (bm_mapping b1) l"
proof -
  have b1: "ring_wf b1" "bm_pinned b1 = Some l" "bm_config b1 = bm_config b"
    by (cases rule: lease_refines [OF assms(1)], use assms(2) in auto)+
  have ok: "list_all ring_op_ok ops" using assms(3) by (auto simp: list_all_iff)
  note w = ring_run_wf [OF b1(1) ok]
  have "bm_slot (fold ring_step ops b1) (fl_slot_index l) = bm_slot b1 (fl_slot_index l)"
    by (rule publishes_keep_pin [OF b1(1,2) assms(3)])
  then show ?thesis
    using ring_wf_mem [OF w(1)] ring_wf_mem [OF b1(1)] w(2,3) b1(3) assms(4)
    by (intro copy_locked_cong) simp_all
qed

lemma leased_frame_stable_witness:
  "\<exists>b l b1. next_frame_lease_locked b = (Ok (Some l), b1) \<and> fl_sequence l = 5
     \<and> copy_locked sample_reader (bm_mapping (snd (publish_locked_with (sample_metadata 9)
          (payload_copier (replicate 8 4)) b1))) l = copy_locked sample_reader (bm_mapping b1) l"
proof -
  obtain i b where b: "ring_wf b" "unchanged_but i sample_broker b" "victim (abs_ring sample_broker) i"
    "abs_ring b = (abs_ring sample_broker)[i := SReady (published_frame (sample_metadata 5) 8 (dropped_count_locked b) (replicate 8 1))]"
    by (rule sample_publish [OF sample_ring(1), of "replicate 8 1" 5]) (auto simp: sample_ring)
  have c: "bm_config b = sample_config" using b(2) by (simp add: unchanged_but_def sample_ring)
  have i: "i < 4" using victim_facts(1) [OF b(3)] by (simp add: sample_ring sample_config_def ring_config_def Let_def)
  have n4: "rc_slot_count sample_config = 4" by (simp add: sample_config_def ring_config_def Let_def)
  have "\<exists>l b1. next_frame_lease_locked b = (Ok (Some l), b1) \<and> fl_sequence l = 5"
  proof (cases rule: lease_refines [OF b(1)])
    case (1 b1)
    have "SReady (published_frame (sample_metadata 5) 8 (dropped_count_locked b) (replicate 8 1)) \<in> set (abs_ring b)"
      unfolding b(4) by (rule set_update_memI) (use i in \<open>simp add: sample_ring n4\<close>)
    then show ?thesis using 1(3) by (auto simp: no_ready_def)
  next
    case (2 b1 j f l)
    then have "f = published_frame (sample_metadata 5) 8 (dropped_count_locked b) (replicate 8 1)"
      by (cases "j = i") (auto simp: newest_def b(4) sample_ring n4 nth_list_update)
    then show ?thesis using 2(1,4) by (simp add: published_frame_def sample_metadata_def)
  qed
  then obtain l b1 where l: "next_frame_lease_locked b = (Ok (Some l), b1)" "fl_sequence l = 5" by blast
  have "copy_locked sample_reader (bm_mapping (fold ring_step
      [OpPublish (sample_metadata 9) (payload_copier (replicate 8 4))] b1)) l = copy_locked sample_reader (bm_mapping b1) l"
    by (rule leased_frame_stable [OF b(1) l(1)])
      (simp_all add: sample_metadata_wf payload_copier_length sample_reader_def c)
  then show ?thesis using l by auto
qed

text \<open>
  C34. Closing: however often the lock was found taken, once it is granted the close succeeds (when unlock
  and unlink succeed), the broker is closed, and from then on no reader obtains a frame from the mapping.
\<close>

theorem close_ends_copies:
  assumes "ring_mem_wf (bm_config b) (bm_mapping b)" and "\<not> bm_closed b"
    and "\<forall>a\<in>set busy. \<exists>text. a = Err (WouldBlock text)"
  shows "\<exists>b'. close_mapping (busy @ [Ok ()]) (Ok ()) (Ok ()) b = Some (Ok (), b') \<and> bm_closed b'
     \<and> (\<forall>r lease. copy_locked r (bm_mapping b') lease = Ok None)"
proof -
  have "close_wait (busy @ [Ok ()]) = Some (Ok ())"
    using assms(3) by (induction busy) auto
  moreover have "read_u64 136 (write_u64 136 TERMINAL_STATE_CLOSED (bm_mapping b)) = TERMINAL_STATE_CLOSED"
    using assms(1) by (simp add: read_u64_def write_u64_def ring_mem_wf_def ring_config_wf_stride)
  ultimately show ?thesis
    using assms(2)
    by (simp add: close_mapping_def io_check_def copy_locked_def rm_terminal_state_def HEADER_TERMINAL_STATE_def
        TERMINAL_STATE_OPEN_def TERMINAL_STATE_CLOSED_def)
qed

lemma close_ends_copies_witness:
  "\<exists>b'. close_mapping ([Err (WouldBlock ''busy''), Err (WouldBlock ''busy'')] @ [Ok ()]) (Ok ()) (Ok ()) sample_broker
       = Some (Ok (), b') \<and> bm_closed b' \<and> (\<forall>r lease. copy_locked r (bm_mapping b') lease = Ok None)"
proof (rule close_ends_copies)
  show "ring_mem_wf (bm_config sample_broker) (bm_mapping sample_broker)" using ring_wf_mem [OF sample_ring(1)] .
  show "\<not> bm_closed sample_broker"
    by (simp add: sample_broker_def fresh_broker_def BrokerMapping_create_def Let_def)
qed simp


text \<open>
  C37. A failed publication can damage a committed frame: when no slot is free, a copier that fails after
  having written leaves the oldest ready frame published under its old sequence and generation, with the
  bytes the failed copier wrote.
\<close>

theorem failed_publish_overwrites_ready_frame:
  assumes "ring_wf b" and "frame_metadata_wf md" and "SFree \<notin> set (abs_ring b)"
    and "dropped_count_locked b \<noteq> - 1" and "\<forall>d. length (snd (copier d)) = length d"
    and "\<forall>d. length d = rc_payload_capacity (bm_config b) \<longrightarrow> copier d = (Err e, written)"
  shows "\<exists>i f f' b'. oldest (abs_ring b) i f \<and> publish_locked_with md copier b = (Err e, b')
     \<and> abs_ring b' = (abs_ring b)[i := SReady f'] \<and> fr_sequence f' = fr_sequence f
     \<and> fr_generation f' = fr_generation f
     \<and> (unat (fr_length f) \<le> rc_payload_capacity (bm_config b) \<longrightarrow>
          fr_payload f' = take (unat (fr_length f)) written)"
proof -
  have len: "\<And>d. length (snd (copier d)) = length d" using assms(5) by simp
  have cp: "copier (slot_payload b i) = (Err e, written)" if "victim (abs_ring b) i" for i
    using assms(6) slot_long [OF ring_wf_mem [OF assms(1)] victim_facts(1) [OF that]] by simp
  have old: "\<exists>f. oldest (abs_ring b) i f" if "victim (abs_ring b) i" for i
    using that assms(3) unfolding victim_def by (metis nth_mem)
  obtain i d b' where p: "victim (abs_ring b) i" "copier (slot_payload b i) = (Err e, d)"
      "length d = rc_payload_capacity (bm_config b)" "publish_locked_with md copier b = (Err e, b')"
      "abs_ring b' = (abs_ring b)[i := set_state (if abs_ring b ! i = SFree then Free else Ready) (overwritten d (bm_slot b i))]"
    by (cases rule: publish_refines [OF assms(1,2) len]) (use cp assms(4) in auto)
  then have d: "d = written" using cp by simp
  obtain f where f: "oldest (abs_ring b) i f" using old [OF p(1)] by blast
  then have s: "abs_slot (bm_slot b i) = SReady f" and i: "i < rc_slot_count (bm_config b)"
    by (auto simp: oldest_def abs_ring_nth)
  have fr: "frame_in (bm_slot b i) = f" using abs_slot_frame(1) [OF s] .
  have "128 + length d \<le> length (bm_slot b i)" using slot_long [OF ring_wf_mem [OF assms(1)] i] p(3) by simp
  note o = overwritten_fields [OF this, unfolded fr]
  have L: "read_u64 40 (bm_slot b i) = fr_length f" using fr by (auto simp: frame_in_def)
  have "abs_ring b' = (abs_ring b)[i := SReady (overwritten written (bm_slot b i))]"
    using p(5) s i d by (simp add: abs_ring_nth)
  then show ?thesis using f p(3,4) o d L by metis
qed


lemma failed_publish_overwrites_ready_frame_witness:
  "\<exists>b i f f' b'. oldest (abs_ring b) i f
     \<and> publish_locked_with (sample_metadata 9) (\<lambda>d. (Err (shm_invalid ''x'' ''y''), replicate (length d) 77)) b
         = (Err (shm_invalid ''x'' ''y''), b')
     \<and> abs_ring b' = (abs_ring b)[i := SReady f'] \<and> fr_sequence f' = fr_sequence f"
proof -
  obtain b where b: "ring_wf b" "bm_config b = sample_config" "dropped_count_locked b = 0"
    "\<forall>j<4. \<exists>f. abs_ring b ! j = SReady f" using sample_filled [of 4] by auto
  have "SFree \<notin> set (abs_ring b)"
    using b(4) by (auto simp: in_set_conv_nth b(2) sample_slot_count)
  then have "\<exists>i f f' b'. oldest (abs_ring b) i f
     \<and> publish_locked_with (sample_metadata 9) (\<lambda>d. (Err (shm_invalid ''x'' ''y''), replicate (length d) 77)) b
         = (Err (shm_invalid ''x'' ''y''), b')
     \<and> abs_ring b' = (abs_ring b)[i := SReady f'] \<and> fr_sequence f' = fr_sequence f \<and> fr_generation f' = fr_generation f
     \<and> (unat (fr_length f) \<le> rc_payload_capacity (bm_config b) \<longrightarrow>
          fr_payload f' = take (unat (fr_length f)) (replicate 64 77))"
    by (intro failed_publish_overwrites_ready_frame b(1) sample_metadata_wf(1)) (simp_all add: b sample_slot_count)
  then show ?thesis by blast
qed

end
