(* ===== verification/Wire_Messages.thy ===== *)
theory Wire_Messages
  imports Hal_Devices Hal_Can
begin

text \<open>
  The messages of \<open>src/proto/seeed/hal/v1/hal.proto\<close> that the conversions of
  \<open>src/crates/robot-hal-protocol\<close> read and write. An enum field of a received message is a
  32-bit number that need not name a variant; each enum has the table of its numbers, from which
  both directions of the conversion are computed. A message field of message type may be absent
  and is an option; a \<open>map\<close> field is an association list in no particular order.
\<close>

section \<open>Enumerations\<close>

datatype v1_UsbTransferKind =
    USB_TRANSFER_KIND_UNSPECIFIED | USB_TRANSFER_KIND_CONTROL_OUT | USB_TRANSFER_KIND_CONTROL_IN
  | USB_TRANSFER_KIND_BULK_OUT | USB_TRANSFER_KIND_BULK_IN | USB_TRANSFER_KIND_INTERRUPT_OUT
  | USB_TRANSFER_KIND_INTERRUPT_IN

datatype v1_GpioBias =
    GPIO_BIAS_UNSPECIFIED | GPIO_BIAS_DISABLED | GPIO_BIAS_PULL_UP | GPIO_BIAS_PULL_DOWN

datatype v1_GpioDrive =
    GPIO_DRIVE_UNSPECIFIED | GPIO_DRIVE_PUSH_PULL | GPIO_DRIVE_OPEN_DRAIN
  | GPIO_DRIVE_OPEN_SOURCE

datatype v1_GpioDirection =
    GPIO_DIRECTION_UNSPECIFIED | GPIO_DIRECTION_INPUT | GPIO_DIRECTION_OUTPUT

datatype v1_GpioEdge =
    GPIO_EDGE_UNSPECIFIED | GPIO_EDGE_RISING | GPIO_EDGE_FALLING

datatype v1_IdentityQuality =
    IDENTITY_QUALITY_UNSPECIFIED | IDENTITY_QUALITY_WEAK | IDENTITY_QUALITY_MEDIUM
  | IDENTITY_QUALITY_STRONG

datatype v1_TransportKind =
    TRANSPORT_KIND_UNSPECIFIED | TRANSPORT_KIND_SERIAL | TRANSPORT_KIND_CAN | TRANSPORT_KIND_USB
  | TRANSPORT_KIND_GPIO | TRANSPORT_KIND_CAMERA

datatype v1_CameraPixelFormat =
    CAMERA_PIXEL_FORMAT_UNSPECIFIED | CAMERA_PIXEL_FORMAT_NV12 | CAMERA_PIXEL_FORMAT_YUYV
  | CAMERA_PIXEL_FORMAT_MJPEG

datatype v1_CameraControlKind =
    CAMERA_CONTROL_KIND_UNSPECIFIED | CAMERA_CONTROL_KIND_EXPOSURE | CAMERA_CONTROL_KIND_GAIN
  | CAMERA_CONTROL_KIND_WHITE_BALANCE | CAMERA_CONTROL_KIND_FOCUS

datatype v1_DataBits =
    DATA_BITS_UNSPECIFIED | DATA_BITS_FIVE | DATA_BITS_SIX | DATA_BITS_SEVEN | DATA_BITS_EIGHT

datatype v1_Parity =
    PARITY_UNSPECIFIED | PARITY_NONE | PARITY_ODD | PARITY_EVEN

datatype v1_StopBits =
    STOP_BITS_UNSPECIFIED | STOP_BITS_ONE | STOP_BITS_TWO

datatype v1_FlowControl =
    FLOW_CONTROL_UNSPECIFIED | FLOW_CONTROL_NONE | FLOW_CONTROL_SOFTWARE | FLOW_CONTROL_HARDWARE

datatype v1_LeaseMode =
    LEASE_MODE_UNSPECIFIED | LEASE_MODE_OBSERVE | LEASE_MODE_CONTROL | LEASE_MODE_MAINTENANCE

datatype v1_CanIdFormat =
    CAN_ID_FORMAT_UNSPECIFIED | CAN_ID_FORMAT_STANDARD | CAN_ID_FORMAT_EXTENDED
  | CAN_ID_FORMAT_EITHER

datatype v1_CanFrameKind =
    CAN_FRAME_KIND_UNSPECIFIED | CAN_FRAME_KIND_CLASSIC_DATA | CAN_FRAME_KIND_CLASSIC_REMOTE
  | CAN_FRAME_KIND_FD_DATA | CAN_FRAME_KIND_ERROR

datatype v1_CanErrorClass =
    CAN_ERROR_CLASS_UNSPECIFIED | CAN_ERROR_CLASS_TX_TIMEOUT | CAN_ERROR_CLASS_LOST_ARBITRATION
  | CAN_ERROR_CLASS_CONTROLLER | CAN_ERROR_CLASS_PROTOCOL | CAN_ERROR_CLASS_TRANSCEIVER
  | CAN_ERROR_CLASS_NO_ACKNOWLEDGEMENT | CAN_ERROR_CLASS_BUS_OFF | CAN_ERROR_CLASS_BUS_ERROR
  | CAN_ERROR_CLASS_RESTARTED | CAN_ERROR_CLASS_OTHER

datatype v1_CanTimestampSource =
    CAN_TIMESTAMP_SOURCE_UNSPECIFIED | CAN_TIMESTAMP_SOURCE_HARDWARE
  | CAN_TIMESTAMP_SOURCE_KERNEL | CAN_TIMESTAMP_SOURCE_HOST_MONOTONIC

datatype v1_CanMode =
    CAN_MODE_UNSPECIFIED | CAN_MODE_CLASSIC | CAN_MODE_FD

datatype v1_CanBusState =
    CAN_BUS_STATE_UNSPECIFIED | CAN_BUS_STATE_ACTIVE | CAN_BUS_STATE_WARNING
  | CAN_BUS_STATE_PASSIVE | CAN_BUS_STATE_BUS_OFF | CAN_BUS_STATE_STOPPED
  | CAN_BUS_STATE_UNKNOWN

datatype v1_RuntimeEventKind =
    RUNTIME_EVENT_KIND_UNSPECIFIED | RUNTIME_EVENT_KIND_SESSION_OPENED
  | RUNTIME_EVENT_KIND_SESSION_CLOSED | RUNTIME_EVENT_KIND_CAN_BUS_ACTIVE
  | RUNTIME_EVENT_KIND_CAN_BUS_WARNING | RUNTIME_EVENT_KIND_CAN_BUS_PASSIVE
  | RUNTIME_EVENT_KIND_CAN_BUS_OFF | RUNTIME_EVENT_KIND_CAN_BUS_STOPPED
  | RUNTIME_EVENT_KIND_CAN_BUS_UNKNOWN

datatype v1_ErrorCategory =
    ERROR_CATEGORY_UNSPECIFIED | ERROR_CATEGORY_INVALID_ARGUMENT | ERROR_CATEGORY_NOT_FOUND
  | ERROR_CATEGORY_CONFLICT | ERROR_CATEGORY_UNAVAILABLE | ERROR_CATEGORY_INTERNAL


definition UsbTransferKind_numbers :: "(i32 \<times> v1_UsbTransferKind) list" where
  "UsbTransferKind_numbers =
     [(0, USB_TRANSFER_KIND_UNSPECIFIED), (1, USB_TRANSFER_KIND_CONTROL_OUT)
      , (2, USB_TRANSFER_KIND_CONTROL_IN), (3, USB_TRANSFER_KIND_BULK_OUT)
      , (4, USB_TRANSFER_KIND_BULK_IN), (5, USB_TRANSFER_KIND_INTERRUPT_OUT)
      , (6, USB_TRANSFER_KIND_INTERRUPT_IN)]"

definition GpioBias_numbers :: "(i32 \<times> v1_GpioBias) list" where
  "GpioBias_numbers =
     [(0, GPIO_BIAS_UNSPECIFIED), (1, GPIO_BIAS_DISABLED), (2, GPIO_BIAS_PULL_UP)
      , (3, GPIO_BIAS_PULL_DOWN)]"

definition GpioDrive_numbers :: "(i32 \<times> v1_GpioDrive) list" where
  "GpioDrive_numbers =
     [(0, GPIO_DRIVE_UNSPECIFIED), (1, GPIO_DRIVE_PUSH_PULL), (2, GPIO_DRIVE_OPEN_DRAIN)
      , (3, GPIO_DRIVE_OPEN_SOURCE)]"

definition GpioDirection_numbers :: "(i32 \<times> v1_GpioDirection) list" where
  "GpioDirection_numbers =
     [(0, GPIO_DIRECTION_UNSPECIFIED), (1, GPIO_DIRECTION_INPUT), (2, GPIO_DIRECTION_OUTPUT)]"

definition GpioEdge_numbers :: "(i32 \<times> v1_GpioEdge) list" where
  "GpioEdge_numbers =
     [(0, GPIO_EDGE_UNSPECIFIED), (1, GPIO_EDGE_RISING), (2, GPIO_EDGE_FALLING)]"

definition IdentityQuality_numbers :: "(i32 \<times> v1_IdentityQuality) list" where
  "IdentityQuality_numbers =
     [(0, IDENTITY_QUALITY_UNSPECIFIED), (1, IDENTITY_QUALITY_WEAK)
      , (2, IDENTITY_QUALITY_MEDIUM), (3, IDENTITY_QUALITY_STRONG)]"

definition TransportKind_numbers :: "(i32 \<times> v1_TransportKind) list" where
  "TransportKind_numbers =
     [(0, TRANSPORT_KIND_UNSPECIFIED), (1, TRANSPORT_KIND_SERIAL), (2, TRANSPORT_KIND_CAN)
      , (3, TRANSPORT_KIND_USB), (4, TRANSPORT_KIND_GPIO), (5, TRANSPORT_KIND_CAMERA)]"

definition CameraPixelFormat_numbers :: "(i32 \<times> v1_CameraPixelFormat) list" where
  "CameraPixelFormat_numbers =
     [(0, CAMERA_PIXEL_FORMAT_UNSPECIFIED), (1, CAMERA_PIXEL_FORMAT_NV12)
      , (2, CAMERA_PIXEL_FORMAT_YUYV), (3, CAMERA_PIXEL_FORMAT_MJPEG)]"

definition CameraControlKind_numbers :: "(i32 \<times> v1_CameraControlKind) list" where
  "CameraControlKind_numbers =
     [(0, CAMERA_CONTROL_KIND_UNSPECIFIED), (1, CAMERA_CONTROL_KIND_EXPOSURE)
      , (2, CAMERA_CONTROL_KIND_GAIN), (3, CAMERA_CONTROL_KIND_WHITE_BALANCE)
      , (4, CAMERA_CONTROL_KIND_FOCUS)]"

definition DataBits_numbers :: "(i32 \<times> v1_DataBits) list" where
  "DataBits_numbers =
     [(0, DATA_BITS_UNSPECIFIED), (1, DATA_BITS_FIVE), (2, DATA_BITS_SIX), (3, DATA_BITS_SEVEN)
      , (4, DATA_BITS_EIGHT)]"

definition Parity_numbers :: "(i32 \<times> v1_Parity) list" where
  "Parity_numbers =
     [(0, PARITY_UNSPECIFIED), (1, PARITY_NONE), (2, PARITY_ODD), (3, PARITY_EVEN)]"

definition StopBits_numbers :: "(i32 \<times> v1_StopBits) list" where
  "StopBits_numbers =
     [(0, STOP_BITS_UNSPECIFIED), (1, STOP_BITS_ONE), (2, STOP_BITS_TWO)]"

definition FlowControl_numbers :: "(i32 \<times> v1_FlowControl) list" where
  "FlowControl_numbers =
     [(0, FLOW_CONTROL_UNSPECIFIED), (1, FLOW_CONTROL_NONE), (2, FLOW_CONTROL_SOFTWARE)
      , (3, FLOW_CONTROL_HARDWARE)]"

definition LeaseMode_numbers :: "(i32 \<times> v1_LeaseMode) list" where
  "LeaseMode_numbers =
     [(0, LEASE_MODE_UNSPECIFIED), (1, LEASE_MODE_OBSERVE), (2, LEASE_MODE_CONTROL)
      , (3, LEASE_MODE_MAINTENANCE)]"

definition CanIdFormat_numbers :: "(i32 \<times> v1_CanIdFormat) list" where
  "CanIdFormat_numbers =
     [(0, CAN_ID_FORMAT_UNSPECIFIED), (1, CAN_ID_FORMAT_STANDARD), (2, CAN_ID_FORMAT_EXTENDED)
      , (3, CAN_ID_FORMAT_EITHER)]"

definition CanFrameKind_numbers :: "(i32 \<times> v1_CanFrameKind) list" where
  "CanFrameKind_numbers =
     [(0, CAN_FRAME_KIND_UNSPECIFIED), (1, CAN_FRAME_KIND_CLASSIC_DATA)
      , (2, CAN_FRAME_KIND_CLASSIC_REMOTE), (3, CAN_FRAME_KIND_FD_DATA)
      , (4, CAN_FRAME_KIND_ERROR)]"

definition CanErrorClass_numbers :: "(i32 \<times> v1_CanErrorClass) list" where
  "CanErrorClass_numbers =
     [(0, CAN_ERROR_CLASS_UNSPECIFIED), (1, CAN_ERROR_CLASS_TX_TIMEOUT)
      , (2, CAN_ERROR_CLASS_LOST_ARBITRATION), (3, CAN_ERROR_CLASS_CONTROLLER)
      , (4, CAN_ERROR_CLASS_PROTOCOL), (5, CAN_ERROR_CLASS_TRANSCEIVER)
      , (6, CAN_ERROR_CLASS_NO_ACKNOWLEDGEMENT), (7, CAN_ERROR_CLASS_BUS_OFF)
      , (8, CAN_ERROR_CLASS_BUS_ERROR), (9, CAN_ERROR_CLASS_RESTARTED)
      , (10, CAN_ERROR_CLASS_OTHER)]"

definition CanTimestampSource_numbers :: "(i32 \<times> v1_CanTimestampSource) list" where
  "CanTimestampSource_numbers =
     [(0, CAN_TIMESTAMP_SOURCE_UNSPECIFIED), (1, CAN_TIMESTAMP_SOURCE_HARDWARE)
      , (2, CAN_TIMESTAMP_SOURCE_KERNEL), (3, CAN_TIMESTAMP_SOURCE_HOST_MONOTONIC)]"

definition CanMode_numbers :: "(i32 \<times> v1_CanMode) list" where
  "CanMode_numbers =
     [(0, CAN_MODE_UNSPECIFIED), (1, CAN_MODE_CLASSIC), (2, CAN_MODE_FD)]"

definition CanBusState_numbers :: "(i32 \<times> v1_CanBusState) list" where
  "CanBusState_numbers =
     [(0, CAN_BUS_STATE_UNSPECIFIED), (1, CAN_BUS_STATE_ACTIVE), (2, CAN_BUS_STATE_WARNING)
      , (3, CAN_BUS_STATE_PASSIVE), (4, CAN_BUS_STATE_BUS_OFF), (5, CAN_BUS_STATE_STOPPED)
      , (6, CAN_BUS_STATE_UNKNOWN)]"

definition RuntimeEventKind_numbers :: "(i32 \<times> v1_RuntimeEventKind) list" where
  "RuntimeEventKind_numbers =
     [(0, RUNTIME_EVENT_KIND_UNSPECIFIED), (1, RUNTIME_EVENT_KIND_SESSION_OPENED)
      , (2, RUNTIME_EVENT_KIND_SESSION_CLOSED), (3, RUNTIME_EVENT_KIND_CAN_BUS_ACTIVE)
      , (4, RUNTIME_EVENT_KIND_CAN_BUS_WARNING), (5, RUNTIME_EVENT_KIND_CAN_BUS_PASSIVE)
      , (6, RUNTIME_EVENT_KIND_CAN_BUS_OFF), (7, RUNTIME_EVENT_KIND_CAN_BUS_STOPPED)
      , (8, RUNTIME_EVENT_KIND_CAN_BUS_UNKNOWN)]"

definition ErrorCategory_numbers :: "(i32 \<times> v1_ErrorCategory) list" where
  "ErrorCategory_numbers =
     [(0, ERROR_CATEGORY_UNSPECIFIED), (1, ERROR_CATEGORY_INVALID_ARGUMENT)
      , (2, ERROR_CATEGORY_NOT_FOUND), (3, ERROR_CATEGORY_CONFLICT)
      , (4, ERROR_CATEGORY_UNAVAILABLE), (5, ERROR_CATEGORY_INTERNAL)]"

text \<open>
  \<open>TryFrom<i32>\<close> of an enum knows exactly the numbers of its table; \<open>as i32\<close> reads the table
  backwards.
\<close>

definition enum_try_from :: "(i32 \<times> 'v) list \<Rightarrow> i32 \<Rightarrow> 'v option" where
  "enum_try_from numbers n = map_of numbers n"

fun enum_number :: "(i32 \<times> 'v) list \<Rightarrow> 'v \<Rightarrow> i32" where
  "enum_number [] v = 0"
| "enum_number ((n, w) # numbers) v = (if w = v then n else enum_number numbers v)"

text \<open>
  A wire enumeration numbers every variant, and no number stands for two of them. Then a variant
  survives the wire and only its own number decodes to it.
\<close>

lemma enum_number_in: "v \<in> snd ` set t \<Longrightarrow> (enum_number t v, v) \<in> set t"
  by (induction t v rule: enum_number.induct) auto

lemma enum_number_unique:
  "distinct (map snd t) \<Longrightarrow> (n, v) \<in> set t \<Longrightarrow> enum_number t v = n"
  by (induction t v rule: enum_number.induct) (auto simp: image_iff)

locale wire_enum =
  fixes numbers :: "(i32 \<times> 'v) list"
  assumes numbers_distinct: "distinct (map fst numbers)"
    and variants_distinct: "distinct (map snd numbers)"
    and variants_numbered: "v \<in> snd ` set numbers"
begin

lemma try_from_number [simp]: "enum_try_from numbers (enum_number numbers v) = Some v"
  using enum_number_in [OF variants_numbered] numbers_distinct
  by (simp add: enum_try_from_def)

lemma try_from_iff [simp]: "enum_try_from numbers n = Some v \<longleftrightarrow> n = enum_number numbers v"
proof
  assume "enum_try_from numbers n = Some v"
  then have "(n, v) \<in> set numbers" by (simp add: enum_try_from_def map_of_SomeD)
  then show "n = enum_number numbers v" by (simp add: enum_number_unique [OF variants_distinct])
qed simp

lemma enum_number_inj [simp]: "enum_number numbers v = enum_number numbers w \<longleftrightarrow> v = w"
  by (metis option.inject try_from_number)

end

interpretation UsbTransferKind_wire: wire_enum UsbTransferKind_numbers
proof unfold_locales
  show "v \<in> snd ` set UsbTransferKind_numbers" for v by (cases v) (simp_all add: UsbTransferKind_numbers_def)
qed (simp_all add: UsbTransferKind_numbers_def)

interpretation GpioBias_wire: wire_enum GpioBias_numbers
proof unfold_locales
  show "v \<in> snd ` set GpioBias_numbers" for v by (cases v) (simp_all add: GpioBias_numbers_def)
qed (simp_all add: GpioBias_numbers_def)

interpretation GpioDrive_wire: wire_enum GpioDrive_numbers
proof unfold_locales
  show "v \<in> snd ` set GpioDrive_numbers" for v by (cases v) (simp_all add: GpioDrive_numbers_def)
qed (simp_all add: GpioDrive_numbers_def)

interpretation GpioDirection_wire: wire_enum GpioDirection_numbers
proof unfold_locales
  show "v \<in> snd ` set GpioDirection_numbers" for v by (cases v) (simp_all add: GpioDirection_numbers_def)
qed (simp_all add: GpioDirection_numbers_def)

interpretation GpioEdge_wire: wire_enum GpioEdge_numbers
proof unfold_locales
  show "v \<in> snd ` set GpioEdge_numbers" for v by (cases v) (simp_all add: GpioEdge_numbers_def)
qed (simp_all add: GpioEdge_numbers_def)

interpretation IdentityQuality_wire: wire_enum IdentityQuality_numbers
proof unfold_locales
  show "v \<in> snd ` set IdentityQuality_numbers" for v by (cases v) (simp_all add: IdentityQuality_numbers_def)
qed (simp_all add: IdentityQuality_numbers_def)

interpretation TransportKind_wire: wire_enum TransportKind_numbers
proof unfold_locales
  show "v \<in> snd ` set TransportKind_numbers" for v by (cases v) (simp_all add: TransportKind_numbers_def)
qed (simp_all add: TransportKind_numbers_def)

interpretation CameraPixelFormat_wire: wire_enum CameraPixelFormat_numbers
proof unfold_locales
  show "v \<in> snd ` set CameraPixelFormat_numbers" for v by (cases v) (simp_all add: CameraPixelFormat_numbers_def)
qed (simp_all add: CameraPixelFormat_numbers_def)

interpretation CameraControlKind_wire: wire_enum CameraControlKind_numbers
proof unfold_locales
  show "v \<in> snd ` set CameraControlKind_numbers" for v by (cases v) (simp_all add: CameraControlKind_numbers_def)
qed (simp_all add: CameraControlKind_numbers_def)

interpretation DataBits_wire: wire_enum DataBits_numbers
proof unfold_locales
  show "v \<in> snd ` set DataBits_numbers" for v by (cases v) (simp_all add: DataBits_numbers_def)
qed (simp_all add: DataBits_numbers_def)

interpretation Parity_wire: wire_enum Parity_numbers
proof unfold_locales
  show "v \<in> snd ` set Parity_numbers" for v by (cases v) (simp_all add: Parity_numbers_def)
qed (simp_all add: Parity_numbers_def)

interpretation StopBits_wire: wire_enum StopBits_numbers
proof unfold_locales
  show "v \<in> snd ` set StopBits_numbers" for v by (cases v) (simp_all add: StopBits_numbers_def)
qed (simp_all add: StopBits_numbers_def)

interpretation FlowControl_wire: wire_enum FlowControl_numbers
proof unfold_locales
  show "v \<in> snd ` set FlowControl_numbers" for v by (cases v) (simp_all add: FlowControl_numbers_def)
qed (simp_all add: FlowControl_numbers_def)

interpretation LeaseMode_wire: wire_enum LeaseMode_numbers
proof unfold_locales
  show "v \<in> snd ` set LeaseMode_numbers" for v by (cases v) (simp_all add: LeaseMode_numbers_def)
qed (simp_all add: LeaseMode_numbers_def)

interpretation CanIdFormat_wire: wire_enum CanIdFormat_numbers
proof unfold_locales
  show "v \<in> snd ` set CanIdFormat_numbers" for v by (cases v) (simp_all add: CanIdFormat_numbers_def)
qed (simp_all add: CanIdFormat_numbers_def)

interpretation CanFrameKind_wire: wire_enum CanFrameKind_numbers
proof unfold_locales
  show "v \<in> snd ` set CanFrameKind_numbers" for v by (cases v) (simp_all add: CanFrameKind_numbers_def)
qed (simp_all add: CanFrameKind_numbers_def)

interpretation CanErrorClass_wire: wire_enum CanErrorClass_numbers
proof unfold_locales
  show "v \<in> snd ` set CanErrorClass_numbers" for v by (cases v) (simp_all add: CanErrorClass_numbers_def)
qed (simp_all add: CanErrorClass_numbers_def)

interpretation CanTimestampSource_wire: wire_enum CanTimestampSource_numbers
proof unfold_locales
  show "v \<in> snd ` set CanTimestampSource_numbers" for v by (cases v) (simp_all add: CanTimestampSource_numbers_def)
qed (simp_all add: CanTimestampSource_numbers_def)

interpretation CanMode_wire: wire_enum CanMode_numbers
proof unfold_locales
  show "v \<in> snd ` set CanMode_numbers" for v by (cases v) (simp_all add: CanMode_numbers_def)
qed (simp_all add: CanMode_numbers_def)

interpretation CanBusState_wire: wire_enum CanBusState_numbers
proof unfold_locales
  show "v \<in> snd ` set CanBusState_numbers" for v by (cases v) (simp_all add: CanBusState_numbers_def)
qed (simp_all add: CanBusState_numbers_def)

interpretation RuntimeEventKind_wire: wire_enum RuntimeEventKind_numbers
proof unfold_locales
  show "v \<in> snd ` set RuntimeEventKind_numbers" for v by (cases v) (simp_all add: RuntimeEventKind_numbers_def)
qed (simp_all add: RuntimeEventKind_numbers_def)

interpretation ErrorCategory_wire: wire_enum ErrorCategory_numbers
proof unfold_locales
  show "v \<in> snd ` set ErrorCategory_numbers" for v by (cases v) (simp_all add: ErrorCategory_numbers_def)
qed (simp_all add: ErrorCategory_numbers_def)

section \<open>Messages\<close>

record v1_ResourceSelector =
  w_resource_id :: string
  w_minimum_identity_quality :: i32
  w_transport :: i32

record v1_ResourceDescriptor =
  wd_resource_id :: string
  wd_endpoint :: string
  wd_identity_quality :: i32
  wd_transport :: i32
  wd_properties :: "(string \<times> string) list"
  wd_capabilities :: "string list"

record v1_LeaseToken =
  wl_lease_id :: string
  wl_generation :: u64
  wl_mode :: i32

record v1_SerialConfig =
  ws_baud_rate :: u32
  ws_data_bits :: i32
  ws_parity :: i32
  ws_stop_bits :: i32
  ws_flow_control :: i32
  ws_read_timeout_ms :: u64

record v1_Error =
  we_name :: string
  we_category :: i32
  we_operation :: string
  we_retryable :: bool
  we_debug_message :: string
  we_resource_id :: string
  we_platform_code :: string
  we_vendor_code :: string
  we_context :: "(string \<times> string) list"

record v1_RuntimeEvent =
  wv_sequence :: u64
  wv_kind :: i32
  wv_name :: string
  wv_resource_id :: string
  wv_session_id :: string
  wv_owner_id :: string
  wv_lease_generation :: u64

record v1_HandshakeRequest =
  wq_startup_token :: "u8 list"
  wq_protocol_major :: u32
  wq_protocol_minor :: u32
  wq_required_capabilities :: "string list"
  wq_max_frame_bytes :: u32
  wq_max_read_bytes :: u32
  wq_max_write_bytes :: u32
  wq_protocol_minor_minimum :: u32
  wq_protocol_minor_maximum :: u32

record v1_HandshakeResponse =
  wr_protocol_major :: u32
  wr_protocol_minor :: u32
  wr_capabilities :: "string list"
  wr_max_frame_bytes :: u32
  wr_max_read_bytes :: u32
  wr_max_write_bytes :: u32
  wr_protocol_minor_minimum :: u32
  wr_protocol_minor_maximum :: u32

text \<open>Messages that carry no more than a session and its lease share one shape.\<close>

record v1_SessionLease =
  wsl_session_id :: string
  wsl_lease :: "v1_LeaseToken option"

record v1_OpenSerialRequest =
  wos_selector :: "v1_ResourceSelector option"
  wos_config :: "v1_SerialConfig option"

record v1_OpenUsbRequest =
  wou_selector :: "v1_ResourceSelector option"
  wou_interface_number :: u32

record v1_UsbTransferRequest = v1_SessionLease +
  wu_kind :: i32
  wu_request_type :: u32
  wu_request :: u32
  wu_value :: u32
  wu_index :: u32
  wu_endpoint :: u32
  wu_data :: "u8 list"
  wu_max_bytes :: u32
  wu_timeout_ms :: u64

record v1_GpioLineConfig =
  wg_direction :: i32
  wg_active_low :: bool
  wg_bias :: i32
  wg_drive :: i32
  wg_initial_value :: "bool option"

record v1_OpenGpioRequest =
  wog_selector :: "v1_ResourceSelector option"
  wog_lines :: "u32 list"
  wog_config :: "v1_GpioLineConfig option"

record v1_GpioWriteRequest = v1_SessionLease +
  wgw_values :: "bool list"

record v1_GpioNextEdgeRequest = v1_SessionLease +
  wge_rising :: bool
  wge_falling :: bool
  wge_capacity :: u32
  wge_timeout_ms :: u64

record v1_GpioEdgeEvent =
  wgv_edge :: i32
  wgv_monotonic_ns :: u64
  wgv_sequence :: u64

end
