(* ===== verification/Wire_Protocol.thy ===== *)
theory Wire_Protocol
  imports Wire_Messages Runtime_Base
begin

text \<open>
  The common part of \<open>src/crates/robot-hal-protocol/src\<close>: version negotiation (\<open>lib.rs\<close>) and
  the conversions of \<open>conversion.rs\<close> between wire messages and the values of the interface
  crates. Decoders are named \<open>\<dots>_from_proto\<close>, encoders \<open>\<dots>_to_proto\<close>; the matches on an enum that
  the source writes inline are definitions of their own here. Every pair of conversions is an
  interpretation of the codec interface of the prelude.
\<close>

section \<open>Rejections and narrowing\<close>

definition invalid_message :: "string \<Rightarrow> HalError" where
  "invalid_message debug_message =
     hal_error ''runtime.protocol.invalid_message'' InvalidArgument ''runtime.protocol.decode'' False
       debug_message"

definition required_enum :: "(i32 \<times> 'v) list \<Rightarrow> i32 \<Rightarrow> string \<Rightarrow> 'v hal_result" where
  "required_enum numbers value field =
     ok_or (invalid_message (field @ '' has an unknown value'')) (enum_try_from numbers value)"

text \<open>\<open>u8::try_from\<close> and \<open>u16::try_from\<close> succeed on the values of the narrower type.\<close>

definition try_narrow :: "'a::len word \<Rightarrow> 'b::len word option" where
  "try_narrow value = (if unat value < 2 ^ LENGTH('b) then Some (ucast value) else None)"

definition wire_byte :: "u32 \<Rightarrow> string \<Rightarrow> u8 hal_result" where
  "wire_byte value field = ok_or (invalid_message (field @ '' exceeds u8'')) (try_narrow value)"

definition wire_u16 :: "u32 \<Rightarrow> string \<Rightarrow> u16 hal_result" where
  "wire_u16 value field = ok_or (invalid_message (field @ '' exceeds u16'')) (try_narrow value)"

definition nonzero_timeout :: "u64 \<Rightarrow> string \<Rightarrow> duration hal_result" where
  "nonzero_timeout value field =
     (if value = 0 then Err (invalid_message (field @ '' must be greater than zero''))
      else Ok (from_millis value))"

section \<open>Version negotiation\<close>

definition PROTOCOL_MAJOR :: u32 where "PROTOCOL_MAJOR = 1"
definition PROTOCOL_MINOR_MINIMUM :: u32 where "PROTOCOL_MINOR_MINIMUM = 0"
definition PROTOCOL_MINOR_MAXIMUM :: u32 where "PROTOCOL_MINOR_MAXIMUM = 3"
definition PROTOCOL_MINOR :: u32 where "PROTOCOL_MINOR = PROTOCOL_MINOR_MAXIMUM"
definition SERIAL_CAPABILITY :: string where "SERIAL_CAPABILITY = ''serial.bytes/v1''"
definition MAX_FRAME_BYTES :: usize where "MAX_FRAME_BYTES = 1024 * 1024"

definition handshake_minor_range :: "v1_HandshakeRequest \<Rightarrow> (u32 \<times> u32) hal_result" where
  "handshake_minor_range request =
     (if wq_protocol_minor_minimum request = 0 \<and> wq_protocol_minor_maximum request = 0 then
        Ok (wq_protocol_minor request, wq_protocol_minor request)
      else if wq_protocol_minor_minimum request > wq_protocol_minor_maximum request
          \<or> wq_protocol_minor request \<noteq> wq_protocol_minor_maximum request then
        Err (invalid_message ''protocol minor range is invalid or conflicts with legacy protocol_minor'')
      else Ok (wq_protocol_minor_minimum request, wq_protocol_minor_maximum request))"

definition handshake_response_minor_range :: "v1_HandshakeResponse \<Rightarrow> (u32 \<times> u32) hal_result" where
  "handshake_response_minor_range response =
     (if wr_protocol_minor_minimum response = 0 \<and> wr_protocol_minor_maximum response = 0 then
        Ok (wr_protocol_minor response, wr_protocol_minor response)
      else if wr_protocol_minor_minimum response > wr_protocol_minor_maximum response
          \<or> wr_protocol_minor response < wr_protocol_minor_minimum response
          \<or> wr_protocol_minor response > wr_protocol_minor_maximum response then
        Err (invalid_message ''broker protocol minor range does not contain the selected minor'')
      else Ok (wr_protocol_minor_minimum response, wr_protocol_minor_maximum response))"

definition negotiate_protocol_minor ::
  "u32 \<Rightarrow> u32 \<Rightarrow> u32 \<Rightarrow> u32 \<Rightarrow> u32 \<Rightarrow> u32 \<Rightarrow> u32 hal_result" where
  "negotiate_protocol_minor client_major client_minimum client_maximum
       broker_major broker_minimum broker_maximum =
     (if client_minimum > client_maximum \<or> broker_minimum > broker_maximum then
        Err (invalid_message ''protocol minor range minimum exceeds maximum'')
      else
        let shared_minimum = max client_minimum broker_minimum;
            shared_maximum = min client_maximum broker_maximum
        in if client_major \<noteq> broker_major \<or> shared_minimum > shared_maximum then
             and_then (HalError_new ''runtime.protocol.version_incompatible'' Conflict
               ''runtime.protocol.handshake'' False
               ''client and broker protocol version ranges do not overlap'') Err
           else Ok shared_maximum)"

section \<open>Resources\<close>

fun quality_to_proto :: "IdentityQuality \<Rightarrow> v1_IdentityQuality" where
  "quality_to_proto Weak = IDENTITY_QUALITY_WEAK"
| "quality_to_proto Medium = IDENTITY_QUALITY_MEDIUM"
| "quality_to_proto Strong = IDENTITY_QUALITY_STRONG"

fun transport_to_proto :: "TransportKind \<Rightarrow> v1_TransportKind hal_result" where
  "transport_to_proto TSerial = Ok TRANSPORT_KIND_SERIAL"
| "transport_to_proto TCan = Ok TRANSPORT_KIND_CAN"
| "transport_to_proto TUsb = Ok TRANSPORT_KIND_USB"
| "transport_to_proto TGpio = Ok TRANSPORT_KIND_GPIO"
| "transport_to_proto TCamera = Ok TRANSPORT_KIND_CAMERA"

definition quality_from_proto :: "i32 \<Rightarrow> IdentityQuality hal_result" where
  "quality_from_proto value =
     and_then (required_enum IdentityQuality_numbers value ''minimum_identity_quality'') (\<lambda>q.
     case q of
       IDENTITY_QUALITY_WEAK \<Rightarrow> Ok Weak
     | IDENTITY_QUALITY_MEDIUM \<Rightarrow> Ok Medium
     | IDENTITY_QUALITY_STRONG \<Rightarrow> Ok Strong
     | IDENTITY_QUALITY_UNSPECIFIED \<Rightarrow> Err (invalid_message ''minimum_identity_quality is required''))"

definition transport_from_proto :: "i32 \<Rightarrow> TransportKind hal_result" where
  "transport_from_proto value =
     and_then (required_enum TransportKind_numbers value ''transport'') (\<lambda>t.
     case t of
       TRANSPORT_KIND_SERIAL \<Rightarrow> Ok TSerial
     | TRANSPORT_KIND_CAN \<Rightarrow> Ok TCan
     | TRANSPORT_KIND_USB \<Rightarrow> Ok TUsb
     | TRANSPORT_KIND_GPIO \<Rightarrow> Ok TGpio
     | TRANSPORT_KIND_CAMERA \<Rightarrow> Ok TCamera
     | TRANSPORT_KIND_UNSPECIFIED \<Rightarrow> Err (invalid_message ''transport is required''))"

definition ResourceSelector_from_proto :: "v1_ResourceSelector \<Rightarrow> ResourceSelector hal_result" where
  "ResourceSelector_from_proto value =
     and_then (map_err (\<lambda>_. invalid_message ''resource selector has an invalid resource_id'')
       (ResourceId_parse (w_resource_id value))) (\<lambda>rid.
     and_then (quality_from_proto (w_minimum_identity_quality value)) (\<lambda>quality.
     and_then (transport_from_proto (w_transport value)) (\<lambda>transport.
     Ok (ResourceSelector_exact rid quality transport))))"

definition ResourceSelector_to_proto :: "ResourceSelector \<Rightarrow> v1_ResourceSelector hal_result" where
  "ResourceSelector_to_proto value =
     and_then (transport_to_proto (rs_transport value)) (\<lambda>transport.
     Ok \<lparr>w_resource_id = ResourceId_as_str (rs_id value),
         w_minimum_identity_quality =
           enum_number IdentityQuality_numbers (quality_to_proto (rs_minimum_identity_quality value)),
         w_transport = enum_number TransportKind_numbers transport\<rparr>)"

definition descriptor_capabilities ::
  "TransportKind \<Rightarrow> string list \<Rightarrow> CapabilityId list hal_result" where
  "descriptor_capabilities transport capabilities =
     (if capabilities = [] then
        if transport \<noteq> TSerial then
          Err (invalid_message ''CAN resource descriptor requires explicit capabilities'')
        else Ok [CapabilityId SERIAL_CAPABILITY]
      else collect_results (map (\<lambda>capability.
        map_err (\<lambda>_. invalid_message ''resource descriptor has an invalid capability'')
          (CapabilityId_parse capability)) capabilities))"

definition ResourceDescriptor_from_proto :: "v1_ResourceDescriptor \<Rightarrow> ResourceDescriptor hal_result" where
  "ResourceDescriptor_from_proto value =
     and_then (ResourceSelector_from_proto
       \<lparr>w_resource_id = wd_resource_id value, w_minimum_identity_quality = wd_identity_quality value,
        w_transport = wd_transport value\<rparr>) (\<lambda>selector.
     and_then (map_err (\<lambda>_. invalid_message ''resource descriptor has an invalid endpoint'')
       (Endpoint_new (wd_endpoint value))) (\<lambda>endpoint.
     and_then (descriptor_capabilities (rs_transport selector) (wd_capabilities value)) (\<lambda>capabilities.
     Ok \<lparr>rd_id = rs_id selector, rd_endpoint = endpoint,
         rd_minimum_identity_quality = rs_minimum_identity_quality selector,
         rd_transport = rs_transport selector, rd_properties = bt_of_list (wd_properties value),
         rd_capabilities = capabilities\<rparr>)))"

definition ResourceDescriptor_to_proto :: "ResourceDescriptor \<Rightarrow> v1_ResourceDescriptor hal_result" where
  "ResourceDescriptor_to_proto value =
     and_then (transport_to_proto (rd_transport value)) (\<lambda>transport.
     Ok \<lparr>wd_resource_id = ResourceId_as_str (rd_id value),
         wd_endpoint = Endpoint_as_str (rd_endpoint value),
         wd_identity_quality =
           enum_number IdentityQuality_numbers (quality_to_proto (rd_minimum_identity_quality value)),
         wd_transport = enum_number TransportKind_numbers transport,
         wd_properties = rd_properties value,
         wd_capabilities = map CapabilityId_as_str (rd_capabilities value)\<rparr>)"

definition selector_for_transport ::
  "v1_ResourceSelector \<Rightarrow> TransportKind \<Rightarrow> string \<Rightarrow> ResourceSelector hal_result" where
  "selector_for_transport value expected label =
     and_then (ResourceSelector_from_proto value) (\<lambda>selector.
     if rs_transport selector \<noteq> expected
     then Err (invalid_message (label @ '' resource selector transport does not match''))
     else Ok selector)"

definition usb_selector_from_proto :: "v1_ResourceSelector \<Rightarrow> ResourceSelector hal_result" where
  "usb_selector_from_proto value = selector_for_transport value TUsb ''USB''"

definition gpio_selector_from_proto :: "v1_ResourceSelector \<Rightarrow> ResourceSelector hal_result" where
  "gpio_selector_from_proto value = selector_for_transport value TGpio ''GPIO''"

definition serial_selector_from_proto :: "v1_ResourceSelector \<Rightarrow> ResourceSelector hal_result" where
  "serial_selector_from_proto value =
     and_then (ResourceSelector_from_proto value) (\<lambda>selector.
     if rs_transport selector \<noteq> TSerial
     then Err (invalid_message ''serial resource selector transport must be Serial'')
     else Ok selector)"

definition enumerate_serial_response_from_proto ::
  "v1_ResourceDescriptor list \<Rightarrow> ResourceDescriptor list hal_result" where
  "enumerate_serial_response_from_proto resources =
     collect_results (map (\<lambda>value.
       and_then (ResourceDescriptor_from_proto value) (\<lambda>descriptor.
       if rd_transport descriptor \<noteq> TSerial
       then Err (invalid_message ''enumerate_serial resource transport must be Serial'')
       else Ok descriptor)) resources)"

section \<open>Serial configuration\<close>

fun data_bits_to_proto :: "DataBits \<Rightarrow> v1_DataBits" where
  "data_bits_to_proto Five = DATA_BITS_FIVE"
| "data_bits_to_proto Six = DATA_BITS_SIX"
| "data_bits_to_proto Seven = DATA_BITS_SEVEN"
| "data_bits_to_proto Eight = DATA_BITS_EIGHT"

fun parity_to_proto :: "Parity \<Rightarrow> v1_Parity" where
  "parity_to_proto ParityNone = PARITY_NONE"
| "parity_to_proto Odd = PARITY_ODD"
| "parity_to_proto Even = PARITY_EVEN"

fun stop_bits_to_proto :: "StopBits \<Rightarrow> v1_StopBits" where
  "stop_bits_to_proto One = STOP_BITS_ONE"
| "stop_bits_to_proto Two = STOP_BITS_TWO"

fun flow_control_to_proto :: "FlowControl \<Rightarrow> v1_FlowControl" where
  "flow_control_to_proto FlowNone = FLOW_CONTROL_NONE"
| "flow_control_to_proto Software = FLOW_CONTROL_SOFTWARE"
| "flow_control_to_proto HardwareFlow = FLOW_CONTROL_HARDWARE"

definition data_bits_from_proto :: "i32 \<Rightarrow> DataBits hal_result" where
  "data_bits_from_proto value =
     and_then (required_enum DataBits_numbers value ''data_bits'') (\<lambda>b.
     case b of
       DATA_BITS_FIVE \<Rightarrow> Ok Five
     | DATA_BITS_SIX \<Rightarrow> Ok Six
     | DATA_BITS_SEVEN \<Rightarrow> Ok Seven
     | DATA_BITS_EIGHT \<Rightarrow> Ok Eight
     | DATA_BITS_UNSPECIFIED \<Rightarrow> Err (invalid_message ''data_bits is required''))"

definition parity_from_proto :: "i32 \<Rightarrow> Parity hal_result" where
  "parity_from_proto value =
     and_then (required_enum Parity_numbers value ''parity'') (\<lambda>b.
     case b of
       PARITY_NONE \<Rightarrow> Ok ParityNone
     | PARITY_ODD \<Rightarrow> Ok Odd
     | PARITY_EVEN \<Rightarrow> Ok Even
     | PARITY_UNSPECIFIED \<Rightarrow> Err (invalid_message ''parity is required''))"

definition stop_bits_from_proto :: "i32 \<Rightarrow> StopBits hal_result" where
  "stop_bits_from_proto value =
     and_then (required_enum StopBits_numbers value ''stop_bits'') (\<lambda>b.
     case b of
       STOP_BITS_ONE \<Rightarrow> Ok One
     | STOP_BITS_TWO \<Rightarrow> Ok Two
     | STOP_BITS_UNSPECIFIED \<Rightarrow> Err (invalid_message ''stop_bits is required''))"

definition flow_control_from_proto :: "i32 \<Rightarrow> FlowControl hal_result" where
  "flow_control_from_proto value =
     and_then (required_enum FlowControl_numbers value ''flow_control'') (\<lambda>b.
     case b of
       FLOW_CONTROL_NONE \<Rightarrow> Ok FlowNone
     | FLOW_CONTROL_SOFTWARE \<Rightarrow> Ok Software
     | FLOW_CONTROL_HARDWARE \<Rightarrow> Ok HardwareFlow
     | FLOW_CONTROL_UNSPECIFIED \<Rightarrow> Err (invalid_message ''flow_control is required''))"

definition SerialConfig_from_proto :: "v1_SerialConfig \<Rightarrow> SerialConfig hal_result" where
  "SerialConfig_from_proto value =
     (if ws_baud_rate value = 0 \<or> ws_read_timeout_ms value = 0 then
        Err (invalid_message ''baud_rate and read_timeout_ms must be greater than zero'')
      else
        and_then (data_bits_from_proto (ws_data_bits value)) (\<lambda>data_bits.
        and_then (parity_from_proto (ws_parity value)) (\<lambda>parity.
        and_then (stop_bits_from_proto (ws_stop_bits value)) (\<lambda>stop_bits.
        and_then (flow_control_from_proto (ws_flow_control value)) (\<lambda>flow_control.
        Ok \<lparr>sc_baud_rate = ws_baud_rate value, sc_data_bits = data_bits, sc_parity = parity,
            sc_stop_bits = stop_bits, sc_flow_control = flow_control,
            sc_read_timeout = from_millis (ws_read_timeout_ms value)\<rparr>)))))"

text \<open>\<open>try_into().unwrap_or(u64::MAX)\<close> of the whole milliseconds.\<close>

definition timeout_millis :: "duration \<Rightarrow> u64" where
  "timeout_millis d = (if as_millis d < 2 ^ 64 then of_nat (as_millis d) else - 1)"

definition SerialConfig_to_proto :: "SerialConfig \<Rightarrow> v1_SerialConfig" where
  "SerialConfig_to_proto value =
     \<lparr>ws_baud_rate = sc_baud_rate value,
      ws_data_bits = enum_number DataBits_numbers (data_bits_to_proto (sc_data_bits value)),
      ws_parity = enum_number Parity_numbers (parity_to_proto (sc_parity value)),
      ws_stop_bits = enum_number StopBits_numbers (stop_bits_to_proto (sc_stop_bits value)),
      ws_flow_control = enum_number FlowControl_numbers (flow_control_to_proto (sc_flow_control value)),
      ws_read_timeout_ms = timeout_millis (sc_read_timeout value)\<rparr>"

definition open_serial_request_from_proto ::
  "v1_OpenSerialRequest \<Rightarrow> (ResourceSelector \<times> SerialConfig) hal_result" where
  "open_serial_request_from_proto value =
     and_then (ok_or (invalid_message ''open_serial selector is required'') (wos_selector value)) (\<lambda>selector.
     and_then (ok_or (invalid_message ''open_serial config is required'') (wos_config value)) (\<lambda>config.
     and_then (serial_selector_from_proto selector) (\<lambda>selector.
     and_then (SerialConfig_from_proto config) (\<lambda>config.
     Ok (selector, config)))))"

section \<open>Sessions and leases\<close>

fun lease_mode_to_proto :: "LeaseMode \<Rightarrow> v1_LeaseMode" where
  "lease_mode_to_proto Observe = LEASE_MODE_OBSERVE"
| "lease_mode_to_proto Control = LEASE_MODE_CONTROL"
| "lease_mode_to_proto Maintenance = LEASE_MODE_MAINTENANCE"

definition LeaseToken_from_proto :: "v1_LeaseToken \<Rightarrow> LeaseToken hal_result" where
  "LeaseToken_from_proto value =
     and_then (map_err (\<lambda>_. invalid_message ''lease token has an invalid lease_id'')
       (LeaseId_parse (wl_lease_id value))) (\<lambda>lease_id.
     if wl_generation value = 0 then
       Err (invalid_message ''lease generation must be greater than zero'')
     else
       and_then (required_enum LeaseMode_numbers (wl_mode value) ''lease mode'') (\<lambda>m.
       and_then (case m of
           LEASE_MODE_OBSERVE \<Rightarrow> Ok Observe
         | LEASE_MODE_CONTROL \<Rightarrow> Ok Control
         | LEASE_MODE_MAINTENANCE \<Rightarrow> Ok Maintenance
         | LEASE_MODE_UNSPECIFIED \<Rightarrow> Err (invalid_message ''lease mode is required'')) (\<lambda>mode.
       Ok (LeaseToken_new lease_id (wl_generation value) mode))))"

definition LeaseToken_to_proto :: "LeaseToken \<Rightarrow> v1_LeaseToken" where
  "LeaseToken_to_proto value =
     \<lparr>wl_lease_id = LeaseId_as_str (lt_lease_id value), wl_generation = lt_generation value,
      wl_mode = enum_number LeaseMode_numbers (lease_mode_to_proto (lt_mode value))\<rparr>"

definition parse_session_lease ::
  "string \<Rightarrow> v1_LeaseToken option \<Rightarrow> (SessionId \<times> LeaseToken) hal_result" where
  "parse_session_lease session_id lease =
     and_then (map_err (\<lambda>_. invalid_message ''request has an invalid session_id'')
       (SessionId_parse session_id)) (\<lambda>session.
     and_then (ok_or (invalid_message ''request is missing lease'') lease) (\<lambda>lease.
     and_then (LeaseToken_from_proto lease) (\<lambda>lease.
     Ok (session, lease))))"

definition parse_serial_session_lease ::
  "string \<Rightarrow> v1_LeaseToken option \<Rightarrow> (SessionId \<times> LeaseToken) hal_result" where
  "parse_serial_session_lease session_id lease =
     and_then (parse_session_lease session_id lease) (\<lambda>(session, lease).
     if lt_mode lease \<noteq> Control then
       Err (invalid_message ''Serial session lease mode must be Control'')
     else Ok (session, lease))"

definition parse_control_session_lease ::
  "string \<Rightarrow> v1_LeaseToken option \<Rightarrow> string \<Rightarrow> (SessionId \<times> LeaseToken) hal_result" where
  "parse_control_session_lease session_id lease hardware_class =
     and_then (parse_session_lease session_id lease) (\<lambda>(session, lease).
     if lt_mode lease \<noteq> Control then
       Err (invalid_message (hardware_class @ '' session lease mode must be Control''))
     else Ok (session, lease))"

definition open_serial_response_from_proto :: "v1_SessionLease \<Rightarrow> (SessionId \<times> LeaseToken) hal_result" where
  "open_serial_response_from_proto value = parse_serial_session_lease (wsl_session_id value) (wsl_lease value)"

definition open_usb_response_from_proto :: "v1_SessionLease \<Rightarrow> (SessionId \<times> LeaseToken) hal_result" where
  "open_usb_response_from_proto value =
     parse_control_session_lease (wsl_session_id value) (wsl_lease value) ''USB''"

definition usb_close_request_from_proto :: "v1_SessionLease \<Rightarrow> (SessionId \<times> LeaseToken) hal_result" where
  "usb_close_request_from_proto value =
     parse_control_session_lease (wsl_session_id value) (wsl_lease value) ''USB''"

definition open_gpio_response_from_proto :: "v1_SessionLease \<Rightarrow> (SessionId \<times> LeaseToken) hal_result" where
  "open_gpio_response_from_proto value =
     parse_control_session_lease (wsl_session_id value) (wsl_lease value) ''GPIO''"

definition gpio_read_request_from_proto :: "v1_SessionLease \<Rightarrow> (SessionId \<times> LeaseToken) hal_result" where
  "gpio_read_request_from_proto value =
     parse_control_session_lease (wsl_session_id value) (wsl_lease value) ''GPIO''"

definition gpio_close_request_from_proto :: "v1_SessionLease \<Rightarrow> (SessionId \<times> LeaseToken) hal_result" where
  "gpio_close_request_from_proto value =
     parse_control_session_lease (wsl_session_id value) (wsl_lease value) ''GPIO''"

definition open_usb_response_to_proto :: "SessionId \<Rightarrow> LeaseToken \<Rightarrow> v1_SessionLease" where
  "open_usb_response_to_proto session lease =
     \<lparr>wsl_session_id = SessionId_as_str session, wsl_lease = Some (LeaseToken_to_proto lease)\<rparr>"

definition open_gpio_response_to_proto :: "SessionId \<Rightarrow> LeaseToken \<Rightarrow> v1_SessionLease" where
  "open_gpio_response_to_proto session lease =
     \<lparr>wsl_session_id = SessionId_as_str session, wsl_lease = Some (LeaseToken_to_proto lease)\<rparr>"

section \<open>USB\<close>

definition open_usb_request_from_proto :: "v1_OpenUsbRequest \<Rightarrow> (ResourceSelector \<times> u8) hal_result" where
  "open_usb_request_from_proto value =
     and_then (ok_or (invalid_message ''open_usb selector is required'') (wou_selector value)) (\<lambda>selector.
     let interface = unat (wou_interface_number value) in
     if interface > MAX_USB_INTERFACE_NUMBER then
       Err (invalid_message ''open_usb interface_number exceeds u8'')
     else
       and_then (usb_selector_from_proto selector) (\<lambda>selector.
       Ok (selector, of_nat interface)))"

text \<open>
  The result of the match goes through one \<open>map_err\<close>; the early returns and the \<open>?\<close> of its
  arms do not. The arm for an unspecified kind is a value of the match, so its message is replaced
  as well.
\<close>

definition usb_bounds :: "UsbTransfer hal_result \<Rightarrow> UsbTransfer hal_result" where
  "usb_bounds transfer =
     map_err (\<lambda>_. invalid_message ''usb_transfer violates the public USB transfer bounds'') transfer"

definition control_fields_set :: "v1_UsbTransferRequest \<Rightarrow> bool" where
  "control_fields_set value \<longleftrightarrow>
     wu_request_type value \<noteq> 0 \<or> wu_request value \<noteq> 0 \<or> wu_value value \<noteq> 0 \<or> wu_index value \<noteq> 0"

definition usb_setup :: "v1_UsbTransferRequest \<Rightarrow> (u8 \<Rightarrow> u8 \<Rightarrow> u16 \<Rightarrow> u16 \<Rightarrow> UsbTransfer hal_result) \<Rightarrow> UsbTransfer hal_result" where
  "usb_setup value build =
     and_then (wire_byte (wu_request_type value) ''usb_transfer.request_type'') (\<lambda>request_type.
     and_then (wire_byte (wu_request value) ''usb_transfer.request'') (\<lambda>request.
     and_then (wire_u16 (wu_value value) ''usb_transfer.value'') (\<lambda>setup_value.
     and_then (wire_u16 (wu_index value) ''usb_transfer.index'') (\<lambda>index.
     usb_bounds (build request_type request setup_value index)))))"

definition usb_transfer_from_proto :: "v1_UsbTransferRequest \<Rightarrow> UsbTransfer hal_result" where
  "usb_transfer_from_proto value =
     and_then (required_enum UsbTransferKind_numbers (wu_kind value) ''usb_transfer.kind'') (\<lambda>kind.
     let max_bytes = unat (wu_max_bytes value); data = wu_data value in
     case kind of
       USB_TRANSFER_KIND_CONTROL_OUT \<Rightarrow>
         if wu_endpoint value \<noteq> 0 \<or> wu_max_bytes value \<noteq> 0 then
           Err (invalid_message ''control-out transfer must not set endpoint or max_bytes'')
         else usb_setup value (\<lambda>rt rq v i. control_out rt rq v i data)
     | USB_TRANSFER_KIND_CONTROL_IN \<Rightarrow>
         if wu_endpoint value \<noteq> 0 \<or> data \<noteq> [] then
           Err (invalid_message ''control-in transfer must not set endpoint or data'')
         else usb_setup value (\<lambda>rt rq v i. control_in rt rq v i max_bytes)
     | USB_TRANSFER_KIND_BULK_OUT \<Rightarrow>
         if control_fields_set value \<or> wu_max_bytes value \<noteq> 0 then
           Err (invalid_message ''bulk-out transfer has control or max_bytes fields'')
         else and_then (wire_byte (wu_endpoint value) ''usb_transfer.endpoint'') (\<lambda>endpoint.
           usb_bounds (bulk_out endpoint data))
     | USB_TRANSFER_KIND_BULK_IN \<Rightarrow>
         if control_fields_set value \<or> data \<noteq> [] then
           Err (invalid_message ''bulk-in transfer has control or data fields'')
         else and_then (wire_byte (wu_endpoint value) ''usb_transfer.endpoint'') (\<lambda>endpoint.
           usb_bounds (bulk_in endpoint max_bytes))
     | USB_TRANSFER_KIND_INTERRUPT_OUT \<Rightarrow>
         if control_fields_set value \<or> wu_max_bytes value \<noteq> 0 then
           Err (invalid_message ''interrupt-out transfer has control or max_bytes fields'')
         else and_then (wire_byte (wu_endpoint value) ''usb_transfer.endpoint'') (\<lambda>endpoint.
           usb_bounds (interrupt_out endpoint data))
     | USB_TRANSFER_KIND_INTERRUPT_IN \<Rightarrow>
         if control_fields_set value \<or> data \<noteq> [] then
           Err (invalid_message ''interrupt-in transfer has control or data fields'')
         else and_then (wire_byte (wu_endpoint value) ''usb_transfer.endpoint'') (\<lambda>endpoint.
           usb_bounds (interrupt_in endpoint max_bytes))
     | USB_TRANSFER_KIND_UNSPECIFIED \<Rightarrow>
         usb_bounds (Err (invalid_message ''usb_transfer.kind is required'')))"

definition usb_transfer_request_from_proto ::
  "v1_UsbTransferRequest \<Rightarrow> (SessionId \<times> LeaseToken \<times> UsbTransfer \<times> duration) hal_result" where
  "usb_transfer_request_from_proto value =
     and_then (nonzero_timeout (wu_timeout_ms value) ''usb_transfer.timeout_ms'') (\<lambda>timeout.
     and_then (parse_control_session_lease (wsl_session_id value) (wsl_lease value) ''USB'') (\<lambda>(session, lease).
     and_then (usb_transfer_from_proto value) (\<lambda>transfer.
     Ok (session, lease, transfer, timeout))))"

definition usb_transfer_response_from_proto :: "u8 list \<Rightarrow> u8 list hal_result" where
  "usb_transfer_response_from_proto data =
     (if length data > MAX_USB_TRANSFER_BYTES then
        Err (invalid_message ''usb_transfer_response data exceeds the public USB transfer bound'')
      else Ok data)"

definition usb_transfer_response_to_proto :: "u8 list \<Rightarrow> u8 list" where
  "usb_transfer_response_to_proto value = value"

section \<open>GPIO\<close>

definition bias_from_proto :: "i32 \<Rightarrow> GpioBias hal_result" where
  "bias_from_proto value =
     and_then (required_enum GpioBias_numbers value ''gpio_config.bias'') (\<lambda>b.
     case b of
       GPIO_BIAS_DISABLED \<Rightarrow> Ok Disabled
     | GPIO_BIAS_PULL_UP \<Rightarrow> Ok PullUp
     | GPIO_BIAS_PULL_DOWN \<Rightarrow> Ok PullDown
     | GPIO_BIAS_UNSPECIFIED \<Rightarrow> Err (invalid_message ''gpio_config.bias is required''))"

definition drive_from_proto :: "i32 \<Rightarrow> GpioDrive hal_result" where
  "drive_from_proto value =
     and_then (required_enum GpioDrive_numbers value ''gpio_config.drive'') (\<lambda>d.
     case d of
       GPIO_DRIVE_PUSH_PULL \<Rightarrow> Ok PushPull
     | GPIO_DRIVE_OPEN_DRAIN \<Rightarrow> Ok OpenDrain
     | GPIO_DRIVE_OPEN_SOURCE \<Rightarrow> Ok OpenSource
     | GPIO_DRIVE_UNSPECIFIED \<Rightarrow> Err (invalid_message ''gpio_config.drive is required''))"

text \<open>As for USB transfers, only the value of the match goes through \<open>map_err\<close>.\<close>

definition gpio_bounds :: "GpioLineConfig hal_result \<Rightarrow> GpioLineConfig hal_result" where
  "gpio_bounds config =
     map_err (\<lambda>_. invalid_message ''gpio_config violates the public GPIO configuration bounds'') config"

definition gpio_config_from_proto :: "v1_GpioLineConfig \<Rightarrow> GpioLineConfig hal_result" where
  "gpio_config_from_proto value =
     and_then (required_enum GpioDirection_numbers (wg_direction value) ''gpio_config.direction'') (\<lambda>direction.
     and_then (bias_from_proto (wg_bias value)) (\<lambda>bias.
     case direction of
       GPIO_DIRECTION_INPUT \<Rightarrow> gpio_bounds (GpioLineConfig_input (wg_active_low value) bias)
     | GPIO_DIRECTION_OUTPUT \<Rightarrow>
         and_then (drive_from_proto (wg_drive value)) (\<lambda>drive.
         and_then (ok_or (invalid_message ''gpio_config.initial_value is required for output'')
           (wg_initial_value value)) (\<lambda>initial_value.
         gpio_bounds (GpioLineConfig_output (wg_active_low value) initial_value drive)))
     | GPIO_DIRECTION_UNSPECIFIED \<Rightarrow>
         gpio_bounds (Err (invalid_message ''gpio_config.direction is required''))))"

fun bias_to_proto :: "GpioBias \<Rightarrow> v1_GpioBias" where
  "bias_to_proto Disabled = GPIO_BIAS_DISABLED"
| "bias_to_proto PullUp = GPIO_BIAS_PULL_UP"
| "bias_to_proto PullDown = GPIO_BIAS_PULL_DOWN"

fun drive_to_proto :: "GpioDrive \<Rightarrow> v1_GpioDrive" where
  "drive_to_proto PushPull = GPIO_DRIVE_PUSH_PULL"
| "drive_to_proto OpenDrain = GPIO_DRIVE_OPEN_DRAIN"
| "drive_to_proto OpenSource = GPIO_DRIVE_OPEN_SOURCE"

text \<open>\<open>None\<close> is the panic of \<open>expect\<close> on an output without a drive.\<close>

definition gpio_config_to_proto :: "GpioLineConfig \<Rightarrow> v1_GpioLineConfig option" where
  "gpio_config_to_proto value =
     map_option (\<lambda>(direction, drive, initial_value).
       \<lparr>wg_direction = enum_number GpioDirection_numbers direction, wg_active_low = gl_active_low value,
        wg_bias = enum_number GpioBias_numbers (bias_to_proto (gl_bias value)),
        wg_drive = enum_number GpioDrive_numbers drive, wg_initial_value = initial_value\<rparr>)
     (case gl_direction value of
        Input \<Rightarrow> Some (GPIO_DIRECTION_INPUT, GPIO_DRIVE_UNSPECIFIED, None)
      | Output \<Rightarrow> (case gl_drive value of
          None \<Rightarrow> None
        | Some drive \<Rightarrow> Some (GPIO_DIRECTION_OUTPUT, drive_to_proto drive, gl_initial_value value)))"

definition open_gpio_request_from_proto ::
  "v1_OpenGpioRequest \<Rightarrow> (ResourceSelector \<times> u32 list \<times> GpioLineConfig) hal_result" where
  "open_gpio_request_from_proto value =
     and_then (ok_or (invalid_message ''open_gpio selector is required'') (wog_selector value)) (\<lambda>selector.
     if wog_lines value = [] \<or> length (wog_lines value) > MAX_GPIO_EVENTS then
       Err (invalid_message ''open_gpio lines must be non-empty and bounded'')
     else
       and_then (ok_or (invalid_message ''open_gpio config is required'') (wog_config value)) (\<lambda>config.
       and_then (gpio_selector_from_proto selector) (\<lambda>selector.
       and_then (gpio_config_from_proto config) (\<lambda>config.
       Ok (selector, wog_lines value, config)))))"

definition gpio_edge_request_from_proto :: "v1_GpioNextEdgeRequest \<Rightarrow> GpioEdgeRequest hal_result" where
  "gpio_edge_request_from_proto value =
     and_then (case (wge_rising value, wge_falling value) of
         (True, True) \<Rightarrow> Ok EDGE_BOTH
       | (True, False) \<Rightarrow> Ok EDGE_RISING
       | (False, True) \<Rightarrow> Ok EDGE_FALLING
       | (False, False) \<Rightarrow> Err (invalid_message ''gpio_next_edge must select an edge'')) (\<lambda>edges.
     map_err (\<lambda>_. invalid_message ''gpio_next_edge capacity violates public bounds'')
       (GpioEdgeRequest_new edges (unat (wge_capacity value))))"

definition gpio_write_request_from_proto ::
  "v1_GpioWriteRequest \<Rightarrow> (SessionId \<times> LeaseToken \<times> bool list) hal_result" where
  "gpio_write_request_from_proto value =
     and_then (parse_control_session_lease (wsl_session_id value) (wsl_lease value) ''GPIO'') (\<lambda>(session, lease).
     if wgw_values value = [] \<or> length (wgw_values value) > MAX_GPIO_EVENTS then
       Err (invalid_message ''gpio_write values must be non-empty and bounded'')
     else Ok (session, lease, wgw_values value))"

definition gpio_next_edge_request_from_proto ::
  "v1_GpioNextEdgeRequest \<Rightarrow> (SessionId \<times> LeaseToken \<times> GpioEdgeRequest \<times> duration) hal_result" where
  "gpio_next_edge_request_from_proto value =
     and_then (nonzero_timeout (wge_timeout_ms value) ''gpio_next_edge.timeout_ms'') (\<lambda>timeout.
     and_then (parse_control_session_lease (wsl_session_id value) (wsl_lease value) ''GPIO'') (\<lambda>(session, lease).
     and_then (gpio_edge_request_from_proto value) (\<lambda>request.
     Ok (session, lease, request, timeout))))"

definition gpio_read_response_from_proto :: "bool list \<Rightarrow> bool list hal_result" where
  "gpio_read_response_from_proto values =
     (if values = [] \<or> length values > MAX_GPIO_EVENTS then
        Err (invalid_message ''gpio_read_response values must be non-empty and bounded'')
      else Ok values)"

definition gpio_read_response_to_proto :: "bool list \<Rightarrow> bool list" where
  "gpio_read_response_to_proto values = values"

fun edge_to_proto :: "GpioEdge \<Rightarrow> v1_GpioEdge" where
  "edge_to_proto Rising = GPIO_EDGE_RISING"
| "edge_to_proto Falling = GPIO_EDGE_FALLING"

definition gpio_edge_event_from_proto :: "v1_GpioEdgeEvent \<Rightarrow> GpioEdgeEvent hal_result" where
  "gpio_edge_event_from_proto value =
     and_then (required_enum GpioEdge_numbers (wgv_edge value) ''gpio_edge_event.edge'') (\<lambda>e.
     and_then (case e of
         GPIO_EDGE_RISING \<Rightarrow> Ok Rising
       | GPIO_EDGE_FALLING \<Rightarrow> Ok Falling
       | GPIO_EDGE_UNSPECIFIED \<Rightarrow> Err (invalid_message ''gpio_edge_event.edge is required'')) (\<lambda>edge.
     if wgv_sequence value = 0 then
       Err (invalid_message ''gpio_edge_event.sequence must be greater than zero'')
     else Ok \<lparr>ge_edge = edge, ge_monotonic_ns = wgv_monotonic_ns value, ge_sequence = wgv_sequence value\<rparr>))"

definition gpio_edge_event_to_proto :: "GpioEdgeEvent \<Rightarrow> v1_GpioEdgeEvent" where
  "gpio_edge_event_to_proto value =
     \<lparr>wgv_edge = enum_number GpioEdge_numbers (edge_to_proto (ge_edge value)),
      wgv_monotonic_ns = ge_monotonic_ns value, wgv_sequence = ge_sequence value\<rparr>"

definition gpio_next_edge_response_from_proto ::
  "v1_GpioEdgeEvent option \<Rightarrow> GpioEdgeEvent option hal_result" where
  "gpio_next_edge_response_from_proto event =
     transpose_opt (map_option gpio_edge_event_from_proto event)"

definition gpio_next_edge_response_to_proto :: "GpioEdgeEvent option \<Rightarrow> v1_GpioEdgeEvent option" where
  "gpio_next_edge_response_to_proto value = map_option gpio_edge_event_to_proto value"

section \<open>Errors and events\<close>

fun category_to_proto :: "ErrorCategory \<Rightarrow> v1_ErrorCategory" where
  "category_to_proto InvalidArgument = ERROR_CATEGORY_INVALID_ARGUMENT"
| "category_to_proto NotFound = ERROR_CATEGORY_NOT_FOUND"
| "category_to_proto Conflict = ERROR_CATEGORY_CONFLICT"
| "category_to_proto Unavailable = ERROR_CATEGORY_UNAVAILABLE"
| "category_to_proto Internal = ERROR_CATEGORY_INTERNAL"

definition category_from_proto :: "i32 \<Rightarrow> ErrorCategory hal_result" where
  "category_from_proto value =
     and_then (required_enum ErrorCategory_numbers value ''category'') (\<lambda>c.
     case c of
       ERROR_CATEGORY_INVALID_ARGUMENT \<Rightarrow> Ok InvalidArgument
     | ERROR_CATEGORY_NOT_FOUND \<Rightarrow> Ok NotFound
     | ERROR_CATEGORY_CONFLICT \<Rightarrow> Ok Conflict
     | ERROR_CATEGORY_UNAVAILABLE \<Rightarrow> Ok Unavailable
     | ERROR_CATEGORY_INTERNAL \<Rightarrow> Ok Internal
     | ERROR_CATEGORY_UNSPECIFIED \<Rightarrow> Err (invalid_message ''error category is required''))"

text \<open>An absent detail is the empty string on the wire.\<close>

definition error_to_proto :: "HalError \<Rightarrow> v1_Error" where
  "error_to_proto value =
     \<lparr>we_name = ErrorName_as_str (he_name value),
      we_category = enum_number ErrorCategory_numbers (category_to_proto (he_category value)),
      we_operation = OperationName_as_str (he_operation value),
      we_retryable = he_retryable value, we_debug_message = he_debug_message value,
      we_resource_id = (case he_resource_id value of None \<Rightarrow> [] | Some r \<Rightarrow> ResourceId_as_str r),
      we_platform_code = (case he_platform_code value of None \<Rightarrow> [] | Some c \<Rightarrow> c),
      we_vendor_code = (case he_vendor_code value of None \<Rightarrow> [] | Some c \<Rightarrow> c),
      we_context = ErrorContext_iter (he_context value)\<rparr>"

definition decode_resource_id :: "string \<Rightarrow> HalError \<Rightarrow> HalError hal_result" where
  "decode_resource_id resource_id error =
     (if resource_id \<noteq> [] then
        and_then (map_err (\<lambda>_. invalid_message ''error has an invalid resource_id'')
          (ResourceId_parse resource_id)) (\<lambda>r. Ok (with_resource_id r error))
      else Ok error)"

definition decode_platform_code :: "string \<Rightarrow> HalError \<Rightarrow> HalError hal_result" where
  "decode_platform_code platform_code error =
     (if platform_code \<noteq> [] then
        map_err (\<lambda>_. invalid_message ''error has an invalid platform_code'')
          (with_platform_code platform_code error)
      else Ok error)"

definition decode_vendor_code :: "string \<Rightarrow> HalError \<Rightarrow> HalError hal_result" where
  "decode_vendor_code vendor_code error =
     (if vendor_code \<noteq> [] then
        map_err (\<lambda>_. invalid_message ''error has an invalid vendor_code'')
          (with_vendor_code vendor_code error)
      else Ok error)"

definition error_from_proto :: "v1_Error \<Rightarrow> HalError hal_result" where
  "error_from_proto value =
     and_then (category_from_proto (we_category value)) (\<lambda>category.
     and_then (map_err (\<lambda>_. invalid_message ''error has invalid name or operation'')
       (HalError_new (we_name value) category (we_operation value) (we_retryable value)
         (we_debug_message value))) (\<lambda>error.
     and_then (decode_resource_id (we_resource_id value) error) (\<lambda>error.
     and_then (decode_platform_code (we_platform_code value) error) (\<lambda>error.
     and_then (decode_vendor_code (we_vendor_code value) error) (\<lambda>error.
     and_then (map_err (\<lambda>_. invalid_message ''error has an invalid context'')
       (ErrorContext_new (we_context value))) (\<lambda>context.
     Ok (with_context context error)))))))"

fun event_kind_to_proto :: "RuntimeEventKind \<Rightarrow> v1_RuntimeEventKind" where
  "event_kind_to_proto SessionOpened = RUNTIME_EVENT_KIND_SESSION_OPENED"
| "event_kind_to_proto SessionClosed = RUNTIME_EVENT_KIND_SESSION_CLOSED"
| "event_kind_to_proto CanBusActive = RUNTIME_EVENT_KIND_CAN_BUS_ACTIVE"
| "event_kind_to_proto CanBusWarning = RUNTIME_EVENT_KIND_CAN_BUS_WARNING"
| "event_kind_to_proto CanBusPassive = RUNTIME_EVENT_KIND_CAN_BUS_PASSIVE"
| "event_kind_to_proto CanBusOff = RUNTIME_EVENT_KIND_CAN_BUS_OFF"
| "event_kind_to_proto CanBusStopped = RUNTIME_EVENT_KIND_CAN_BUS_STOPPED"
| "event_kind_to_proto CanBusUnknown = RUNTIME_EVENT_KIND_CAN_BUS_UNKNOWN"

definition RuntimeEvent_to_proto :: "RuntimeEvent \<Rightarrow> v1_RuntimeEvent" where
  "RuntimeEvent_to_proto value =
     \<lparr>wv_sequence = ev_sequence value,
      wv_kind = enum_number RuntimeEventKind_numbers (event_kind_to_proto (ev_kind value)),
      wv_name = RuntimeEventKind_name (ev_kind value),
      wv_resource_id = ResourceId_as_str (ev_resource_id value),
      wv_session_id = SessionId_as_str (ev_session_id value),
      wv_owner_id = OwnerId_as_str (ev_owner_id value),
      wv_lease_generation = ev_lease_generation value\<rparr>"

section \<open>Laws of the conversions\<close>

text \<open>
  A decoder \<^emph>\<open>rejects uniformly\<close> when each of its failures is the one error
  \<open>runtime.protocol.invalid_message\<close>, whatever validation below it failed.
\<close>

definition rejects_uniformly :: "'a hal_result \<Rightarrow> bool" where
  "rejects_uniformly r \<longleftrightarrow> (case r of Ok _ \<Rightarrow> True | Err e \<Rightarrow> e = invalid_message (he_debug_message e))"

lemma rejects_Ok [simp]: "rejects_uniformly (Ok x)"
  by (simp add: rejects_uniformly_def)

lemma rejects_Err [simp]: "rejects_uniformly (Err (invalid_message m))"
  by (simp add: rejects_uniformly_def invalid_message_def hal_error_def)

lemma rejects_simps [simp]:
  "rejects_uniformly (map_err (\<lambda>_. invalid_message m) r)"
  "rejects_uniformly (ok_or (invalid_message m) v)"
  by (cases r; simp) (cases v; simp)

lemma rejects_helpers [simp]:
  "rejects_uniformly (required_enum t n f)" "rejects_uniformly (wire_byte w f)"
  "rejects_uniformly (wire_u16 w f)" "rejects_uniformly (nonzero_timeout ms f)"
  by (simp_all add: required_enum_def wire_byte_def wire_u16_def nonzero_timeout_def)

lemma rejects_and_then [intro!]:
  "rejects_uniformly r \<Longrightarrow> (\<And>x. r = Ok x \<Longrightarrow> rejects_uniformly (f x)) \<Longrightarrow> rejects_uniformly (and_then r f)"
  by (cases r) (auto simp: rejects_uniformly_def)

lemma rejects_map_ok [simp]: "rejects_uniformly (map_ok f r) = rejects_uniformly r"
  by (cases r) (auto simp: rejects_uniformly_def)

lemma rejects_collect:
  "(\<And>r. r \<in> set rs \<Longrightarrow> rejects_uniformly r) \<Longrightarrow> rejects_uniformly (collect_results rs)"
  by (induction rs) auto

lemma rejects_transpose:
  "(\<And>x. r = Some x \<Longrightarrow> rejects_uniformly x) \<Longrightarrow> rejects_uniformly (transpose_opt r)"
  by (cases r) auto

lemma required_enum_Ok [simp]: "required_enum t n f = Ok v \<longleftrightarrow> enum_try_from t n = Some v"
  by (simp add: required_enum_def)

lemma try_narrow_Some:
  fixes b :: "'b::len word" and v :: "'a::len word"
  assumes "LENGTH('b) \<le> LENGTH('a)"
  shows "try_narrow v = Some b \<longleftrightarrow> v = ucast b"
proof
  assume "try_narrow v = Some b"
  then have "unat v < 2 ^ LENGTH('b)" "b = ucast v" by (auto simp: try_narrow_def split: if_splits)
  then show "v = ucast b"
    by (simp add: word_unat_eq_iff unsigned_ucast_eq take_bit_nat_eq_self assms)
next
  assume v: "v = ucast b"
  have l: "unat b < 2 ^ LENGTH('b)" by (rule unat_less_exp)
  also have "(2::nat) ^ LENGTH('b) \<le> 2 ^ LENGTH('a)" using assms by simp
  finally have "unat v = unat b" by (simp add: v unsigned_ucast_eq take_bit_nat_eq_self)
  with l show "try_narrow v = Some b"
    by (simp add: try_narrow_def word_unat_eq_iff unsigned_ucast_eq take_bit_nat_eq_self)
qed

end
