(* ===== verification/Wire_Laws.thy ===== *)
theory Wire_Laws
  imports Wire_Protocol
begin

text \<open>
  What the conversions of \<^theory_text>\<open>Wire_Protocol\<close> promise. Each encoder and decoder pair is
  shown to be a codec on the well-formed values of its type; where the decoder accepts no other
  message than the encoder's, the codec is canonical. The properties at the end state the round
  trips of errors, resource descriptors and serial configurations, the exact set of USB transfer
  messages, the negotiated version, and that every malformed message is rejected in the same way.
\<close>

section \<open>Enumerations\<close>

context wire_enum
begin

lemma decode_iff:
  "(\<And>v. g v = Ok x \<longleftrightarrow> v = h x) \<Longrightarrow>
     and_then (required_enum numbers n f) g = Ok x \<longleftrightarrow> n = enum_number numbers (h x)"
  by simp

end

lemma quality_from_Ok [simp]:
  "quality_from_proto n = Ok q \<longleftrightarrow> n = enum_number IdentityQuality_numbers (quality_to_proto q)"
  unfolding quality_from_proto_def
  by (rule IdentityQuality_wire.decode_iff) (cases q; simp split: v1_IdentityQuality.split)

text \<open>Every transport has a variant: the fallible signature of its encoder never fails.\<close>

fun transport_variant :: "TransportKind \<Rightarrow> v1_TransportKind" where
  "transport_variant TSerial = TRANSPORT_KIND_SERIAL"
| "transport_variant TCan = TRANSPORT_KIND_CAN"
| "transport_variant TUsb = TRANSPORT_KIND_USB"
| "transport_variant TGpio = TRANSPORT_KIND_GPIO"
| "transport_variant TCamera = TRANSPORT_KIND_CAMERA"

lemma transport_to_proto_Ok [simp]: "transport_to_proto k = Ok (transport_variant k)"
  by (cases k) simp_all

lemma transport_from_Ok [simp]:
  "transport_from_proto n = Ok k \<longleftrightarrow> n = enum_number TransportKind_numbers (transport_variant k)"
  unfolding transport_from_proto_def
  by (rule TransportKind_wire.decode_iff) (cases k; simp split: v1_TransportKind.split)

lemma data_bits_from_Ok [simp]:
  "data_bits_from_proto n = Ok b \<longleftrightarrow> n = enum_number DataBits_numbers (data_bits_to_proto b)"
  unfolding data_bits_from_proto_def
  by (rule DataBits_wire.decode_iff) (cases b; simp split: v1_DataBits.split)

lemma parity_from_Ok [simp]:
  "parity_from_proto n = Ok b \<longleftrightarrow> n = enum_number Parity_numbers (parity_to_proto b)"
  unfolding parity_from_proto_def
  by (rule Parity_wire.decode_iff) (cases b; simp split: v1_Parity.split)

lemma stop_bits_from_Ok [simp]:
  "stop_bits_from_proto n = Ok b \<longleftrightarrow> n = enum_number StopBits_numbers (stop_bits_to_proto b)"
  unfolding stop_bits_from_proto_def
  by (rule StopBits_wire.decode_iff) (cases b; simp split: v1_StopBits.split)

lemma flow_control_from_Ok [simp]:
  "flow_control_from_proto n = Ok b \<longleftrightarrow> n = enum_number FlowControl_numbers (flow_control_to_proto b)"
  unfolding flow_control_from_proto_def
  by (rule FlowControl_wire.decode_iff) (cases b; simp split: v1_FlowControl.split)

lemma bias_from_Ok [simp]:
  "bias_from_proto n = Ok b \<longleftrightarrow> n = enum_number GpioBias_numbers (bias_to_proto b)"
  unfolding bias_from_proto_def
  by (rule GpioBias_wire.decode_iff) (cases b; simp split: v1_GpioBias.split)

lemma drive_from_Ok [simp]:
  "drive_from_proto n = Ok b \<longleftrightarrow> n = enum_number GpioDrive_numbers (drive_to_proto b)"
  unfolding drive_from_proto_def
  by (rule GpioDrive_wire.decode_iff) (cases b; simp split: v1_GpioDrive.split)

lemma category_from_Ok [simp]:
  "category_from_proto n = Ok c \<longleftrightarrow> n = enum_number ErrorCategory_numbers (category_to_proto c)"
  unfolding category_from_proto_def
  by (rule ErrorCategory_wire.decode_iff) (cases c; simp split: v1_ErrorCategory.split)

section \<open>Leases and serial configurations\<close>

text \<open>A lease token on the wire has a non-zero generation.\<close>

definition wire_lease_wf :: "LeaseToken \<Rightarrow> bool" where
  "wire_lease_wf t \<longleftrightarrow> lease_token_wf t \<and> lt_generation t \<noteq> 0"

lemma LeaseToken_from_Ok [simp]:
  "LeaseToken_from_proto w = Ok t \<longleftrightarrow> wire_lease_wf t \<and> w = LeaseToken_to_proto t"
proof -
  have m: "(case v of LEASE_MODE_OBSERVE \<Rightarrow> Ok Observe | LEASE_MODE_CONTROL \<Rightarrow> Ok Control
      | LEASE_MODE_MAINTENANCE \<Rightarrow> Ok Maintenance | LEASE_MODE_UNSPECIFIED \<Rightarrow> Err e) = Ok m
      \<longleftrightarrow> v = lease_mode_to_proto m" for v m and e :: HalError
    by (cases m) (auto split: v1_LeaseMode.splits)
  show ?thesis
    by (cases w; cases t) (auto simp: LeaseToken_from_proto_def LeaseToken_to_proto_def m
        wire_lease_wf_def lease_token_wf_def LeaseToken_new_def)
qed

interpretation lease_wire: canonical_codec LeaseToken_to_proto LeaseToken_from_proto wire_lease_wf
  by unfold_locales auto

lemma parse_session_lease_Ok [simp]:
  "parse_session_lease s l = Ok (session, lease) \<longleftrightarrow>
     valid_identifier s \<and> session = SessionId s \<and> wire_lease_wf lease \<and> l = Some (LeaseToken_to_proto lease)"
  by (auto simp: parse_session_lease_def)

lemma parse_control_session_lease_Ok [simp]:
  "parse_control_session_lease s l c = Ok (session, lease) \<longleftrightarrow>
     parse_session_lease s l = Ok (session, lease) \<and> lt_mode lease = Control"
  "parse_serial_session_lease s l = Ok (session, lease) \<longleftrightarrow>
     parse_session_lease s l = Ok (session, lease) \<and> lt_mode lease = Control"
  by (auto simp: parse_control_session_lease_def parse_serial_session_lease_def simp del: parse_session_lease_Ok
      split: if_splits)

text \<open>
  A serial configuration that the wire carries exactly: a non-zero rate and a read timeout of
  whole milliseconds that fits 64 bits and is not zero.
\<close>

definition serial_wire_wf :: "SerialConfig \<Rightarrow> bool" where
  "serial_wire_wf c \<longleftrightarrow> sc_baud_rate c \<noteq> 0 \<and> 1000000 dvd sc_read_timeout c
     \<and> 0 < sc_read_timeout c \<and> as_millis (sc_read_timeout c) < 2 ^ 64"

lemma from_millis_timeout:
  "from_millis (timeout_millis d) = d \<longleftrightarrow> 1000000 dvd d \<and> as_millis d < 2 ^ 64"
proof (cases "as_millis d < 2 ^ 64")
  case True
  then have "unat (timeout_millis d) = d div 1000000"
    by (simp add: timeout_millis_def as_millis_def unat_of_nat)
  with True show ?thesis by (auto simp: from_millis_def) (metis dvd_triv_right)
next
  case False
  then have "2 ^ 64 * 1000000 \<le> d" unfolding as_millis_def
    by (metis div_le_dividend leI less_mult_imp_div_less linorder_not_le mult.commute)
  moreover have "from_millis (timeout_millis d) < 2 ^ 64 * 1000000"
    using unat_less_exp [of "timeout_millis d"] by (simp add: from_millis_def)
  ultimately show ?thesis using False by auto
qed

lemma SerialConfig_from_Ok:
  "SerialConfig_from_proto w = Ok c \<longleftrightarrow>
     sc_baud_rate c \<noteq> 0 \<and> ws_read_timeout_ms w \<noteq> 0
     \<and> sc_read_timeout c = from_millis (ws_read_timeout_ms w)
     \<and> w = (SerialConfig_to_proto c)\<lparr>ws_read_timeout_ms := ws_read_timeout_ms w\<rparr>"
  by (cases w; cases c) (auto simp: SerialConfig_from_proto_def SerialConfig_to_proto_def)

lemma timeout_millis_from [simp]: "timeout_millis (from_millis ms) = ms"
  using unat_less_exp [of ms] by (simp add: timeout_millis_def)

interpretation serial_wire: canonical_codec SerialConfig_to_proto SerialConfig_from_proto serial_wire_wf
proof unfold_locales
  show "serial_wire_wf c" if "SerialConfig_from_proto w = Ok c" for w c
    using that unat_less_exp [of "ws_read_timeout_ms w"]
    by (auto simp: SerialConfig_from_Ok serial_wire_wf_def from_millis_def as_millis_def unat_gt_0)
  show "SerialConfig_from_proto (SerialConfig_to_proto c) = Ok c" if "serial_wire_wf c" for c
    using that from_millis_timeout [of "sc_read_timeout c"]
    by (auto simp: SerialConfig_from_Ok serial_wire_wf_def SerialConfig_to_proto_def from_millis_def)
  show "SerialConfig_to_proto c = w" if "SerialConfig_from_proto w = Ok c" for w c
    using that by (cases w) (auto simp: SerialConfig_from_Ok SerialConfig_to_proto_def)
qed

section \<open>Resources\<close>

definition selector_wf :: "ResourceSelector \<Rightarrow> bool" where
  "selector_wf s \<longleftrightarrow> valid_identifier (ResourceId_as_str (rs_id s))"

definition selector_message :: "ResourceSelector \<Rightarrow> v1_ResourceSelector" where
  "selector_message s =
     \<lparr>w_resource_id = ResourceId_as_str (rs_id s),
      w_minimum_identity_quality =
        enum_number IdentityQuality_numbers (quality_to_proto (rs_minimum_identity_quality s)),
      w_transport = enum_number TransportKind_numbers (transport_variant (rs_transport s))\<rparr>"

lemma ResourceSelector_to_proto_Ok [simp]: "ResourceSelector_to_proto s = Ok (selector_message s)"
  by (simp add: ResourceSelector_to_proto_def selector_message_def)

lemma ResourceSelector_from_Ok [simp]:
  "ResourceSelector_from_proto w = Ok s \<longleftrightarrow> selector_wf s \<and> w = selector_message s"
  by (cases w; cases s) (auto simp: ResourceSelector_from_proto_def selector_message_def selector_wf_def
      ResourceSelector_exact_def)

interpretation selector_wire: canonical_codec selector_message ResourceSelector_from_proto selector_wf
  by unfold_locales auto

lemma selector_for_transport_Ok [simp]:
  "selector_for_transport w t l = Ok s \<longleftrightarrow> selector_wf s \<and> w = selector_message s \<and> rs_transport s = t"
  by (auto simp: selector_for_transport_def)

lemma serial_selector_from_Ok [simp]:
  "serial_selector_from_proto w = Ok s \<longleftrightarrow> selector_wf s \<and> w = selector_message s \<and> rs_transport s = TSerial"
  by (auto simp: serial_selector_from_proto_def)

definition descriptor_wf :: "ResourceDescriptor \<Rightarrow> bool" where
  "descriptor_wf d \<longleftrightarrow> valid_identifier (ResourceId_as_str (rd_id d))
     \<and> valid_endpoint (Endpoint_as_str (rd_endpoint d)) \<and> bt_wf (rd_properties d)
     \<and> list_all (valid_capability \<circ> CapabilityId_as_str) (rd_capabilities d)"

text \<open>The capabilities a peer reads: an empty list stands for the serial capability.\<close>

definition implied_capabilities :: "ResourceDescriptor \<Rightarrow> CapabilityId list" where
  "implied_capabilities d = (if rd_capabilities d = [] then [CapabilityId SERIAL_CAPABILITY] else rd_capabilities d)"

lemma serial_capability_valid: "valid_capability SERIAL_CAPABILITY"
proof -
  have "SERIAL_CAPABILITY = join_with (CHR ''.'') [''serial'', ''bytes''] @ ''/v'' @ ''1''"
    by (simp add: SERIAL_CAPABILITY_def)
  moreover have "valid_identifier SERIAL_CAPABILITY" by (simp add: SERIAL_CAPABILITY_def identifier_eval)
  ultimately show ?thesis
    unfolding valid_capability_def
    by (intro conjI exI [of _ "[''serial'', ''bytes'']"] exI [of _ "''1''"])
       (simp_all add: ascii_digit_def digits_value_def)
qed

lemma collect_capabilities:
  "collect_results (map (\<lambda>c. map_err f (CapabilityId_parse c)) ws) = Ok cs \<longleftrightarrow>
     list_all (valid_capability \<circ> CapabilityId_as_str) cs \<and> ws = map CapabilityId_as_str cs"
  by (auto simp: collect_results_map_eq_Ok list_all2_conv_all_nth list_all_length CapabilityId_parse_Ok
      intro!: nth_equalityI)

lemma descriptor_capabilities_Ok:
  "descriptor_capabilities t ws = Ok cs \<longleftrightarrow>
     (if ws = [] then t = TSerial \<and> cs = [CapabilityId SERIAL_CAPABILITY]
      else list_all (valid_capability \<circ> CapabilityId_as_str) cs \<and> ws = map CapabilityId_as_str cs)"
  by (auto simp: descriptor_capabilities_def collect_capabilities)

lemma ResourceDescriptor_from_wf:
  assumes "ResourceDescriptor_from_proto w = Ok d" "distinct (map fst (wd_properties w))"
  shows "descriptor_wf d"
  using assms by (auto simp: ResourceDescriptor_from_proto_def descriptor_wf_def selector_wf_def
      descriptor_capabilities_Ok bt_wf_of_list serial_capability_valid split: if_splits)

section \<open>Errors\<close>

lemma error_context_permuted:
  assumes "error_context_wf c" "mset es = mset (ErrorContext_iter c)"
  shows "ErrorContext_new es = Ok c"
proof -
  have ok: "entries_ok es"
    using assms(1) entries_ok_mset [OF assms(2)] by (simp add: error_context_wf_def)
  then have d: "distinct (map fst es)" by (simp add: entries_ok_def)
  have "bt_of_list es = ErrorContext_iter c"
    using assms by (simp add: bt_of_list_iff [OF d] error_context_wf_def)
  with ok show ?thesis by (cases c) (simp add: ErrorContext_new_Ok)
qed

text \<open>An optional detail on the wire, and what the decoder reads back from it.\<close>

definition detail :: "string option \<Rightarrow> string" where
  "detail c = (case c of None \<Rightarrow> [] | Some s \<Rightarrow> s)"

lemma detail_cases:
  "(\<exists>c. pred_option valid_identifier c \<and> s = detail c \<and> P c) \<longleftrightarrow>
     (if s = [] then P None else valid_identifier s \<and> P (Some s))"
proof -
  have "valid_identifier [] = False" by (simp add: valid_identifier_def)
  then show ?thesis by (auto simp: detail_def split: option.splits)
qed

lemma detail_stages:
  "he_resource_id x = None \<Longrightarrow> decode_resource_id s x = Ok y
     \<longleftrightarrow> (\<exists>c. pred_option valid_identifier c \<and> s = detail c \<and> y = x\<lparr>he_resource_id := map_option ResourceId c\<rparr>)"
  "he_platform_code x = None \<Longrightarrow> decode_platform_code s x = Ok y
     \<longleftrightarrow> (\<exists>c. pred_option valid_identifier c \<and> s = detail c \<and> y = x\<lparr>he_platform_code := c\<rparr>)"
  "he_vendor_code x = None \<Longrightarrow> decode_vendor_code s x = Ok y
     \<longleftrightarrow> (\<exists>c. pred_option valid_identifier c \<and> s = detail c \<and> y = x\<lparr>he_vendor_code := c\<rparr>)"
  unfolding detail_cases decode_resource_id_def decode_platform_code_def decode_vendor_code_def
  by (auto simp: with_code_Ok with_resource_id_def)

lemma hal_error_details [simp]:
  "he_resource_id (hal_error n c oper r m) = None" "he_platform_code (hal_error n c oper r m) = None"
  "he_vendor_code (hal_error n c oper r m) = None"
  by (simp_all add: hal_error_def)

lemma error_from_stages:
  "error_from_proto w = Ok e \<longleftrightarrow>
     (\<exists>c r p v x. category_from_proto (we_category w) = Ok c
        \<and> valid_identifier (we_name w) \<and> valid_identifier (we_operation w)
        \<and> pred_option valid_identifier r \<and> we_resource_id w = detail r
        \<and> pred_option valid_identifier p \<and> we_platform_code w = detail p
        \<and> pred_option valid_identifier v \<and> we_vendor_code w = detail v
        \<and> ErrorContext_new (we_context w) = Ok x
        \<and> e = \<lparr>he_name = ErrorName (we_name w), he_category = c, he_operation = OperationName (we_operation w),
            he_retryable = we_retryable w, he_debug_message = we_debug_message w,
            he_resource_id = map_option ResourceId r, he_platform_code = p, he_vendor_code = v,
            he_context = x\<rparr>)"
proof -
  have pull: "(\<exists>y. (\<exists>c. A c \<and> B c \<and> y = g c) \<and> Q y) \<longleftrightarrow> (\<exists>c. A c \<and> B c \<and> Q (g c))"
    for A B :: "string option \<Rightarrow> bool" and g :: "string option \<Rightarrow> HalError" and Q by blast
  have "error_from_proto w = Ok e \<longleftrightarrow>
     (\<exists>c r p v x. category_from_proto (we_category w) = Ok c
        \<and> valid_identifier (we_name w) \<and> valid_identifier (we_operation w)
        \<and> pred_option valid_identifier r \<and> we_resource_id w = detail r
        \<and> pred_option valid_identifier p \<and> we_platform_code w = detail p
        \<and> pred_option valid_identifier v \<and> we_vendor_code w = detail v
        \<and> ErrorContext_new (we_context w) = Ok x
        \<and> e = with_context x ((hal_error (we_name w) c (we_operation w) (we_retryable w)
             (we_debug_message w))\<lparr>he_resource_id := map_option ResourceId r, he_platform_code := p,
             he_vendor_code := v\<rparr>))"
    unfolding error_from_proto_def and_then_eq_Ok map_err_eq_Ok HalError_new_Ok
    by (simp add: detail_stages pull eq_commute [of e] del: category_from_Ok cong: conj_cong)
  then show ?thesis by (simp only: hal_error_def with_context_def) simp
qed

lemma error_to_proto_details:
  "we_platform_code (error_to_proto e) = detail (he_platform_code e)"
  "we_vendor_code (error_to_proto e) = detail (he_vendor_code e)"
  "we_resource_id (error_to_proto e) = detail (map_option ResourceId_as_str (he_resource_id e))"
  by (auto simp: error_to_proto_def detail_def split: option.split)

lemma error_from_proto_Ok:
  "error_from_proto w = Ok e \<longleftrightarrow>
     hal_error_wf e \<and> mset (we_context w) = mset (ErrorContext_iter (he_context e))
     \<and> w = (error_to_proto e)\<lparr>we_context := we_context w\<rparr>" (is "_ \<longleftrightarrow> ?R")
proof
  assume "error_from_proto w = Ok e"
  then obtain c r p v x where *: "we_category w = enum_number ErrorCategory_numbers (category_to_proto c)"
      "valid_identifier (we_name w)" "valid_identifier (we_operation w)"
      "pred_option valid_identifier r" "we_resource_id w = detail r"
      "pred_option valid_identifier p" "we_platform_code w = detail p"
      "pred_option valid_identifier v" "we_vendor_code w = detail v"
      "ErrorContext_new (we_context w) = Ok x"
    and e: "e = \<lparr>he_name = ErrorName (we_name w), he_category = c, he_operation = OperationName (we_operation w),
        he_retryable = we_retryable w, he_debug_message = we_debug_message w,
        he_resource_id = map_option ResourceId r, he_platform_code = p, he_vendor_code = v, he_context = x\<rparr>"
    by (auto simp: error_from_stages)
  have "hal_error_wf e"
    using * error_context.dec_wf [OF *(10)]
    by (auto simp: hal_error_wf_def e option.pred_map o_def)
  moreover have "mset (we_context w) = mset (ErrorContext_iter x)"
    using *(10) by (auto simp: ErrorContext_new_Ok entries_ok_def mset_bt_of_list)
  moreover have "w = (error_to_proto e)\<lparr>we_context := we_context w\<rparr>"
    using * error_to_proto_details [of e] by (cases w) (simp add: e error_to_proto_def option.map_comp o_def option.map_ident)
  ultimately show ?R by (simp add: e)
next
  assume r: ?R
  let ?r = "map_option ResourceId_as_str (he_resource_id e)"
  obtain es where w: "w = (error_to_proto e)\<lparr>we_context := es\<rparr>" using r by blast
  have "ErrorContext_new (we_context w) = Ok (he_context e)"
    using r error_context_permuted by (simp add: hal_error_wf_def)
  then show "error_from_proto w = Ok e"
    unfolding error_from_stages
    using r by (intro exI [of _ "he_category e"] exI [of _ ?r] exI [of _ "he_platform_code e"]
        exI [of _ "he_vendor_code e"] exI [of _ "he_context e"])
      (simp add: w error_to_proto_details hal_error_wf_def option.pred_map o_def option.map_comp option.map_ident,
        simp add: error_to_proto_def)
qed

section \<open>GPIO and USB\<close>

lemma gpio_config_round_trip:
  assumes "gpio_config_wf c"
  shows "\<exists>w. gpio_config_to_proto c = Some w \<and> gpio_config_from_proto w = Ok c"
  using assms
  by (cases c, auto simp: gpio_config_wf_def gpio_config_to_proto_def gpio_config_from_proto_def gpio_bounds_def
      GpioLineConfig_input_def GpioLineConfig_output_def split: GpioDirection.splits)
    (metis bias_to_proto.simps(1))

lemma gpio_config_from_wf:
  assumes "gpio_config_from_proto w = Ok c"
  shows "gpio_config_wf c"
proof -
  obtain k where "wg_direction w = enum_number GpioDirection_numbers k"
    using assms by (auto simp: gpio_config_from_proto_def)
  with assms show ?thesis
    by (cases k) (auto simp: gpio_config_from_proto_def gpio_bounds_def dest: gpio_config_Ok)
qed

definition edge_event_wf :: "GpioEdgeEvent \<Rightarrow> bool" where
  "edge_event_wf e \<longleftrightarrow> ge_sequence e \<noteq> 0"

lemma gpio_edge_event_from_Ok:
  "gpio_edge_event_from_proto w = Ok e \<longleftrightarrow> edge_event_wf e \<and> w = gpio_edge_event_to_proto e"
proof -
  have m: "(case v of GPIO_EDGE_RISING \<Rightarrow> Ok Rising | GPIO_EDGE_FALLING \<Rightarrow> Ok Falling
      | GPIO_EDGE_UNSPECIFIED \<Rightarrow> Err x) = Ok m \<longleftrightarrow> v = edge_to_proto m" for v m and x :: HalError
    by (cases m) (auto split: v1_GpioEdge.splits)
  show ?thesis
    by (cases w; cases e) (auto simp: gpio_edge_event_from_proto_def gpio_edge_event_to_proto_def m edge_event_wf_def)
qed

interpretation edge_event_wire: canonical_codec gpio_edge_event_to_proto gpio_edge_event_from_proto edge_event_wf
  by unfold_locales (auto simp: gpio_edge_event_from_Ok)

interpretation edge_response_wire: optional_codec gpio_edge_event_to_proto gpio_edge_event_from_proto edge_event_wf
  by unfold_locales

lemma gpio_edge_request_from_Ok:
  "gpio_edge_request_from_proto w = Ok r \<longleftrightarrow>
     edge_request_wf r \<and> er_capacity r = unat (wge_capacity w)
     \<and> er_edges r = EdgeMask (of_bool (wge_rising w) + 2 * of_bool (wge_falling w))"
  by (cases r) (auto simp: gpio_edge_request_from_proto_def GpioEdgeRequest_new_Ok edge_request_wf_def edge_masks
      split: bool.splits)

lemma narrow_Ok [simp]:
  "wire_byte w f = Ok b \<longleftrightarrow> w = ucast b" "wire_u16 w f = Ok h \<longleftrightarrow> w = ucast h"
  by (simp_all add: wire_byte_def wire_u16_def try_narrow_Some)

text \<open>The wire form of a transfer, as far as the decoder looks at it.\<close>

fun transfer_fields :: "UsbTransfer \<Rightarrow> v1_UsbTransferKind \<times> u32 list \<times> u8 list \<times> usize" where
  "transfer_fields (ControlOut rt rq v i d) =
     (USB_TRANSFER_KIND_CONTROL_OUT, [ucast rt, ucast rq, ucast v, ucast i, 0], d, 0)"
| "transfer_fields (ControlIn rt rq v i n) =
     (USB_TRANSFER_KIND_CONTROL_IN, [ucast rt, ucast rq, ucast v, ucast i, 0], [], n)"
| "transfer_fields (BulkOut e d) = (USB_TRANSFER_KIND_BULK_OUT, [0, 0, 0, 0, ucast e], d, 0)"
| "transfer_fields (BulkIn e n) = (USB_TRANSFER_KIND_BULK_IN, [0, 0, 0, 0, ucast e], [], n)"
| "transfer_fields (InterruptOut e d) = (USB_TRANSFER_KIND_INTERRUPT_OUT, [0, 0, 0, 0, ucast e], d, 0)"
| "transfer_fields (InterruptIn e n) = (USB_TRANSFER_KIND_INTERRUPT_IN, [0, 0, 0, 0, ucast e], [], n)"

definition request_fields :: "v1_UsbTransferRequest \<Rightarrow> i32 \<times> u32 list \<times> u8 list \<times> usize" where
  "request_fields w = (wu_kind w,
     [wu_request_type w, wu_request w, wu_value w, wu_index w, wu_endpoint w], wu_data w, unat (wu_max_bytes w))"

lemma usb_setup_Ok:
  "usb_setup w b = Ok t \<longleftrightarrow> (\<exists>rt rq v i. wu_request_type w = ucast rt \<and> wu_request w = ucast rq
     \<and> wu_value w = ucast v \<and> wu_index w = ucast i \<and> b rt rq v i = Ok t)"
  by (auto simp: usb_setup_def usb_bounds_def)

lemma usb_transfer_from_Ok:
  "usb_transfer_from_proto w = Ok t \<longleftrightarrow>
     usb_transfer_wf t \<and> request_fields w = map_prod (enum_number UsbTransferKind_numbers) (\<lambda>x. x) (transfer_fields t)"
  (is "_ \<longleftrightarrow> ?R")
proof
  assume *: "usb_transfer_from_proto w = Ok t"
  then obtain k where "wu_kind w = enum_number UsbTransferKind_numbers k"
    by (auto simp: usb_transfer_from_proto_def)
  with * show ?R
    by (cases k) (auto simp: usb_transfer_from_proto_def usb_setup_Ok usb_bounds_def usb_constructor_defs
        request_fields_def control_fields_set_def split: if_splits)
next
  assume ?R
  then show "usb_transfer_from_proto w = Ok t"
    by (cases t) (auto simp: usb_transfer_from_proto_def usb_setup_Ok usb_bounds_def usb_constructor_defs
        request_fields_def control_fields_set_def unat_eq_0)
qed

section \<open>Uniform rejection\<close>

lemma rejects_enums [simp]:
  "rejects_uniformly (quality_from_proto n)" "rejects_uniformly (transport_from_proto n)"
  "rejects_uniformly (data_bits_from_proto n)" "rejects_uniformly (parity_from_proto n)"
  "rejects_uniformly (stop_bits_from_proto n)" "rejects_uniformly (flow_control_from_proto n)"
  "rejects_uniformly (bias_from_proto n)" "rejects_uniformly (drive_from_proto n)"
  "rejects_uniformly (category_from_proto n)"
  unfolding quality_from_proto_def transport_from_proto_def data_bits_from_proto_def parity_from_proto_def
    stop_bits_from_proto_def flow_control_from_proto_def bias_from_proto_def drive_from_proto_def
    category_from_proto_def
  by (auto split: v1_IdentityQuality.split v1_TransportKind.split v1_DataBits.split v1_Parity.split
      v1_StopBits.split v1_FlowControl.split v1_GpioBias.split v1_GpioDrive.split v1_ErrorCategory.split)

lemma rejects_resources [simp]:
  "rejects_uniformly (ResourceSelector_from_proto w)" "rejects_uniformly (selector_for_transport w t l)"
  "rejects_uniformly (serial_selector_from_proto w)" "rejects_uniformly (ResourceDescriptor_from_proto d)"
  "rejects_uniformly (enumerate_serial_response_from_proto ds)"
proof -
  show s: "rejects_uniformly (ResourceSelector_from_proto w)" for w
    unfolding ResourceSelector_from_proto_def by auto
  then show "rejects_uniformly (selector_for_transport w t l)" "rejects_uniformly (serial_selector_from_proto w)"
    unfolding selector_for_transport_def serial_selector_from_proto_def by auto
  have "rejects_uniformly (descriptor_capabilities t cs)" for t cs
    unfolding descriptor_capabilities_def by (auto intro!: rejects_collect)
  with s show d: "rejects_uniformly (ResourceDescriptor_from_proto d)" for d
    unfolding ResourceDescriptor_from_proto_def by auto
  show "rejects_uniformly (enumerate_serial_response_from_proto ds)"
    unfolding enumerate_serial_response_from_proto_def by (auto intro!: rejects_collect d)
qed

lemma rejects_leases [simp]:
  "rejects_uniformly (LeaseToken_from_proto w)" "rejects_uniformly (parse_session_lease s l)"
  "rejects_uniformly (parse_serial_session_lease s l)" "rejects_uniformly (parse_control_session_lease s l c)"
proof -
  show t: "rejects_uniformly (LeaseToken_from_proto w)" for w
    unfolding LeaseToken_from_proto_def by (auto split: v1_LeaseMode.split)
  show p: "rejects_uniformly (parse_session_lease s l)" for s l
    unfolding parse_session_lease_def by (auto simp: t)
  show "rejects_uniformly (parse_serial_session_lease s l)" "rejects_uniformly (parse_control_session_lease s l c)"
    unfolding parse_serial_session_lease_def parse_control_session_lease_def
    by (auto simp: p split: prod.split)
qed

lemma rejects_serial [simp]:
  "rejects_uniformly (SerialConfig_from_proto w)" "rejects_uniformly (open_serial_request_from_proto r)"
proof -
  show "rejects_uniformly (SerialConfig_from_proto w)" for w unfolding SerialConfig_from_proto_def by auto
  then show "rejects_uniformly (open_serial_request_from_proto r)"
    unfolding open_serial_request_from_proto_def by auto
qed

lemma rejects_usb [simp]:
  "rejects_uniformly (usb_transfer_from_proto w)" "rejects_uniformly (usb_transfer_request_from_proto w)"
  "rejects_uniformly (open_usb_request_from_proto r)" "rejects_uniformly (usb_transfer_response_from_proto b)"
proof -
  have b: "rejects_uniformly (usb_bounds x)" for x by (simp add: usb_bounds_def)
  then have s: "rejects_uniformly (usb_setup w f)" for w f unfolding usb_setup_def by auto
  show t: "rejects_uniformly (usb_transfer_from_proto w)" for w
    unfolding usb_transfer_from_proto_def Let_def by (auto simp: b s split: v1_UsbTransferKind.split)
  show "rejects_uniformly (usb_transfer_request_from_proto w)"
    unfolding usb_transfer_request_from_proto_def by (auto simp: t split: prod.split)
  show "rejects_uniformly (open_usb_request_from_proto r)"
    unfolding open_usb_request_from_proto_def usb_selector_from_proto_def Let_def by auto
  show "rejects_uniformly (usb_transfer_response_from_proto b)"
    unfolding usb_transfer_response_from_proto_def by auto
qed

lemma rejects_gpio [simp]:
  "rejects_uniformly (gpio_config_from_proto c)" "rejects_uniformly (open_gpio_request_from_proto r)"
  "rejects_uniformly (gpio_edge_request_from_proto e)" "rejects_uniformly (gpio_write_request_from_proto w)"
  "rejects_uniformly (gpio_next_edge_request_from_proto e)" "rejects_uniformly (gpio_read_response_from_proto vs)"
  "rejects_uniformly (gpio_edge_event_from_proto v)" "rejects_uniformly (gpio_next_edge_response_from_proto ov)"
proof -
  show c: "rejects_uniformly (gpio_config_from_proto c)" for c
    unfolding gpio_config_from_proto_def gpio_bounds_def by (auto split: v1_GpioDirection.split)
  then show "rejects_uniformly (open_gpio_request_from_proto r)"
    unfolding open_gpio_request_from_proto_def gpio_selector_from_proto_def by auto
  show e: "rejects_uniformly (gpio_edge_request_from_proto e)" for e
    unfolding gpio_edge_request_from_proto_def by (auto split: bool.split)
  then show "rejects_uniformly (gpio_next_edge_request_from_proto e)"
    unfolding gpio_next_edge_request_from_proto_def by (auto split: prod.split)
  show "rejects_uniformly (gpio_write_request_from_proto w)" "rejects_uniformly (gpio_read_response_from_proto vs)"
    unfolding gpio_write_request_from_proto_def gpio_read_response_from_proto_def by (auto split: prod.split)
  show v: "rejects_uniformly (gpio_edge_event_from_proto v)" for v
    unfolding gpio_edge_event_from_proto_def by (auto split: v1_GpioEdge.split)
  show "rejects_uniformly (gpio_next_edge_response_from_proto ov)"
    unfolding gpio_next_edge_response_from_proto_def by (auto intro!: rejects_transpose v)
qed

lemma rejects_error [simp]: "rejects_uniformly (error_from_proto w)"
  unfolding error_from_proto_def decode_resource_id_def decode_platform_code_def decode_vendor_code_def by auto

section \<open>Properties\<close>

text \<open>
  C11. Errors over the wire: a decoded error is well formed, and an error is decoded from exactly
  the messages that its encoder produces, with the entries of the context map in any order. In
  particular every well-formed error survives the wire unchanged and no two errors share a message.
\<close>

theorem error_wire_round_trip:
  "error_from_proto w = Ok e \<longleftrightarrow>
     hal_error_wf e \<and> (\<exists>es. mset es = mset (we_context (error_to_proto e))
                          \<and> w = (error_to_proto e)\<lparr>we_context := es\<rparr>)"
proof -
  have "we_context (error_to_proto e) = ErrorContext_iter (he_context e)" by (simp add: error_to_proto_def)
  then show ?thesis unfolding error_from_proto_Ok by (auto intro: exI [of _ "we_context w"])
qed

lemma descriptor_from_to:
  assumes "descriptor_wf d" "ResourceDescriptor_to_proto d = Ok w" "mset es = mset (wd_properties w)"
  shows "ResourceDescriptor_from_proto (w\<lparr>wd_properties := es\<rparr>) =
    and_then (descriptor_capabilities (rd_transport d) (map CapabilityId_as_str (rd_capabilities d)))
      (\<lambda>cs. Ok (d\<lparr>rd_capabilities := cs\<rparr>))"
proof -
  have w: "w = \<lparr>wd_resource_id = ResourceId_as_str (rd_id d), wd_endpoint = Endpoint_as_str (rd_endpoint d),
      wd_identity_quality = enum_number IdentityQuality_numbers (quality_to_proto (rd_minimum_identity_quality d)),
      wd_transport = enum_number TransportKind_numbers (transport_variant (rd_transport d)),
      wd_properties = rd_properties d, wd_capabilities = map CapabilityId_as_str (rd_capabilities d)\<rparr>"
    using assms(2) by (auto simp: ResourceDescriptor_to_proto_def)
  let ?s = "ResourceDescriptor_selector d"
  have s: "ResourceSelector_from_proto (selector_message ?s) = Ok ?s"
    using assms(1) by (simp add: descriptor_wf_def selector_wf_def ResourceDescriptor_selector_def ResourceSelector_exact_def)
  have m: "selector_message ?s = \<lparr>w_resource_id = ResourceId_as_str (rd_id d),
      w_minimum_identity_quality = enum_number IdentityQuality_numbers (quality_to_proto (rd_minimum_identity_quality d)),
      w_transport = enum_number TransportKind_numbers (transport_variant (rd_transport d))\<rparr>"
    by (simp add: selector_message_def ResourceDescriptor_selector_def ResourceSelector_exact_def)
  have e: "Endpoint_new (Endpoint_as_str (rd_endpoint d)) = Ok (rd_endpoint d)"
    using assms(1) by (simp add: descriptor_wf_def)
  have ms: "mset es = mset (rd_properties d)" and wf: "bt_wf (rd_properties d)"
    using assms(1,3) by (simp_all add: w descriptor_wf_def)
  then have "distinct (map fst es)"
    using mset_eq_imp_distinct_iff [of "map fst es" "map fst (rd_properties d)"] bt_wf_distinct by (simp add: mset_map)
  with ms wf have p: "bt_of_list es = rd_properties d" by (simp add: bt_of_list_iff)
  show ?thesis
    by (simp add: w ResourceDescriptor_from_proto_def s [unfolded m] e p)
       (cases d, simp add: ResourceDescriptor_selector_def ResourceSelector_exact_def)
qed

text \<open>
  C28. Resource descriptors over the wire: a well-formed descriptor is read back unchanged, whatever
  the order of its property map, when it names a capability. A descriptor without capabilities is
  read back with the serial capability when its transport is serial and is rejected otherwise.
\<close>

theorem descriptor_wire_round_trip:
  assumes "descriptor_wf d" "ResourceDescriptor_to_proto d = Ok w" "mset es = mset (wd_properties w)"
  shows "ResourceDescriptor_from_proto (w\<lparr>wd_properties := es\<rparr>) =
    (if rd_capabilities d = [] \<and> rd_transport d \<noteq> TSerial
     then Err (invalid_message ''CAN resource descriptor requires explicit capabilities'')
     else Ok (d\<lparr>rd_capabilities := implied_capabilities d\<rparr>))"
proof (cases "rd_capabilities d = []")
  case True
  then show ?thesis
    by (auto simp: descriptor_from_to [OF assms] descriptor_capabilities_def implied_capabilities_def)
next
  case False
  then have "descriptor_capabilities (rd_transport d) (map CapabilityId_as_str (rd_capabilities d)) = Ok (rd_capabilities d)"
    using assms(1) by (simp add: descriptor_capabilities_Ok descriptor_wf_def)
  with False show ?thesis by (simp add: descriptor_from_to [OF assms] implied_capabilities_def)
qed

lemma descriptor_wire_round_trip_witness:
  "let d = \<lparr>rd_id = ResourceId ''can0'', rd_endpoint = Endpoint ''vcan0'', rd_minimum_identity_quality = Strong,
        rd_transport = TCan, rd_properties = [(''bus'', ''1''), (''name'', ''left'')],
        rd_capabilities = [CapabilityId SERIAL_CAPABILITY]\<rparr>;
       w = \<lparr>wd_resource_id = ''can0'', wd_endpoint = ''vcan0'', wd_identity_quality = 3, wd_transport = 2,
        wd_properties = [(''name'', ''left''), (''bus'', ''1'')], wd_capabilities = [SERIAL_CAPABILITY]\<rparr>
   in ResourceDescriptor_from_proto w = Ok d"
proof -
  let ?d = "\<lparr>rd_id = ResourceId ''can0'', rd_endpoint = Endpoint ''vcan0'', rd_minimum_identity_quality = Strong,
        rd_transport = TCan, rd_properties = [(''bus'', ''1''), (''name'', ''left'')],
        rd_capabilities = [CapabilityId SERIAL_CAPABILITY]\<rparr>"
  let ?w = "\<lparr>wd_resource_id = ''can0'', wd_endpoint = ''vcan0'', wd_identity_quality = 3, wd_transport = 2,
        wd_properties = [(''bus'', ''1''), (''name'', ''left'')], wd_capabilities = [SERIAL_CAPABILITY]\<rparr>"
  have "descriptor_wf ?d"
    by (simp add: descriptor_wf_def identifier_eval valid_endpoint_def bt_wf_def serial_capability_valid)
  moreover have "ResourceDescriptor_to_proto ?d = Ok ?w"
    by (simp add: ResourceDescriptor_to_proto_def IdentityQuality_numbers_def TransportKind_numbers_def)
  ultimately show ?thesis
    using descriptor_wire_round_trip [of ?d ?w "[(''name'', ''left''), (''bus'', ''1'')]"]
    by (simp add: implied_capabilities_def)
qed

text \<open>
  C32. Version negotiation: the negotiated minor is the greatest one that lies in the range of both
  peers, and it exists exactly when both ranges are non-empty, the majors agree and the ranges meet.
\<close>

theorem negotiated_minor_is_greatest_common:
  "negotiate_protocol_minor cmaj cmin cmax bmaj bmin bmax = Ok m \<longleftrightarrow>
     cmaj = bmaj \<and> {cmin..cmax} \<inter> {bmin..bmax} \<noteq> {} \<and> m = Max ({cmin..cmax} \<inter> {bmin..bmax})"
proof -
  have i: "{cmin..cmax} \<inter> {bmin..bmax} = {max cmin bmin..min cmax bmax}" by auto
  have x: "Max {l..u} = u" if "l \<le> u" for l u :: u32
    using that by (intro Max_eqI) auto
  have "negotiate_protocol_minor cmaj cmin cmax bmaj bmin bmax = Ok m \<longleftrightarrow>
      cmaj = bmaj \<and> max cmin bmin \<le> min cmax bmax \<and> m = min cmax bmax"
    by (auto simp: negotiate_protocol_minor_def Let_def not_less min_less_iff_disj less_max_iff_disj)
  then show ?thesis unfolding i using x by auto
qed

text \<open>
  C36. Serial configurations over the wire: a configuration is read back unchanged exactly when its
  rate is not zero and its read timeout is a positive whole number of milliseconds below \<open>2 ^ 64\<close>;
  a shorter timeout becomes zero on the wire and is rejected by the peer.
\<close>

theorem serial_config_wire_round_trip:
  "SerialConfig_from_proto (SerialConfig_to_proto c) = Ok c \<longleftrightarrow>
     sc_baud_rate c \<noteq> 0 \<and> 1000000 dvd sc_read_timeout c \<and> 0 < sc_read_timeout c
     \<and> sc_read_timeout c div 1000000 < 2 ^ 64"
  using serial_wire.dec_iff [of "SerialConfig_to_proto c" c]
  by (simp add: serial_wire_wf_def as_millis_def)

text \<open>
  C29. Uniform rejection: whatever a peer sends, each decoder of the protocol crate either accepts it
  or fails with the error \<open>runtime.protocol.invalid_message\<close> (invalid argument, not retryable,
  operation \<open>runtime.protocol.decode\<close>); no validation error of the layers below leaks through.
\<close>

theorem malformed_messages_rejected_uniformly:
  "rejects_uniformly (ResourceSelector_from_proto selector)
   \<and> rejects_uniformly (ResourceDescriptor_from_proto descriptor)
   \<and> rejects_uniformly (enumerate_serial_response_from_proto descriptors)
   \<and> rejects_uniformly (open_serial_request_from_proto open_serial)
   \<and> rejects_uniformly (parse_serial_session_lease session lease)
   \<and> rejects_uniformly (parse_control_session_lease session lease hardware)
   \<and> rejects_uniformly (open_usb_request_from_proto open_usb)
   \<and> rejects_uniformly (usb_transfer_request_from_proto transfer)
   \<and> rejects_uniformly (usb_transfer_response_from_proto bytes)
   \<and> rejects_uniformly (open_gpio_request_from_proto open_gpio)
   \<and> rejects_uniformly (gpio_write_request_from_proto gpio_write)
   \<and> rejects_uniformly (gpio_next_edge_request_from_proto edge_request)
   \<and> rejects_uniformly (gpio_read_response_from_proto levels)
   \<and> rejects_uniformly (gpio_next_edge_response_from_proto edge)
   \<and> rejects_uniformly (error_from_proto error)"
  by simp

text \<open>An output line configuration loses the bias it was requested with.\<close>

lemma gpio_output_bias_ignored:
  "gpio_config_from_proto \<lparr>wg_direction = enum_number GpioDirection_numbers GPIO_DIRECTION_OUTPUT,
     wg_active_low = al, wg_bias = enum_number GpioBias_numbers (bias_to_proto b),
     wg_drive = enum_number GpioDrive_numbers (drive_to_proto d), wg_initial_value = Some v\<rparr>
   = Ok \<lparr>gl_direction = Output, gl_active_low = al, gl_bias = Disabled, gl_drive = Some d,
         gl_initial_value = Some v\<rparr>"
  by (auto simp: gpio_config_from_proto_def gpio_bounds_def GpioLineConfig_output_def)

end
