(* ===== verification/Wire_Can.thy ===== *)
theory Wire_Can
  imports Wire_Protocol
begin

text \<open>
  The CAN messages of \<open>src/proto/seeed/hal/v1/hal.proto\<close> and the conversions of
  \<open>src/crates/robot-hal-protocol/src/can_conversion.rs\<close> between them and the values of the CAN
  interface crate.
\<close>

section \<open>Messages\<close>

record v1_CanId =
  wci_value :: u32
  wci_format :: i32

record v1_CanFrame =
  wcf_id :: "v1_CanId option"
  wcf_kind :: i32
  wcf_data :: "u8 list"
  wcf_remote_dlc :: u32
  wcf_bitrate_switch :: bool
  wcf_error_state_indicator :: bool
  wcf_error_classes :: "i32 list"

record v1_CanTimestamp =
  wct_timestamp_ns :: u64
  wct_source :: i32
  wct_clock_domain :: string

record v1_ReceivedCanFrame =
  wrf_frame :: "v1_CanFrame option"
  wrf_timestamp :: "v1_CanTimestamp option"

record v1_CanBitTiming =
  wbt_bitrate :: u32
  wbt_sample_point_permill :: "u32 option"
  wbt_sjw :: "u32 option"

record v1_CanLinkExpectation =
  wlx_mode :: "i32 option"
  wlx_nominal_bitrate :: "u32 option"
  wlx_data_bitrate :: "u32 option"
  wlx_listen_only :: "bool option"
  wlx_loopback :: "bool option"

record v1_CanConfigureConfig =
  wcc_mode :: i32
  wcc_nominal :: "v1_CanBitTiming option"
  wcc_data :: "v1_CanBitTiming option"
  wcc_listen_only :: bool
  wcc_loopback :: bool
  wcc_restart_ms :: "u32 option"

datatype v1_can_open_config = ConfigAttach v1_CanLinkExpectation | ConfigConfigure v1_CanConfigureConfig

record v1_CanOpenConfig =
  woc_config :: "v1_can_open_config option"

record v1_CanActiveConfig =
  wac_mode :: i32
  wac_nominal :: "v1_CanBitTiming option"
  wac_data :: "v1_CanBitTiming option"
  wac_listen_only :: bool
  wac_loopback :: bool
  wac_clock_domain :: string

record v1_CanFrameClasses =
  wfc_data :: bool
  wfc_remote :: bool
  wfc_error :: bool

record v1_CanFilter =
  wfl_id :: u32
  wfl_mask :: u32
  wfl_format :: i32
  wfl_classes :: "v1_CanFrameClasses option"

record v1_CanFilterSet =
  wfs_filters :: "v1_CanFilter list"

record v1_CanBusStatus =
  wbs_state :: i32
  wbs_tx_error_counter :: "u32 option"
  wbs_rx_error_counter :: "u32 option"

record v1_OpenCanRequest =
  woq_selector :: "v1_ResourceSelector option"
  woq_mode :: i32
  woq_config :: "v1_CanOpenConfig option"
  woq_filters :: "v1_CanFilterSet option"

record v1_CanSendRequest = v1_SessionLease +
  wsq_frames :: "v1_CanFrame list"

record v1_CanSendResponse =
  wsr_committed_count :: u32
  wsr_error :: "v1_Error option"

record v1_CanReceiveRequest = v1_SessionLease +
  wrq_max_frames :: u32
  wrq_timeout_ms :: u64

record v1_ReplaceCanFiltersRequest = v1_SessionLease +
  wfr_filters :: "v1_CanFilterSet option"

section \<open>Frames\<close>

definition invalid :: "string \<Rightarrow> string \<Rightarrow> HalError" where
  "invalid field reason = invalid_message (field @ '' '' @ reason)"

definition required :: "'a option \<Rightarrow> string \<Rightarrow> 'a hal_result" where
  "required value field = ok_or (invalid field ''is required'') value"

definition mode_from_proto :: "i32 \<Rightarrow> string \<Rightarrow> CanMode hal_result" where
  "mode_from_proto value field =
     and_then (required_enum CanMode_numbers value field) (\<lambda>m.
     case m of
       CAN_MODE_CLASSIC \<Rightarrow> Ok Classic
     | CAN_MODE_FD \<Rightarrow> Ok Fd
     | CAN_MODE_UNSPECIFIED \<Rightarrow> Err (invalid field ''is required''))"

fun mode_to_proto :: "CanMode \<Rightarrow> v1_CanMode" where
  "mode_to_proto Classic = CAN_MODE_CLASSIC"
| "mode_to_proto Fd = CAN_MODE_FD"

definition lease_mode_from_proto :: "i32 \<Rightarrow> string \<Rightarrow> LeaseMode hal_result" where
  "lease_mode_from_proto value field =
     and_then (required_enum LeaseMode_numbers value field) (\<lambda>m.
     case m of
       LEASE_MODE_OBSERVE \<Rightarrow> Ok Observe
     | LEASE_MODE_CONTROL \<Rightarrow> Ok Control
     | LEASE_MODE_MAINTENANCE \<Rightarrow> Ok Maintenance
     | LEASE_MODE_UNSPECIFIED \<Rightarrow> Err (invalid field ''is required''))"

definition CanId_from_proto :: "v1_CanId \<Rightarrow> CanId hal_result" where
  "CanId_from_proto value =
     and_then (required_enum CanIdFormat_numbers (wci_format value) ''can_id.format'') (\<lambda>f.
     case f of
       CAN_ID_FORMAT_STANDARD \<Rightarrow>
         and_then (ok_or (invalid ''can_id.value'' ''exceeds the standard ID range'')
           (try_narrow (wci_value value))) (\<lambda>cid.
         map_err (\<lambda>_. invalid ''can_id.value'' ''exceeds the standard ID range'') (CanId_standard cid))
     | CAN_ID_FORMAT_EXTENDED \<Rightarrow>
         map_err (\<lambda>_. invalid ''can_id.value'' ''exceeds the extended ID range'') (CanId_extended (wci_value value))
     | CAN_ID_FORMAT_EITHER \<Rightarrow> Err (invalid ''can_id.format'' ''must be standard or extended for a frame'')
     | CAN_ID_FORMAT_UNSPECIFIED \<Rightarrow> Err (invalid ''can_id.format'' ''is required''))"

definition CanId_to_proto :: "CanId \<Rightarrow> v1_CanId" where
  "CanId_to_proto value =
     \<lparr>wci_value = CanId_value value,
      wci_format = enum_number CanIdFormat_numbers
        (if is_standard value then CAN_ID_FORMAT_STANDARD else CAN_ID_FORMAT_EXTENDED)\<rparr>"

definition error_class_from_proto :: "i32 \<Rightarrow> CanErrorClass hal_result" where
  "error_class_from_proto value =
     and_then (required_enum CanErrorClass_numbers value ''can_frame.error_classes'') (\<lambda>c.
     case c of
       CAN_ERROR_CLASS_TX_TIMEOUT \<Rightarrow> Ok TxTimeout
     | CAN_ERROR_CLASS_LOST_ARBITRATION \<Rightarrow> Ok LostArbitration
     | CAN_ERROR_CLASS_CONTROLLER \<Rightarrow> Ok Controller
     | CAN_ERROR_CLASS_PROTOCOL \<Rightarrow> Ok Protocol
     | CAN_ERROR_CLASS_TRANSCEIVER \<Rightarrow> Ok Transceiver
     | CAN_ERROR_CLASS_NO_ACKNOWLEDGEMENT \<Rightarrow> Ok NoAcknowledgement
     | CAN_ERROR_CLASS_BUS_OFF \<Rightarrow> Ok BusOff
     | CAN_ERROR_CLASS_BUS_ERROR \<Rightarrow> Ok BusError
     | CAN_ERROR_CLASS_RESTARTED \<Rightarrow> Ok Restarted
     | CAN_ERROR_CLASS_OTHER \<Rightarrow> Ok OtherError
     | CAN_ERROR_CLASS_UNSPECIFIED \<Rightarrow> Err (invalid ''can_frame.error_classes'' ''contains an unspecified value''))"

fun error_class_to_proto :: "CanErrorClass \<Rightarrow> v1_CanErrorClass" where
  "error_class_to_proto TxTimeout = CAN_ERROR_CLASS_TX_TIMEOUT"
| "error_class_to_proto LostArbitration = CAN_ERROR_CLASS_LOST_ARBITRATION"
| "error_class_to_proto Controller = CAN_ERROR_CLASS_CONTROLLER"
| "error_class_to_proto Protocol = CAN_ERROR_CLASS_PROTOCOL"
| "error_class_to_proto Transceiver = CAN_ERROR_CLASS_TRANSCEIVER"
| "error_class_to_proto NoAcknowledgement = CAN_ERROR_CLASS_NO_ACKNOWLEDGEMENT"
| "error_class_to_proto BusOff = CAN_ERROR_CLASS_BUS_OFF"
| "error_class_to_proto BusError = CAN_ERROR_CLASS_BUS_ERROR"
| "error_class_to_proto Restarted = CAN_ERROR_CLASS_RESTARTED"
| "error_class_to_proto OtherError = CAN_ERROR_CLASS_OTHER"

text \<open>The arms of the match on the kind of a frame.\<close>

definition frame_id :: "v1_CanFrame \<Rightarrow> CanId hal_result" where
  "frame_id value = and_then (required (wcf_id value) ''can_frame.id'') CanId_from_proto"

definition classic_data_from_proto :: "v1_CanFrame \<Rightarrow> CanFrame hal_result" where
  "classic_data_from_proto value =
     (if wcf_remote_dlc value \<noteq> 0 \<or> wcf_bitrate_switch value \<or> wcf_error_state_indicator value
         \<or> wcf_error_classes value \<noteq> [] then
        Err (invalid ''can_frame'' ''has fields incompatible with classic data'')
      else
        and_then (frame_id value) (\<lambda>cid.
        map_err (\<lambda>_. invalid ''can_frame.data'' ''exceeds the classic payload bound'')
          (classic_data cid (wcf_data value))))"

definition classic_remote_from_proto :: "v1_CanFrame \<Rightarrow> CanFrame hal_result" where
  "classic_remote_from_proto value =
     (if wcf_data value \<noteq> [] \<or> wcf_bitrate_switch value \<or> wcf_error_state_indicator value
         \<or> wcf_error_classes value \<noteq> [] then
        Err (invalid ''can_frame'' ''has fields incompatible with a classic remote frame'')
      else
        and_then (frame_id value) (\<lambda>cid.
        and_then (ok_or (invalid ''can_frame.remote_dlc'' ''exceeds the classic bound'')
          (try_narrow (wcf_remote_dlc value))) (\<lambda>dlc.
        map_err (\<lambda>_. invalid ''can_frame.remote_dlc'' ''exceeds the classic bound'')
          (classic_remote cid dlc))))"

definition fd_data_from_proto :: "v1_CanFrame \<Rightarrow> CanFrame hal_result" where
  "fd_data_from_proto value =
     (if wcf_remote_dlc value \<noteq> 0 \<or> wcf_error_classes value \<noteq> [] then
        Err (invalid ''can_frame'' ''has fields incompatible with FD data'')
      else
        and_then (frame_id value) (\<lambda>cid.
        map_err (\<lambda>_. invalid ''can_frame.data'' ''has an invalid FD payload length'')
          (fd_data cid (wcf_data value) (wcf_bitrate_switch value) (wcf_error_state_indicator value))))"

definition error_frame_from_proto :: "v1_CanFrame \<Rightarrow> CanFrame hal_result" where
  "error_frame_from_proto value =
     (if wcf_id value \<noteq> None \<or> wcf_remote_dlc value \<noteq> 0 \<or> wcf_bitrate_switch value
         \<or> wcf_error_state_indicator value then
        Err (invalid ''can_frame'' ''has fields incompatible with an error frame'')
      else
        and_then (collect_results (map error_class_from_proto (wcf_error_classes value))) (\<lambda>classes.
        map_err (\<lambda>_. invalid ''can_frame.error_classes/data'' ''does not form a valid error frame'')
          (error_frame classes (wcf_data value))))"

definition CanFrame_from_proto :: "v1_CanFrame \<Rightarrow> CanFrame hal_result" where
  "CanFrame_from_proto value =
     and_then (required_enum CanFrameKind_numbers (wcf_kind value) ''can_frame.kind'') (\<lambda>kind.
     case kind of
       CAN_FRAME_KIND_CLASSIC_DATA \<Rightarrow> classic_data_from_proto value
     | CAN_FRAME_KIND_CLASSIC_REMOTE \<Rightarrow> classic_remote_from_proto value
     | CAN_FRAME_KIND_FD_DATA \<Rightarrow> fd_data_from_proto value
     | CAN_FRAME_KIND_ERROR \<Rightarrow> error_frame_from_proto value
     | CAN_FRAME_KIND_UNSPECIFIED \<Rightarrow> Err (invalid ''can_frame.kind'' ''is required''))"

text \<open>\<open>..Default::default()\<close>\<close>

definition CanFrame_default :: v1_CanFrame where
  "CanFrame_default = \<lparr>wcf_id = None, wcf_kind = 0, wcf_data = [], wcf_remote_dlc = 0,
     wcf_bitrate_switch = False, wcf_error_state_indicator = False, wcf_error_classes = []\<rparr>"

fun CanFrame_to_proto :: "CanFrame \<Rightarrow> v1_CanFrame" where
  "CanFrame_to_proto (ClassicData cid data) =
     CanFrame_default\<lparr>wcf_id := Some (CanId_to_proto cid),
       wcf_kind := enum_number CanFrameKind_numbers CAN_FRAME_KIND_CLASSIC_DATA, wcf_data := data\<rparr>"
| "CanFrame_to_proto (ClassicRemote cid dlc) =
     CanFrame_default\<lparr>wcf_id := Some (CanId_to_proto cid),
       wcf_kind := enum_number CanFrameKind_numbers CAN_FRAME_KIND_CLASSIC_REMOTE, wcf_remote_dlc := ucast dlc\<rparr>"
| "CanFrame_to_proto (FdData cid data bitrate_switch error_state_indicator) =
     CanFrame_default\<lparr>wcf_id := Some (CanId_to_proto cid),
       wcf_kind := enum_number CanFrameKind_numbers CAN_FRAME_KIND_FD_DATA, wcf_data := data,
       wcf_bitrate_switch := bitrate_switch, wcf_error_state_indicator := error_state_indicator\<rparr>"
| "CanFrame_to_proto (ErrorFrame classes data) =
     CanFrame_default\<lparr>wcf_kind := enum_number CanFrameKind_numbers CAN_FRAME_KIND_ERROR, wcf_data := data,
       wcf_error_classes := map (enum_number CanErrorClass_numbers \<circ> error_class_to_proto) classes\<rparr>"

fun timestamp_source_to_proto :: "CanTimestampSource \<Rightarrow> v1_CanTimestampSource" where
  "timestamp_source_to_proto Hardware = CAN_TIMESTAMP_SOURCE_HARDWARE"
| "timestamp_source_to_proto Kernel = CAN_TIMESTAMP_SOURCE_KERNEL"
| "timestamp_source_to_proto HostMonotonic = CAN_TIMESTAMP_SOURCE_HOST_MONOTONIC"

definition timestamp_source_from_proto :: "i32 \<Rightarrow> CanTimestampSource hal_result" where
  "timestamp_source_from_proto value =
     and_then (required_enum CanTimestampSource_numbers value ''can_timestamp.source'') (\<lambda>s.
     case s of
       CAN_TIMESTAMP_SOURCE_HARDWARE \<Rightarrow> Ok Hardware
     | CAN_TIMESTAMP_SOURCE_KERNEL \<Rightarrow> Ok Kernel
     | CAN_TIMESTAMP_SOURCE_HOST_MONOTONIC \<Rightarrow> Ok HostMonotonic
     | CAN_TIMESTAMP_SOURCE_UNSPECIFIED \<Rightarrow> Err (invalid ''can_timestamp.source'' ''is required''))"

definition CanTimestamp_from_proto :: "v1_CanTimestamp \<Rightarrow> CanTimestamp hal_result" where
  "CanTimestamp_from_proto value =
     and_then (timestamp_source_from_proto (wct_source value)) (\<lambda>source.
     map_err (\<lambda>_. invalid ''can_timestamp.clock_domain'' ''is invalid'')
       (CanTimestamp_new (wct_timestamp_ns value) source (wct_clock_domain value)))"

definition CanTimestamp_to_proto :: "CanTimestamp \<Rightarrow> v1_CanTimestamp" where
  "CanTimestamp_to_proto value =
     \<lparr>wct_timestamp_ns = ct_timestamp_ns value,
      wct_source = enum_number CanTimestampSource_numbers (timestamp_source_to_proto (ct_source value)),
      wct_clock_domain = ct_clock_domain value\<rparr>"

definition ReceivedCanFrame_from_proto :: "v1_ReceivedCanFrame \<Rightarrow> ReceivedCanFrame hal_result" where
  "ReceivedCanFrame_from_proto value =
     and_then (required (wrf_frame value) ''received_can_frame.frame'') (\<lambda>frame.
     and_then (CanFrame_from_proto frame) (\<lambda>frame.
     and_then (transpose_opt (map_option CanTimestamp_from_proto (wrf_timestamp value))) (\<lambda>timestamp.
     Ok \<lparr>rf_frame = frame, rf_timestamp = timestamp\<rparr>)))"

definition ReceivedCanFrame_to_proto :: "ReceivedCanFrame \<Rightarrow> v1_ReceivedCanFrame" where
  "ReceivedCanFrame_to_proto value =
     \<lparr>wrf_frame = Some (CanFrame_to_proto (rf_frame value)),
      wrf_timestamp = map_option CanTimestamp_to_proto (rf_timestamp value)\<rparr>"

section \<open>Configurations and filters\<close>

definition CanBitTiming_from_proto :: "v1_CanBitTiming \<Rightarrow> CanBitTiming hal_result" where
  "CanBitTiming_from_proto value =
     and_then (transpose_opt (map_option (\<lambda>value.
       ok_or (invalid ''can_bit_timing.sample_point_permill'' ''is out of range'') (try_narrow value))
       (wbt_sample_point_permill value))) (\<lambda>sample_point_permill.
     and_then (transpose_opt (map_option (\<lambda>value.
       ok_or (invalid ''can_bit_timing.sjw'' ''is out of range'') (try_narrow value)) (wbt_sjw value))) (\<lambda>sjw.
     map_err (\<lambda>_. invalid ''can_bit_timing'' ''contains invalid timing values'')
       (CanBitTiming_new (wbt_bitrate value) sample_point_permill sjw)))"

definition CanBitTiming_to_proto :: "CanBitTiming \<Rightarrow> v1_CanBitTiming" where
  "CanBitTiming_to_proto value =
     \<lparr>wbt_bitrate = bt_bitrate value, wbt_sample_point_permill = map_option ucast (bt_sample_point_permill value),
      wbt_sjw = map_option ucast (bt_sjw value)\<rparr>"

definition CanLinkExpectation_from_proto :: "v1_CanLinkExpectation \<Rightarrow> CanLinkExpectation hal_result" where
  "CanLinkExpectation_from_proto value =
     and_then (transpose_opt (map_option (\<lambda>value. mode_from_proto value ''can_link_expectation.mode'')
       (wlx_mode value))) (\<lambda>mode.
     map_err (\<lambda>_. invalid ''can_link_expectation'' ''contains inconsistent expectations'')
       (CanLinkExpectation_new mode (wlx_nominal_bitrate value) (wlx_data_bitrate value)
         (wlx_listen_only value) (wlx_loopback value)))"

definition CanLinkExpectation_to_proto :: "CanLinkExpectation \<Rightarrow> v1_CanLinkExpectation" where
  "CanLinkExpectation_to_proto value =
     \<lparr>wlx_mode = map_option (enum_number CanMode_numbers \<circ> mode_to_proto) (cx_mode value),
      wlx_nominal_bitrate = cx_nominal_bitrate value, wlx_data_bitrate = cx_data_bitrate value,
      wlx_listen_only = cx_listen_only value, wlx_loopback = cx_loopback value\<rparr>"

definition CanConfigureConfig_from_proto :: "v1_CanConfigureConfig \<Rightarrow> CanConfigureConfig hal_result" where
  "CanConfigureConfig_from_proto value =
     and_then (mode_from_proto (wcc_mode value) ''can_configure_config.mode'') (\<lambda>mode.
     and_then (required (wcc_nominal value) ''can_configure_config.nominal'') (\<lambda>nominal.
     and_then (CanBitTiming_from_proto nominal) (\<lambda>nominal.
     and_then (transpose_opt (map_option CanBitTiming_from_proto (wcc_data value))) (\<lambda>data.
     map_err (\<lambda>_. invalid ''can_configure_config'' ''is inconsistent'')
       (CanConfigureConfig_new_with_restart mode nominal data (wcc_listen_only value) (wcc_loopback value)
         (wcc_restart_ms value))))))"

definition CanConfigureConfig_to_proto :: "CanConfigureConfig \<Rightarrow> v1_CanConfigureConfig" where
  "CanConfigureConfig_to_proto value =
     \<lparr>wcc_mode = enum_number CanMode_numbers (mode_to_proto (cc_mode value)),
      wcc_nominal = Some (CanBitTiming_to_proto (cc_nominal value)),
      wcc_data = map_option CanBitTiming_to_proto (cc_data value), wcc_listen_only = cc_listen_only value,
      wcc_loopback = cc_loopback value, wcc_restart_ms = cc_restart_ms value\<rparr>"

definition CanOpenConfig_from_proto :: "v1_CanOpenConfig \<Rightarrow> CanOpenConfig hal_result" where
  "CanOpenConfig_from_proto value =
     and_then (required (woc_config value) ''can_open_config.config'') (\<lambda>config.
     case config of
       ConfigAttach value \<Rightarrow> map_ok Attach (CanLinkExpectation_from_proto value)
     | ConfigConfigure value \<Rightarrow> map_ok Configure (CanConfigureConfig_from_proto value))"

definition CanOpenConfig_to_proto :: "CanOpenConfig \<Rightarrow> v1_CanOpenConfig" where
  "CanOpenConfig_to_proto value =
     \<lparr>woc_config = Some (case value of
        Attach value \<Rightarrow> ConfigAttach (CanLinkExpectation_to_proto value)
      | Configure value \<Rightarrow> ConfigConfigure (CanConfigureConfig_to_proto value))\<rparr>"

definition CanActiveConfig_from_proto :: "v1_CanActiveConfig \<Rightarrow> CanActiveConfig hal_result" where
  "CanActiveConfig_from_proto value =
     and_then (mode_from_proto (wac_mode value) ''can_active_config.mode'') (\<lambda>mode.
     and_then (required (wac_nominal value) ''can_active_config.nominal'') (\<lambda>nominal.
     and_then (CanBitTiming_from_proto nominal) (\<lambda>nominal.
     and_then (transpose_opt (map_option CanBitTiming_from_proto (wac_data value))) (\<lambda>data.
     map_err (\<lambda>_. invalid ''can_active_config'' ''is inconsistent or has an invalid domain'')
       (CanActiveConfig_new mode nominal data (wac_listen_only value) (wac_loopback value)
         (wac_clock_domain value))))))"

definition CanActiveConfig_to_proto :: "CanActiveConfig \<Rightarrow> v1_CanActiveConfig" where
  "CanActiveConfig_to_proto value =
     \<lparr>wac_mode = enum_number CanMode_numbers (mode_to_proto (ac_mode value)),
      wac_nominal = Some (CanBitTiming_to_proto (ac_nominal value)),
      wac_data = map_option CanBitTiming_to_proto (ac_data value), wac_listen_only = ac_listen_only value,
      wac_loopback = ac_loopback value, wac_clock_domain = ac_clock_domain value\<rparr>"

definition CanFrameClasses_to_proto :: "CanFrameClasses \<Rightarrow> v1_CanFrameClasses" where
  "CanFrameClasses_to_proto value =
     \<lparr>wfc_data = fc_data value, wfc_remote = fc_remote value, wfc_error = fc_error value\<rparr>"

definition CanFrameClasses_from_proto :: "v1_CanFrameClasses \<Rightarrow> CanFrameClasses" where
  "CanFrameClasses_from_proto value = CanFrameClasses_new (wfc_data value) (wfc_remote value) (wfc_error value)"

fun filter_format_to_proto :: "CanIdFormat \<Rightarrow> v1_CanIdFormat" where
  "filter_format_to_proto StandardFormat = CAN_ID_FORMAT_STANDARD"
| "filter_format_to_proto ExtendedFormat = CAN_ID_FORMAT_EXTENDED"
| "filter_format_to_proto EitherFormat = CAN_ID_FORMAT_EITHER"

definition filter_format_from_proto :: "i32 \<Rightarrow> CanIdFormat hal_result" where
  "filter_format_from_proto value =
     and_then (required_enum CanIdFormat_numbers value ''can_filter.format'') (\<lambda>f.
     case f of
       CAN_ID_FORMAT_STANDARD \<Rightarrow> Ok StandardFormat
     | CAN_ID_FORMAT_EXTENDED \<Rightarrow> Ok ExtendedFormat
     | CAN_ID_FORMAT_EITHER \<Rightarrow> Ok EitherFormat
     | CAN_ID_FORMAT_UNSPECIFIED \<Rightarrow> Err (invalid ''can_filter.format'' ''is required''))"

definition CanFilter_from_proto :: "v1_CanFilter \<Rightarrow> CanFilter hal_result" where
  "CanFilter_from_proto value =
     and_then (filter_format_from_proto (wfl_format value)) (\<lambda>format.
     and_then (required (wfl_classes value) ''can_filter.classes'') (\<lambda>classes.
     map_err (\<lambda>_. invalid ''can_filter'' ''contains invalid bounds or frame classes'')
       (CanFilter_new (wfl_id value) (wfl_mask value) format (CanFrameClasses_from_proto classes))))"

definition CanFilter_to_proto :: "CanFilter \<Rightarrow> v1_CanFilter" where
  "CanFilter_to_proto value =
     \<lparr>wfl_id = cf_id value, wfl_mask = cf_mask value,
      wfl_format = enum_number CanIdFormat_numbers (filter_format_to_proto (cf_format value)),
      wfl_classes = Some (CanFrameClasses_to_proto (cf_classes value))\<rparr>"

definition CanFilterSet_from_proto :: "v1_CanFilterSet \<Rightarrow> CanFilterSet hal_result" where
  "CanFilterSet_from_proto value =
     (if length (wfs_filters value) > MAX_CAN_FILTERS then
        Err (invalid ''can_filter_set.filters'' ''exceeds the 64-filter bound'')
      else
        and_then (collect_results (map CanFilter_from_proto (wfs_filters value))) (\<lambda>filters.
        map_err (\<lambda>_. invalid ''can_filter_set.filters'' ''is invalid'') (CanFilterSet_new filters)))"

definition CanFilterSet_to_proto :: "CanFilterSet \<Rightarrow> v1_CanFilterSet" where
  "CanFilterSet_to_proto value = \<lparr>wfs_filters = map CanFilter_to_proto (filter_slice value)\<rparr>"

fun bus_state_to_proto :: "CanBusState \<Rightarrow> v1_CanBusState" where
  "bus_state_to_proto BusActive = CAN_BUS_STATE_ACTIVE"
| "bus_state_to_proto BusWarning = CAN_BUS_STATE_WARNING"
| "bus_state_to_proto BusPassive = CAN_BUS_STATE_PASSIVE"
| "bus_state_to_proto BusBusOff = CAN_BUS_STATE_BUS_OFF"
| "bus_state_to_proto BusStopped = CAN_BUS_STATE_STOPPED"
| "bus_state_to_proto BusUnknown = CAN_BUS_STATE_UNKNOWN"

definition bus_state_from_proto :: "i32 \<Rightarrow> CanBusState hal_result" where
  "bus_state_from_proto value =
     and_then (required_enum CanBusState_numbers value ''can_bus_status.state'') (\<lambda>s.
     case s of
       CAN_BUS_STATE_ACTIVE \<Rightarrow> Ok BusActive
     | CAN_BUS_STATE_WARNING \<Rightarrow> Ok BusWarning
     | CAN_BUS_STATE_PASSIVE \<Rightarrow> Ok BusPassive
     | CAN_BUS_STATE_BUS_OFF \<Rightarrow> Ok BusBusOff
     | CAN_BUS_STATE_STOPPED \<Rightarrow> Ok BusStopped
     | CAN_BUS_STATE_UNKNOWN \<Rightarrow> Ok BusUnknown
     | CAN_BUS_STATE_UNSPECIFIED \<Rightarrow> Err (invalid ''can_bus_status.state'' ''is required''))"

definition CanBusStatus_from_proto :: "v1_CanBusStatus \<Rightarrow> CanBusStatus hal_result" where
  "CanBusStatus_from_proto value =
     and_then (bus_state_from_proto (wbs_state value)) (\<lambda>state.
     Ok \<lparr>st_state = state, st_tx_error_counter = wbs_tx_error_counter value,
         st_rx_error_counter = wbs_rx_error_counter value\<rparr>)"

definition CanBusStatus_to_proto :: "CanBusStatus \<Rightarrow> v1_CanBusStatus" where
  "CanBusStatus_to_proto value =
     \<lparr>wbs_state = enum_number CanBusState_numbers (bus_state_to_proto (st_state value)),
      wbs_tx_error_counter = st_tx_error_counter value, wbs_rx_error_counter = st_rx_error_counter value\<rparr>"

section \<open>Requests and responses\<close>

definition enumerate_can_response_from_proto ::
  "v1_ResourceDescriptor list \<Rightarrow> ResourceDescriptor list hal_result" where
  "enumerate_can_response_from_proto resources =
     collect_results (map (\<lambda>value.
       and_then (ResourceDescriptor_from_proto value) (\<lambda>descriptor.
       if rd_transport descriptor \<noteq> TCan
       then Err (invalid ''enumerate_can.resources.transport'' ''must be CAN'')
       else Ok descriptor)) resources)"

definition open_can_request_from_proto ::
  "v1_OpenCanRequest \<Rightarrow> (ResourceSelector \<times> LeaseMode \<times> CanOpenConfig \<times> CanFilterSet) hal_result" where
  "open_can_request_from_proto value =
     and_then (required (woq_selector value) ''open_can.selector'') (\<lambda>selector.
     and_then (ResourceSelector_from_proto selector) (\<lambda>selector.
     if rs_transport selector \<noteq> TCan then Err (invalid ''open_can.selector.transport'' ''must be CAN'')
     else
       and_then (lease_mode_from_proto (woq_mode value) ''open_can.mode'') (\<lambda>mode.
       and_then (required (woq_config value) ''open_can.config'') (\<lambda>config.
       and_then (CanOpenConfig_from_proto config) (\<lambda>config.
       and_then (required (woq_filters value) ''open_can.filters'') (\<lambda>filters.
       and_then (CanFilterSet_from_proto filters) (\<lambda>filters.
       Ok (selector, mode, config, filters))))))))"

definition open_can_response_from_proto ::
  "'a v1_SessionLease_scheme \<Rightarrow> LeaseMode \<Rightarrow> (SessionId \<times> LeaseToken) hal_result" where
  "open_can_response_from_proto value expected_mode =
     and_then (parse_session_lease (wsl_session_id value) (wsl_lease value)) (\<lambda>(session, lease).
     if lt_mode lease \<noteq> expected_mode
     then Err (invalid ''open_can_response.lease.mode'' ''does not match the requested mode'')
     else Ok (session, lease))"

definition send_can_frames_from_proto :: "v1_CanFrame list \<Rightarrow> CanFrame list hal_result" where
  "send_can_frames_from_proto value =
     (if \<not> (1 \<le> length value \<and> length value \<le> MAX_CAN_BATCH_FRAMES) then
        Err (invalid ''can_send.frames'' ''must contain 1..=64 frames'')
      else collect_results (map CanFrame_from_proto value))"

definition can_send_request_from_proto ::
  "v1_CanSendRequest \<Rightarrow> (SessionId \<times> LeaseToken \<times> CanFrame list) hal_result" where
  "can_send_request_from_proto value =
     and_then (parse_session_lease (wsl_session_id value) (wsl_lease value)) (\<lambda>(session, lease).
     and_then (send_can_frames_from_proto (wsq_frames value)) (\<lambda>frames.
     Ok (session, lease, frames)))"

definition validate_input_count :: "usize \<Rightarrow> unit hal_result" where
  "validate_input_count input_count =
     (if \<not> (1 \<le> input_count \<and> input_count \<le> MAX_CAN_BATCH_FRAMES)
      then Err (invalid ''can_send.input_count'' ''must be 1..=64'') else Ok ())"

definition can_send_response_from_proto ::
  "v1_CanSendResponse \<Rightarrow> usize \<Rightarrow> (unit, CanBatchSendError) result hal_result" where
  "can_send_response_from_proto value input_count =
     and_then (validate_input_count input_count) (\<lambda>_.
     let committed = unat (wsr_committed_count value) in
     case wsr_error value of
       None \<Rightarrow>
         if committed = input_count then Ok (Ok ())
         else Err (invalid ''can_send_response.committed_count'' ''must equal the input count when error is absent'')
     | Some error \<Rightarrow>
         if committed < input_count then
           and_then (error_from_proto error) (\<lambda>error. Ok (Err (backend_prefix error committed)))
         else Err (invalid ''can_send_response.committed_count''
           ''must be a strict input prefix when error is present''))"

definition can_send_response_to_proto ::
  "(unit, CanBatchSendError) result \<Rightarrow> usize \<Rightarrow> v1_CanSendResponse hal_result" where
  "can_send_response_to_proto result input_count =
     and_then (validate_input_count input_count) (\<lambda>_.
     case result of
       Ok _ \<Rightarrow> Ok \<lparr>wsr_committed_count = of_nat input_count, wsr_error = None\<rparr>
     | Err error \<Rightarrow>
         if bs_committed error < input_count then
           Ok \<lparr>wsr_committed_count = of_nat (bs_committed error), wsr_error = Some (error_to_proto (bs_error error))\<rparr>
         else Err (invalid ''can_send_response.committed_count''
           ''must be a strict input prefix when error is present''))"

definition can_receive_parameters :: "u32 \<Rightarrow> u64 \<Rightarrow> (usize \<times> duration) hal_result" where
  "can_receive_parameters max_frames timeout_ms =
     (if \<not> (1 \<le> unat max_frames \<and> unat max_frames \<le> MAX_CAN_BATCH_FRAMES)
      then Err (invalid ''can_receive.max_frames'' ''must be 1..=64'')
      else Ok (unat max_frames, from_millis timeout_ms))"

definition can_receive_request_from_proto ::
  "v1_CanReceiveRequest \<Rightarrow> (SessionId \<times> LeaseToken \<times> usize \<times> duration) hal_result" where
  "can_receive_request_from_proto value =
     and_then (parse_session_lease (wsl_session_id value) (wsl_lease value)) (\<lambda>(session, lease).
     and_then (can_receive_parameters (wrq_max_frames value) (wrq_timeout_ms value)) (\<lambda>(max_frames, timeout).
     Ok (session, lease, max_frames, timeout)))"

definition received_can_frames_from_proto ::
  "v1_ReceivedCanFrame list \<Rightarrow> usize \<Rightarrow> ReceivedCanFrame list hal_result" where
  "received_can_frames_from_proto value requested_max =
     (if \<not> (1 \<le> requested_max \<and> requested_max \<le> MAX_CAN_BATCH_FRAMES) then
        Err (invalid ''can_receive.requested_max'' ''must be 1..=64'')
      else if length value > requested_max then
        Err (invalid ''can_receive_response.frames'' ''exceeds the requested maximum'')
      else collect_results (map ReceivedCanFrame_from_proto value))"

definition replace_can_filters_request_from_proto ::
  "v1_ReplaceCanFiltersRequest \<Rightarrow> (SessionId \<times> LeaseToken \<times> CanFilterSet) hal_result" where
  "replace_can_filters_request_from_proto value =
     and_then (parse_session_lease (wsl_session_id value) (wsl_lease value)) (\<lambda>(session, lease).
     and_then (required (wfr_filters value) ''replace_can_filters.filters'') (\<lambda>filters.
     and_then (CanFilterSet_from_proto filters) (\<lambda>filters.
     Ok (session, lease, filters))))"

definition get_can_bus_status_request_from_proto ::
  "'a v1_SessionLease_scheme \<Rightarrow> (SessionId \<times> LeaseToken) hal_result" where
  "get_can_bus_status_request_from_proto value = parse_session_lease (wsl_session_id value) (wsl_lease value)"

definition get_can_bus_status_response_from_proto :: "v1_CanBusStatus option \<Rightarrow> CanBusStatus hal_result" where
  "get_can_bus_status_response_from_proto status =
     and_then (required status ''get_can_bus_status.status'') CanBusStatus_from_proto"

end
