(* ===== verification/Wire_Can_Laws.thy ===== *)
theory Wire_Can_Laws
  imports Wire_Can Wire_Laws
begin

text \<open>
  What the CAN conversions promise: every encoder and decoder pair is a canonical codec on the
  well-formed values of its type, so a value survives the wire unchanged and a decoder accepts no
  message but the encoder's; every malformed message is rejected in the same way.
\<close>

section \<open>Optional and repeated fields\<close>

context canonical_codec
begin

lemma opt_dec_iff:
  "transpose_opt (map_option dec w) = Ok x \<longleftrightarrow> pred_option wf x \<and> w = map_option enc x"
  using dec_iff by (cases w; cases x) auto

lemma list_dec_iff: "collect_results (map dec ws) = Ok xs \<longleftrightarrow> list_all wf xs \<and> ws = map enc xs"
proof (induction ws arbitrary: xs)
  case (Cons w ws)
  then show ?case using dec_iff by (cases xs) auto
qed auto

end

section \<open>Enumerations and identifiers\<close>

lemma required_Ok [simp]: "required v f = Ok x \<longleftrightarrow> v = Some x"
  by (simp add: required_def)

lemma mode_from_Ok [simp]: "mode_from_proto n f = Ok m \<longleftrightarrow> n = enum_number CanMode_numbers (mode_to_proto m)"
  unfolding mode_from_proto_def by (rule CanMode_wire.decode_iff) (cases m; simp split: v1_CanMode.split)

lemma lease_mode_from_Ok [simp]:
  "lease_mode_from_proto n f = Ok m \<longleftrightarrow> n = enum_number LeaseMode_numbers (lease_mode_to_proto m)"
  unfolding lease_mode_from_proto_def by (rule LeaseMode_wire.decode_iff) (cases m; simp split: v1_LeaseMode.split)

lemma error_class_from_Ok [simp]:
  "error_class_from_proto n = Ok c \<longleftrightarrow> n = enum_number CanErrorClass_numbers (error_class_to_proto c)"
  unfolding error_class_from_proto_def
  by (rule CanErrorClass_wire.decode_iff) (cases c; simp split: v1_CanErrorClass.split)

lemma timestamp_source_from_Ok [simp]:
  "timestamp_source_from_proto n = Ok s \<longleftrightarrow> n = enum_number CanTimestampSource_numbers (timestamp_source_to_proto s)"
  unfolding timestamp_source_from_proto_def
  by (rule CanTimestampSource_wire.decode_iff) (cases s; simp split: v1_CanTimestampSource.split)

lemma filter_format_from_Ok [simp]:
  "filter_format_from_proto n = Ok f \<longleftrightarrow> n = enum_number CanIdFormat_numbers (filter_format_to_proto f)"
  unfolding filter_format_from_proto_def
  by (rule CanIdFormat_wire.decode_iff) (cases f; simp split: v1_CanIdFormat.split)

lemma bus_state_from_Ok [simp]:
  "bus_state_from_proto n = Ok s \<longleftrightarrow> n = enum_number CanBusState_numbers (bus_state_to_proto s)"
  unfolding bus_state_from_proto_def
  by (rule CanBusState_wire.decode_iff) (cases s; simp split: v1_CanBusState.split)

lemma CanId_from_Ok [simp]: "CanId_from_proto w = Ok i \<longleftrightarrow> can_id_wf i \<and> w = CanId_to_proto i"
proof
  assume *: "CanId_from_proto w = Ok i"
  then obtain k where "wci_format w = enum_number CanIdFormat_numbers k" by (auto simp: CanId_from_proto_def)
  with * show "can_id_wf i \<and> w = CanId_to_proto i"
    by (cases w; cases k) (auto simp: CanId_from_proto_def CanId_to_proto_def try_narrow_Some)
next
  assume "can_id_wf i \<and> w = CanId_to_proto i"
  then show "CanId_from_proto w = Ok i"
    by (cases i) (auto simp: CanId_from_proto_def CanId_to_proto_def try_narrow_Some required_enum_def)
qed

interpretation can_id_wire: canonical_codec CanId_to_proto CanId_from_proto can_id_wf
  by unfold_locales auto

section \<open>Frames\<close>

lemma frame_id_Ok [simp]: "frame_id w = Ok i \<longleftrightarrow> can_id_wf i \<and> wcf_id w = Some (CanId_to_proto i)"
  by (auto simp: frame_id_def)

lemma collect_error_classes [simp]:
  "collect_results (map error_class_from_proto ws) = Ok cs \<longleftrightarrow>
     ws = map (enum_number CanErrorClass_numbers \<circ> error_class_to_proto) cs"
  by (auto simp: collect_results_map_eq_Ok list_all2_conv_all_nth intro!: nth_equalityI)

lemmas frame_arms = classic_data_from_proto_def classic_remote_from_proto_def fd_data_from_proto_def
  error_frame_from_proto_def

lemma CanFrame_from_Ok [simp]: "CanFrame_from_proto w = Ok f \<longleftrightarrow> can_frame_wf f \<and> w = CanFrame_to_proto f"
proof
  assume *: "CanFrame_from_proto w = Ok f"
  then obtain k where "wcf_kind w = enum_number CanFrameKind_numbers k" by (auto simp: CanFrame_from_proto_def)
  with * show "can_frame_wf f \<and> w = CanFrame_to_proto f"
    by (cases w; cases k) (auto simp: CanFrame_from_proto_def frame_arms CanFrame_default_def CanFrame_Ok
        try_narrow_Some split: if_splits)
next
  assume "can_frame_wf f \<and> w = CanFrame_to_proto f"
  then show "CanFrame_from_proto w = Ok f"
    by (cases f) (auto simp: CanFrame_from_proto_def frame_arms CanFrame_default_def CanFrame_Ok
        try_narrow_Some required_enum_def simp del: map_map)
qed

interpretation can_frame_wire: canonical_codec CanFrame_to_proto CanFrame_from_proto can_frame_wf
  by unfold_locales auto

lemma CanTimestamp_from_Ok [simp]:
  "CanTimestamp_from_proto w = Ok t \<longleftrightarrow> can_timestamp_wf t \<and> w = CanTimestamp_to_proto t"
  by (cases w; cases t) (auto simp: CanTimestamp_from_proto_def CanTimestamp_to_proto_def CanTimestamp_new_Ok)

interpretation can_timestamp_wire: canonical_codec CanTimestamp_to_proto CanTimestamp_from_proto can_timestamp_wf
  by unfold_locales auto

lemma ReceivedCanFrame_from_Ok [simp]:
  "ReceivedCanFrame_from_proto w = Ok f \<longleftrightarrow> received_frame_wf f \<and> w = ReceivedCanFrame_to_proto f"
  by (cases w; cases f) (auto simp: ReceivedCanFrame_from_proto_def ReceivedCanFrame_to_proto_def
      received_frame_wf_def can_timestamp_wire.opt_dec_iff simp del: transpose_opt_eq_Ok)

interpretation received_frame_wire: canonical_codec ReceivedCanFrame_to_proto ReceivedCanFrame_from_proto received_frame_wf
  by unfold_locales auto

section \<open>Configurations\<close>

lemma narrow_opt:
  "transpose_opt (map_option (\<lambda>v. ok_or e (try_narrow v)) w) = Ok x \<longleftrightarrow> w = map_option ucast x"
  for x :: "u16 option" and w :: "u32 option"
  by (cases w; cases x) (auto simp: try_narrow_Some)

lemma CanBitTiming_from_Ok [simp]:
  "CanBitTiming_from_proto w = Ok t \<longleftrightarrow> bit_timing_wf t \<and> w = CanBitTiming_to_proto t"
  by (cases w; cases t) (auto simp: CanBitTiming_from_proto_def CanBitTiming_to_proto_def narrow_opt
      CanBitTiming_new_Ok simp del: transpose_opt_eq_Ok)

interpretation bit_timing_wire: canonical_codec CanBitTiming_to_proto CanBitTiming_from_proto bit_timing_wf
  by unfold_locales auto

lemma mode_opt:
  "transpose_opt (map_option (\<lambda>v. mode_from_proto v f) w) = Ok x
     \<longleftrightarrow> w = map_option (enum_number CanMode_numbers \<circ> mode_to_proto) x"
  by (cases w; cases x) auto

lemma CanLinkExpectation_from_Ok [simp]:
  "CanLinkExpectation_from_proto w = Ok x \<longleftrightarrow> expectation_wf x \<and> w = CanLinkExpectation_to_proto x"
  by (cases w; cases x) (auto simp: CanLinkExpectation_from_proto_def CanLinkExpectation_to_proto_def mode_opt
      CanLinkExpectation_new_Ok simp del: transpose_opt_eq_Ok)

text \<open>On the wire the nested timings are checked as well.\<close>

definition configure_wire_wf :: "CanConfigureConfig \<Rightarrow> bool" where
  "configure_wire_wf c \<longleftrightarrow> configure_wf c \<and> bit_timing_wf (cc_nominal c) \<and> pred_option bit_timing_wf (cc_data c)"

lemma CanConfigureConfig_from_Ok [simp]:
  "CanConfigureConfig_from_proto w = Ok c \<longleftrightarrow> configure_wire_wf c \<and> w = CanConfigureConfig_to_proto c"
  by (cases w; cases c) (auto simp: CanConfigureConfig_from_proto_def CanConfigureConfig_to_proto_def
      bit_timing_wire.opt_dec_iff CanConfigureConfig_new_Ok configure_wire_wf_def simp del: transpose_opt_eq_Ok)

fun open_config_wf :: "CanOpenConfig \<Rightarrow> bool" where
  "open_config_wf (Attach x) = expectation_wf x"
| "open_config_wf (Configure c) = configure_wire_wf c"

lemma CanOpenConfig_from_Ok [simp]:
  "CanOpenConfig_from_proto w = Ok c \<longleftrightarrow> open_config_wf c \<and> w = CanOpenConfig_to_proto c"
proof (cases "woc_config w")
  case None
  then show ?thesis by (auto simp: CanOpenConfig_from_proto_def CanOpenConfig_to_proto_def required_def)
next
  case (Some x)
  then show ?thesis
    by (cases w; cases x; cases c) (auto simp: CanOpenConfig_from_proto_def CanOpenConfig_to_proto_def)
qed

interpretation open_config_wire: canonical_codec CanOpenConfig_to_proto CanOpenConfig_from_proto open_config_wf
  by unfold_locales auto

definition active_wire_wf :: "CanActiveConfig \<Rightarrow> bool" where
  "active_wire_wf c \<longleftrightarrow> active_config_wf c \<and> bit_timing_wf (ac_nominal c) \<and> pred_option bit_timing_wf (ac_data c)"

lemma CanActiveConfig_from_Ok [simp]:
  "CanActiveConfig_from_proto w = Ok c \<longleftrightarrow> active_wire_wf c \<and> w = CanActiveConfig_to_proto c"
  by (cases w; cases c) (auto simp: CanActiveConfig_from_proto_def CanActiveConfig_to_proto_def
      bit_timing_wire.opt_dec_iff CanActiveConfig_new_Ok active_wire_wf_def simp del: transpose_opt_eq_Ok)

interpretation active_config_wire: canonical_codec CanActiveConfig_to_proto CanActiveConfig_from_proto active_wire_wf
  by unfold_locales auto

section \<open>Filters and status\<close>

lemma frame_classes_inverse [simp]:
  "CanFrameClasses_from_proto (CanFrameClasses_to_proto c) = c" "CanFrameClasses_to_proto (CanFrameClasses_from_proto w) = w"
  by (cases c, simp add: CanFrameClasses_from_proto_def CanFrameClasses_to_proto_def CanFrameClasses_new_def)
     (cases w, simp add: CanFrameClasses_from_proto_def CanFrameClasses_to_proto_def CanFrameClasses_new_def)

lemma CanFilter_from_Ok [simp]: "CanFilter_from_proto w = Ok f \<longleftrightarrow> can_filter_wf f \<and> w = CanFilter_to_proto f"
  by (cases w; cases f) (auto simp: CanFilter_from_proto_def CanFilter_to_proto_def CanFilter_new_Ok)

interpretation can_filter_wire: canonical_codec CanFilter_to_proto CanFilter_from_proto can_filter_wf
  by unfold_locales auto

definition filter_set_wf :: "CanFilterSet \<Rightarrow> bool" where
  "filter_set_wf s \<longleftrightarrow> length (filter_slice s) \<le> MAX_CAN_FILTERS \<and> list_all can_filter_wf (filter_slice s)"

lemma CanFilterSet_from_Ok [simp]:
  "CanFilterSet_from_proto w = Ok s \<longleftrightarrow> filter_set_wf s \<and> w = CanFilterSet_to_proto s"
  by (cases w; cases s) (auto simp: CanFilterSet_from_proto_def CanFilterSet_to_proto_def filter_set_wf_def
      can_filter_wire.list_dec_iff MAX_CAN_FILTERS_def)

interpretation filter_set_wire: canonical_codec CanFilterSet_to_proto CanFilterSet_from_proto filter_set_wf
  by unfold_locales auto

lemma CanBusStatus_from_Ok [simp]: "CanBusStatus_from_proto w = Ok s \<longleftrightarrow> w = CanBusStatus_to_proto s"
  by (cases w; cases s) (auto simp: CanBusStatus_from_proto_def CanBusStatus_to_proto_def)

interpretation bus_status_wire: canonical_codec CanBusStatus_to_proto CanBusStatus_from_proto "\<lambda>_. True"
  by unfold_locales auto

section \<open>Requests and responses\<close>

lemma open_can_request_from_Ok:
  "open_can_request_from_proto w = Ok (s, m, c, fs) \<longleftrightarrow>
     selector_wf s \<and> rs_transport s = TCan \<and> open_config_wf c \<and> filter_set_wf fs
     \<and> w = \<lparr>woq_selector = Some (selector_message s), woq_mode = enum_number LeaseMode_numbers (lease_mode_to_proto m),
            woq_config = Some (CanOpenConfig_to_proto c), woq_filters = Some (CanFilterSet_to_proto fs)\<rparr>"
  by (cases w) (auto simp: open_can_request_from_proto_def)

definition batch_wf :: "CanFrame list \<Rightarrow> bool" where
  "batch_wf fs \<longleftrightarrow> 1 \<le> length fs \<and> length fs \<le> MAX_CAN_BATCH_FRAMES \<and> list_all can_frame_wf fs"

lemma can_send_request_from_Ok:
  "can_send_request_from_proto w = Ok (s, l, fs) \<longleftrightarrow>
     parse_session_lease (wsl_session_id w) (wsl_lease w) = Ok (s, l)
     \<and> batch_wf fs \<and> wsq_frames w = map CanFrame_to_proto fs"
  by (auto simp: can_send_request_from_proto_def send_can_frames_from_proto_def batch_wf_def
      can_frame_wire.list_dec_iff simp del: parse_session_lease_Ok)

lemma can_receive_request_from_Ok:
  "can_receive_request_from_proto w = Ok (s, l, n, t) \<longleftrightarrow>
     parse_session_lease (wsl_session_id w) (wsl_lease w) = Ok (s, l)
     \<and> 1 \<le> n \<and> n \<le> MAX_CAN_BATCH_FRAMES \<and> n = unat (wrq_max_frames w) \<and> t = from_millis (wrq_timeout_ms w)"
  by (auto simp: can_receive_request_from_proto_def can_receive_parameters_def simp del: parse_session_lease_Ok)

lemma replace_filters_from_Ok:
  "replace_can_filters_request_from_proto w = Ok (s, l, fs) \<longleftrightarrow>
     parse_session_lease (wsl_session_id w) (wsl_lease w) = Ok (s, l)
     \<and> filter_set_wf fs \<and> wfr_filters w = Some (CanFilterSet_to_proto fs)"
  by (auto simp: replace_can_filters_request_from_proto_def simp del: parse_session_lease_Ok)

lemma received_frames_from_Ok:
  "received_can_frames_from_proto ws n = Ok fs \<longleftrightarrow>
     1 \<le> n \<and> n \<le> MAX_CAN_BATCH_FRAMES \<and> length fs \<le> n \<and> list_all received_frame_wf fs
     \<and> ws = map ReceivedCanFrame_to_proto fs"
  by (auto simp: received_can_frames_from_proto_def received_frame_wire.list_dec_iff)

lemma rejects_invalid [simp]: "rejects_uniformly (Err (invalid f d))"
  by (simp add: invalid_def)

lemma rejects_narrowed [simp]:
  "rejects_uniformly (map_err (\<lambda>_. invalid f d) r)" "rejects_uniformly (ok_or (invalid f d) v)"
  "rejects_uniformly (required v f)"
  by (simp_all add: invalid_def required_def)

lemma rejects_can_enums [simp]:
  "rejects_uniformly (mode_from_proto n f)" "rejects_uniformly (lease_mode_from_proto n f)"
  "rejects_uniformly (error_class_from_proto n)" "rejects_uniformly (timestamp_source_from_proto n)"
  "rejects_uniformly (filter_format_from_proto n)" "rejects_uniformly (bus_state_from_proto n)"
  unfolding mode_from_proto_def lease_mode_from_proto_def error_class_from_proto_def timestamp_source_from_proto_def
    filter_format_from_proto_def bus_state_from_proto_def
  by (auto split: v1_CanMode.split v1_LeaseMode.split v1_CanErrorClass.split v1_CanTimestampSource.split
      v1_CanIdFormat.split v1_CanBusState.split)

lemma rejects_can_frames [simp]:
  "rejects_uniformly (CanFrame_from_proto w)" "rejects_uniformly (ReceivedCanFrame_from_proto r)"
proof -
  have "rejects_uniformly (CanId_from_proto i)" for i
    unfolding CanId_from_proto_def by (auto split: v1_CanIdFormat.split)
  then have "rejects_uniformly (frame_id w)" for w unfolding frame_id_def by auto
  then show f: "rejects_uniformly (CanFrame_from_proto w)" for w
    unfolding CanFrame_from_proto_def frame_arms by (auto split: v1_CanFrameKind.split intro!: rejects_collect)
  have "rejects_uniformly (CanTimestamp_from_proto t)" for t unfolding CanTimestamp_from_proto_def by auto
  with f show "rejects_uniformly (ReceivedCanFrame_from_proto r)"
    unfolding ReceivedCanFrame_from_proto_def by (auto intro!: rejects_transpose)
qed

lemma rejects_can_configs [simp]:
  "rejects_uniformly (CanOpenConfig_from_proto w)" "rejects_uniformly (CanActiveConfig_from_proto a)"
  "rejects_uniformly (CanFilterSet_from_proto fs)" "rejects_uniformly (CanBusStatus_from_proto s)"
proof -
  have t: "rejects_uniformly (CanBitTiming_from_proto t)" for t
    unfolding CanBitTiming_from_proto_def by (auto intro!: rejects_transpose)
  have "rejects_uniformly (CanLinkExpectation_from_proto x)" "rejects_uniformly (CanConfigureConfig_from_proto c)" for x c
    unfolding CanLinkExpectation_from_proto_def CanConfigureConfig_from_proto_def
    by (auto intro!: rejects_transpose simp: t)
  then show "rejects_uniformly (CanOpenConfig_from_proto w)"
    unfolding CanOpenConfig_from_proto_def by (auto split: v1_can_open_config.split)
  show "rejects_uniformly (CanActiveConfig_from_proto a)"
    unfolding CanActiveConfig_from_proto_def by (auto intro!: rejects_transpose simp: t)
  show "rejects_uniformly (CanFilterSet_from_proto fs)" "rejects_uniformly (CanBusStatus_from_proto s)"
    unfolding CanFilterSet_from_proto_def CanFilter_from_proto_def CanBusStatus_from_proto_def
    by (auto intro!: rejects_collect)
qed

lemma rejects_can_requests [simp]:
  "rejects_uniformly (open_can_request_from_proto oq)" "rejects_uniformly (open_can_response_from_proto resp m)"
  "rejects_uniformly (can_send_request_from_proto sq)" "rejects_uniformly (can_send_response_from_proto sr n)"
  "rejects_uniformly (can_receive_request_from_proto rq)" "rejects_uniformly (received_can_frames_from_proto rs k)"
  "rejects_uniformly (replace_can_filters_request_from_proto fr)"
  "rejects_uniformly (get_can_bus_status_request_from_proto bq)"
  "rejects_uniformly (get_can_bus_status_response_from_proto br)"
  "rejects_uniformly (enumerate_can_response_from_proto ds)"
  unfolding open_can_request_from_proto_def open_can_response_from_proto_def can_send_request_from_proto_def
    can_send_response_from_proto_def can_receive_request_from_proto_def received_can_frames_from_proto_def
    replace_can_filters_request_from_proto_def get_can_bus_status_request_from_proto_def
    get_can_bus_status_response_from_proto_def enumerate_can_response_from_proto_def
    send_can_frames_from_proto_def validate_input_count_def can_receive_parameters_def Let_def
  by (auto intro!: rejects_collect split: option.split)

section \<open>Properties\<close>

text \<open>
  C30. CAN values over the wire: frames, received frames with their timestamps, open and active
  configurations, filter sets and bus status are decoded from exactly the message their encoder
  produces, and only when they are well formed. A value therefore survives the wire unchanged, and
  a message with a stray field, an out-of-range number or an invalid length is never accepted.
\<close>

theorem can_wire_round_trips:
  "(CanFrame_from_proto w1 = Ok frame \<longleftrightarrow> can_frame_wf frame \<and> w1 = CanFrame_to_proto frame)
   \<and> (ReceivedCanFrame_from_proto w2 = Ok received \<longleftrightarrow>
        received_frame_wf received \<and> w2 = ReceivedCanFrame_to_proto received)
   \<and> (CanOpenConfig_from_proto w3 = Ok config \<longleftrightarrow> open_config_wf config \<and> w3 = CanOpenConfig_to_proto config)
   \<and> (CanActiveConfig_from_proto w4 = Ok active \<longleftrightarrow> active_wire_wf active \<and> w4 = CanActiveConfig_to_proto active)
   \<and> (CanFilterSet_from_proto w5 = Ok filters \<longleftrightarrow> filter_set_wf filters \<and> w5 = CanFilterSet_to_proto filters)
   \<and> (CanBusStatus_from_proto w6 = Ok status \<longleftrightarrow> w6 = CanBusStatus_to_proto status)"
  by simp

lemma send_response_ok:
  "can_send_response_from_proto w n = Ok (Ok u) \<longleftrightarrow>
     1 \<le> n \<and> n \<le> MAX_CAN_BATCH_FRAMES \<and> wsr_error w = None \<and> unat (wsr_committed_count w) = n"
  by (auto simp: can_send_response_from_proto_def validate_input_count_def Let_def split: option.splits if_splits)

lemma send_response_err:
  "can_send_response_from_proto w n = Ok (Err e) \<longleftrightarrow>
     1 \<le> n \<and> n \<le> MAX_CAN_BATCH_FRAMES \<and> bs_committed e < n \<and> unat (wsr_committed_count w) = bs_committed e
     \<and> (\<exists>error. wsr_error w = Some error \<and> error_from_proto error = Ok (bs_error e))"
  by (cases e) (auto simp: can_send_response_from_proto_def validate_input_count_def Let_def backend_prefix_def
      split: option.splits if_splits)

lemma error_from_to: "hal_error_wf e \<Longrightarrow> error_from_proto (error_to_proto e) = Ok e"
  by (auto simp: error_from_proto_Ok error_to_proto_def)

text \<open>
  C31. The outcome of a batch send over the wire: the broker can report a result for a batch of
  \<open>n\<close> frames exactly when the batch has 1 to 64 frames and a failure committed fewer frames than the
  batch has; the client then reads back the same outcome. Whatever message it accepts, success means
  that all frames were committed and failure names a strict prefix.
\<close>

theorem batch_send_outcome_round_trip:
  assumes "\<And>error. result = Err error \<Longrightarrow> hal_error_wf (bs_error error)"
  shows "(is_ok (can_send_response_to_proto result n) \<longleftrightarrow>
      1 \<le> n \<and> n \<le> MAX_CAN_BATCH_FRAMES \<and> (\<forall>error. result = Err error \<longrightarrow> bs_committed error < n))
    \<and> (\<forall>w. can_send_response_to_proto result n = Ok w \<longrightarrow> can_send_response_from_proto w n = Ok result)
    \<and> (\<forall>w u. can_send_response_from_proto w n = Ok (Ok u) \<longrightarrow> unat (wsr_committed_count w) = n)
    \<and> (\<forall>w e. can_send_response_from_proto w n = Ok (Err e) \<longrightarrow>
         bs_committed e = unat (wsr_committed_count w) \<and> bs_committed e < n \<and> hal_error_wf (bs_error e))"
proof (intro conjI allI impI)
  show "is_ok (can_send_response_to_proto result n) \<longleftrightarrow>
      1 \<le> n \<and> n \<le> MAX_CAN_BATCH_FRAMES \<and> (\<forall>error. result = Err error \<longrightarrow> bs_committed error < n)"
    by (cases result) (auto simp: can_send_response_to_proto_def validate_input_count_def split: if_splits)
  fix w assume *: "can_send_response_to_proto result n = Ok w"
  show "can_send_response_from_proto w n = Ok result"
  proof (cases result)
    case (Ok u)
    then show ?thesis using *
      by (auto simp: can_send_response_to_proto_def validate_input_count_def can_send_response_from_proto_def
          MAX_CAN_BATCH_FRAMES_def unat_of_nat Let_def split: if_splits)
  next
    case (Err e)
    then show ?thesis using * error_from_to [OF assms [OF Err]]
      by (auto simp: send_response_err can_send_response_to_proto_def validate_input_count_def
          MAX_CAN_BATCH_FRAMES_def unat_of_nat split: if_splits)
  qed
qed (auto simp: send_response_ok send_response_err error_from_proto_Ok)

text \<open>Witness: three of five frames went out before the bus failed.\<close>

lemma batch_send_outcome_round_trip_witness:
  "let result = Err (backend_prefix (invalid_message ''bus off'') 3) in
   \<exists>w. can_send_response_to_proto result 5 = Ok w \<and> can_send_response_from_proto w 5 = Ok result
     \<and> unat (wsr_committed_count w) = 3"
proof -
  let ?r = "Err (backend_prefix (invalid_message ''bus off'') 3) :: (unit, CanBatchSendError) result"
  have "hal_error_wf (invalid_message ''bus off'')" by (simp add: invalid_message_def identifier_eval)
  then have wf: "\<And>e. ?r = Err e \<Longrightarrow> hal_error_wf (bs_error e)" by (auto simp: backend_prefix_def)
  note p = batch_send_outcome_round_trip [of ?r 5, OF wf]
  have "is_ok (can_send_response_to_proto ?r 5)"
    using p by (simp add: MAX_CAN_BATCH_FRAMES_def backend_prefix_def)
  then obtain w where w: "can_send_response_to_proto ?r 5 = Ok w" by (cases "can_send_response_to_proto ?r 5") auto
  then have "can_send_response_from_proto w 5 = Ok ?r" using p by blast
  moreover from this have "bs_committed (backend_prefix (invalid_message ''bus off'') 3) = unat (wsr_committed_count w)"
    using p by blast
  then have "unat (wsr_committed_count w) = 3" by (simp add: backend_prefix_def)
  ultimately show ?thesis using w by auto
qed

end
