(* ===== verification/Wire_Camera.thy ===== *)
theory Wire_Camera
  imports Wire_Can_Laws Shm_Ring
begin

text \<open>
  The camera messages of \<open>src/proto/seeed/hal/v1/hal.proto\<close> and the conversions of
  \<open>src/crates/robot-hal-protocol/src/camera_conversion.rs\<close>: open requests, control values and
  descriptors, mapping descriptors and frame leases of the shared-memory ring.
\<close>

section \<open>Messages\<close>

record v1_CameraFormat =
  wpf_pixel_format :: i32
  wpf_width :: u32
  wpf_height :: u32

record v1_CameraRequest =
  wcr_format :: "v1_CameraFormat option"
  wcr_slot_count :: u32

record v1_OpenCameraRequest =
  wco_selector :: "v1_ResourceSelector option"
  wco_request :: "v1_CameraRequest option"

record v1_CaptureCameraRequest = v1_SessionLease +
  wcp_timeout_ms :: u64

datatype v1_camera_control_value = WireInteger int | WireEnum string

record v1_CameraControlValue =
  wcv_value :: "v1_camera_control_value option"

datatype v1_camera_control_values = WireRange int int int | WireEnumerated "v1_CameraControlValue list"

record v1_CameraControlValues =
  wvs_values :: "v1_camera_control_values option"

record v1_CameraControlDescriptor =
  wcd_kind :: i32
  wcd_readable :: bool
  wcd_writable :: bool
  wcd_auto_supported :: bool
  wcd_values :: "v1_CameraControlValues option"
  wcd_current_value_available :: bool
  wcd_diagnostic :: string

record v1_MappingDescriptor =
  wmd_mapping_name :: string
  wmd_mapping_identity :: "u8 list"
  wmd_capability_token :: "u8 list"
  wmd_total_length :: u64

record v1_FrameLease =
  wfl_slot_index :: u32
  wfl_sequence :: u64
  wfl_generation :: u64

section \<open>Formats and requests\<close>

definition camera_selector_from_proto :: "v1_ResourceSelector \<Rightarrow> ResourceSelector hal_result" where
  "camera_selector_from_proto value =
     and_then (ResourceSelector_from_proto value) (\<lambda>selector.
     if rs_transport selector \<noteq> TCamera
     then Err (invalid_message ''camera resource selector transport must be Camera'')
     else Ok selector)"

definition pixel_format_from_proto :: "i32 \<Rightarrow> CameraPixelFormat hal_result" where
  "pixel_format_from_proto value =
     and_then (ok_or (invalid_message ''camera format has an unknown pixel format'')
       (enum_try_from CameraPixelFormat_numbers value)) (\<lambda>f.
     case f of
       CAMERA_PIXEL_FORMAT_NV12 \<Rightarrow> Ok Nv12
     | CAMERA_PIXEL_FORMAT_YUYV \<Rightarrow> Ok Yuyv
     | CAMERA_PIXEL_FORMAT_MJPEG \<Rightarrow> Ok Mjpeg
     | CAMERA_PIXEL_FORMAT_UNSPECIFIED \<Rightarrow> Err (invalid_message ''camera format pixel format is required''))"

definition camera_format_from_proto :: "v1_CameraFormat \<Rightarrow> CameraFormat hal_result" where
  "camera_format_from_proto value =
     and_then (pixel_format_from_proto (wpf_pixel_format value)) (\<lambda>pixel_format.
     map_err (\<lambda>_. invalid_message ''camera format violates public bounds'')
       (CameraFormat_new pixel_format (wpf_width value) (wpf_height value)))"

definition camera_open_request_from_proto ::
  "v1_OpenCameraRequest \<Rightarrow> (ResourceSelector \<times> CameraRequest) hal_result" where
  "camera_open_request_from_proto value =
     and_then (ok_or (invalid_message ''camera open selector is required'') (wco_selector value)) (\<lambda>selector.
     and_then (ok_or (invalid_message ''camera open request is required'') (wco_request value)) (\<lambda>request.
     and_then (ok_or (invalid_message ''camera request format is required'') (wcr_format request)) (\<lambda>format.
     let slots = unat (wcr_slot_count request) in
     if \<not> (MIN_CAMERA_SLOT_COUNT \<le> slots \<and> slots \<le> MAX_CAMERA_SLOT_COUNT)
     then Err (invalid_message ''camera slot count violates public bounds'')
     else
       and_then (camera_selector_from_proto selector) (\<lambda>selector.
       and_then (camera_format_from_proto format) (\<lambda>format.
       and_then (map_err (\<lambda>_. invalid_message ''camera request violates public bounds'')
         (CameraRequest_new format slots)) (\<lambda>request.
       Ok (selector, request)))))))"

definition camera_session_lease_from_proto ::
  "string \<Rightarrow> v1_LeaseToken option \<Rightarrow> (SessionId \<times> LeaseToken) hal_result" where
  "camera_session_lease_from_proto session_id lease =
     and_then (parse_session_lease session_id lease) (\<lambda>(session, lease).
     if lt_mode lease \<noteq> Control then Err (invalid_message ''Camera session lease mode must be Control'')
     else Ok (session, lease))"

definition camera_capture_request_from_proto ::
  "v1_CaptureCameraRequest \<Rightarrow> (SessionId \<times> LeaseToken \<times> duration) hal_result" where
  "camera_capture_request_from_proto value =
     (if wcp_timeout_ms value = 0 then
        Err (invalid_message ''camera capture timeout must be greater than zero'')
      else
        and_then (camera_session_lease_from_proto (wsl_session_id value) (wsl_lease value)) (\<lambda>(session, lease).
        Ok (session, lease, from_millis (wcp_timeout_ms value))))"

definition camera_open_response_to_proto :: "SessionId \<Rightarrow> LeaseToken \<Rightarrow> v1_SessionLease" where
  "camera_open_response_to_proto session lease =
     \<lparr>wsl_session_id = SessionId_as_str session, wsl_lease = Some (LeaseToken_to_proto lease)\<rparr>"

definition camera_open_response_from_proto :: "v1_SessionLease \<Rightarrow> (SessionId \<times> LeaseToken) hal_result" where
  "camera_open_response_from_proto value = camera_session_lease_from_proto (wsl_session_id value) (wsl_lease value)"

section \<open>Controls\<close>

definition camera_control_kind_from_proto :: "i32 \<Rightarrow> CameraControlKind hal_result" where
  "camera_control_kind_from_proto value =
     and_then (ok_or (invalid_message ''camera control kind has an unknown value'')
       (enum_try_from CameraControlKind_numbers value)) (\<lambda>k.
     case k of
       CAMERA_CONTROL_KIND_EXPOSURE \<Rightarrow> Ok Exposure
     | CAMERA_CONTROL_KIND_GAIN \<Rightarrow> Ok Gain
     | CAMERA_CONTROL_KIND_WHITE_BALANCE \<Rightarrow> Ok WhiteBalance
     | CAMERA_CONTROL_KIND_FOCUS \<Rightarrow> Ok Focus
     | CAMERA_CONTROL_KIND_UNSPECIFIED \<Rightarrow> Err (invalid_message ''camera control kind is required''))"

fun control_kind_to_proto :: "CameraControlKind \<Rightarrow> v1_CameraControlKind" where
  "control_kind_to_proto Exposure = CAMERA_CONTROL_KIND_EXPOSURE"
| "control_kind_to_proto Gain = CAMERA_CONTROL_KIND_GAIN"
| "control_kind_to_proto WhiteBalance = CAMERA_CONTROL_KIND_WHITE_BALANCE"
| "control_kind_to_proto Focus = CAMERA_CONTROL_KIND_FOCUS"

definition camera_control_value_from_proto :: "v1_CameraControlValue \<Rightarrow> CameraControlValue hal_result" where
  "camera_control_value_from_proto value =
     (case wcv_value value of
        Some (WireInteger value) \<Rightarrow> Ok (IntegerValue value)
      | Some (WireEnum value) \<Rightarrow>
          if value \<noteq> [] \<and> is_ascii value \<and> length value \<le> 255 then Ok (EnumValue value)
          else Err (invalid_message ''camera enum control value is invalid'')
      | None \<Rightarrow> Err (invalid_message ''camera control value is required''))"

definition camera_control_value_to_proto :: "CameraControlValue \<Rightarrow> v1_CameraControlValue" where
  "camera_control_value_to_proto value =
     \<lparr>wcv_value = Some (case value of IntegerValue value \<Rightarrow> WireInteger value | EnumValue value \<Rightarrow> WireEnum value)\<rparr>"

definition control_values_from_proto :: "v1_CameraControlValues \<Rightarrow> CameraControlValues hal_result" where
  "control_values_from_proto values =
     (case wvs_values values of
        Some (WireRange minimum maximum step) \<Rightarrow>
          map_err (\<lambda>_. invalid_message ''camera control values are invalid'') (control_range minimum maximum step)
      | Some (WireEnumerated values) \<Rightarrow>
          if length values > 64 then Err (invalid_message ''camera enumerated control values exceed bound'')
          else
            and_then (collect_results (map camera_control_value_from_proto values)) (\<lambda>values.
            map_err (\<lambda>_. invalid_message ''camera control values are invalid'') (control_enumerated values))
      | None \<Rightarrow> Err (invalid_message ''camera control values kind is required''))"

definition camera_control_descriptor_from_proto ::
  "v1_CameraControlDescriptor \<Rightarrow> CameraControlDescriptor hal_result" where
  "camera_control_descriptor_from_proto value =
     and_then (ok_or (invalid_message ''camera control values are required'') (wcd_values value)) (\<lambda>values.
     and_then (control_values_from_proto values) (\<lambda>values.
     if wcd_diagnostic value \<noteq> [] \<and> (\<not> is_ascii (wcd_diagnostic value) \<or> length (wcd_diagnostic value) > 255)
     then Err (invalid_message ''camera control diagnostic is invalid'')
     else
       and_then (camera_control_kind_from_proto (wcd_kind value)) (\<lambda>kind.
       map_err (\<lambda>_. invalid_message ''camera control descriptor is invalid'')
         (CameraControlDescriptor_new kind (wcd_readable value) (wcd_writable value) (wcd_auto_supported value)
           values (wcd_current_value_available value)
           (if wcd_diagnostic value \<noteq> [] then Some (wcd_diagnostic value) else None)))))"

definition control_values_to_proto :: "CameraControlValues \<Rightarrow> v1_CameraControlValues" where
  "control_values_to_proto values =
     \<lparr>wvs_values = Some (case values of
        RangeValues minimum maximum step \<Rightarrow> WireRange minimum maximum step
      | Enumerated values \<Rightarrow> WireEnumerated (map camera_control_value_to_proto values))\<rparr>"

definition camera_control_descriptor_to_proto :: "CameraControlDescriptor \<Rightarrow> v1_CameraControlDescriptor" where
  "camera_control_descriptor_to_proto value =
     \<lparr>wcd_kind = enum_number CameraControlKind_numbers (control_kind_to_proto (cd_kind value)),
      wcd_readable = cd_readable value, wcd_writable = cd_writable value,
      wcd_auto_supported = cd_auto_supported value, wcd_values = Some (control_values_to_proto (cd_values value)),
      wcd_current_value_available = cd_current_value_available value,
      wcd_diagnostic = (case cd_diagnostic value of None \<Rightarrow> [] | Some diagnostic \<Rightarrow> diagnostic)\<rparr>"

definition camera_controls_response_from_proto ::
  "v1_CameraControlDescriptor list \<Rightarrow> CameraControlDescriptor list hal_result" where
  "camera_controls_response_from_proto controls =
     (if length controls > 4 then Err (invalid_message ''camera control descriptor count exceeds bound'')
      else collect_results (map camera_control_descriptor_from_proto controls))"

section \<open>Mappings and frame leases\<close>

definition camera_mapping_descriptor_from_proto :: "v1_MappingDescriptor \<Rightarrow> MappingDescriptor hal_result" where
  "camera_mapping_descriptor_from_proto value =
     (if wmd_mapping_name value = [] \<or> \<not> is_ascii (wmd_mapping_name value)
         \<or> length (wmd_mapping_name value) > 255 \<or> length (wmd_mapping_identity value) \<noteq> 32
         \<or> length (wmd_capability_token value) \<noteq> 32 \<or> wmd_total_length value = 0
         \<or> wmd_total_length value > 256 * 1024 * 1024 then
        Err (invalid_message ''camera mapping descriptor is invalid'')
      else
        map_err (\<lambda>_. invalid_message ''camera mapping descriptor is invalid'')
          (MappingDescriptor_new (wmd_mapping_name value) (wmd_mapping_identity value)
            (wmd_capability_token value) (unat (wmd_total_length value))))"

definition camera_mapping_descriptor_to_proto :: "MappingDescriptor \<Rightarrow> v1_MappingDescriptor" where
  "camera_mapping_descriptor_to_proto value =
     \<lparr>wmd_mapping_name = md_name value, wmd_mapping_identity = identity_bytes (md_identity value),
      wmd_capability_token = token_bytes (md_token value), wmd_total_length = of_nat (md_total_length value)\<rparr>"

record WireFrameLease =
  wl_slot_index :: usize
  wl_sequence :: u64
  wl_lease_generation :: u64

definition bind_lease :: "WireFrameLease \<Rightarrow> MappingDescriptor \<Rightarrow> FrameLease" where
  "bind_lease lease descriptor =
     \<lparr>fl_identity = md_identity descriptor, fl_slot_index = wl_slot_index lease, fl_sequence = wl_sequence lease,
      fl_generation = wl_lease_generation lease\<rparr>"

definition camera_next_frame_lease_response_from_proto ::
  "v1_FrameLease option \<Rightarrow> WireFrameLease option hal_result" where
  "camera_next_frame_lease_response_from_proto value =
     (case value of
        None \<Rightarrow> Ok None
      | Some lease \<Rightarrow>
          if wfl_generation lease = 0 then Err (invalid_message ''camera frame lease generation is required'')
          else if wfl_sequence lease = 0 then Err (invalid_message ''camera frame lease sequence is required'')
          else
            let slot_index = unat (wfl_slot_index lease) in
            if slot_index \<ge> MAX_CAMERA_SLOT_COUNT
            then Err (invalid_message ''camera frame slot index exceeds bound'')
            else Ok (Some \<lparr>wl_slot_index = slot_index, wl_sequence = wfl_sequence lease,
              wl_lease_generation = wfl_generation lease\<rparr>))"

definition frame_lease_to_proto :: "FrameLease \<Rightarrow> v1_FrameLease" where
  "frame_lease_to_proto value =
     \<lparr>wfl_slot_index = of_nat (fl_slot_index value), wfl_sequence = fl_sequence value,
      wfl_generation = fl_generation value\<rparr>"

section \<open>Laws\<close>

lemma pixel_format_from_wf: "camera_format_from_proto w = Ok f \<Longrightarrow> camera_format_wf f"
  by (auto simp: camera_format_from_proto_def)

lemma control_kind_from_Ok [simp]:
  "camera_control_kind_from_proto n = Ok k \<longleftrightarrow> n = enum_number CameraControlKind_numbers (control_kind_to_proto k)"
proof -
  have "(case v of CAMERA_CONTROL_KIND_EXPOSURE \<Rightarrow> Ok Exposure | CAMERA_CONTROL_KIND_GAIN \<Rightarrow> Ok Gain
      | CAMERA_CONTROL_KIND_WHITE_BALANCE \<Rightarrow> Ok WhiteBalance | CAMERA_CONTROL_KIND_FOCUS \<Rightarrow> Ok Focus
      | CAMERA_CONTROL_KIND_UNSPECIFIED \<Rightarrow> Err e) = Ok k \<longleftrightarrow> v = control_kind_to_proto k" for v and e :: HalError
    by (cases k) (auto split: v1_CameraControlKind.splits)
  then show ?thesis by (auto simp: camera_control_kind_from_proto_def)
qed

fun control_value_wf :: "CameraControlValue \<Rightarrow> bool" where
  "control_value_wf (IntegerValue v) = True"
| "control_value_wf (EnumValue s) = valid_identifier s"

lemma control_value_from_Ok [simp]:
  "camera_control_value_from_proto w = Ok v \<longleftrightarrow> control_value_wf v \<and> w = camera_control_value_to_proto v"
  by (cases w; cases v) (auto simp: camera_control_value_from_proto_def camera_control_value_to_proto_def
      valid_identifier_def split: option.split v1_camera_control_value.split)

interpretation control_value_wire:
  canonical_codec camera_control_value_to_proto camera_control_value_from_proto control_value_wf
  by unfold_locales auto

fun control_values_wf :: "CameraControlValues \<Rightarrow> bool" where
  "control_values_wf (RangeValues lo hi st) = (lo \<le> hi \<and> 0 < st)"
| "control_values_wf (Enumerated vs) = (vs \<noteq> [] \<and> length vs \<le> 64 \<and> list_all control_value_wf vs)"

definition control_descriptor_wf :: "CameraControlDescriptor \<Rightarrow> bool" where
  "control_descriptor_wf d \<longleftrightarrow> control_values_wf (cd_values d)
     \<and> (cd_current_value_available d \<longrightarrow> cd_readable d) \<and> pred_option valid_identifier (cd_diagnostic d)"

lemma control_values_from_Ok [simp]:
  "control_values_from_proto w = Ok v \<longleftrightarrow> control_values_wf v \<and> w = control_values_to_proto v"
proof -
  obtain vs where w: "w = \<lparr>wvs_values = vs\<rparr>" by (cases w) simp
  have r: "map_err f (control_range lo hi st) = Ok x \<longleftrightarrow> x = RangeValues lo hi st \<and> control_values_wf x" for f lo hi st x
    by (auto simp: control_range_def)
  have e: "map_err f (control_enumerated vs) = Ok x \<longleftrightarrow> x = Enumerated vs \<and> vs \<noteq> []" for f vs x
    by (auto simp: control_enumerated_def)
  show ?thesis
  proof (cases vs)
    case None
    then show ?thesis by (simp add: w control_values_from_proto_def control_values_to_proto_def)
  next
    case (Some x)
    show ?thesis
    proof (cases x)
      case (WireRange lo hi st)
      then show ?thesis unfolding w Some control_values_from_proto_def control_values_to_proto_def
        by (cases v) (auto simp: r simp del: map_err_eq_Ok)
    next
      case (WireEnumerated ws)
      then show ?thesis unfolding w Some control_values_from_proto_def control_values_to_proto_def
        by (cases v) (auto simp: e control_value_wire.list_dec_iff simp del: control_value_from_Ok map_err_eq_Ok)
    qed
  qed
qed

lemma control_descriptor_from_Ok [simp]:
  "camera_control_descriptor_from_proto w = Ok d \<longleftrightarrow>
     control_descriptor_wf d \<and> w = camera_control_descriptor_to_proto d"
proof -
  have e: "\<not> valid_identifier []" by (simp add: valid_identifier_def)
  show ?thesis
    by (cases w; cases d) (auto simp: camera_control_descriptor_from_proto_def camera_control_descriptor_to_proto_def
        control_descriptor_wf_def CameraControlDescriptor_new_def valid_identifier_def e split: if_splits option.splits)
qed

interpretation control_descriptor_wire:
  canonical_codec camera_control_descriptor_to_proto camera_control_descriptor_from_proto control_descriptor_wf
  by unfold_locales auto

definition mapping_descriptor_wf :: "MappingDescriptor \<Rightarrow> bool" where
  "mapping_descriptor_wf d \<longleftrightarrow> valid_identifier (md_name d) \<and> length (identity_bytes (md_identity d)) = 32
     \<and> length (token_bytes (md_token d)) = 32 \<and> 0 < md_total_length d \<and> md_total_length d \<le> MAX_MAPPING_BYTES"

lemma mapping_descriptor_from_Ok [simp]:
  "camera_mapping_descriptor_from_proto w = Ok d \<longleftrightarrow>
     mapping_descriptor_wf d \<and> w = camera_mapping_descriptor_to_proto d" (is "_ \<longleftrightarrow> ?R")
proof
  assume "camera_mapping_descriptor_from_proto w = Ok d"
  then show ?R
    by (cases w) (auto simp: camera_mapping_descriptor_from_proto_def camera_mapping_descriptor_to_proto_def
        mapping_descriptor_wf_def MappingDescriptor_new_Ok MAX_MAPPING_BYTES_def split: if_splits)
next
  assume r: ?R
  then have l: "md_total_length d < 2 ^ 64" "0 < md_total_length d" "md_total_length d \<le> 268435456"
    by (auto simp: mapping_descriptor_wf_def MAX_MAPPING_BYTES_def)
  then have "unat (of_nat (md_total_length d) :: u64) = md_total_length d" by (simp add: unat_of_nat)
  moreover from this have "(of_nat (md_total_length d) :: u64) \<noteq> 0" "(of_nat (md_total_length d) :: u64) \<le> 268435456"
    using l by (auto simp: word_le_nat_alt unat_eq_0)
  ultimately show "camera_mapping_descriptor_from_proto w = Ok d"
    using r l by (cases d) (auto simp: camera_mapping_descriptor_from_proto_def camera_mapping_descriptor_to_proto_def
        mapping_descriptor_wf_def MappingDescriptor_new_Ok MAX_MAPPING_BYTES_def valid_identifier_def)
qed

interpretation mapping_descriptor_wire:
  canonical_codec camera_mapping_descriptor_to_proto camera_mapping_descriptor_from_proto mapping_descriptor_wf
  by unfold_locales auto

lemma open_camera_request_wf:
  "camera_open_request_from_proto w = Ok (s, r) \<Longrightarrow>
     selector_wf s \<and> rs_transport s = TCamera \<and> camera_format_wf (cq_format r) \<and> 4 \<le> cq_slot_count r \<and> cq_slot_count r \<le> 8"
  by (auto simp: camera_open_request_from_proto_def camera_selector_from_proto_def Let_def CameraRequest_new_Ok
      split: if_splits)

lemma rejects_camera [simp]:
  "rejects_uniformly (camera_open_request_from_proto oq)" "rejects_uniformly (camera_capture_request_from_proto cq)"
  "rejects_uniformly (camera_open_response_from_proto resp)" "rejects_uniformly (camera_control_kind_from_proto n)"
  "rejects_uniformly (camera_control_value_from_proto v)" "rejects_uniformly (camera_controls_response_from_proto cs)"
  "rejects_uniformly (camera_mapping_descriptor_from_proto m)"
  "rejects_uniformly (camera_next_frame_lease_response_from_proto l)"
proof -
  have "rejects_uniformly (pixel_format_from_proto n)" for n
    unfolding pixel_format_from_proto_def by (auto split: v1_CameraPixelFormat.split)
  then have f: "rejects_uniformly (camera_format_from_proto f)" for f unfolding camera_format_from_proto_def by auto
  then show "rejects_uniformly (camera_open_request_from_proto oq)"
    unfolding camera_open_request_from_proto_def camera_selector_from_proto_def Let_def by auto
  have s: "rejects_uniformly (camera_session_lease_from_proto i l)" for i l
    unfolding camera_session_lease_from_proto_def by (auto split: prod.split)
  then show "rejects_uniformly (camera_capture_request_from_proto cq)" "rejects_uniformly (camera_open_response_from_proto resp)"
    unfolding camera_capture_request_from_proto_def camera_open_response_from_proto_def by (auto split: prod.split)
  show k: "rejects_uniformly (camera_control_kind_from_proto n)" for n
    unfolding camera_control_kind_from_proto_def by (auto split: v1_CameraControlKind.split)
  show v: "rejects_uniformly (camera_control_value_from_proto v)" for v
    unfolding camera_control_value_from_proto_def by (auto split: option.split v1_camera_control_value.split)
  have "rejects_uniformly (control_values_from_proto x)" for x
    unfolding control_values_from_proto_def
    by (auto split: option.split v1_camera_control_values.split intro!: rejects_collect v)
  with k have "rejects_uniformly (camera_control_descriptor_from_proto d)" for d
    unfolding camera_control_descriptor_from_proto_def by auto
  then show "rejects_uniformly (camera_controls_response_from_proto cs)"
    unfolding camera_controls_response_from_proto_def by (auto intro!: rejects_collect)
  show "rejects_uniformly (camera_mapping_descriptor_from_proto m)"
    "rejects_uniformly (camera_next_frame_lease_response_from_proto l)"
    unfolding camera_mapping_descriptor_from_proto_def camera_next_frame_lease_response_from_proto_def Let_def
    by (auto split: option.split)
qed

lemma frame_lease_from_to:
  assumes "fl_slot_index l < 8" "fl_sequence l \<noteq> 0" "fl_generation l \<noteq> 0" "fl_identity l = md_identity d"
  shows "map_ok (map_option (\<lambda>w. bind_lease w d))
    (camera_next_frame_lease_response_from_proto (Some (frame_lease_to_proto l))) = Ok (Some l)"
proof -
  have "unat (of_nat (fl_slot_index l) :: u32) = fl_slot_index l" using assms(1) by (simp add: unat_of_nat)
  then show ?thesis using assms
    by (cases l) (simp add: camera_next_frame_lease_response_from_proto_def frame_lease_to_proto_def bind_lease_def
        MAX_CAMERA_SLOT_COUNT_def)
qed

end
