(* ===== verification/Wire_Envelope.thy ===== *)
theory Wire_Envelope
  imports Wire_Camera
begin

text \<open>
  The envelope of every message between client and broker (\<open>src/proto/seeed/hal/v1/hal.proto\<close>): a
  request number and one of the payloads of its union, with the request messages that have no
  decoder of their own. Messages that carry a session and its lease share \<open>v1_SessionLease\<close>; a message
  with a single field is that field.
\<close>

record v1_SerialReadRequest = v1_SessionLease +
  wsn_max_bytes :: u32

record v1_SerialWriteRequest = v1_SessionLease +
  wsw_data :: "u8 list"

record v1_SetSerialControlLinesRequest = v1_SessionLease +
  wsc_data_terminal_ready :: bool
  wsc_request_to_send :: bool

record v1_CameraGetControlRequest = v1_SessionLease +
  wcg_kind :: i32

record v1_CameraSetControlRequest = v1_SessionLease +
  wcs_kind :: i32
  wcs_value :: "v1_CameraControlValue option"

record v1_CameraSetAutoRequest = v1_SessionLease +
  wca_kind :: i32
  wca_enabled :: bool

datatype (plugins only: size) v1_payload =
    PHandshakeRequest v1_HandshakeRequest | PHandshakeResponse v1_HandshakeResponse
  | PEnumerateSerialRequest unit | PEnumerateSerialResponse "v1_ResourceDescriptor list"
  | POpenSerialRequest v1_OpenSerialRequest | POpenSerialResponse v1_SessionLease
  | PSerialReadRequest v1_SerialReadRequest | PSerialReadResponse "u8 list"
  | PSerialWriteRequest v1_SerialWriteRequest | PSerialWriteResponse unit
  | PSerialFlushRequest v1_SessionLease | PSerialFlushResponse unit
  | PSetSerialControlLinesRequest v1_SetSerialControlLinesRequest
  | PSetSerialControlLinesResponse unit | PCloseSessionRequest v1_SessionLease
  | PCloseSessionResponse unit | PRuntimeEvent v1_RuntimeEvent | PEnumerateCanRequest unit
  | PEnumerateCanResponse "v1_ResourceDescriptor list" | POpenCanRequest v1_OpenCanRequest
  | POpenCanResponse v1_SessionLease | PCanSendRequest v1_CanSendRequest
  | PCanSendResponse v1_CanSendResponse | PCanReceiveRequest v1_CanReceiveRequest
  | PCanReceiveResponse "v1_ReceivedCanFrame list"
  | PReplaceCanFiltersRequest v1_ReplaceCanFiltersRequest | PReplaceCanFiltersResponse unit
  | PGetCanBusStatusRequest v1_SessionLease | PGetCanBusStatusResponse "v1_CanBusStatus option"
  | PEnumerateUsbRequest unit | PEnumerateUsbResponse "v1_ResourceDescriptor list"
  | POpenUsbRequest v1_OpenUsbRequest | POpenUsbResponse v1_SessionLease
  | PUsbTransferRequest v1_UsbTransferRequest | PUsbTransferResponse "u8 list"
  | PCloseUsbRequest v1_SessionLease | PCloseUsbResponse unit | PEnumerateGpioRequest unit
  | PEnumerateGpioResponse "v1_ResourceDescriptor list" | POpenGpioRequest v1_OpenGpioRequest
  | POpenGpioResponse v1_SessionLease | PGpioReadRequest v1_SessionLease
  | PGpioReadResponse "bool list" | PGpioWriteRequest v1_GpioWriteRequest
  | PGpioWriteResponse unit | PGpioNextEdgeRequest v1_GpioNextEdgeRequest
  | PGpioNextEdgeResponse "v1_GpioEdgeEvent option" | PCloseGpioRequest v1_SessionLease
  | PCloseGpioResponse unit | PEnumerateCameraRequest unit
  | PEnumerateCameraResponse "v1_ResourceDescriptor list"
  | POpenCameraRequest v1_OpenCameraRequest | POpenCameraResponse v1_SessionLease
  | PCaptureCameraRequest v1_CaptureCameraRequest | PCaptureCameraResponse unit
  | PCameraMappingDescriptorRequest v1_SessionLease
  | PCameraMappingDescriptorResponse "v1_MappingDescriptor option"
  | PCameraNextFrameLeaseRequest v1_SessionLease
  | PCameraNextFrameLeaseResponse "v1_FrameLease option"
  | PCameraDroppedCountRequest v1_SessionLease | PCameraDroppedCountResponse u64
  | PCameraControlsRequest v1_SessionLease
  | PCameraControlsResponse "v1_CameraControlDescriptor list"
  | PCameraGetControlRequest v1_CameraGetControlRequest
  | PCameraGetControlResponse "v1_CameraControlValue option"
  | PCameraSetControlRequest v1_CameraSetControlRequest | PCameraSetControlResponse unit
  | PError v1_Error | PCameraSetAutoRequest v1_CameraSetAutoRequest | PCameraSetAutoResponse unit
  | PCloseCameraRequest v1_SessionLease | PCloseCameraResponse unit

record v1_Envelope =
  we_request_id :: u64
  we_payload :: "v1_payload option"

section \<open>Matching one payload\<close>

text \<open>The pattern \<open>let Payload::X(x) = payload\<close> of the source: the message, when the payload is of that kind.\<close>

definition as_EnumerateSerialResponse :: "v1_payload \<Rightarrow> (v1_ResourceDescriptor list) option" where
  "as_EnumerateSerialResponse payload = (case payload of PEnumerateSerialResponse x \<Rightarrow> Some x | _ \<Rightarrow> None)"

definition as_OpenSerialResponse :: "v1_payload \<Rightarrow> v1_SessionLease option" where
  "as_OpenSerialResponse payload = (case payload of POpenSerialResponse x \<Rightarrow> Some x | _ \<Rightarrow> None)"

definition as_SerialReadResponse :: "v1_payload \<Rightarrow> (u8 list) option" where
  "as_SerialReadResponse payload = (case payload of PSerialReadResponse x \<Rightarrow> Some x | _ \<Rightarrow> None)"

definition as_SerialWriteResponse :: "v1_payload \<Rightarrow> unit option" where
  "as_SerialWriteResponse payload = (case payload of PSerialWriteResponse x \<Rightarrow> Some x | _ \<Rightarrow> None)"

definition as_SerialFlushResponse :: "v1_payload \<Rightarrow> unit option" where
  "as_SerialFlushResponse payload = (case payload of PSerialFlushResponse x \<Rightarrow> Some x | _ \<Rightarrow> None)"

definition as_SetSerialControlLinesResponse :: "v1_payload \<Rightarrow> unit option" where
  "as_SetSerialControlLinesResponse payload = (case payload of PSetSerialControlLinesResponse x \<Rightarrow> Some x | _ \<Rightarrow> None)"

definition as_CloseSessionResponse :: "v1_payload \<Rightarrow> unit option" where
  "as_CloseSessionResponse payload = (case payload of PCloseSessionResponse x \<Rightarrow> Some x | _ \<Rightarrow> None)"

definition as_EnumerateCanResponse :: "v1_payload \<Rightarrow> (v1_ResourceDescriptor list) option" where
  "as_EnumerateCanResponse payload = (case payload of PEnumerateCanResponse x \<Rightarrow> Some x | _ \<Rightarrow> None)"

definition as_OpenCanResponse :: "v1_payload \<Rightarrow> v1_SessionLease option" where
  "as_OpenCanResponse payload = (case payload of POpenCanResponse x \<Rightarrow> Some x | _ \<Rightarrow> None)"

definition as_CanSendResponse :: "v1_payload \<Rightarrow> v1_CanSendResponse option" where
  "as_CanSendResponse payload = (case payload of PCanSendResponse x \<Rightarrow> Some x | _ \<Rightarrow> None)"

definition as_CanReceiveResponse :: "v1_payload \<Rightarrow> (v1_ReceivedCanFrame list) option" where
  "as_CanReceiveResponse payload = (case payload of PCanReceiveResponse x \<Rightarrow> Some x | _ \<Rightarrow> None)"

definition as_ReplaceCanFiltersResponse :: "v1_payload \<Rightarrow> unit option" where
  "as_ReplaceCanFiltersResponse payload = (case payload of PReplaceCanFiltersResponse x \<Rightarrow> Some x | _ \<Rightarrow> None)"

definition as_GetCanBusStatusResponse :: "v1_payload \<Rightarrow> (v1_CanBusStatus option) option" where
  "as_GetCanBusStatusResponse payload = (case payload of PGetCanBusStatusResponse x \<Rightarrow> Some x | _ \<Rightarrow> None)"

definition as_EnumerateUsbResponse :: "v1_payload \<Rightarrow> (v1_ResourceDescriptor list) option" where
  "as_EnumerateUsbResponse payload = (case payload of PEnumerateUsbResponse x \<Rightarrow> Some x | _ \<Rightarrow> None)"

definition as_OpenUsbResponse :: "v1_payload \<Rightarrow> v1_SessionLease option" where
  "as_OpenUsbResponse payload = (case payload of POpenUsbResponse x \<Rightarrow> Some x | _ \<Rightarrow> None)"

definition as_UsbTransferResponse :: "v1_payload \<Rightarrow> (u8 list) option" where
  "as_UsbTransferResponse payload = (case payload of PUsbTransferResponse x \<Rightarrow> Some x | _ \<Rightarrow> None)"

definition as_CloseUsbResponse :: "v1_payload \<Rightarrow> unit option" where
  "as_CloseUsbResponse payload = (case payload of PCloseUsbResponse x \<Rightarrow> Some x | _ \<Rightarrow> None)"

definition as_EnumerateGpioResponse :: "v1_payload \<Rightarrow> (v1_ResourceDescriptor list) option" where
  "as_EnumerateGpioResponse payload = (case payload of PEnumerateGpioResponse x \<Rightarrow> Some x | _ \<Rightarrow> None)"

definition as_OpenGpioResponse :: "v1_payload \<Rightarrow> v1_SessionLease option" where
  "as_OpenGpioResponse payload = (case payload of POpenGpioResponse x \<Rightarrow> Some x | _ \<Rightarrow> None)"

definition as_GpioReadResponse :: "v1_payload \<Rightarrow> (bool list) option" where
  "as_GpioReadResponse payload = (case payload of PGpioReadResponse x \<Rightarrow> Some x | _ \<Rightarrow> None)"

definition as_GpioWriteResponse :: "v1_payload \<Rightarrow> unit option" where
  "as_GpioWriteResponse payload = (case payload of PGpioWriteResponse x \<Rightarrow> Some x | _ \<Rightarrow> None)"

definition as_GpioNextEdgeResponse :: "v1_payload \<Rightarrow> (v1_GpioEdgeEvent option) option" where
  "as_GpioNextEdgeResponse payload = (case payload of PGpioNextEdgeResponse x \<Rightarrow> Some x | _ \<Rightarrow> None)"

definition as_CloseGpioResponse :: "v1_payload \<Rightarrow> unit option" where
  "as_CloseGpioResponse payload = (case payload of PCloseGpioResponse x \<Rightarrow> Some x | _ \<Rightarrow> None)"

definition as_EnumerateCameraResponse :: "v1_payload \<Rightarrow> (v1_ResourceDescriptor list) option" where
  "as_EnumerateCameraResponse payload = (case payload of PEnumerateCameraResponse x \<Rightarrow> Some x | _ \<Rightarrow> None)"

definition as_OpenCameraResponse :: "v1_payload \<Rightarrow> v1_SessionLease option" where
  "as_OpenCameraResponse payload = (case payload of POpenCameraResponse x \<Rightarrow> Some x | _ \<Rightarrow> None)"

definition as_CaptureCameraResponse :: "v1_payload \<Rightarrow> unit option" where
  "as_CaptureCameraResponse payload = (case payload of PCaptureCameraResponse x \<Rightarrow> Some x | _ \<Rightarrow> None)"

definition as_CameraMappingDescriptorResponse :: "v1_payload \<Rightarrow> (v1_MappingDescriptor option) option" where
  "as_CameraMappingDescriptorResponse payload = (case payload of PCameraMappingDescriptorResponse x \<Rightarrow> Some x | _ \<Rightarrow> None)"

definition as_CameraNextFrameLeaseResponse :: "v1_payload \<Rightarrow> (v1_FrameLease option) option" where
  "as_CameraNextFrameLeaseResponse payload = (case payload of PCameraNextFrameLeaseResponse x \<Rightarrow> Some x | _ \<Rightarrow> None)"

definition as_CameraDroppedCountResponse :: "v1_payload \<Rightarrow> u64 option" where
  "as_CameraDroppedCountResponse payload = (case payload of PCameraDroppedCountResponse x \<Rightarrow> Some x | _ \<Rightarrow> None)"

definition as_CameraControlsResponse :: "v1_payload \<Rightarrow> (v1_CameraControlDescriptor list) option" where
  "as_CameraControlsResponse payload = (case payload of PCameraControlsResponse x \<Rightarrow> Some x | _ \<Rightarrow> None)"

definition as_CameraGetControlResponse :: "v1_payload \<Rightarrow> (v1_CameraControlValue option) option" where
  "as_CameraGetControlResponse payload = (case payload of PCameraGetControlResponse x \<Rightarrow> Some x | _ \<Rightarrow> None)"

definition as_CameraSetControlResponse :: "v1_payload \<Rightarrow> unit option" where
  "as_CameraSetControlResponse payload = (case payload of PCameraSetControlResponse x \<Rightarrow> Some x | _ \<Rightarrow> None)"

definition as_CameraSetAutoResponse :: "v1_payload \<Rightarrow> unit option" where
  "as_CameraSetAutoResponse payload = (case payload of PCameraSetAutoResponse x \<Rightarrow> Some x | _ \<Rightarrow> None)"

definition as_CloseCameraResponse :: "v1_payload \<Rightarrow> unit option" where
  "as_CloseCameraResponse payload = (case payload of PCloseCameraResponse x \<Rightarrow> Some x | _ \<Rightarrow> None)"

lemma as_payload_iff [simp]:
  "as_EnumerateSerialResponse p = Some x1 \<longleftrightarrow> p = PEnumerateSerialResponse x1"
  "as_OpenSerialResponse p = Some x2 \<longleftrightarrow> p = POpenSerialResponse x2"
  "as_SerialReadResponse p = Some x3 \<longleftrightarrow> p = PSerialReadResponse x3"
  "as_SerialWriteResponse p = Some x4 \<longleftrightarrow> p = PSerialWriteResponse x4"
  "as_SerialFlushResponse p = Some x5 \<longleftrightarrow> p = PSerialFlushResponse x5"
  "as_SetSerialControlLinesResponse p = Some x6 \<longleftrightarrow> p = PSetSerialControlLinesResponse x6"
  "as_CloseSessionResponse p = Some x7 \<longleftrightarrow> p = PCloseSessionResponse x7"
  "as_EnumerateCanResponse p = Some x8 \<longleftrightarrow> p = PEnumerateCanResponse x8"
  "as_OpenCanResponse p = Some x9 \<longleftrightarrow> p = POpenCanResponse x9"
  "as_CanSendResponse p = Some x10 \<longleftrightarrow> p = PCanSendResponse x10"
  "as_CanReceiveResponse p = Some x11 \<longleftrightarrow> p = PCanReceiveResponse x11"
  "as_ReplaceCanFiltersResponse p = Some x12 \<longleftrightarrow> p = PReplaceCanFiltersResponse x12"
  "as_GetCanBusStatusResponse p = Some x13 \<longleftrightarrow> p = PGetCanBusStatusResponse x13"
  "as_EnumerateUsbResponse p = Some x14 \<longleftrightarrow> p = PEnumerateUsbResponse x14"
  "as_OpenUsbResponse p = Some x15 \<longleftrightarrow> p = POpenUsbResponse x15"
  "as_UsbTransferResponse p = Some x16 \<longleftrightarrow> p = PUsbTransferResponse x16"
  "as_CloseUsbResponse p = Some x17 \<longleftrightarrow> p = PCloseUsbResponse x17"
  "as_EnumerateGpioResponse p = Some x18 \<longleftrightarrow> p = PEnumerateGpioResponse x18"
  "as_OpenGpioResponse p = Some x19 \<longleftrightarrow> p = POpenGpioResponse x19"
  "as_GpioReadResponse p = Some x20 \<longleftrightarrow> p = PGpioReadResponse x20"
  "as_GpioWriteResponse p = Some x21 \<longleftrightarrow> p = PGpioWriteResponse x21"
  "as_GpioNextEdgeResponse p = Some x22 \<longleftrightarrow> p = PGpioNextEdgeResponse x22"
  "as_CloseGpioResponse p = Some x23 \<longleftrightarrow> p = PCloseGpioResponse x23"
  "as_EnumerateCameraResponse p = Some x24 \<longleftrightarrow> p = PEnumerateCameraResponse x24"
  "as_OpenCameraResponse p = Some x25 \<longleftrightarrow> p = POpenCameraResponse x25"
  "as_CaptureCameraResponse p = Some x26 \<longleftrightarrow> p = PCaptureCameraResponse x26"
  "as_CameraMappingDescriptorResponse p = Some x27 \<longleftrightarrow> p = PCameraMappingDescriptorResponse x27"
  "as_CameraNextFrameLeaseResponse p = Some x28 \<longleftrightarrow> p = PCameraNextFrameLeaseResponse x28"
  "as_CameraDroppedCountResponse p = Some x29 \<longleftrightarrow> p = PCameraDroppedCountResponse x29"
  "as_CameraControlsResponse p = Some x30 \<longleftrightarrow> p = PCameraControlsResponse x30"
  "as_CameraGetControlResponse p = Some x31 \<longleftrightarrow> p = PCameraGetControlResponse x31"
  "as_CameraSetControlResponse p = Some x32 \<longleftrightarrow> p = PCameraSetControlResponse x32"
  "as_CameraSetAutoResponse p = Some x33 \<longleftrightarrow> p = PCameraSetAutoResponse x33"
  "as_CloseCameraResponse p = Some x34 \<longleftrightarrow> p = PCloseCameraResponse x34"
  by (cases p; simp add:
      as_EnumerateSerialResponse_def as_OpenSerialResponse_def as_SerialReadResponse_def
      as_SerialWriteResponse_def as_SerialFlushResponse_def as_SetSerialControlLinesResponse_def
      as_CloseSessionResponse_def as_EnumerateCanResponse_def as_OpenCanResponse_def
      as_CanSendResponse_def as_CanReceiveResponse_def as_ReplaceCanFiltersResponse_def
      as_GetCanBusStatusResponse_def as_EnumerateUsbResponse_def as_OpenUsbResponse_def
      as_UsbTransferResponse_def as_CloseUsbResponse_def as_EnumerateGpioResponse_def
      as_OpenGpioResponse_def as_GpioReadResponse_def as_GpioWriteResponse_def
      as_GpioNextEdgeResponse_def as_CloseGpioResponse_def as_EnumerateCameraResponse_def
      as_OpenCameraResponse_def as_CaptureCameraResponse_def
      as_CameraMappingDescriptorResponse_def as_CameraNextFrameLeaseResponse_def
      as_CameraDroppedCountResponse_def as_CameraControlsResponse_def
      as_CameraGetControlResponse_def as_CameraSetControlResponse_def
      as_CameraSetAutoResponse_def as_CloseCameraResponse_def)+

end
