(* ===== verification/Hal_Capabilities.thy ===== *)
theory Hal_Capabilities
  imports Hal_Core
begin

text \<open>
  The capabilities the device crates name (\<open>lib.rs\<close> of \<open>robot-hal-can\<close>, \<open>robot-hal-usb\<close>,
  \<open>robot-hal-gpio\<close> and \<open>robot-hal-camera\<close>): each is a constant and a function that parses it and
  expects success, which holds for all of them.
\<close>

definition CAN_CLASSIC_CAPABILITY :: string where "CAN_CLASSIC_CAPABILITY = ''can.classic/v1''"
definition CAN_FD_CAPABILITY :: string where "CAN_FD_CAPABILITY = ''can.fd/v1''"
definition CAN_CONFIGURE_CAPABILITY :: string where "CAN_CONFIGURE_CAPABILITY = ''can.configure/v1''"
definition CAN_ERROR_FRAMES_CAPABILITY :: string where "CAN_ERROR_FRAMES_CAPABILITY = ''can.error-frames/v1''"
definition CAN_RX_TIMESTAMP_CAPABILITY :: string where "CAN_RX_TIMESTAMP_CAPABILITY = ''can.rx-timestamp/v1''"
definition USB_CONTROL_CAPABILITY :: string where "USB_CONTROL_CAPABILITY = ''usb.control/v1''"
definition USB_BULK_CAPABILITY :: string where "USB_BULK_CAPABILITY = ''usb.bulk/v1''"
definition USB_INTERRUPT_CAPABILITY :: string where "USB_INTERRUPT_CAPABILITY = ''usb.interrupt/v1''"
definition GPIO_LINES_CAPABILITY :: string where "GPIO_LINES_CAPABILITY = ''gpio.lines/v1''"
definition GPIO_EDGES_CAPABILITY :: string where "GPIO_EDGES_CAPABILITY = ''gpio.edges/v1''"
definition CAMERA_CAPTURE_CAPABILITY :: string where "CAMERA_CAPTURE_CAPABILITY = ''camera.capture/v1''"
definition CAMERA_FRAMES_SHM_CAPABILITY :: string where "CAMERA_FRAMES_SHM_CAPABILITY = ''camera.frames.shm/v1''"
definition CAMERA_CONTROLS_CAPABILITY :: string where "CAMERA_CONTROLS_CAPABILITY = ''camera.controls/v1''"

definition can_classic_capability :: CapabilityId where "can_classic_capability = CapabilityId CAN_CLASSIC_CAPABILITY"
definition can_fd_capability :: CapabilityId where "can_fd_capability = CapabilityId CAN_FD_CAPABILITY"
definition can_configure_capability :: CapabilityId where "can_configure_capability = CapabilityId CAN_CONFIGURE_CAPABILITY"
definition can_error_frames_capability :: CapabilityId where "can_error_frames_capability = CapabilityId CAN_ERROR_FRAMES_CAPABILITY"
definition can_rx_timestamp_capability :: CapabilityId where "can_rx_timestamp_capability = CapabilityId CAN_RX_TIMESTAMP_CAPABILITY"
definition usb_control_capability :: CapabilityId where "usb_control_capability = CapabilityId USB_CONTROL_CAPABILITY"
definition usb_bulk_capability :: CapabilityId where "usb_bulk_capability = CapabilityId USB_BULK_CAPABILITY"
definition usb_interrupt_capability :: CapabilityId where "usb_interrupt_capability = CapabilityId USB_INTERRUPT_CAPABILITY"
definition gpio_lines_capability :: CapabilityId where "gpio_lines_capability = CapabilityId GPIO_LINES_CAPABILITY"
definition gpio_edges_capability :: CapabilityId where "gpio_edges_capability = CapabilityId GPIO_EDGES_CAPABILITY"
definition camera_capture_capability :: CapabilityId where "camera_capture_capability = CapabilityId CAMERA_CAPTURE_CAPABILITY"
definition camera_frames_shm_capability :: CapabilityId where "camera_frames_shm_capability = CapabilityId CAMERA_FRAMES_SHM_CAPABILITY"
definition camera_controls_capability :: CapabilityId where "camera_controls_capability = CapabilityId CAMERA_CONTROLS_CAPABILITY"

lemmas capability_names =
  CAN_CLASSIC_CAPABILITY_def CAN_FD_CAPABILITY_def CAN_CONFIGURE_CAPABILITY_def
  CAN_ERROR_FRAMES_CAPABILITY_def CAN_RX_TIMESTAMP_CAPABILITY_def USB_CONTROL_CAPABILITY_def
  USB_BULK_CAPABILITY_def USB_INTERRUPT_CAPABILITY_def GPIO_LINES_CAPABILITY_def
  GPIO_EDGES_CAPABILITY_def CAMERA_CAPTURE_CAPABILITY_def CAMERA_FRAMES_SHM_CAPABILITY_def
  CAMERA_CONTROLS_CAPABILITY_def

lemmas capability_ids =
  can_classic_capability_def can_fd_capability_def can_configure_capability_def
  can_error_frames_capability_def can_rx_timestamp_capability_def usb_control_capability_def
  usb_bulk_capability_def usb_interrupt_capability_def gpio_lines_capability_def
  gpio_edges_capability_def camera_capture_capability_def camera_frames_shm_capability_def
  camera_controls_capability_def

lemma valid_capabilityI:
  assumes "s = join_with (CHR ''.'') segments @ ''/v1''" "2 \<le> length segments" "valid_identifier s"
    "\<forall>w\<in>set segments. w \<noteq> [] \<and> CHR ''.'' \<notin> set w \<and> CHR ''/'' \<notin> set w"
  shows "valid_capability s"
  unfolding valid_capability_def using assms
  by (intro conjI exI [of _ segments] exI [of _ "''1''"]) (simp_all add: ascii_digit_def digits_value_def)

lemma capabilities_parse:
  "CapabilityId_parse CAN_CLASSIC_CAPABILITY = Ok can_classic_capability"
  "CapabilityId_parse CAN_FD_CAPABILITY = Ok can_fd_capability"
  "CapabilityId_parse CAN_CONFIGURE_CAPABILITY = Ok can_configure_capability"
  "CapabilityId_parse CAN_ERROR_FRAMES_CAPABILITY = Ok can_error_frames_capability"
  "CapabilityId_parse CAN_RX_TIMESTAMP_CAPABILITY = Ok can_rx_timestamp_capability"
  "CapabilityId_parse USB_CONTROL_CAPABILITY = Ok usb_control_capability"
  "CapabilityId_parse USB_BULK_CAPABILITY = Ok usb_bulk_capability"
  "CapabilityId_parse USB_INTERRUPT_CAPABILITY = Ok usb_interrupt_capability"
  "CapabilityId_parse GPIO_LINES_CAPABILITY = Ok gpio_lines_capability"
  "CapabilityId_parse GPIO_EDGES_CAPABILITY = Ok gpio_edges_capability"
  "CapabilityId_parse CAMERA_CAPTURE_CAPABILITY = Ok camera_capture_capability"
  "CapabilityId_parse CAMERA_FRAMES_SHM_CAPABILITY = Ok camera_frames_shm_capability"
  "CapabilityId_parse CAMERA_CONTROLS_CAPABILITY = Ok camera_controls_capability"
proof -
  have "valid_capability CAN_CLASSIC_CAPABILITY"
    by (rule valid_capabilityI [of _ "[''can'', ''classic'']"]) (simp_all add: capability_names identifier_eval)
  then show "CapabilityId_parse CAN_CLASSIC_CAPABILITY = Ok can_classic_capability" by (simp add: CapabilityId_parse_Ok capability_ids)
  have "valid_capability CAN_FD_CAPABILITY"
    by (rule valid_capabilityI [of _ "[''can'', ''fd'']"]) (simp_all add: capability_names identifier_eval)
  then show "CapabilityId_parse CAN_FD_CAPABILITY = Ok can_fd_capability" by (simp add: CapabilityId_parse_Ok capability_ids)
  have "valid_capability CAN_CONFIGURE_CAPABILITY"
    by (rule valid_capabilityI [of _ "[''can'', ''configure'']"]) (simp_all add: capability_names identifier_eval)
  then show "CapabilityId_parse CAN_CONFIGURE_CAPABILITY = Ok can_configure_capability" by (simp add: CapabilityId_parse_Ok capability_ids)
  have "valid_capability CAN_ERROR_FRAMES_CAPABILITY"
    by (rule valid_capabilityI [of _ "[''can'', ''error-frames'']"]) (simp_all add: capability_names identifier_eval)
  then show "CapabilityId_parse CAN_ERROR_FRAMES_CAPABILITY = Ok can_error_frames_capability" by (simp add: CapabilityId_parse_Ok capability_ids)
  have "valid_capability CAN_RX_TIMESTAMP_CAPABILITY"
    by (rule valid_capabilityI [of _ "[''can'', ''rx-timestamp'']"]) (simp_all add: capability_names identifier_eval)
  then show "CapabilityId_parse CAN_RX_TIMESTAMP_CAPABILITY = Ok can_rx_timestamp_capability" by (simp add: CapabilityId_parse_Ok capability_ids)
  have "valid_capability USB_CONTROL_CAPABILITY"
    by (rule valid_capabilityI [of _ "[''usb'', ''control'']"]) (simp_all add: capability_names identifier_eval)
  then show "CapabilityId_parse USB_CONTROL_CAPABILITY = Ok usb_control_capability" by (simp add: CapabilityId_parse_Ok capability_ids)
  have "valid_capability USB_BULK_CAPABILITY"
    by (rule valid_capabilityI [of _ "[''usb'', ''bulk'']"]) (simp_all add: capability_names identifier_eval)
  then show "CapabilityId_parse USB_BULK_CAPABILITY = Ok usb_bulk_capability" by (simp add: CapabilityId_parse_Ok capability_ids)
  have "valid_capability USB_INTERRUPT_CAPABILITY"
    by (rule valid_capabilityI [of _ "[''usb'', ''interrupt'']"]) (simp_all add: capability_names identifier_eval)
  then show "CapabilityId_parse USB_INTERRUPT_CAPABILITY = Ok usb_interrupt_capability" by (simp add: CapabilityId_parse_Ok capability_ids)
  have "valid_capability GPIO_LINES_CAPABILITY"
    by (rule valid_capabilityI [of _ "[''gpio'', ''lines'']"]) (simp_all add: capability_names identifier_eval)
  then show "CapabilityId_parse GPIO_LINES_CAPABILITY = Ok gpio_lines_capability" by (simp add: CapabilityId_parse_Ok capability_ids)
  have "valid_capability GPIO_EDGES_CAPABILITY"
    by (rule valid_capabilityI [of _ "[''gpio'', ''edges'']"]) (simp_all add: capability_names identifier_eval)
  then show "CapabilityId_parse GPIO_EDGES_CAPABILITY = Ok gpio_edges_capability" by (simp add: CapabilityId_parse_Ok capability_ids)
  have "valid_capability CAMERA_CAPTURE_CAPABILITY"
    by (rule valid_capabilityI [of _ "[''camera'', ''capture'']"]) (simp_all add: capability_names identifier_eval)
  then show "CapabilityId_parse CAMERA_CAPTURE_CAPABILITY = Ok camera_capture_capability" by (simp add: CapabilityId_parse_Ok capability_ids)
  have "valid_capability CAMERA_FRAMES_SHM_CAPABILITY"
    by (rule valid_capabilityI [of _ "[''camera'', ''frames'', ''shm'']"]) (simp_all add: capability_names identifier_eval)
  then show "CapabilityId_parse CAMERA_FRAMES_SHM_CAPABILITY = Ok camera_frames_shm_capability" by (simp add: CapabilityId_parse_Ok capability_ids)
  have "valid_capability CAMERA_CONTROLS_CAPABILITY"
    by (rule valid_capabilityI [of _ "[''camera'', ''controls'']"]) (simp_all add: capability_names identifier_eval)
  then show "CapabilityId_parse CAMERA_CONTROLS_CAPABILITY = Ok camera_controls_capability" by (simp add: CapabilityId_parse_Ok capability_ids)
qed

end
