(* ===== verification/Broker_Base.thy ===== *)
theory Broker_Base
  imports Wire_Envelope Hal_Capabilities
begin

text \<open>
  The broker's side of a connection before any request is dispatched
  (\<open>src/crates/robot-hal-broker/src/connection.rs\<close> and \<open>lib.rs\<close>): startup tokens, admission settings,
  the errors it builds, the size functions of its limits, and the handshake. The encoded length of an
  envelope is computed by prost; it is the parameter \<open>encoded_len\<close>.
\<close>

section \<open>Settings, tokens and errors\<close>

type_synonym StartupToken = "u8 list"

text \<open>The token is an array of 32 bytes; the comparison is constant-time equality of the bytes.\<close>

definition startup_token_wf :: "StartupToken \<Rightarrow> bool" where
  "startup_token_wf token \<longleftrightarrow> length token = 32"

definition authenticates :: "StartupToken \<Rightarrow> u8 list \<Rightarrow> bool" where
  "authenticates token presented \<longleftrightarrow> length presented = length token \<and> presented = token"

record BrokerConfig =
  bg_request_queue_capacity :: usize
  bg_response_queue_capacity :: usize
  bg_max_in_flight_requests :: usize

definition BrokerConfig_default :: BrokerConfig where
  "BrokerConfig_default =
     \<lparr>bg_request_queue_capacity = 32, bg_response_queue_capacity = 64, bg_max_in_flight_requests = 32\<rparr>"

definition with_request_queue_capacity :: "usize \<Rightarrow> BrokerConfig \<Rightarrow> BrokerConfig" where
  "with_request_queue_capacity capacity config = config\<lparr>bg_request_queue_capacity := max capacity 1\<rparr>"

definition with_response_queue_capacity :: "usize \<Rightarrow> BrokerConfig \<Rightarrow> BrokerConfig" where
  "with_response_queue_capacity capacity config = config\<lparr>bg_response_queue_capacity := max capacity 1\<rparr>"

definition with_max_in_flight_requests :: "usize \<Rightarrow> BrokerConfig \<Rightarrow> BrokerConfig" where
  "with_max_in_flight_requests capacity config = config\<lparr>bg_max_in_flight_requests := max capacity 1\<rparr>"

record NegotiatedLimits =
  nl_protocol_minor :: u32
  nl_max_frame_bytes :: usize
  nl_max_read_bytes :: usize
  nl_max_write_bytes :: usize

definition protocol_error :: "string \<Rightarrow> string \<Rightarrow> ErrorCategory \<Rightarrow> bool \<Rightarrow> string \<Rightarrow> HalError" where
  "protocol_error name operation category retryable debug_message =
     hal_error name category operation retryable debug_message"

definition broker_queue_full :: "string \<Rightarrow> HalError" where
  "broker_queue_full message =
     protocol_error ''runtime.queue.full'' ''runtime.protocol.admit'' Unavailable True message"

definition broker_frame_too_large :: "string \<Rightarrow> HalError" where
  "broker_frame_too_large message =
     protocol_error ''runtime.protocol.frame_too_large'' ''runtime.protocol.frame'' InvalidArgument False message"

definition response_queue_full :: HalError where
  "response_queue_full =
     protocol_error ''runtime.queue.response_full'' ''runtime.protocol.write'' Unavailable True
       ''broker response queue is full''"

definition negotiated_frame_limit :: "NegotiatedLimits option \<Rightarrow> usize" where
  "negotiated_frame_limit limits = (case limits of Some l \<Rightarrow> nl_max_frame_bytes l | None \<Rightarrow> MAX_FRAME_BYTES)"

definition error_envelope :: "u64 \<Rightarrow> HalError \<Rightarrow> v1_Envelope" where
  "error_envelope request_id error =
     \<lparr>we_request_id = request_id, we_payload = Some (PError (error_to_proto error))\<rparr>"

section \<open>Encoded sizes\<close>

function prost_varint_len :: "u64 \<Rightarrow> usize" where
  "prost_varint_len value = (if value \<ge> 0x80 then 1 + prost_varint_len (drop_bit 7 value) else 1)"
  by auto

termination prost_varint_len
proof (relation "measure unat")
  fix v :: u64 assume "v \<ge> 0x80"
  then have "0 < unat v" by (simp add: word_le_nat_alt)
  then show "(drop_bit 7 v, v) \<in> measure unat" by (simp add: drop_bit_eq_div unat_div)
qed simp

declare prost_varint_len.simps [simp del]

definition length_delimited_field_len :: "u32 \<Rightarrow> usize \<Rightarrow> usize" where
  "length_delimited_field_len field_number value_len =
     prost_varint_len (push_bit 3 (ucast field_number) OR 2) + prost_varint_len (of_nat value_len) + value_len"

definition envelope_encoded_len :: "u32 \<Rightarrow> usize \<Rightarrow> usize" where
  "envelope_encoded_len payload_field_number payload_len =
     1 + 10 + prost_varint_len (push_bit 3 (ucast payload_field_number) OR 2)
       + prost_varint_len (of_nat payload_len) + payload_len"

definition read_response_encoded_len :: "usize \<Rightarrow> usize" where
  "read_response_encoded_len data_len = envelope_encoded_len 25 (length_delimited_field_len 1 data_len)"

definition RUNTIME_UUID_LEN :: usize where "RUNTIME_UUID_LEN = 36"

definition write_request_encoded_len :: "usize \<Rightarrow> usize" where
  "write_request_encoded_len data_len =
     (let session_id = length_delimited_field_len 1 RUNTIME_UUID_LEN;
          lease_inner = length_delimited_field_len 1 RUNTIME_UUID_LEN + 1 + 10 + 1 + 1;
          lease = length_delimited_field_len 2 lease_inner;
          data = length_delimited_field_len 3 data_len
      in envelope_encoded_len 26 (session_id + lease + data))"

section \<open>Handshake\<close>

definition CAN_WIRE_MINOR :: u32 where "CAN_WIRE_MINOR = 1"
definition USB_GPIO_WIRE_MINOR :: u32 where "USB_GPIO_WIRE_MINOR = 2"
definition CAMERA_WIRE_MINOR :: u32 where "CAMERA_WIRE_MINOR = 3"

definition broker_capabilities :: "u32 \<Rightarrow> string list" where
  "broker_capabilities protocol_minor =
     [SERIAL_CAPABILITY] @
     (if protocol_minor \<ge> CAN_WIRE_MINOR
      then [CAN_CLASSIC_CAPABILITY, CAN_FD_CAPABILITY, CAN_CONFIGURE_CAPABILITY, CAN_ERROR_FRAMES_CAPABILITY,
            CAN_RX_TIMESTAMP_CAPABILITY]
      else [])"

definition usb_gpio_broker_capabilities :: "u32 \<Rightarrow> string list" where
  "usb_gpio_broker_capabilities protocol_minor =
     (if protocol_minor < USB_GPIO_WIRE_MINOR then []
      else [USB_CONTROL_CAPABILITY, USB_BULK_CAPABILITY, USB_INTERRUPT_CAPABILITY, GPIO_LINES_CAPABILITY,
            GPIO_EDGES_CAPABILITY])"

definition camera_broker_capabilities :: "u32 \<Rightarrow> string list" where
  "camera_broker_capabilities protocol_minor =
     (if protocol_minor < CAMERA_WIRE_MINOR then []
      else [CAMERA_CAPTURE_CAPABILITY, CAMERA_FRAMES_SHM_CAPABILITY, CAMERA_CONTROLS_CAPABILITY])"

definition handshake_capabilities :: "u32 \<Rightarrow> string list" where
  "handshake_capabilities selected_minor =
     broker_capabilities selected_minor @ usb_gpio_broker_capabilities selected_minor
       @ camera_broker_capabilities selected_minor"

text \<open>
  The conversions of the requested \<open>u32\<close> limits to \<open>usize\<close> cannot fail on 64 bits. The presented
  token is taken out of the request; the second component is the request left behind.
\<close>

definition check_limits :: "usize \<Rightarrow> usize \<Rightarrow> usize \<Rightarrow> unit hal_result" where
  "check_limits frame_limit read_limit write_limit =
     (if frame_limit = 0 \<or> frame_limit > MAX_FRAME_BYTES \<or> read_limit = 0 \<or> write_limit = 0
         \<or> read_response_encoded_len read_limit > frame_limit
         \<or> write_request_encoded_len write_limit > frame_limit
      then Err (invalid_message ''negotiated frame/read/write byte limits are invalid'')
      else Ok ())"

definition handshake_response :: "u32 \<Rightarrow> v1_HandshakeRequest \<Rightarrow> v1_HandshakeResponse" where
  "handshake_response selected_minor request =
     \<lparr>wr_protocol_major = PROTOCOL_MAJOR, wr_protocol_minor = selected_minor,
      wr_capabilities = handshake_capabilities selected_minor,
      wr_max_frame_bytes = wq_max_frame_bytes request, wr_max_read_bytes = wq_max_read_bytes request,
      wr_max_write_bytes = wq_max_write_bytes request,
      wr_protocol_minor_minimum = PROTOCOL_MINOR_MINIMUM, wr_protocol_minor_maximum = PROTOCOL_MINOR_MAXIMUM\<rparr>"

definition negotiate_settings ::
  "(v1_Envelope \<Rightarrow> usize) \<Rightarrow> v1_HandshakeRequest \<Rightarrow> (v1_HandshakeResponse \<times> NegotiatedLimits) hal_result" where
  "negotiate_settings encoded_len request =
     and_then (handshake_minor_range request) (\<lambda>(client_minimum, client_maximum).
     and_then (negotiate_protocol_minor (wq_protocol_major request) client_minimum client_maximum
       PROTOCOL_MAJOR PROTOCOL_MINOR_MINIMUM PROTOCOL_MINOR_MAXIMUM) (\<lambda>selected_minor.
     if \<exists>capability\<in>set (wq_required_capabilities request). capability \<notin> set (handshake_capabilities selected_minor) then
       Err (protocol_error ''runtime.protocol.unsupported_capability'' ''runtime.protocol.handshake'' Conflict False
         ''a required capability is not supported'')
     else
       let frame_limit = unat (wq_max_frame_bytes request); read_limit = unat (wq_max_read_bytes request);
           write_limit = unat (wq_max_write_bytes request); response = handshake_response selected_minor request
       in and_then (check_limits frame_limit read_limit write_limit) (\<lambda>_.
          if encoded_len \<lparr>we_request_id = 2 ^ 64 - 1, we_payload = Some (PHandshakeResponse response)\<rparr> > frame_limit
          then Err (invalid_message ''negotiated frame limit cannot contain the handshake response'')
          else Ok (response, \<lparr>nl_protocol_minor = selected_minor, nl_max_frame_bytes = frame_limit,
            nl_max_read_bytes = read_limit, nl_max_write_bytes = write_limit\<rparr>))))"

definition validate_handshake ::
  "(v1_Envelope \<Rightarrow> usize) \<Rightarrow> StartupToken \<Rightarrow> v1_HandshakeRequest \<Rightarrow>
     (v1_HandshakeResponse \<times> NegotiatedLimits) hal_result \<times> v1_HandshakeRequest" where
  "validate_handshake encoded_len expected_token request =
     (if \<not> authenticates expected_token (wq_startup_token request)
      then Err (protocol_error ''runtime.protocol.authentication_failed'' ''runtime.protocol.handshake'' Conflict False
        ''startup token did not authenticate the connection'')
      else negotiate_settings encoded_len (request\<lparr>wq_startup_token := []\<rparr>),
      request\<lparr>wq_startup_token := []\<rparr>)"

text \<open>
  What the dispatcher answers before the handshake is complete, and the limits it has from then on:
  only a handshake request that passes the checks sets them.
\<close>

definition handshake_required :: HalError where
  "handshake_required =
     protocol_error ''runtime.protocol.handshake_required'' ''runtime.protocol.dispatch'' Conflict False
       ''the connection must complete a handshake before operations''"

definition handshake_reply ::
  "(v1_Envelope \<Rightarrow> usize) \<Rightarrow> StartupToken \<Rightarrow> v1_Envelope \<Rightarrow> v1_Envelope \<times> NegotiatedLimits option" where
  "handshake_reply encoded_len startup_token envelope =
     (case we_payload envelope of
        Some (PHandshakeRequest handshake) \<Rightarrow>
          (case fst (validate_handshake encoded_len startup_token handshake) of
             Ok (response, negotiated) \<Rightarrow>
               (\<lparr>we_request_id = we_request_id envelope, we_payload = Some (PHandshakeResponse response)\<rparr>, Some negotiated)
           | Err error \<Rightarrow> (error_envelope (we_request_id envelope) error, None))
      | _ \<Rightarrow> (error_envelope (we_request_id envelope) handshake_required, None))"

end
