(* ===== verification/Client_Base.thy ===== *)
theory Client_Base
  imports Hal_Can
begin

text \<open>
  What the client connection (\<open>src/crates/robot-hal-client/src/connection.rs\<close>) knows of an
  outstanding request: the response it expects, the CAN session profile, and the errors it builds.
\<close>

definition client_error :: "string \<Rightarrow> ErrorCategory \<Rightarrow> string \<Rightarrow> bool \<Rightarrow> string \<Rightarrow> HalError" where
  "client_error name category operation retryable message = hal_error name category operation retryable message"

definition invalid_wire :: "string \<Rightarrow> HalError" where
  "invalid_wire message =
     client_error ''runtime.protocol.invalid_message'' InvalidArgument ''runtime.protocol.decode'' False message"

definition frame_too_large :: "string \<Rightarrow> HalError" where
  "frame_too_large message =
     client_error ''runtime.protocol.frame_too_large'' InvalidArgument ''runtime.protocol.frame'' False message"

definition disconnected_error :: "string \<Rightarrow> string \<Rightarrow> HalError" where
  "disconnected_error operation message =
     client_error ''runtime.broker.disconnected'' Unavailable operation True message"

definition closed_error :: HalError where
  "closed_error =
     client_error ''runtime.client.closed'' Conflict ''runtime.client.close'' False ''client is closed''"

definition unexpected_response :: HalError where
  "unexpected_response =
     client_error ''runtime.protocol.unexpected_response'' InvalidArgument ''runtime.protocol.read'' False
       ''response payload does not match its request''"

definition attach_resource :: "HalError \<Rightarrow> ResourceId \<Rightarrow> HalError" where
  "attach_resource error resource_id =
     (if he_resource_id error \<noteq> None then error else with_resource_id resource_id error)"

record CanSessionProfile =
  cs_mode :: CanMode
  cs_classic_frames :: bool
  cs_fd_frames :: bool
  cs_error_frames :: bool
  cs_timestamps :: bool
  cs_resource_id :: ResourceId
  cs_session_id :: SessionId

definition attach_profile :: "HalError \<Rightarrow> CanSessionProfile \<Rightarrow> HalError" where
  "attach_profile error profile = attach_resource error (cs_resource_id profile)"

datatype ExpectedResponse =
    XEnumerateSerial | XOpenSerial | XSerialRead usize | XSerialWrite | XSerialFlush | XSetControlLines
  | XCloseSession | XCloseCan CanSessionProfile | XEnumerateCan | XOpenCan LeaseMode ResourceId
  | XCanSend usize CanSessionProfile | XCanReceive usize usize CanSessionProfile
  | XReplaceCanFilters CanSessionProfile | XCanBusStatus CanSessionProfile
  | XEnumerateUsb | XOpenUsb ResourceId | XUsbTransfer usize ResourceId | XCloseUsb ResourceId
  | XEnumerateGpio | XOpenGpio usize ResourceId | XGpioRead usize ResourceId | XGpioWrite ResourceId
  | XGpioNextEdge ResourceId | XCloseGpio ResourceId
  | XEnumerateCamera | XOpenCamera ResourceId | XCaptureCamera ResourceId
  | XCameraMappingDescriptor ResourceId | XCameraNextFrameLease ResourceId | XCameraDroppedCount ResourceId
  | XCameraControls ResourceId | XCameraGetControl ResourceId | XCameraSetControl ResourceId
  | XCameraSetAuto ResourceId | XCloseCamera ResourceId

definition expected_resource_id :: "ExpectedResponse \<Rightarrow> ResourceId option" where
  "expected_resource_id expected =
     (case expected of
        XOpenCan _ r \<Rightarrow> Some r
      | XCanSend _ profile \<Rightarrow> Some (cs_resource_id profile)
      | XCanReceive _ _ profile \<Rightarrow> Some (cs_resource_id profile)
      | XReplaceCanFilters profile \<Rightarrow> Some (cs_resource_id profile)
      | XCanBusStatus profile \<Rightarrow> Some (cs_resource_id profile)
      | XCloseCan profile \<Rightarrow> Some (cs_resource_id profile)
      | XOpenUsb r \<Rightarrow> Some r
      | XUsbTransfer _ r \<Rightarrow> Some r
      | XCloseUsb r \<Rightarrow> Some r
      | XOpenGpio _ r \<Rightarrow> Some r
      | XGpioRead _ r \<Rightarrow> Some r
      | XGpioWrite r \<Rightarrow> Some r
      | XGpioNextEdge r \<Rightarrow> Some r
      | XCloseGpio r \<Rightarrow> Some r
      | XOpenCamera r \<Rightarrow> Some r
      | XCaptureCamera r \<Rightarrow> Some r
      | XCameraMappingDescriptor r \<Rightarrow> Some r
      | XCameraNextFrameLease r \<Rightarrow> Some r
      | XCameraDroppedCount r \<Rightarrow> Some r
      | XCameraControls r \<Rightarrow> Some r
      | XCameraGetControl r \<Rightarrow> Some r
      | XCameraSetControl r \<Rightarrow> Some r
      | XCameraSetAuto r \<Rightarrow> Some r
      | XCloseCamera r \<Rightarrow> Some r
      | _ \<Rightarrow> None)"

definition attach_expected :: "HalError \<Rightarrow> ExpectedResponse \<Rightarrow> HalError" where
  "attach_expected error expected =
     (case expected_resource_id expected of None \<Rightarrow> error | Some resource_id \<Rightarrow> attach_resource error resource_id)"

lemma client_errors_wf [simp]:
  "hal_error_wf (invalid_wire m)" "hal_error_wf (frame_too_large m)" "hal_error_wf closed_error"
  "hal_error_wf unexpected_response"
  "hal_error_wf (disconnected_error oper m) = valid_identifier oper"
  by (simp_all add: invalid_wire_def frame_too_large_def closed_error_def unexpected_response_def
      disconnected_error_def client_error_def identifier_eval)

end
