(* ===== verification/Client_Session.thy ===== *)
theory Client_Session
  imports Wire_Envelope Hal_Capabilities Client_Base
begin

text \<open>
  A client connection before its first request (\<open>src/crates/robot-hal-client/src/connection.rs\<close>):
  connection options, the handshake, the negotiated limits, and the checks every operation makes
  against them. The encoded length of an envelope and the exchange of one frame with the broker are
  parameters.
\<close>

section \<open>Options and limits\<close>

record ConnectionOptions =
  co_endpoint :: string
  co_startup_token :: "u8 list"
  co_max_frame_bytes :: usize
  co_max_read_bytes :: usize
  co_max_write_bytes :: usize
  co_pending_capacity :: usize
  co_writer_capacity :: usize
  co_event_capacity :: usize

definition DEFAULT_IO_CAPACITY :: usize where "DEFAULT_IO_CAPACITY = 32"
definition DEFAULT_EVENT_CAPACITY :: usize where "DEFAULT_EVENT_CAPACITY = 64"
definition DEFAULT_TRANSFER_BYTES :: usize where "DEFAULT_TRANSFER_BYTES = 64 * 1024"

definition ConnectionOptions_new :: "string \<Rightarrow> u8 list \<Rightarrow> ConnectionOptions" where
  "ConnectionOptions_new endpoint startup_token =
     \<lparr>co_endpoint = endpoint, co_startup_token = startup_token, co_max_frame_bytes = MAX_FRAME_BYTES,
      co_max_read_bytes = DEFAULT_TRANSFER_BYTES, co_max_write_bytes = DEFAULT_TRANSFER_BYTES,
      co_pending_capacity = DEFAULT_IO_CAPACITY, co_writer_capacity = DEFAULT_IO_CAPACITY,
      co_event_capacity = DEFAULT_EVENT_CAPACITY\<rparr>"

definition with_byte_limits :: "usize \<Rightarrow> usize \<Rightarrow> usize \<Rightarrow> ConnectionOptions \<Rightarrow> ConnectionOptions" where
  "with_byte_limits max_frame_bytes max_read_bytes max_write_bytes options =
     options\<lparr>co_max_frame_bytes := max_frame_bytes, co_max_read_bytes := max_read_bytes,
       co_max_write_bytes := max_write_bytes\<rparr>"

definition with_queue_capacities :: "usize \<Rightarrow> usize \<Rightarrow> usize \<Rightarrow> ConnectionOptions \<Rightarrow> ConnectionOptions" where
  "with_queue_capacities pending_capacity writer_capacity event_capacity options =
     options\<lparr>co_pending_capacity := max pending_capacity 1, co_writer_capacity := max writer_capacity 1,
       co_event_capacity := max event_capacity 1\<rparr>"

definition validate_options :: "ConnectionOptions \<Rightarrow> unit hal_result" where
  "validate_options options =
     (if co_max_frame_bytes options = 0 \<or> co_max_frame_bytes options > MAX_FRAME_BYTES
         \<or> co_max_read_bytes options = 0 \<or> co_max_write_bytes options = 0
         \<or> co_max_frame_bytes options > 2 ^ 32 - 1 \<or> co_max_read_bytes options > 2 ^ 32 - 1
         \<or> co_max_write_bytes options > 2 ^ 32 - 1
      then Err (client_error ''runtime.argument.invalid'' InvalidArgument ''runtime.broker.connect'' False
        ''connection byte limits are invalid'')
      else Ok ())"

record Limits =
  lm_protocol_minor :: u32
  lm_frame :: usize
  lm_read :: usize
  lm_write :: usize
  lm_can_classic :: bool
  lm_can_fd :: bool
  lm_can_configure :: bool
  lm_can_error_frames :: bool
  lm_can_rx_timestamp :: bool
  lm_usb_control :: bool
  lm_usb_bulk :: bool
  lm_usb_interrupt :: bool
  lm_gpio_lines :: bool
  lm_gpio_edges :: bool
  lm_camera_capture :: bool
  lm_camera_frames_shm :: bool
  lm_camera_controls :: bool

definition requested_limits :: "ConnectionOptions \<Rightarrow> Limits" where
  "requested_limits options =
     \<lparr>lm_protocol_minor = PROTOCOL_MINOR_MAXIMUM, lm_frame = co_max_frame_bytes options,
      lm_read = co_max_read_bytes options, lm_write = co_max_write_bytes options,
      lm_can_classic = False, lm_can_fd = False, lm_can_configure = False, lm_can_error_frames = False,
      lm_can_rx_timestamp = False, lm_usb_control = False, lm_usb_bulk = False, lm_usb_interrupt = False,
      lm_gpio_lines = False, lm_gpio_edges = False, lm_camera_capture = False, lm_camera_frames_shm = False,
      lm_camera_controls = False\<rparr>"

section \<open>Handshake\<close>

definition handshake_request :: "ConnectionOptions \<Rightarrow> Limits \<Rightarrow> v1_HandshakeRequest" where
  "handshake_request options requested =
     \<lparr>wq_startup_token = co_startup_token options, wq_protocol_major = PROTOCOL_MAJOR,
      wq_protocol_minor = PROTOCOL_MINOR, wq_required_capabilities = [SERIAL_CAPABILITY],
      wq_max_frame_bytes = of_nat (lm_frame requested), wq_max_read_bytes = of_nat (lm_read requested),
      wq_max_write_bytes = of_nat (lm_write requested),
      wq_protocol_minor_minimum = PROTOCOL_MINOR_MINIMUM, wq_protocol_minor_maximum = PROTOCOL_MINOR_MAXIMUM\<rparr>"

definition validate_handshake_response :: "v1_HandshakeResponse \<Rightarrow> Limits \<Rightarrow> unit hal_result" where
  "validate_handshake_response response requested =
     and_then (map_err (\<lambda>_. client_error ''runtime.protocol.invalid_handshake'' Conflict ''runtime.protocol.handshake'' False
         ''broker returned an invalid supported protocol minor range'')
       (handshake_response_minor_range response)) (\<lambda>broker_range.
     if wr_protocol_major response \<noteq> PROTOCOL_MAJOR
        \<or> \<not> (PROTOCOL_MINOR_MINIMUM \<le> wr_protocol_minor response \<and> wr_protocol_minor response \<le> PROTOCOL_MINOR_MAXIMUM)
        \<or> \<not> (fst broker_range \<le> wr_protocol_minor response \<and> wr_protocol_minor response \<le> snd broker_range)
        \<or> wr_max_frame_bytes response = 0 \<or> unat (wr_max_frame_bytes response) > lm_frame requested
        \<or> wr_max_read_bytes response = 0 \<or> unat (wr_max_read_bytes response) > lm_read requested
        \<or> wr_max_write_bytes response = 0 \<or> unat (wr_max_write_bytes response) > lm_write requested
        \<or> SERIAL_CAPABILITY \<notin> set (wr_capabilities response)
     then Err (client_error ''runtime.protocol.invalid_handshake'' Conflict ''runtime.protocol.handshake'' False
       ''broker returned invalid negotiated settings'')
     else Ok ())"

definition negotiated_limits :: "v1_HandshakeResponse \<Rightarrow> Limits" where
  "negotiated_limits response =
     (let has = (\<lambda>capability. capability \<in> set (wr_capabilities response)) in
      \<lparr>lm_protocol_minor = wr_protocol_minor response, lm_frame = unat (wr_max_frame_bytes response),
       lm_read = unat (wr_max_read_bytes response), lm_write = unat (wr_max_write_bytes response),
       lm_can_classic = has CAN_CLASSIC_CAPABILITY, lm_can_fd = has CAN_FD_CAPABILITY,
       lm_can_configure = has CAN_CONFIGURE_CAPABILITY, lm_can_error_frames = has CAN_ERROR_FRAMES_CAPABILITY,
       lm_can_rx_timestamp = has CAN_RX_TIMESTAMP_CAPABILITY, lm_usb_control = has USB_CONTROL_CAPABILITY,
       lm_usb_bulk = has USB_BULK_CAPABILITY, lm_usb_interrupt = has USB_INTERRUPT_CAPABILITY,
       lm_gpio_lines = has GPIO_LINES_CAPABILITY, lm_gpio_edges = has GPIO_EDGES_CAPABILITY,
       lm_camera_capture = has CAMERA_CAPTURE_CAPABILITY, lm_camera_frames_shm = has CAMERA_FRAMES_SHM_CAPABILITY,
       lm_camera_controls = has CAMERA_CONTROLS_CAPABILITY\<rparr>)"

text \<open>
  The handshake sends one envelope and reads one frame. \<open>exchange\<close> is that transport: it gives the
  length of the frame read and what prost makes of it, or the transport's error.
\<close>

definition read_handshake_reply ::
  "Limits \<Rightarrow> usize \<Rightarrow> (v1_Envelope, string) result \<Rightarrow> Limits hal_result" where
  "read_handshake_reply requested frame_len decoded =
     (if frame_len > lm_frame requested \<or> frame_len > MAX_FRAME_BYTES
      then Err (frame_too_large ''handshake response exceeds the offered frame limit'')
      else and_then (map_err (\<lambda>message. client_error ''runtime.protocol.invalid_message'' InvalidArgument
          ''runtime.protocol.handshake'' False message) decoded) (\<lambda>response.
        if we_request_id response \<noteq> 1
        then Err (client_error ''runtime.protocol.unknown_response'' Conflict ''runtime.protocol.handshake'' False
          ''handshake response has an unknown request ID'')
        else case we_payload response of
            Some (PHandshakeResponse response) \<Rightarrow>
              map_ok (\<lambda>_. negotiated_limits response) (validate_handshake_response response requested)
          | Some (PError error) \<Rightarrow> and_then (error_from_proto error) Err
          | _ \<Rightarrow> Err (client_error ''runtime.protocol.unexpected_response'' InvalidArgument
              ''runtime.protocol.handshake'' False ''broker returned a non-handshake response during negotiation'')))"

definition perform_handshake ::
  "(v1_Envelope \<Rightarrow> usize) \<Rightarrow> (v1_Envelope \<Rightarrow> (usize \<times> (v1_Envelope, string) result) hal_result)
     \<Rightarrow> ConnectionOptions \<Rightarrow> Limits \<Rightarrow> Limits hal_result" where
  "perform_handshake encoded_len exchange options requested =
     (let envelope = \<lparr>we_request_id = 1, we_payload = Some (PHandshakeRequest (handshake_request options requested))\<rparr>
      in if encoded_len envelope > lm_frame requested \<or> encoded_len envelope > MAX_FRAME_BYTES
         then Err (frame_too_large ''handshake envelope exceeds the offered frame limit'')
         else and_then (exchange envelope) (\<lambda>(frame_len, decoded). read_handshake_reply requested frame_len decoded))"

section \<open>Checks against the negotiated limits\<close>

definition attach_optional :: "ResourceId option \<Rightarrow> HalError \<Rightarrow> HalError" where
  "attach_optional resource_id error = (case resource_id of None \<Rightarrow> error | Some r \<Rightarrow> with_resource_id r error)"

definition require_wire_minor ::
  "u32 \<Rightarrow> string \<Rightarrow> Limits \<Rightarrow> string \<Rightarrow> ResourceId option \<Rightarrow> (Limits \<Rightarrow> bool) \<Rightarrow> unit hal_result" where
  "require_wire_minor minor message limits operation resource_id supported =
     (if lm_protocol_minor limits \<ge> minor \<and> supported limits then Ok ()
      else Err (attach_optional resource_id
        (client_error ''runtime.protocol.capability_unsupported'' Conflict operation False message)))"

definition require_can_capability ::
  "Limits \<Rightarrow> string \<Rightarrow> ResourceId option \<Rightarrow> (Limits \<Rightarrow> bool) \<Rightarrow> unit hal_result" where
  "require_can_capability =
     require_wire_minor 1 ''the negotiated broker protocol does not support this CAN operation''"

definition require_minor_two ::
  "Limits \<Rightarrow> string \<Rightarrow> ResourceId option \<Rightarrow> (Limits \<Rightarrow> bool) \<Rightarrow> unit hal_result" where
  "require_minor_two =
     require_wire_minor 2 ''the negotiated broker protocol does not support this USB/GPIO operation''"

definition require_camera_capability ::
  "Limits \<Rightarrow> string \<Rightarrow> ResourceId option \<Rightarrow> (Limits \<Rightarrow> bool) \<Rightarrow> unit hal_result" where
  "require_camera_capability =
     require_wire_minor 3 ''the negotiated broker protocol does not support this Camera operation''"

definition ensure_payload_fits ::
  "(v1_Envelope \<Rightarrow> usize) \<Rightarrow> Limits \<Rightarrow> v1_payload \<Rightarrow> string \<Rightarrow> ResourceId option \<Rightarrow> unit hal_result" where
  "ensure_payload_fits encoded_len limits payload operation resource_id =
     (let len = encoded_len \<lparr>we_request_id = 2 ^ 64 - 1, we_payload = Some payload\<rparr> in
      if len \<le> lm_frame limits \<and> len \<le> MAX_FRAME_BYTES then Ok ()
      else Err (attach_optional resource_id
        (client_error ''runtime.protocol.frame_too_large'' InvalidArgument operation False
          ''CAN request envelope exceeds the negotiated frame maximum'')))"

end
