(* ===== verification/Client_Scanner.thy ===== *)
theory Client_Scanner
  imports Client_Base
begin

text \<open>
  The protobuf scanner of the client (\<open>read_varint\<close>, \<open>skip_group\<close>, \<open>visit_fields\<close> and
  \<open>preflight_inbound\<close> in \<open>src/crates/robot-hal-client/src/connection.rs\<close>), which bounds an
  inbound frame before the generated decoder allocates for it. A visitor is a function on an
  explicit state. Slices are \<^const>\<open>take\<close> and \<^const>\<open>drop\<close>; the lemmas on lengths show that
  no index of the source is out of range.
\<close>

section \<open>Varints\<close>

fun read_varint_loop :: "nat \<Rightarrow> u64 \<Rightarrow> u8 list \<Rightarrow> (u64 \<times> usize) hal_result" where
  "read_varint_loop index value [] = Err (invalid_wire ''truncated protobuf varint'')"
| "read_varint_loop index value (byte # rest) =
     (if index = 9 \<and> byte > 1 then Err (invalid_wire ''protobuf varint overflows u64'')
      else
        let value = value OR push_bit (index * 7) (ucast (byte AND 0x7f)) in
        if byte AND 0x80 = 0 then Ok (value, index + 1)
        else read_varint_loop (index + 1) value rest)"

definition read_varint :: "u8 list \<Rightarrow> (u64 \<times> usize) hal_result" where
  "read_varint input = read_varint_loop 0 0 (take 10 input)"

lemma read_varint_loop_bounds:
  "read_varint_loop i v bs = Ok (w, n) \<Longrightarrow> i < n \<and> n \<le> i + length bs"
  by (induction i v bs rule: read_varint_loop.induct) (fastforce simp: Let_def split: if_splits)+

lemma read_varint_bounds:
  "read_varint input = Ok (v, n) \<Longrightarrow> 0 < n \<and> n \<le> 10 \<and> n \<le> length input"
  using read_varint_loop_bounds [of 0 0 "take 10 input"] by (auto simp: read_varint_def)

section \<open>Fields\<close>

datatype WireValue = Varint u64 | Bytes "u8 list" | Fixed

definition MAX_PROTOBUF_GROUP_DEPTH :: usize where "MAX_PROTOBUF_GROUP_DEPTH = 64"

definition field_number :: "u64 \<Rightarrow> u32" where
  "field_number key = (if unat (drop_bit 3 key) < 2 ^ 32 then ucast (drop_bit 3 key) else - 1)"

text \<open>\<open>input.get(n..)\<close>\<close>

definition get_from :: "nat \<Rightarrow> u8 list \<Rightarrow> string \<Rightarrow> u8 list hal_result" where
  "get_from n input message = (if n \<le> length input then Ok (drop n input) else Err (invalid_wire message))"

lemma and_then_cong [fundef_cong]:
  "r = r' \<Longrightarrow> (\<And>x. r' = Ok x \<Longrightarrow> f x = g x) \<Longrightarrow> and_then r f = and_then r' g"
  by (cases r') auto

text \<open>
  The loop of \<open>skip_group\<close>. The result of a nested group is the rest of the input, which the
  loop then continues with.
\<close>

function skip_group_loop :: "u8 list \<Rightarrow> u32 \<Rightarrow> usize \<Rightarrow> u8 list hal_result" where
  "skip_group_loop input expected_field depth =
     (if input = [] then Err (invalid_wire ''unterminated protobuf group'')
      else and_then (read_varint input) (\<lambda>(key, key_len).
        let input = drop key_len input; field = field_number key in
        if field = 0 then Err (invalid_wire ''protobuf field number zero is invalid'')
        else if key AND 7 = 0 then
          and_then (read_varint input) (\<lambda>(_, len).
          skip_group_loop (drop len input) expected_field depth)
        else if key AND 7 = 1 then
          and_then (get_from 8 input ''truncated fixed64 protobuf field'') (\<lambda>input.
          skip_group_loop input expected_field depth)
        else if key AND 7 = 2 then
          and_then (read_varint input) (\<lambda>(len, prefix_len).
          and_then (get_from (unat len) (drop prefix_len input)
            ''truncated length-delimited protobuf field'') (\<lambda>input.
          skip_group_loop input expected_field depth))
        else if key AND 7 = 3 then
          and_then (if depth + 1 > MAX_PROTOBUF_GROUP_DEPTH
            then Err (invalid_wire ''protobuf group nesting is too deep'')
            else skip_group_loop input field (depth + 1)) (\<lambda>input.
          skip_group_loop input expected_field depth)
        else if key AND 7 = 4 then
          if field = expected_field then Ok input
          else Err (invalid_wire ''protobuf end-group field does not match start-group'')
        else if key AND 7 = 5 then
          and_then (get_from 4 input ''truncated fixed32 protobuf field'') (\<lambda>input.
          skip_group_loop input expected_field depth)
        else Err (invalid_wire ''unsupported protobuf wire type'')))"
  by pat_completeness auto

lemma get_from_Ok [simp]: "get_from n xs m = Ok ys \<longleftrightarrow> n \<le> length xs \<and> ys = drop n xs"
  by (auto simp: get_from_def)

lemma drop_key_shorter: "read_varint xs = Ok (k, n) \<Longrightarrow> length (drop n xs) < length xs"
  using read_varint_bounds by fastforce

lemma skip_group_loop_shorter_dom:
  "skip_group_loop_dom (xs, f, d) \<Longrightarrow> skip_group_loop xs f d = Ok ys \<Longrightarrow> length ys < length xs"
proof (induction xs f d arbitrary: ys rule: skip_group_loop.pinduct)
  case (1 xs f d)
  from 1(8) obtain key n where k: "xs \<noteq> []" "read_varint xs = Ok (key, n)" "field_number key \<noteq> 0"
    by (auto simp: skip_group_loop.psimps [OF 1(1)] Let_def split: if_splits)
  note s = drop_key_shorter [OF k(2)]
  note step = 1(8) [unfolded skip_group_loop.psimps [OF 1(1)]]
  note IH = "1.IH" [OF k(1,2) refl refl refl k(3)]
  consider "key AND 7 = 0" | "key AND 7 = 1" | "key AND 7 = 2" | "key AND 7 = 3" | "key AND 7 = 4" | "key AND 7 = 5"
    using step k by (auto simp: Let_def split: if_splits)
  then show ?case
  proof cases
    case c: 1
    show ?thesis using step k s c IH(1) by (fastforce simp: Let_def)
  next
    case c: 2
    show ?thesis using step k s c IH(2) by (fastforce simp: Let_def)
  next
    case c: 3
    show ?thesis using step k s c IH(3) by (fastforce simp: Let_def)
  next
    case c: 4
    show ?thesis using step k s c IH(4) IH(5) by (fastforce simp: Let_def split: if_splits)
  next
    case c: 5
    show ?thesis using step k s c by (auto simp: Let_def split: if_splits)
  next
    case c: 6
    show ?thesis using step k s c IH(6) by (fastforce simp: Let_def)
  qed
qed

lemma skip_group_loop_total: "All skip_group_loop_dom"
proof (rule "skip_group_loop.termination" [of "measure (\<lambda>(xs, f, d). length xs)"], goal_cases)
  case 1
  then show ?case by simp
next
  case (2 xs f d x key n ys field y a len)
  then show ?case using drop_key_shorter [of xs key n] by auto
next
  case (3 xs f d x key n ys field y)
  then show ?case using drop_key_shorter [of xs key n] by auto
next
  case (4 xs f d x key n ys field y len p zs)
  then show ?case using drop_key_shorter [of xs key n] by auto
next
  case (5 xs f d x key n ys field)
  then show ?case using drop_key_shorter [of xs key n] by auto
next
  case (6 xs f d x key n ys field y)
  then show ?case using drop_key_shorter [of xs key n] skip_group_loop_shorter_dom [of ys field "d + 1" y]
    by (auto split: if_splits)
next
  case (7 xs f d x key n ys field y)
  then show ?case using drop_key_shorter [of xs key n] by auto
qed

termination skip_group_loop
  by (rule skip_group_loop_total)

declare skip_group_loop.simps [simp del]

definition skip_group :: "u8 list \<Rightarrow> u32 \<Rightarrow> usize \<Rightarrow> u8 list hal_result" where
  "skip_group input expected_field depth =
     (if depth > MAX_PROTOBUF_GROUP_DEPTH then Err (invalid_wire ''protobuf group nesting is too deep'')
      else skip_group_loop input expected_field depth)"

lemma skip_group_shorter: "skip_group xs f d = Ok ys \<Longrightarrow> length ys < length xs"
  using skip_group_loop_shorter_dom skip_group_loop_total
  by (auto simp: skip_group_def split: if_splits)

type_synonym 's visitor = "u32 \<Rightarrow> WireValue \<Rightarrow> 's \<Rightarrow> 's hal_result"

function visit_fields :: "'s visitor \<Rightarrow> u8 list \<Rightarrow> 's \<Rightarrow> 's hal_result" where
  "visit_fields visitor input state =
     (if input = [] then Ok state
      else and_then (read_varint input) (\<lambda>(key, key_len).
        let input = drop key_len input; field = field_number key in
        if field = 0 then Err (invalid_wire ''protobuf field number zero is invalid'')
        else if key AND 7 = 0 then
          and_then (read_varint input) (\<lambda>(value, len).
          and_then (visitor field (Varint value) state) (\<lambda>state.
          visit_fields visitor (drop len input) state))
        else if key AND 7 = 1 then
          and_then (get_from 8 input ''truncated fixed64 protobuf field'') (\<lambda>input.
          and_then (visitor field Fixed state) (\<lambda>state.
          visit_fields visitor input state))
        else if key AND 7 = 2 then
          and_then (read_varint input) (\<lambda>(len, prefix_len).
          let input = drop prefix_len input in
          and_then (get_from (unat len) input ''truncated length-delimited protobuf field'') (\<lambda>rest.
          and_then (visitor field (Bytes (take (unat len) input)) state) (\<lambda>state.
          visit_fields visitor rest state)))
        else if key AND 7 = 3 then
          and_then (skip_group input field 1) (\<lambda>input.
          visit_fields visitor input state)
        else if key AND 7 = 4 then Err (invalid_wire ''unexpected protobuf end-group field'')
        else if key AND 7 = 5 then
          and_then (get_from 4 input ''truncated fixed32 protobuf field'') (\<lambda>input.
          and_then (visitor field Fixed state) (\<lambda>state.
          visit_fields visitor input state))
        else Err (invalid_wire ''unsupported protobuf wire type'')))"
  by pat_completeness auto

termination visit_fields
proof (relation "measure (\<lambda>(v, xs, s). length xs)", goal_cases)
  case (2 v xs s x key n ys)
  then show ?case using drop_key_shorter [of xs key n] by auto
next
  case (3 v xs s x key n ys)
  then show ?case using drop_key_shorter [of xs key n] by auto
next
  case (4 v xs s x key n ys)
  then show ?case using drop_key_shorter [of xs key n] by auto
next
  case (5 v xs s x key n ys f zs)
  then show ?case using drop_key_shorter [of xs key n] skip_group_shorter [of ys f 1 zs] by auto
next
  case (6 v xs s x key n ys)
  then show ?case using drop_key_shorter [of xs key n] by auto
qed simp

declare visit_fields.simps [simp del]

section \<open>Preflight of an inbound frame\<close>

text \<open>
  The visitors of \<open>preflight_inbound\<close>, from the innermost one out. The tally of a CAN receive
  response is its frame count, its payload bytes and whether a timestamp was seen.
\<close>

definition request_id_visitor :: "u64 visitor" where
  "request_id_visitor field wire request_id =
     Ok (if field = 1 then (case wire of Varint value \<Rightarrow> value | _ \<Rightarrow> request_id) else request_id)"

definition read_data_visitor :: "usize \<Rightarrow> usize option \<Rightarrow> unit visitor" where
  "read_data_visitor negotiated_read requested_read field wire _ =
     (if field = 1 then
        (case wire of
           Bytes data \<Rightarrow>
             if length data > negotiated_read
                 \<or> (case requested_read of None \<Rightarrow> False | Some limit \<Rightarrow> length data > limit) then
               Err (frame_too_large ''serial read response exceeds the negotiated or requested byte limit'')
             else Ok ()
         | _ \<Rightarrow> Ok ())
      else Ok ())"

definition serial_response_visitor :: "usize \<Rightarrow> usize option \<Rightarrow> unit visitor" where
  "serial_response_visitor negotiated_read requested_read field wire _ =
     (if field = 25 then
        (case wire of
           Bytes read_response \<Rightarrow> visit_fields (read_data_visitor negotiated_read requested_read) read_response ()
         | _ \<Rightarrow> Ok ())
      else Ok ())"

type_synonym can_tally = "usize \<times> usize \<times> bool"

definition can_data_visitor :: "usize visitor" where
  "can_data_visitor field wire payload_bytes =
     (if field = 3 then
        (case wire of
           Bytes data \<Rightarrow> ok_or (invalid_wire ''CAN receive response payload overflows usize'')
             (usize_checked_add payload_bytes (length data))
         | _ \<Rightarrow> Ok payload_bytes)
      else Ok payload_bytes)"

definition received_visitor :: "(usize \<times> bool) visitor" where
  "received_visitor field wire tally =
     (case tally of (payload_bytes, has_timestamp) \<Rightarrow>
      case wire of
        Bytes bytes \<Rightarrow>
          if field = 1 then
            and_then (visit_fields can_data_visitor bytes payload_bytes) (\<lambda>payload_bytes.
            Ok (payload_bytes, has_timestamp))
          else if field = 2 then Ok (payload_bytes, True)
          else Ok tally
      | _ \<Rightarrow> Ok tally)"

definition receive_visitor :: "can_tally visitor" where
  "receive_visitor field wire tally =
     (case tally of (frame_count, payload_bytes, has_timestamp) \<Rightarrow>
      if field = 1 then
        (case wire of
           Bytes received \<Rightarrow>
             and_then (ok_or (invalid_wire ''CAN receive response frame count overflows usize'')
               (usize_checked_add frame_count 1)) (\<lambda>frame_count.
             and_then (visit_fields received_visitor received (payload_bytes, has_timestamp)) (\<lambda>inner.
             Ok (frame_count, inner)))
         | _ \<Rightarrow> Ok tally)
      else Ok tally)"

definition check_can_tally :: "(usize \<times> usize \<times> CanSessionProfile) option \<Rightarrow> can_tally \<Rightarrow> unit hal_result" where
  "check_can_tally requested_can tally =
     (case tally of (frame_count, payload_bytes, has_timestamp) \<Rightarrow>
      case requested_can of
        None \<Rightarrow> Ok ()
      | Some (max_frames, max_read_bytes, profile) \<Rightarrow>
          if frame_count > max_frames \<or> payload_bytes > max_read_bytes then
            Err (attach_profile (invalid_wire
              ''CAN receive response exceeds the requested frame or byte bound'') profile)
          else if has_timestamp \<and> \<not> cs_timestamps profile then
            Err (attach_profile (invalid_wire
              ''CAN receive response contains an unadvertised timestamp'') profile)
          else Ok ())"

definition can_response_visitor :: "(usize \<times> usize \<times> CanSessionProfile) option \<Rightarrow> unit visitor" where
  "can_response_visitor requested_can field wire _ =
     (if field = 57 then
        (case wire of
           Bytes receive_response \<Rightarrow>
             and_then (visit_fields receive_visitor receive_response (0, 0, False)) (check_can_tally requested_can)
         | _ \<Rightarrow> Ok ())
      else Ok ())"

text \<open>The last argument of the lookup is the request id the frame carries.\<close>

definition preflight_inbound ::
  "usize \<Rightarrow> (u64 \<Rightarrow> ExpectedResponse option) \<Rightarrow> u8 list \<Rightarrow> unit hal_result" where
  "preflight_inbound negotiated_read lookup frame =
     and_then (visit_fields request_id_visitor frame 0) (\<lambda>request_id.
     let expected = lookup request_id;
         requested_read = (case expected of Some (XSerialRead max_bytes) \<Rightarrow> Some max_bytes | _ \<Rightarrow> None);
         requested_can = (case expected of
             Some (XCanReceive max_frames max_read_bytes profile) \<Rightarrow> Some (max_frames, max_read_bytes, profile)
           | _ \<Rightarrow> None)
     in and_then (visit_fields (serial_response_visitor negotiated_read requested_read) frame ()) (\<lambda>_.
        visit_fields (can_response_visitor requested_can) frame ()))"

section \<open>What the scanner sees\<close>

text \<open>
  One turn of the loop of \<open>visit_fields\<close>: the field the visitor is called with, if any, and the
  rest of the input. Feeding a visitor with the fields one after the other is all the loop does.
\<close>

definition next_field :: "u8 list \<Rightarrow> ((u32 \<times> WireValue) option \<times> u8 list) hal_result" where
  "next_field input =
     and_then (read_varint input) (\<lambda>(key, key_len).
        let input = drop key_len input; field = field_number key in
        if field = 0 then Err (invalid_wire ''protobuf field number zero is invalid'')
        else if key AND 7 = 0 then
          and_then (read_varint input) (\<lambda>(value, len). Ok (Some (field, Varint value), drop len input))
        else if key AND 7 = 1 then
          and_then (get_from 8 input ''truncated fixed64 protobuf field'') (\<lambda>rest. Ok (Some (field, Fixed), rest))
        else if key AND 7 = 2 then
          and_then (read_varint input) (\<lambda>(len, prefix_len).
          and_then (get_from (unat len) (drop prefix_len input) ''truncated length-delimited protobuf field'') (\<lambda>rest.
          Ok (Some (field, Bytes (take (unat len) (drop prefix_len input))), rest)))
        else if key AND 7 = 3 then and_then (skip_group input field 1) (\<lambda>rest. Ok (None, rest))
        else if key AND 7 = 4 then Err (invalid_wire ''unexpected protobuf end-group field'')
        else if key AND 7 = 5 then
          and_then (get_from 4 input ''truncated fixed32 protobuf field'') (\<lambda>rest. Ok (Some (field, Fixed), rest))
        else Err (invalid_wire ''unsupported protobuf wire type''))"

definition visit_one :: "'s visitor \<Rightarrow> (u32 \<times> WireValue) option \<Rightarrow> 's \<Rightarrow> 's hal_result" where
  "visit_one visitor field state = (case field of None \<Rightarrow> Ok state | Some (f, w) \<Rightarrow> visitor f w state)"

lemma and_then_assoc: "and_then (and_then r f) g = and_then r (\<lambda>x. and_then (f x) g)"
  by (cases r) auto

lemma visit_fields_step:
  "visit_fields v xs s =
     (if xs = [] then Ok s
      else and_then (next_field xs) (\<lambda>(ov, rest). and_then (visit_one v ov s) (visit_fields v rest)))"
proof (cases "read_varint xs")
  case (Ok x)
  then obtain key n where "read_varint xs = Ok (key, n)" by (cases x) auto
  then show ?thesis
    unfolding visit_fields.simps [of v xs s] next_field_def
    by (simp add: and_then_assoc visit_one_def Let_def case_prod_unfold)
qed (simp add: visit_fields.simps [of v xs s] next_field_def)

lemma visit_fields_Nil [simp]: "visit_fields v [] s = Ok s"
  by (simp add: visit_fields.simps)

lemma next_field_shorter: "next_field xs = Ok (ov, rest) \<Longrightarrow> length rest < length xs"
proof -
  assume n: "next_field xs = Ok (ov, rest)"
  then obtain key k where r: "read_varint xs = Ok (key, k)" by (auto simp: next_field_def)
  show "length rest < length xs"
    using n drop_key_shorter [OF r] skip_group_shorter [of "drop k xs" "field_number key" 1]
    by (fastforce simp: next_field_def r Let_def split: if_splits)
qed

fun feed :: "'s visitor \<Rightarrow> (u32 \<times> WireValue) list \<Rightarrow> 's \<Rightarrow> 's hal_result" where
  "feed v [] s = Ok s"
| "feed v ((f, w) # fs) s = and_then (v f w s) (feed v fs)"

definition collect :: "(u32 \<times> WireValue) list visitor" where
  "collect f w acc = Ok (acc @ [(f, w)])"

definition wire_fields :: "u8 list \<Rightarrow> (u32 \<times> WireValue) list hal_result" where
  "wire_fields input = visit_fields collect input []"

lemma wire_fields_Nil [simp]: "wire_fields [] = Ok []"
  by (simp add: wire_fields_def)

lemma collect_prefix: "visit_fields collect xs acc = and_then (wire_fields xs) (\<lambda>fs. Ok (acc @ fs))"
proof (induction "length xs" arbitrary: xs acc rule: less_induct)
  case less
  show ?case
  proof (cases "xs = [] \<or> \<not> is_ok (next_field xs)")
    case True
    then show ?thesis
      by (cases "next_field xs") (auto simp: wire_fields_def visit_fields_step [of collect xs])
  next
    case False
    then obtain ov rest where n: "next_field xs = Ok (ov, rest)" "xs \<noteq> []" by (cases "next_field xs") auto
    note IH = less [OF next_field_shorter [OF n(1)]]
    show ?thesis
      unfolding wire_fields_def using n IH IH [of "[]"]
      by (cases ov) (auto simp: visit_fields_step [of collect xs] visit_one_def collect_def and_then_assoc
          split: prod.splits)
  qed
qed

lemma wire_fields_step:
  "wire_fields xs =
     (if xs = [] then Ok []
      else and_then (next_field xs) (\<lambda>(ov, rest). and_then (wire_fields rest) (\<lambda>fs.
        Ok ((case ov of None \<Rightarrow> [] | Some x \<Rightarrow> [x]) @ fs))))"
  unfolding wire_fields_def [of xs] visit_fields_step [of collect xs]
  by (cases "next_field xs") (auto simp: visit_one_def collect_def collect_prefix split: option.split prod.split)

lemma visit_fields_feed:
  "visit_fields v xs s = Ok s' \<longleftrightarrow> (\<exists>fs. wire_fields xs = Ok fs \<and> feed v fs s = Ok s')"
proof (induction "length xs" arbitrary: xs s rule: less_induct)
  case less
  show ?case
  proof (cases "xs = [] \<or> \<not> is_ok (next_field xs)")
    case True
    then show ?thesis
      by (cases "next_field xs") (auto simp: visit_fields_step [of v xs] wire_fields_step [of xs])
  next
    case False
    then obtain ov rest where n: "next_field xs = Ok (ov, rest)" "xs \<noteq> []" by (cases "next_field xs") auto
    note IH = less [OF next_field_shorter [OF n(1)]]
    show ?thesis using n
      by (cases ov) (auto simp: visit_fields_step [of v xs] wire_fields_step [of xs] visit_one_def IH)
  qed
qed

end
