(* ===== verification/Client_Scan_Laws.thy ===== *)
theory Client_Scan_Laws
  imports Client_Scanner
begin

text \<open>
  The client's protobuf scanner against the protobuf encoding: varints are read back, an encoded
  message is seen field by field with its groups skipped, and a frame that passes the preflight
  stays within the negotiated and requested bounds.
\<close>

section \<open>Encoded messages\<close>

text \<open>
  The protobuf encoding, as the reference the scanner is compared with: base 128 varints, and
  fields of the five wire types with groups nested in each other.
\<close>

fun encode_varint :: "nat \<Rightarrow> u8 list" where
  "encode_varint n = (if n < 128 then [of_nat n] else of_nat (128 + n mod 128) # encode_varint (n div 128))"

declare encode_varint.simps [simp del]

datatype Field =
    VarintField nat u64 | Fixed64Field nat "u8 list" | BytesField nat "u8 list" | GroupField nat "Field list"
  | Fixed32Field nat "u8 list"

definition key_bytes :: "nat \<Rightarrow> nat \<Rightarrow> u8 list" where
  "key_bytes number wire_type = encode_varint (8 * number + wire_type)"

fun encode_field :: "Field \<Rightarrow> u8 list" where
  "encode_field (VarintField n v) = key_bytes n 0 @ encode_varint (unat v)"
| "encode_field (Fixed64Field n b) = key_bytes n 1 @ b"
| "encode_field (BytesField n b) = key_bytes n 2 @ encode_varint (length b) @ b"
| "encode_field (GroupField n fs) = key_bytes n 3 @ concat (map encode_field fs) @ key_bytes n 4"
| "encode_field (Fixed32Field n b) = key_bytes n 5 @ b"

fun field_ok :: "nat \<Rightarrow> Field \<Rightarrow> bool" where
  "field_ok d (VarintField n v) = (0 < n \<and> n < 2 ^ 29)"
| "field_ok d (Fixed64Field n b) = (0 < n \<and> n < 2 ^ 29 \<and> length b = 8)"
| "field_ok d (BytesField n b) = (0 < n \<and> n < 2 ^ 29 \<and> length b < 2 ^ 64)"
| "field_ok d (GroupField n fs) = (0 < n \<and> n < 2 ^ 29 \<and> 0 < d \<and> list_all (field_ok (d - 1)) fs)"
| "field_ok d (Fixed32Field n b) = (0 < n \<and> n < 2 ^ 29 \<and> length b = 4)"

fun visible :: "Field \<Rightarrow> (u32 \<times> WireValue) option" where
  "visible (VarintField n v) = Some (of_nat n, Varint v)"
| "visible (Fixed64Field n b) = Some (of_nat n, Fixed)"
| "visible (BytesField n b) = Some (of_nat n, Bytes b)"
| "visible (GroupField n fs) = None"
| "visible (Fixed32Field n b) = Some (of_nat n, Fixed)"

lemma length_encode_varint: "n < 2 ^ (7 * Suc k) \<Longrightarrow> length (encode_varint n) \<le> Suc k"
proof (induction k arbitrary: n)
  case 0
  then show ?case by (simp add: encode_varint.simps [of n])
next
  case (Suc k)
  have "n div 128 < 2 ^ (7 * Suc k)" using Suc.prems by (simp add: less_mult_imp_div_less power_add)
  with Suc.IH show ?case by (simp add: encode_varint.simps [of n])
qed

lemma varint_byte:
  "(of_nat n :: u8) AND 0x80 = 0 \<longleftrightarrow> \<not> bit n 7"
  "ucast ((of_nat n :: u8) AND 0x7f) = (of_nat (take_bit 7 n) :: u64)"
proof -
  show "(of_nat n :: u8) AND 0x80 = 0 \<longleftrightarrow> \<not> bit n 7"
    using bit_iff_and_push_bit_not_eq_0 [of "of_nat n :: u8" 7] by (simp add: bit_of_nat_iff)
  have "(of_nat n :: u8) AND 0x7f = take_bit 7 (of_nat n)" by (simp add: take_bit_eq_mask mask_eq_exp_minus_1)
  also have "\<dots> = of_nat (take_bit 7 n)" by (rule take_bit_of_nat)
  finally show "ucast ((of_nat n :: u8) AND 0x7f) = (of_nat (take_bit 7 n) :: u64)"
    by (simp add: unsigned_of_nat)
qed

lemma varint_join:
  "(of_nat (take_bit 7 n) :: u64) OR push_bit 7 (of_nat (n div 128)) = of_nat n"
proof -
  have d: "n div 128 = drop_bit 7 n" by (simp add: drop_bit_eq_div)
  show ?thesis
  proof (rule bit_word_eqI)
    fix k assume "k < LENGTH(64)"
    then have "k < 64" "k - 7 < 64" by simp_all
    then show "bit ((of_nat (take_bit 7 n) :: u64) OR push_bit 7 (of_nat (n div 128))) k = bit (of_nat n :: u64) k"
      unfolding d by (cases "k < 7")
        (simp_all add: bit_or_iff bit_of_nat_iff bit_push_bit_iff bit_take_bit_iff bit_drop_bit_eq)
  qed
qed

lemma read_encode_loop:
  assumes "n * 2 ^ (7 * i) < 2 ^ 64"
  shows "read_varint_loop i v (encode_varint n @ rest) =
    Ok (v OR push_bit (i * 7) (of_nat n), i + length (encode_varint n))"
  using assms
proof (induction n arbitrary: i v rule: encode_varint.induct)
  case (1 n)
  show ?case
  proof (cases "n < 128")
    case True
    then have t: "take_bit 7 n = n" "\<not> bit n 7"
      by (simp_all add: take_bit_nat_eq_self bit_iff_odd)
    have "n \<le> 1" if "i = 9" using "1.prems" that by simp
    then have "\<not> (i = 9 \<and> (of_nat n :: u8) > 1)" by (auto simp: le_Suc_eq)
    with True t show ?thesis
      by (simp add: encode_varint.simps [of n] varint_byte)
  next
    case False
    let ?b = "128 + n mod 128"
    have "n div 128 * 2 ^ (7 * (i + 1)) = n div 128 * 128 * 2 ^ (7 * i)" by (simp add: power_add)
    also have "\<dots> \<le> n * 2 ^ (7 * i)" by (intro mult_le_mono1) simp
    finally have "n div 128 * 2 ^ (7 * (i + 1)) < 2 ^ 64" using "1.prems" by linarith
    note IH = "1.IH" [OF False this]
    have "?b div 128 = 1" by (simp add: div_add_self1)
    then have b: "take_bit 7 ?b = take_bit 7 n" "bit ?b 7"
      by (simp_all add: take_bit_eq_mod bit_iff_odd)
    define B where "B = (of_nat ?b :: u8)"
    have B: "B AND 0x80 \<noteq> 0" "ucast (B AND 0x7f) = (of_nat (take_bit 7 n) :: u64)"
      unfolding B_def varint_byte b using b(2) by simp_all
    have e: "encode_varint n = B # encode_varint (n div 128)"
      using False by (simp add: encode_varint.simps [of n] B_def)
    have "push_bit (i * 7) (of_nat n :: u64)
        = push_bit (i * 7) (of_nat (take_bit 7 n)) OR push_bit ((i + 1) * 7) (of_nat (n div 128))"
      unfolding varint_join [of n, symmetric] push_bit_or push_bit_push_bit
      by (simp add: varint_join add.commute)
    moreover have "i \<noteq> 9" using "1.prems" False by auto
    ultimately show ?thesis using IH B by (simp add: e or.assoc)
  qed
qed

lemma read_encode_varint:
  assumes "n < 2 ^ 64"
  shows "read_varint (encode_varint n @ rest) = Ok (of_nat n, length (encode_varint n))"
proof -
  have "length (encode_varint n) \<le> 10" using length_encode_varint [of n 9] assms by simp
  then show ?thesis
    using read_encode_loop [of n 0 0 "take (10 - length (encode_varint n)) rest"] assms
    by (simp add: read_varint_def)
qed

text \<open>Reading a field key: the key, its wire type and its field number.\<close>

lemma read_key:
  assumes "0 < n" "n < 2 ^ 29" "wt < 8"
  shows "read_varint (key_bytes n wt @ rest) = Ok (of_nat (8 * n + wt), length (key_bytes n wt))"
    and "(of_nat (8 * n + wt) :: u64) AND 7 = of_nat wt"
    and "field_number (of_nat (8 * n + wt)) = of_nat n"
    and "(of_nat n :: u32) \<noteq> 0"
proof -
  have b: "8 * n + wt < 2 ^ 64" using assms by simp
  then show "read_varint (key_bytes n wt @ rest) = Ok (of_nat (8 * n + wt), length (key_bytes n wt))"
    unfolding key_bytes_def by (rule read_encode_varint)
  have "(of_nat (8 * n + wt) :: u64) AND 7 = take_bit 3 (of_nat (8 * n + wt))"
    by (simp add: take_bit_eq_mask mask_eq_exp_minus_1)
  also have "\<dots> = of_nat (take_bit 3 (8 * n + wt))" by (rule take_bit_of_nat)
  also have "take_bit 3 (8 * n + wt) = wt" using assms(3) by (simp add: take_bit_eq_mod)
  finally show "(of_nat (8 * n + wt) :: u64) AND 7 = of_nat wt" .
  have "unat (drop_bit 3 (of_nat k :: u64)) = k div 8" if "k < 2 ^ 64" for k
    unfolding unsigned_drop_bit_eq using that by (simp add: unsigned_of_nat take_bit_nat_eq_self drop_bit_eq_div)
  from this [OF b] have u: "unat (drop_bit 3 (of_nat (8 * n + wt) :: u64)) = n" using assms(3) by simp
  moreover have "ucast (drop_bit 3 (of_nat (8 * n + wt) :: u64)) = (of_nat n :: u32)"
    by (metis u of_nat_unat)
  ultimately show "field_number (of_nat (8 * n + wt)) = of_nat n"
    using assms(2) by (simp add: field_number_def)
  show "(of_nat n :: u32) \<noteq> 0"
    using assms by (simp add: word_of_nat_eq_0_iff nat_dvd_not_less)
qed

lemma wire_type_eq:
  assumes "wt < 8"
  shows "(of_nat wt :: u64) = 0 \<longleftrightarrow> wt = 0" "(of_nat wt :: u64) = 1 \<longleftrightarrow> wt = 1" "(of_nat wt :: u64) = 2 \<longleftrightarrow> wt = 2"
    "(of_nat wt :: u64) = 3 \<longleftrightarrow> wt = 3" "(of_nat wt :: u64) = 4 \<longleftrightarrow> wt = 4" "(of_nat wt :: u64) = 5 \<longleftrightarrow> wt = 5"
proof -
  have "(of_nat wt :: u64) = of_nat k \<longleftrightarrow> wt = k" if "k < 8" for k
    using assms that by (simp add: word_of_nat_eq_iff take_bit_nat_eq_self)
  from this [of 0] this [of 1] this [of 2] this [of 3] this [of 4] this [of 5]
  show "(of_nat wt :: u64) = 0 \<longleftrightarrow> wt = 0" "(of_nat wt :: u64) = 1 \<longleftrightarrow> wt = 1" "(of_nat wt :: u64) = 2 \<longleftrightarrow> wt = 2"
    "(of_nat wt :: u64) = 3 \<longleftrightarrow> wt = 3" "(of_nat wt :: u64) = 4 \<longleftrightarrow> wt = 4" "(of_nat wt :: u64) = 5 \<longleftrightarrow> wt = 5"
    by simp_all
qed

lemma key_bytes_not_Nil [simp]: "key_bytes n wt \<noteq> []"
  by (simp add: key_bytes_def encode_varint.simps [of "8 * n + wt"])

lemma skip_group_loop_step:
  assumes "0 < n" "n < 2 ^ 29" "wt < 8"
  shows "skip_group_loop (key_bytes n wt @ xs) f d =
    (if wt = 0 then and_then (read_varint xs) (\<lambda>(_, len). skip_group_loop (drop len xs) f d)
     else if wt = 1 then and_then (get_from 8 xs ''truncated fixed64 protobuf field'') (\<lambda>ys. skip_group_loop ys f d)
     else if wt = 2 then and_then (read_varint xs) (\<lambda>(len, p).
       and_then (get_from (unat len) (drop p xs) ''truncated length-delimited protobuf field'') (\<lambda>ys. skip_group_loop ys f d))
     else if wt = 3 then and_then (if d + 1 > MAX_PROTOBUF_GROUP_DEPTH
         then Err (invalid_wire ''protobuf group nesting is too deep'')
         else skip_group_loop xs (of_nat n) (d + 1)) (\<lambda>ys. skip_group_loop ys f d)
     else if wt = 4 then if of_nat n = f then Ok xs
       else Err (invalid_wire ''protobuf end-group field does not match start-group'')
     else if wt = 5 then and_then (get_from 4 xs ''truncated fixed32 protobuf field'') (\<lambda>ys. skip_group_loop ys f d)
     else Err (invalid_wire ''unsupported protobuf wire type''))"
  by (subst skip_group_loop.simps) (simp only: read_key [OF assms] append_is_Nil_conv Let_def and_then.simps
      prod.case if_False append_eq_conv_conj drop_append simp_thms key_bytes_not_Nil, simp add: wire_type_eq [OF assms(3)])

lemma next_field_step:
  assumes "0 < n" "n < 2 ^ 29" "wt < 8"
  shows "next_field (key_bytes n wt @ xs) =
    (if wt = 0 then and_then (read_varint xs) (\<lambda>(v, len). Ok (Some (of_nat n, Varint v), drop len xs))
     else if wt = 1 then and_then (get_from 8 xs ''truncated fixed64 protobuf field'') (\<lambda>ys. Ok (Some (of_nat n, Fixed), ys))
     else if wt = 2 then and_then (read_varint xs) (\<lambda>(len, p).
       and_then (get_from (unat len) (drop p xs) ''truncated length-delimited protobuf field'') (\<lambda>ys.
       Ok (Some (of_nat n, Bytes (take (unat len) (drop p xs))), ys)))
     else if wt = 3 then and_then (skip_group xs (of_nat n) 1) (\<lambda>ys. Ok (None, ys))
     else if wt = 4 then Err (invalid_wire ''unexpected protobuf end-group field'')
     else if wt = 5 then and_then (get_from 4 xs ''truncated fixed32 protobuf field'') (\<lambda>ys. Ok (Some (of_nat n, Fixed), ys))
     else Err (invalid_wire ''unsupported protobuf wire type''))"
  unfolding next_field_def
  by (simp only: read_key [OF assms] Let_def and_then.simps prod.case if_False drop_append simp_thms,
      simp add: wire_type_eq [OF assms(3)])

lemma unat_of_nat_u64: "n < 2 ^ 64 \<Longrightarrow> unat (of_nat n :: u64) = n"
  by (simp add: unsigned_of_nat take_bit_nat_eq_self)

lemma skip_encoded:
  assumes "list_all (field_ok (64 - d)) fs" "d \<le> 64" "0 < f" "f < 2 ^ 29"
  shows "skip_group_loop (concat (map encode_field fs) @ key_bytes f 4 @ rest) (of_nat f) d = Ok rest"
  using assms
proof (induction "size_list size fs" arbitrary: fs f d rest rule: less_induct)
  case less
  show ?case
  proof (cases fs)
    case Nil
    then show ?thesis using less.prems by (simp add: skip_group_loop_step)
  next
    case (Cons g gs)
    let ?tail = "concat (map encode_field gs) @ key_bytes f 4 @ rest"
    have IH: "skip_group_loop ?tail (of_nat f) d = Ok rest"
      using less.prems Cons by (intro less.hyps) simp_all
    show ?thesis
    proof (cases g)
      case (GroupField n hs)
      have "skip_group_loop (concat (map encode_field hs) @ key_bytes n 4 @ ?tail) (of_nat n) (d + 1) = Ok ?tail"
        using less.prems Cons GroupField by (intro less.hyps) simp_all
      then show ?thesis
        using less.prems Cons GroupField IH by (simp add: skip_group_loop_step MAX_PROTOBUF_GROUP_DEPTH_def)
    qed (use less.prems Cons IH in \<open>simp_all add: skip_group_loop_step read_encode_varint unat_of_nat_u64
        unat_less_exp [where 'a = 64, simplified]\<close>)
  qed
qed

lemma next_field_encoded:
  assumes "field_ok 64 g"
  shows "next_field (encode_field g @ rest) = Ok (visible g, rest)"
proof (cases g)
  case (GroupField n fs)
  have "skip_group_loop (concat (map encode_field fs) @ key_bytes n 4 @ rest) (of_nat n) 1 = Ok rest"
    using assms GroupField by (intro skip_encoded) simp_all
  then show ?thesis
    using assms GroupField by (simp add: next_field_step skip_group_def MAX_PROTOBUF_GROUP_DEPTH_def)
qed (use assms in \<open>simp_all add: next_field_step read_encode_varint unat_of_nat_u64
    unat_less_exp [where 'a = 64, simplified]\<close>)

lemma encode_field_not_Nil [simp]: "encode_field g \<noteq> []"
  by (cases g) simp_all

lemma visit_encoded:
  "list_all (field_ok 64) fs \<Longrightarrow> visit_fields v (concat (map encode_field fs)) s = feed v (List.map_filter visible fs) s"
proof (induction fs arbitrary: s)
  case Nil
  then show ?case by (simp add: List.map_filter_def)
next
  case (Cons g gs)
  have "visit_fields v (encode_field g @ concat (map encode_field gs)) s
      = and_then (visit_one v (visible g) s) (visit_fields v (concat (map encode_field gs)))"
    using Cons.prems by (subst visit_fields_step) (simp add: next_field_encoded)
  with Cons show ?case
    by (auto simp: List.map_filter_simps visit_one_def split: option.split intro: and_then_cong)
qed

lemma feed_collect: "feed collect fs acc = Ok (acc @ fs)"
  by (induction fs arbitrary: acc) (auto simp: collect_def)

lemma wire_fields_encoded:
  "list_all (field_ok 64) fs \<Longrightarrow> wire_fields (concat (map encode_field fs)) = Ok (List.map_filter visible fs)"
  by (simp add: wire_fields_def visit_encoded feed_collect)

text \<open>
  C26. Scanning an encoded message: on the protobuf encoding of any list of fields (groups nested up to
  the depth limit of 64) the scanner calls the visitor with exactly the fields outside groups, in
  order and with their values, and fails only where the visitor does.
\<close>

theorem scan_encoded_message:
  assumes "list_all (field_ok 64) fs"
  shows "visit_fields v (concat (map encode_field fs)) s = feed v (List.map_filter visible fs) s"
  using assms by (rule visit_encoded)

definition sample_fields :: "Field list" where
  "sample_fields = [VarintField 1 300, GroupField 9 [GroupField 8 [], Fixed32Field 2 [0, 0, 0, 0]], BytesField 25 [10, 1, 7]]"

lemma scan_encoded_message_witness:
  "visit_fields collect (concat (map encode_field sample_fields)) [] = Ok [(1, Varint 300), (25, Bytes [10, 1, 7])]"
proof -
  have "list_all (field_ok 64) sample_fields" by (simp add: sample_fields_def)
  moreover have "List.map_filter visible sample_fields = [(1, Varint 300), (25, Bytes [10, 1, 7])]"
    by (simp add: sample_fields_def List.map_filter_simps)
  ultimately show ?thesis by (simp only: scan_encoded_message feed_collect append_Nil)
qed

section \<open>Bounds of an accepted frame\<close>

text \<open>The length-delimited fields with a given number, as far as the bytes are a message.\<close>

definition bytes_in :: "u32 \<Rightarrow> (u32 \<times> WireValue) list \<Rightarrow> u8 list list" where
  "bytes_in n fs = List.map_filter (\<lambda>(f, w). case w of Bytes b \<Rightarrow> if f = n then Some b else None | _ \<Rightarrow> None) fs"

definition byte_fields :: "u32 \<Rightarrow> u8 list \<Rightarrow> u8 list list" where
  "byte_fields n xs = (case wire_fields xs of Ok fs \<Rightarrow> bytes_in n fs | Err _ \<Rightarrow> [])"

definition carried_request_id :: "u8 list \<Rightarrow> u64" where
  "carried_request_id frame = (case visit_fields request_id_visitor frame 0 of Ok r \<Rightarrow> r | Err _ \<Rightarrow> 0)"

definition payload_size :: "u8 list \<Rightarrow> nat" where
  "payload_size received = sum_list (map (\<lambda>can_frame. sum_list (map length (byte_fields 3 can_frame))) (byte_fields 1 received))"

lemma bytes_in_simps [simp]:
  "bytes_in n [] = []"
  "bytes_in n ((f, Bytes b) # fs) = (if f = n then b # bytes_in n fs else bytes_in n fs)"
  "bytes_in n ((f, Varint v) # fs) = bytes_in n fs" "bytes_in n ((f, Fixed) # fs) = bytes_in n fs"
  by (simp_all add: bytes_in_def List.map_filter_simps)

lemma visitor_simps:
  "read_data_visitor ng rq f (Bytes d) u = (if f = 1 \<and> (length d > ng \<or> (case rq of None \<Rightarrow> False | Some m \<Rightarrow> length d > m))
     then Err (frame_too_large ''serial read response exceeds the negotiated or requested byte limit'') else Ok ())"
  "read_data_visitor ng rq f (Varint x) u = Ok ()" "read_data_visitor ng rq f Fixed u = Ok ()"
  "serial_response_visitor ng rq f (Bytes d) u = (if f = 25 then visit_fields (read_data_visitor ng rq) d () else Ok ())"
  "serial_response_visitor ng rq f (Varint x) u = Ok ()" "serial_response_visitor ng rq f Fixed u = Ok ()"
  "can_data_visitor f (Bytes d) p = (if f = 3 then ok_or (invalid_wire ''CAN receive response payload overflows usize'')
     (usize_checked_add p (length d)) else Ok p)"
  "can_data_visitor f (Varint x) p = Ok p" "can_data_visitor f Fixed p = Ok p"
  "received_visitor f (Bytes d) (p, t) =
     (if f = 1 then and_then (visit_fields can_data_visitor d p) (\<lambda>p. Ok (p, t)) else if f = 2 then Ok (p, True) else Ok (p, t))"
  "received_visitor f (Varint x) (p, t) = Ok (p, t)" "received_visitor f Fixed (p, t) = Ok (p, t)"
  "receive_visitor f (Bytes d) (c, p, t) =
     (if f = 1 then and_then (ok_or (invalid_wire ''CAN receive response frame count overflows usize'') (usize_checked_add c 1))
        (\<lambda>c. and_then (visit_fields received_visitor d (p, t)) (\<lambda>inner. Ok (c, inner))) else Ok (c, p, t))"
  "receive_visitor f (Varint x) (c, p, t) = Ok (c, p, t)" "receive_visitor f Fixed (c, p, t) = Ok (c, p, t)"
  "can_response_visitor rc f (Bytes d) u = (if f = 57 then and_then (visit_fields receive_visitor d (0, 0, False)) (check_can_tally rc) else Ok ())"
  "can_response_visitor rc f (Varint x) u = Ok ()" "can_response_visitor rc f Fixed u = Ok ()"
  by (simp_all add: read_data_visitor_def serial_response_visitor_def can_data_visitor_def received_visitor_def
      receive_visitor_def can_response_visitor_def)

lemma visit_bytes_all:
  assumes v: "\<And>f b s. v f (Bytes b) s = (if f = n then g b else Ok ())" "\<And>f x s. v f (Varint x) s = Ok ()"
      "\<And>f s. v f Fixed s = Ok ()"
    and "visit_fields v xs () = Ok ()" "b \<in> set (byte_fields n xs)"
  shows "g b = Ok ()"
proof -
  have "feed v fs () = Ok () \<Longrightarrow> b \<in> set (bytes_in n fs) \<Longrightarrow> g b = Ok ()" for fs
  proof (induction fs)
    case (Cons fw fs)
    then show ?case by (cases fw; cases "snd fw") (auto simp: v split: if_splits)
  qed simp
  with assms(4,5) show ?thesis by (auto simp: visit_fields_feed byte_fields_def)
qed

lemma byte_fields_of: "wire_fields xs = Ok fs \<Longrightarrow> byte_fields n xs = bytes_in n fs"
  by (simp add: byte_fields_def)

lemma can_data_tally:
  assumes "visit_fields can_data_visitor xs p = Ok p'"
  shows "p' = p + sum_list (map length (byte_fields 3 xs))"
proof -
  have "feed can_data_visitor fs p = Ok p' \<Longrightarrow> p' = p + sum_list (map length (bytes_in 3 fs))" for fs p
  proof (induction fs arbitrary: p)
    case (Cons fw fs)
    show ?case using Cons.prems
      by (cases fw; cases "snd fw") (auto simp: visitor_simps dest!: Cons.IH split: if_splits)
  qed simp
  with assms show ?thesis by (auto simp: visit_fields_feed byte_fields_of)
qed

lemma received_tally:
  assumes "visit_fields received_visitor xs (p, t) = Ok (p', t')"
  shows "p' = p + payload_size xs \<and> (t' \<longleftrightarrow> t \<or> byte_fields 2 xs \<noteq> [])"
proof -
  have f: "feed received_visitor fs (p, t) = Ok (p', t') \<Longrightarrow>
      p' = p + sum_list (map (\<lambda>b. sum_list (map length (byte_fields 3 b))) (bytes_in 1 fs))
      \<and> (t' \<longleftrightarrow> t \<or> bytes_in 2 fs \<noteq> [])" for fs p t
  proof (induction fs arbitrary: p t)
    case (Cons fw fs)
    show ?case using Cons.prems
      by (cases fw; cases "snd fw") (auto simp: visitor_simps dest!: can_data_tally Cons.IH split: if_splits)
  qed simp
  obtain fs where fs: "wire_fields xs = Ok fs" "feed received_visitor fs (p, t) = Ok (p', t')"
    using assms by (auto simp: visit_fields_feed)
  show ?thesis using f [OF fs(2)] by (simp add: byte_fields_of [OF fs(1)] payload_size_def)
qed

lemma receive_tally:
  assumes "visit_fields receive_visitor xs (c, p, t) = Ok (c', p', t')"
  shows "c' = c + length (byte_fields 1 xs) \<and> p' = p + sum_list (map payload_size (byte_fields 1 xs))
    \<and> (t' \<longleftrightarrow> t \<or> list_ex (\<lambda>r. byte_fields 2 r \<noteq> []) (byte_fields 1 xs))"
proof -
  have f: "feed receive_visitor fs (c, p, t) = Ok (c', p', t') \<Longrightarrow>
      c' = c + length (bytes_in 1 fs) \<and> p' = p + sum_list (map payload_size (bytes_in 1 fs))
      \<and> (t' \<longleftrightarrow> t \<or> list_ex (\<lambda>r. byte_fields 2 r \<noteq> []) (bytes_in 1 fs))" for fs c p t
  proof (induction fs arbitrary: c p t)
    case (Cons fw fs)
    show ?case using Cons.prems
      by (cases fw; cases "snd fw") (auto simp: visitor_simps dest!: received_tally Cons.IH split: if_splits)
  qed simp
  obtain fs where fs: "wire_fields xs = Ok fs" "feed receive_visitor fs (c, p, t) = Ok (c', p', t')"
    using assms by (auto simp: visit_fields_feed)
  show ?thesis using f [OF fs(2)] by (simp add: byte_fields_of [OF fs(1)])
qed

lemma preflight_parts:
  assumes "preflight_inbound negotiated lookup frame = Ok ()"
  shows "\<exists>rr rc. visit_fields (serial_response_visitor negotiated rr) frame () = Ok ()
    \<and> visit_fields (can_response_visitor rc) frame () = Ok ()
    \<and> (\<forall>m. lookup (carried_request_id frame) = Some (XSerialRead m) \<longrightarrow> rr = Some m)
    \<and> (\<forall>f b p. lookup (carried_request_id frame) = Some (XCanReceive f b p) \<longrightarrow> rc = Some (f, b, p))"
proof -
  obtain rid where r: "visit_fields request_id_visitor frame 0 = Ok rid"
    using assms by (auto simp: preflight_inbound_def)
  then have rid: "carried_request_id frame = rid" by (simp add: carried_request_id_def)
  show ?thesis
    using assms unfolding rid by (fastforce simp: preflight_inbound_def r Let_def)
qed

text \<open>
  C25. Preflight: when the client accepts an inbound frame for decoding, every serial read response in
  it carries at most the negotiated and the requested number of bytes, and every CAN receive response
  at most the requested number of frames and payload bytes, with timestamps only when the session
  profile has them.
\<close>

theorem preflight_bounds_responses:
  assumes "preflight_inbound negotiated lookup frame = Ok ()"
  shows "(\<forall>response\<in>set (byte_fields 25 frame). \<forall>data\<in>set (byte_fields 1 response).
      length data \<le> negotiated
      \<and> (\<forall>limit. lookup (carried_request_id frame) = Some (XSerialRead limit) \<longrightarrow> length data \<le> limit))
    \<and> (\<forall>response\<in>set (byte_fields 57 frame). \<forall>max_frames max_read profile.
      lookup (carried_request_id frame) = Some (XCanReceive max_frames max_read profile) \<longrightarrow>
        length (byte_fields 1 response) \<le> max_frames
        \<and> sum_list (map payload_size (byte_fields 1 response)) \<le> max_read
        \<and> (list_ex (\<lambda>received. byte_fields 2 received \<noteq> []) (byte_fields 1 response) \<longrightarrow> cs_timestamps profile))"
proof -
  obtain rr rc where s: "visit_fields (serial_response_visitor negotiated rr) frame () = Ok ()"
    and c: "visit_fields (can_response_visitor rc) frame () = Ok ()"
    and rr: "\<And>m. lookup (carried_request_id frame) = Some (XSerialRead m) \<Longrightarrow> rr = Some m"
    and rc: "\<And>f b p. lookup (carried_request_id frame) = Some (XCanReceive f b p) \<Longrightarrow> rc = Some (f, b, p)"
    using preflight_parts [OF assms] by blast
  have "visit_fields (read_data_visitor negotiated rr) response () = Ok ()"
    if "response \<in> set (byte_fields 25 frame)" for response
    by (rule visit_bytes_all [OF _ _ _ s that]) (simp_all add: visitor_simps)
  moreover have "(if length d > negotiated \<or> (case rr of None \<Rightarrow> False | Some m \<Rightarrow> length d > m)
      then Err (frame_too_large ''serial read response exceeds the negotiated or requested byte limit'') else Ok ()) = Ok ()"
    if "visit_fields (read_data_visitor negotiated rr) response () = Ok ()" "d \<in> set (byte_fields 1 response)" for response d
    by (rule visit_bytes_all [OF _ _ _ that]) (simp_all add: visitor_simps)
  ultimately have serial: "length d \<le> negotiated \<and> (case rr of None \<Rightarrow> True | Some m \<Rightarrow> length d \<le> m)"
    if "response \<in> set (byte_fields 25 frame)" "d \<in> set (byte_fields 1 response)" for response d
    using that by (fastforce split: if_splits option.splits)
  have can: "and_then (visit_fields receive_visitor response (0, 0, False)) (check_can_tally rc) = Ok ()"
    if "response \<in> set (byte_fields 57 frame)" for response
    by (rule visit_bytes_all [OF _ _ _ c that]) (simp_all add: visitor_simps)
  show ?thesis
  proof (intro conjI ballI allI impI)
    fix response max_frames max_read profile
    assume "response \<in> set (byte_fields 57 frame)" "lookup (carried_request_id frame) = Some (XCanReceive max_frames max_read profile)"
    then obtain cnt pay ts where t: "visit_fields receive_visitor response (0, 0, False) = Ok (cnt, pay, ts)"
        "cnt \<le> max_frames" "pay \<le> max_read" "ts \<longrightarrow> cs_timestamps profile"
      using can [of response] rc by (auto simp: check_can_tally_def split: if_splits prod.splits)
    show "length (byte_fields 1 response) \<le> max_frames" "sum_list (map payload_size (byte_fields 1 response)) \<le> max_read"
      using receive_tally [OF t(1)] t(2,3) by simp_all
    show "cs_timestamps profile" if "list_ex (\<lambda>received. byte_fields 2 received \<noteq> []) (byte_fields 1 response)"
      using receive_tally [OF t(1)] t(4) that by simp
  qed (use serial rr in \<open>fastforce+\<close>)
qed

definition sample_response :: "u8 list" where
  "sample_response = encode_field (BytesField 1 [1, 2, 3])"

definition sample_frame :: "u8 list" where
  "sample_frame = concat (map encode_field [VarintField 1 7, BytesField 25 sample_response])"

lemma sample_frame_fields:
  "wire_fields sample_frame = Ok [(1, Varint 7), (25, Bytes (sample_response))]"
  "wire_fields (sample_response) = Ok [(1, Bytes [1, 2, 3])]"
proof -
  have "length (sample_response) < 2 ^ 64"
    by (simp add: sample_response_def key_bytes_def encode_varint.simps)
  then show "wire_fields sample_frame = Ok [(1, Varint 7), (25, Bytes (sample_response))]"
    unfolding sample_frame_def by (subst wire_fields_encoded) (simp_all add: List.map_filter_simps)
  show "wire_fields (sample_response) = Ok [(1, Bytes [1, 2, 3])]"
    using wire_fields_encoded [of "[BytesField 1 [1, 2, 3]]"] by (simp add: sample_response_def List.map_filter_simps)
qed

lemma preflight_bounds_responses_witness:
  "let lookup = (\<lambda>r. if r = 7 then Some (XSerialRead 3) else None) in
     preflight_inbound 4096 lookup sample_frame = Ok ()
     \<and> byte_fields 25 sample_frame = [sample_response]
     \<and> (\<forall>data\<in>set (byte_fields 1 (sample_response)). length data \<le> 3)"
proof -
  let ?lookup = "\<lambda>r :: u64. if r = 7 then Some (XSerialRead 3) else None"
  let ?inner = "sample_response"
  have id: "visit_fields request_id_visitor sample_frame 0 = Ok 7"
    by (simp add: visit_fields_feed sample_frame_fields) (simp add: request_id_visitor_def)
  have d: "visit_fields (read_data_visitor 4096 (Some 3)) ?inner () = Ok ()"
    by (simp add: visit_fields_feed sample_frame_fields visitor_simps)
  have s: "visit_fields (serial_response_visitor 4096 (Some 3)) sample_frame () = Ok ()"
    by (simp add: visit_fields_feed [of "serial_response_visitor 4096 (Some 3)"] sample_frame_fields visitor_simps d
       )
  have c: "visit_fields (can_response_visitor None) sample_frame () = Ok ()"
    by (simp add: visit_fields_feed [of "can_response_visitor None"] sample_frame_fields visitor_simps)
  have p: "preflight_inbound 4096 ?lookup sample_frame = Ok ()"
    by (simp add: preflight_inbound_def id s c)
  moreover have b: "byte_fields 25 sample_frame = [?inner]"
    by (simp add: byte_fields_def sample_frame_fields)
  moreover have "carried_request_id sample_frame = 7" by (simp add: carried_request_id_def id)
  ultimately show ?thesis
    using preflight_bounds_responses [OF p] by (simp)
qed

end
