(* ===== verification/Handshake_Props.thy ===== *)
theory Handshake_Props
  imports Broker_Base Client_Session Client_Scan_Laws Wire_Can_Laws
begin

text \<open>
  Client and broker across the handshake: the size functions of the broker against the protobuf
  encoding, the limits both sides hold afterwards, and what these limits guarantee for serial reads.
\<close>

section \<open>Sizes\<close>

lemma prost_varint_len_encode: "prost_varint_len v = length (encode_varint (unat v))"
proof (induction v rule: prost_varint_len.induct)
  case (1 v)
  have d: "unat (drop_bit 7 v) = unat v div 128" by (simp add: drop_bit_eq_div unat_div)
  show ?case
  proof (cases "v \<ge> 0x80")
    case True
    then have "\<not> unat v < 128" by (simp add: word_le_nat_alt)
    with True 1 show ?thesis
      by (simp add: prost_varint_len.simps [of v] encode_varint.simps [of "unat v"] d)
  next
    case False
    then have "unat v < 128" by (simp add: word_le_nat_alt not_le)
    with False show ?thesis by (simp add: prost_varint_len.simps [of v] encode_varint.simps [of "unat v"])
  qed
qed

lemma length_encode_varint_mono: "m \<le> n \<Longrightarrow> length (encode_varint m) \<le> length (encode_varint n)"
proof (induction m arbitrary: n rule: encode_varint.induct)
  case (1 m)
  have "length (encode_varint (m div 128)) \<le> length (encode_varint (n div 128))" if "\<not> m < 128"
    using "1.IH" [OF that] "1.prems" by (simp add: div_le_mono)
  with "1.prems" show ?case by (simp add: encode_varint.simps [of m] encode_varint.simps [of n])
qed

lemma length_encode_u64: "length (encode_varint (unat (v :: u64))) \<le> 10"
  using length_encode_varint [of "unat v" 9] unat_less_exp [of v] by simp

lemma varint_len_of_nat:
  "n < 2 ^ 64 \<Longrightarrow> prost_varint_len (of_nat n) = length (encode_varint n)"
  by (simp add: prost_varint_len_encode unat_of_nat_u64)

lemma key_value: "unat (push_bit 3 (ucast (n :: u32)) OR 2 :: u64) = 8 * unat n + 2"
proof -
  have "bit (2 :: u64) k \<longleftrightarrow> k = 1" for k
    using bit_push_bit_iff [of 1 "1 :: u64" k] by (auto simp: bit_1_iff)
  then have "push_bit 3 (ucast n :: u64) OR 2 = push_bit 3 (ucast n) + 2"
    by (intro disjunctive_add [symmetric]) (auto simp: bit_push_bit_iff)
  moreover have "push_bit 3 (ucast n :: u64) = of_nat (8 * unat n)"
    by (simp add: push_bit_eq_mult)
  ultimately have "push_bit 3 (ucast n :: u64) OR 2 = of_nat (8 * unat n + 2)" by simp
  moreover have "8 * unat n + 2 < 2 ^ 64" using unat_less_exp [of n] by simp
  ultimately show ?thesis by (simp only: unat_of_nat_u64)
qed

lemma length_delimited_field_len_encode:
  assumes "length b < 2 ^ 64"
  shows "length_delimited_field_len n (length b) = length (encode_field (BytesField (unat n) b))"
  using assms by (simp add: length_delimited_field_len_def prost_varint_len_encode key_value varint_len_of_nat
      key_bytes_def unat_of_nat_u64)

section \<open>Agreement\<close>

text \<open>The reply as the client receives it: its encoded length and the envelope itself.\<close>

definition deliver :: "(v1_Envelope \<Rightarrow> usize) \<Rightarrow> v1_Envelope \<Rightarrow> (usize \<times> (v1_Envelope, string) result) hal_result" where
  "deliver encoded_len reply = Ok (encoded_len reply, Ok reply)"

definition offered_request :: "ConnectionOptions \<Rightarrow> v1_HandshakeRequest" where
  "offered_request options = handshake_request options (requested_limits options)"

definition offered_response :: "ConnectionOptions \<Rightarrow> v1_HandshakeResponse" where
  "offered_response options = handshake_response PROTOCOL_MINOR_MAXIMUM (offered_request options)"

lemma validate_options_Ok:
  "validate_options options = Ok () \<longleftrightarrow>
     0 < co_max_frame_bytes options \<and> co_max_frame_bytes options \<le> MAX_FRAME_BYTES
     \<and> 0 < co_max_read_bytes options \<and> co_max_read_bytes options < 2 ^ 32
     \<and> 0 < co_max_write_bytes options \<and> co_max_write_bytes options < 2 ^ 32"
  by (auto simp: validate_options_def MAX_FRAME_BYTES_def)

lemma offered_limits:
  assumes "validate_options options = Ok ()"
  shows "unat (wq_max_frame_bytes (offered_request options)) = co_max_frame_bytes options"
    "unat (wq_max_read_bytes (offered_request options)) = co_max_read_bytes options"
    "unat (wq_max_write_bytes (offered_request options)) = co_max_write_bytes options"
  using assms by (auto simp: validate_options_Ok offered_request_def handshake_request_def requested_limits_def
      MAX_FRAME_BYTES_def unat_of_nat)

lemma serial_offered: "SERIAL_CAPABILITY \<in> set (handshake_capabilities minor)"
  by (simp add: handshake_capabilities_def broker_capabilities_def)

lemma negotiate_settings_offered:
  assumes "validate_options options = Ok ()"
  shows "negotiate_settings encoded_len (offered_request options\<lparr>wq_startup_token := t\<rparr>) =
    (if read_response_encoded_len (co_max_read_bytes options) > co_max_frame_bytes options
        \<or> write_request_encoded_len (co_max_write_bytes options) > co_max_frame_bytes options
     then Err (invalid_message ''negotiated frame/read/write byte limits are invalid'')
     else if encoded_len \<lparr>we_request_id = 2 ^ 64 - 1, we_payload = Some (PHandshakeResponse (offered_response options))\<rparr>
         > co_max_frame_bytes options
     then Err (invalid_message ''negotiated frame limit cannot contain the handshake response'')
     else Ok (offered_response options,
       \<lparr>nl_protocol_minor = PROTOCOL_MINOR_MAXIMUM, nl_max_frame_bytes = co_max_frame_bytes options,
        nl_max_read_bytes = co_max_read_bytes options, nl_max_write_bytes = co_max_write_bytes options\<rparr>))"
proof -
  let ?r = "offered_request options\<lparr>wq_startup_token := t\<rparr>"
  have range: "handshake_minor_range ?r = Ok (PROTOCOL_MINOR_MINIMUM, PROTOCOL_MINOR_MAXIMUM)"
    by (simp add: handshake_minor_range_def offered_request_def handshake_request_def PROTOCOL_MINOR_def
        PROTOCOL_MINOR_MINIMUM_def PROTOCOL_MINOR_MAXIMUM_def)
  have minor: "negotiate_protocol_minor (wq_protocol_major (offered_request options)) PROTOCOL_MINOR_MINIMUM PROTOCOL_MINOR_MAXIMUM
      PROTOCOL_MAJOR PROTOCOL_MINOR_MINIMUM PROTOCOL_MINOR_MAXIMUM = Ok PROTOCOL_MINOR_MAXIMUM"
    by (simp add: negotiate_protocol_minor_def offered_request_def handshake_request_def Let_def
        PROTOCOL_MINOR_MINIMUM_def PROTOCOL_MINOR_MAXIMUM_def)
  have required: "\<not> (\<exists>c\<in>set (wq_required_capabilities (offered_request options)). c \<notin> set (handshake_capabilities m))" for m
    by (simp add: offered_request_def handshake_request_def serial_offered)
  have response: "handshake_response m ?r = handshake_response m (offered_request options)" for m
    by (simp add: handshake_response_def)
  show ?thesis
    using assms [unfolded validate_options_Ok]
    by (simp add: negotiate_settings_def range minor required response Let_def offered_limits [OF assms]
        check_limits_def offered_response_def [symmetric])
qed

lemma client_accepts_offer:
  assumes "validate_options options = Ok ()"
  shows "validate_handshake_response (offered_response options) (requested_limits options) = Ok ()"
proof -
  have nz: "wq_max_frame_bytes (offered_request options) \<noteq> 0" "wq_max_read_bytes (offered_request options) \<noteq> 0"
      "wq_max_write_bytes (offered_request options) \<noteq> 0"
    using offered_limits [OF assms] assms [unfolded validate_options_Ok] by auto
  show ?thesis
    by (simp add: validate_handshake_response_def offered_response_def handshake_response_def nz serial_offered
        handshake_response_minor_range_def offered_limits [OF assms] requested_limits_def
        PROTOCOL_MINOR_MINIMUM_def PROTOCOL_MINOR_MAXIMUM_def)
qed

lemma all_capabilities_offered:
  "negotiated_limits (offered_response options) =
     \<lparr>lm_protocol_minor = PROTOCOL_MINOR_MAXIMUM, lm_frame = unat (wq_max_frame_bytes (offered_request options)),
      lm_read = unat (wq_max_read_bytes (offered_request options)),
      lm_write = unat (wq_max_write_bytes (offered_request options)),
      lm_can_classic = True, lm_can_fd = True, lm_can_configure = True, lm_can_error_frames = True,
      lm_can_rx_timestamp = True, lm_usb_control = True, lm_usb_bulk = True, lm_usb_interrupt = True,
      lm_gpio_lines = True, lm_gpio_edges = True, lm_camera_capture = True, lm_camera_frames_shm = True,
      lm_camera_controls = True\<rparr>"
  by (simp add: negotiated_limits_def offered_response_def handshake_response_def handshake_capabilities_def
      broker_capabilities_def usb_gpio_broker_capabilities_def camera_broker_capabilities_def Let_def
      CAN_WIRE_MINOR_def USB_GPIO_WIRE_MINOR_def CAMERA_WIRE_MINOR_def PROTOCOL_MINOR_MAXIMUM_def)

text \<open>One connection attempt: the client's handshake against the broker's first reply.\<close>

definition connect_attempt :: "(v1_Envelope \<Rightarrow> usize) \<Rightarrow> StartupToken \<Rightarrow> ConnectionOptions \<Rightarrow> Limits hal_result" where
  "connect_attempt encoded_len token options =
     perform_handshake encoded_len (\<lambda>offer. deliver encoded_len (fst (handshake_reply encoded_len token offer)))
       options (requested_limits options)"

definition offer_fits :: "(v1_Envelope \<Rightarrow> usize) \<Rightarrow> ConnectionOptions \<Rightarrow> bool" where
  "offer_fits encoded_len options \<longleftrightarrow>
     encoded_len \<lparr>we_request_id = 1, we_payload = Some (PHandshakeRequest (offered_request options))\<rparr> \<le> co_max_frame_bytes options"

definition limits_fit :: "(v1_Envelope \<Rightarrow> usize) \<Rightarrow> ConnectionOptions \<Rightarrow> bool" where
  "limits_fit encoded_len options \<longleftrightarrow>
     read_response_encoded_len (co_max_read_bytes options) \<le> co_max_frame_bytes options
     \<and> write_request_encoded_len (co_max_write_bytes options) \<le> co_max_frame_bytes options
     \<and> encoded_len \<lparr>we_request_id = 2 ^ 64 - 1, we_payload = Some (PHandshakeResponse (offered_response options))\<rparr>
         \<le> co_max_frame_bytes options"

lemma broker_first_reply:
  assumes "validate_options options = Ok ()"
  shows "handshake_reply encoded_len token \<lparr>we_request_id = 1, we_payload = Some (PHandshakeRequest (offered_request options))\<rparr> =
    (if co_startup_token options \<noteq> token
     then (error_envelope 1 (protocol_error ''runtime.protocol.authentication_failed'' ''runtime.protocol.handshake''
       Conflict False ''startup token did not authenticate the connection''), None)
     else case negotiate_settings encoded_len (offered_request options\<lparr>wq_startup_token := []\<rparr>) of
         Ok (response, negotiated) \<Rightarrow> (\<lparr>we_request_id = 1, we_payload = Some (PHandshakeResponse response)\<rparr>, Some negotiated)
       | Err error \<Rightarrow> (error_envelope 1 error, None))"
  by (auto simp: handshake_reply_def validate_handshake_def authenticates_def offered_request_def handshake_request_def
      split: result.split)

lemma connect_attempt_unfold:
  assumes "validate_options options = Ok ()"
  shows "connect_attempt encoded_len token options =
    (if offer_fits encoded_len options
     then let reply = fst (handshake_reply encoded_len token
         \<lparr>we_request_id = 1, we_payload = Some (PHandshakeRequest (offered_request options))\<rparr>)
       in read_handshake_reply (requested_limits options) (encoded_len reply) (Ok reply)
     else Err (frame_too_large ''handshake envelope exceeds the offered frame limit''))"
  using assms by (auto simp: connect_attempt_def perform_handshake_def offer_fits_def deliver_def Let_def
      offered_request_def requested_limits_def validate_options_Ok)

text \<open>
  The capabilities of the devices by their names on the wire, and what a client believes of each of
  them after the handshake.
\<close>

definition device_capabilities :: "string list" where
  "device_capabilities =
     [''can.classic/v1'', ''can.fd/v1'', ''can.configure/v1'', ''can.error-frames/v1'', ''can.rx-timestamp/v1'',
      ''usb.control/v1'', ''usb.bulk/v1'', ''usb.interrupt/v1'', ''gpio.lines/v1'', ''gpio.edges/v1'',
      ''camera.capture/v1'', ''camera.frames.shm/v1'', ''camera.controls/v1'']"

definition client_view :: "Limits \<Rightarrow> (string \<times> bool) list" where
  "client_view limits = zip device_capabilities
     [lm_can_classic limits, lm_can_fd limits, lm_can_configure limits, lm_can_error_frames limits, lm_can_rx_timestamp limits,
      lm_usb_control limits, lm_usb_bulk limits, lm_usb_interrupt limits, lm_gpio_lines limits, lm_gpio_edges limits,
      lm_camera_capture limits, lm_camera_frames_shm limits, lm_camera_controls limits]"

lemma client_view_negotiated:
  "client_view (negotiated_limits response) =
     map (\<lambda>capability. (capability, capability \<in> set (wr_capabilities response))) device_capabilities"
  by (simp add: client_view_def negotiated_limits_def device_capabilities_def Let_def capability_names)

lemma capabilities_offered:
  "set (wr_capabilities (offered_response options)) = insert ''serial.bytes/v1'' (set device_capabilities)"
  by (simp add: offered_response_def handshake_response_def handshake_capabilities_def
      broker_capabilities_def usb_gpio_broker_capabilities_def camera_broker_capabilities_def
      device_capabilities_def capability_names SERIAL_CAPABILITY_def
      CAN_WIRE_MINOR_def USB_GPIO_WIRE_MINOR_def CAMERA_WIRE_MINOR_def PROTOCOL_MINOR_MAXIMUM_def insert_commute)

lemma client_view_offered:
  "client_view (negotiated_limits (offered_response options)) = map (\<lambda>capability. (capability, True)) device_capabilities"
  unfolding client_view_negotiated capabilities_offered by simp

lemma client_view_accepted:
  "read_handshake_reply requested frame_len
     (Ok \<lparr>we_request_id = 1, we_payload = Some (PHandshakeResponse response)\<rparr>) = Ok limits \<Longrightarrow>
   client_view limits = map (\<lambda>capability. (capability, capability \<in> set (wr_capabilities response))) device_capabilities"
  by (auto simp: read_handshake_reply_def client_view_negotiated split: if_splits)

lemma error_reply_refused:
  "read_handshake_reply requested n (Ok (error_envelope 1 e)) \<noteq> Ok limits"
  "\<not> is_ok (read_handshake_reply requested n (Ok (error_envelope 1 e)))"
proof -
  show "read_handshake_reply requested n (Ok (error_envelope 1 e)) \<noteq> Ok limits" for limits
    by (cases "error_from_proto (error_to_proto e)") (simp_all add: read_handshake_reply_def error_envelope_def)
  then show "\<not> is_ok (read_handshake_reply requested n (Ok (error_envelope 1 e)))"
    by (cases "read_handshake_reply requested n (Ok (error_envelope 1 e))") auto
qed

text \<open>
  C6. Agreement of the handshake: a client whose options are valid connects exactly when it presents
  the broker's token and its byte limits can hold the messages they promise; then both sides hold
  the same protocol minor and the same frame, read and write limits, and the broker's response lists
  the serial capability and every device capability, which the client takes as available, each under
  its own name. From any response it accepts, the client takes exactly the device capabilities that
  are listed there. A client with another token gets the broker's authentication error. The encoded
  length of an envelope may be any function that is largest for the largest request number.
\<close>

theorem handshake_agreement:
  assumes "validate_options options = Ok ()"
    and "\<And>number payload. encoded_len \<lparr>we_request_id = number, we_payload = payload\<rparr>
           \<le> encoded_len \<lparr>we_request_id = 2 ^ 64 - 1, we_payload = payload\<rparr>"
  defines "offer \<equiv> \<lparr>we_request_id = 1, we_payload = Some (PHandshakeRequest (offered_request options))\<rparr>"
    and "rejection \<equiv> protocol_error ''runtime.protocol.authentication_failed'' ''runtime.protocol.handshake''
           Conflict False ''startup token did not authenticate the connection''"
  shows "(is_ok (connect_attempt encoded_len token options) \<longleftrightarrow>
      offer_fits encoded_len options \<and> co_startup_token options = token \<and> limits_fit encoded_len options)
    \<and> (\<forall>limits. connect_attempt encoded_len token options = Ok limits \<longrightarrow>
        (\<exists>response negotiated. handshake_reply encoded_len token offer
            = (\<lparr>we_request_id = 1, we_payload = Some (PHandshakeResponse response)\<rparr>, Some negotiated)
          \<and> lm_protocol_minor limits = nl_protocol_minor negotiated \<and> nl_protocol_minor negotiated = PROTOCOL_MINOR_MAXIMUM
          \<and> lm_frame limits = nl_max_frame_bytes negotiated \<and> nl_max_frame_bytes negotiated = co_max_frame_bytes options
          \<and> lm_read limits = nl_max_read_bytes negotiated \<and> nl_max_read_bytes negotiated = co_max_read_bytes options
          \<and> lm_write limits = nl_max_write_bytes negotiated \<and> nl_max_write_bytes negotiated = co_max_write_bytes options
          \<and> client_view limits = map (\<lambda>capability. (capability, True)) device_capabilities
          \<and> set (wr_capabilities response) = insert ''serial.bytes/v1'' (set device_capabilities)))
    \<and> (\<forall>response frame_len limits. read_handshake_reply (requested_limits options) frame_len
          (Ok \<lparr>we_request_id = 1, we_payload = Some (PHandshakeResponse response)\<rparr>) = Ok limits \<longrightarrow>
        client_view limits = map (\<lambda>capability. (capability, capability \<in> set (wr_capabilities response))) device_capabilities)
    \<and> (offer_fits encoded_len options \<and> co_startup_token options \<noteq> token
        \<and> encoded_len (error_envelope 1 rejection) \<le> co_max_frame_bytes options \<longrightarrow>
       connect_attempt encoded_len token options = Err rejection)"
proof -
  have wf: "hal_error_wf rejection" by (simp add: rejection_def protocol_error_def identifier_eval)
  have frame: "co_max_frame_bytes options \<le> MAX_FRAME_BYTES" using assms(1) by (simp add: validate_options_Ok)
  have rejected: "read_handshake_reply (requested_limits options) (encoded_len (error_envelope 1 rejection))
      (Ok (error_envelope 1 rejection)) = Err rejection"
    if "encoded_len (error_envelope 1 rejection) \<le> co_max_frame_bytes options"
    using that frame by (simp add: read_handshake_reply_def error_envelope_def requested_limits_def error_from_to [OF wf])
  have fits: "encoded_len \<lparr>we_request_id = 1, we_payload = Some (PHandshakeResponse (offered_response options))\<rparr>
      \<le> co_max_frame_bytes options" if "limits_fit encoded_len options"
    using that assms(2) [of 1 "Some (PHandshakeResponse (offered_response options))"] by (simp add: limits_fit_def)
  have accepted: "read_handshake_reply (requested_limits options)
       (encoded_len \<lparr>we_request_id = 1, we_payload = Some (PHandshakeResponse (offered_response options))\<rparr>)
       (Ok \<lparr>we_request_id = 1, we_payload = Some (PHandshakeResponse (offered_response options))\<rparr>)
      = Ok (negotiated_limits (offered_response options))" if "limits_fit encoded_len options"
    using fits [OF that] frame client_accepts_offer [OF assms(1)]
    by (simp add: read_handshake_reply_def requested_limits_def)
  note simps = connect_attempt_unfold [OF assms(1)] broker_first_reply [OF assms(1)]
    negotiate_settings_offered [OF assms(1)] offer_def
  consider "\<not> offer_fits encoded_len options" | "offer_fits encoded_len options" "co_startup_token options \<noteq> token"
    | "offer_fits encoded_len options" "co_startup_token options = token" "\<not> limits_fit encoded_len options"
    | "offer_fits encoded_len options" "co_startup_token options = token" "limits_fit encoded_len options" by blast
  then show ?thesis
  proof cases
    case 1
    then show ?thesis using client_view_accepted by (simp add: simps)
  next
    case 2
    then show ?thesis
      using rejected client_view_accepted by (auto simp: simps Let_def error_reply_refused rejection_def [symmetric])
  next
    case 3
    then show ?thesis using client_view_accepted by (auto simp: simps Let_def error_reply_refused limits_fit_def)
  next
    case 4
    then show ?thesis
      using accepted client_view_accepted
      by (auto simp: simps Let_def limits_fit_def client_view_offered capabilities_offered all_capabilities_offered
          offered_limits [OF assms(1)])
  qed
qed

text \<open>Witness: the default options, with envelopes of 200 bytes.\<close>

definition default_options :: ConnectionOptions where
  "default_options = ConnectionOptions_new ''broker.sock'' (replicate 32 7)"

lemma default_options [simp]:
  "co_startup_token default_options = replicate 32 7" "co_max_frame_bytes default_options = 1048576"
  "co_max_read_bytes default_options = 65536" "co_max_write_bytes default_options = 65536"
  "validate_options default_options = Ok ()"
  by (simp_all add: default_options_def ConnectionOptions_new_def MAX_FRAME_BYTES_def DEFAULT_TRANSFER_BYTES_def
      validate_options_Ok)

lemma default_sizes:
  "read_response_encoded_len 65536 = 65556" "write_request_encoded_len 65536 = 65647"
  by (simp_all add: read_response_encoded_len_def write_request_encoded_len_def envelope_encoded_len_def
      length_delimited_field_len_def RUNTIME_UUID_LEN_def prost_varint_len.simps Let_def word_le_nat_alt)

lemma handshake_agreement_witness:
  "is_ok (connect_attempt (\<lambda>_. 200) (replicate 32 7) default_options)
   \<and> \<not> is_ok (connect_attempt (\<lambda>_. 200) (replicate 32 8) default_options)"
proof -
  have "offer_fits (\<lambda>_. 200) default_options" "limits_fit (\<lambda>_. 200) default_options"
    by (simp_all add: offer_fits_def limits_fit_def default_sizes)
  moreover have "replicate 32 (7 :: u8) \<noteq> replicate 32 8" by simp
  ultimately show ?thesis
    using handshake_agreement [of default_options "\<lambda>_. 200" "replicate 32 7"]
      handshake_agreement [of default_options "\<lambda>_. 200" "replicate 32 8"]
    by simp
qed

section \<open>Serial reads within the limits\<close>

text \<open>
  The protobuf encoding of an envelope with a serial read response: fields with their default value
  are left out, as proto3 prescribes; the payload field is always present.
\<close>

definition serial_read_fields :: "u8 list \<Rightarrow> Field list" where
  "serial_read_fields data = (if data = [] then [] else [BytesField 1 data])"

definition serial_read_envelope :: "u64 \<Rightarrow> u8 list \<Rightarrow> Field list" where
  "serial_read_envelope request_id data =
     (if request_id = 0 then [] else [VarintField 1 request_id])
       @ [BytesField 25 (concat (map encode_field (serial_read_fields data)))]"

definition serial_read_wire :: "u64 \<Rightarrow> u8 list \<Rightarrow> u8 list" where
  "serial_read_wire request_id data = concat (map encode_field (serial_read_envelope request_id data))"

lemma serial_read_wire_size:
  assumes "length data \<le> n" "n < 2 ^ 32"
  shows "length (serial_read_wire request_id data) \<le> read_response_encoded_len n"
proof -
  let ?inner = "concat (map encode_field (serial_read_fields data))"
  let ?bound = "length_delimited_field_len 1 n"
  have v32: "length (encode_varint k) \<le> 5" if "k < 2 ^ 32" for k using length_encode_varint [of k 4] that by simp
  have bound: "?bound = 1 + length (encode_varint n) + n"
    using assms(2) by (simp add: length_delimited_field_len_def prost_varint_len_encode key_value unat_of_nat_u64
        encode_varint.simps [of 10])
  have inner: "length ?inner \<le> ?bound"
    using assms(1) length_encode_varint_mono [OF assms(1)] unfolding bound
    by (simp add: serial_read_fields_def key_bytes_def encode_varint.simps [of 10])
  have "?bound < 2 ^ 64" using v32 [OF assms(2)] assms(2) unfolding bound by simp
  then have l: "prost_varint_len (of_nat ?bound) = length (encode_varint ?bound)" by (rule varint_len_of_nat)
  have k: "length (encode_varint 202) = 2" "length (encode_varint 8) = 1" by (simp_all add: encode_varint.simps)
  have "length (serial_read_wire request_id data) \<le> 1 + 10 + 2 + length (encode_varint (length ?inner)) + length ?inner"
    using length_encode_u64 [of request_id]
    by (simp add: serial_read_wire_def serial_read_envelope_def key_bytes_def k)
  also have "\<dots> \<le> 1 + 10 + 2 + length (encode_varint ?bound) + ?bound"
    using inner length_encode_varint_mono [OF inner] by linarith
  also have "\<dots> = read_response_encoded_len n"
    unfolding read_response_encoded_len_def envelope_encoded_len_def l
    by (simp add: prost_varint_len_encode [of 202] k)
  finally show ?thesis .
qed

lemma negotiated_settings:
  assumes "fst (validate_handshake encoded_len token request) = Ok (response, limits)"
  shows "nl_max_read_bytes limits < 2 ^ 32" "nl_max_read_bytes limits = unat (wr_max_read_bytes response)"
    "read_response_encoded_len (nl_max_read_bytes limits) \<le> nl_max_frame_bytes limits"
    "write_request_encoded_len (nl_max_write_bytes limits) \<le> nl_max_frame_bytes limits"
    "nl_max_frame_bytes limits \<le> MAX_FRAME_BYTES"
    "wq_startup_token request = token"
  using assms unat_less_exp [of "wq_max_read_bytes request"]
  by (auto simp: validate_handshake_def negotiate_settings_def check_limits_def Let_def authenticates_def
      handshake_response_def split: if_splits)

lemma serial_read_wire_scanned:
  assumes "length data < 2 ^ 32" "request_id \<noteq> 0"
  shows "wire_fields (serial_read_wire request_id data) =
      Ok [(1, Varint request_id), (25, Bytes (concat (map encode_field (serial_read_fields data))))]"
    and "wire_fields (concat (map encode_field (serial_read_fields data))) =
      Ok (if data = [] then [] else [(1, Bytes data)])"
proof -
  have "length (encode_varint (length data)) \<le> 5" using length_encode_varint [of "length data" 4] assms(1) by simp
  then have "length (concat (map encode_field (serial_read_fields data))) < 2 ^ 64"
    using assms(1) by (simp add: serial_read_fields_def key_bytes_def encode_varint.simps [of 10])
  then show "wire_fields (serial_read_wire request_id data) =
      Ok [(1, Varint request_id), (25, Bytes (concat (map encode_field (serial_read_fields data))))]"
    unfolding serial_read_wire_def using assms(2)
    by (subst wire_fields_encoded) (simp_all add: serial_read_envelope_def List.map_filter_simps)
  show "wire_fields (concat (map encode_field (serial_read_fields data))) =
      Ok (if data = [] then [] else [(1, Bytes data)])"
    using assms(1) by (subst wire_fields_encoded) (simp_all add: serial_read_fields_def List.map_filter_simps)
qed

text \<open>
  C7. Serial reads after a handshake: whatever data the broker returns for a read of at most the
  negotiated size, the encoded response fits the negotiated frame limit, so the broker's writer sends
  it, and passes the client's preflight when the client asked for at least that many bytes.
\<close>

theorem serial_read_delivery:
  assumes "fst (validate_handshake encoded_len token request) = Ok (response, limits)"
    and "length data \<le> max_bytes" "max_bytes \<le> nl_max_read_bytes limits"
    and "request_id \<noteq> 0" "lookup request_id = Some (XSerialRead max_bytes)"
  shows "length (serial_read_wire request_id data) \<le> nl_max_frame_bytes limits
    \<and> length (serial_read_wire request_id data) \<le> MAX_FRAME_BYTES
    \<and> preflight_inbound (lm_read (negotiated_limits response)) lookup (serial_read_wire request_id data) = Ok ()"
proof -
  note n = negotiated_settings [OF assms(1)]
  have "length (serial_read_wire request_id data) \<le> nl_max_frame_bytes limits"
    using serial_read_wire_size [of data "nl_max_read_bytes limits" request_id] n(1,3) assms(2,3) by linarith
  moreover have read: "lm_read (negotiated_limits response) = nl_max_read_bytes limits"
    by (simp add: negotiated_limits_def n(2) Let_def)
  have "length data < 2 ^ 32" using assms(2,3) n(1) by linarith
  note f = serial_read_wire_scanned [OF this assms(4)]
  have "preflight_inbound (lm_read (negotiated_limits response)) lookup (serial_read_wire request_id data) = Ok ()"
    using assms(2,3,5) unfolding read preflight_inbound_def
    by (simp add: visit_fields_feed f visitor_simps request_id_visitor_def Let_def)
  ultimately show ?thesis using n(5) by simp
qed

text \<open>Witness: the handshake of the default options, and a read of three bytes out of sixteen.\<close>

lemma default_handshake:
  "fst (validate_handshake (\<lambda>_. 200) (replicate 32 7) (offered_request default_options))
    = Ok (offered_response default_options,
        \<lparr>nl_protocol_minor = 3, nl_max_frame_bytes = 1048576, nl_max_read_bytes = 65536, nl_max_write_bytes = 65536\<rparr>)"
proof -
  have "wq_startup_token (offered_request default_options) = replicate 32 7"
    by (simp add: offered_request_def handshake_request_def)
  then show ?thesis
    using negotiate_settings_offered [of default_options "\<lambda>_. 200" "[]"]
    by (simp add: validate_handshake_def authenticates_def default_sizes PROTOCOL_MINOR_MAXIMUM_def)
qed

lemma serial_read_delivery_witness:
  "preflight_inbound (lm_read (negotiated_limits (offered_response default_options)))
     (\<lambda>r. if r = 9 then Some (XSerialRead 16) else None) (serial_read_wire 9 [1, 2, 3]) = Ok ()
   \<and> length (serial_read_wire 9 [1, 2, 3]) \<le> 1048576"
  using serial_read_delivery [OF default_handshake, of "[1, 2, 3]" 16 9 "\<lambda>r. if r = 9 then Some (XSerialRead 16) else None"]
  by simp

end
