(* ===== verification/Client_Validate.thy ===== *)
theory Client_Validate
  imports Client_Session
begin

text \<open>
  The client's check of a response before it is handed to the caller
  (\<open>validate_response\<close> of \<open>src/crates/robot-hal-client/src/connection.rs\<close>): the payload must be of the
  kind the request expects, and, for all but the serial operations, it must decode.
\<close>

section \<open>CAN receive responses\<close>

definition invalid_profile_message :: "CanSessionProfile \<Rightarrow> string \<Rightarrow> HalError" where
  "invalid_profile_message profile message =
     attach_profile (invalid_message
       (message @ '' for correlated session '' @ SessionId_as_str (cs_session_id profile))) profile"

fun frame_allowed :: "CanSessionProfile \<Rightarrow> CanFrame \<Rightarrow> bool" where
  "frame_allowed profile (ClassicData _ _) = cs_classic_frames profile"
| "frame_allowed profile (ClassicRemote _ _) = cs_classic_frames profile"
| "frame_allowed profile (FdData _ _ _ _) = (cs_fd_frames profile \<and> cs_mode profile = Fd)"
| "frame_allowed profile (ErrorFrame _ _) = cs_error_frames profile"

fun validate_received_profile :: "ReceivedCanFrame list \<Rightarrow> CanSessionProfile \<Rightarrow> unit hal_result" where
  "validate_received_profile [] profile = Ok ()"
| "validate_received_profile (received # frames) profile =
     (if \<not> frame_allowed profile (rf_frame received) then
        Err (invalid_profile_message profile
          ''CAN receive response contains a frame outside the active session profile'')
      else if rf_timestamp received \<noteq> None \<and> \<not> cs_timestamps profile then
        Err (invalid_profile_message profile ''CAN receive response contains an unadvertised timestamp'')
      else validate_received_profile frames profile)"

lemma validate_received_profile_Ok [simp]:
  "validate_received_profile frames profile = Ok () \<longleftrightarrow>
     (\<forall>received\<in>set frames. frame_allowed profile (rf_frame received) \<and> (rf_timestamp received \<noteq> None \<longrightarrow> cs_timestamps profile))"
  by (induction frames) auto

fun received_bytes :: "CanSessionProfile \<Rightarrow> usize \<Rightarrow> ReceivedCanFrame list \<Rightarrow> usize hal_result" where
  "received_bytes profile so_far [] = Ok so_far"
| "received_bytes profile so_far (received # frames) =
     and_then (ok_or (invalid_profile_message profile ''CAN receive response payload byte count overflows usize'')
       (usize_checked_add so_far (length (CanFrame_data (rf_frame received)))))
       (\<lambda>so_far. received_bytes profile so_far frames)"

definition validate_can_receive ::
  "usize \<Rightarrow> usize \<Rightarrow> CanSessionProfile \<Rightarrow> v1_ReceivedCanFrame list \<Rightarrow> unit hal_result" where
  "validate_can_receive max_frames max_read_bytes profile response =
     and_then (map_err (\<lambda>error. attach_profile error profile) (received_can_frames_from_proto response max_frames)) (\<lambda>frames.
     and_then (received_bytes profile 0 frames) (\<lambda>payload_bytes.
     if payload_bytes > max_read_bytes then
       Err (invalid_profile_message profile ''CAN receive response exceeds the negotiated read maximum'')
     else validate_received_profile frames profile))"

section \<open>All responses\<close>

text \<open>The enumerations of USB, GPIO and camera resources share one check of the transport.\<close>

definition validate_resources :: "TransportKind \<Rightarrow> string \<Rightarrow> v1_ResourceDescriptor list \<Rightarrow> unit hal_result" where
  "validate_resources transport message resources =
     map_ok (\<lambda>_. ()) (collect_results (map (\<lambda>resource.
       and_then (ResourceDescriptor_from_proto resource) (\<lambda>descriptor.
         if rd_transport descriptor = transport then Ok () else Err (invalid_message message))) resources))"

definition checked :: "ResourceId \<Rightarrow> 'a hal_result \<Rightarrow> unit hal_result" where
  "checked resource_id decoded = map_err (\<lambda>error. attach_resource error resource_id) (map_ok (\<lambda>_. ()) decoded)"

definition require_that :: "ResourceId \<Rightarrow> bool \<Rightarrow> string \<Rightarrow> unit hal_result" where
  "require_that resource_id condition message =
     (if condition then Ok () else Err (attach_resource (invalid_message message) resource_id))"

definition unexpected_for :: "ExpectedResponse \<Rightarrow> HalError" where
  "unexpected_for expected = attach_optional (expected_resource_id expected) unexpected_response"

definition matching :: "ExpectedResponse \<Rightarrow> 'a option \<Rightarrow> ('a \<Rightarrow> unit hal_result) \<Rightarrow> unit hal_result" where
  "matching expected response check =
     (case response of Some response \<Rightarrow> check response | None \<Rightarrow> Err (unexpected_for expected))"

definition validate_response :: "ExpectedResponse \<Rightarrow> v1_payload \<Rightarrow> unit hal_result" where
  "validate_response expected payload =
     (case expected of
        XEnumerateSerial \<Rightarrow> matching expected (as_EnumerateSerialResponse payload) (\<lambda>_. Ok ())
      | XOpenSerial \<Rightarrow> matching expected (as_OpenSerialResponse payload) (\<lambda>_. Ok ())
      | XSerialRead _ \<Rightarrow> matching expected (as_SerialReadResponse payload) (\<lambda>_. Ok ())
      | XSerialWrite \<Rightarrow> matching expected (as_SerialWriteResponse payload) (\<lambda>_. Ok ())
      | XSerialFlush \<Rightarrow> matching expected (as_SerialFlushResponse payload) (\<lambda>_. Ok ())
      | XSetControlLines \<Rightarrow> matching expected (as_SetSerialControlLinesResponse payload) (\<lambda>_. Ok ())
      | XCloseSession \<Rightarrow> matching expected (as_CloseSessionResponse payload) (\<lambda>_. Ok ())
      | XCloseCan _ \<Rightarrow> matching expected (as_CloseSessionResponse payload) (\<lambda>_. Ok ())
      | XReplaceCanFilters _ \<Rightarrow> matching expected (as_ReplaceCanFiltersResponse payload) (\<lambda>_. Ok ())
      | XEnumerateCan \<Rightarrow> matching expected (as_EnumerateCanResponse payload)
          (\<lambda>response. map_ok (\<lambda>_. ()) (enumerate_can_response_from_proto response))
      | XOpenCan mode resource_id \<Rightarrow> matching expected (as_OpenCanResponse payload)
          (\<lambda>response. checked resource_id (open_can_response_from_proto response mode))
      | XCanSend input_count profile \<Rightarrow> matching expected (as_CanSendResponse payload)
          (\<lambda>response. checked (cs_resource_id profile) (can_send_response_from_proto response input_count))
      | XCanReceive max_frames max_read_bytes profile \<Rightarrow> matching expected (as_CanReceiveResponse payload)
          (validate_can_receive max_frames max_read_bytes profile)
      | XCanBusStatus profile \<Rightarrow> matching expected (as_GetCanBusStatusResponse payload)
          (\<lambda>response. checked (cs_resource_id profile) (get_can_bus_status_response_from_proto response))
      | XEnumerateUsb \<Rightarrow> matching expected (as_EnumerateUsbResponse payload)
          (validate_resources TUsb ''USB enumeration returned a non-USB descriptor'')
      | XOpenUsb resource_id \<Rightarrow> matching expected (as_OpenUsbResponse payload)
          (\<lambda>response. checked resource_id (open_usb_response_from_proto response))
      | XUsbTransfer max_read_bytes resource_id \<Rightarrow> matching expected (as_UsbTransferResponse payload) (\<lambda>response.
          and_then (map_err (\<lambda>error. attach_resource error resource_id) (usb_transfer_response_from_proto response)) (\<lambda>data.
          require_that resource_id (length data \<le> max_read_bytes) ''USB response exceeds negotiated read maximum''))
      | XCloseUsb _ \<Rightarrow> matching expected (as_CloseUsbResponse payload) (\<lambda>_. Ok ())
      | XEnumerateGpio \<Rightarrow> matching expected (as_EnumerateGpioResponse payload)
          (validate_resources TGpio ''GPIO enumeration returned a non-GPIO descriptor'')
      | XOpenGpio line_count resource_id \<Rightarrow> matching expected (as_OpenGpioResponse payload) (\<lambda>response.
          and_then (require_that resource_id (line_count > 0) ''GPIO open line count is invalid'') (\<lambda>_.
          checked resource_id (open_gpio_response_from_proto response)))
      | XGpioRead line_count resource_id \<Rightarrow> matching expected (as_GpioReadResponse payload) (\<lambda>response.
          and_then (map_err (\<lambda>error. attach_resource error resource_id) (gpio_read_response_from_proto response)) (\<lambda>values.
          require_that resource_id (length values = line_count) ''GPIO read response length does not match opened lines''))
      | XGpioWrite _ \<Rightarrow> matching expected (as_GpioWriteResponse payload) (\<lambda>_. Ok ())
      | XGpioNextEdge resource_id \<Rightarrow> matching expected (as_GpioNextEdgeResponse payload)
          (\<lambda>response. checked resource_id (gpio_next_edge_response_from_proto response))
      | XCloseGpio _ \<Rightarrow> matching expected (as_CloseGpioResponse payload) (\<lambda>_. Ok ())
      | XEnumerateCamera \<Rightarrow> matching expected (as_EnumerateCameraResponse payload)
          (validate_resources TCamera ''Camera enumeration returned a non-Camera descriptor'')
      | XOpenCamera resource_id \<Rightarrow> matching expected (as_OpenCameraResponse payload)
          (\<lambda>response. checked resource_id (camera_open_response_from_proto response))
      | XCaptureCamera _ \<Rightarrow> matching expected (as_CaptureCameraResponse payload) (\<lambda>_. Ok ())
      | XCameraDroppedCount _ \<Rightarrow> matching expected (as_CameraDroppedCountResponse payload) (\<lambda>_. Ok ())
      | XCameraSetControl _ \<Rightarrow> matching expected (as_CameraSetControlResponse payload) (\<lambda>_. Ok ())
      | XCameraSetAuto _ \<Rightarrow> matching expected (as_CameraSetAutoResponse payload) (\<lambda>_. Ok ())
      | XCloseCamera _ \<Rightarrow> matching expected (as_CloseCameraResponse payload) (\<lambda>_. Ok ())
      | XCameraMappingDescriptor resource_id \<Rightarrow> matching expected (as_CameraMappingDescriptorResponse payload) (\<lambda>response.
          checked resource_id (and_then (ok_or (invalid_message ''camera mapping descriptor is missing'') response)
            camera_mapping_descriptor_from_proto))
      | XCameraNextFrameLease resource_id \<Rightarrow> matching expected (as_CameraNextFrameLeaseResponse payload)
          (\<lambda>response. checked resource_id (camera_next_frame_lease_response_from_proto response))
      | XCameraControls resource_id \<Rightarrow> matching expected (as_CameraControlsResponse payload)
          (\<lambda>response. checked resource_id (camera_controls_response_from_proto response))
      | XCameraGetControl resource_id \<Rightarrow> matching expected (as_CameraGetControlResponse payload) (\<lambda>response.
          checked resource_id (and_then (ok_or (invalid_message ''camera control value is missing'') response)
            camera_control_value_from_proto)))"

end
