(* ===== verification/Client_Requests.thy ===== *)
theory Client_Requests
  imports Client_Base Wire_Protocol
begin

text \<open>
  Request correlation in the client connection (\<open>RequestState\<close>, \<open>HalClient::request\<close>,
  \<open>CancellationGuard\<close>, the response part of \<open>reader_task\<close> and the termination functions of
  \<open>src/crates/robot-hal-client/src/connection.rs\<close>). What the source does under the lock of the
  request state is one definition here; what happens between two critical sections is a step of
  its own, so that requesters, the reader task and a terminating task interleave freely. A reply
  channel is a number, drawn afresh for each request; the payload type and \<open>validate_response\<close>
  are parameters.
\<close>

section \<open>The request state\<close>

record PendingRequest =
  pr_expected :: ExpectedResponse
  pr_reply :: nat

record RequestState =
  rq_next_request_id :: u64
  rq_pending :: "(u64, PendingRequest) hashmap"
  rq_cancelled :: "(u64, ExpectedResponse) hashmap"
  rq_completed :: "u64 list"
  rq_completed_order :: "u64 list"
  rq_terminal :: "HalError option"

definition RequestState_initial :: RequestState where
  "RequestState_initial = \<lparr>rq_next_request_id = 2, rq_pending = [], rq_cancelled = [], rq_completed = [1],
     rq_completed_order = [1], rq_terminal = None\<rparr>"

definition take_request_id :: "RequestState \<Rightarrow> u64 hal_result \<times> RequestState" where
  "take_request_id st =
     (let request_id = rq_next_request_id st in
      if request_id = 0 then
        (Err (client_error ''runtime.protocol.request_id_exhausted'' Internal ''runtime.client.request'' False
           ''request ID space is exhausted''), st)
      else (Ok request_id, st\<lparr>rq_next_request_id :=
          (case checked_add request_id 1 of None \<Rightarrow> 0 | Some next \<Rightarrow> next)\<rparr>))"

text \<open>The critical section of \<open>request\<close>.\<close>

definition request_admit ::
  "usize \<Rightarrow> ExpectedResponse \<Rightarrow> nat \<Rightarrow> RequestState \<Rightarrow> u64 hal_result \<times> RequestState" where
  "request_admit pending_capacity expected reply st =
     (case rq_terminal st of
        Some error \<Rightarrow> (Err error, st)
      | None \<Rightarrow>
          if length (rq_pending st) \<ge> pending_capacity then
            (Err (client_error ''runtime.queue.full'' Unavailable ''runtime.client.request'' True
               ''client pending request storage is full''), st)
          else case take_request_id st of
            (Err error, st) \<Rightarrow> (Err error, st)
          | (Ok request_id, st) \<Rightarrow>
              (Ok request_id, st\<lparr>rq_pending := hm_insert request_id
                 \<lparr>pr_expected = expected, pr_reply = reply\<rparr> (rq_pending st)\<rparr>))"

definition remove_pending :: "u64 \<Rightarrow> RequestState \<Rightarrow> RequestState" where
  "remove_pending request_id st = st\<lparr>rq_pending := hm_remove request_id (rq_pending st)\<rparr>"

fun trim_completed :: "usize \<Rightarrow> u64 list \<Rightarrow> u64 list \<Rightarrow> u64 list \<times> u64 list" where
  "trim_completed capacity [] completed = ([], completed)"
| "trim_completed capacity (oldest # order) completed =
     (if length (oldest # order) > capacity then trim_completed capacity order (removeAll oldest completed)
      else (oldest # order, completed))"

definition remember_completed :: "u64 \<Rightarrow> usize \<Rightarrow> RequestState \<Rightarrow> RequestState" where
  "remember_completed request_id capacity st =
     (let fresh = request_id \<notin> set (rq_completed st);
          completed = (if fresh then request_id # rq_completed st else rq_completed st);
          order = (if fresh then rq_completed_order st @ [request_id] else rq_completed_order st)
      in case trim_completed capacity order completed of (order, completed) \<Rightarrow>
           st\<lparr>rq_completed := completed, rq_completed_order := order\<rparr>)"

text \<open>The reply channels that the terminating task has to answer, or nothing the second time.\<close>

definition begin_termination ::
  "HalError \<Rightarrow> (u64 \<times> PendingRequest) option \<Rightarrow> RequestState \<Rightarrow> nat list option \<times> RequestState" where
  "begin_termination error extra st =
     (if rq_terminal st \<noteq> None then (None, st)
      else
        let drained = rq_pending st @ (case extra of None \<Rightarrow> [] | Some e \<Rightarrow> [e])
        in (Some (map (pr_reply \<circ> snd) drained),
            st\<lparr>rq_terminal := Some error, rq_pending := [],
               rq_cancelled := fold (\<lambda>(k, p). hm_insert k (pr_expected p)) drained (rq_cancelled st)\<rparr>))"

text \<open>\<open>Drop for CancellationGuard\<close>, while the guard is armed.\<close>

definition cancelled_full :: HalError where
  "cancelled_full =
     client_error ''runtime.queue.cancelled_full'' Unavailable ''runtime.client.cancel'' False
       ''cancelled request tracking is full''"

definition cancel_request :: "usize \<Rightarrow> u64 \<Rightarrow> RequestState \<Rightarrow> nat list option \<times> RequestState" where
  "cancel_request tombstone_capacity request_id st =
     (case hm_get (rq_pending st) request_id of
        None \<Rightarrow> (None, st)
      | Some pending \<Rightarrow>
          let st = remove_pending request_id st in
          if length (rq_cancelled st) \<ge> tombstone_capacity then
            begin_termination cancelled_full (Some (request_id, pending)) st
          else (None, st\<lparr>rq_cancelled := hm_insert request_id (pr_expected pending) (rq_cancelled st)\<rparr>))"

datatype CorrelatedResponse = CPending PendingRequest | CCancelled ExpectedResponse | CUnknown bool

definition correlate :: "usize \<Rightarrow> u64 \<Rightarrow> RequestState \<Rightarrow> CorrelatedResponse \<times> RequestState" where
  "correlate tombstone_capacity request_id st =
     (case hm_get (rq_pending st) request_id of
        Some pending \<Rightarrow>
          (CPending pending, remember_completed request_id tombstone_capacity (remove_pending request_id st))
      | None \<Rightarrow>
          (case hm_get (rq_cancelled st) request_id of
             Some expected \<Rightarrow>
               (CCancelled expected, remember_completed request_id tombstone_capacity
                  (st\<lparr>rq_cancelled := hm_remove request_id (rq_cancelled st)\<rparr>))
           | None \<Rightarrow> (CUnknown (request_id \<in> set (rq_completed st)), st)))"

text \<open>What \<open>preflight_inbound\<close> looks up: the response the client expects under an id.\<close>

definition expected_under :: "RequestState \<Rightarrow> u64 \<Rightarrow> ExpectedResponse option" where
  "expected_under st request_id =
     (case hm_get (rq_pending st) request_id of
        Some pending \<Rightarrow> Some (pr_expected pending)
      | None \<Rightarrow> hm_get (rq_cancelled st) request_id)"

definition unknown_response_error :: "bool \<Rightarrow> HalError" where
  "unknown_response_error duplicate =
     client_error
       (if duplicate then ''runtime.protocol.duplicate_response'' else ''runtime.protocol.unknown_response'')
       Conflict ''runtime.protocol.read'' False
       (if duplicate then ''broker sent a duplicate response'' else ''broker sent an unknown response ID'')"

section \<open>Responses\<close>

datatype 'p Payload = ErrorPayload v1_Error | OtherPayload 'p | NoPayload

type_synonym 'p validator = "ExpectedResponse \<Rightarrow> 'p \<Rightarrow> unit hal_result"

definition pending_result :: "'p validator \<Rightarrow> ExpectedResponse \<Rightarrow> 'p Payload \<Rightarrow> 'p hal_result" where
  "pending_result validate_response expected payload =
     (case payload of
        ErrorPayload error \<Rightarrow>
          and_then (map_ok (\<lambda>error. attach_expected error expected) (error_from_proto error)) Err
      | OtherPayload payload \<Rightarrow> map_ok (\<lambda>_. payload) (validate_response expected payload)
      | NoPayload \<Rightarrow> Err unexpected_response)"

definition terminal_result :: "'p hal_result \<Rightarrow> HalError option" where
  "terminal_result result =
     (case result of
        Ok _ \<Rightarrow> None
      | Err error \<Rightarrow>
          if ErrorName_as_str (he_name error) = ''runtime.protocol.unexpected_response''
             \<or> ErrorName_as_str (he_name error) = ''runtime.protocol.invalid_message''
          then Some error else None)"

definition cancelled_validation :: "'p validator \<Rightarrow> ExpectedResponse \<Rightarrow> 'p Payload \<Rightarrow> unit hal_result" where
  "cancelled_validation validate_response expected payload =
     (case payload of
        ErrorPayload error \<Rightarrow>
          map_err (\<lambda>error. attach_expected error expected) (map_ok (\<lambda>_. ()) (error_from_proto error))
      | OtherPayload payload \<Rightarrow> validate_response expected payload
      | NoPayload \<Rightarrow>
          Err (case expected_resource_id expected of
                 None \<Rightarrow> unexpected_response
               | Some resource_id \<Rightarrow> with_resource_id resource_id unexpected_response))"

section \<open>The connection\<close>

text \<open>
  Besides the request state: the number of reply channels created; the requests that are admitted
  and not yet queued for writing; the requests whose caller waits for the reply (both as pairs of
  channel and request id); the request whose response the reader task is validating, with the response; the channels
  that a terminating task still has to answer; the replies sent, in order; and whether the shutdown
  signal is set. \<open>cn_assigned\<close> and \<open>cn_answered\<close> are history: which id each channel was admitted
  with, and which response id each channel was answered from.
\<close>

record 'p Connection =
  cn_requests :: RequestState
  cn_channels :: nat
  cn_sending :: "(nat \<times> u64) list"
  cn_waiting :: "(nat \<times> u64) list"
  cn_in_hand :: "(u64 \<times> PendingRequest \<times> 'p Payload) option"
  cn_draining :: "(nat \<times> HalError) list"
  cn_replies :: "(nat \<times> 'p hal_result) list"
  cn_shutdown :: bool
  cn_assigned :: "(nat \<times> u64) list"
  cn_answered :: "(nat \<times> u64) list"

definition Connection_new :: "'p Connection" where
  "Connection_new = \<lparr>cn_requests = RequestState_initial, cn_channels = 0, cn_sending = [], cn_waiting = [],
     cn_in_hand = None, cn_draining = [], cn_replies = [], cn_shutdown = False, cn_assigned = [],
     cn_answered = []\<rparr>"

text \<open>
  \<open>finish_termination\<close> answers the drained channels one after the other and then signals
  shutdown; here they are queued for the steps that send them.
\<close>

definition start_draining ::
  "HalError \<Rightarrow> nat list option \<times> RequestState \<Rightarrow> 'p Connection \<Rightarrow> 'p Connection" where
  "start_draining error outcome c =
     (case outcome of (replies, st) \<Rightarrow>
      c\<lparr>cn_requests := st,
        cn_draining := cn_draining c @ (case replies of None \<Rightarrow> [] | Some rs \<Rightarrow> map (\<lambda>r. (r, error)) rs)\<rparr>)"

definition terminate :: "HalError \<Rightarrow> 'p Connection \<Rightarrow> 'p Connection" where
  "terminate error c = start_draining error (begin_termination error None (cn_requests c)) c"

definition finish_one :: "'p Connection \<Rightarrow> 'p Connection" where
  "finish_one c =
     (case cn_draining c of
        [] \<Rightarrow> c\<lparr>cn_shutdown := True\<rparr>
      | (channel, error) # rest \<Rightarrow>
          c\<lparr>cn_draining := rest, cn_replies := cn_replies c @ [(channel, Err error)]\<rparr>)"

text \<open>A response frame is correlated under the lock; what follows depends on what it belongs to.\<close>

definition accept_response ::
  "'p validator \<Rightarrow> usize \<Rightarrow> u64 \<Rightarrow> 'p Payload \<Rightarrow> 'p Connection \<Rightarrow> 'p Connection" where
  "accept_response validate_response tombstone_capacity request_id payload c =
     (case correlate tombstone_capacity request_id (cn_requests c) of
        (CPending pending, st) \<Rightarrow> c\<lparr>cn_requests := st, cn_in_hand := Some (request_id, pending, payload)\<rparr>
      | (CCancelled expected, st) \<Rightarrow>
          (case cancelled_validation validate_response expected payload of
             Ok _ \<Rightarrow> c\<lparr>cn_requests := st\<rparr>
           | Err error \<Rightarrow> terminate error (c\<lparr>cn_requests := st\<rparr>))
      | (CUnknown duplicate, st) \<Rightarrow> terminate (unknown_response_error duplicate) c)"

definition answer_response :: "'p validator \<Rightarrow> 'p Connection \<Rightarrow> 'p Connection" where
  "answer_response validate_response c =
     (case cn_in_hand c of
        None \<Rightarrow> c
      | Some (request_id, pending, payload) \<Rightarrow>
          let result = pending_result validate_response (pr_expected pending) payload;
              c = c\<lparr>cn_in_hand := None, cn_replies := cn_replies c @ [(pr_reply pending, result)],
                     cn_answered := cn_answered c @ [(pr_reply pending, request_id)]\<rparr>
          in case terminal_result result of None \<Rightarrow> c | Some error \<Rightarrow> terminate error c)"

definition admit :: "u64 \<Rightarrow> RequestState \<Rightarrow> 'p Connection \<Rightarrow> 'p Connection" where
  "admit request_id st c =
     c\<lparr>cn_requests := st, cn_channels := Suc (cn_channels c),
       cn_sending := (cn_channels c, request_id) # cn_sending c,
       cn_assigned := (cn_channels c, request_id) # cn_assigned c\<rparr>"

text \<open>
  The steps of the connection. A request is queued unless its envelope is too large or the writer
  queue is full or closed; a waiting caller takes its reply or goes away; the reader accepts a
  response only while the connection is not terminal; any task may terminate the connection. The rules
  \<open>admitted\<close> to \<open>received\<close> are the parts of \<open>HalClient::request\<close>, \<open>cancelled\<close> is \<open>CancellationGuard::drop\<close>,
  \<open>responded\<close> and \<open>answered\<close> are the two halves of a round of \<open>reader_task\<close>, \<open>terminated\<close> is \<open>terminate\<close> and
  \<open>finishing\<close> one iteration of \<open>finish_termination\<close>.
\<close>

inductive client_step :: "'p validator \<Rightarrow> usize \<Rightarrow> usize \<Rightarrow> 'p Connection \<Rightarrow> 'p Connection \<Rightarrow> bool"
  for validate_response pending_capacity tombstone_capacity where
  admitted: "request_admit pending_capacity expected (cn_channels c) (cn_requests c) = (Ok request_id, st)
     \<Longrightarrow> client_step validate_response pending_capacity tombstone_capacity c (admit request_id st c)"
| refused: "request_admit pending_capacity expected (cn_channels c) (cn_requests c) = (Err error, st)
     \<Longrightarrow> client_step validate_response pending_capacity tombstone_capacity c (c\<lparr>cn_requests := st\<rparr>)"
| queued: "r \<in> set (cn_sending c)
     \<Longrightarrow> client_step validate_response pending_capacity tombstone_capacity c
           (c\<lparr>cn_sending := remove1 r (cn_sending c), cn_waiting := r # cn_waiting c\<rparr>)"
| not_queued: "r \<in> set (cn_sending c)
     \<Longrightarrow> client_step validate_response pending_capacity tombstone_capacity c
           (c\<lparr>cn_sending := remove1 r (cn_sending c), cn_requests := remove_pending (snd r) (cn_requests c)\<rparr>)"
| received: "r \<in> set (cn_waiting c) \<Longrightarrow> (fst r, result) \<in> set (cn_replies c)
     \<Longrightarrow> client_step validate_response pending_capacity tombstone_capacity c
           (c\<lparr>cn_waiting := remove1 r (cn_waiting c)\<rparr>)"
| cancelled: "r \<in> set (cn_waiting c)
     \<Longrightarrow> client_step validate_response pending_capacity tombstone_capacity c
           (start_draining cancelled_full (cancel_request tombstone_capacity (snd r) (cn_requests c))
             (c\<lparr>cn_waiting := remove1 r (cn_waiting c)\<rparr>))"
| responded: "rq_terminal (cn_requests c) = None \<Longrightarrow> cn_in_hand c = None \<Longrightarrow> request_id \<noteq> 0
     \<Longrightarrow> client_step validate_response pending_capacity tombstone_capacity c
           (accept_response validate_response tombstone_capacity request_id payload c)"
| answered: "client_step validate_response pending_capacity tombstone_capacity c
     (answer_response validate_response c)"
| terminated: "client_step validate_response pending_capacity tombstone_capacity c (terminate error c)"
| finishing: "rq_terminal (cn_requests c) \<noteq> None
     \<Longrightarrow> client_step validate_response pending_capacity tombstone_capacity c (finish_one c)"

definition client_reachable :: "'p validator \<Rightarrow> usize \<Rightarrow> usize \<Rightarrow> 'p Connection \<Rightarrow> bool" where
  "client_reachable validate_response pending_capacity tombstone_capacity c \<longleftrightarrow>
     (client_step validate_response pending_capacity tombstone_capacity)\<^sup>*\<^sup>* Connection_new c"

end
