(* ===== verification/Client_Handles.thy ===== *)
theory Client_Handles
  imports Client_Validate Client_Requests
begin

text \<open>
  The public methods of the client for serial, USB and GPIO devices
  (\<open>src/crates/robot-hal-client/src/connection.rs\<close>, \<open>serial.rs\<close>, \<open>usb.rs\<close>, \<open>gpio.rs\<close>). A method checks
  its arguments against the negotiated limits, sends one request and converts the response. The
  argument \<open>send\<close> is \<open>HalClient::send\<close>, seen as the result it gives for a payload and the response it
  expects; \<open>encoded_len\<close> is prost's.
\<close>

section \<open>Methods\<close>

text \<open>
  How a method ends: with its result, by terminating the connection with an error it also returns,
  or in a panic (an \<open>unreachable!\<close> or a failed \<open>expect\<close>).
\<close>

datatype 'a outcome = Panicked | Returned "'a hal_result" | Terminated HalError

type_synonym sender = "v1_payload \<Rightarrow> ExpectedResponse \<Rightarrow> v1_payload hal_result"

definition attempt :: "'a hal_result \<Rightarrow> ('a \<Rightarrow> 'b outcome) \<Rightarrow> 'b outcome" where
  "attempt r f = (case r of Ok x \<Rightarrow> f x | Err e \<Rightarrow> Returned (Err e))"

definition expect_some :: "'a option \<Rightarrow> ('a \<Rightarrow> 'b outcome) \<Rightarrow> 'b outcome" where
  "expect_some m f = (case m of Some x \<Rightarrow> f x | None \<Rightarrow> Panicked)"

text \<open>A decoding error terminates the connection.\<close>

definition or_terminate :: "'a hal_result \<Rightarrow> 'a outcome" where
  "or_terminate r = (case r of Ok x \<Rightarrow> Returned (Ok x) | Err e \<Rightarrow> Terminated e)"

definition finish_unit :: "v1_payload hal_result \<Rightarrow> unit outcome" where
  "finish_unit reply = attempt reply (\<lambda>_. Returned (Ok ()))"

record RemoteHandle =
  rh_resource_id :: ResourceId
  rh_session_id :: SessionId
  rh_lease :: LeaseToken
  rh_closed :: bool

definition RemoteHandle_new :: "ResourceId \<Rightarrow> SessionId \<times> LeaseToken \<Rightarrow> RemoteHandle" where
  "RemoteHandle_new resource_id session =
     \<lparr>rh_resource_id = resource_id, rh_session_id = fst session, rh_lease = snd session, rh_closed = False\<rparr>"

definition session_message :: "'a RemoteHandle_scheme \<Rightarrow> v1_SessionLease" where
  "session_message handle =
     \<lparr>wsl_session_id = SessionId_as_str (rh_session_id handle), wsl_lease = Some (LeaseToken_to_proto (rh_lease handle))\<rparr>"

definition resource_error :: "'a RemoteHandle_scheme \<Rightarrow> 'b hal_result \<Rightarrow> 'b hal_result" where
  "resource_error handle r = map_err (\<lambda>error. attach_resource error (rh_resource_id handle)) r"

definition local_error ::
  "'a RemoteHandle_scheme \<Rightarrow> string \<Rightarrow> ErrorCategory \<Rightarrow> string \<Rightarrow> bool \<Rightarrow> string \<Rightarrow> HalError" where
  "local_error handle name category operation retryable message =
     with_resource_id (rh_resource_id handle) (hal_error name category operation retryable message)"

definition ensure_open :: "string \<Rightarrow> 'a RemoteHandle_scheme \<Rightarrow> string \<Rightarrow> unit hal_result" where
  "ensure_open message handle operation =
     (if rh_closed handle then Err (local_error handle ''runtime.session.closed'' Conflict operation False message)
      else Ok ())"

definition argument_error :: "'a RemoteHandle_scheme \<Rightarrow> string \<Rightarrow> string \<Rightarrow> HalError" where
  "argument_error handle operation message =
     local_error handle ''runtime.argument.invalid'' InvalidArgument operation False message"

definition wire_timeout :: "'a RemoteHandle_scheme \<Rightarrow> string \<Rightarrow> string \<Rightarrow> duration \<Rightarrow> u64 hal_result" where
  "wire_timeout handle operation message timeout =
     (if as_millis timeout < 2 ^ 64 then Ok (of_nat (as_millis timeout))
      else Err (argument_error handle operation message))"

text \<open>A method that closes its handle does so only after the broker has acknowledged it.\<close>

definition close_with :: "unit outcome \<Rightarrow> 'a RemoteHandle_scheme \<Rightarrow> unit outcome \<times> 'a RemoteHandle_scheme" where
  "close_with ending handle = (ending, if ending = Returned (Ok ()) then handle\<lparr>rh_closed := True\<rparr> else handle)"

definition invalid_selector :: "ResourceSelector \<Rightarrow> string \<Rightarrow> string \<Rightarrow> HalError" where
  "invalid_selector selector operation message =
     with_resource_id (rs_id selector)
       (client_error ''runtime.argument.invalid'' InvalidArgument operation False message)"

section \<open>Serial\<close>

definition enumerate_serial :: "sender \<Rightarrow> ResourceDescriptor list outcome" where
  "enumerate_serial send =
     attempt (send (PEnumerateSerialRequest ()) XEnumerateSerial) (\<lambda>payload.
     expect_some (as_EnumerateSerialResponse payload) (\<lambda>response.
     or_terminate (enumerate_serial_response_from_proto response)))"

definition serial_from_response :: "ResourceId \<Rightarrow> v1_SessionLease \<Rightarrow> RemoteHandle hal_result" where
  "serial_from_response resource_id response =
     map_ok (RemoteHandle_new resource_id)
       (map_err (with_resource_id resource_id) (open_serial_response_from_proto response))"

definition open_serial :: "sender \<Rightarrow> ResourceSelector \<Rightarrow> SerialConfig \<Rightarrow> RemoteHandle outcome" where
  "open_serial send selector config =
     (if rs_transport selector \<noteq> TSerial
      then Returned (Err (invalid_selector selector ''serial.open'' ''serial resource selector transport must be Serial''))
      else attempt (ResourceSelector_to_proto selector) (\<lambda>wire_selector.
        attempt (send (POpenSerialRequest
            \<lparr>wos_selector = Some wire_selector, wos_config = Some (SerialConfig_to_proto config)\<rparr>) XOpenSerial) (\<lambda>payload.
        expect_some (as_OpenSerialResponse payload) (\<lambda>response.
        or_terminate (serial_from_response (rs_id selector) response)))))"

abbreviation serial_open :: "RemoteHandle \<Rightarrow> string \<Rightarrow> unit hal_result" where
  "serial_open \<equiv> ensure_open ''the remote serial handle is closed''"

definition serial_read :: "sender \<Rightarrow> Limits \<Rightarrow> RemoteHandle \<Rightarrow> usize \<Rightarrow> u8 list outcome" where
  "serial_read send limits handle max_bytes =
     attempt (serial_open handle ''serial.read'') (\<lambda>_.
     if max_bytes = 0 \<or> max_bytes > lm_read limits \<or> max_bytes > 2 ^ 32 - 1
     then Returned (Err (argument_error handle ''serial.read'' ''read size exceeds the negotiated maximum''))
     else attempt (resource_error handle (send (PSerialReadRequest
         \<lparr>wsl_session_id = SessionId_as_str (rh_session_id handle), wsl_lease = Some (LeaseToken_to_proto (rh_lease handle)),
          wsn_max_bytes = of_nat max_bytes\<rparr>) (XSerialRead max_bytes))) (\<lambda>payload.
       expect_some (as_SerialReadResponse payload) (\<lambda>response.
       if length response > max_bytes \<or> length response > lm_read limits
       then Terminated (argument_error handle ''serial.read'' ''response exceeds the requested read size'')
       else Returned (Ok response))))"

function varint_len :: "u64 \<Rightarrow> usize" where
  "varint_len value = (if value \<ge> 0x80 then 1 + varint_len (drop_bit 7 value) else 1)"
  by auto

termination varint_len
proof (relation "measure unat")
  fix v :: u64 assume "v \<ge> 0x80"
  then have "0 < unat v" by (simp add: word_le_nat_alt)
  then show "(drop_bit 7 v, v) \<in> measure unat" by (simp add: drop_bit_eq_div unat_div)
qed simp

declare varint_len.simps [simp del]

definition serial_write_envelope_len :: "(v1_SerialWriteRequest \<Rightarrow> usize) \<Rightarrow> v1_SerialWriteRequest \<Rightarrow> usize \<Rightarrow> usize" where
  "serial_write_envelope_len request_encoded_len request data_len =
     (let data_field_len = (if data_len = 0 then 0 else 1 + varint_len (of_nat data_len) + data_len);
          request_len = request_encoded_len request + data_field_len
      in 11 + 2 + varint_len (of_nat request_len) + request_len)"

definition serial_write_request :: "RemoteHandle \<Rightarrow> u8 list \<Rightarrow> v1_SerialWriteRequest" where
  "serial_write_request handle data =
     \<lparr>wsl_session_id = SessionId_as_str (rh_session_id handle), wsl_lease = Some (LeaseToken_to_proto (rh_lease handle)),
      wsw_data = data\<rparr>"

definition serial_write ::
  "(v1_SerialWriteRequest \<Rightarrow> usize) \<Rightarrow> sender \<Rightarrow> Limits \<Rightarrow> RemoteHandle \<Rightarrow> u8 list \<Rightarrow> unit outcome" where
  "serial_write request_encoded_len send limits handle bytes =
     attempt (serial_open handle ''serial.write'') (\<lambda>_.
     if length bytes > lm_write limits
     then Returned (Err (argument_error handle ''serial.write'' ''write size exceeds the negotiated maximum''))
     else if serial_write_envelope_len request_encoded_len (serial_write_request handle []) (length bytes) > lm_frame limits
     then Returned (Err (argument_error handle ''serial.write'' ''write envelope exceeds the negotiated frame maximum''))
     else finish_unit (resource_error handle (send (PSerialWriteRequest (serial_write_request handle bytes)) XSerialWrite)))"

definition serial_flush :: "sender \<Rightarrow> RemoteHandle \<Rightarrow> unit outcome" where
  "serial_flush send handle =
     attempt (serial_open handle ''serial.flush'') (\<lambda>_.
     finish_unit (resource_error handle (send (PSerialFlushRequest (session_message handle)) XSerialFlush)))"

definition set_control_lines :: "sender \<Rightarrow> RemoteHandle \<Rightarrow> ControlLines \<Rightarrow> unit outcome" where
  "set_control_lines send handle lines =
     attempt (serial_open handle ''serial.set_control_lines'') (\<lambda>_.
     finish_unit (resource_error handle (send (PSetSerialControlLinesRequest
       \<lparr>wsl_session_id = SessionId_as_str (rh_session_id handle), wsl_lease = Some (LeaseToken_to_proto (rh_lease handle)),
        wsc_data_terminal_ready = cl_data_terminal_ready lines, wsc_request_to_send = cl_request_to_send lines\<rparr>)
       XSetControlLines)))"

definition serial_close :: "sender \<Rightarrow> RemoteHandle \<Rightarrow> unit outcome \<times> RemoteHandle" where
  "serial_close send handle =
     close_with (attempt (serial_open handle ''serial.close'') (\<lambda>_.
       finish_unit (resource_error handle (send (PCloseSessionRequest (session_message handle)) XCloseSession)))) handle"

end
