(* ===== verification/Client_Can.thy ===== *)
theory Client_Can
  imports Client_Handles
begin

text \<open>
  The client's methods for CAN buses (\<open>src/crates/robot-hal-client/src/can.rs\<close> and the opener in
  \<open>connection.rs\<close>). The encoded length of a frame message, used by \<open>maximum_receive_envelope_len\<close>, is
  prost's and a parameter.
\<close>

section \<open>Opening\<close>

definition enumerate_can :: "sender \<Rightarrow> Limits \<Rightarrow> ResourceDescriptor list outcome" where
  "enumerate_can send limits =
     attempt (require_can_capability limits ''can.enumerate'' None (\<lambda>limits. lm_can_classic limits \<or> lm_can_fd limits)) (\<lambda>_.
     attempt (send (PEnumerateCanRequest ()) XEnumerateCan) (\<lambda>payload.
     expect_some (as_EnumerateCanResponse payload) (\<lambda>response.
     or_terminate (enumerate_can_response_from_proto response))))"

definition select_can_descriptor :: "ResourceDescriptor list \<Rightarrow> ResourceSelector \<Rightarrow> ResourceDescriptor hal_result" where
  "select_can_descriptor resources selector =
     (case filter (\<lambda>resource. rd_id resource = rs_id selector \<and> rd_transport resource = TCan
         \<and> satisfies (rd_minimum_identity_quality resource) (rs_minimum_identity_quality selector)) resources of
        [] \<Rightarrow> Err (with_resource_id (rs_id selector) (client_error ''runtime.resource.not_found'' NotFound ''can.open'' False
          ''CAN resource selector did not match an enumerated descriptor''))
      | [selected] \<Rightarrow> Ok selected
      | _ \<Rightarrow> Err (with_resource_id (rs_id selector) (client_error ''runtime.resource.ambiguous'' Conflict ''can.open'' False
          ''CAN resource selector matched more than one enumerated descriptor'')))"

definition filters_error :: "CanFilterSet \<Rightarrow> bool" where
  "filters_error filters \<longleftrightarrow> list_ex (\<lambda>filter. fc_error (cf_classes filter)) (filter_slice filters)"

definition mode_supported :: "bool \<Rightarrow> bool \<Rightarrow> bool \<Rightarrow> CanOpenConfig \<Rightarrow> bool" where
  "mode_supported classic fd configure config =
     (case config of
        Attach expectation \<Rightarrow>
          (case cx_mode expectation of Some Classic \<Rightarrow> classic | Some Fd \<Rightarrow> fd | None \<Rightarrow> classic \<or> fd)
      | Configure config \<Rightarrow> configure \<and> (case cc_mode config of Classic \<Rightarrow> classic | Fd \<Rightarrow> fd))"

definition validate_can_open_capabilities ::
  "ResourceDescriptor \<Rightarrow> CanOpenConfig \<Rightarrow> CanFilterSet \<Rightarrow> unit hal_result" where
  "validate_can_open_capabilities descriptor config filters =
     (let has = CapabilitySet_contains (rd_capabilities descriptor) in
      if mode_supported (has can_classic_capability) (has can_fd_capability) (has can_configure_capability) config
         \<and> (\<not> filters_error filters \<or> has can_error_frames_capability)
      then Ok ()
      else Err (with_resource_id (rd_id descriptor) (client_error ''runtime.protocol.capability_unsupported'' Conflict
        ''can.open'' False ''the selected CAN resource does not support the requested configuration or filters'')))"

record RemoteCanHandle = RemoteHandle +
  rc_profile :: CanSessionProfile

definition session_mode :: "CanOpenConfig \<Rightarrow> ResourceDescriptor \<Rightarrow> CanMode" where
  "session_mode config descriptor =
     (case config of
        Attach expectation \<Rightarrow>
          (case cx_mode expectation of Some mode \<Rightarrow> mode
           | None \<Rightarrow> if CapabilitySet_contains (rd_capabilities descriptor) can_fd_capability then Fd else Classic)
      | Configure config \<Rightarrow> cc_mode config)"

definition can_from_response ::
  "ResourceId \<Rightarrow> LeaseMode \<Rightarrow> CanOpenConfig \<Rightarrow> ResourceDescriptor \<Rightarrow> v1_SessionLease \<Rightarrow> RemoteCanHandle hal_result" where
  "can_from_response resource_id expected_mode config descriptor response =
     (let has = CapabilitySet_contains (rd_capabilities descriptor) in
      map_ok (\<lambda>(session_id, lease).
          \<lparr>rh_resource_id = resource_id, rh_session_id = session_id, rh_lease = lease, rh_closed = False,
           rc_profile = \<lparr>cs_mode = session_mode config descriptor, cs_classic_frames = has can_classic_capability,
             cs_fd_frames = has can_fd_capability, cs_error_frames = has can_error_frames_capability,
             cs_timestamps = has can_rx_timestamp_capability, cs_resource_id = resource_id,
             cs_session_id = session_id\<rparr>\<rparr>)
        (map_err (\<lambda>error. attach_resource error resource_id) (open_can_response_from_proto response expected_mode)))"

definition then_outcome :: "'a outcome \<Rightarrow> ('a \<Rightarrow> 'b outcome) \<Rightarrow> 'b outcome" where
  "then_outcome first f =
     (case first of Panicked \<Rightarrow> Panicked | Returned r \<Rightarrow> attempt r f | Terminated e \<Rightarrow> Terminated e)"

definition open_can ::
  "(v1_Envelope \<Rightarrow> usize) \<Rightarrow> sender \<Rightarrow> Limits \<Rightarrow> ResourceSelector \<Rightarrow> LeaseMode \<Rightarrow> CanOpenConfig \<Rightarrow> CanFilterSet
     \<Rightarrow> RemoteCanHandle outcome" where
  "open_can encoded_len send limits selector mode config filters =
     (if rs_transport selector \<noteq> TCan
      then Returned (Err (invalid_selector selector ''can.open'' ''CAN resource selector transport must be Can''))
      else attempt (require_can_capability limits ''can.open'' (Some (rs_id selector)) (\<lambda>limits.
          mode_supported (lm_can_classic limits) (lm_can_fd limits) (lm_can_configure limits) config
          \<and> (\<not> filters_error filters \<or> lm_can_error_frames limits))) (\<lambda>_.
        then_outcome (enumerate_can send limits) (\<lambda>resources.
        attempt (select_can_descriptor resources selector) (\<lambda>descriptor.
        attempt (validate_can_open_capabilities descriptor config filters) (\<lambda>_.
        attempt (ResourceSelector_to_proto selector) (\<lambda>wire_selector.
        let payload = POpenCanRequest \<lparr>woq_selector = Some wire_selector,
          woq_mode = enum_number LeaseMode_numbers (lease_mode_to_proto mode),
          woq_config = Some (CanOpenConfig_to_proto config), woq_filters = Some (CanFilterSet_to_proto filters)\<rparr> in
        attempt (ensure_payload_fits encoded_len limits payload ''can.open'' (Some (rs_id selector))) (\<lambda>_.
        attempt (map_err (\<lambda>error. attach_resource error (rs_id selector))
          (send payload (XOpenCan mode (rs_id selector)))) (\<lambda>payload.
        expect_some (as_OpenCanResponse payload) (\<lambda>response.
        or_terminate (can_from_response (rs_id selector) mode config descriptor response))))))))))"

section \<open>Sending\<close>

text \<open>
  A batch send fails with a \<open>CanBatchSendError\<close>. An outer error stands for \<open>CanBatchSendError::new\<close> of
  it, with nothing known to be committed; the inner result is what the broker reported.
\<close>

abbreviation can_open :: "RemoteCanHandle \<Rightarrow> string \<Rightarrow> unit hal_result" where
  "can_open \<equiv> ensure_open ''the remote CAN handle is closed''"

fun batch_payload :: "RemoteCanHandle \<Rightarrow> usize \<Rightarrow> CanFrame list \<Rightarrow> usize hal_result" where
  "batch_payload handle so_far [] = Ok so_far"
| "batch_payload handle so_far (frame # frames) =
     and_then (resource_error handle (CanFrame_validate frame)) (\<lambda>_.
     if \<not> frame_allowed (rc_profile handle) frame then
       Err (local_error handle ''runtime.protocol.capability_unsupported'' Conflict ''can.send_batch'' False
         ''the negotiated broker protocol does not advertise the frame capability'')
     else and_then (ok_or (argument_error handle ''can.send_batch'' ''CAN send payload byte count overflows usize'')
       (usize_checked_add so_far (length (CanFrame_data frame)))) (\<lambda>so_far. batch_payload handle so_far frames))"

definition can_send_batch ::
  "(v1_Envelope \<Rightarrow> usize) \<Rightarrow> sender \<Rightarrow> Limits \<Rightarrow> RemoteCanHandle \<Rightarrow> CanFrame list
     \<Rightarrow> (unit, CanBatchSendError) result outcome" where
  "can_send_batch encoded_len send limits handle frames =
     attempt (can_open handle ''can.send_batch'') (\<lambda>_.
     if \<not> (1 \<le> length frames \<and> length frames \<le> MAX_CAN_BATCH_FRAMES)
     then Returned (Err (argument_error handle ''can.send_batch'' ''CAN send batch must contain 1..=64 frames''))
     else attempt (batch_payload handle 0 frames) (\<lambda>payload_bytes.
       if payload_bytes > lm_write limits
       then Returned (Err (argument_error handle ''can.send_batch'' ''CAN send payload exceeds the negotiated write maximum''))
       else
         let payload = PCanSendRequest
           \<lparr>wsl_session_id = SessionId_as_str (rh_session_id handle), wsl_lease = Some (LeaseToken_to_proto (rh_lease handle)),
            wsq_frames = map CanFrame_to_proto frames\<rparr> in
         attempt (ensure_payload_fits encoded_len limits payload ''can.send_batch'' (Some (rh_resource_id handle))) (\<lambda>_.
         attempt (resource_error handle (send payload (XCanSend (length frames) (rc_profile handle)))) (\<lambda>payload.
         expect_some (as_CanSendResponse payload) (\<lambda>response.
         or_terminate (map_ok
           (map_err (\<lambda>error. backend_prefix (attach_resource (bs_error error) (rh_resource_id handle)) (bs_committed error)))
           (resource_error handle (can_send_response_from_proto response (length frames)))))))))"

definition can_send ::
  "(v1_Envelope \<Rightarrow> usize) \<Rightarrow> sender \<Rightarrow> Limits \<Rightarrow> RemoteCanHandle \<Rightarrow> CanFrame
     \<Rightarrow> (unit, CanBatchSendError) result outcome" where
  "can_send encoded_len send limits handle frame = can_send_batch encoded_len send limits handle [frame]"

section \<open>Receiving\<close>

definition extended_id :: v1_CanId where
  "extended_id = \<lparr>wci_value = 0x1fffffff, wci_format = enum_number CanIdFormat_numbers CAN_ID_FORMAT_EXTENDED\<rparr>"

definition largest_fd :: v1_CanFrame where
  "largest_fd = CanFrame_default\<lparr>wcf_id := Some extended_id, wcf_kind := enum_number CanFrameKind_numbers CAN_FRAME_KIND_FD_DATA,
     wcf_data := replicate MAX_FD_DATA_BYTES 0, wcf_bitrate_switch := True, wcf_error_state_indicator := True\<rparr>"

definition largest_error :: v1_CanFrame where
  "largest_error = CanFrame_default\<lparr>wcf_kind := enum_number CanFrameKind_numbers CAN_FRAME_KIND_ERROR,
     wcf_data := replicate MAX_CLASSIC_DATA_BYTES 0, wcf_error_classes := map int [1..<Suc MAX_CAN_ERROR_CLASSES]\<rparr>"

definition largest_classic :: v1_CanFrame where
  "largest_classic = CanFrame_default\<lparr>wcf_id := Some extended_id,
     wcf_kind := enum_number CanFrameKind_numbers CAN_FRAME_KIND_CLASSIC_DATA, wcf_data := replicate MAX_CLASSIC_DATA_BYTES 0\<rparr>"

definition largest_timestamp :: v1_CanTimestamp where
  "largest_timestamp = \<lparr>wct_timestamp_ns = 2 ^ 64 - 1,
     wct_source = enum_number CanTimestampSource_numbers CAN_TIMESTAMP_SOURCE_HARDWARE,
     wct_clock_domain = replicate 255 (CHR ''x'')\<rparr>"

definition maximum_receive_envelope_len ::
  "(v1_CanFrame \<Rightarrow> usize) \<Rightarrow> (v1_Envelope \<Rightarrow> usize) \<Rightarrow> usize \<Rightarrow> CanSessionProfile \<Rightarrow> usize" where
  "maximum_receive_envelope_len frame_encoded_len encoded_len max_frames profile =
     (let frame = (if cs_mode profile = Fd then largest_fd
            else if cs_error_frames profile \<and> frame_encoded_len largest_error > frame_encoded_len largest_classic
            then largest_error else largest_classic);
          timestamp = (if cs_timestamps profile then Some largest_timestamp else None);
          received = \<lparr>wrf_frame = Some frame, wrf_timestamp = timestamp\<rparr>
      in encoded_len \<lparr>we_request_id = 2 ^ 64 - 1, we_payload = Some (PCanReceiveResponse (replicate max_frames received))\<rparr>)"

definition can_receive ::
  "(v1_CanFrame \<Rightarrow> usize) \<Rightarrow> (v1_Envelope \<Rightarrow> usize) \<Rightarrow> sender \<Rightarrow> Limits \<Rightarrow> RemoteCanHandle \<Rightarrow> usize \<Rightarrow> duration
     \<Rightarrow> ReceivedCanFrame list outcome" where
  "can_receive frame_encoded_len encoded_len send limits handle max_frames timeout =
     attempt (can_open handle ''can.receive'') (\<lambda>_.
     if \<not> (1 \<le> max_frames \<and> max_frames \<le> MAX_CAN_BATCH_FRAMES)
     then Returned (Err (argument_error handle ''can.receive'' ''CAN receive maximum must be 1..=64 frames''))
     else attempt (wire_timeout handle ''can.receive'' ''CAN receive timeout exceeds the wire range'' timeout) (\<lambda>timeout_ms.
       let max_data_bytes = (if cs_mode (rc_profile handle) = Fd then MAX_FD_DATA_BYTES else MAX_CLASSIC_DATA_BYTES) in
       if max_frames * max_data_bytes > usize_max \<or> max_frames * max_data_bytes > lm_read limits
       then Returned (Err (argument_error handle ''can.receive'' ''CAN receive payload bound exceeds the negotiated read maximum''))
       else if maximum_receive_envelope_len frame_encoded_len encoded_len max_frames (rc_profile handle) > lm_frame limits
       then Returned (Err (local_error handle ''runtime.protocol.frame_too_large'' InvalidArgument ''can.receive'' False
         ''CAN receive response bound exceeds the negotiated frame maximum''))
       else
         let payload = PCanReceiveRequest
           \<lparr>wsl_session_id = SessionId_as_str (rh_session_id handle), wsl_lease = Some (LeaseToken_to_proto (rh_lease handle)),
            wrq_max_frames = of_nat max_frames, wrq_timeout_ms = timeout_ms\<rparr> in
         attempt (ensure_payload_fits encoded_len limits payload ''can.receive'' (Some (rh_resource_id handle))) (\<lambda>_.
         attempt (resource_error handle (send payload (XCanReceive max_frames (lm_read limits) (rc_profile handle)))) (\<lambda>payload.
         expect_some (as_CanReceiveResponse payload) (\<lambda>response.
         or_terminate (resource_error handle (received_can_frames_from_proto response max_frames)))))))"

section \<open>Filters, status and closing\<close>

definition can_replace_filters ::
  "(v1_Envelope \<Rightarrow> usize) \<Rightarrow> sender \<Rightarrow> Limits \<Rightarrow> RemoteCanHandle \<Rightarrow> CanFilterSet \<Rightarrow> unit outcome" where
  "can_replace_filters encoded_len send limits handle filters =
     attempt (can_open handle ''can.replace_filters'') (\<lambda>_.
     if filters_error filters \<and> \<not> cs_error_frames (rc_profile handle)
     then Returned (Err (local_error handle ''runtime.protocol.capability_unsupported'' Conflict ''can.replace_filters'' False
       ''the negotiated broker protocol does not advertise CAN error frames''))
     else
       let payload = PReplaceCanFiltersRequest
         \<lparr>wsl_session_id = SessionId_as_str (rh_session_id handle), wsl_lease = Some (LeaseToken_to_proto (rh_lease handle)),
          wfr_filters = Some (CanFilterSet_to_proto filters)\<rparr> in
       attempt (ensure_payload_fits encoded_len limits payload ''can.replace_filters'' (Some (rh_resource_id handle))) (\<lambda>_.
       finish_unit (resource_error handle (send payload (XReplaceCanFilters (rc_profile handle))))))"

definition can_bus_status ::
  "(v1_Envelope \<Rightarrow> usize) \<Rightarrow> sender \<Rightarrow> Limits \<Rightarrow> RemoteCanHandle \<Rightarrow> CanBusStatus outcome" where
  "can_bus_status encoded_len send limits handle =
     attempt (can_open handle ''can.status'') (\<lambda>_.
     let payload = PGetCanBusStatusRequest (session_message handle) in
     attempt (ensure_payload_fits encoded_len limits payload ''can.status'' (Some (rh_resource_id handle))) (\<lambda>_.
     attempt (resource_error handle (send payload (XCanBusStatus (rc_profile handle)))) (\<lambda>payload.
     expect_some (as_GetCanBusStatusResponse payload) (\<lambda>response.
     or_terminate (resource_error handle (get_can_bus_status_response_from_proto response))))))"

definition can_close ::
  "(v1_Envelope \<Rightarrow> usize) \<Rightarrow> sender \<Rightarrow> Limits \<Rightarrow> RemoteCanHandle \<Rightarrow> unit outcome \<times> RemoteCanHandle" where
  "can_close encoded_len send limits handle =
     close_with (attempt (can_open handle ''can.close'') (\<lambda>_.
       let payload = PCloseSessionRequest (session_message handle) in
       attempt (ensure_payload_fits encoded_len limits payload ''can.close'' (Some (rh_resource_id handle))) (\<lambda>_.
       finish_unit (resource_error handle (send payload (XCloseCan (rc_profile handle))))))) handle"

end
