(* ===== verification/Client_Usb_Gpio.thy ===== *)
theory Client_Usb_Gpio
  imports Client_Handles
begin

text \<open>
  The client's methods for USB and GPIO devices (\<open>src/crates/robot-hal-client/src/usb.rs\<close>, \<open>gpio.rs\<close> and
  their openers in \<open>connection.rs\<close>).
\<close>

section \<open>USB\<close>

text \<open>The enumerations of USB, GPIO and camera resources decode every descriptor; the transport was checked before.\<close>

definition decode_resources :: "v1_ResourceDescriptor list \<Rightarrow> ResourceDescriptor list hal_result" where
  "decode_resources resources = collect_results (map ResourceDescriptor_from_proto resources)"

definition enumerate_usb :: "sender \<Rightarrow> Limits \<Rightarrow> ResourceDescriptor list outcome" where
  "enumerate_usb send limits =
     attempt (require_minor_two limits ''usb.enumerate'' None lm_usb_control) (\<lambda>_.
     attempt (send (PEnumerateUsbRequest ()) XEnumerateUsb) (\<lambda>payload.
     expect_some (as_EnumerateUsbResponse payload) (\<lambda>response.
     or_terminate (decode_resources response))))"

definition usb_from_response :: "ResourceId \<Rightarrow> v1_SessionLease \<Rightarrow> RemoteHandle hal_result" where
  "usb_from_response resource_id response =
     map_ok (RemoteHandle_new resource_id)
       (map_err (\<lambda>error. attach_resource error resource_id) (open_usb_response_from_proto response))"

text \<open>The claim is the interface number, a \<open>u8\<close>.\<close>

definition open_usb ::
  "(v1_Envelope \<Rightarrow> usize) \<Rightarrow> sender \<Rightarrow> Limits \<Rightarrow> ResourceSelector \<Rightarrow> u8 \<Rightarrow> RemoteHandle outcome" where
  "open_usb encoded_len send limits selector claim =
     (if rs_transport selector \<noteq> TUsb
      then Returned (Err (invalid_selector selector ''usb.open'' ''USB resource selector transport must be Usb''))
      else attempt (require_minor_two limits ''usb.open'' (Some (rs_id selector)) lm_usb_control) (\<lambda>_.
        attempt (ResourceSelector_to_proto selector) (\<lambda>wire_selector.
        let payload = POpenUsbRequest \<lparr>wou_selector = Some wire_selector, wou_interface_number = ucast claim\<rparr> in
        attempt (ensure_payload_fits encoded_len limits payload ''usb.open'' (Some (rs_id selector))) (\<lambda>_.
        attempt (send payload (XOpenUsb (rs_id selector))) (\<lambda>payload.
        expect_some (as_OpenUsbResponse payload) (\<lambda>response.
        or_terminate (usb_from_response (rs_id selector) response)))))))"

abbreviation usb_open :: "RemoteHandle \<Rightarrow> string \<Rightarrow> unit hal_result" where
  "usb_open \<equiv> ensure_open ''the remote USB handle is closed''"

definition usb_request_default :: "SessionId \<Rightarrow> LeaseToken \<Rightarrow> u64 \<Rightarrow> v1_UsbTransferRequest" where
  "usb_request_default session_id lease timeout_ms =
     \<lparr>wsl_session_id = SessionId_as_str session_id, wsl_lease = Some (LeaseToken_to_proto lease), wu_kind = 0,
      wu_request_type = 0, wu_request = 0, wu_value = 0, wu_index = 0, wu_endpoint = 0, wu_data = [], wu_max_bytes = 0,
      wu_timeout_ms = timeout_ms\<rparr>"

definition transfer_to_proto :: "SessionId \<Rightarrow> LeaseToken \<Rightarrow> UsbTransfer \<Rightarrow> u64 \<Rightarrow> v1_UsbTransferRequest" where
  "transfer_to_proto session_id lease transfer timeout_ms =
     (let request = usb_request_default session_id lease timeout_ms; number = enum_number UsbTransferKind_numbers in
      case transfer of
        ControlOut request_type code value index data \<Rightarrow>
          request\<lparr>wu_kind := number USB_TRANSFER_KIND_CONTROL_OUT, wu_request_type := ucast request_type,
            wu_request := ucast code, wu_value := ucast value, wu_index := ucast index, wu_data := data\<rparr>
      | ControlIn request_type code value index max_bytes \<Rightarrow>
          request\<lparr>wu_kind := number USB_TRANSFER_KIND_CONTROL_IN, wu_request_type := ucast request_type,
            wu_request := ucast code, wu_value := ucast value, wu_index := ucast index, wu_max_bytes := of_nat max_bytes\<rparr>
      | BulkOut endpoint data \<Rightarrow>
          request\<lparr>wu_kind := number USB_TRANSFER_KIND_BULK_OUT, wu_endpoint := ucast endpoint, wu_data := data\<rparr>
      | BulkIn endpoint max_bytes \<Rightarrow>
          request\<lparr>wu_kind := number USB_TRANSFER_KIND_BULK_IN, wu_endpoint := ucast endpoint,
            wu_max_bytes := of_nat max_bytes\<rparr>
      | InterruptOut endpoint data \<Rightarrow>
          request\<lparr>wu_kind := number USB_TRANSFER_KIND_INTERRUPT_OUT, wu_endpoint := ucast endpoint, wu_data := data\<rparr>
      | InterruptIn endpoint max_bytes \<Rightarrow>
          request\<lparr>wu_kind := number USB_TRANSFER_KIND_INTERRUPT_IN, wu_endpoint := ucast endpoint,
            wu_max_bytes := of_nat max_bytes\<rparr>)"

fun transfer_supported :: "UsbTransfer \<Rightarrow> Limits \<Rightarrow> bool" where
  "transfer_supported (ControlOut _ _ _ _ _) limits = lm_usb_control limits"
| "transfer_supported (ControlIn _ _ _ _ _) limits = lm_usb_control limits"
| "transfer_supported (BulkOut _ _) limits = lm_usb_bulk limits"
| "transfer_supported (BulkIn _ _) limits = lm_usb_bulk limits"
| "transfer_supported (InterruptOut _ _) limits = lm_usb_interrupt limits"
| "transfer_supported (InterruptIn _ _) limits = lm_usb_interrupt limits"

definition require_usb_transfer :: "Limits \<Rightarrow> string \<Rightarrow> ResourceId \<Rightarrow> UsbTransfer \<Rightarrow> unit hal_result" where
  "require_usb_transfer limits operation resource_id transfer =
     require_minor_two limits operation (Some resource_id) (transfer_supported transfer)"

definition usb_transfer ::
  "(v1_Envelope \<Rightarrow> usize) \<Rightarrow> sender \<Rightarrow> Limits \<Rightarrow> RemoteHandle \<Rightarrow> UsbTransfer \<Rightarrow> duration \<Rightarrow> u8 list outcome" where
  "usb_transfer encoded_len send limits handle transfer timeout =
     attempt (usb_open handle ''usb.transfer'') (\<lambda>_.
     attempt (resource_error handle (UsbTransfer_validate transfer)) (\<lambda>_.
     attempt (wire_timeout handle ''usb.transfer'' ''USB transfer timeout exceeds the wire range'' timeout) (\<lambda>timeout_ms.
     if timeout_ms = 0
     then Returned (Err (argument_error handle ''usb.transfer'' ''USB transfer timeout must be non-zero''))
     else attempt (require_usb_transfer limits ''usb.transfer'' (rh_resource_id handle) transfer) (\<lambda>_.
       let payload = PUsbTransferRequest (transfer_to_proto (rh_session_id handle) (rh_lease handle) transfer timeout_ms) in
       attempt (ensure_payload_fits encoded_len limits payload ''usb.transfer'' (Some (rh_resource_id handle))) (\<lambda>_.
       attempt (resource_error handle (send payload (XUsbTransfer (lm_read limits) (rh_resource_id handle)))) (\<lambda>payload.
       expect_some (as_UsbTransferResponse payload) (\<lambda>response.
       or_terminate (resource_error handle (usb_transfer_response_from_proto response)))))))))"

definition usb_close :: "(v1_Envelope \<Rightarrow> usize) \<Rightarrow> sender \<Rightarrow> Limits \<Rightarrow> RemoteHandle \<Rightarrow> unit outcome \<times> RemoteHandle" where
  "usb_close encoded_len send limits handle =
     close_with (attempt (usb_open handle ''usb.close'') (\<lambda>_.
       let payload = PCloseUsbRequest (session_message handle) in
       attempt (ensure_payload_fits encoded_len limits payload ''usb.close'' (Some (rh_resource_id handle))) (\<lambda>_.
       finish_unit (resource_error handle (send payload (XCloseUsb (rh_resource_id handle))))))) handle"

section \<open>GPIO\<close>

definition enumerate_gpio :: "sender \<Rightarrow> Limits \<Rightarrow> ResourceDescriptor list outcome" where
  "enumerate_gpio send limits =
     attempt (require_minor_two limits ''gpio.enumerate'' None lm_gpio_lines) (\<lambda>_.
     attempt (send (PEnumerateGpioRequest ()) XEnumerateGpio) (\<lambda>payload.
     expect_some (as_EnumerateGpioResponse payload) (\<lambda>response.
     or_terminate (decode_resources response))))"

record RemoteGpioHandle = RemoteHandle +
  rg_line_count :: usize

definition gpio_from_response :: "ResourceId \<Rightarrow> usize \<Rightarrow> v1_SessionLease \<Rightarrow> RemoteGpioHandle hal_result" where
  "gpio_from_response resource_id line_count response =
     map_ok (\<lambda>(session_id, lease). \<lparr>rh_resource_id = resource_id, rh_session_id = session_id, rh_lease = lease,
         rh_closed = False, rg_line_count = line_count\<rparr>)
       (map_err (\<lambda>error. attach_resource error resource_id) (open_gpio_response_from_proto response))"

definition open_gpio ::
  "(v1_Envelope \<Rightarrow> usize) \<Rightarrow> sender \<Rightarrow> Limits \<Rightarrow> ResourceSelector \<Rightarrow> u32 list \<Rightarrow> GpioLineConfig
     \<Rightarrow> RemoteGpioHandle outcome" where
  "open_gpio encoded_len send limits selector lines config =
     (if rs_transport selector \<noteq> TGpio \<or> lines = [] \<or> length lines > MAX_GPIO_EVENTS
      then Returned (Err (invalid_selector selector ''gpio.open'' ''GPIO selector or lines are invalid''))
      else attempt (require_minor_two limits ''gpio.open'' (Some (rs_id selector)) lm_gpio_lines) (\<lambda>_.
        attempt (ResourceSelector_to_proto selector) (\<lambda>wire_selector.
        expect_some (gpio_config_to_proto config) (\<lambda>wire_config.
        let payload = POpenGpioRequest
          \<lparr>wog_selector = Some wire_selector, wog_lines = lines, wog_config = Some wire_config\<rparr> in
        attempt (ensure_payload_fits encoded_len limits payload ''gpio.open'' (Some (rs_id selector))) (\<lambda>_.
        attempt (send payload (XOpenGpio (length lines) (rs_id selector))) (\<lambda>payload.
        expect_some (as_OpenGpioResponse payload) (\<lambda>response.
        or_terminate (gpio_from_response (rs_id selector) (length lines) response))))))))"

abbreviation gpio_open :: "RemoteGpioHandle \<Rightarrow> string \<Rightarrow> unit hal_result" where
  "gpio_open \<equiv> ensure_open ''the remote GPIO handle is closed''"

definition gpio_read :: "sender \<Rightarrow> RemoteGpioHandle \<Rightarrow> bool list outcome" where
  "gpio_read send handle =
     attempt (gpio_open handle ''gpio.read'') (\<lambda>_.
     attempt (resource_error handle (send (PGpioReadRequest (session_message handle))
       (XGpioRead (rg_line_count handle) (rh_resource_id handle)))) (\<lambda>payload.
     expect_some (as_GpioReadResponse payload) (\<lambda>response.
     or_terminate (and_then (gpio_read_response_from_proto response) (\<lambda>values.
       if length values = rg_line_count handle then Ok values
       else Err (local_error handle ''runtime.protocol.invalid_message'' InvalidArgument ''gpio.read'' False
         ''GPIO read response length does not match opened lines''))))))"

definition gpio_write ::
  "(v1_Envelope \<Rightarrow> usize) \<Rightarrow> sender \<Rightarrow> Limits \<Rightarrow> RemoteGpioHandle \<Rightarrow> bool list \<Rightarrow> unit outcome" where
  "gpio_write encoded_len send limits handle values =
     attempt (gpio_open handle ''gpio.write'') (\<lambda>_.
     if length values \<noteq> rg_line_count handle \<or> length values > MAX_GPIO_EVENTS
     then Returned (Err (argument_error handle ''gpio.write'' ''GPIO write values must match opened lines''))
     else
       let payload = PGpioWriteRequest
         \<lparr>wsl_session_id = SessionId_as_str (rh_session_id handle), wsl_lease = Some (LeaseToken_to_proto (rh_lease handle)),
          wgw_values = values\<rparr>
       in attempt (ensure_payload_fits encoded_len limits payload ''gpio.write'' (Some (rh_resource_id handle))) (\<lambda>_.
          finish_unit (resource_error handle (send payload (XGpioWrite (rh_resource_id handle))))))"

definition edge_request_message :: "RemoteGpioHandle \<Rightarrow> GpioEdgeRequest \<Rightarrow> u64 \<Rightarrow> v1_GpioNextEdgeRequest" where
  "edge_request_message handle request timeout_ms =
     \<lparr>wsl_session_id = SessionId_as_str (rh_session_id handle), wsl_lease = Some (LeaseToken_to_proto (rh_lease handle)),
      wge_rising = EdgeMask_contains (er_edges request) Rising, wge_falling = EdgeMask_contains (er_edges request) Falling,
      wge_capacity = of_nat (er_capacity request), wge_timeout_ms = timeout_ms\<rparr>"

definition gpio_next_edge ::
  "(v1_Envelope \<Rightarrow> usize) \<Rightarrow> sender \<Rightarrow> Limits \<Rightarrow> RemoteGpioHandle \<Rightarrow> GpioEdgeRequest \<Rightarrow> duration
     \<Rightarrow> GpioEdgeEvent option outcome" where
  "gpio_next_edge encoded_len send limits handle request timeout =
     attempt (gpio_open handle ''gpio.next_edge'') (\<lambda>_.
     attempt (wire_timeout handle ''gpio.next_edge'' ''GPIO edge timeout exceeds the wire range'' timeout) (\<lambda>timeout_ms.
     if timeout_ms = 0
     then Returned (Err (argument_error handle ''gpio.next_edge'' ''GPIO edge timeout must be non-zero''))
     else attempt (require_minor_two limits ''gpio.next_edge'' (Some (rh_resource_id handle)) lm_gpio_edges) (\<lambda>_.
       let payload = PGpioNextEdgeRequest (edge_request_message handle request timeout_ms) in
       attempt (ensure_payload_fits encoded_len limits payload ''gpio.next_edge'' (Some (rh_resource_id handle))) (\<lambda>_.
       attempt (resource_error handle (send payload (XGpioNextEdge (rh_resource_id handle)))) (\<lambda>payload.
       expect_some (as_GpioNextEdgeResponse payload) (\<lambda>response.
       or_terminate (resource_error handle (gpio_next_edge_response_from_proto response))))))))"

definition gpio_close :: "sender \<Rightarrow> RemoteGpioHandle \<Rightarrow> unit outcome \<times> RemoteGpioHandle" where
  "gpio_close send handle =
     close_with (attempt (gpio_open handle ''gpio.close'') (\<lambda>_.
       finish_unit (resource_error handle (send (PCloseGpioRequest (session_message handle))
         (XCloseGpio (rh_resource_id handle)))))) handle"

end
