(* ===== verification/Client_Camera.thy ===== *)
theory Client_Camera
  imports Client_Usb_Gpio
begin

text \<open>
  The client's methods for cameras (\<open>src/crates/robot-hal-client/src/camera.rs\<close> and the opener in
  \<open>connection.rs\<close>). Frames are read through a read-only mapping of the broker's ring; opening it takes
  the hash function and the operating system's mapping as arguments.
\<close>

section \<open>Opening\<close>

definition enumerate_camera :: "sender \<Rightarrow> Limits \<Rightarrow> ResourceDescriptor list outcome" where
  "enumerate_camera send limits =
     attempt (require_camera_capability limits ''camera.enumerate'' None lm_camera_capture) (\<lambda>_.
     attempt (send (PEnumerateCameraRequest ()) XEnumerateCamera) (\<lambda>payload.
     expect_some (as_EnumerateCameraResponse payload) (\<lambda>response.
     or_terminate (decode_resources response))))"

fun pixel_format_to_proto :: "CameraPixelFormat \<Rightarrow> v1_CameraPixelFormat" where
  "pixel_format_to_proto Nv12 = CAMERA_PIXEL_FORMAT_NV12"
| "pixel_format_to_proto Yuyv = CAMERA_PIXEL_FORMAT_YUYV"
| "pixel_format_to_proto Mjpeg = CAMERA_PIXEL_FORMAT_MJPEG"

definition camera_request_to_proto :: "CameraRequest \<Rightarrow> v1_CameraRequest" where
  "camera_request_to_proto request =
     \<lparr>wcr_format = Some
        \<lparr>wpf_pixel_format = enum_number CameraPixelFormat_numbers (pixel_format_to_proto (cfm_pixel_format (cq_format request))),
         wpf_width = cfm_width (cq_format request), wpf_height = cfm_height (cq_format request)\<rparr>,
      wcr_slot_count = of_nat (cq_slot_count request)\<rparr>"

record RemoteCameraHandle = RemoteHandle +
  rk_mapping_descriptor :: "MappingDescriptor option"

definition camera_from_response :: "ResourceId \<Rightarrow> v1_SessionLease \<Rightarrow> RemoteCameraHandle hal_result" where
  "camera_from_response resource_id response =
     map_ok (\<lambda>(session_id, lease). \<lparr>rh_resource_id = resource_id, rh_session_id = session_id, rh_lease = lease,
         rh_closed = False, rk_mapping_descriptor = None\<rparr>)
       (map_err (\<lambda>error. attach_resource error resource_id) (camera_open_response_from_proto response))"

definition open_camera ::
  "(v1_Envelope \<Rightarrow> usize) \<Rightarrow> sender \<Rightarrow> Limits \<Rightarrow> ResourceSelector \<Rightarrow> CameraRequest \<Rightarrow> RemoteCameraHandle outcome" where
  "open_camera encoded_len send limits selector request =
     (if rs_transport selector \<noteq> TCamera
      then Returned (Err (invalid_selector selector ''camera.open'' ''camera resource selector transport must be Camera''))
      else attempt (require_camera_capability limits ''camera.open'' (Some (rs_id selector)) lm_camera_capture) (\<lambda>_.
        attempt (ResourceSelector_to_proto selector) (\<lambda>wire_selector.
        let payload = POpenCameraRequest
          \<lparr>wco_selector = Some wire_selector, wco_request = Some (camera_request_to_proto request)\<rparr> in
        attempt (ensure_payload_fits encoded_len limits payload ''camera.open'' (Some (rs_id selector))) (\<lambda>_.
        attempt (send payload (XOpenCamera (rs_id selector))) (\<lambda>payload.
        expect_some (as_OpenCameraResponse payload) (\<lambda>response.
        or_terminate (camera_from_response (rs_id selector) response)))))))"

abbreviation camera_open :: "RemoteCameraHandle \<Rightarrow> string \<Rightarrow> unit hal_result" where
  "camera_open \<equiv> ensure_open ''the remote Camera handle is closed''"

definition camera_send ::
  "(v1_Envelope \<Rightarrow> usize) \<Rightarrow> sender \<Rightarrow> Limits \<Rightarrow> RemoteCameraHandle \<Rightarrow> v1_payload \<Rightarrow> ExpectedResponse \<Rightarrow> string
     \<Rightarrow> v1_payload hal_result" where
  "camera_send encoded_len send limits handle payload expected operation =
     and_then (ensure_payload_fits encoded_len limits payload operation (Some (rh_resource_id handle))) (\<lambda>_.
     resource_error handle (send payload expected))"

definition require_camera ::
  "Limits \<Rightarrow> RemoteCameraHandle \<Rightarrow> string \<Rightarrow> (Limits \<Rightarrow> bool) \<Rightarrow> unit hal_result" where
  "require_camera limits handle operation supported =
     require_camera_capability limits operation (Some (rh_resource_id handle)) supported"

section \<open>Frames\<close>

definition camera_capture ::
  "(v1_Envelope \<Rightarrow> usize) \<Rightarrow> sender \<Rightarrow> Limits \<Rightarrow> RemoteCameraHandle \<Rightarrow> duration \<Rightarrow> unit outcome" where
  "camera_capture encoded_len send limits handle timeout =
     attempt (camera_open handle ''camera.capture'') (\<lambda>_.
     attempt (wire_timeout handle ''camera.capture'' ''camera capture timeout exceeds the wire range'' timeout) (\<lambda>timeout_ms.
     if timeout_ms = 0
     then Returned (Err (argument_error handle ''camera.capture'' ''camera capture timeout must be non-zero''))
     else attempt (require_camera limits handle ''camera.capture'' lm_camera_capture) (\<lambda>_.
       finish_unit (camera_send encoded_len send limits handle (PCaptureCameraRequest
         \<lparr>wsl_session_id = SessionId_as_str (rh_session_id handle), wsl_lease = Some (LeaseToken_to_proto (rh_lease handle)),
          wcp_timeout_ms = timeout_ms\<rparr>) (XCaptureCamera (rh_resource_id handle)) ''camera.capture''))))"

text \<open>The descriptor the broker returns is remembered in the handle.\<close>

definition mapping_descriptor ::
  "(v1_Envelope \<Rightarrow> usize) \<Rightarrow> sender \<Rightarrow> Limits \<Rightarrow> RemoteCameraHandle \<Rightarrow> MappingDescriptor outcome \<times> RemoteCameraHandle" where
  "mapping_descriptor encoded_len send limits handle =
     (let ending = attempt (camera_open handle ''camera.mapping_descriptor'') (\<lambda>_.
        attempt (require_camera limits handle ''camera.mapping_descriptor'' lm_camera_frames_shm) (\<lambda>_.
        attempt (camera_send encoded_len send limits handle (PCameraMappingDescriptorRequest (session_message handle))
          (XCameraMappingDescriptor (rh_resource_id handle)) ''camera.mapping_descriptor'') (\<lambda>payload.
        expect_some (as_CameraMappingDescriptorResponse payload) (\<lambda>response.
        or_terminate (resource_error handle
          (and_then (ok_or (invalid_message ''camera mapping descriptor is missing'') response)
            camera_mapping_descriptor_from_proto))))))
      in (ending, case ending of Returned (Ok descriptor) \<Rightarrow> handle\<lparr>rk_mapping_descriptor := Some descriptor\<rparr> | _ \<Rightarrow> handle))"

definition ensure_current_mapping :: "RemoteCameraHandle \<Rightarrow> MappingDescriptor \<Rightarrow> string \<Rightarrow> unit hal_result" where
  "ensure_current_mapping handle descriptor operation =
     (if is_some_and (\<lambda>current. md_name current = md_name descriptor \<and> md_identity current = md_identity descriptor
           \<and> token_bytes (md_token current) = token_bytes (md_token descriptor)
           \<and> md_total_length current = md_total_length descriptor) (rk_mapping_descriptor handle)
      then Ok ()
      else Err (argument_error handle operation ''camera mapping descriptor does not belong to this session''))"

definition open_mapping ::
  "(u8 list \<Rightarrow> u8 list) \<Rightarrow> (mem, IoError) result \<Rightarrow> Limits \<Rightarrow> RemoteCameraHandle \<Rightarrow> MappingDescriptor
     \<Rightarrow> ReadOnlyMapping hal_result" where
  "open_mapping sha256 opened limits handle descriptor =
     and_then (camera_open handle ''camera.mapping.open'') (\<lambda>_.
     and_then (require_camera limits handle ''camera.mapping.open'' lm_camera_frames_shm) (\<lambda>_.
     and_then (ensure_current_mapping handle descriptor ''camera.mapping.open'') (\<lambda>_.
     resource_error handle (ReadOnlyMapping_open sha256 opened descriptor))))"

definition camera_next_frame_lease ::
  "(u8 list \<Rightarrow> u8 list) \<Rightarrow> (mem, IoError) result \<Rightarrow> (v1_Envelope \<Rightarrow> usize) \<Rightarrow> sender \<Rightarrow> Limits \<Rightarrow> RemoteCameraHandle
     \<Rightarrow> MappingDescriptor \<Rightarrow> FrameLease option outcome" where
  "camera_next_frame_lease sha256 opened encoded_len send limits handle descriptor =
     attempt (camera_open handle ''camera.next_frame_lease'') (\<lambda>_.
     attempt (require_camera limits handle ''camera.next_frame_lease'' lm_camera_frames_shm) (\<lambda>_.
     attempt (ensure_current_mapping handle descriptor ''camera.next_frame_lease'') (\<lambda>_.
     attempt (camera_send encoded_len send limits handle (PCameraNextFrameLeaseRequest (session_message handle))
       (XCameraNextFrameLease (rh_resource_id handle)) ''camera.next_frame_lease'') (\<lambda>payload.
     expect_some (as_CameraNextFrameLeaseResponse payload) (\<lambda>response.
     case resource_error handle (camera_next_frame_lease_response_from_proto response) of
       Err error \<Rightarrow> Terminated error
     | Ok None \<Rightarrow> Returned (Ok None)
     | Ok (Some wire_lease) \<Rightarrow>
         attempt (open_mapping sha256 opened limits handle descriptor) (\<lambda>mapping.
         if vh_identity (rm_header mapping) \<noteq> md_identity descriptor
            \<or> wl_slot_index wire_lease \<ge> rc_slot_count (rm_config mapping)
         then Terminated (local_error handle ''runtime.protocol.invalid_message'' InvalidArgument ''camera.next_frame_lease'' False
           ''camera frame lease does not match the opened mapping layout'')
         else Returned (Ok (Some (bind_lease wire_lease descriptor)))))))))"

definition camera_dropped_count ::
  "(v1_Envelope \<Rightarrow> usize) \<Rightarrow> sender \<Rightarrow> Limits \<Rightarrow> RemoteCameraHandle \<Rightarrow> u64 outcome" where
  "camera_dropped_count encoded_len send limits handle =
     attempt (camera_open handle ''camera.dropped_count'') (\<lambda>_.
     attempt (require_camera limits handle ''camera.dropped_count'' lm_camera_capture) (\<lambda>_.
     attempt (camera_send encoded_len send limits handle (PCameraDroppedCountRequest (session_message handle))
       (XCameraDroppedCount (rh_resource_id handle)) ''camera.dropped_count'') (\<lambda>payload.
     expect_some (as_CameraDroppedCountResponse payload) (\<lambda>response. Returned (Ok response)))))"

section \<open>Controls and closing\<close>

definition camera_controls ::
  "(v1_Envelope \<Rightarrow> usize) \<Rightarrow> sender \<Rightarrow> Limits \<Rightarrow> RemoteCameraHandle \<Rightarrow> CameraControlDescriptor list outcome" where
  "camera_controls encoded_len send limits handle =
     attempt (camera_open handle ''camera.controls'') (\<lambda>_.
     attempt (require_camera limits handle ''camera.controls'' lm_camera_controls) (\<lambda>_.
     attempt (camera_send encoded_len send limits handle (PCameraControlsRequest (session_message handle))
       (XCameraControls (rh_resource_id handle)) ''camera.controls'') (\<lambda>payload.
     expect_some (as_CameraControlsResponse payload) (\<lambda>response.
     Returned (resource_error handle (camera_controls_response_from_proto response))))))"

definition get_control ::
  "(v1_Envelope \<Rightarrow> usize) \<Rightarrow> sender \<Rightarrow> Limits \<Rightarrow> RemoteCameraHandle \<Rightarrow> CameraControlKind \<Rightarrow> CameraControlValue outcome" where
  "get_control encoded_len send limits handle kind =
     attempt (camera_open handle ''camera.control.get'') (\<lambda>_.
     attempt (require_camera limits handle ''camera.control.get'' lm_camera_controls) (\<lambda>_.
     attempt (camera_send encoded_len send limits handle (PCameraGetControlRequest
       \<lparr>wsl_session_id = SessionId_as_str (rh_session_id handle), wsl_lease = Some (LeaseToken_to_proto (rh_lease handle)),
        wcg_kind = enum_number CameraControlKind_numbers (control_kind_to_proto kind)\<rparr>)
       (XCameraGetControl (rh_resource_id handle)) ''camera.control.get'') (\<lambda>payload.
     expect_some (as_CameraGetControlResponse payload) (\<lambda>response.
     or_terminate (resource_error handle
       (and_then (ok_or (invalid_message ''camera control value is missing'') response) camera_control_value_from_proto))))))"

definition set_control ::
  "(v1_Envelope \<Rightarrow> usize) \<Rightarrow> sender \<Rightarrow> Limits \<Rightarrow> RemoteCameraHandle \<Rightarrow> CameraControlKind \<Rightarrow> CameraControlValue
     \<Rightarrow> unit outcome" where
  "set_control encoded_len send limits handle kind v =
     attempt (camera_open handle ''camera.control.set'') (\<lambda>_.
     attempt (require_camera limits handle ''camera.control.set'' lm_camera_controls) (\<lambda>_.
     finish_unit (camera_send encoded_len send limits handle (PCameraSetControlRequest
       \<lparr>wsl_session_id = SessionId_as_str (rh_session_id handle), wsl_lease = Some (LeaseToken_to_proto (rh_lease handle)),
        wcs_kind = enum_number CameraControlKind_numbers (control_kind_to_proto kind),
        wcs_value = Some (camera_control_value_to_proto v)\<rparr>)
       (XCameraSetControl (rh_resource_id handle)) ''camera.control.set'')))"

definition set_auto ::
  "(v1_Envelope \<Rightarrow> usize) \<Rightarrow> sender \<Rightarrow> Limits \<Rightarrow> RemoteCameraHandle \<Rightarrow> CameraControlKind \<Rightarrow> bool \<Rightarrow> unit outcome" where
  "set_auto encoded_len send limits handle kind enabled =
     attempt (camera_open handle ''camera.control.auto'') (\<lambda>_.
     attempt (require_camera limits handle ''camera.control.auto'' lm_camera_controls) (\<lambda>_.
     finish_unit (camera_send encoded_len send limits handle (PCameraSetAutoRequest
       \<lparr>wsl_session_id = SessionId_as_str (rh_session_id handle), wsl_lease = Some (LeaseToken_to_proto (rh_lease handle)),
        wca_kind = enum_number CameraControlKind_numbers (control_kind_to_proto kind), wca_enabled = enabled\<rparr>)
       (XCameraSetAuto (rh_resource_id handle)) ''camera.control.auto'')))"

definition camera_close ::
  "(v1_Envelope \<Rightarrow> usize) \<Rightarrow> sender \<Rightarrow> Limits \<Rightarrow> RemoteCameraHandle \<Rightarrow> unit outcome \<times> RemoteCameraHandle" where
  "camera_close encoded_len send limits handle =
     close_with (attempt (camera_open handle ''camera.close'') (\<lambda>_.
       finish_unit (camera_send encoded_len send limits handle (PCloseCameraRequest (session_message handle))
         (XCloseCamera (rh_resource_id handle)) ''camera.close''))) handle"

end
