(* ===== verification/Client_Handles_Props.thy ===== *)
theory Client_Handles_Props
  imports Client_Can Client_Camera Wire_Can_Laws
begin

text \<open>
  The client's methods over responses the connection has validated: no method panics, and what it
  returns satisfies the invariants of its type and the bounds of the request. The contract of the
  connection is the locale \<open>validated_sender\<close>; its reply path satisfies it.
\<close>

section \<open>How methods end\<close>

named_theorems outcome_simps

lemma attempt_ends [outcome_simps]:
  "attempt r f = Panicked \<longleftrightarrow> (\<exists>x. r = Ok x \<and> f x = Panicked)"
  "attempt r f = Terminated e \<longleftrightarrow> (\<exists>x. r = Ok x \<and> f x = Terminated e)"
  "attempt r f = Returned (Ok y) \<longleftrightarrow> (\<exists>x. r = Ok x \<and> f x = Returned (Ok y))"
  by (cases r; simp add: attempt_def)+

lemma expect_some_ends [outcome_simps]:
  "expect_some m g = Panicked \<longleftrightarrow> m = None \<or> (\<exists>x. m = Some x \<and> g x = Panicked)"
  "expect_some m g = Terminated e \<longleftrightarrow> (\<exists>x. m = Some x \<and> g x = Terminated e)"
  "expect_some m g = Returned r \<longleftrightarrow> (\<exists>x. m = Some x \<and> g x = Returned r)"
  by (cases m; simp add: expect_some_def)+

lemma or_terminate_ends [outcome_simps]:
  "or_terminate r \<noteq> Panicked" "or_terminate r = Terminated e \<longleftrightarrow> r = Err e"
  "or_terminate r = Returned (Ok x) \<longleftrightarrow> r = Ok x"
  by (cases r; auto simp: or_terminate_def)+

lemma finish_unit_ends [outcome_simps]:
  "finish_unit r \<noteq> Panicked" "finish_unit r \<noteq> Terminated e"
  by (cases r; simp add: finish_unit_def attempt_def)+

lemma resource_error_Ok [outcome_simps]: "resource_error handle r = Ok x \<longleftrightarrow> r = Ok x"
  by (cases r) (simp_all add: resource_error_def)

lemma camera_send_Ok [outcome_simps]:
  "camera_send encoded_len send limits handle payload expected operation = Ok reply \<longleftrightarrow>
     ensure_payload_fits encoded_len limits payload operation (Some (rh_resource_id handle)) = Ok () \<and> send payload expected = Ok reply"
  by (auto simp: camera_send_def outcome_simps)

lemma then_outcome_ends [outcome_simps]:
  "then_outcome m f = Panicked \<longleftrightarrow> m = Panicked \<or> (\<exists>x. m = Returned (Ok x) \<and> f x = Panicked)"
  "then_outcome m f = Returned (Ok y) \<longleftrightarrow> (\<exists>x. m = Returned (Ok x) \<and> f x = Returned (Ok y))"
  by (cases m; auto simp: then_outcome_def outcome_simps)+

lemma lease_reply [outcome_simps]:
  "(case r of Ok None \<Rightarrow> Returned (Ok None) | Ok (Some w) \<Rightarrow> f w | Err e \<Rightarrow> Terminated e) = Returned (Ok (Some y)) \<longleftrightarrow>
     (\<exists>w. r = Ok (Some w) \<and> f w = Returned (Ok (Some y)))"
  by (cases r) (auto split: option.split)

lemma fst_close_with [outcome_simps]: "fst (close_with ending handle) = ending"
  by (simp add: close_with_def)

section \<open>Validated responses\<close>

lemma matching_Ok [simp]: "matching expected r f = Ok () \<longleftrightarrow> (\<exists>x. r = Some x \<and> f x = Ok ())"
  by (cases r) (simp_all add: matching_def)

lemma checked_Ok [simp]: "checked resource_id r = Ok () \<longleftrightarrow> (\<exists>x. r = Ok x)"
  by (cases r) (simp_all add: checked_def)

lemma require_that_Ok [simp]: "require_that resource_id c message = Ok () \<longleftrightarrow> c"
  by (simp add: require_that_def)

lemma received_bytes_Ok:
  "received_bytes profile n frames = Ok m \<Longrightarrow> m = n + sum_list (map (length \<circ> CanFrame_data \<circ> rf_frame) frames)"
proof (induction frames arbitrary: n)
  case (Cons received frames)
  from Cons.prems have "received_bytes profile (n + length (CanFrame_data (rf_frame received))) frames = Ok m" by auto
  from Cons.IH [OF this] show ?case by simp
qed simp

lemma decoded_descriptor_wf: "ResourceDescriptor_from_proto w = Ok d \<Longrightarrow> descriptor_wf d"
proof -
  have "bt_wf (fold (\<lambda>(k, v). bt_insert k v) es m)" if "bt_wf m" for es and m :: "(string, string) btreemap"
    using that by (induction es arbitrary: m) (auto simp: bt_wf_insert)
  then have "bt_wf (bt_of_list es)" for es :: "(string \<times> string) list" by (simp add: bt_of_list_def)
  then show "ResourceDescriptor_from_proto w = Ok d \<Longrightarrow> descriptor_wf d"
    by (auto simp: ResourceDescriptor_from_proto_def descriptor_wf_def selector_wf_def descriptor_capabilities_Ok
        serial_capability_valid split: if_splits)
qed

abbreviation descriptors_of :: "TransportKind \<Rightarrow> ResourceDescriptor list \<Rightarrow> bool" where
  "descriptors_of transport \<equiv> list_all (\<lambda>d. descriptor_wf d \<and> rd_transport d = transport)"

lemma validate_resources_Ok:
  assumes "validate_resources transport message resources = Ok ()"
  shows "\<exists>descriptors. decode_resources resources = Ok descriptors \<and> descriptors_of transport descriptors"
proof -
  have "\<exists>d. ResourceDescriptor_from_proto r = Ok d \<and> rd_transport d = transport" if "r \<in> set resources" for r
    using assms that unfolding validate_resources_def
    by (auto simp: collect_results_map_eq_Ok list_all2_conv_all_nth in_set_conv_nth split: if_splits)
  then have "\<forall>r\<in>set resources. \<exists>d. ResourceDescriptor_from_proto r = Ok d \<and> rd_transport d = transport" by blast
  then obtain g where "\<forall>r\<in>set resources. ResourceDescriptor_from_proto r = Ok (g r) \<and> rd_transport (g r) = transport"
    by metis
  then have "decode_resources resources = Ok (map g resources)" "descriptors_of transport (map g resources)"
    unfolding decode_resources_def
    by (auto simp: collect_results_map_eq_Ok list_all2_map2 list_all_iff list_all2_conv_all_nth decoded_descriptor_wf)
  then show ?thesis by blast
qed

lemma checked_descriptors:
  assumes "collect_results (map (\<lambda>value. and_then (ResourceDescriptor_from_proto value) (\<lambda>descriptor.
       if rd_transport descriptor \<noteq> transport then Err e else Ok descriptor)) resources) = Ok ds"
  shows "descriptors_of transport ds"
  using assms by (auto simp: collect_results_map_eq_Ok list_all2_conv_all_nth list_all_length decoded_descriptor_wf
      split: if_splits)

text \<open>
  An open handle for a resource: its session identifier and its lease are valid, and the lease has the
  mode that was asked for.
\<close>

definition opened_for :: "ResourceId \<Rightarrow> LeaseMode \<Rightarrow> 'a RemoteHandle_scheme \<Rightarrow> bool" where
  "opened_for resource_id mode handle \<longleftrightarrow>
     rh_resource_id handle = resource_id \<and> \<not> rh_closed handle \<and> lt_mode (rh_lease handle) = mode
     \<and> valid_identifier (SessionId_as_str (rh_session_id handle)) \<and> wire_lease_wf (rh_lease handle)"

locale validated_sender =
  fixes send :: sender
  assumes validated: "send payload expected = Ok reply \<Longrightarrow> validate_response expected reply = Ok ()"
begin

lemma no_panic_serial:
  "enumerate_serial send \<noteq> Panicked" "open_serial send selector serial_config \<noteq> Panicked"
  "serial_read send limits handle n \<noteq> Panicked" "serial_write request_len send limits handle bytes \<noteq> Panicked"
  "serial_flush send handle \<noteq> Panicked" "set_control_lines send handle lines \<noteq> Panicked"
  "fst (serial_close send handle) \<noteq> Panicked"
  by (auto simp: enumerate_serial_def open_serial_def serial_read_def serial_write_def serial_flush_def
      set_control_lines_def serial_close_def validate_response_def outcome_simps dest!: validated)

lemma no_panic_usb:
  "enumerate_usb send limits \<noteq> Panicked" "open_usb encoded_len send limits selector claim \<noteq> Panicked"
  "usb_transfer encoded_len send limits handle transfer timeout \<noteq> Panicked"
  "fst (usb_close encoded_len send limits handle) \<noteq> Panicked"
  by (auto simp: enumerate_usb_def open_usb_def usb_transfer_def usb_close_def Let_def validate_response_def
      outcome_simps dest!: validated)

lemma no_panic_gpio:
  "enumerate_gpio send limits \<noteq> Panicked"
  "gpio_config_wf config \<Longrightarrow> open_gpio encoded_len send limits selector lines config \<noteq> Panicked"
  "gpio_read send handle \<noteq> Panicked" "gpio_write encoded_len send limits handle values \<noteq> Panicked"
  "gpio_next_edge encoded_len send limits handle request timeout \<noteq> Panicked"
  "fst (gpio_close send handle) \<noteq> Panicked"
  by (auto simp: enumerate_gpio_def open_gpio_def gpio_read_def gpio_write_def gpio_next_edge_def gpio_close_def
      Let_def validate_response_def outcome_simps gpio_config_to_proto_def gpio_config_wf_def
      split: GpioDirection.splits option.splits dest!: validated)

lemma no_panic_can:
  "enumerate_can send limits \<noteq> Panicked" "open_can encoded_len send limits selector mode config filters \<noteq> Panicked"
  "can_send_batch encoded_len send limits handle frames \<noteq> Panicked" "can_send encoded_len send limits handle frame \<noteq> Panicked"
  "can_receive frame_len encoded_len send limits handle n timeout \<noteq> Panicked"
  "can_replace_filters encoded_len send limits handle filters \<noteq> Panicked"
  "can_bus_status encoded_len send limits handle \<noteq> Panicked" "fst (can_close encoded_len send limits handle) \<noteq> Panicked"
proof -
  show e: "enumerate_can send limits \<noteq> Panicked" for limits
    by (auto simp: enumerate_can_def validate_response_def outcome_simps dest!: validated)
  show "open_can encoded_len send limits selector mode config filters \<noteq> Panicked"
    by (auto simp: open_can_def e Let_def validate_response_def outcome_simps dest!: validated)
  show b: "can_send_batch encoded_len send limits handle frames \<noteq> Panicked" for frames
    by (auto simp: can_send_batch_def Let_def validate_response_def outcome_simps dest!: validated)
  then show "can_send encoded_len send limits handle frame \<noteq> Panicked" by (simp add: can_send_def)
  show "can_receive frame_len encoded_len send limits handle n timeout \<noteq> Panicked"
    by (auto simp: can_receive_def Let_def validate_response_def outcome_simps dest!: validated)
  show "can_replace_filters encoded_len send limits handle filters \<noteq> Panicked"
    "can_bus_status encoded_len send limits handle \<noteq> Panicked" "fst (can_close encoded_len send limits handle) \<noteq> Panicked"
    by (auto simp: can_replace_filters_def can_bus_status_def can_close_def Let_def validate_response_def outcome_simps
        dest!: validated)
qed

lemma no_panic_camera:
  "enumerate_camera send limits \<noteq> Panicked" "open_camera encoded_len send limits selector request \<noteq> Panicked"
  "camera_capture encoded_len send limits handle timeout \<noteq> Panicked"
  "fst (mapping_descriptor encoded_len send limits handle) \<noteq> Panicked"
  "camera_next_frame_lease sha256 opened encoded_len send limits handle descriptor \<noteq> Panicked"
  "camera_dropped_count encoded_len send limits handle \<noteq> Panicked" "camera_controls encoded_len send limits handle \<noteq> Panicked"
  "get_control encoded_len send limits handle kind \<noteq> Panicked" "set_control encoded_len send limits handle kind v \<noteq> Panicked"
  "set_auto encoded_len send limits handle kind enabled \<noteq> Panicked" "fst (camera_close encoded_len send limits handle) \<noteq> Panicked"
  by (auto simp: enumerate_camera_def open_camera_def camera_capture_def mapping_descriptor_def camera_next_frame_lease_def
      camera_dropped_count_def camera_controls_def get_control_def set_control_def set_auto_def camera_close_def
      Let_def validate_response_def outcome_simps split: result.splits option.splits if_splits dest!: validated)

lemma enumerated:
  "enumerate_serial send = Returned (Ok ds) \<Longrightarrow> descriptors_of TSerial ds"
  "enumerate_usb send limits = Returned (Ok ds) \<Longrightarrow> descriptors_of TUsb ds"
  "enumerate_gpio send limits = Returned (Ok ds) \<Longrightarrow> descriptors_of TGpio ds"
  "enumerate_can send limits = Returned (Ok ds) \<Longrightarrow> descriptors_of TCan ds"
  "enumerate_camera send limits = Returned (Ok ds) \<Longrightarrow> descriptors_of TCamera ds"
  by (auto simp: enumerate_serial_def enumerate_usb_def enumerate_gpio_def enumerate_can_def enumerate_camera_def
      enumerate_serial_response_from_proto_def enumerate_can_response_from_proto_def validate_response_def outcome_simps
      dest!: validated validate_resources_Ok checked_descriptors)

lemma not_terminated_usb_gpio:
  "enumerate_usb send limits \<noteq> Terminated e" "open_usb encoded_len send limits selector claim \<noteq> Terminated e"
  "usb_transfer encoded_len send limits handle transfer timeout \<noteq> Terminated e"
  "enumerate_gpio send limits \<noteq> Terminated e" "open_gpio encoded_len send limits selector lines config \<noteq> Terminated e"
  "gpio_read send gpio \<noteq> Terminated e" "gpio_next_edge encoded_len send limits gpio request timeout \<noteq> Terminated e"
  by (auto simp: enumerate_usb_def open_usb_def usb_transfer_def enumerate_gpio_def open_gpio_def gpio_read_def
      gpio_next_edge_def usb_from_response_def gpio_from_response_def Let_def validate_response_def outcome_simps
      resource_error_def dest!: validated validate_resources_Ok)

lemma not_terminated_can:
  "enumerate_can send limits \<noteq> Terminated e" "open_can encoded_len send limits selector mode config filters \<noteq> Terminated e"
  "can_send_batch encoded_len send limits handle frames \<noteq> Terminated e"
  "can_receive frame_len encoded_len send limits handle n timeout \<noteq> Terminated e"
  "can_bus_status encoded_len send limits handle \<noteq> Terminated e"
proof -
  show en: "enumerate_can send limits \<noteq> Terminated e" for limits
    by (auto simp: enumerate_can_def validate_response_def outcome_simps dest!: validated)
  show "open_can encoded_len send limits selector mode config filters \<noteq> Terminated e"
    by (cases "enumerate_can send limits")
      (auto simp: open_can_def en can_from_response_def then_outcome_def Let_def validate_response_def outcome_simps
        dest!: validated)
  show "can_send_batch encoded_len send limits handle frames \<noteq> Terminated e"
    "can_receive frame_len encoded_len send limits handle n timeout \<noteq> Terminated e"
    "can_bus_status encoded_len send limits handle \<noteq> Terminated e"
    by (auto simp: can_send_batch_def can_receive_def can_bus_status_def Let_def validate_response_def outcome_simps
        resource_error_def validate_can_receive_def dest!: validated)
qed

lemma can_received:
  assumes "can_receive frame_len encoded_len send limits handle n timeout = Returned (Ok frames)"
  shows "length frames \<le> n" "list_all received_frame_wf frames"
    "list_all (\<lambda>r. frame_allowed (rc_profile handle) (rf_frame r)
       \<and> (rf_timestamp r \<noteq> None \<longrightarrow> cs_timestamps (rc_profile handle))) frames"
    "sum_list (map (length \<circ> CanFrame_data \<circ> rf_frame) frames) \<le> lm_read limits"
proof -
  obtain response where f: "received_can_frames_from_proto response n = Ok frames"
      and v: "validate_can_receive n (lm_read limits) (rc_profile handle) response = Ok ()"
    using assms by (auto simp: can_receive_def Let_def validate_response_def outcome_simps split: if_splits dest!: validated)
  show "length frames \<le> n" "list_all received_frame_wf frames" using f by (simp_all add: received_frames_from_Ok)
  from v show "list_all (\<lambda>r. frame_allowed (rc_profile handle) (rf_frame r)
       \<and> (rf_timestamp r \<noteq> None \<longrightarrow> cs_timestamps (rc_profile handle))) frames"
    "sum_list (map (length \<circ> CanFrame_data \<circ> rf_frame) frames) \<le> lm_read limits"
    by (auto simp: validate_can_receive_def f list_all_iff split: if_splits dest!: received_bytes_Ok)
qed

lemma can_sent:
  assumes "can_send_batch encoded_len send limits handle frames = Returned (Ok (Err batch))"
  shows "bs_committed batch < length frames"
proof -
  obtain w r where "can_send_response_from_proto w (length frames) = Ok r"
      and "map_err (\<lambda>error. backend_prefix (attach_resource (bs_error error) (rh_resource_id handle)) (bs_committed error)) r
        = Err batch"
    using assms by (auto simp: can_send_batch_def Let_def outcome_simps split: if_splits)
  then show ?thesis by (cases r) (auto simp: send_response_err backend_prefix_def)
qed

lemma transferred:
  assumes "usb_transfer encoded_len send limits handle transfer timeout = Returned (Ok data)"
  shows "length data \<le> lm_read limits" "length data \<le> MAX_USB_TRANSFER_BYTES"
  using assms
  by (auto simp: usb_transfer_def Let_def validate_response_def outcome_simps usb_transfer_response_from_proto_def
      split: if_splits dest!: validated)

lemma gpio_values:
  assumes "gpio_read send handle = Returned (Ok values)"
  shows "length values = rg_line_count handle" "values \<noteq> []" "length values \<le> MAX_GPIO_EVENTS"
  using assms by (auto simp: gpio_read_def outcome_simps gpio_read_response_from_proto_def split: if_splits)

lemma gpio_edge:
  assumes "gpio_next_edge encoded_len send limits handle request timeout = Returned (Ok (Some event))"
  shows "edge_event_wf event"
  using assms by (auto simp: gpio_next_edge_def Let_def outcome_simps gpio_next_edge_response_from_proto_def
      gpio_edge_event_from_Ok split: if_splits)

lemma bus_status:
  assumes "can_bus_status encoded_len send limits handle = Returned (Ok status)"
  shows "send (PGetCanBusStatusRequest (session_message handle)) (XCanBusStatus (rc_profile handle))
    = Ok (PGetCanBusStatusResponse (Some (CanBusStatus_to_proto status)))"
  using assms by (auto simp: can_bus_status_def Let_def outcome_simps get_can_bus_status_response_from_proto_def)

lemma mapped:
  assumes "mapping_descriptor encoded_len send limits handle = (Returned (Ok descriptor), handle')"
  shows "mapping_descriptor_wf descriptor" "handle' = handle\<lparr>rk_mapping_descriptor := Some descriptor\<rparr>"
proof -
  let ?ending = "fst (mapping_descriptor encoded_len send limits handle)"
  have "snd (mapping_descriptor encoded_len send limits handle)
      = (case ?ending of Returned (Ok descriptor) \<Rightarrow> handle\<lparr>rk_mapping_descriptor := Some descriptor\<rparr> | _ \<Rightarrow> handle)"
    by (simp add: mapping_descriptor_def Let_def)
  then show "handle' = handle\<lparr>rk_mapping_descriptor := Some descriptor\<rparr>" by (simp add: assms)
  show "mapping_descriptor_wf descriptor"
    using assms by (auto simp: mapping_descriptor_def Let_def outcome_simps)
qed

lemma controls_decoded:
  "camera_controls encoded_len send limits handle = Returned (Ok controls) \<Longrightarrow>
     length controls \<le> 4 \<and> list_all control_descriptor_wf controls"
  "get_control encoded_len send limits handle kind = Returned (Ok v) \<Longrightarrow> control_value_wf v"
  by (auto simp: camera_controls_def get_control_def outcome_simps camera_controls_response_from_proto_def
      collect_results_map_eq_Ok list_all2_conv_all_nth list_all_length split: if_splits)

lemma dropped:
  "camera_dropped_count encoded_len send limits handle = Returned (Ok drops) \<Longrightarrow>
     send (PCameraDroppedCountRequest (session_message handle)) (XCameraDroppedCount (rh_resource_id handle))
       = Ok (PCameraDroppedCountResponse drops)"
  by (auto simp: camera_dropped_count_def outcome_simps)

lemma leased:
  assumes "camera_next_frame_lease sha256 opened encoded_len send limits handle descriptor = Returned (Ok (Some lease))"
  shows "fl_identity lease = md_identity descriptor" "fl_slot_index lease < MAX_CAMERA_SLOT_COUNT"
    "fl_sequence lease \<noteq> 0" "fl_generation lease \<noteq> 0"
    "\<exists>mapping. ReadOnlyMapping_open sha256 opened descriptor = Ok mapping \<and> fl_slot_index lease < rc_slot_count (rm_config mapping)"
proof -
  obtain response w mapping where w: "camera_next_frame_lease_response_from_proto response = Ok (Some w)"
      and m: "open_mapping sha256 opened limits handle descriptor = Ok mapping" "wl_slot_index w < rc_slot_count (rm_config mapping)"
      and l: "lease = bind_lease w descriptor"
    using assms by (auto simp: camera_next_frame_lease_def outcome_simps split: if_splits)
  have "wl_slot_index w < MAX_CAMERA_SLOT_COUNT \<and> wl_sequence w \<noteq> 0 \<and> wl_lease_generation w \<noteq> 0"
    using w by (auto simp: camera_next_frame_lease_response_from_proto_def Let_def split: option.splits if_splits)
  then show "fl_identity lease = md_identity descriptor" "fl_slot_index lease < MAX_CAMERA_SLOT_COUNT"
    "fl_sequence lease \<noteq> 0" "fl_generation lease \<noteq> 0"
    by (simp_all add: l bind_lease_def)
  have "ReadOnlyMapping_open sha256 opened descriptor = Ok mapping"
    using m(1) by (auto simp: open_mapping_def outcome_simps)
  then show "\<exists>mapping. ReadOnlyMapping_open sha256 opened descriptor = Ok mapping
      \<and> fl_slot_index lease < rc_slot_count (rm_config mapping)"
    using m(2) by (auto simp: l bind_lease_def)
qed

lemma opened_sessions:
  "open_serial send selector serial_config = Returned (Ok serial) \<Longrightarrow> opened_for (rs_id selector) Control serial"
  "open_usb encoded_len send limits selector claim = Returned (Ok usb) \<Longrightarrow> opened_for (rs_id selector) Control usb"
  "open_gpio encoded_len send limits selector lines config = Returned (Ok gpio) \<Longrightarrow>
     opened_for (rs_id selector) Control gpio \<and> rg_line_count gpio = length lines"
  "open_can encoded_len send limits selector mode can_config filters = Returned (Ok can) \<Longrightarrow>
     opened_for (rs_id selector) mode can \<and> cs_resource_id (rc_profile can) = rs_id selector
     \<and> cs_session_id (rc_profile can) = rh_session_id can"
  "open_camera encoded_len send limits selector camera_request = Returned (Ok camera) \<Longrightarrow>
     opened_for (rs_id selector) Control camera \<and> rk_mapping_descriptor camera = None"
  by (auto simp: open_serial_def open_usb_def open_gpio_def open_can_def open_camera_def Let_def outcome_simps
      serial_from_response_def usb_from_response_def gpio_from_response_def can_from_response_def camera_from_response_def
      RemoteHandle_new_def open_serial_response_from_proto_def open_usb_response_from_proto_def
      open_gpio_response_from_proto_def open_can_response_from_proto_def camera_open_response_from_proto_def
      camera_session_lease_from_proto_def opened_for_def split: if_splits)

end

section \<open>The reply path of the connection\<close>

text \<open>
  What \<open>HalClient::send\<close> gives back when the broker answers a request with \<open>answer\<close>: the pending
  request's result, as the reader task computes it.
\<close>

definition reply_sender :: "(v1_payload \<Rightarrow> ExpectedResponse \<Rightarrow> v1_payload Payload) \<Rightarrow> sender" where
  "reply_sender answer payload expected = pending_result validate_response expected (answer payload expected)"

interpretation reply: validated_sender "reply_sender answer" for answer
  by unfold_locales (auto simp: reply_sender_def pending_result_def split: Payload.splits)

text \<open>
  C12. No client method panics: whatever payload the broker sends in reply, an accepted response has
  the shape its request expects, so no \<open>unreachable!\<close> arm of the methods is ever taken.
\<close>

theorem client_never_panics:
  fixes answer :: "v1_payload \<Rightarrow> ExpectedResponse \<Rightarrow> v1_payload Payload"
  assumes "gpio_config_wf line_config"
  defines "send \<equiv> reply_sender answer"
  shows "enumerate_serial send \<noteq> Panicked \<and> open_serial send selector serial_config \<noteq> Panicked
    \<and> serial_read send limits serial n \<noteq> Panicked \<and> serial_write request_len send limits serial bytes \<noteq> Panicked
    \<and> serial_flush send serial \<noteq> Panicked \<and> set_control_lines send serial control_lines \<noteq> Panicked
    \<and> fst (serial_close send serial) \<noteq> Panicked
    \<and> enumerate_usb send limits \<noteq> Panicked \<and> open_usb len send limits selector claim \<noteq> Panicked
    \<and> usb_transfer len send limits usb transfer timeout \<noteq> Panicked \<and> fst (usb_close len send limits usb) \<noteq> Panicked
    \<and> enumerate_gpio send limits \<noteq> Panicked \<and> open_gpio len send limits selector lines line_config \<noteq> Panicked
    \<and> gpio_read send gpio \<noteq> Panicked \<and> gpio_write len send limits gpio values \<noteq> Panicked
    \<and> gpio_next_edge len send limits gpio request timeout \<noteq> Panicked \<and> fst (gpio_close send gpio) \<noteq> Panicked
    \<and> enumerate_can send limits \<noteq> Panicked \<and> open_can len send limits selector mode config filters \<noteq> Panicked
    \<and> can_send_batch len send limits can frames \<noteq> Panicked \<and> can_receive frame_len len send limits can n timeout \<noteq> Panicked
    \<and> can_replace_filters len send limits can filters \<noteq> Panicked \<and> can_bus_status len send limits can \<noteq> Panicked
    \<and> fst (can_close len send limits can) \<noteq> Panicked
    \<and> enumerate_camera send limits \<noteq> Panicked \<and> open_camera len send limits selector camera_request \<noteq> Panicked
    \<and> camera_capture len send limits camera timeout \<noteq> Panicked \<and> fst (mapping_descriptor len send limits camera) \<noteq> Panicked
    \<and> camera_next_frame_lease sha256 opened len send limits camera descriptor \<noteq> Panicked
    \<and> camera_dropped_count len send limits camera \<noteq> Panicked \<and> camera_controls len send limits camera \<noteq> Panicked
    \<and> get_control len send limits camera kind \<noteq> Panicked \<and> set_control len send limits camera kind v \<noteq> Panicked
    \<and> set_auto len send limits camera kind enabled \<noteq> Panicked \<and> fst (camera_close len send limits camera) \<noteq> Panicked"
  unfolding send_def
  by (intro conjI reply.no_panic_serial reply.no_panic_usb reply.no_panic_gpio reply.no_panic_can reply.no_panic_camera assms(1))

text \<open>Witness: the broker answers every request with a serial read response.\<close>

definition sample_handle :: RemoteHandle where
  "sample_handle = RemoteHandle_new (ResourceId ''serial:left'')
     (SessionId ''session-1'', \<lparr>lt_lease_id = LeaseId ''lease-1'', lt_generation = 1, lt_mode = Control\<rparr>)"

definition sample_limits :: Limits where
  "sample_limits = (requested_limits (ConnectionOptions_new ''broker.sock'' []))\<lparr>lm_usb_control := True\<rparr>"

definition serial_answer :: "v1_payload \<Rightarrow> ExpectedResponse \<Rightarrow> v1_payload Payload" where
  "serial_answer payload expected = OtherPayload (PSerialReadResponse [1])"

lemma sample_ends:
  "enumerate_usb (reply_sender serial_answer) sample_limits = Returned (Err unexpected_response)"
  "serial_read (reply_sender serial_answer) sample_limits sample_handle 4 = Returned (Ok [1])"
  by (simp_all add: enumerate_usb_def serial_read_def reply_sender_def pending_result_def serial_answer_def validate_response_def
      matching_def as_EnumerateUsbResponse_def as_SerialReadResponse_def unexpected_for_def expected_resource_id_def
      attach_optional_def attempt_def expect_some_def require_minor_two_def require_wire_minor_def sample_limits_def
      requested_limits_def PROTOCOL_MINOR_MAXIMUM_def ensure_open_def sample_handle_def RemoteHandle_new_def
      resource_error_def ConnectionOptions_new_def DEFAULT_TRANSFER_BYTES_def)

lemma client_never_panics_witness:
  "let config = \<lparr>gl_direction = Input, gl_active_low = False, gl_bias = Disabled, gl_drive = None, gl_initial_value = None\<rparr> in
     gpio_config_wf config
     \<and> enumerate_usb (reply_sender serial_answer) sample_limits = Returned (Err unexpected_response)
     \<and> enumerate_usb (reply_sender serial_answer) sample_limits \<noteq> Panicked"
proof -
  let ?c = "\<lparr>gl_direction = Input, gl_active_low = False, gl_bias = Disabled, gl_drive = None, gl_initial_value = None\<rparr>"
  have "gpio_config_wf ?c" by (simp add: gpio_config_wf_def)
  then show ?thesis using client_never_panics [of ?c serial_answer] sample_ends(1) by simp
qed

text \<open>
  C13. What the methods return, whatever the broker replies. Enumerated resources are well formed and of
  the transport asked for. A new handle is open, belongs to the selected resource and holds a valid
  session identifier and a valid lease of the requested mode. A serial read stays within its request
  and the negotiated maximum, a USB transfer within the negotiated and the public maximum; a GPIO read
  has one value per opened line, an edge event a sequence number. Received CAN frames are well formed,
  at most as many as asked for, allowed by the session profile and within the negotiated read
  maximum; a failed batch names a strict prefix. A mapping descriptor is well formed and remembered in
  the handle, a frame lease belongs to the mapping it is used with, controls are at most four well
  formed descriptors and a control value is well formed. A bus status and a dropped count are what the
  broker's response says.
\<close>

theorem client_results_typed:
  fixes answer :: "v1_payload \<Rightarrow> ExpectedResponse \<Rightarrow> v1_payload Payload"
  defines "send \<equiv> reply_sender answer"
  shows "(enumerate_serial send = Returned (Ok ds) \<longrightarrow> descriptors_of TSerial ds)
    \<and> (enumerate_can send limits = Returned (Ok ds) \<longrightarrow> descriptors_of TCan ds)
    \<and> (enumerate_usb send limits = Returned (Ok ds) \<longrightarrow> descriptors_of TUsb ds)
    \<and> (enumerate_gpio send limits = Returned (Ok ds) \<longrightarrow> descriptors_of TGpio ds)
    \<and> (enumerate_camera send limits = Returned (Ok ds) \<longrightarrow> descriptors_of TCamera ds)
    \<and> (open_serial send selector serial_config = Returned (Ok serial) \<longrightarrow> opened_for (rs_id selector) Control serial)
    \<and> (open_usb len send limits selector claim = Returned (Ok usb) \<longrightarrow> opened_for (rs_id selector) Control usb)
    \<and> (open_gpio len send limits selector lines line_config = Returned (Ok gpio) \<longrightarrow>
         opened_for (rs_id selector) Control gpio \<and> rg_line_count gpio = length lines)
    \<and> (open_can len send limits selector mode config filters = Returned (Ok can) \<longrightarrow>
         opened_for (rs_id selector) mode can \<and> cs_resource_id (rc_profile can) = rs_id selector
         \<and> cs_session_id (rc_profile can) = rh_session_id can)
    \<and> (open_camera len send limits selector camera_request = Returned (Ok camera) \<longrightarrow>
         opened_for (rs_id selector) Control camera \<and> rk_mapping_descriptor camera = None)
    \<and> (serial_read send limits serial n = Returned (Ok data) \<longrightarrow> length data \<le> n \<and> n \<le> lm_read limits)
    \<and> (usb_transfer len send limits usb transfer timeout = Returned (Ok data) \<longrightarrow>
         length data \<le> lm_read limits \<and> length data \<le> MAX_USB_TRANSFER_BYTES)
    \<and> (gpio_read send gpio = Returned (Ok values) \<longrightarrow>
         length values = rg_line_count gpio \<and> values \<noteq> [] \<and> length values \<le> MAX_GPIO_EVENTS)
    \<and> (gpio_next_edge len send limits gpio request timeout = Returned (Ok (Some event)) \<longrightarrow> edge_event_wf event)
    \<and> (can_send_batch len send limits can frames = Returned (Ok (Err batch)) \<longrightarrow> bs_committed batch < length frames)
    \<and> (can_receive frame_len len send limits can n timeout = Returned (Ok received) \<longrightarrow>
         length received \<le> n \<and> list_all received_frame_wf received
         \<and> list_all (\<lambda>r. frame_allowed (rc_profile can) (rf_frame r)
              \<and> (rf_timestamp r \<noteq> None \<longrightarrow> cs_timestamps (rc_profile can))) received
         \<and> sum_list (map (length \<circ> CanFrame_data \<circ> rf_frame) received) \<le> lm_read limits)
    \<and> (can_bus_status len send limits can = Returned (Ok status) \<longrightarrow>
         send (PGetCanBusStatusRequest (session_message can)) (XCanBusStatus (rc_profile can))
           = Ok (PGetCanBusStatusResponse (Some (CanBusStatus_to_proto status))))
    \<and> (mapping_descriptor len send limits camera = (Returned (Ok descriptor), camera') \<longrightarrow>
         mapping_descriptor_wf descriptor \<and> camera' = camera\<lparr>rk_mapping_descriptor := Some descriptor\<rparr>)
    \<and> (camera_next_frame_lease sha256 opened len send limits camera descriptor = Returned (Ok (Some lease)) \<longrightarrow>
         fl_identity lease = md_identity descriptor \<and> fl_sequence lease \<noteq> 0 \<and> fl_generation lease \<noteq> 0
         \<and> (\<exists>mapping. ReadOnlyMapping_open sha256 opened descriptor = Ok mapping
              \<and> fl_slot_index lease < rc_slot_count (rm_config mapping)))
    \<and> (camera_dropped_count len send limits camera = Returned (Ok drops) \<longrightarrow>
         send (PCameraDroppedCountRequest (session_message camera)) (XCameraDroppedCount (rh_resource_id camera))
           = Ok (PCameraDroppedCountResponse drops))
    \<and> (camera_controls len send limits camera = Returned (Ok controls) \<longrightarrow>
         length controls \<le> 4 \<and> list_all control_descriptor_wf controls)
    \<and> (get_control len send limits camera kind = Returned (Ok v) \<longrightarrow> control_value_wf v)"
proof -
  have "length data \<le> n \<and> n \<le> lm_read limits" if "serial_read send limits serial n = Returned (Ok data)"
    using that by (auto simp: serial_read_def outcome_simps split: if_splits)
  then show ?thesis unfolding send_def
    by (intro conjI impI)
      (erule reply.enumerated reply.transferred reply.gpio_values reply.can_received
        | simp add: reply.opened_sessions reply.gpio_edge reply.can_sent reply.bus_status reply.mapped reply.leased
          reply.dropped reply.controls_decoded)+
qed

text \<open>Witness: a serial read of at most four bytes that returns one.\<close>

lemma client_results_typed_witness:
  "serial_read (reply_sender serial_answer) sample_limits sample_handle 4 = Returned (Ok [1])
   \<and> length [1 :: u8] \<le> 4 \<and> 4 \<le> lm_read sample_limits"
  using client_results_typed [where answer = serial_answer and limits = sample_limits and serial = sample_handle and n = 4
      and data = "[1]"] sample_ends(2) by simp

end
