(* ===== verification/Client_Request_Props.thy ===== *)
theory Client_Request_Props
  imports Client_Handles_Props
begin

text \<open>
  Client methods against the broker's decoders: what a method puts on the wire is decoded by the broker
  as the call it stands for, with the session, the lease and the arguments the caller gave.
\<close>

section \<open>Payloads a method sends\<close>

text \<open>
  A method is a function of the connection that answers its requests. It sends only payloads of a
  kind when two connections that answer these alike give the same outcome: it depends on no other
  request.
\<close>

definition only_sends :: "(v1_payload \<Rightarrow> bool) \<Rightarrow> (sender \<Rightarrow> 'a) \<Rightarrow> bool" where
  "only_sends kind call \<longleftrightarrow>
     (\<forall>send send'. (\<forall>payload expected. kind payload \<longrightarrow> send payload expected = send' payload expected) \<longrightarrow> call send = call send')"

named_theorems sends

lemma only_sendsI:
  "(\<And>send send'. (\<And>payload expected. kind payload \<Longrightarrow> send payload expected = send' payload expected) \<Longrightarrow> call send = call send')
    \<Longrightarrow> only_sends kind call"
  unfolding only_sends_def by blast

lemma sends_const [sends]: "only_sends kind (\<lambda>send. c)"
  by (simp add: only_sends_def)

lemma sends_if [sends]:
  "\<lbrakk>c \<Longrightarrow> only_sends kind f; \<not> c \<Longrightarrow> only_sends kind g\<rbrakk> \<Longrightarrow> only_sends kind (\<lambda>send. if c then f send else g send)"
  by (cases c) simp_all

lemma sends_attempt [sends]:
  "(\<And>x. r = Ok x \<Longrightarrow> only_sends kind (\<lambda>send. f send x)) \<Longrightarrow> only_sends kind (\<lambda>send. attempt r (f send))"
  by (cases r) (simp_all add: attempt_def sends_const)

lemma sends_expect [sends]:
  "(\<And>x. r = Some x \<Longrightarrow> only_sends kind (\<lambda>send. f send x)) \<Longrightarrow> only_sends kind (\<lambda>send. expect_some r (f send))"
  by (cases r) (simp_all add: expect_some_def sends_const)

lemma sends_send [sends]:
  "kind payload \<Longrightarrow> only_sends kind (\<lambda>send. attempt (send payload expected) f)"
  "kind payload \<Longrightarrow> only_sends kind (\<lambda>send. attempt (resource_error handle (send payload expected)) f)"
  "kind payload \<Longrightarrow> only_sends kind (\<lambda>send. attempt (map_err g (send payload expected)) f)"
  "kind payload \<Longrightarrow> only_sends kind (\<lambda>send. finish_unit (resource_error handle (send payload expected)))"
  "kind payload \<Longrightarrow> only_sends kind (\<lambda>send. attempt (camera_send len send limits camera payload expected operation) f)"
  "kind payload \<Longrightarrow> only_sends kind (\<lambda>send. finish_unit (camera_send len send limits camera payload expected operation))"
  by (auto simp: only_sends_def camera_send_def)

lemma sends_comp: "only_sends kind call \<Longrightarrow> only_sends kind (\<lambda>send. g (call send))"
  unfolding only_sends_def by metis

lemmas sends_close [sends] = sends_comp [where g = "\<lambda>ending. close_with ending handle" for handle]

lemma sends_then [sends]:
  "only_sends kind first \<Longrightarrow> (\<And>x. only_sends kind (\<lambda>send. f send x)) \<Longrightarrow>
     only_sends kind (\<lambda>send. then_outcome (first send) (f send))"
proof (rule only_sendsI)
  fix send send' :: sender
  assume first: "only_sends kind first" and f: "\<And>x. only_sends kind (\<lambda>send. f send x)"
    and agree: "\<And>payload expected. kind payload \<Longrightarrow> send payload expected = send' payload expected"
  have "first send = first send'" "f send = f send'"
    using first f agree unfolding only_sends_def by blast+
  then show "then_outcome (first send) (f send) = then_outcome (first send') (f send')" by simp
qed

section \<open>Decoding\<close>









section \<open>Requests as the broker reads them\<close>























end
