(* ===== verification/Broker_Sessions.thy ===== *)
theory Broker_Sessions
  imports Broker_Base
begin

text \<open>
  The sessions a broker connection owns (\<open>src/crates/robot-hal-broker/src/connection.rs\<close>,
  \<open>can_dispatch.rs\<close>, \<open>usb_gpio_dispatch.rs\<close>, \<open>camera_dispatch.rs\<close> and \<open>capability_gate.rs\<close>): one registry
  per device family, the check of a session and its lease before a request reaches the runtime, and
  the retention of closed sessions.
\<close>

section \<open>Errors\<close>

definition with_optional_resource :: "ResourceId option \<Rightarrow> HalError \<Rightarrow> HalError" where
  "with_optional_resource resource error = (case resource of None \<Rightarrow> error | Some r \<Rightarrow> with_resource_id r error)"

definition can_session_error :: "string \<Rightarrow> string \<Rightarrow> string \<Rightarrow> ResourceId option \<Rightarrow> HalError" where
  "can_session_error name operation message resource_id =
     (let category = (if name = ''runtime.session.not_found'' then NotFound else Conflict) in
      with_optional_resource resource_id (hal_error name category operation False message))"

definition session_error :: "string \<Rightarrow> string \<Rightarrow> string \<Rightarrow> ResourceId option \<Rightarrow> HalError" where
  "session_error name operation message resource =
     (let category =
        (if name \<in> {''runtime.session.not_found'', ''runtime.resource.not_found''} then NotFound
         else if name \<in> {''runtime.resource.ambiguous'', ''runtime.lease.stale_generation'', ''runtime.lease.invalid_token'',
             ''runtime.session.closed'', ''runtime.protocol.capability_unsupported''} then Conflict
         else InvalidArgument)
      in with_optional_resource resource (hal_error name category operation False message))"

definition capability_unsupported :: "string \<Rightarrow> ResourceId option \<Rightarrow> HalError" where
  "capability_unsupported message resource_id =
     with_optional_resource resource_id
       (hal_error ''runtime.protocol.capability_unsupported'' Conflict ''runtime.protocol.dispatch'' False message)"

definition require_capability :: "CapabilityId list \<Rightarrow> CapabilityId \<Rightarrow> string \<Rightarrow> ResourceId option \<Rightarrow> unit hal_result" where
  "require_capability capabilities capability name resource_id =
     (if CapabilitySet_contains capabilities capability then Ok ()
      else Err (capability_unsupported (''selected CAN resource does not advertise '' @ name) resource_id))"

text \<open>The gate of the other device families reports the missing capability in the error's context.\<close>

definition capability_require :: "CapabilityId list \<Rightarrow> CapabilityId \<Rightarrow> string \<Rightarrow> ResourceId \<Rightarrow> unit hal_result" where
  "capability_require capabilities capability name resource =
     (if CapabilitySet_contains capabilities capability then Ok ()
      else and_then (HalError_new ''runtime.protocol.capability_unsupported'' Conflict ''runtime.protocol.dispatch'' False
        ''selected resource does not advertise the required capability'') (\<lambda>error.
      and_then (ErrorContext_new [(''capability'', name)]) (\<lambda>ctx.
      Err (with_context ctx (with_resource_id resource error)))))"

text \<open>Every enumeration encodes the descriptors the runtime gives.\<close>

definition encode_resources :: "ResourceDescriptor list \<Rightarrow> v1_ResourceDescriptor list hal_result" where
  "encode_resources resources = collect_results (map ResourceDescriptor_to_proto resources)"

section \<open>Registries\<close>

record SessionRecord =
  sr_resource_id :: ResourceId
  sr_capabilities :: "CapabilityId list"
  sr_lease :: LeaseToken
  sr_closed :: bool

record 'a SessionRegistry =
  sg_sessions :: "(SessionId, 'a SessionRecord_scheme) hashmap"
  sg_closed_order :: "SessionId list"

definition new_session_registry :: "'a SessionRegistry" where
  "new_session_registry = \<lparr>sg_sessions = [], sg_closed_order = []\<rparr>"

definition CLOSED_SESSION_RETENTION :: usize where "CLOSED_SESSION_RETENTION = 256"

definition insert_session :: "SessionId \<Rightarrow> 'a SessionRecord_scheme \<Rightarrow> 'a SessionRegistry \<Rightarrow> 'a SessionRegistry" where
  "insert_session session record registry =
     registry\<lparr>sg_sessions := hm_insert session record (sg_sessions registry)\<rparr>"

text \<open>The eviction loop of CAN, USB and GPIO drops a session only if it is still recorded as closed.\<close>

fun evict_closed :: "SessionId list \<Rightarrow> (SessionId, 'a SessionRecord_scheme) hashmap \<Rightarrow> 'a SessionRegistry" where
  "evict_closed [] sessions = \<lparr>sg_sessions = sessions, sg_closed_order = []\<rparr>"
| "evict_closed (evicted # order) sessions =
     (if length (evicted # order) > CLOSED_SESSION_RETENTION
      then evict_closed order (case hm_get sessions evicted of
          Some record \<Rightarrow> if sr_closed record then hm_remove evicted sessions else sessions
        | None \<Rightarrow> sessions)
      else \<lparr>sg_sessions = sessions, sg_closed_order = evicted # order\<rparr>)"

definition record_closed :: "SessionId \<Rightarrow> 'a SessionRegistry \<Rightarrow> 'a SessionRegistry" where
  "record_closed session registry =
     (case hm_get (sg_sessions registry) session of
        None \<Rightarrow> registry
      | Some record \<Rightarrow>
          if sr_closed record then registry
          else evict_closed (sg_closed_order registry @ [session])
            (hm_insert session (record\<lparr>sr_closed := True\<rparr>) (sg_sessions registry)))"

fun camera_evict_closed :: "SessionId list \<Rightarrow> (SessionId, 'a SessionRecord_scheme) hashmap \<Rightarrow> 'a SessionRegistry" where
  "camera_evict_closed [] sessions = \<lparr>sg_sessions = sessions, sg_closed_order = []\<rparr>"
| "camera_evict_closed (evicted # order) sessions =
     (if length (evicted # order) > CLOSED_SESSION_RETENTION
      then camera_evict_closed order (hm_remove evicted sessions)
      else \<lparr>sg_sessions = sessions, sg_closed_order = evicted # order\<rparr>)"

definition camera_record_closed :: "SessionId \<Rightarrow> 'a SessionRegistry \<Rightarrow> 'a SessionRegistry" where
  "camera_record_closed session registry =
     (case hm_get (sg_sessions registry) session of
        None \<Rightarrow> registry
      | Some record \<Rightarrow>
          if sr_closed record then registry
          else camera_evict_closed (sg_closed_order registry @ [session])
            (hm_insert session (record\<lparr>sr_closed := True\<rparr>) (sg_sessions registry)))"

section \<open>Admission of a session\<close>

definition token_error_name :: "LeaseToken \<Rightarrow> LeaseToken \<Rightarrow> string" where
  "token_error_name supplied lease =
     (if lt_generation supplied < lt_generation lease then ''runtime.lease.stale_generation''
      else ''runtime.lease.invalid_token'')"

text \<open>Cameras: the registry entry itself is the context of the request.\<close>

definition camera_validate ::
  "unit SessionRegistry \<Rightarrow> SessionId \<Rightarrow> LeaseToken \<Rightarrow> string \<Rightarrow> bool \<Rightarrow> SessionRecord hal_result" where
  "camera_validate registry session lease operation allow_closed =
     (case hm_get (sg_sessions registry) session of
        None \<Rightarrow> Err (session_error ''runtime.session.not_found'' operation ''session is not owned by this broker connection'' None)
      | Some record \<Rightarrow>
          if sr_lease record \<noteq> lease then
            Err (session_error (token_error_name lease (sr_lease record)) operation
              ''lease token does not match connection-owned session'' (Some (sr_resource_id record)))
          else if sr_closed record \<and> \<not> allow_closed then
            Err (session_error ''runtime.session.closed'' operation ''session is closed'' (Some (sr_resource_id record)))
          else Ok record)"

datatype SessionKind = KindUsb | KindGpio

record UsbGpioSessionRecord = SessionRecord +
  sr_kind :: SessionKind

type_synonym UsbGpioSessions = "\<lparr>sr_kind :: SessionKind\<rparr> SessionRegistry"

definition usb_gpio_validate ::
  "UsbGpioSessions \<Rightarrow> SessionId \<Rightarrow> LeaseToken \<Rightarrow> SessionKind \<Rightarrow> string \<Rightarrow> bool \<Rightarrow> UsbGpioSessionRecord hal_result" where
  "usb_gpio_validate registry session supplied kind operation allow_closed =
     (case hm_get (sg_sessions registry) session of
        None \<Rightarrow> Err (session_error ''runtime.session.not_found'' operation ''session is not owned by this broker connection'' None)
      | Some record \<Rightarrow>
          if sr_kind record \<noteq> kind then
            Err (session_error ''runtime.session.not_found'' operation ''session is not this hardware class'' None)
          else if sr_lease record \<noteq> supplied then
            Err (session_error (token_error_name supplied (sr_lease record)) operation
              ''lease token does not match connection-owned session'' (Some (sr_resource_id record)))
          else if sr_closed record \<and> \<not> allow_closed then
            Err (session_error ''runtime.session.closed'' operation ''session is closed'' (Some (sr_resource_id record)))
          else Ok record)"

section \<open>Closing\<close>

text \<open>
  A close answers a repeated request for a closed session without calling the runtime. The step of a
  close is shared: the session to record as closed, if the runtime closed it.
\<close>

definition close_step ::
  "(SessionId \<times> LeaseToken) hal_result \<Rightarrow> (SessionId \<Rightarrow> LeaseToken \<Rightarrow> 'a SessionRecord_scheme hal_result)
     \<Rightarrow> (SessionId \<Rightarrow> LeaseToken \<Rightarrow> unit hal_result) \<Rightarrow> SessionId option hal_result" where
  "close_step decoded validate close =
     and_then decoded (\<lambda>(session, lease).
     and_then (validate session lease) (\<lambda>ctx.
     if \<not> sr_closed ctx then map_ok (\<lambda>_. Some session) (close session lease) else Ok None))"

end
