(* ===== verification/Broker_Can.thy ===== *)
theory Broker_Can
  imports Broker_Sessions
begin

text \<open>
  The broker's handlers for CAN requests (\<open>src/crates/robot-hal-broker/src/can_dispatch.rs\<close>). A handler
  decodes the request, checks the session, its lease and the capabilities, bounds the response, calls
  the runtime and encodes its result. The runtime is the record of the results its methods give.
\<close>

section \<open>Response bounds\<close>

definition MAX_CLASSIC_CAN_FRAME_PROTO_BYTES :: usize where "MAX_CLASSIC_CAN_FRAME_PROTO_BYTES = 22"
definition MAX_FD_CAN_FRAME_PROTO_BYTES :: usize where "MAX_FD_CAN_FRAME_PROTO_BYTES = 82"
definition MAX_ERROR_CAN_FRAME_PROTO_BYTES :: usize where
  "MAX_ERROR_CAN_FRAME_PROTO_BYTES = 2 + 10 + 2 + MAX_CAN_ERROR_CLASSES"
definition MAX_CAN_TIMESTAMP_PROTO_BYTES :: usize where "MAX_CAN_TIMESTAMP_PROTO_BYTES = 271"
definition CAN_RECEIVE_RESPONSE_FIELD_NUMBER :: u32 where "CAN_RECEIVE_RESPONSE_FIELD_NUMBER = 57"

record CanReceiveWireProfile =
  wp_mode :: CanMode
  wp_max_data_bytes :: usize
  wp_max_frame_proto_bytes :: usize
  wp_timestamp :: bool

definition can_receive_response_envelope_bound :: "usize \<Rightarrow> CanReceiveWireProfile \<Rightarrow> usize option" where
  "can_receive_response_envelope_bound frame_count profile =
     (let frame_field = length_delimited_field_len 1 (wp_max_frame_proto_bytes profile);
          timestamp_field = (if wp_timestamp profile then length_delimited_field_len 2 MAX_CAN_TIMESTAMP_PROTO_BYTES else 0)
      in case usize_checked_add frame_field timestamp_field of
           None \<Rightarrow> None
         | Some received_frame \<Rightarrow>
             map_option (envelope_encoded_len CAN_RECEIVE_RESPONSE_FIELD_NUMBER)
               (usize_checked_mul (length_delimited_field_len 1 received_frame) frame_count))"

definition receive_wire_profile :: "CanOpenConfig \<Rightarrow> CapabilityId list \<Rightarrow> CanReceiveWireProfile" where
  "receive_wire_profile config capabilities =
     (let mode = (case config of
            Configure config \<Rightarrow> cc_mode config
          | Attach expectation \<Rightarrow> (case cx_mode expectation of Some mode \<Rightarrow> mode
              | None \<Rightarrow> if CapabilitySet_contains capabilities can_fd_capability then Fd else Classic));
          mode_frame_bytes = (case mode of Classic \<Rightarrow> MAX_CLASSIC_CAN_FRAME_PROTO_BYTES | Fd \<Rightarrow> MAX_FD_CAN_FRAME_PROTO_BYTES)
      in \<lparr>wp_mode = mode,
          wp_max_data_bytes = (case mode of Classic \<Rightarrow> MAX_CLASSIC_DATA_BYTES | Fd \<Rightarrow> MAX_FD_DATA_BYTES),
          wp_max_frame_proto_bytes = (if CapabilitySet_contains capabilities can_error_frames_capability
            then max mode_frame_bytes MAX_ERROR_CAN_FRAME_PROTO_BYTES else mode_frame_bytes),
          wp_timestamp = CapabilitySet_contains capabilities can_rx_timestamp_capability\<rparr>)"

section \<open>Sessions\<close>

record CanSessionRecord = SessionRecord +
  sr_receive_profile :: CanReceiveWireProfile

type_synonym CanSessions = "\<lparr>sr_receive_profile :: CanReceiveWireProfile\<rparr> SessionRegistry"

definition is_can_session :: "CanSessions \<Rightarrow> string \<Rightarrow> bool" where
  "is_can_session registry session_id =
     (case SessionId_parse session_id of Ok session \<Rightarrow> hm_get (sg_sessions registry) session \<noteq> None | Err _ \<Rightarrow> False)"

fun lease_mode_allows :: "LeaseMode \<Rightarrow> LeaseMode \<Rightarrow> bool" where
  "lease_mode_allows Observe wanted = (wanted = Observe)"
| "lease_mode_allows Control wanted = (wanted \<in> {Observe, Control})"
| "lease_mode_allows Maintenance wanted = (wanted \<in> {Observe, Control, Maintenance})"

definition session_token_error :: "'a SessionRecord_scheme \<Rightarrow> LeaseToken \<Rightarrow> string \<Rightarrow> HalError" where
  "session_token_error session_record supplied operation =
     can_session_error (token_error_name supplied (sr_lease session_record)) operation
       ''the CAN lease token does not match the connection-owned session'' (Some (sr_resource_id session_record))"

text \<open>The context of an admitted request is the registry entry.\<close>

definition validate_session ::
  "CanSessions \<Rightarrow> SessionId \<Rightarrow> LeaseToken \<Rightarrow> LeaseMode \<Rightarrow> string \<Rightarrow> bool \<Rightarrow> CanSessionRecord hal_result" where
  "validate_session registry session supplied required_mode operation allow_closed =
     (case hm_get (sg_sessions registry) session of
        None \<Rightarrow> Err (can_session_error ''runtime.session.not_found'' operation
          ''the CAN session is not owned by this broker connection'' None)
      | Some session_record \<Rightarrow>
          if sr_closed session_record then
            if supplied = sr_lease session_record then
              if \<not> allow_closed then
                Err (can_session_error ''runtime.session.closed'' operation ''the CAN session is closed''
                  (Some (sr_resource_id session_record)))
              else Ok session_record
            else Err (session_token_error session_record supplied operation)
          else if supplied \<noteq> sr_lease session_record then Err (session_token_error session_record supplied operation)
          else if \<not> lease_mode_allows (lt_mode (sr_lease session_record)) required_mode then
            Err (can_session_error ''runtime.lease.mode_denied'' operation
              ''the CAN lease mode does not permit this operation'' (Some (sr_resource_id session_record)))
          else Ok session_record)"

section \<open>Capabilities\<close>

definition validate_filter_capabilities :: "CanFilterSet \<Rightarrow> CapabilityId list \<Rightarrow> ResourceId option \<Rightarrow> unit hal_result" where
  "validate_filter_capabilities filters capabilities resource_id =
     (if list_ex (\<lambda>filter. fc_error (cf_classes filter)) (filter_slice filters)
      then require_capability capabilities can_error_frames_capability CAN_ERROR_FRAMES_CAPABILITY resource_id
      else Ok ())"

definition validate_open_capabilities :: "ResourceDescriptor \<Rightarrow> CanOpenConfig \<Rightarrow> CanFilterSet \<Rightarrow> unit hal_result" where
  "validate_open_capabilities descriptor config filters =
     (let need = (\<lambda>capability name. require_capability (rd_capabilities descriptor) capability name (Some (rd_id descriptor)));
          need_mode = (\<lambda>mode. case mode of Classic \<Rightarrow> need can_classic_capability CAN_CLASSIC_CAPABILITY
            | Fd \<Rightarrow> need can_fd_capability CAN_FD_CAPABILITY)
      in and_then (case config of
           Attach expectation \<Rightarrow> (case cx_mode expectation of Some mode \<Rightarrow> need_mode mode | None \<Rightarrow> Ok ())
         | Configure config \<Rightarrow>
             and_then (need can_configure_capability CAN_CONFIGURE_CAPABILITY) (\<lambda>_. need_mode (cc_mode config)))
         (\<lambda>_. validate_filter_capabilities filters (rd_capabilities descriptor) (Some (rd_id descriptor))))"

fun frame_capability :: "CanFrame \<Rightarrow> CapabilityId \<times> string" where
  "frame_capability (ClassicData _ _) = (can_classic_capability, CAN_CLASSIC_CAPABILITY)"
| "frame_capability (ClassicRemote _ _) = (can_classic_capability, CAN_CLASSIC_CAPABILITY)"
| "frame_capability (FdData _ _ _ _) = (can_fd_capability, CAN_FD_CAPABILITY)"
| "frame_capability (ErrorFrame _ _) = (can_error_frames_capability, CAN_ERROR_FRAMES_CAPABILITY)"

fun validate_frame_capabilities :: "CanFrame list \<Rightarrow> CapabilityId list \<Rightarrow> ResourceId option \<Rightarrow> unit hal_result" where
  "validate_frame_capabilities [] capabilities resource_id = Ok ()"
| "validate_frame_capabilities (frame # frames) capabilities resource_id =
     and_then (map_err (with_optional_resource resource_id) (CanFrame_validate frame)) (\<lambda>_.
     and_then (require_capability capabilities (fst (frame_capability frame)) (snd (frame_capability frame)) resource_id) (\<lambda>_.
     validate_frame_capabilities frames capabilities resource_id))"

fun is_fd_frame :: "CanFrame \<Rightarrow> bool" where
  "is_fd_frame (FdData _ _ _ _) = True"
| "is_fd_frame _ = False"

fun validate_received_capabilities ::
  "ReceivedCanFrame list \<Rightarrow> CapabilityId list \<Rightarrow> ResourceId \<Rightarrow> CanReceiveWireProfile \<Rightarrow> unit hal_result" where
  "validate_received_capabilities [] capabilities resource_id profile = Ok ()"
| "validate_received_capabilities (received # frames) capabilities resource_id profile =
     (if wp_mode profile = Classic \<and> is_fd_frame (rf_frame received)
      then Err (capability_unsupported ''Classical CAN session received a CAN FD frame'' (Some resource_id))
      else and_then (validate_frame_capabilities [rf_frame received] capabilities (Some resource_id)) (\<lambda>_.
        and_then (if rf_timestamp received \<noteq> None
          then require_capability capabilities can_rx_timestamp_capability CAN_RX_TIMESTAMP_CAPABILITY (Some resource_id)
          else Ok ()) (\<lambda>_.
        validate_received_capabilities frames capabilities resource_id profile)))"

definition select_descriptor :: "ResourceDescriptor list \<Rightarrow> ResourceSelector \<Rightarrow> ResourceDescriptor hal_result" where
  "select_descriptor descriptors selector =
     (case filter (\<lambda>descriptor. rd_id descriptor = rs_id selector \<and> rd_transport descriptor = rs_transport selector
         \<and> satisfies (rd_minimum_identity_quality descriptor) (rs_minimum_identity_quality selector)) descriptors of
        [] \<Rightarrow> Err (with_resource_id (rs_id selector) (hal_error ''runtime.resource.not_found'' NotFound ''can.open'' False
          ''CAN resource selector did not match an enumerated descriptor''))
      | [selected] \<Rightarrow> Ok selected
      | _ \<Rightarrow> Err (with_resource_id (rs_id selector) (hal_error ''runtime.resource.ambiguous'' Conflict ''can.open'' False
          ''CAN resource selector matched more than one enumerated descriptor'')))"

fun send_payload :: "usize \<Rightarrow> v1_CanFrame list \<Rightarrow> usize hal_result" where
  "send_payload so_far [] = Ok so_far"
| "send_payload so_far (frame # frames) =
     and_then (ok_or (invalid_message ''CAN send payload bound overflows usize'') (usize_checked_add so_far (length (wcf_data frame))))
       (\<lambda>so_far. send_payload so_far frames)"

definition validate_send_bounds :: "v1_CanSendRequest \<Rightarrow> usize \<Rightarrow> unit hal_result" where
  "validate_send_bounds request max_write_bytes =
     (if \<not> (1 \<le> length (wsq_frames request) \<and> length (wsq_frames request) \<le> MAX_CAN_BATCH_FRAMES)
      then Err (invalid_message ''CAN send batch must contain 1..=64 frames'')
      else and_then (send_payload 0 (wsq_frames request)) (\<lambda>payload_bytes.
        if payload_bytes > max_write_bytes
        then Err (invalid_message ''CAN send payload exceeds the negotiated write maximum'') else Ok ()))"

section \<open>Handlers\<close>

text \<open>The runtime's CAN methods, by the results they give.\<close>

record CanRuntime =
  cr_enumerate :: "ResourceDescriptor list hal_result"
  cr_open :: "OwnerId \<Rightarrow> ResourceSelector \<Rightarrow> LeaseMode \<Rightarrow> CanOpenConfig \<Rightarrow> CanFilterSet \<Rightarrow> (SessionId \<times> LeaseToken) hal_result"
  cr_send_batch :: "SessionId \<Rightarrow> LeaseToken \<Rightarrow> CanFrame list \<Rightarrow> (unit, CanBatchSendError) result"
  cr_receive :: "SessionId \<Rightarrow> LeaseToken \<Rightarrow> usize \<Rightarrow> duration \<Rightarrow> ReceivedCanFrame list hal_result"
  cr_replace_filters :: "SessionId \<Rightarrow> LeaseToken \<Rightarrow> CanFilterSet \<Rightarrow> unit hal_result"
  cr_bus_status :: "SessionId \<Rightarrow> LeaseToken \<Rightarrow> CanBusStatus hal_result"
  cr_close :: "SessionId \<Rightarrow> LeaseToken \<Rightarrow> unit hal_result"

definition can_enumerate_handler :: "CanRuntime \<Rightarrow> v1_payload hal_result" where
  "can_enumerate_handler runtime =
     and_then (cr_enumerate runtime) (\<lambda>resources. map_ok PEnumerateCanResponse (encode_resources resources))"

definition opened_session :: "ResourceDescriptor \<Rightarrow> CanOpenConfig \<Rightarrow> LeaseToken \<Rightarrow> CanSessionRecord" where
  "opened_session selected config lease =
     \<lparr>sr_resource_id = rd_id selected, sr_capabilities = rd_capabilities selected, sr_lease = lease, sr_closed = False,
      sr_receive_profile = receive_wire_profile config (rd_capabilities selected)\<rparr>"

definition can_open_handler ::
  "CanRuntime \<Rightarrow> OwnerId \<Rightarrow> v1_OpenCanRequest \<Rightarrow> CanSessions \<Rightarrow> v1_payload hal_result \<times> CanSessions" where
  "can_open_handler runtime owner request registry =
     (case and_then (open_can_request_from_proto request) (\<lambda>(selector, mode, config, filters).
        and_then (cr_enumerate runtime) (\<lambda>descriptors.
        and_then (select_descriptor descriptors selector) (\<lambda>selected.
        and_then (validate_open_capabilities selected config filters) (\<lambda>_.
        and_then (cr_open runtime owner selector mode config filters) (\<lambda>(session_id, lease).
        Ok (session_id, lease, opened_session selected config lease)))))) of
        Err error \<Rightarrow> (Err error, registry)
      | Ok (session_id, lease, session_record) \<Rightarrow>
          (Ok (POpenCanResponse \<lparr>wsl_session_id = SessionId_as_str session_id, wsl_lease = Some (LeaseToken_to_proto lease)\<rparr>),
           insert_session session_id session_record registry))"

definition can_send_handler ::
  "CanRuntime \<Rightarrow> v1_CanSendRequest \<Rightarrow> NegotiatedLimits \<Rightarrow> CanSessions \<Rightarrow> v1_payload hal_result" where
  "can_send_handler runtime request limits registry =
     and_then (validate_send_bounds request (nl_max_write_bytes limits)) (\<lambda>_.
     and_then (can_send_request_from_proto request) (\<lambda>(session, lease, frames).
     and_then (validate_session registry session lease Control ''can.send_batch'' False) (\<lambda>ctx.
     and_then (validate_frame_capabilities frames (sr_capabilities ctx) (Some (sr_resource_id ctx))) (\<lambda>_.
     map_ok PCanSendResponse (can_send_response_to_proto (cr_send_batch runtime session lease frames) (length frames))))))"

definition receive_bounds :: "NegotiatedLimits \<Rightarrow> usize \<Rightarrow> CanReceiveWireProfile \<Rightarrow> unit hal_result" where
  "receive_bounds limits max_frames profile =
     and_then (ok_or (invalid_message ''CAN receive payload bound overflows usize'')
       (usize_checked_mul max_frames (wp_max_data_bytes profile))) (\<lambda>maximum_payload.
     if maximum_payload > nl_max_read_bytes limits
     then Err (invalid_message ''CAN receive payload bound exceeds the negotiated read maximum'')
     else and_then (ok_or (invalid_message ''CAN receive response bound overflows usize'')
       (can_receive_response_envelope_bound max_frames profile)) (\<lambda>maximum_response.
     if maximum_response > nl_max_frame_bytes limits
     then Err (invalid_message ''CAN receive response bound exceeds the negotiated frame maximum'')
     else Ok ()))"

definition can_receive_handler ::
  "CanRuntime \<Rightarrow> v1_CanReceiveRequest \<Rightarrow> NegotiatedLimits \<Rightarrow> CanSessions \<Rightarrow> v1_payload hal_result" where
  "can_receive_handler runtime request limits registry =
     and_then (can_receive_request_from_proto request) (\<lambda>(session, lease, max_frames, timeout).
     and_then (validate_session registry session lease Observe ''can.receive'' False) (\<lambda>ctx.
     and_then (receive_bounds limits max_frames (sr_receive_profile ctx)) (\<lambda>_.
     and_then (cr_receive runtime session lease max_frames timeout) (\<lambda>frames.
     and_then (validate_received_capabilities frames (sr_capabilities ctx) (sr_resource_id ctx) (sr_receive_profile ctx)) (\<lambda>_.
     Ok (PCanReceiveResponse (map ReceivedCanFrame_to_proto frames)))))))"

definition can_replace_filters_handler ::
  "CanRuntime \<Rightarrow> v1_ReplaceCanFiltersRequest \<Rightarrow> CanSessions \<Rightarrow> v1_payload hal_result" where
  "can_replace_filters_handler runtime request registry =
     and_then (replace_can_filters_request_from_proto request) (\<lambda>(session, lease, filters).
     and_then (validate_session registry session lease Observe ''can.replace_filters'' False) (\<lambda>ctx.
     and_then (validate_filter_capabilities filters (sr_capabilities ctx) (Some (sr_resource_id ctx))) (\<lambda>_.
     map_ok PReplaceCanFiltersResponse (cr_replace_filters runtime session lease filters))))"

definition can_status_handler :: "CanRuntime \<Rightarrow> v1_SessionLease \<Rightarrow> CanSessions \<Rightarrow> v1_payload hal_result" where
  "can_status_handler runtime request registry =
     and_then (get_can_bus_status_request_from_proto request) (\<lambda>(session, lease).
     and_then (validate_session registry session lease Observe ''can.status'' False) (\<lambda>_.
     map_ok (\<lambda>status. PGetCanBusStatusResponse (Some (CanBusStatus_to_proto status))) (cr_bus_status runtime session lease)))"

definition can_close_handler ::
  "CanRuntime \<Rightarrow> v1_SessionLease \<Rightarrow> CanSessions \<Rightarrow> v1_payload hal_result \<times> CanSessions" where
  "can_close_handler runtime request registry =
     (case close_step (parse_session_lease (wsl_session_id request) (wsl_lease request))
         (\<lambda>session lease. validate_session registry session lease Observe ''can.close'' True) (cr_close runtime) of
        Err error \<Rightarrow> (Err error, registry)
      | Ok None \<Rightarrow> (Ok (PCloseSessionResponse ()), registry)
      | Ok (Some session) \<Rightarrow> (Ok (PCloseSessionResponse ()), record_closed session registry))"

definition can_dispatch ::
  "CanRuntime \<Rightarrow> OwnerId \<Rightarrow> v1_payload \<Rightarrow> NegotiatedLimits \<Rightarrow> CanSessions \<Rightarrow> v1_payload hal_result \<times> CanSessions" where
  "can_dispatch runtime owner payload limits registry =
     (if nl_protocol_minor limits < CAN_WIRE_MINOR
      then (Err (capability_unsupported ''CAN operations require negotiated protocol minor 1'' None), registry)
      else case payload of
          PEnumerateCanRequest _ \<Rightarrow> (can_enumerate_handler runtime, registry)
        | POpenCanRequest request \<Rightarrow> can_open_handler runtime owner request registry
        | PCanSendRequest request \<Rightarrow> (can_send_handler runtime request limits registry, registry)
        | PCanReceiveRequest request \<Rightarrow> (can_receive_handler runtime request limits registry, registry)
        | PReplaceCanFiltersRequest request \<Rightarrow> (can_replace_filters_handler runtime request registry, registry)
        | PGetCanBusStatusRequest request \<Rightarrow> (can_status_handler runtime request registry, registry)
        | _ \<Rightarrow> (Err (invalid_message ''CAN response payloads are not valid client requests''), registry))"

end
