(* ===== verification/Can_Receive_Props.thy ===== *)
theory Can_Receive_Props
  imports Broker_Can Client_Can Handshake_Props
begin

text \<open>
  A CAN receive from the runtime to the caller: the broker's bounds against the protobuf encoding of
  the response, and the client's check of the response against the broker's.
\<close>

section \<open>The encoding of received frames\<close>

text \<open>
  Fields with a scalar type are written unless they hold the default value, message fields when
  present. An enumeration is written as a sign-extended varint, a repeated one packed.
\<close>

definition scalar_field :: "nat \<Rightarrow> nat \<Rightarrow> u8 list" where
  "scalar_field n v = (if v = 0 then [] else key_bytes n 0 @ encode_varint v)"

definition bytes_field :: "nat \<Rightarrow> u8 list \<Rightarrow> u8 list" where
  "bytes_field n b = (if b = [] then [] else encode_field (BytesField n b))"

definition message_field :: "nat \<Rightarrow> u8 list option \<Rightarrow> u8 list" where
  "message_field n m = (case m of None \<Rightarrow> [] | Some b \<Rightarrow> encode_field (BytesField n b))"

definition enum_varint :: "i32 \<Rightarrow> nat" where "enum_varint v = nat (v mod 2 ^ 64)"

definition encode_can_id :: "v1_CanId \<Rightarrow> u8 list" where
  "encode_can_id m = scalar_field 1 (unat (wci_value m)) @ scalar_field 2 (enum_varint (wci_format m))"

definition encode_can_frame :: "v1_CanFrame \<Rightarrow> u8 list" where
  "encode_can_frame m =
     message_field 1 (map_option encode_can_id (wcf_id m)) @ scalar_field 2 (enum_varint (wcf_kind m))
     @ bytes_field 3 (wcf_data m) @ scalar_field 4 (unat (wcf_remote_dlc m))
     @ scalar_field 5 (of_bool (wcf_bitrate_switch m)) @ scalar_field 6 (of_bool (wcf_error_state_indicator m))
     @ bytes_field 7 (concat (map (encode_varint \<circ> enum_varint) (wcf_error_classes m)))"

definition encode_can_timestamp :: "v1_CanTimestamp \<Rightarrow> u8 list" where
  "encode_can_timestamp m =
     scalar_field 1 (unat (wct_timestamp_ns m)) @ scalar_field 2 (enum_varint (wct_source m))
     @ bytes_field 3 (map of_char (wct_clock_domain m))"

definition encode_received_frame :: "v1_ReceivedCanFrame \<Rightarrow> u8 list" where
  "encode_received_frame m =
     message_field 1 (map_option encode_can_frame (wrf_frame m))
     @ message_field 2 (map_option encode_can_timestamp (wrf_timestamp m))"

definition encode_receive_response :: "v1_ReceivedCanFrame list \<Rightarrow> u8 list" where
  "encode_receive_response frames = concat (map (\<lambda>f. encode_field (BytesField 1 (encode_received_frame f))) frames)"

definition receive_response_wire :: "u64 \<Rightarrow> v1_ReceivedCanFrame list \<Rightarrow> u8 list" where
  "receive_response_wire request_id frames =
     scalar_field 1 (unat request_id) @ encode_field (BytesField 57 (encode_receive_response frames))"

section \<open>Bounds\<close>

lemma absent_fields [simp]: "message_field n None = []" "bytes_field n [] = []" "scalar_field n 0 = []"
  by (simp_all add: message_field_def bytes_field_def scalar_field_def)

lemma length_key_bytes: "8 * n + t < 128 \<Longrightarrow> length (key_bytes n t) = 1"
  by (simp add: key_bytes_def encode_varint.simps)

lemma length_scalar_field:
  "8 * n < 128 \<Longrightarrow> v < 2 ^ (7 * Suc k) \<Longrightarrow> length (scalar_field n v) \<le> 1 + Suc k"
  using length_encode_varint [of v k] by (simp add: scalar_field_def length_key_bytes)

lemma length_small_field:
  "8 * n + 2 < 128 \<Longrightarrow> length b < 128 \<Longrightarrow> length (encode_field (BytesField n b)) = 2 + length b"
  by (simp add: length_key_bytes encode_varint.simps)

lemma length_bytes_field: "8 * n + 2 < 128 \<Longrightarrow> length b < 128 \<Longrightarrow> length (bytes_field n b) \<le> 2 + length b"
  unfolding bytes_field_def using length_small_field [of n b] by simp

lemma field_bound:
  assumes "length b \<le> m" "m < 2 ^ 64"
  shows "length (encode_field (BytesField (unat n) b)) \<le> length_delimited_field_len n m"
  using assms length_encode_varint_mono [OF assms(1)]
  by (simp add: length_delimited_field_len_def prost_varint_len_encode key_value varint_len_of_nat key_bytes_def
      unat_of_nat_u64)

lemma small_enum:
  assumes "v \<in> {0..<128}" "8 * n < 128"
  shows "length (scalar_field n (enum_varint v)) \<le> 2"
proof -
  have "enum_varint v < 128" using assms(1) by (simp add: enum_varint_def nat_less_iff)
  then show ?thesis using length_scalar_field [of n "enum_varint v" 0] assms(2) by simp
qed

lemma frame_enums:
  "enum_number CanFrameKind_numbers k \<in> {0..<128}" "enum_number CanIdFormat_numbers i \<in> {0..<128}"
  "enum_number CanErrorClass_numbers c \<in> {0..<128}" "enum_number CanTimestampSource_numbers t \<in> {0..<128}"
  by (simp_all add: CanFrameKind_numbers_def CanIdFormat_numbers_def CanErrorClass_numbers_def CanTimestampSource_numbers_def)

lemma length_can_id: "length (encode_can_id (CanId_to_proto i)) \<le> 8"
proof -
  have "unat (CanId_value i) < 2 ^ 35" using unat_less_exp [of "CanId_value i"] by simp
  then have "length (scalar_field 1 (unat (CanId_value i))) \<le> 6"
    using length_scalar_field [of 1 "unat (CanId_value i)" 4] by simp
  then show ?thesis
    using small_enum [OF frame_enums(2), of 2 "if is_standard i then CAN_ID_FORMAT_STANDARD else CAN_ID_FORMAT_EXTENDED"]
    by (simp add: encode_can_id_def CanId_to_proto_def)
qed

lemma length_packed_classes:
  "length (concat (map (encode_varint \<circ> enum_varint) (map (enum_number CanErrorClass_numbers \<circ> error_class_to_proto) cs)))
     = length cs"
proof (induction cs)
  case (Cons c cs)
  have "enum_varint (enum_number CanErrorClass_numbers (error_class_to_proto c)) < 128"
    using frame_enums(3) [of "error_class_to_proto c"] by (simp add: enum_varint_def nat_less_iff)
  with Cons show ?case by (simp add: encode_varint.simps)
qed simp

fun frame_bound :: "CanFrame \<Rightarrow> nat" where
  "frame_bound (ClassicData _ _) = MAX_CLASSIC_CAN_FRAME_PROTO_BYTES"
| "frame_bound (ClassicRemote _ _) = MAX_CLASSIC_CAN_FRAME_PROTO_BYTES"
| "frame_bound (FdData _ _ _ _) = MAX_FD_CAN_FRAME_PROTO_BYTES"
| "frame_bound (ErrorFrame _ _) = MAX_ERROR_CAN_FRAME_PROTO_BYTES"

lemma length_can_frame:
  assumes "can_frame_wf f"
  shows "length (encode_can_frame (CanFrame_to_proto f)) \<le> frame_bound f"
proof -
  have ident: "length (message_field 1 (Some (encode_can_id (CanId_to_proto i)))) \<le> 10" for i
    using length_can_id [of i] length_small_field [of 1 "encode_can_id (CanId_to_proto i)"] by (simp add: message_field_def)
  have kind: "length (scalar_field 2 (enum_varint (enum_number CanFrameKind_numbers k))) \<le> 2" for k
    by (rule small_enum [OF frame_enums(1)]) simp
  have flag: "length (scalar_field n (of_bool b)) \<le> 2" if "8 * n < 128" for n b
    using length_scalar_field [OF that, of "of_bool b" 0] by (cases b) simp_all
  have data: "length (bytes_field 3 d) \<le> 2 + length d" if "length d \<le> 64" for d
    using length_bytes_field [of 3 d] that by simp
  show ?thesis
  proof (cases f)
    case (ClassicData i d)
    with assms ident [of i] kind [of CAN_FRAME_KIND_CLASSIC_DATA] data [of d] show ?thesis
      by (simp add: encode_can_frame_def CanFrame_default_def MAX_CLASSIC_CAN_FRAME_PROTO_BYTES_def)
  next
    case (ClassicRemote i dlc)
    have "unat (ucast dlc :: u32) < 2 ^ 7" using assms ClassicRemote by (simp add: word_le_nat_alt unsigned_ucast_eq take_bit_nat_eq_self)
    then have "length (scalar_field 4 (unat (ucast dlc :: u32))) \<le> 2"
      using length_scalar_field [of 4 "unat (ucast dlc :: u32)" 0] by simp
    with ClassicRemote ident [of i] kind [of CAN_FRAME_KIND_CLASSIC_REMOTE] show ?thesis
      by (simp add: encode_can_frame_def CanFrame_default_def MAX_CLASSIC_CAN_FRAME_PROTO_BYTES_def)
  next
    case (FdData i d b e)
    have "length d \<le> 64" using assms FdData by (auto simp: valid_fd_data_length_def)
    with FdData ident [of i] kind [of CAN_FRAME_KIND_FD_DATA] data [of d] flag [of 5 b] flag [of 6 e] show ?thesis
      by (simp add: encode_can_frame_def CanFrame_default_def MAX_FD_CAN_FRAME_PROTO_BYTES_def)
  next
    case (ErrorFrame cs d)
    with assms kind [of CAN_FRAME_KIND_ERROR] data [of d] length_packed_classes [of cs]
      length_bytes_field [of 7 "concat (map (encode_varint \<circ> enum_varint)
        (map (enum_number CanErrorClass_numbers \<circ> error_class_to_proto) cs))"]
    show ?thesis
      by (simp add: encode_can_frame_def CanFrame_default_def MAX_ERROR_CAN_FRAME_PROTO_BYTES_def
          MAX_CAN_ERROR_CLASSES_def del: map_map)
  qed
qed

lemma length_can_timestamp:
  assumes "can_timestamp_wf t"
  shows "length (encode_can_timestamp (CanTimestamp_to_proto t)) \<le> MAX_CAN_TIMESTAMP_PROTO_BYTES"
proof -
  have ns: "length (scalar_field 1 (unat (ct_timestamp_ns t))) \<le> 11"
    using length_encode_u64 [of "ct_timestamp_ns t"] by (simp add: scalar_field_def length_key_bytes)
  have "length (ct_clock_domain t) \<le> 255" using assms by (simp add: can_timestamp_wf_def valid_identifier_def)
  moreover from this have "length (encode_varint (length (ct_clock_domain t))) \<le> 2"
    using length_encode_varint [of "length (ct_clock_domain t)" 1] by simp
  ultimately have clock: "length (bytes_field 3 (map of_char (ct_clock_domain t))) \<le> 258"
    by (simp add: bytes_field_def length_key_bytes)
  show ?thesis
    using ns clock small_enum [OF frame_enums(4), of 2 "timestamp_source_to_proto (ct_source t)"]
    by (simp add: encode_can_timestamp_def CanTimestamp_to_proto_def MAX_CAN_TIMESTAMP_PROTO_BYTES_def)
qed

lemma length_received_frame:
  assumes "received_frame_wf f" "frame_bound (rf_frame f) \<le> n" "n < 2 ^ 64"
  shows "length (encode_received_frame (ReceivedCanFrame_to_proto f)) \<le>
    length_delimited_field_len 1 n
      + (if rf_timestamp f = None then 0 else length_delimited_field_len 2 MAX_CAN_TIMESTAMP_PROTO_BYTES)"
proof -
  have "length (encode_can_frame (CanFrame_to_proto (rf_frame f))) \<le> n"
    using length_can_frame [of "rf_frame f"] assms by (simp add: received_frame_wf_def)
  then have frame: "length (encode_field (BytesField 1 (encode_can_frame (CanFrame_to_proto (rf_frame f)))))
      \<le> length_delimited_field_len 1 n"
    using field_bound [of _ n 1] assms(3) by simp
  have "length (message_field 2 (map_option (encode_can_timestamp \<circ> CanTimestamp_to_proto) (rf_timestamp f)))
      \<le> (if rf_timestamp f = None then 0 else length_delimited_field_len 2 MAX_CAN_TIMESTAMP_PROTO_BYTES)"
  proof (cases "rf_timestamp f")
    case (Some t)
    then show ?thesis
      using field_bound [of _ MAX_CAN_TIMESTAMP_PROTO_BYTES 2] length_can_timestamp [of t] assms(1)
      by (simp add: message_field_def received_frame_wf_def MAX_CAN_TIMESTAMP_PROTO_BYTES_def del: encode_field.simps)
  qed simp
  with frame show ?thesis
    by (simp add: encode_received_frame_def ReceivedCanFrame_to_proto_def message_field_def option.map_comp
        del: encode_field.simps)
qed

lemma length_concat_le: "(\<And>x. x \<in> set xs \<Longrightarrow> length (f x) \<le> k) \<Longrightarrow> length (concat (map f xs)) \<le> k * length xs"
  by (induction xs) (simp_all add: add_mono)

text \<open>What the broker's check of received frames establishes.\<close>

definition profile_frame_ok :: "CapabilityId list \<Rightarrow> CanReceiveWireProfile \<Rightarrow> ReceivedCanFrame \<Rightarrow> bool" where
  "profile_frame_ok capabilities profile f \<longleftrightarrow>
     can_frame_wf (rf_frame f) \<and> \<not> (wp_mode profile = Classic \<and> is_fd_frame (rf_frame f))
     \<and> CapabilitySet_contains capabilities (fst (frame_capability (rf_frame f)))
     \<and> (rf_timestamp f = None \<or> CapabilitySet_contains capabilities can_rx_timestamp_capability)"

lemma validate_received_capabilities_Ok:
  "validate_received_capabilities frames capabilities resource_id profile = Ok () \<longleftrightarrow>
     list_all (profile_frame_ok capabilities profile) frames"
  by (induction frames capabilities resource_id profile rule: validate_received_capabilities.induct)
     (auto simp: profile_frame_ok_def require_capability_def split: if_splits)

lemma profile_bounds:
  assumes "profile_frame_ok capabilities (receive_wire_profile config capabilities) f"
  shows "frame_bound (rf_frame f) \<le> wp_max_frame_proto_bytes (receive_wire_profile config capabilities)"
    "length (CanFrame_data (rf_frame f)) \<le> wp_max_data_bytes (receive_wire_profile config capabilities)"
    "rf_timestamp f \<noteq> None \<Longrightarrow> wp_timestamp (receive_wire_profile config capabilities)"
  using assms
  by (cases "rf_frame f"; cases "wp_mode (receive_wire_profile config capabilities)";
      auto simp: profile_frame_ok_def receive_wire_profile_def Let_def MAX_CLASSIC_CAN_FRAME_PROTO_BYTES_def
        MAX_FD_CAN_FRAME_PROTO_BYTES_def MAX_ERROR_CAN_FRAME_PROTO_BYTES_def MAX_CAN_ERROR_CLASSES_def
        MAX_CLASSIC_DATA_BYTES_def MAX_FD_DATA_BYTES_def valid_fd_data_length_def split: CanMode.splits)+

lemma from_response_profile:
  assumes "can_from_response resource_id mode config d reply = Ok handle"
  defines "p \<equiv> rc_profile handle"
  shows "cs_mode p = wp_mode (receive_wire_profile config (rd_capabilities d))"
    "cs_classic_frames p = CapabilitySet_contains (rd_capabilities d) can_classic_capability"
    "cs_fd_frames p = CapabilitySet_contains (rd_capabilities d) can_fd_capability"
    "cs_error_frames p = CapabilitySet_contains (rd_capabilities d) can_error_frames_capability"
    "cs_timestamps p = CapabilitySet_contains (rd_capabilities d) can_rx_timestamp_capability"
  using assms(1) unfolding p_def
  by (cases "open_can_response_from_proto reply mode";
      auto simp: can_from_response_def Let_def session_mode_def receive_wire_profile_def split: CanOpenConfig.split)+

lemma profile_allowed:
  assumes "can_from_response resource_id mode config d reply = Ok handle"
    "profile_frame_ok (rd_capabilities d) (receive_wire_profile config (rd_capabilities d)) f"
  shows "frame_allowed (rc_profile handle) (rf_frame f)" "rf_timestamp f \<noteq> None \<Longrightarrow> cs_timestamps (rc_profile handle)"
proof -
  show "frame_allowed (rc_profile handle) (rf_frame f)"
    using assms(2)
    by (cases "rf_frame f"; cases "wp_mode (receive_wire_profile config (rd_capabilities d))";
        simp add: profile_frame_ok_def from_response_profile [OF assms(1)])
  show "cs_timestamps (rc_profile handle)" if "rf_timestamp f \<noteq> None"
    using assms(2) that by (simp add: profile_frame_ok_def from_response_profile [OF assms(1)])
qed

lemma envelope_bound:
  assumes wf: "list_all received_frame_wf frames"
    and ok: "list_all (profile_frame_ok capabilities (receive_wire_profile config capabilities)) frames"
    and n: "length frames \<le> n" "n \<le> MAX_CAN_BATCH_FRAMES"
    and b: "can_receive_response_envelope_bound n (receive_wire_profile config capabilities) = Some b"
  shows "length (receive_response_wire request_id (map ReceivedCanFrame_to_proto frames)) \<le> b"
proof -
  let ?p = "receive_wire_profile config capabilities"
  let ?one = "length_delimited_field_len 1 (wp_max_frame_proto_bytes ?p)
    + (if wp_timestamp ?p then length_delimited_field_len 2 MAX_CAN_TIMESTAMP_PROTO_BYTES else 0)"
  let ?all = "length_delimited_field_len 1 ?one * n"
  have b': "b = envelope_encoded_len CAN_RECEIVE_RESPONSE_FIELD_NUMBER ?all" "?one \<le> usize_max" "?all \<le> usize_max"
    using b by (auto simp: can_receive_response_envelope_bound_def Let_def split: option.splits)
  have each: "length (encode_field (BytesField 1 (encode_received_frame (ReceivedCanFrame_to_proto f))))
      \<le> length_delimited_field_len 1 ?one" if "f \<in> set frames" for f
  proof -
    have f: "received_frame_wf f" "profile_frame_ok capabilities ?p f" using wf ok that by (auto simp: list_all_iff)
    have "wp_max_frame_proto_bytes ?p < 2 ^ 64"
      by (simp add: receive_wire_profile_def Let_def MAX_CLASSIC_CAN_FRAME_PROTO_BYTES_def MAX_FD_CAN_FRAME_PROTO_BYTES_def
          MAX_ERROR_CAN_FRAME_PROTO_BYTES_def MAX_CAN_ERROR_CLASSES_def split: CanMode.split)
    then have "length (encode_received_frame (ReceivedCanFrame_to_proto f)) \<le> ?one"
      using length_received_frame [OF f(1) profile_bounds(1) [OF f(2)]] profile_bounds(3) [OF f(2)]
      by (cases "rf_timestamp f") auto
    then show ?thesis using field_bound [of _ ?one 1] b'(2) by (simp add: usize_max_def)
  qed
  then have "length (encode_receive_response (map ReceivedCanFrame_to_proto frames))
      \<le> length_delimited_field_len 1 ?one * length frames"
    unfolding encode_receive_response_def map_map comp_def by (rule length_concat_le)
  also have "\<dots> \<le> ?all" using n(1) by (rule mult_le_mono2)
  finally have body: "length (encode_receive_response (map ReceivedCanFrame_to_proto frames)) \<le> ?all" .
  have "length (encode_field (BytesField 57 (encode_receive_response (map ReceivedCanFrame_to_proto frames))))
      \<le> length_delimited_field_len 57 ?all"
    using field_bound [OF body, of 57] b'(3) by (simp add: usize_max_def)
  moreover have "length (scalar_field 1 (unat request_id)) \<le> 11"
    using length_encode_u64 [of request_id] by (simp add: scalar_field_def length_key_bytes)
  ultimately show ?thesis
    by (simp add: receive_response_wire_def b'(1) envelope_encoded_len_def length_delimited_field_len_def
        CAN_RECEIVE_RESPONSE_FIELD_NUMBER_def del: encode_field.simps)
qed

lemma received_bytes_bound:
  assumes "list_all (\<lambda>f. length (CanFrame_data (rf_frame f)) \<le> k) frames" "so_far + k * length frames \<le> usize_max"
  shows "\<exists>total. received_bytes profile so_far frames = Ok total \<and> total \<le> so_far + k * length frames"
  using assms
proof (induction frames arbitrary: so_far)
  case (Cons f frames)
  let ?next = "so_far + length (CanFrame_data (rf_frame f))"
  have "?next + k * length frames \<le> so_far + k * length (f # frames)" using Cons.prems(1) by simp
  with Cons.prems Cons.IH [of ?next] show ?case by (fastforce simp: usize_checked_add_def)
qed simp

section \<open>Delivery\<close>

lemma receive_handler_Ok:
  assumes "can_receive_handler runtime request limits registry = Ok payload"
    and "parse_session_lease (wsl_session_id request) (wsl_lease request) = Ok (session, lease)"
    and "hm_get (sg_sessions registry) session = Some r"
  defines "n \<equiv> unat (wrq_max_frames request)"
  obtains frames b where "payload = PCanReceiveResponse (map ReceivedCanFrame_to_proto frames)"
    "cr_receive runtime session lease n (from_millis (wrq_timeout_ms request)) = Ok frames"
    "1 \<le> n" "n \<le> MAX_CAN_BATCH_FRAMES" "n * wp_max_data_bytes (sr_receive_profile r) \<le> nl_max_read_bytes limits"
    "n * wp_max_data_bytes (sr_receive_profile r) \<le> usize_max"
    "can_receive_response_envelope_bound n (sr_receive_profile r) = Some b" "b \<le> nl_max_frame_bytes limits"
    "list_all (profile_frame_ok (sr_capabilities r) (sr_receive_profile r)) frames"
  using assms
  by (auto simp: can_receive_handler_def can_receive_request_from_proto_def can_receive_parameters_def validate_session_def
      receive_bounds_def validate_received_capabilities_Ok simp del: parse_session_lease_Ok split: if_splits option.splits)

text \<open>
  C8. Delivery of received CAN frames: on a session the broker opened for descriptor \<open>d\<close> and
  configuration \<open>config\<close>, every receive the broker answers with frames is deliverable. The protobuf
  encoding of the response is within the negotiated frame limit, the client's check of the response
  against the profile it derived from the same descriptor accepts it, and the client decodes exactly the
  frames the runtime returned. The runtime is assumed to return well-formed frames, at most as many as
  asked for.
\<close>

theorem can_receive_delivery:
  assumes "can_from_response resource_id mode config d reply = Ok handle"
    and "parse_session_lease (wsl_session_id request) (wsl_lease request) = Ok (session, lease)"
    and "hm_get (sg_sessions registry) session = Some (opened_session d config lease)"
    and runtime: "\<forall>s l n t fs. cr_receive runtime s l n t = Ok fs \<longrightarrow> length fs \<le> n \<and> list_all received_frame_wf fs"
    and "can_receive_handler runtime request limits registry = Ok payload"
  defines "n \<equiv> unat (wrq_max_frames request)"
  shows "\<exists>frames. payload = PCanReceiveResponse (map ReceivedCanFrame_to_proto frames)
    \<and> cr_receive runtime session lease n (from_millis (wrq_timeout_ms request)) = Ok frames
    \<and> length (receive_response_wire request_id (map ReceivedCanFrame_to_proto frames)) \<le> nl_max_frame_bytes limits
    \<and> validate_response (XCanReceive n (nl_max_read_bytes limits) (rc_profile handle)) payload = Ok ()
    \<and> received_can_frames_from_proto (map ReceivedCanFrame_to_proto frames) n = Ok frames"
proof -
  let ?p = "receive_wire_profile config (rd_capabilities d)"
  obtain frames b where f: "payload = PCanReceiveResponse (map ReceivedCanFrame_to_proto frames)"
      "cr_receive runtime session lease n (from_millis (wrq_timeout_ms request)) = Ok frames"
      "1 \<le> n" "n \<le> MAX_CAN_BATCH_FRAMES" "n * wp_max_data_bytes ?p \<le> nl_max_read_bytes limits"
      "n * wp_max_data_bytes ?p \<le> usize_max"
      "can_receive_response_envelope_bound n ?p = Some b" "b \<le> nl_max_frame_bytes limits"
      "list_all (profile_frame_ok (rd_capabilities d) ?p) frames"
    using receive_handler_Ok [OF assms(5,2,3)] unfolding n_def opened_session_def by auto
  have wf: "length frames \<le> n" "list_all received_frame_wf frames" using runtime f(2) by blast+
  have decoded: "received_can_frames_from_proto (map ReceivedCanFrame_to_proto frames) n = Ok frames"
    using f(3,4) wf by (simp add: received_frames_from_Ok)
  have le: "wp_max_data_bytes ?p * length frames \<le> n * wp_max_data_bytes ?p" using wf(1) by (simp add: mult.commute)
  have "list_all (\<lambda>f. length (CanFrame_data (rf_frame f)) \<le> wp_max_data_bytes ?p) frames"
    using f(9) profile_bounds(2) by (auto simp: list_all_iff)
  then obtain total where "received_bytes (rc_profile handle) 0 frames = Ok total"
      "total \<le> wp_max_data_bytes ?p * length frames"
    using received_bytes_bound [of "wp_max_data_bytes ?p" frames 0 "rc_profile handle"] le_trans [OF le f(6)] by auto
  moreover from this have "total \<le> nl_max_read_bytes limits" using le f(5) by linarith
  moreover have "validate_received_profile frames (rc_profile handle) = Ok ()"
    using f(9) profile_allowed [OF assms(1)] by (auto simp: list_all_iff)
  ultimately have "validate_response (XCanReceive n (nl_max_read_bytes limits) (rc_profile handle)) payload = Ok ()"
    using decoded by (simp add: f(1) validate_response_def matching_def as_CanReceiveResponse_def validate_can_receive_def)
  moreover have "length (receive_response_wire request_id (map ReceivedCanFrame_to_proto frames)) \<le> nl_max_frame_bytes limits"
    using envelope_bound [OF wf(2) f(9) wf(1) f(4,7), of request_id] f(8) by simp
  ultimately show ?thesis using f(1,2) decoded by blast
qed

text \<open>Witness: a session attached in FD mode, and a runtime that returns one classic and one FD frame.\<close>

definition can_descriptor :: ResourceDescriptor where
  "can_descriptor = \<lparr>rd_id = ResourceId ''can:0'', rd_endpoint = Endpoint ''can0'', rd_minimum_identity_quality = Strong,
     rd_transport = TCan, rd_properties = [], rd_capabilities = [can_classic_capability, can_fd_capability]\<rparr>"

definition can_attach :: CanOpenConfig where
  "can_attach = Attach \<lparr>cx_mode = Some Fd, cx_nominal_bitrate = None, cx_data_bitrate = None, cx_listen_only = None,
     cx_loopback = None\<rparr>"

definition can_lease :: LeaseToken where
  "can_lease = \<lparr>lt_lease_id = LeaseId ''lease-1'', lt_generation = 1, lt_mode = Observe\<rparr>"

definition can_frames :: "ReceivedCanFrame list" where
  "can_frames = [\<lparr>rf_frame = ClassicData (StandardId 0x123) [1, 2], rf_timestamp = None\<rparr>,
     \<lparr>rf_frame = FdData (ExtendedId 0x1abcdef) (replicate 12 7) True False, rf_timestamp = None\<rparr>]"

definition can_request :: v1_CanReceiveRequest where
  "can_request = \<lparr>wsl_session_id = ''session-1'', wsl_lease = Some (LeaseToken_to_proto can_lease), wrq_max_frames = 4,
     wrq_timeout_ms = 100\<rparr>"

definition can_reply :: v1_SessionLease where
  "can_reply = \<lparr>wsl_session_id = ''session-1'', wsl_lease = Some (LeaseToken_to_proto can_lease)\<rparr>"

definition can_runtime :: CanRuntime where
  "can_runtime = \<lparr>cr_enumerate = Ok [can_descriptor], cr_open = (\<lambda>_ _ _ _ _. Ok (SessionId ''session-1'', can_lease)),
     cr_send_batch = (\<lambda>_ _ _. Ok ()), cr_receive = (\<lambda>_ _ n _. Ok (take n can_frames)), cr_replace_filters = (\<lambda>_ _ _. Ok ()),
     cr_bus_status = (\<lambda>_ _. Err unexpected_response), cr_close = (\<lambda>_ _. Ok ())\<rparr>"

definition can_registry :: CanSessions where
  "can_registry = insert_session (SessionId ''session-1'') (opened_session can_descriptor can_attach can_lease) new_session_registry"

definition can_limits :: NegotiatedLimits where
  "can_limits = \<lparr>nl_protocol_minor = 1, nl_max_frame_bytes = 4096, nl_max_read_bytes = 1024, nl_max_write_bytes = 1024\<rparr>"

lemma can_session_parsed:
  "parse_session_lease ''session-1'' (Some (LeaseToken_to_proto can_lease)) = Ok (SessionId ''session-1'', can_lease)"
  by (simp add: can_lease_def wire_lease_wf_def lease_token_wf_def identifier_eval)

definition can_profile :: CanReceiveWireProfile where
  "can_profile = \<lparr>wp_mode = Fd, wp_max_data_bytes = 64, wp_max_frame_proto_bytes = 82, wp_timestamp = False\<rparr>"

lemma can_profile: "receive_wire_profile can_attach (rd_capabilities can_descriptor) = can_profile"
  by code_simp

lemma can_bounds: "receive_bounds can_limits 4 can_profile = Ok ()"
  by (simp add: receive_bounds_def can_limits_def can_profile_def can_receive_response_envelope_bound_def Let_def
      usize_checked_mul_def usize_checked_add_def usize_max_def length_delimited_field_len_def envelope_encoded_len_def
      CAN_RECEIVE_RESPONSE_FIELD_NUMBER_def prost_varint_len.simps word_le_nat_alt)

lemma can_admitted: "validate_received_capabilities can_frames (rd_capabilities can_descriptor) (ResourceId ''can:0'') can_profile = Ok ()"
  unfolding validate_received_capabilities_Ok
  by (simp add: can_frames_def profile_frame_ok_def can_profile_def valid_fd_data_length_def CapabilitySet_contains_def
      can_descriptor_def)

lemma sample_received:
  "can_receive_handler can_runtime can_request can_limits can_registry =
     Ok (PCanReceiveResponse (map ReceivedCanFrame_to_proto can_frames))"
proof -
  have "hm_get (sg_sessions can_registry) (SessionId ''session-1'') = Some (opened_session can_descriptor can_attach can_lease)"
    by (simp add: can_registry_def insert_session_def)
  moreover have "cr_receive can_runtime s l 4 t = Ok can_frames" for s l t by (simp add: can_runtime_def can_frames_def)
  moreover have "rd_id can_descriptor = ResourceId ''can:0''" by (simp add: can_descriptor_def)
  moreover have "lt_mode can_lease = Observe" by (simp add: can_lease_def)
  ultimately show ?thesis
    by (simp add: can_receive_handler_def can_receive_request_from_proto_def can_request_def can_session_parsed
        can_receive_parameters_def validate_session_def opened_session_def can_profile can_bounds can_admitted
        MAX_CAN_BATCH_FRAMES_def del: parse_session_lease_Ok)
qed

lemma can_opened:
  "\<exists>handle. can_from_response (ResourceId ''can:0'') Observe can_attach can_descriptor can_reply = Ok handle"
  by (simp add: can_from_response_def Let_def can_reply_def open_can_response_from_proto_def can_session_parsed
      del: parse_session_lease_Ok) (simp add: can_lease_def)

lemma can_receive_delivery_witness:
  "length (receive_response_wire 9 (map ReceivedCanFrame_to_proto can_frames)) \<le> 4096
   \<and> received_can_frames_from_proto (map ReceivedCanFrame_to_proto can_frames) 4 = Ok can_frames"
proof -
  obtain handle where h: "can_from_response (ResourceId ''can:0'') Observe can_attach can_descriptor can_reply = Ok handle"
    using can_opened by blast
  have wf: "list_all received_frame_wf can_frames"
    by (simp add: can_frames_def received_frame_wf_def valid_fd_data_length_def)
  have runtime: "\<forall>s l n t fs. cr_receive can_runtime s l n t = Ok fs \<longrightarrow> length fs \<le> n \<and> list_all received_frame_wf fs"
    using wf by (auto simp: can_runtime_def list_all_iff dest: in_set_takeD)
  have parsed: "parse_session_lease (wsl_session_id can_request) (wsl_lease can_request) = Ok (SessionId ''session-1'', can_lease)"
    by (simp add: can_request_def can_session_parsed del: parse_session_lease_Ok)
  have "hm_get (sg_sessions can_registry) (SessionId ''session-1'') = Some (opened_session can_descriptor can_attach can_lease)"
    by (simp add: can_registry_def insert_session_def)
  from can_receive_delivery [OF h parsed this runtime sample_received, where request_id = 9]
  obtain frames where f: "cr_receive can_runtime (SessionId ''session-1'') can_lease (unat (wrq_max_frames can_request))
        (from_millis (wrq_timeout_ms can_request)) = Ok frames"
      "length (receive_response_wire 9 (map ReceivedCanFrame_to_proto frames)) \<le> nl_max_frame_bytes can_limits"
      "received_can_frames_from_proto (map ReceivedCanFrame_to_proto frames) (unat (wrq_max_frames can_request)) = Ok frames"
    by blast
  have n: "unat (wrq_max_frames can_request) = 4" "nl_max_frame_bytes can_limits = 4096"
    by (simp_all add: can_request_def can_limits_def)
  have "cr_receive can_runtime s l 4 t = Ok can_frames" for s l t by (simp add: can_runtime_def can_frames_def)
  then have "frames = can_frames" using f(1) unfolding n by simp
  with f(2,3) show ?thesis unfolding n by simp
qed

end
