(* ===== verification/Broker_Devices.thy ===== *)
theory Broker_Devices
  imports Broker_Sessions
begin

text \<open>
  The broker's handlers for USB and GPIO requests (\<open>src/crates/robot-hal-broker/src/usb_gpio_dispatch.rs\<close>)
  and for camera requests (\<open>src/crates/robot-hal-broker/src/camera_dispatch.rs\<close>), with the runtime as the
  record of the results its methods give. A handler that changes a registry returns it updated.
\<close>

section \<open>USB and GPIO\<close>

record UsbGpioRuntime =
  ur_enumerate_usb :: "ResourceDescriptor list hal_result"
  ur_open_usb :: "OwnerId \<Rightarrow> ResourceSelector \<Rightarrow> u8 \<Rightarrow> (SessionId \<times> LeaseToken) hal_result"
  ur_usb_transfer :: "SessionId \<Rightarrow> LeaseToken \<Rightarrow> UsbTransfer \<Rightarrow> duration \<Rightarrow> u8 list hal_result"
  ur_close_usb :: "SessionId \<Rightarrow> LeaseToken \<Rightarrow> unit hal_result"
  ur_enumerate_gpio :: "ResourceDescriptor list hal_result"
  ur_open_gpio :: "OwnerId \<Rightarrow> ResourceSelector \<Rightarrow> u32 list \<Rightarrow> GpioLineConfig \<Rightarrow> (SessionId \<times> LeaseToken) hal_result"
  ur_gpio_read :: "SessionId \<Rightarrow> LeaseToken \<Rightarrow> bool list hal_result"
  ur_gpio_write :: "SessionId \<Rightarrow> LeaseToken \<Rightarrow> bool list \<Rightarrow> unit hal_result"
  ur_gpio_next_edge :: "SessionId \<Rightarrow> LeaseToken \<Rightarrow> GpioEdgeRequest \<Rightarrow> duration \<Rightarrow> GpioEdgeEvent option hal_result"
  ur_close_gpio :: "SessionId \<Rightarrow> LeaseToken \<Rightarrow> unit hal_result"

fun transfer_capability :: "UsbTransfer \<Rightarrow> CapabilityId \<times> string" where
  "transfer_capability (ControlOut _ _ _ _ _) = (usb_control_capability, USB_CONTROL_CAPABILITY)"
| "transfer_capability (ControlIn _ _ _ _ _) = (usb_control_capability, USB_CONTROL_CAPABILITY)"
| "transfer_capability (BulkOut _ _) = (usb_bulk_capability, USB_BULK_CAPABILITY)"
| "transfer_capability (BulkIn _ _) = (usb_bulk_capability, USB_BULK_CAPABILITY)"
| "transfer_capability (InterruptOut _ _) = (usb_interrupt_capability, USB_INTERRUPT_CAPABILITY)"
| "transfer_capability (InterruptIn _ _) = (usb_interrupt_capability, USB_INTERRUPT_CAPABILITY)"

definition device_select :: "ResourceDescriptor list \<Rightarrow> ResourceSelector \<Rightarrow> string \<Rightarrow> ResourceDescriptor hal_result" where
  "device_select descriptors selector operation =
     (case filter (\<lambda>descriptor. rd_id descriptor = rs_id selector \<and> rd_transport descriptor = rs_transport selector
         \<and> satisfies (rd_minimum_identity_quality descriptor) (rs_minimum_identity_quality selector)) descriptors of
        [] \<Rightarrow> Err (session_error ''runtime.resource.not_found'' operation ''resource selector did not match'' None)
      | [descriptor] \<Rightarrow> Ok descriptor
      | descriptor # _ \<Rightarrow> Err (session_error ''runtime.resource.ambiguous'' operation ''resource selector was ambiguous''
          (Some (rd_id descriptor))))"

definition session_of :: "ResourceDescriptor \<Rightarrow> LeaseToken \<Rightarrow> SessionRecord" where
  "session_of descriptor lease =
     \<lparr>sr_resource_id = rd_id descriptor, sr_capabilities = rd_capabilities descriptor, sr_lease = lease, sr_closed = False\<rparr>"

definition record_session :: "SessionId \<Rightarrow> ResourceDescriptor \<Rightarrow> LeaseToken \<Rightarrow> SessionKind \<Rightarrow> UsbGpioSessions \<Rightarrow> UsbGpioSessions" where
  "record_session session descriptor lease kind =
     insert_session session (SessionRecord.extend (session_of descriptor lease) \<lparr>sr_kind = kind\<rparr>)"

definition response_bound :: "usize \<Rightarrow> usize" where
  "response_bound data_len = min (24 + data_len) usize_max"

definition usb_enumerate_handler :: "UsbGpioRuntime \<Rightarrow> v1_payload hal_result" where
  "usb_enumerate_handler runtime =
     and_then (ur_enumerate_usb runtime) (\<lambda>resources. map_ok PEnumerateUsbResponse (encode_resources resources))"

definition gpio_enumerate_handler :: "UsbGpioRuntime \<Rightarrow> v1_payload hal_result" where
  "gpio_enumerate_handler runtime =
     and_then (ur_enumerate_gpio runtime) (\<lambda>resources. map_ok PEnumerateGpioResponse (encode_resources resources))"

definition usb_open_handler ::
  "UsbGpioRuntime \<Rightarrow> OwnerId \<Rightarrow> v1_OpenUsbRequest \<Rightarrow> UsbGpioSessions \<Rightarrow> v1_payload hal_result \<times> UsbGpioSessions" where
  "usb_open_handler runtime owner request registry =
     (case and_then (open_usb_request_from_proto request) (\<lambda>(selector, interface).
        and_then (ur_enumerate_usb runtime) (\<lambda>descriptors.
        and_then (device_select descriptors selector ''usb.open'') (\<lambda>descriptor.
        and_then (capability_require (rd_capabilities descriptor) usb_control_capability USB_CONTROL_CAPABILITY
          (rd_id descriptor)) (\<lambda>_.
        map_ok (\<lambda>(session, lease). (descriptor, session, lease)) (ur_open_usb runtime owner selector interface))))) of
        Err error \<Rightarrow> (Err error, registry)
      | Ok (descriptor, session, lease) \<Rightarrow>
          (Ok (POpenUsbResponse (open_usb_response_to_proto session lease)),
           record_session session descriptor lease KindUsb registry))"

definition gpio_open_handler ::
  "UsbGpioRuntime \<Rightarrow> OwnerId \<Rightarrow> v1_OpenGpioRequest \<Rightarrow> UsbGpioSessions \<Rightarrow> v1_payload hal_result \<times> UsbGpioSessions" where
  "gpio_open_handler runtime owner request registry =
     (case and_then (open_gpio_request_from_proto request) (\<lambda>(selector, lines, config).
        and_then (ur_enumerate_gpio runtime) (\<lambda>descriptors.
        and_then (device_select descriptors selector ''gpio.open'') (\<lambda>descriptor.
        and_then (capability_require (rd_capabilities descriptor) gpio_lines_capability GPIO_LINES_CAPABILITY
          (rd_id descriptor)) (\<lambda>_.
        map_ok (\<lambda>(session, lease). (descriptor, session, lease)) (ur_open_gpio runtime owner selector lines config))))) of
        Err error \<Rightarrow> (Err error, registry)
      | Ok (descriptor, session, lease) \<Rightarrow>
          (Ok (POpenGpioResponse (open_gpio_response_to_proto session lease)),
           record_session session descriptor lease KindGpio registry))"

definition usb_transfer_handler ::
  "UsbGpioRuntime \<Rightarrow> v1_UsbTransferRequest \<Rightarrow> NegotiatedLimits \<Rightarrow> UsbGpioSessions \<Rightarrow> v1_payload hal_result" where
  "usb_transfer_handler runtime request limits registry =
     (if length (wu_data request) > nl_max_write_bytes limits \<or> unat (wu_max_bytes request) > nl_max_read_bytes limits
      then Err (invalid_message ''USB transfer exceeds negotiated payload limits'')
      else and_then (usb_transfer_request_from_proto request) (\<lambda>(session, lease, transfer, timeout).
        and_then (usb_gpio_validate registry session lease KindUsb ''usb.transfer'' False) (\<lambda>ctx.
        and_then (capability_require (sr_capabilities ctx) (fst (transfer_capability transfer))
          (snd (transfer_capability transfer)) (sr_resource_id ctx)) (\<lambda>_.
        and_then (ur_usb_transfer runtime session lease transfer timeout) (\<lambda>data.
        if length data > nl_max_read_bytes limits \<or> response_bound (length data) > nl_max_frame_bytes limits
        then Err (invalid_message ''USB transfer response exceeds negotiated limits'')
        else Ok (PUsbTransferResponse (usb_transfer_response_to_proto data)))))))"

definition require_lines :: "UsbGpioSessionRecord \<Rightarrow> unit hal_result" where
  "require_lines ctx = capability_require (sr_capabilities ctx) gpio_lines_capability GPIO_LINES_CAPABILITY (sr_resource_id ctx)"

definition gpio_read_handler :: "UsbGpioRuntime \<Rightarrow> v1_SessionLease \<Rightarrow> UsbGpioSessions \<Rightarrow> v1_payload hal_result" where
  "gpio_read_handler runtime request registry =
     and_then (gpio_read_request_from_proto request) (\<lambda>(session, lease).
     and_then (usb_gpio_validate registry session lease KindGpio ''gpio.read'' False) (\<lambda>ctx.
     and_then (require_lines ctx) (\<lambda>_.
     and_then (ur_gpio_read runtime session lease) (\<lambda>values.
     if values = [] \<or> length values > MAX_GPIO_EVENTS
     then Err (invalid_message ''GPIO read response violates public bounds'')
     else Ok (PGpioReadResponse (gpio_read_response_to_proto values))))))"

definition gpio_write_handler ::
  "UsbGpioRuntime \<Rightarrow> v1_GpioWriteRequest \<Rightarrow> NegotiatedLimits \<Rightarrow> UsbGpioSessions \<Rightarrow> v1_payload hal_result" where
  "gpio_write_handler runtime request limits registry =
     (if length (wgw_values request) > nl_max_write_bytes limits
      then Err (invalid_message ''GPIO write exceeds negotiated write limit'')
      else and_then (gpio_write_request_from_proto request) (\<lambda>(session, lease, values).
        and_then (usb_gpio_validate registry session lease KindGpio ''gpio.write'' False) (\<lambda>ctx.
        and_then (require_lines ctx) (\<lambda>_.
        map_ok PGpioWriteResponse (ur_gpio_write runtime session lease values)))))"

definition gpio_next_edge_handler ::
  "UsbGpioRuntime \<Rightarrow> v1_GpioNextEdgeRequest \<Rightarrow> NegotiatedLimits \<Rightarrow> UsbGpioSessions \<Rightarrow> v1_payload hal_result" where
  "gpio_next_edge_handler runtime message limits registry =
     and_then (gpio_next_edge_request_from_proto message) (\<lambda>(session, lease, request, timeout).
     and_then (usb_gpio_validate registry session lease KindGpio ''gpio.next_edge'' False) (\<lambda>ctx.
     and_then (capability_require (sr_capabilities ctx) gpio_edges_capability GPIO_EDGES_CAPABILITY (sr_resource_id ctx)) (\<lambda>_.
     if response_bound 24 > nl_max_frame_bytes limits
     then Err (invalid_message ''GPIO edge response exceeds negotiated frame limit'')
     else map_ok (\<lambda>event. PGpioNextEdgeResponse (gpio_next_edge_response_to_proto event))
       (ur_gpio_next_edge runtime session lease request timeout))))"

definition usb_close_handler ::
  "UsbGpioRuntime \<Rightarrow> v1_SessionLease \<Rightarrow> UsbGpioSessions \<Rightarrow> v1_payload hal_result \<times> UsbGpioSessions" where
  "usb_close_handler runtime request registry =
     (case close_step (usb_close_request_from_proto request)
         (\<lambda>session lease. usb_gpio_validate registry session lease KindUsb ''usb.close'' True) (ur_close_usb runtime) of
        Err error \<Rightarrow> (Err error, registry)
      | Ok None \<Rightarrow> (Ok (PCloseUsbResponse ()), registry)
      | Ok (Some session) \<Rightarrow> (Ok (PCloseUsbResponse ()), record_closed session registry))"

definition gpio_close_handler ::
  "UsbGpioRuntime \<Rightarrow> v1_SessionLease \<Rightarrow> UsbGpioSessions \<Rightarrow> v1_payload hal_result \<times> UsbGpioSessions" where
  "gpio_close_handler runtime request registry =
     (case close_step (gpio_close_request_from_proto request)
         (\<lambda>session lease. usb_gpio_validate registry session lease KindGpio ''gpio.close'' True) (ur_close_gpio runtime) of
        Err error \<Rightarrow> (Err error, registry)
      | Ok None \<Rightarrow> (Ok (PCloseGpioResponse ()), registry)
      | Ok (Some session) \<Rightarrow> (Ok (PCloseGpioResponse ()), record_closed session registry))"

definition usb_gpio_dispatch ::
  "UsbGpioRuntime \<Rightarrow> OwnerId \<Rightarrow> v1_payload \<Rightarrow> NegotiatedLimits \<Rightarrow> UsbGpioSessions \<Rightarrow> v1_payload hal_result \<times> UsbGpioSessions" where
  "usb_gpio_dispatch runtime owner payload limits registry =
     (case payload of
        PEnumerateUsbRequest _ \<Rightarrow> (usb_enumerate_handler runtime, registry)
      | POpenUsbRequest request \<Rightarrow> usb_open_handler runtime owner request registry
      | PUsbTransferRequest request \<Rightarrow> (usb_transfer_handler runtime request limits registry, registry)
      | PCloseUsbRequest request \<Rightarrow> usb_close_handler runtime request registry
      | PEnumerateGpioRequest _ \<Rightarrow> (gpio_enumerate_handler runtime, registry)
      | POpenGpioRequest request \<Rightarrow> gpio_open_handler runtime owner request registry
      | PGpioReadRequest request \<Rightarrow> (gpio_read_handler runtime request registry, registry)
      | PGpioWriteRequest request \<Rightarrow> (gpio_write_handler runtime request limits registry, registry)
      | PGpioNextEdgeRequest request \<Rightarrow> (gpio_next_edge_handler runtime request limits registry, registry)
      | PCloseGpioRequest request \<Rightarrow> gpio_close_handler runtime request registry
      | _ \<Rightarrow> (Err (invalid_message ''USB/GPIO response payloads are not valid client requests''), registry))"

section \<open>Cameras\<close>

type_synonym CameraSessions = "unit SessionRegistry"

record CameraRuntime =
  kr_enumerate :: "ResourceDescriptor list hal_result"
  kr_open :: "OwnerId \<Rightarrow> ResourceSelector \<Rightarrow> CameraRequest \<Rightarrow> (SessionId \<times> LeaseToken) hal_result"
  kr_capture :: "SessionId \<Rightarrow> LeaseToken \<Rightarrow> duration \<Rightarrow> unit hal_result"
  kr_mapping_descriptor :: "SessionId \<Rightarrow> LeaseToken \<Rightarrow> MappingDescriptor hal_result"
  kr_next_frame_lease :: "SessionId \<Rightarrow> LeaseToken \<Rightarrow> FrameLease option hal_result"
  kr_dropped_count :: "SessionId \<Rightarrow> LeaseToken \<Rightarrow> u64 hal_result"
  kr_controls :: "SessionId \<Rightarrow> LeaseToken \<Rightarrow> CameraControlDescriptor list hal_result"
  kr_get_control :: "SessionId \<Rightarrow> LeaseToken \<Rightarrow> CameraControlKind \<Rightarrow> CameraControlValue hal_result"
  kr_set_control :: "SessionId \<Rightarrow> LeaseToken \<Rightarrow> CameraControlKind \<Rightarrow> CameraControlValue \<Rightarrow> unit hal_result"
  kr_set_auto :: "SessionId \<Rightarrow> LeaseToken \<Rightarrow> CameraControlKind \<Rightarrow> bool \<Rightarrow> unit hal_result"
  kr_close :: "SessionId \<Rightarrow> LeaseToken \<Rightarrow> unit hal_result"

text \<open>The two checks that open every camera operation, and the operation itself on the session and its lease.\<close>

definition camera_gate ::
  "CameraSessions \<Rightarrow> SessionId \<Rightarrow> LeaseToken \<Rightarrow> string \<Rightarrow> CapabilityId \<Rightarrow> string \<Rightarrow> unit hal_result" where
  "camera_gate registry session lease operation capability name =
     and_then (camera_validate registry session lease operation False) (\<lambda>ctx.
     capability_require (sr_capabilities ctx) capability name (sr_resource_id ctx))"

definition camera_operation ::
  "CameraSessions \<Rightarrow> 'a v1_SessionLease_scheme \<Rightarrow> string \<Rightarrow> CapabilityId \<Rightarrow> string
     \<Rightarrow> (SessionId \<Rightarrow> LeaseToken \<Rightarrow> v1_payload hal_result) \<Rightarrow> v1_payload hal_result" where
  "camera_operation registry request operation capability name run =
     and_then (camera_session_lease_from_proto (wsl_session_id request) (wsl_lease request)) (\<lambda>(session, lease).
     and_then (camera_gate registry session lease operation capability name) (\<lambda>_. run session lease))"

definition camera_open_handler ::
  "CameraRuntime \<Rightarrow> OwnerId \<Rightarrow> v1_OpenCameraRequest \<Rightarrow> CameraSessions \<Rightarrow> v1_payload hal_result \<times> CameraSessions" where
  "camera_open_handler runtime owner message registry =
     (case and_then (camera_open_request_from_proto message) (\<lambda>(selector, request).
        and_then (kr_enumerate runtime) (\<lambda>descriptors.
        and_then (device_select descriptors selector ''camera.open'') (\<lambda>descriptor.
        and_then (capability_require (rd_capabilities descriptor) camera_capture_capability CAMERA_CAPTURE_CAPABILITY
          (rd_id descriptor)) (\<lambda>_.
        map_ok (\<lambda>(session, lease). (descriptor, session, lease)) (kr_open runtime owner selector request))))) of
        Err error \<Rightarrow> (Err error, registry)
      | Ok (descriptor, session, lease) \<Rightarrow>
          (Ok (POpenCameraResponse (camera_open_response_to_proto session lease)),
           insert_session session (session_of descriptor lease) registry))"

definition camera_capture_handler :: "CameraRuntime \<Rightarrow> v1_CaptureCameraRequest \<Rightarrow> CameraSessions \<Rightarrow> v1_payload hal_result" where
  "camera_capture_handler runtime request registry =
     and_then (camera_capture_request_from_proto request) (\<lambda>(session, lease, timeout).
     and_then (camera_gate registry session lease ''camera.capture'' camera_capture_capability CAMERA_CAPTURE_CAPABILITY) (\<lambda>_.
     map_ok PCaptureCameraResponse (kr_capture runtime session lease timeout)))"

definition camera_mapping_descriptor_handler :: "CameraRuntime \<Rightarrow> v1_SessionLease \<Rightarrow> CameraSessions \<Rightarrow> v1_payload hal_result" where
  "camera_mapping_descriptor_handler runtime request registry =
     camera_operation registry request ''camera.mapping_descriptor'' camera_frames_shm_capability CAMERA_FRAMES_SHM_CAPABILITY
       (\<lambda>session lease. map_ok (\<lambda>descriptor. PCameraMappingDescriptorResponse (Some (camera_mapping_descriptor_to_proto descriptor)))
          (kr_mapping_descriptor runtime session lease))"

definition camera_next_frame_lease_handler :: "CameraRuntime \<Rightarrow> v1_SessionLease \<Rightarrow> CameraSessions \<Rightarrow> v1_payload hal_result" where
  "camera_next_frame_lease_handler runtime request registry =
     camera_operation registry request ''camera.next_frame_lease'' camera_frames_shm_capability CAMERA_FRAMES_SHM_CAPABILITY
       (\<lambda>session lease. map_ok (\<lambda>frame. PCameraNextFrameLeaseResponse (map_option frame_lease_to_proto frame))
          (kr_next_frame_lease runtime session lease))"

definition camera_dropped_count_handler :: "CameraRuntime \<Rightarrow> v1_SessionLease \<Rightarrow> CameraSessions \<Rightarrow> v1_payload hal_result" where
  "camera_dropped_count_handler runtime request registry =
     camera_operation registry request ''camera.dropped_count'' camera_frames_shm_capability CAMERA_FRAMES_SHM_CAPABILITY
       (\<lambda>session lease. map_ok PCameraDroppedCountResponse (kr_dropped_count runtime session lease))"

definition camera_controls_handler :: "CameraRuntime \<Rightarrow> v1_SessionLease \<Rightarrow> CameraSessions \<Rightarrow> v1_payload hal_result" where
  "camera_controls_handler runtime request registry =
     camera_operation registry request ''camera.controls'' camera_controls_capability CAMERA_CONTROLS_CAPABILITY
       (\<lambda>session lease. map_ok (\<lambda>controls. PCameraControlsResponse (map camera_control_descriptor_to_proto controls))
          (kr_controls runtime session lease))"

definition camera_get_control_handler ::
  "CameraRuntime \<Rightarrow> v1_CameraGetControlRequest \<Rightarrow> CameraSessions \<Rightarrow> v1_payload hal_result" where
  "camera_get_control_handler runtime request registry =
     camera_operation registry request ''camera.control.get'' camera_controls_capability CAMERA_CONTROLS_CAPABILITY
       (\<lambda>session lease. and_then (camera_control_kind_from_proto (wcg_kind request)) (\<lambda>kind.
          map_ok (\<lambda>v. PCameraGetControlResponse (Some (camera_control_value_to_proto v))) (kr_get_control runtime session lease kind)))"

definition camera_set_control_handler ::
  "CameraRuntime \<Rightarrow> v1_CameraSetControlRequest \<Rightarrow> CameraSessions \<Rightarrow> v1_payload hal_result" where
  "camera_set_control_handler runtime request registry =
     camera_operation registry request ''camera.control.set'' camera_controls_capability CAMERA_CONTROLS_CAPABILITY
       (\<lambda>session lease. and_then (ok_or (invalid_message ''camera control value is required'') (wcs_value request)) (\<lambda>v.
          and_then (camera_control_kind_from_proto (wcs_kind request)) (\<lambda>kind.
          and_then (camera_control_value_from_proto v) (\<lambda>v.
          map_ok PCameraSetControlResponse (kr_set_control runtime session lease kind v)))))"

definition camera_set_auto_handler :: "CameraRuntime \<Rightarrow> v1_CameraSetAutoRequest \<Rightarrow> CameraSessions \<Rightarrow> v1_payload hal_result" where
  "camera_set_auto_handler runtime request registry =
     camera_operation registry request ''camera.control.auto'' camera_controls_capability CAMERA_CONTROLS_CAPABILITY
       (\<lambda>session lease. and_then (camera_control_kind_from_proto (wca_kind request)) (\<lambda>kind.
          map_ok PCameraSetAutoResponse (kr_set_auto runtime session lease kind (wca_enabled request))))"

definition camera_close_handler ::
  "CameraRuntime \<Rightarrow> v1_SessionLease \<Rightarrow> CameraSessions \<Rightarrow> v1_payload hal_result \<times> CameraSessions" where
  "camera_close_handler runtime request registry =
     (case close_step (camera_session_lease_from_proto (wsl_session_id request) (wsl_lease request))
         (\<lambda>session lease. camera_validate registry session lease ''camera.close'' True) (kr_close runtime) of
        Err error \<Rightarrow> (Err error, registry)
      | Ok None \<Rightarrow> (Ok (PCloseCameraResponse ()), registry)
      | Ok (Some session) \<Rightarrow> (Ok (PCloseCameraResponse ()), camera_record_closed session registry))"

definition camera_dispatch ::
  "CameraRuntime \<Rightarrow> OwnerId \<Rightarrow> v1_payload \<Rightarrow> CameraSessions \<Rightarrow> v1_payload hal_result \<times> CameraSessions" where
  "camera_dispatch runtime owner payload registry =
     (case payload of
        PEnumerateCameraRequest _ \<Rightarrow>
          (and_then (kr_enumerate runtime) (\<lambda>resources. map_ok PEnumerateCameraResponse (encode_resources resources)), registry)
      | POpenCameraRequest request \<Rightarrow> camera_open_handler runtime owner request registry
      | PCaptureCameraRequest request \<Rightarrow> (camera_capture_handler runtime request registry, registry)
      | PCameraMappingDescriptorRequest request \<Rightarrow> (camera_mapping_descriptor_handler runtime request registry, registry)
      | PCameraNextFrameLeaseRequest request \<Rightarrow> (camera_next_frame_lease_handler runtime request registry, registry)
      | PCameraDroppedCountRequest request \<Rightarrow> (camera_dropped_count_handler runtime request registry, registry)
      | PCameraControlsRequest request \<Rightarrow> (camera_controls_handler runtime request registry, registry)
      | PCameraGetControlRequest request \<Rightarrow> (camera_get_control_handler runtime request registry, registry)
      | PCameraSetControlRequest request \<Rightarrow> (camera_set_control_handler runtime request registry, registry)
      | PCameraSetAutoRequest request \<Rightarrow> (camera_set_auto_handler runtime request registry, registry)
      | PCloseCameraRequest request \<Rightarrow> camera_close_handler runtime request registry
      | _ \<Rightarrow> (Err (invalid_message ''Camera response payloads are not valid client requests''), registry))"

end
