(* ===== verification/Broker_Dispatch.thy ===== *)
theory Broker_Dispatch
  imports Broker_Can Broker_Devices
begin

text \<open>
  The serial handlers and the choice of the handler of a request
  (\<open>src/crates/robot-hal-broker/src/connection.rs\<close>, from \<open>dispatch_operation\<close> to
  \<open>record_serial_closed\<close>). The four registries of a connection are one record.
\<close>

section \<open>Serial sessions\<close>

record SerialSessionRegistry =
  ss_active :: "SessionId list"
  ss_closed :: "SessionId list"
  ss_closed_order :: "SessionId list"

definition SerialSessionRegistry_default :: SerialSessionRegistry where
  "SerialSessionRegistry_default = \<lparr>ss_active = [], ss_closed = [], ss_closed_order = []\<rparr>"

definition CLOSED_SERIAL_SESSION_RETENTION :: usize where "CLOSED_SERIAL_SESSION_RETENTION = 256"

definition register_serial_session :: "SessionId \<Rightarrow> SerialSessionRegistry \<Rightarrow> SerialSessionRegistry" where
  "register_serial_session session registry = registry\<lparr>ss_active := List.insert session (ss_active registry)\<rparr>"

definition is_serial_session :: "SerialSessionRegistry \<Rightarrow> SessionId \<Rightarrow> bool" where
  "is_serial_session registry session \<longleftrightarrow> session \<in> set (ss_active registry) \<or> session \<in> set (ss_closed registry)"

fun evict_serial :: "SessionId list \<Rightarrow> SerialSessionRegistry \<Rightarrow> SerialSessionRegistry" where
  "evict_serial [] registry = registry\<lparr>ss_closed_order := []\<rparr>"
| "evict_serial (evicted # order) registry =
     (if length (evicted # order) > CLOSED_SERIAL_SESSION_RETENTION
      then evict_serial order (registry\<lparr>ss_closed := removeAll evicted (ss_closed registry)\<rparr>)
      else registry\<lparr>ss_closed_order := evicted # order\<rparr>)"

text \<open>
  The guard \<open>!active.remove(session) || !closed.insert(session)\<close> removes and inserts before it decides
  to return.
\<close>

definition record_serial_closed :: "SessionId \<Rightarrow> SerialSessionRegistry \<Rightarrow> SerialSessionRegistry" where
  "record_serial_closed session registry =
     (if session \<notin> set (ss_active registry) then registry
      else let removed = registry\<lparr>ss_active := removeAll session (ss_active registry)\<rparr> in
        if session \<in> set (ss_closed registry) then removed
        else evict_serial (ss_closed_order registry @ [session]) (removed\<lparr>ss_closed := session # ss_closed registry\<rparr>))"

record SerialRuntime =
  er_enumerate :: "ResourceDescriptor list hal_result"
  er_open :: "OwnerId \<Rightarrow> ResourceSelector \<Rightarrow> SerialConfig \<Rightarrow> (SessionId \<times> LeaseToken) hal_result"
  er_read :: "SessionId \<Rightarrow> LeaseToken \<Rightarrow> usize \<Rightarrow> u8 list hal_result"
  er_write :: "SessionId \<Rightarrow> LeaseToken \<Rightarrow> u8 list \<Rightarrow> unit hal_result"
  er_flush :: "SessionId \<Rightarrow> LeaseToken \<Rightarrow> unit hal_result"
  er_set_control_lines :: "SessionId \<Rightarrow> LeaseToken \<Rightarrow> ControlLines \<Rightarrow> unit hal_result"
  er_close :: "SessionId \<Rightarrow> LeaseToken \<Rightarrow> unit hal_result"

record HalRuntime =
  hr_serial :: SerialRuntime
  hr_can :: CanRuntime
  hr_usb_gpio :: UsbGpioRuntime
  hr_camera :: CameraRuntime

record Sessions =
  sn_serial :: SerialSessionRegistry
  sn_can :: CanSessions
  sn_usb_gpio :: UsbGpioSessions
  sn_camera :: CameraSessions

definition Sessions_new :: Sessions where
  "Sessions_new = \<lparr>sn_serial = SerialSessionRegistry_default, sn_can = new_session_registry,
     sn_usb_gpio = new_session_registry, sn_camera = new_session_registry\<rparr>"

section \<open>Serial requests\<close>

definition open_session_message :: "SessionId \<Rightarrow> LeaseToken \<Rightarrow> v1_SessionLease" where
  "open_session_message session_id lease =
     \<lparr>wsl_session_id = SessionId_as_str session_id, wsl_lease = Some (LeaseToken_to_proto lease)\<rparr>"

definition serial_open_handler ::
  "SerialRuntime \<Rightarrow> OwnerId \<Rightarrow> v1_OpenSerialRequest \<Rightarrow> SerialSessionRegistry \<Rightarrow> v1_payload hal_result \<times> SerialSessionRegistry" where
  "serial_open_handler runtime owner request registry =
     (case and_then (open_serial_request_from_proto request) (\<lambda>(selector, config). er_open runtime owner selector config) of
        Err error \<Rightarrow> (Err error, registry)
      | Ok (session_id, lease) \<Rightarrow>
          (Ok (POpenSerialResponse (open_session_message session_id lease)), register_serial_session session_id registry))"

definition serial_read_handler :: "SerialRuntime \<Rightarrow> v1_SerialReadRequest \<Rightarrow> NegotiatedLimits \<Rightarrow> v1_payload hal_result" where
  "serial_read_handler runtime request limits =
     (let max_bytes = unat (wsn_max_bytes request) in
      if max_bytes = 0 \<or> max_bytes > nl_max_read_bytes limits
      then Err (invalid_message ''serial read byte limit exceeds the negotiated maximum'')
      else and_then (parse_serial_session_lease (wsl_session_id request) (wsl_lease request)) (\<lambda>(session, lease).
        map_ok PSerialReadResponse (er_read runtime session lease max_bytes)))"

definition serial_write_handler :: "SerialRuntime \<Rightarrow> v1_SerialWriteRequest \<Rightarrow> NegotiatedLimits \<Rightarrow> v1_payload hal_result" where
  "serial_write_handler runtime request limits =
     (if length (wsw_data request) > nl_max_write_bytes limits
      then Err (invalid_message ''serial write byte limit exceeds the negotiated maximum'')
      else and_then (parse_serial_session_lease (wsl_session_id request) (wsl_lease request)) (\<lambda>(session, lease).
        map_ok PSerialWriteResponse (er_write runtime session lease (wsw_data request))))"

definition serial_flush_handler :: "SerialRuntime \<Rightarrow> v1_SessionLease \<Rightarrow> v1_payload hal_result" where
  "serial_flush_handler runtime request =
     and_then (parse_serial_session_lease (wsl_session_id request) (wsl_lease request)) (\<lambda>(session, lease).
     map_ok PSerialFlushResponse (er_flush runtime session lease))"

definition serial_control_lines_handler :: "SerialRuntime \<Rightarrow> v1_SetSerialControlLinesRequest \<Rightarrow> v1_payload hal_result" where
  "serial_control_lines_handler runtime request =
     and_then (parse_serial_session_lease (wsl_session_id request) (wsl_lease request)) (\<lambda>(session, lease).
     map_ok PSetSerialControlLinesResponse (er_set_control_lines runtime session lease
       \<lparr>cl_data_terminal_ready = wsc_data_terminal_ready request, cl_request_to_send = wsc_request_to_send request\<rparr>))"

definition serial_close_handler ::
  "SerialRuntime \<Rightarrow> v1_SessionLease \<Rightarrow> SerialSessionRegistry \<Rightarrow> v1_payload hal_result \<times> SerialSessionRegistry" where
  "serial_close_handler runtime request registry =
     (case and_then (parse_session_lease (wsl_session_id request) (wsl_lease request)) (\<lambda>(session, lease).
        if \<not> is_serial_session registry session
        then Err (protocol_error ''runtime.session.not_found'' ''serial.close'' NotFound False
          ''the Serial session is not owned by this broker connection'')
        else map_ok (\<lambda>_. session) (er_close runtime session lease)) of
        Err error \<Rightarrow> (Err error, registry)
      | Ok session \<Rightarrow> (Ok (PCloseSessionResponse ()), record_serial_closed session registry))"

section \<open>The handler of a request\<close>

definition is_can_payload :: "v1_payload \<Rightarrow> bool" where
  "is_can_payload payload =
     (case payload of PEnumerateCanRequest _ \<Rightarrow> True | PEnumerateCanResponse _ \<Rightarrow> True | POpenCanRequest _ \<Rightarrow> True
      | POpenCanResponse _ \<Rightarrow> True | PCanSendRequest _ \<Rightarrow> True | PCanSendResponse _ \<Rightarrow> True | PCanReceiveRequest _ \<Rightarrow> True
      | PCanReceiveResponse _ \<Rightarrow> True | PReplaceCanFiltersRequest _ \<Rightarrow> True | PReplaceCanFiltersResponse _ \<Rightarrow> True
      | PGetCanBusStatusRequest _ \<Rightarrow> True | PGetCanBusStatusResponse _ \<Rightarrow> True | _ \<Rightarrow> False)"

definition is_usb_gpio_payload :: "v1_payload \<Rightarrow> bool" where
  "is_usb_gpio_payload payload =
     (case payload of PEnumerateUsbRequest _ \<Rightarrow> True | PEnumerateUsbResponse _ \<Rightarrow> True | POpenUsbRequest _ \<Rightarrow> True
      | POpenUsbResponse _ \<Rightarrow> True | PUsbTransferRequest _ \<Rightarrow> True | PUsbTransferResponse _ \<Rightarrow> True | PCloseUsbRequest _ \<Rightarrow> True
      | PCloseUsbResponse _ \<Rightarrow> True | PEnumerateGpioRequest _ \<Rightarrow> True | PEnumerateGpioResponse _ \<Rightarrow> True
      | POpenGpioRequest _ \<Rightarrow> True | POpenGpioResponse _ \<Rightarrow> True | PGpioReadRequest _ \<Rightarrow> True | PGpioReadResponse _ \<Rightarrow> True
      | PGpioWriteRequest _ \<Rightarrow> True | PGpioWriteResponse _ \<Rightarrow> True | PGpioNextEdgeRequest _ \<Rightarrow> True
      | PGpioNextEdgeResponse _ \<Rightarrow> True | PCloseGpioRequest _ \<Rightarrow> True | PCloseGpioResponse _ \<Rightarrow> True | _ \<Rightarrow> False)"

definition is_camera_payload :: "v1_payload \<Rightarrow> bool" where
  "is_camera_payload payload =
     (case payload of PEnumerateCameraRequest _ \<Rightarrow> True | PEnumerateCameraResponse _ \<Rightarrow> True | POpenCameraRequest _ \<Rightarrow> True
      | POpenCameraResponse _ \<Rightarrow> True | PCaptureCameraRequest _ \<Rightarrow> True | PCaptureCameraResponse _ \<Rightarrow> True
      | PCameraMappingDescriptorRequest _ \<Rightarrow> True | PCameraMappingDescriptorResponse _ \<Rightarrow> True
      | PCameraNextFrameLeaseRequest _ \<Rightarrow> True | PCameraNextFrameLeaseResponse _ \<Rightarrow> True
      | PCameraDroppedCountRequest _ \<Rightarrow> True | PCameraDroppedCountResponse _ \<Rightarrow> True
      | PCameraControlsRequest _ \<Rightarrow> True | PCameraControlsResponse _ \<Rightarrow> True
      | PCameraGetControlRequest _ \<Rightarrow> True | PCameraGetControlResponse _ \<Rightarrow> True
      | PCameraSetControlRequest _ \<Rightarrow> True | PCameraSetControlResponse _ \<Rightarrow> True
      | PCameraSetAutoRequest _ \<Rightarrow> True | PCameraSetAutoResponse _ \<Rightarrow> True
      | PCloseCameraRequest _ \<Rightarrow> True | PCloseCameraResponse _ \<Rightarrow> True | _ \<Rightarrow> False)"

text \<open>
  The first four arms of \<open>dispatch_operation_inner\<close> open USB and GPIO sessions without the capability
  check and without a registry entry.
\<close>

definition inner_open_usb :: "UsbGpioRuntime \<Rightarrow> OwnerId \<Rightarrow> v1_OpenUsbRequest \<Rightarrow> v1_payload hal_result" where
  "inner_open_usb runtime owner request =
     and_then (ok_or (invalid_message ''usb open selector is required'') (wou_selector request)) (\<lambda>selector.
     and_then (ResourceSelector_from_proto selector) (\<lambda>selector.
     and_then (if unat (wou_interface_number request) < 2 ^ 8 then Ok (ucast (wou_interface_number request))
       else Err (invalid_message ''USB interface number exceeds u8'')) (\<lambda>interface.
     map_ok (\<lambda>(session_id, lease). POpenUsbResponse (open_session_message session_id lease))
       (ur_open_usb runtime owner selector interface))))"

definition inner_open_gpio :: "UsbGpioRuntime \<Rightarrow> OwnerId \<Rightarrow> v1_OpenGpioRequest \<Rightarrow> v1_payload hal_result" where
  "inner_open_gpio runtime owner request =
     (if wog_lines request = [] then Err (invalid_message ''GPIO open requires at least one line'')
      else and_then (ok_or (invalid_message ''GPIO open selector is required'') (wog_selector request)) (\<lambda>selector.
        and_then (ResourceSelector_from_proto selector) (\<lambda>selector.
        and_then (ok_or (invalid_message ''GPIO line configuration is required'') (wog_config request)) (\<lambda>config.
        and_then (gpio_config_from_proto config) (\<lambda>config.
        map_ok (\<lambda>(session_id, lease). POpenGpioResponse (open_session_message session_id lease))
          (ur_open_gpio runtime owner selector (wog_lines request) config))))))"

definition serial_result :: "'a \<times> SerialSessionRegistry \<Rightarrow> Sessions \<Rightarrow> 'a \<times> Sessions" where
  "serial_result r sessions = (fst r, sessions\<lparr>sn_serial := snd r\<rparr>)"

definition can_result :: "'a \<times> CanSessions \<Rightarrow> Sessions \<Rightarrow> 'a \<times> Sessions" where
  "can_result r sessions = (fst r, sessions\<lparr>sn_can := snd r\<rparr>)"

definition dispatch_operation_inner ::
  "HalRuntime \<Rightarrow> OwnerId \<Rightarrow> v1_payload option \<Rightarrow> NegotiatedLimits \<Rightarrow> Sessions \<Rightarrow> v1_payload hal_result \<times> Sessions" where
  "dispatch_operation_inner runtime owner payload limits sessions =
     (case payload of
        None \<Rightarrow> (Err (invalid_message ''envelope payload is required''), sessions)
      | Some payload \<Rightarrow>
          (case payload of
             PEnumerateUsbRequest _ \<Rightarrow> (usb_enumerate_handler (hr_usb_gpio runtime), sessions)
           | PEnumerateGpioRequest _ \<Rightarrow> (gpio_enumerate_handler (hr_usb_gpio runtime), sessions)
           | POpenUsbRequest request \<Rightarrow> (inner_open_usb (hr_usb_gpio runtime) owner request, sessions)
           | POpenGpioRequest request \<Rightarrow> (inner_open_gpio (hr_usb_gpio runtime) owner request, sessions)
           | PEnumerateSerialRequest _ \<Rightarrow>
               (and_then (er_enumerate (hr_serial runtime)) (\<lambda>resources.
                  map_ok PEnumerateSerialResponse (encode_resources resources)), sessions)
           | POpenSerialRequest request \<Rightarrow>
               serial_result (serial_open_handler (hr_serial runtime) owner request (sn_serial sessions)) sessions
           | PSerialReadRequest request \<Rightarrow> (serial_read_handler (hr_serial runtime) request limits, sessions)
           | PSerialWriteRequest request \<Rightarrow> (serial_write_handler (hr_serial runtime) request limits, sessions)
           | PSerialFlushRequest request \<Rightarrow> (serial_flush_handler (hr_serial runtime) request, sessions)
           | PSetSerialControlLinesRequest request \<Rightarrow> (serial_control_lines_handler (hr_serial runtime) request, sessions)
           | PCloseSessionRequest request \<Rightarrow>
               if is_can_session (sn_can sessions) (wsl_session_id request)
               then can_result (can_close_handler (hr_can runtime) request (sn_can sessions)) sessions
               else serial_result (serial_close_handler (hr_serial runtime) request (sn_serial sessions)) sessions
           | _ \<Rightarrow> (Err (invalid_message ''response and event payloads are not valid client requests''), sessions)))"

definition unsupported_minor :: "string \<Rightarrow> HalError" where
  "unsupported_minor message =
     protocol_error ''runtime.protocol.unsupported_capability'' ''runtime.protocol.dispatch'' Conflict False message"

definition dispatch_payload ::
  "HalRuntime \<Rightarrow> OwnerId \<Rightarrow> v1_payload option \<Rightarrow> NegotiatedLimits \<Rightarrow> Sessions \<Rightarrow> v1_payload hal_result \<times> Sessions" where
  "dispatch_payload runtime owner payload limits sessions =
     (case payload of
        None \<Rightarrow> dispatch_operation_inner runtime owner None limits sessions
      | Some p \<Rightarrow>
          if is_camera_payload p \<and> nl_protocol_minor limits < CAMERA_WIRE_MINOR then
            (Err (unsupported_minor ''Camera operations require negotiated protocol minor 3''), sessions)
          else if is_usb_gpio_payload p \<and> nl_protocol_minor limits < 2 then
            (Err (unsupported_minor ''USB and GPIO operations require negotiated protocol minor 2''), sessions)
          else if is_can_payload p then
            can_result (can_dispatch (hr_can runtime) owner p limits (sn_can sessions)) sessions
          else if is_usb_gpio_payload p then
            (let r = usb_gpio_dispatch (hr_usb_gpio runtime) owner p limits (sn_usb_gpio sessions)
             in (fst r, sessions\<lparr>sn_usb_gpio := snd r\<rparr>))
          else if is_camera_payload p then
            (let r = camera_dispatch (hr_camera runtime) owner p (sn_camera sessions)
             in (fst r, sessions\<lparr>sn_camera := snd r\<rparr>))
          else dispatch_operation_inner runtime owner (Some p) limits sessions)"

definition dispatch_operation ::
  "HalRuntime \<Rightarrow> OwnerId \<Rightarrow> u64 \<Rightarrow> v1_payload option \<Rightarrow> NegotiatedLimits \<Rightarrow> Sessions \<Rightarrow> v1_Envelope \<times> Sessions" where
  "dispatch_operation runtime owner request_id payload limits sessions =
     (let r = dispatch_payload runtime owner payload limits sessions in
      (case fst r of
         Ok payload \<Rightarrow> \<lparr>we_request_id = request_id, we_payload = Some payload\<rparr>
       | Err error \<Rightarrow> error_envelope request_id error, snd r))"

end
