(* ===== verification/Broker_Dispatch_Props.thy ===== *)
theory Broker_Dispatch_Props
  imports Broker_Dispatch Wire_Can_Laws
begin

text \<open>
  What a broker connection guarantees over any sequence of requests: the registries stay bounded and
  consistent, a close may be repeated, and a request without the lease of its session never reaches the
  runtime.
\<close>

section \<open>Registries\<close>

definition is_closed :: "(SessionId, 'a SessionRecord_scheme) hashmap \<Rightarrow> SessionId \<Rightarrow> bool" where
  "is_closed sessions s \<longleftrightarrow> (\<exists>r. hm_get sessions s = Some r \<and> sr_closed r)"

definition registry_ok :: "'a SessionRegistry \<Rightarrow> bool" where
  "registry_ok g \<longleftrightarrow> distinct (sg_closed_order g) \<and> length (sg_closed_order g) \<le> CLOSED_SESSION_RETENTION
     \<and> (\<forall>s. s \<in> set (sg_closed_order g) \<longleftrightarrow> is_closed (sg_sessions g) s)"

lemma registry_ok_new [simp]: "registry_ok new_session_registry"
  by (simp add: registry_ok_def new_session_registry_def is_closed_def)

lemma registry_ok_insert:
  assumes "registry_ok g" "hm_get (sg_sessions g) s = None" "\<not> sr_closed r"
  shows "registry_ok (insert_session s r g)"
proof -
  have "is_closed (hm_insert s r (sg_sessions g)) s' = is_closed (sg_sessions g) s'" for s'
    using assms by (simp add: is_closed_def)
  then show ?thesis using assms(1) by (simp add: registry_ok_def insert_session_def)
qed

lemma evict_closed_ok:
  assumes "distinct order" "\<forall>s. s \<in> set order \<longleftrightarrow> is_closed sessions s"
  shows "registry_ok (evict_closed order sessions)
    \<and> (order \<noteq> [] \<longrightarrow> hm_get (sg_sessions (evict_closed order sessions)) (last order) = hm_get sessions (last order))
    \<and> camera_evict_closed order sessions = evict_closed order sessions"
  using assms
proof (induction order arbitrary: sessions)
  case Nil
  then show ?case by (simp add: registry_ok_def)
next
  case (Cons e order)
  have e: "is_closed sessions e" using Cons.prems(2) by auto
  then have drop: "(case hm_get sessions e of Some r \<Rightarrow> if sr_closed r then hm_remove e sessions else sessions
      | None \<Rightarrow> sessions) = hm_remove e sessions" by (auto simp: is_closed_def)
  have rest: "\<forall>s. s \<in> set order \<longleftrightarrow> is_closed (hm_remove e sessions) s"
    using Cons.prems by (auto simp: is_closed_def)
  have "last order \<noteq> e" if "order \<noteq> []" using Cons.prems(1) last_in_set [OF that] by auto
  then show ?case
    using Cons.IH [OF _ rest] Cons.prems drop by (auto simp: registry_ok_def CLOSED_SESSION_RETENTION_def)
qed

text \<open>The contract of recording a close, for both eviction loops.\<close>

lemma record_closed_ok:
  assumes "registry_ok g" "hm_get (sg_sessions g) s = Some r" "\<not> sr_closed r"
  shows "registry_ok (record_closed s g)" "hm_get (sg_sessions (record_closed s g)) s = Some (r\<lparr>sr_closed := True\<rparr>)"
    "camera_record_closed s g = record_closed s g"
proof -
  let ?m = "hm_insert s (r\<lparr>sr_closed := True\<rparr>) (sg_sessions g)"
  have "s \<notin> set (sg_closed_order g)" using assms by (auto simp: registry_ok_def is_closed_def)
  then have "distinct (sg_closed_order g @ [s])" "\<forall>t. t \<in> set (sg_closed_order g @ [s]) \<longleftrightarrow> is_closed ?m t"
    using assms(1) by (auto simp: registry_ok_def is_closed_def)
  from evict_closed_ok [OF this] show "registry_ok (record_closed s g)"
    "hm_get (sg_sessions (record_closed s g)) s = Some (r\<lparr>sr_closed := True\<rparr>)"
    "camera_record_closed s g = record_closed s g"
    using assms(2,3) by (simp_all add: record_closed_def camera_record_closed_def)
qed

section \<open>The interface of a family of sessions\<close>

text \<open>
  A family of sessions is its gate and the recording of a close. The gate admits a request exactly when
  the registry holds the session with the presented lease, the session is of the right class, and it is
  open or the operation allows a closed one.
\<close>

locale session_family =
  fixes gate :: "'a SessionRegistry \<Rightarrow> SessionId \<Rightarrow> LeaseToken \<Rightarrow> bool \<Rightarrow> 'a SessionRecord_scheme hal_result"
    and class_ok :: "'a SessionRecord_scheme \<Rightarrow> bool"
    and record_close :: "SessionId \<Rightarrow> 'a SessionRegistry \<Rightarrow> 'a SessionRegistry"
  assumes gate_Ok: "gate g s l allow_closed = Ok r \<longleftrightarrow>
      hm_get (sg_sessions g) s = Some r \<and> sr_lease r = l \<and> class_ok r \<and> (sr_closed r \<longrightarrow> allow_closed)"
    and class_closed: "class_ok (r\<lparr>sr_closed := True\<rparr>) = class_ok r"
    and record_ok: "registry_ok g \<Longrightarrow> hm_get (sg_sessions g) s = Some r \<Longrightarrow> \<not> sr_closed r \<Longrightarrow>
      registry_ok (record_close s g) \<and> hm_get (sg_sessions (record_close s g)) s = Some (r\<lparr>sr_closed := True\<rparr>)"
begin

lemma closed_registry:
  assumes "registry_ok g" "close_step decoded (\<lambda>s l. gate g s l True) close = Ok (Some s)"
  shows "registry_ok (record_close s g)"
  using assms record_ok [OF assms(1)] by (auto simp: close_step_def gate_Ok split: if_splits)

lemma close_repeats:
  assumes "registry_ok g" "close_step decoded (\<lambda>s l. gate g s l True) close = Ok (Some s)"
  shows "close_step decoded (\<lambda>t l. gate (record_close s g) t l True) close' = Ok None"
proof -
  obtain l r where d: "decoded = Ok (s, l)" "hm_get (sg_sessions g) s = Some r" "sr_lease r = l" "class_ok r" "\<not> sr_closed r"
    using assms(2) by (auto simp: close_step_def gate_Ok split: if_splits)
  then have "gate (record_close s g) s l True = Ok (r\<lparr>sr_closed := True\<rparr>)"
    using record_ok [OF assms(1)] by (simp add: gate_Ok class_closed)
  then show ?thesis using d(1) by (simp add: close_step_def)
qed

lemma close_repeats_closed:
  assumes "close_step decoded (\<lambda>s l. gate g s l True) close = Ok None"
  shows "close_step decoded (\<lambda>s l. gate g s l True) close' = Ok None"
  using assms by (auto simp: close_step_def split: if_splits)

end

lemma observe_allowed [simp]: "lease_mode_allows m Observe"
  by (cases m) simp_all

interpretation can_family: session_family
    "\<lambda>g s l allow_closed. validate_session g s l Observe operation allow_closed" "\<lambda>_. True" record_closed for operation
  by unfold_locales (auto simp: validate_session_def record_closed_ok split: option.splits if_splits)

interpretation usb_gpio_family: session_family
    "\<lambda>g s l allow_closed. usb_gpio_validate g s l kind operation allow_closed" "\<lambda>r. sr_kind r = kind" record_closed
    for kind operation
  by unfold_locales (auto simp: usb_gpio_validate_def record_closed_ok split: option.splits if_splits)

interpretation camera_family: session_family
    "\<lambda>g s l allow_closed. camera_validate g s l operation allow_closed" "\<lambda>_. True" camera_record_closed for operation
  by unfold_locales (auto simp: camera_validate_def record_closed_ok split: option.splits if_splits)

section \<open>Sequences of requests\<close>

definition serial_ok :: "SerialSessionRegistry \<Rightarrow> bool" where
  "serial_ok g \<longleftrightarrow> distinct (ss_closed_order g) \<and> length (ss_closed_order g) \<le> CLOSED_SERIAL_SESSION_RETENTION
     \<and> set (ss_closed g) = set (ss_closed_order g) \<and> set (ss_active g) \<inter> set (ss_closed g) = {}"

lemma evict_serial_ok:
  assumes "distinct order" "set (ss_closed g) = set order" "set (ss_active g) \<inter> set (ss_closed g) = {}"
  shows "serial_ok (evict_serial order g)"
  using assms
proof (induction order arbitrary: g)
  case (Cons e order)
  have "serial_ok (evict_serial order (g\<lparr>ss_closed := removeAll e (ss_closed g)\<rparr>))"
    using Cons.prems by (intro Cons.IH) auto
  then show ?case using Cons.prems by (auto simp: serial_ok_def)
qed (simp add: serial_ok_def)

lemma record_serial_closed_ok:
  assumes "serial_ok g"
  shows "serial_ok (record_serial_closed s g)"
proof (cases "s \<in> set (ss_active g)")
  case True
  then have s: "s \<notin> set (ss_closed g)" "s \<notin> set (ss_closed_order g)" using assms by (auto simp: serial_ok_def)
  have "serial_ok (evict_serial (ss_closed_order g @ [s])
      (g\<lparr>ss_active := removeAll s (ss_active g), ss_closed := s # ss_closed g\<rparr>))"
    using assms s by (intro evict_serial_ok) (auto simp: serial_ok_def)
  then show ?thesis using True s by (simp add: record_serial_closed_def Let_def)
qed (simp add: assms record_serial_closed_def)

definition sessions_ok :: "Sessions \<Rightarrow> bool" where
  "sessions_ok s \<longleftrightarrow> serial_ok (sn_serial s) \<and> registry_ok (sn_can s) \<and> registry_ok (sn_usb_gpio s) \<and> registry_ok (sn_camera s)"

text \<open>
  The runtime gives every session it opens an identifier of its own, so that an opened session is not
  one of those the connection holds.
\<close>

definition fresh_ids :: "HalRuntime \<Rightarrow> Sessions \<Rightarrow> bool" where
  "fresh_ids runtime s \<longleftrightarrow>
     (\<forall>ow sel c i l. er_open (hr_serial runtime) ow sel c = Ok (i, l) \<longrightarrow> \<not> is_serial_session (sn_serial s) i)
   \<and> (\<forall>ow sel m c f i l. cr_open (hr_can runtime) ow sel m c f = Ok (i, l) \<longrightarrow> hm_get (sg_sessions (sn_can s)) i = None)
   \<and> (\<forall>ow sel n i l. ur_open_usb (hr_usb_gpio runtime) ow sel n = Ok (i, l) \<longrightarrow> hm_get (sg_sessions (sn_usb_gpio s)) i = None)
   \<and> (\<forall>ow sel ls c i l. ur_open_gpio (hr_usb_gpio runtime) ow sel ls c = Ok (i, l) \<longrightarrow>
        hm_get (sg_sessions (sn_usb_gpio s)) i = None)
   \<and> (\<forall>ow sel q i l. kr_open (hr_camera runtime) ow sel q = Ok (i, l) \<longrightarrow> hm_get (sg_sessions (sn_camera s)) i = None)"

lemma fresh_idsD:
  assumes "fresh_ids runtime s"
  shows "er_open (hr_serial runtime) ow sel c = Ok (i, l) \<Longrightarrow> \<not> is_serial_session (sn_serial s) i"
    "cr_open (hr_can runtime) ow sel m cc f = Ok (i, l) \<Longrightarrow> hm_get (sg_sessions (sn_can s)) i = None"
    "ur_open_usb (hr_usb_gpio runtime) ow sel n = Ok (i, l) \<Longrightarrow> hm_get (sg_sessions (sn_usb_gpio s)) i = None"
    "ur_open_gpio (hr_usb_gpio runtime) ow sel ls gc = Ok (i, l) \<Longrightarrow> hm_get (sg_sessions (sn_usb_gpio s)) i = None"
    "kr_open (hr_camera runtime) ow sel q = Ok (i, l) \<Longrightarrow> hm_get (sg_sessions (sn_camera s)) i = None"
  using assms unfolding fresh_ids_def by metis+

inductive served :: "Sessions \<Rightarrow> bool" where
  served_new: "served Sessions_new"
| served_request: "served s \<Longrightarrow> fresh_ids runtime s \<Longrightarrow> served (snd (dispatch_operation runtime owner i payload limits s))"

text \<open>A handler that fails leaves its registry; one that succeeds passed the last step of its chain.\<close>

lemma handler_registry:
  assumes "P g" "\<And>x. r = Ok x \<Longrightarrow> P (snd (f x))"
  shows "P (snd (case r of Ok x \<Rightarrow> f x | Err e \<Rightarrow> (Err e, g)))"
  using assms by (cases r) auto

lemma and_then_last: "and_then r f = Ok y \<Longrightarrow> (\<And>x. r = Ok x \<Longrightarrow> f x = Ok y \<Longrightarrow> P) \<Longrightarrow> P"
  by auto

lemma serial_handlers_ok:
  assumes "serial_ok g" "\<And>ow sel c i l. er_open runtime ow sel c = Ok (i, l) \<Longrightarrow> \<not> is_serial_session g i"
  shows "serial_ok (snd (serial_open_handler runtime owner q g))" "serial_ok (snd (serial_close_handler runtime m g))"
  unfolding serial_open_handler_def serial_close_handler_def
  using assms record_serial_closed_ok [OF assms(1)]
  by (rule_tac handler_registry; auto simp: register_serial_session_def serial_ok_def is_serial_session_def
      simp del: and_then_eq_Ok elim!: and_then_last split: prod.splits)+

lemma can_handlers_ok:
  assumes "registry_ok g" "\<And>ow sel m c f i l. cr_open runtime ow sel m c f = Ok (i, l) \<Longrightarrow> hm_get (sg_sessions g) i = None"
  shows "registry_ok (snd (can_open_handler runtime owner q g))" "registry_ok (snd (can_close_handler runtime m g))"
proof -
  show "registry_ok (snd (can_open_handler runtime owner q g))"
    unfolding can_open_handler_def using assms
    by (rule_tac handler_registry; auto simp: opened_session_def simp del: and_then_eq_Ok
        intro!: registry_ok_insert elim!: and_then_last split: prod.splits)
  show "registry_ok (snd (can_close_handler runtime m g))"
    unfolding can_close_handler_def
    by (rule handler_registry) (auto simp: assms(1) can_family.closed_registry [OF assms(1)] split: option.split)
qed

lemma usb_gpio_handlers_ok:
  assumes "registry_ok g"
    "\<And>ow sel n i l. ur_open_usb runtime ow sel n = Ok (i, l) \<Longrightarrow> hm_get (sg_sessions g) i = None"
    "\<And>ow sel ls c i l. ur_open_gpio runtime ow sel ls c = Ok (i, l) \<Longrightarrow> hm_get (sg_sessions g) i = None"
  shows "registry_ok (snd (usb_open_handler runtime owner q g))" "registry_ok (snd (usb_close_handler runtime m g))"
    "registry_ok (snd (gpio_open_handler runtime owner q' g))" "registry_ok (snd (gpio_close_handler runtime m' g))"
proof -
  show "registry_ok (snd (usb_open_handler runtime owner q g))" "registry_ok (snd (gpio_open_handler runtime owner q' g))"
    unfolding usb_open_handler_def gpio_open_handler_def using assms
    by (rule_tac handler_registry; auto simp: record_session_def session_of_def SessionRecord.extend_def simp del: and_then_eq_Ok
        intro!: registry_ok_insert elim!: and_then_last split: prod.splits)+
  show "registry_ok (snd (usb_close_handler runtime m g))" "registry_ok (snd (gpio_close_handler runtime m' g))"
    unfolding usb_close_handler_def gpio_close_handler_def
    by (rule handler_registry; auto simp: assms(1) usb_gpio_family.closed_registry [OF assms(1)] split: option.split)+
qed

lemma camera_handlers_ok:
  assumes "registry_ok g" "\<And>ow sel q i l. kr_open runtime ow sel q = Ok (i, l) \<Longrightarrow> hm_get (sg_sessions g) i = None"
  shows "registry_ok (snd (camera_open_handler runtime owner q g))" "registry_ok (snd (camera_close_handler runtime m g))"
proof -
  show "registry_ok (snd (camera_open_handler runtime owner q g))"
    unfolding camera_open_handler_def using assms
    by (rule_tac handler_registry; auto simp: session_of_def simp del: and_then_eq_Ok
        intro!: registry_ok_insert elim!: and_then_last split: prod.splits)
  show "registry_ok (snd (camera_close_handler runtime m g))"
    unfolding camera_close_handler_def
    by (rule handler_registry) (auto simp: assms(1) camera_family.closed_registry [OF assms(1)] split: option.split)
qed

lemma dispatch_keeps_ok:
  assumes "sessions_ok s" "fresh_ids runtime s"
  shows "sessions_ok (snd (dispatch_payload runtime owner payload limits s))"
proof -
  have ok: "serial_ok (sn_serial s)" "registry_ok (sn_can s)" "registry_ok (sn_usb_gpio s)" "registry_ok (sn_camera s)"
    using assms(1) by (simp_all add: sessions_ok_def)
  have serial: "serial_ok (snd (serial_open_handler (hr_serial runtime) owner q (sn_serial s)))"
      "serial_ok (snd (serial_close_handler (hr_serial runtime) m (sn_serial s)))" for q m
    by (rule serial_handlers_ok [OF ok(1) fresh_idsD(1) [OF assms(2)]]; assumption)+
  have can: "registry_ok (snd (can_open_handler (hr_can runtime) owner q (sn_can s)))"
      "registry_ok (snd (can_close_handler (hr_can runtime) m (sn_can s)))" for q m
    by (rule can_handlers_ok [OF ok(2) fresh_idsD(2) [OF assms(2)]]; assumption)+
  have usb: "registry_ok (snd (usb_open_handler (hr_usb_gpio runtime) owner q (sn_usb_gpio s)))"
      "registry_ok (snd (usb_close_handler (hr_usb_gpio runtime) m (sn_usb_gpio s)))"
      "registry_ok (snd (gpio_open_handler (hr_usb_gpio runtime) owner q' (sn_usb_gpio s)))"
      "registry_ok (snd (gpio_close_handler (hr_usb_gpio runtime) m' (sn_usb_gpio s)))" for q q' m m'
    by (rule usb_gpio_handlers_ok [OF ok(3) fresh_idsD(3,4) [OF assms(2)]]; assumption)+
  have camera: "registry_ok (snd (camera_open_handler (hr_camera runtime) owner q (sn_camera s)))"
      "registry_ok (snd (camera_close_handler (hr_camera runtime) m (sn_camera s)))" for q m
    by (rule camera_handlers_ok [OF ok(4) fresh_idsD(5) [OF assms(2)]]; assumption)+
  show ?thesis
  proof (cases payload)
    case None
    with assms(1) show ?thesis by (simp add: dispatch_payload_def dispatch_operation_inner_def)
  next
    case (Some p)
    with assms(1) ok serial can usb camera show ?thesis
      by (cases p) (auto simp: dispatch_payload_def dispatch_operation_inner_def can_dispatch_def usb_gpio_dispatch_def
          camera_dispatch_def is_can_payload_def is_usb_gpio_payload_def is_camera_payload_def can_result_def serial_result_def
          Let_def sessions_ok_def)
  qed
qed

lemma served_ok: "served s \<Longrightarrow> sessions_ok s"
proof (induction rule: served.induct)
  case served_new
  then show ?case by (simp add: Sessions_new_def sessions_ok_def serial_ok_def SerialSessionRegistry_default_def)
next
  case (served_request s runtime owner i payload limits)
  then show ?case using dispatch_keeps_ok by (simp add: dispatch_operation_def Let_def)
qed

section \<open>Refused requests\<close>

text \<open>
  A request holds its session when the registry has the session under the presented lease, and the
  session is open or the request closes it.
\<close>

definition holds_session :: "'a SessionRegistry \<Rightarrow> string \<Rightarrow> v1_LeaseToken option \<Rightarrow> bool \<Rightarrow> bool" where
  "holds_session g session_id lease closing \<longleftrightarrow>
     (\<exists>s l r. parse_session_lease session_id lease = Ok (s, l) \<and> hm_get (sg_sessions g) s = Some r \<and> sr_lease r = l
        \<and> (sr_closed r \<longrightarrow> closing))"

definition admitted :: "Sessions \<Rightarrow> v1_payload \<Rightarrow> bool" where
  "admitted s payload =
     (case payload of
        PCanSendRequest m \<Rightarrow> holds_session (sn_can s) (wsl_session_id m) (wsl_lease m) False
      | PCanReceiveRequest m \<Rightarrow> holds_session (sn_can s) (wsl_session_id m) (wsl_lease m) False
      | PReplaceCanFiltersRequest m \<Rightarrow> holds_session (sn_can s) (wsl_session_id m) (wsl_lease m) False
      | PGetCanBusStatusRequest m \<Rightarrow> holds_session (sn_can s) (wsl_session_id m) (wsl_lease m) False
      | PCloseSessionRequest m \<Rightarrow>
          is_can_session (sn_can s) (wsl_session_id m) \<longrightarrow> holds_session (sn_can s) (wsl_session_id m) (wsl_lease m) True
      | PUsbTransferRequest m \<Rightarrow> holds_session (sn_usb_gpio s) (wsl_session_id m) (wsl_lease m) False
      | PCloseUsbRequest m \<Rightarrow> holds_session (sn_usb_gpio s) (wsl_session_id m) (wsl_lease m) True
      | PGpioReadRequest m \<Rightarrow> holds_session (sn_usb_gpio s) (wsl_session_id m) (wsl_lease m) False
      | PGpioWriteRequest m \<Rightarrow> holds_session (sn_usb_gpio s) (wsl_session_id m) (wsl_lease m) False
      | PGpioNextEdgeRequest m \<Rightarrow> holds_session (sn_usb_gpio s) (wsl_session_id m) (wsl_lease m) False
      | PCloseGpioRequest m \<Rightarrow> holds_session (sn_usb_gpio s) (wsl_session_id m) (wsl_lease m) True
      | PCaptureCameraRequest m \<Rightarrow> holds_session (sn_camera s) (wsl_session_id m) (wsl_lease m) False
      | PCameraMappingDescriptorRequest m \<Rightarrow> holds_session (sn_camera s) (wsl_session_id m) (wsl_lease m) False
      | PCameraNextFrameLeaseRequest m \<Rightarrow> holds_session (sn_camera s) (wsl_session_id m) (wsl_lease m) False
      | PCameraDroppedCountRequest m \<Rightarrow> holds_session (sn_camera s) (wsl_session_id m) (wsl_lease m) False
      | PCameraControlsRequest m \<Rightarrow> holds_session (sn_camera s) (wsl_session_id m) (wsl_lease m) False
      | PCameraGetControlRequest m \<Rightarrow> holds_session (sn_camera s) (wsl_session_id m) (wsl_lease m) False
      | PCameraSetControlRequest m \<Rightarrow> holds_session (sn_camera s) (wsl_session_id m) (wsl_lease m) False
      | PCameraSetAutoRequest m \<Rightarrow> holds_session (sn_camera s) (wsl_session_id m) (wsl_lease m) False
      | PCloseCameraRequest m \<Rightarrow> holds_session (sn_camera s) (wsl_session_id m) (wsl_lease m) True
      | _ \<Rightarrow> True)"

text \<open>A chain of results fails the same way for every runtime when it fails before the runtime is called.\<close>

lemma chain_refused:
  "(\<And>x. r = Ok x \<Longrightarrow> \<exists>e. \<forall>rt. f1 rt x = Err e) \<Longrightarrow> \<exists>e. \<forall>rt. and_then r (f1 rt) = Err e"
  "(\<And>a b. r2 = Ok (a, b) \<Longrightarrow> \<exists>e. \<forall>rt. f2 rt a b = Err e) \<Longrightarrow> \<exists>e. \<forall>rt. and_then r2 (\<lambda>(a, b). f2 rt a b) = Err e"
  "(\<And>a b c. r3 = Ok (a, b, c) \<Longrightarrow> \<exists>e. \<forall>rt. f3 rt a b c = Err e) \<Longrightarrow>
     \<exists>e. \<forall>rt. and_then r3 (\<lambda>(a, b, c). f3 rt a b c) = Err e"
  "(\<And>a b c d. r4 = Ok (a, b, c, d) \<Longrightarrow> \<exists>e. \<forall>rt. f4 rt a b c d = Err e) \<Longrightarrow>
     \<exists>e. \<forall>rt. and_then r4 (\<lambda>(a, b, c, d). f4 rt a b c d) = Err e"
  "(\<not> p \<Longrightarrow> \<exists>e. \<forall>rt. f5 rt = Err e) \<Longrightarrow> \<exists>e. \<forall>rt. (if p then Err e' else f5 rt) = Err e"
  subgoal by (cases r) auto
  subgoal by (cases r2) auto
  subgoal by (cases r3) auto
  subgoal by (cases r4) auto
  subgoal by (cases p) auto
  done

lemma and_then_Ok_first: "and_then r f = Ok y \<Longrightarrow> \<exists>x. r = Ok x"
  by auto

lemma gate_holds:
  "validate_session g s l mode operation closing = Ok r \<Longrightarrow> parse_session_lease i w = Ok (s, l) \<Longrightarrow> holds_session g i w closing"
  "usb_gpio_validate g' s l kind operation closing = Ok r' \<Longrightarrow> parse_session_lease i w = Ok (s, l) \<Longrightarrow> holds_session g' i w closing"
  "camera_validate g'' s l operation closing = Ok r'' \<Longrightarrow> parse_session_lease i w = Ok (s, l) \<Longrightarrow> holds_session g'' i w closing"
  unfolding holds_session_def
  by (fastforce simp: validate_session_def simp del: parse_session_lease_Ok split: option.splits if_splits)
     (fastforce simp: usb_gpio_family.gate_Ok camera_family.gate_Ok simp del: parse_session_lease_Ok)+

lemma decoded_session:
  "can_send_request_from_proto m1 = Ok (s, l, x1) \<Longrightarrow> parse_session_lease (wsl_session_id m1) (wsl_lease m1) = Ok (s, l)"
  "can_receive_request_from_proto m2 = Ok (s, l, n, t) \<Longrightarrow> parse_session_lease (wsl_session_id m2) (wsl_lease m2) = Ok (s, l)"
  "replace_can_filters_request_from_proto m3 = Ok (s, l, x3) \<Longrightarrow> parse_session_lease (wsl_session_id m3) (wsl_lease m3) = Ok (s, l)"
  "get_can_bus_status_request_from_proto m4 = Ok (s, l) \<Longrightarrow> parse_session_lease (wsl_session_id m4) (wsl_lease m4) = Ok (s, l)"
  "usb_transfer_request_from_proto m5 = Ok (s, l, x5, t) \<Longrightarrow> parse_session_lease (wsl_session_id m5) (wsl_lease m5) = Ok (s, l)"
  "usb_close_request_from_proto m4 = Ok (s, l) \<Longrightarrow> parse_session_lease (wsl_session_id m4) (wsl_lease m4) = Ok (s, l)"
  "gpio_read_request_from_proto m4 = Ok (s, l) \<Longrightarrow> parse_session_lease (wsl_session_id m4) (wsl_lease m4) = Ok (s, l)"
  "gpio_close_request_from_proto m4 = Ok (s, l) \<Longrightarrow> parse_session_lease (wsl_session_id m4) (wsl_lease m4) = Ok (s, l)"
  "gpio_write_request_from_proto m6 = Ok (s, l, x6) \<Longrightarrow> parse_session_lease (wsl_session_id m6) (wsl_lease m6) = Ok (s, l)"
  "gpio_next_edge_request_from_proto m7 = Ok (s, l, x7, t) \<Longrightarrow> parse_session_lease (wsl_session_id m7) (wsl_lease m7) = Ok (s, l)"
  "camera_session_lease_from_proto i w = Ok (s, l) \<Longrightarrow> parse_session_lease i w = Ok (s, l)"
  "camera_capture_request_from_proto m8 = Ok (s, l, t) \<Longrightarrow> parse_session_lease (wsl_session_id m8) (wsl_lease m8) = Ok (s, l)"
  by (auto simp: can_send_request_from_proto_def can_receive_request_from_proto_def replace_can_filters_request_from_proto_def
      get_can_bus_status_request_from_proto_def usb_transfer_request_from_proto_def usb_close_request_from_proto_def
      gpio_read_request_from_proto_def gpio_close_request_from_proto_def gpio_write_request_from_proto_def
      gpio_next_edge_request_from_proto_def camera_session_lease_from_proto_def camera_capture_request_from_proto_def
      simp del: parse_session_lease_Ok split: if_splits)

lemma can_refused:
  "\<not> holds_session g (wsl_session_id m1) (wsl_lease m1) False \<Longrightarrow> \<exists>e. \<forall>rt. can_send_handler rt m1 limits g = Err e"
  "\<not> holds_session g (wsl_session_id m2) (wsl_lease m2) False \<Longrightarrow> \<exists>e. \<forall>rt. can_receive_handler rt m2 limits g = Err e"
  "\<not> holds_session g (wsl_session_id m3) (wsl_lease m3) False \<Longrightarrow> \<exists>e. \<forall>rt. can_replace_filters_handler rt m3 g = Err e"
  "\<not> holds_session g (wsl_session_id m4) (wsl_lease m4) False \<Longrightarrow> \<exists>e. \<forall>rt. can_status_handler rt m4 g = Err e"
  unfolding can_send_handler_def can_receive_handler_def can_replace_filters_handler_def can_status_handler_def
  by (intro chain_refused; drule decoded_session; blast dest: gate_holds)+

lemma usb_gpio_refused:
  "\<not> holds_session g (wsl_session_id m1) (wsl_lease m1) False \<Longrightarrow> \<exists>e. \<forall>rt. usb_transfer_handler rt m1 limits g = Err e"
  "\<not> holds_session g (wsl_session_id m2) (wsl_lease m2) False \<Longrightarrow> \<exists>e. \<forall>rt. gpio_read_handler rt m2 g = Err e"
  "\<not> holds_session g (wsl_session_id m3) (wsl_lease m3) False \<Longrightarrow> \<exists>e. \<forall>rt. gpio_write_handler rt m3 limits g = Err e"
  "\<not> holds_session g (wsl_session_id m4) (wsl_lease m4) False \<Longrightarrow> \<exists>e. \<forall>rt. gpio_next_edge_handler rt m4 limits g = Err e"
  unfolding usb_transfer_handler_def gpio_read_handler_def gpio_write_handler_def gpio_next_edge_handler_def
  by (intro chain_refused; drule decoded_session; blast dest: gate_holds)+

lemma camera_operation_refused:
  "\<not> holds_session g (wsl_session_id m) (wsl_lease m) False \<Longrightarrow>
     \<exists>e. \<forall>rt. camera_operation g m operation capability name (run rt) = Err e"
  "\<not> holds_session g (wsl_session_id m') (wsl_lease m') False \<Longrightarrow> \<exists>e. \<forall>rt. camera_capture_handler rt m' g = Err e"
  unfolding camera_operation_def camera_capture_handler_def camera_gate_def
  by (intro chain_refused; drule decoded_session; blast dest: gate_holds and_then_Ok_first)+

lemma camera_refused:
  "\<not> holds_session g (wsl_session_id m1) (wsl_lease m1) False \<Longrightarrow>
     (\<exists>e. \<forall>rt. camera_mapping_descriptor_handler rt m1 g = Err e) \<and> (\<exists>e. \<forall>rt. camera_next_frame_lease_handler rt m1 g = Err e)
     \<and> (\<exists>e. \<forall>rt. camera_dropped_count_handler rt m1 g = Err e) \<and> (\<exists>e. \<forall>rt. camera_controls_handler rt m1 g = Err e)"
  "\<not> holds_session g (wsl_session_id m2) (wsl_lease m2) False \<Longrightarrow> \<exists>e. \<forall>rt. camera_get_control_handler rt m2 g = Err e"
  "\<not> holds_session g (wsl_session_id m3) (wsl_lease m3) False \<Longrightarrow> \<exists>e. \<forall>rt. camera_set_control_handler rt m3 g = Err e"
  "\<not> holds_session g (wsl_session_id m4) (wsl_lease m4) False \<Longrightarrow> \<exists>e. \<forall>rt. camera_set_auto_handler rt m4 g = Err e"
  unfolding camera_mapping_descriptor_handler_def camera_next_frame_lease_handler_def camera_dropped_count_handler_def
    camera_controls_handler_def camera_get_control_handler_def camera_set_control_handler_def camera_set_auto_handler_def
  by (intro conjI camera_operation_refused; assumption)+

lemma close_refused:
  "\<not> holds_session g (wsl_session_id m) (wsl_lease m) True \<Longrightarrow> \<exists>e. \<forall>rt. can_close_handler rt m g = (Err e, g)"
  "\<not> holds_session g' (wsl_session_id m) (wsl_lease m) True \<Longrightarrow>
     (\<exists>e. \<forall>rt. usb_close_handler rt m g' = (Err e, g')) \<and> (\<exists>e. \<forall>rt. gpio_close_handler rt m g' = (Err e, g'))"
  "\<not> holds_session g'' (wsl_session_id m) (wsl_lease m) True \<Longrightarrow> \<exists>e. \<forall>rt. camera_close_handler rt m g'' = (Err e, g'')"
proof -
  have step: "\<exists>e. \<forall>rt. (case r rt of Ok None \<Rightarrow> a | Ok (Some s) \<Rightarrow> b s | Err e \<Rightarrow> (Err e, h)) = (Err e, h)"
    if "\<exists>e. \<forall>rt. r rt = Err e" for r :: "'r \<Rightarrow> SessionId option hal_result" and a b and h :: 'h
    using that by auto
  show "\<not> holds_session g (wsl_session_id m) (wsl_lease m) True \<Longrightarrow> \<exists>e. \<forall>rt. can_close_handler rt m g = (Err e, g)"
    unfolding can_close_handler_def close_step_def
    by (rule step, intro chain_refused) (blast dest: gate_holds)
  show "\<not> holds_session g' (wsl_session_id m) (wsl_lease m) True \<Longrightarrow>
     (\<exists>e. \<forall>rt. usb_close_handler rt m g' = (Err e, g')) \<and> (\<exists>e. \<forall>rt. gpio_close_handler rt m g' = (Err e, g'))"
    unfolding usb_close_handler_def gpio_close_handler_def close_step_def
    by (intro conjI; rule step, intro chain_refused, drule decoded_session, blast dest: gate_holds)
  show "\<not> holds_session g'' (wsl_session_id m) (wsl_lease m) True \<Longrightarrow> \<exists>e. \<forall>rt. camera_close_handler rt m g'' = (Err e, g'')"
    unfolding camera_close_handler_def close_step_def
    by (rule step, intro chain_refused, drule decoded_session, blast dest: gate_holds)
qed

section \<open>Properties\<close>

text \<open>
  C9. A request without the lease of its session has no effect: for every CAN, USB, GPIO and camera
  request that names a session the connection does not hold open under the presented lease, the answer
  is one error that does not depend on the runtime, and the registries stay as they are.
\<close>

theorem refused_requests_have_no_effect:
  assumes "\<not> admitted s payload"
  shows "\<exists>e. \<forall>runtime. dispatch_payload runtime owner (Some payload) limits s = (Err e, s)"
  using assms
  by (cases payload; simp add: admitted_def;
      cases "nl_protocol_minor limits < CAMERA_WIRE_MINOR"; cases "nl_protocol_minor limits < 2";
      simp add: dispatch_payload_def dispatch_operation_inner_def can_dispatch_def usb_gpio_dispatch_def
        camera_dispatch_def is_can_payload_def is_usb_gpio_payload_def is_camera_payload_def can_result_def Let_def;
      auto dest!: can_refused usb_gpio_refused camera_operation_refused(2) camera_refused close_refused)

text \<open>Witness: a camera request with the lease of an earlier generation.\<close>

definition control_lease :: "u64 \<Rightarrow> LeaseToken" where
  "control_lease generation = \<lparr>lt_lease_id = LeaseId ''lease-1'', lt_generation = generation, lt_mode = Control\<rparr>"

definition camera_held :: Sessions where
  "camera_held = Sessions_new\<lparr>sn_camera := insert_session (SessionId ''camera-1'')
     \<lparr>sr_resource_id = ResourceId ''camera:0'', sr_capabilities = [camera_frames_shm_capability], sr_lease = control_lease 2,
      sr_closed = False\<rparr> new_session_registry\<rparr>"

definition stale_request :: v1_payload where
  "stale_request = PCameraNextFrameLeaseRequest
     \<lparr>wsl_session_id = ''camera-1'', wsl_lease = Some (LeaseToken_to_proto (control_lease 1))\<rparr>"

definition camera_limits :: NegotiatedLimits where
  "camera_limits = \<lparr>nl_protocol_minor = 3, nl_max_frame_bytes = 4096, nl_max_read_bytes = 1024, nl_max_write_bytes = 1024\<rparr>"

lemma refused_requests_have_no_effect_witness:
  "\<not> admitted camera_held stale_request
   \<and> (\<exists>e. \<forall>runtime. dispatch_payload runtime (OwnerId ''o'') (Some stale_request) camera_limits camera_held = (Err e, camera_held))"
proof -
  have "control_lease 2 \<noteq> control_lease 1" by (simp add: control_lease_def)
  moreover have "l = control_lease 1" if "LeaseToken_to_proto (control_lease 1) = LeaseToken_to_proto l" "wire_lease_wf l" for l
    using that lease_wire.enc_inj [of "control_lease 1" l] by (simp add: control_lease_def wire_lease_wf_def lease_token_wf_def identifier_eval)
  ultimately have "\<not> admitted camera_held stale_request"
    by (auto simp: admitted_def stale_request_def holds_session_def camera_held_def insert_session_def new_session_registry_def
        split: if_splits)
  then show ?thesis using refused_requests_have_no_effect by blast
qed

lemma closed_bound:
  assumes "registry_ok g"
  shows "card {i. is_closed (sg_sessions g) i} \<le> 256"
proof -
  have "{i. is_closed (sg_sessions g) i} = set (sg_closed_order g)" using assms by (auto simp: registry_ok_def)
  then show ?thesis
    using assms card_length [of "sg_closed_order g"] by (simp add: registry_ok_def CLOSED_SESSION_RETENTION_def)
qed

lemma close_dispatch:
  "dispatch_payload runtime owner (Some (PCloseUsbRequest m)) limits s =
     (if nl_protocol_minor limits < 2 then (Err (unsupported_minor ''USB and GPIO operations require negotiated protocol minor 2''), s)
      else let r = usb_close_handler (hr_usb_gpio runtime) m (sn_usb_gpio s) in (fst r, s\<lparr>sn_usb_gpio := snd r\<rparr>))"
  "dispatch_payload runtime owner (Some (PCloseGpioRequest m)) limits s =
     (if nl_protocol_minor limits < 2 then (Err (unsupported_minor ''USB and GPIO operations require negotiated protocol minor 2''), s)
      else let r = gpio_close_handler (hr_usb_gpio runtime) m (sn_usb_gpio s) in (fst r, s\<lparr>sn_usb_gpio := snd r\<rparr>))"
  "dispatch_payload runtime owner (Some (PCloseCameraRequest m)) limits s =
     (if nl_protocol_minor limits < CAMERA_WIRE_MINOR then (Err (unsupported_minor ''Camera operations require negotiated protocol minor 3''), s)
      else let r = camera_close_handler (hr_camera runtime) m (sn_camera s) in (fst r, s\<lparr>sn_camera := snd r\<rparr>))"
  "dispatch_payload runtime owner (Some (PCloseSessionRequest m)) limits s =
     (if is_can_session (sn_can s) (wsl_session_id m) then can_result (can_close_handler (hr_can runtime) m (sn_can s)) s
      else serial_result (serial_close_handler (hr_serial runtime) m (sn_serial s)) s)"
  by (simp_all add: dispatch_payload_def dispatch_operation_inner_def usb_gpio_dispatch_def camera_dispatch_def is_can_payload_def
      is_usb_gpio_payload_def is_camera_payload_def)

text \<open>A sample run: a USB session is opened and closed; the other devices are unavailable.\<close>

definition usb_descriptor :: ResourceDescriptor where
  "usb_descriptor = \<lparr>rd_id = ResourceId ''usb:0'', rd_endpoint = Endpoint ''bus1'', rd_minimum_identity_quality = Strong,
     rd_transport = TUsb, rd_properties = [], rd_capabilities = [usb_control_capability]\<rparr>"

definition usb_selector :: ResourceSelector where
  "usb_selector = ResourceSelector_exact (ResourceId ''usb:0'') Strong TUsb"

definition sample_runtime :: HalRuntime where
  "sample_runtime =
     \<lparr>hr_serial = \<lparr>er_enumerate = Err response_queue_full, er_open = (\<lambda>_ _ _. Err response_queue_full), er_read = (\<lambda>_ _ _. Err response_queue_full),
         er_write = (\<lambda>_ _ _. Err response_queue_full), er_flush = (\<lambda>_ _. Err response_queue_full),
         er_set_control_lines = (\<lambda>_ _ _. Err response_queue_full), er_close = (\<lambda>_ _. Err response_queue_full)\<rparr>,
       hr_can = \<lparr>cr_enumerate = Err response_queue_full, cr_open = (\<lambda>_ _ _ _ _. Err response_queue_full),
         cr_send_batch = (\<lambda>_ _ _. Ok ()), cr_receive = (\<lambda>_ _ _ _. Err response_queue_full),
         cr_replace_filters = (\<lambda>_ _ _. Err response_queue_full), cr_bus_status = (\<lambda>_ _. Err response_queue_full),
         cr_close = (\<lambda>_ _. Err response_queue_full)\<rparr>,
       hr_usb_gpio = \<lparr>ur_enumerate_usb = Ok [usb_descriptor], ur_open_usb = (\<lambda>_ _ _. Ok (SessionId ''usb-1'', control_lease 1)),
         ur_usb_transfer = (\<lambda>_ _ _ _. Ok []), ur_close_usb = (\<lambda>_ _. Ok ()), ur_enumerate_gpio = Err response_queue_full,
         ur_open_gpio = (\<lambda>_ _ _ _. Err response_queue_full), ur_gpio_read = (\<lambda>_ _. Err response_queue_full),
         ur_gpio_write = (\<lambda>_ _ _. Err response_queue_full), ur_gpio_next_edge = (\<lambda>_ _ _ _. Err response_queue_full),
         ur_close_gpio = (\<lambda>_ _. Err response_queue_full)\<rparr>,
       hr_camera = \<lparr>kr_enumerate = Err response_queue_full, kr_open = (\<lambda>_ _ _. Err response_queue_full),
         kr_capture = (\<lambda>_ _ _. Err response_queue_full), kr_mapping_descriptor = (\<lambda>_ _. Err response_queue_full),
         kr_next_frame_lease = (\<lambda>_ _. Err response_queue_full), kr_dropped_count = (\<lambda>_ _. Err response_queue_full),
         kr_controls = (\<lambda>_ _. Err response_queue_full), kr_get_control = (\<lambda>_ _ _. Err response_queue_full),
         kr_set_control = (\<lambda>_ _ _ _. Err response_queue_full), kr_set_auto = (\<lambda>_ _ _ _. Err response_queue_full),
         kr_close = (\<lambda>_ _. Err response_queue_full)\<rparr>\<rparr>"

definition usb_opened :: Sessions where
  "usb_opened = Sessions_new\<lparr>sn_usb_gpio :=
     record_session (SessionId ''usb-1'') usb_descriptor (control_lease 1) KindUsb new_session_registry\<rparr>"

definition usb_close_message :: v1_SessionLease where
  "usb_close_message = \<lparr>wsl_session_id = ''usb-1'', wsl_lease = Some (LeaseToken_to_proto (control_lease 1))\<rparr>"

lemma usb_open_run:
  "dispatch_operation sample_runtime (OwnerId ''o'') 1
     (Some (POpenUsbRequest \<lparr>wou_selector = Some (selector_message usb_selector), wou_interface_number = 0\<rparr>))
     camera_limits Sessions_new =
   (\<lparr>we_request_id = 1, we_payload = Some (POpenUsbResponse (open_usb_response_to_proto (SessionId ''usb-1'') (control_lease 1)))\<rparr>,
    usb_opened)"
proof -
  have d: "device_select [usb_descriptor] usb_selector ''usb.open'' = Ok usb_descriptor"
    by (simp add: device_select_def usb_descriptor_def usb_selector_def ResourceSelector_exact_def satisfies_def)
  have q: "open_usb_request_from_proto \<lparr>wou_selector = Some (selector_message usb_selector), wou_interface_number = 0\<rparr>
      = Ok (usb_selector, 0)"
    by (simp add: open_usb_request_from_proto_def usb_selector_from_proto_def usb_selector_def ResourceSelector_exact_def
        selector_wf_def identifier_eval)
  have c: "capability_require (rd_capabilities usb_descriptor) usb_control_capability n i = Ok ()" for n i
    by (simp add: capability_require_def CapabilitySet_contains_def usb_descriptor_def)
  show ?thesis
    by (simp add: dispatch_operation_def dispatch_payload_def camera_limits_def is_can_payload_def is_usb_gpio_payload_def
        is_camera_payload_def usb_gpio_dispatch_def usb_open_handler_def q sample_runtime_def Let_def d c usb_opened_def
        Sessions_new_def)
qed

lemma usb_opened_served: "served usb_opened"
proof -
  have "fresh_ids sample_runtime Sessions_new"
    by (simp add: fresh_ids_def sample_runtime_def Sessions_new_def new_session_registry_def Let_def)
  from served_request [OF served_new this, of "OwnerId ''o''" 1
      "Some (POpenUsbRequest \<lparr>wou_selector = Some (selector_message usb_selector), wou_interface_number = 0\<rparr>)" camera_limits]
  show ?thesis by (simp add: usb_open_run)
qed

lemma usb_close_run:
  "dispatch_payload sample_runtime (OwnerId ''o'') (Some (PCloseUsbRequest usb_close_message)) camera_limits usb_opened =
     (Ok (PCloseUsbResponse ()),
      usb_opened\<lparr>sn_usb_gpio := record_closed (SessionId ''usb-1'') (sn_usb_gpio usb_opened)\<rparr>)"
proof -
  have p: "usb_close_request_from_proto usb_close_message = Ok (SessionId ''usb-1'', control_lease 1)"
    by (simp add: usb_close_request_from_proto_def usb_close_message_def control_lease_def wire_lease_wf_def lease_token_wf_def
        identifier_eval)
  show ?thesis
    by (simp add: close_dispatch camera_limits_def usb_close_handler_def close_step_def p usb_gpio_validate_def usb_opened_def
        record_session_def insert_session_def session_of_def SessionRecord.extend_def sample_runtime_def Let_def)
qed

text \<open>
  C24. Closed sessions are bounded: over any sequence of requests the connection remembers at most 256
  closed sessions of each family, and a serial session is never both active and closed.
\<close>

theorem retained_sessions_bounded:
  assumes "served s"
  shows "card {i. is_closed (sg_sessions (sn_can s)) i} \<le> 256 \<and> card {i. is_closed (sg_sessions (sn_usb_gpio s)) i} \<le> 256
    \<and> card {i. is_closed (sg_sessions (sn_camera s)) i} \<le> 256 \<and> card (set (ss_closed (sn_serial s))) \<le> 256
    \<and> set (ss_active (sn_serial s)) \<inter> set (ss_closed (sn_serial s)) = {}"
  using served_ok [OF assms] card_length [of "ss_closed_order (sn_serial s)"]
  by (auto simp: sessions_ok_def serial_ok_def CLOSED_SERIAL_SESSION_RETENTION_def closed_bound)

lemma retained_sessions_bounded_witness:
  "served usb_opened \<and> card {i. is_closed (sg_sessions (sn_usb_gpio usb_opened)) i} \<le> 256"
  using retained_sessions_bounded [OF usb_opened_served] usb_opened_served by simp

lemma handler_close_repeats:
  shows "can_close_handler rt m g1 = (Ok reply, g1') \<Longrightarrow> registry_ok g1 \<Longrightarrow> can_close_handler rt' m g1' = (Ok reply, g1')"
    "usb_close_handler ut m g2 = (Ok reply, g2') \<Longrightarrow> registry_ok g2 \<Longrightarrow> usb_close_handler ut' m g2' = (Ok reply, g2')"
    "gpio_close_handler ut m g2 = (Ok reply, g2') \<Longrightarrow> registry_ok g2 \<Longrightarrow> gpio_close_handler ut' m g2' = (Ok reply, g2')"
    "camera_close_handler kt m g3 = (Ok reply, g3') \<Longrightarrow> registry_ok g3 \<Longrightarrow> camera_close_handler kt' m g3' = (Ok reply, g3')"
  unfolding can_close_handler_def usb_close_handler_def gpio_close_handler_def camera_close_handler_def
  by (auto split: result.splits option.splits simp: can_family.close_repeats can_family.close_repeats_closed
      usb_gpio_family.close_repeats usb_gpio_family.close_repeats_closed camera_family.close_repeats
      camera_family.close_repeats_closed)

lemma can_close_keeps_session:
  assumes "can_close_handler rt m g = (Ok reply, g')" "registry_ok g" "is_can_session g (wsl_session_id m)"
  shows "is_can_session g' (wsl_session_id m)"
proof -
  obtain i where "SessionId_parse (wsl_session_id m) = Ok i"
    using assms(3) by (auto simp: is_can_session_def split: result.splits)
  then have i: "SessionId_parse (wsl_session_id m) = Ok (SessionId (wsl_session_id m))" by simp
  show ?thesis
    using assms(1,3)
    by (auto simp: can_close_handler_def close_step_def can_family.gate_Ok is_can_session_def i record_closed_ok(2) [OF assms(2)]
        split: result.splits option.splits if_splits)
qed

text \<open>
  C10. A close may be repeated: once the broker has answered the close of a CAN, USB, GPIO or camera
  session, the same request is answered the same way again, whatever the runtime would say, and changes
  nothing.
\<close>

theorem close_is_repeatable:
  assumes "served s"
    and "payload \<in> {PCloseUsbRequest m, PCloseGpioRequest m, PCloseCameraRequest m}
      \<or> payload = PCloseSessionRequest m \<and> is_can_session (sn_can s) (wsl_session_id m)"
    and "dispatch_payload runtime owner (Some payload) limits s = (Ok reply, s')"
  shows "dispatch_payload runtime' owner' (Some payload) limits s' = (Ok reply, s')"
proof -
  have ok: "registry_ok (sn_can s)" "registry_ok (sn_usb_gpio s)" "registry_ok (sn_camera s)"
    using served_ok [OF assms(1)] by (simp_all add: sessions_ok_def)
  consider "payload = PCloseUsbRequest m" | "payload = PCloseGpioRequest m" | "payload = PCloseCameraRequest m"
    | "payload = PCloseSessionRequest m" "is_can_session (sn_can s) (wsl_session_id m)"
    using assms(2) by auto
  then show ?thesis
  proof cases
    case 1
    obtain g' where h: "usb_close_handler (hr_usb_gpio runtime) m (sn_usb_gpio s) = (Ok reply, g')" "s' = s\<lparr>sn_usb_gpio := g'\<rparr>" "\<not> nl_protocol_minor limits < 2"
      using assms(3) 1
      by (cases "usb_close_handler (hr_usb_gpio runtime) m (sn_usb_gpio s)") (auto simp: close_dispatch can_result_def Let_def split: if_splits)
    show ?thesis
      using 1 handler_close_repeats(2) [OF h(1) ok(2), of "hr_usb_gpio runtime'"] h(2,3)
      by (simp add: close_dispatch can_result_def)
  next
    case 2
    obtain g' where h: "gpio_close_handler (hr_usb_gpio runtime) m (sn_usb_gpio s) = (Ok reply, g')" "s' = s\<lparr>sn_usb_gpio := g'\<rparr>" "\<not> nl_protocol_minor limits < 2"
      using assms(3) 2
      by (cases "gpio_close_handler (hr_usb_gpio runtime) m (sn_usb_gpio s)") (auto simp: close_dispatch can_result_def Let_def split: if_splits)
    show ?thesis
      using 2 handler_close_repeats(3) [OF h(1) ok(2), of "hr_usb_gpio runtime'"] h(2,3)
      by (simp add: close_dispatch can_result_def)
  next
    case 3
    obtain g' where h: "camera_close_handler (hr_camera runtime) m (sn_camera s) = (Ok reply, g')" "s' = s\<lparr>sn_camera := g'\<rparr>" "\<not> nl_protocol_minor limits < CAMERA_WIRE_MINOR"
      using assms(3) 3
      by (cases "camera_close_handler (hr_camera runtime) m (sn_camera s)") (auto simp: close_dispatch can_result_def Let_def split: if_splits)
    show ?thesis
      using 3 handler_close_repeats(4) [OF h(1) ok(3), of "hr_camera runtime'"] h(2,3)
      by (simp add: close_dispatch can_result_def)
  next
    case 4
    obtain g' where h: "can_close_handler (hr_can runtime) m (sn_can s) = (Ok reply, g')" "s' = s\<lparr>sn_can := g'\<rparr>" "True"
      using assms(3) 4
      by (cases "can_close_handler (hr_can runtime) m (sn_can s)") (auto simp: close_dispatch can_result_def Let_def split: if_splits)
    show ?thesis
      using 4 handler_close_repeats(1) [OF h(1) ok(1), of "hr_can runtime'"] h(2,3) can_close_keeps_session [OF h(1) ok(1)]
      by (simp add: close_dispatch can_result_def)
  qed
qed

lemma close_is_repeatable_witness:
  "let closed = usb_opened\<lparr>sn_usb_gpio := record_closed (SessionId ''usb-1'') (sn_usb_gpio usb_opened)\<rparr> in
     dispatch_payload sample_runtime (OwnerId ''p'') (Some (PCloseUsbRequest usb_close_message)) camera_limits closed =
       (Ok (PCloseUsbResponse ()), closed)"
  using close_is_repeatable [OF usb_opened_served _ usb_close_run, of usb_close_message] by simp

end
