(* ===== verification/Client_Requests_Props.thy ===== *)
theory Client_Requests_Props
  imports Client_Requests
begin

text \<open>
  What request correlation guarantees in every interleaving: request ids are never reused, a reply
  channel is answered at most once and only from the response that carries its id, and when the
  connection has terminated no caller is left waiting.
\<close>

section \<open>Invariant of the request state\<close>

text \<open>The ids that the state knows: pending, cancelled and recently completed ones.\<close>

definition known_ids :: "RequestState \<Rightarrow> u64 list" where
  "known_ids st = map fst (rq_pending st) @ map fst (rq_cancelled st) @ rq_completed_order st"

definition id_issued :: "RequestState \<Rightarrow> u64 \<Rightarrow> bool" where
  "id_issued st k \<longleftrightarrow> k \<noteq> 0 \<and> (rq_next_request_id st \<noteq> 0 \<longrightarrow> k < rq_next_request_id st)"

definition requests_inv :: "RequestState \<Rightarrow> bool" where
  "requests_inv st \<longleftrightarrow> distinct (known_ids st) \<and> set (rq_completed_order st) = set (rq_completed st)
     \<and> (\<forall>k\<in>set (known_ids st). id_issued st k) \<and> (rq_terminal st \<noteq> None \<longrightarrow> rq_pending st = [])"

lemma mset_hm_remove:
  "hm_wf m \<Longrightarrow> hm_get m k = Some v \<Longrightarrow> mset m = add_mset (k, v) (mset (hm_remove k m))"
proof (induction m)
  case (Cons x m)
  show ?case
  proof (cases "fst x = k")
    case True
    with Cons.prems have "hm_remove k m = m" by (auto intro!: hm_remove_absent simp: map_of_eq_None_iff)
    with True Cons.prems show ?thesis by (cases x) (auto simp: AList.delete_eq)
  next
    case False
    with Cons show ?thesis by (cases x) (auto simp: AList.delete_eq)
  qed
qed simp

lemma set_hm_remove: "set (hm_remove k m) = {x \<in> set m. fst x \<noteq> k}"
  by (auto simp: AList.delete_eq)

lemma keys_hm_insert: "fst ` set (hm_insert k v m) = insert k (fst ` set m)"
  by (auto simp flip: dom_map_of_conv_image_fst)

lemma mset_keys_insert:
  "k \<notin> fst ` set m \<Longrightarrow> mset (map fst (hm_insert k v m)) = add_mset k (mset (map fst m))"
  by (simp add: AList.update_keys)

lemma mset_keys_remove:
  "hm_wf m \<Longrightarrow> hm_get m k = Some v \<Longrightarrow> mset (map fst m) = add_mset k (mset (map fst (hm_remove k m)))"
  using mset_hm_remove [of m k v] by simp

lemma mset_keys_cancel:
  "distinct (map fst ds @ map fst m) \<Longrightarrow>
   mset (map fst (fold (\<lambda>(k, p). hm_insert k (pr_expected p)) ds m)) = mset (map fst ds) + mset (map fst m)"
proof (induction ds arbitrary: m)
  case (Cons d ds)
  have "distinct (map fst ds @ map fst (hm_insert (fst d) (pr_expected (snd d)) m))"
    using Cons.prems by (auto simp: AList.update_keys)
  from Cons.IH [OF this] mset_keys_insert [of "fst d" m "pr_expected (snd d)"] Cons.prems show ?case
    by (simp add: case_prod_unfold)
qed simp

lemma distinct_subset_mset: "mset xs \<subseteq># mset ys \<Longrightarrow> distinct ys \<Longrightarrow> distinct xs"
proof -
  assume "mset xs \<subseteq># mset ys" "distinct ys"
  then obtain zs where "mset ys = mset (xs @ zs)"
    by (metis ex_mset mset_append mset_subset_eq_exists_conv)
  from mset_eq_imp_distinct_iff [OF this] \<open>distinct ys\<close> show "distinct xs" by simp
qed

lemma requests_inv_shrink:
  assumes "requests_inv st" "mset (known_ids st') \<subseteq># mset (known_ids st)"
    and "rq_next_request_id st' = rq_next_request_id st"
    and "set (rq_completed_order st') = set (rq_completed st')"
    and "rq_terminal st' \<noteq> None \<Longrightarrow> rq_pending st' = []"
  shows "requests_inv st'"
proof -
  have "set (known_ids st') \<subseteq> set (known_ids st)" using set_mset_mono [OF assms(2)] by simp
  with assms distinct_subset_mset [OF assms(2)] show ?thesis
    by (auto simp: requests_inv_def id_issued_def)
qed

lemma trim_completed:
  "set order = set completed \<Longrightarrow> distinct order \<Longrightarrow>
   mset (fst (trim_completed n order completed)) \<subseteq># mset order
   \<and> set (fst (trim_completed n order completed)) = set (snd (trim_completed n order completed))"
proof (induction order arbitrary: completed)
  case (Cons oldest order)
  have "set order = set (removeAll oldest completed)"
    using Cons.prems by (simp flip: Cons.prems(1))
  with Cons.IH [of "removeAll oldest completed"] Cons.prems show ?case
    by (auto intro: subset_mset.order_trans)
qed simp

lemma remember_completed_fields [simp]:
  "rq_next_request_id (remember_completed k n st) = rq_next_request_id st"
  "rq_pending (remember_completed k n st) = rq_pending st"
  "rq_cancelled (remember_completed k n st) = rq_cancelled st"
  "rq_terminal (remember_completed k n st) = rq_terminal st"
  by (simp_all add: remember_completed_def Let_def case_prod_unfold)

lemma remember_completed_order:
  assumes "distinct (rq_completed_order st)" "set (rq_completed_order st) = set (rq_completed st)"
    and "k \<notin> set (rq_completed st)"
  shows "mset (rq_completed_order (remember_completed k n st)) \<subseteq># add_mset k (mset (rq_completed_order st))
    \<and> set (rq_completed_order (remember_completed k n st)) = set (rq_completed (remember_completed k n st))"
  using trim_completed [of "rq_completed_order st @ [k]" "k # rq_completed st" n] assms
  by (simp add: remember_completed_def Let_def case_prod_unfold)

lemma requests_inv_initial: "requests_inv RequestState_initial"
  by (simp add: requests_inv_def RequestState_initial_def known_ids_def id_issued_def)

lemma requests_inv_remove:
  assumes "requests_inv st" shows "requests_inv (remove_pending k st)"
proof (rule requests_inv_shrink [OF assms])
  show "mset (known_ids (remove_pending k st)) \<subseteq># mset (known_ids st)"
    by (simp add: known_ids_def remove_pending_def AList.delete_eq image_mset_subseteq_mono)
qed (use assms in \<open>auto simp: remove_pending_def requests_inv_def\<close>)

lemma known_ids_remove:
  assumes "requests_inv st" "hm_get (rq_pending st) k = Some p"
  shows "mset (known_ids st) = add_mset k (mset (known_ids (remove_pending k st)))"
  using assms mset_keys_remove [of "rq_pending st" k p]
  by (simp add: known_ids_def remove_pending_def requests_inv_def)

lemma requests_inv_termination:
  assumes "requests_inv st" "begin_termination e extra st = (rs, st')"
    and "\<And>k p. extra = Some (k, p) \<Longrightarrow> id_issued st k \<and> k \<notin> set (known_ids st)"
  shows "requests_inv st'"
proof (cases "rq_terminal st")
  case None
  let ?x = "case extra of None \<Rightarrow> [] | Some e \<Rightarrow> [e]"
  have d: "distinct (map fst (rq_pending st @ ?x) @ map fst (rq_cancelled st))"
    using assms(1,3) by (auto simp: requests_inv_def known_ids_def split: option.split)
  have m: "mset (known_ids st') = mset (map fst ?x) + mset (known_ids st)"
    using assms(2) None mset_keys_cancel [OF d]
    by (auto simp: begin_termination_def known_ids_def Let_def simp del: fold_append)
  have "mset (known_ids st') = mset (map fst ?x @ known_ids st)" using m by simp
  moreover have "distinct (map fst ?x @ known_ids st)"
    using assms(1,3) by (auto simp: requests_inv_def split: option.split)
  ultimately have "distinct (known_ids st')" "set (known_ids st') = set (map fst ?x @ known_ids st)"
    using mset_eq_imp_distinct_iff mset_eq_setD by blast+
  then show ?thesis
    using assms None by (auto simp: begin_termination_def requests_inv_def id_issued_def Let_def split: option.splits)
qed (use assms in \<open>simp add: begin_termination_def\<close>)

lemma requests_inv_cancel:
  assumes "requests_inv st" "cancel_request n k st = (rs, st')"
  shows "requests_inv st'"
proof (cases "hm_get (rq_pending st) k")
  case (Some p)
  let ?r = "remove_pending k st"
  note m = known_ids_remove [OF assms(1) Some] and r = requests_inv_remove [OF assms(1), of k]
  have k: "id_issued ?r k \<and> k \<notin> set (known_ids ?r)"
    using assms(1) mset_eq_imp_distinct_iff [of "known_ids st" "k # known_ids ?r"]
      mset_eq_setD [of "known_ids st" "k # known_ids ?r"] m
    by (auto simp: requests_inv_def id_issued_def remove_pending_def)
  show ?thesis
  proof (cases "n \<le> length (rq_cancelled ?r)")
    case True
    then show ?thesis using assms Some k
      by (intro requests_inv_termination [OF r]) (auto simp: cancel_request_def Let_def)
  next
    case False
    then have st': "st' = ?r\<lparr>rq_cancelled := hm_insert k (pr_expected p) (rq_cancelled ?r)\<rparr>"
      using assms Some by (simp add: cancel_request_def Let_def)
    have "k \<notin> fst ` set (rq_cancelled ?r)" using k by (simp add: known_ids_def)
    then have "mset (known_ids st') = mset (known_ids st)"
      using m mset_keys_insert [of k "rq_cancelled ?r" "pr_expected p"] by (simp add: known_ids_def st')
    then show ?thesis using assms(1) r
      by (intro requests_inv_shrink [OF assms(1)]) (auto simp: st' requests_inv_def remove_pending_def)
  qed
qed (use assms in \<open>simp add: cancel_request_def\<close>)

lemma requests_inv_remember:
  assumes "requests_inv st" "requests_inv st1" "mset (known_ids st) = add_mset k (mset (known_ids st1))"
    and "rq_next_request_id st1 = rq_next_request_id st"
  shows "requests_inv (remember_completed k n st1)"
proof -
  have "distinct (k # known_ids st1)"
    using assms(1,3) mset_eq_imp_distinct_iff [of "known_ids st" "k # known_ids st1"] by (simp add: requests_inv_def)
  then have "k \<notin> set (rq_completed st1)" using assms(2) by (simp add: known_ids_def requests_inv_def)
  with assms(2) remember_completed_order [of st1 k n]
  have c: "mset (rq_completed_order (remember_completed k n st1)) \<subseteq># add_mset k (mset (rq_completed_order st1))"
    "set (rq_completed_order (remember_completed k n st1)) = set (rq_completed (remember_completed k n st1))"
    by (auto simp: requests_inv_def known_ids_def)
  have "mset (known_ids (remember_completed k n st1)) \<subseteq># mset (known_ids st)"
    using c(1) assms(3) by (simp add: known_ids_def)
  then show ?thesis using assms c(2) by (intro requests_inv_shrink [OF assms(1)]) (auto simp: requests_inv_def)
qed

lemma requests_inv_forget:
  assumes "requests_inv st" "hm_get (rq_cancelled st) k = Some x"
  defines "st1 \<equiv> st\<lparr>rq_cancelled := hm_remove k (rq_cancelled st)\<rparr>"
  shows "mset (known_ids st) = add_mset k (mset (known_ids st1)) \<and> requests_inv st1"
proof -
  have m: "mset (known_ids st) = add_mset k (mset (known_ids st1))"
    using assms(1,2) mset_keys_remove [of "rq_cancelled st" k x] by (simp add: known_ids_def requests_inv_def st1_def)
  moreover have "requests_inv st1"
    using assms(1) m by (intro requests_inv_shrink [OF assms(1)]) (auto simp: requests_inv_def st1_def)
  ultimately show ?thesis by simp
qed

lemma requests_inv_correlate:
  assumes "requests_inv st" "correlate n k st = (r, st')"
  shows "requests_inv st'"
proof (cases "hm_get (rq_pending st) k")
  case (Some p)
  have "requests_inv (remember_completed k n (remove_pending k st))"
    using known_ids_remove [OF assms(1) Some] requests_inv_remove [OF assms(1), of k]
    by (intro requests_inv_remember [OF assms(1)]) (simp_all add: remove_pending_def)
  then show ?thesis using assms Some by (auto simp: correlate_def)
next
  case None
  show ?thesis
  proof (cases "hm_get (rq_cancelled st) k")
    case (Some x)
    have "requests_inv (remember_completed k n (st\<lparr>rq_cancelled := hm_remove k (rq_cancelled st)\<rparr>))"
      using requests_inv_forget [OF assms(1) Some] by (intro requests_inv_remember [OF assms(1)]) simp_all
    then show ?thesis using assms None Some by (auto simp: correlate_def)
  qed (use assms None in \<open>simp add: correlate_def\<close>)
qed

lemma request_admit_Ok:
  assumes "request_admit n x ch st = (Ok k, st')"
  shows "rq_terminal st = None \<and> k = rq_next_request_id st \<and> k \<noteq> 0
    \<and> st' = st\<lparr>rq_next_request_id := (case checked_add k 1 of None \<Rightarrow> 0 | Some next \<Rightarrow> next),
         rq_pending := hm_insert k \<lparr>pr_expected = x, pr_reply = ch\<rparr> (rq_pending st)\<rparr>"
  using assms
  by (auto simp: request_admit_def take_request_id_def Let_def split: option.splits if_splits)

lemma request_admit_Err: "request_admit n x ch st = (Err e, st') \<Longrightarrow> st' = st"
  by (auto simp: request_admit_def take_request_id_def Let_def split: option.splits if_splits)


lemma update_absent: "hm_get m k = None \<Longrightarrow> hm_insert k v m = m @ [(k, v)]"
  by (induction m) (auto split: if_splits)

lemma admit_issued:
  assumes "request_admit n x ch st = (Ok k, st')"
  shows "id_issued st' k \<and> (id_issued st j \<longrightarrow> id_issued st' j)"
proof -
  note a = request_admit_Ok [OF assms]
  have "rq_next_request_id st' = 0 \<or> k < rq_next_request_id st'"
    using a checked_add_one_Some [of k] word_less_add_one [of k] by (auto split: option.splits)
  then show ?thesis using a by (auto simp: id_issued_def)
qed

lemma requests_inv_admit:
  assumes "requests_inv st" "request_admit n x ch st = (Ok k, st')"
  shows "requests_inv st' \<and> \<not> id_issued st k \<and> id_issued st' k"
proof -
  note a = request_admit_Ok [OF assms(2)]
  have new: "\<not> id_issued st k" using a by (simp add: id_issued_def)
  note k = admit_issued [OF assms(2)]
  have fresh: "k \<notin> set (known_ids st)" using new assms(1) by (auto simp: requests_inv_def)
  then have "known_ids st' = map fst (rq_pending st) @ k # map fst (rq_cancelled st) @ rq_completed_order st"
    using a by (simp add: known_ids_def AList.update_keys)
  then show ?thesis using assms(1) new k fresh a by (auto simp: requests_inv_def known_ids_def)
qed


section \<open>Invariant of the connection\<close>

text \<open>
  The channels for which somebody still holds the sending end or has used it, and the requests
  that are open, each with the id it was admitted under.
\<close>

definition in_hand_request :: "'p Connection \<Rightarrow> (u64 \<times> PendingRequest) list" where
  "in_hand_request c = (case cn_in_hand c of None \<Rightarrow> [] | Some (k, p, _) \<Rightarrow> [(k, p)])"

definition open_requests :: "'p Connection \<Rightarrow> (u64 \<times> PendingRequest) list" where
  "open_requests c = rq_pending (cn_requests c) @ in_hand_request c"

definition holders :: "'p Connection \<Rightarrow> nat list" where
  "holders c = map (pr_reply \<circ> snd) (open_requests c) @ map fst (cn_draining c) @ map fst (cn_replies c)"

definition callers :: "'p Connection \<Rightarrow> (nat \<times> u64) list" where
  "callers c = cn_sending c @ cn_waiting c"

definition conn_inv :: "'p Connection \<Rightarrow> bool" where
  "conn_inv c \<longleftrightarrow> requests_inv (cn_requests c)
     \<and> distinct (map fst (cn_assigned c)) \<and> distinct (map snd (cn_assigned c))
     \<and> (\<forall>(ch, k)\<in>set (cn_assigned c). ch < cn_channels c \<and> id_issued (cn_requests c) k)
     \<and> (\<forall>(k, p)\<in>set (open_requests c). (pr_reply p, k) \<in> set (cn_assigned c))
     \<and> distinct (holders c) \<and> set (holders c) \<subseteq> fst ` set (cn_assigned c)
     \<and> distinct (map fst (callers c)) \<and> set (callers c) \<subseteq> set (cn_assigned c)
     \<and> fst ` set (callers c) \<subseteq> set (holders c)
     \<and> set (cn_answered c) \<subseteq> set (cn_assigned c)
     \<and> (\<forall>(ch, result)\<in>set (cn_replies c). is_ok result \<longrightarrow> ch \<in> fst ` set (cn_answered c))"

lemmas conn_defs = open_requests_def in_hand_request_def holders_def callers_def

lemma conn_inv_new: "conn_inv Connection_new"
  by (simp add: conn_inv_def Connection_new_def conn_defs requests_inv_initial)
    (simp add: RequestState_initial_def)

lemma conn_invD:
  assumes "conn_inv c"
  shows conn_requests: "requests_inv (cn_requests c)"
    and conn_channels: "distinct (map fst (cn_assigned c))"
    and conn_ids: "distinct (map snd (cn_assigned c))"
    and conn_issued: "\<And>ch k. (ch, k) \<in> set (cn_assigned c) \<Longrightarrow> ch < cn_channels c \<and> id_issued (cn_requests c) k"
    and conn_open: "\<And>k p. (k, p) \<in> set (open_requests c) \<Longrightarrow> (pr_reply p, k) \<in> set (cn_assigned c)"
    and conn_holders: "distinct (holders c)" "set (holders c) \<subseteq> fst ` set (cn_assigned c)"
    and conn_callers: "distinct (map fst (callers c))" "set (callers c) \<subseteq> set (cn_assigned c)"
      "fst ` set (callers c) \<subseteq> set (holders c)"
    and conn_answered: "set (cn_answered c) \<subseteq> set (cn_assigned c)"
    and conn_replied: "\<And>ch result. (ch, result) \<in> set (cn_replies c) \<Longrightarrow> is_ok result \<Longrightarrow> ch \<in> fst ` set (cn_answered c)"
  using assms unfolding conn_inv_def by (elim conjE; (assumption | fast))+

lemma conn_invI:
  assumes "requests_inv (cn_requests c)" "distinct (map fst (cn_assigned c))" "distinct (map snd (cn_assigned c))"
    and "\<And>ch k. (ch, k) \<in> set (cn_assigned c) \<Longrightarrow> ch < cn_channels c \<and> id_issued (cn_requests c) k"
    and "\<And>k p. (k, p) \<in> set (open_requests c) \<Longrightarrow> (pr_reply p, k) \<in> set (cn_assigned c)"
    and "distinct (holders c)" "set (holders c) \<subseteq> fst ` set (cn_assigned c)"
    and "distinct (map fst (callers c))" "set (callers c) \<subseteq> set (cn_assigned c)"
      "fst ` set (callers c) \<subseteq> set (holders c)"
    and "set (cn_answered c) \<subseteq> set (cn_assigned c)"
    and "\<And>ch result. (ch, result) \<in> set (cn_replies c) \<Longrightarrow> is_ok result \<Longrightarrow> ch \<in> fst ` set (cn_answered c)"
  shows "conn_inv c"
  using assms unfolding conn_inv_def by (intro conjI) auto

lemma conn_inv_shrink:
  assumes inv: "conn_inv c" and rq: "requests_inv (cn_requests c')"
    and same: "cn_assigned c' = cn_assigned c" "cn_channels c' = cn_channels c"
      "rq_next_request_id (cn_requests c') = rq_next_request_id (cn_requests c)"
    and op: "set (open_requests c') \<subseteq> set (open_requests c)"
    and ho: "mset (holders c') \<subseteq># mset (holders c)"
    and ca: "mset (callers c') \<subseteq># mset (callers c)" "fst ` set (callers c') \<subseteq> set (holders c')"
    and an: "set (cn_answered c') \<subseteq> set (cn_assigned c)"
      "\<And>ch result. (ch, result) \<in> set (cn_replies c') \<Longrightarrow> is_ok result \<Longrightarrow> ch \<in> fst ` set (cn_answered c')"
  shows "conn_inv c'"
proof (rule conn_invI)
  show "distinct (holders c')" by (rule distinct_subset_mset [OF ho conn_holders(1) [OF inv]])
  show "distinct (map fst (callers c'))"
    using image_mset_subseteq_mono [OF ca(1), of fst] conn_callers(1) [OF inv]
      distinct_subset_mset [of "map fst (callers c')" "map fst (callers c)"] by simp
  show "ch < cn_channels c' \<and> id_issued (cn_requests c') k" if "(ch, k) \<in> set (cn_assigned c')" for ch k
    using conn_issued [OF inv, of ch k] that by (simp add: id_issued_def same)
  show "(pr_reply p, k) \<in> set (cn_assigned c')" if "(k, p) \<in> set (open_requests c')" for k p
    using conn_open [OF inv, of k p] op that by (auto simp: same)
  show "set (holders c') \<subseteq> fst ` set (cn_assigned c')"
    using set_mset_mono [OF ho] conn_holders(2) [OF inv] by (auto simp: same)
  show "set (callers c') \<subseteq> set (cn_assigned c')"
    using set_mset_mono [OF ca(1)] conn_callers(2) [OF inv] by (auto simp: same)
qed (use rq ca(2) an conn_channels [OF inv] conn_ids [OF inv] in \<open>simp_all add: same\<close>)

section \<open>Every step keeps the invariant\<close>

lemma terminate_fields [simp]:
  "cn_assigned (terminate e c) = cn_assigned c" "cn_channels (terminate e c) = cn_channels c"
  "cn_sending (terminate e c) = cn_sending c" "cn_waiting (terminate e c) = cn_waiting c"
  "cn_in_hand (terminate e c) = cn_in_hand c" "cn_replies (terminate e c) = cn_replies c"
  "cn_answered (terminate e c) = cn_answered c" "cn_shutdown (terminate e c) = cn_shutdown c"
  by (simp_all add: terminate_def start_draining_def case_prod_unfold)

lemma terminate_holders:
  "mset (holders (terminate e c)) = mset (holders c)"
  "set (open_requests (terminate e c)) \<subseteq> set (open_requests c)"
  by (auto simp: terminate_def start_draining_def begin_termination_def conn_defs Let_def comp_def multiset.map_comp)

lemma begin_termination_next: "rq_next_request_id (snd (begin_termination e x st)) = rq_next_request_id st"
  by (simp add: begin_termination_def Let_def)

lemma conn_inv_terminate:
  assumes "conn_inv c" shows "conn_inv (terminate e c)"
proof (rule conn_inv_shrink [OF assms])
  obtain rs st' where b: "begin_termination e None (cn_requests c) = (rs, st')" by fastforce
  then have t: "cn_requests (terminate e c) = st'" by (simp add: terminate_def start_draining_def)
  show "requests_inv (cn_requests (terminate e c))"
    using requests_inv_termination [OF conn_requests [OF assms] b] by (simp add: t)
  show "rq_next_request_id (cn_requests (terminate e c)) = rq_next_request_id (cn_requests c)"
    using b begin_termination_next [of e None "cn_requests c"] by (simp add: t)
  show "fst ` set (callers (terminate e c)) \<subseteq> set (holders (terminate e c))"
    using conn_callers(3) [OF assms] mset_eq_setD [OF terminate_holders(1), of e c] by (simp add: callers_def)
qed (use conn_answered [OF assms] conn_replied [OF assms] terminate_holders [of e c] in \<open>auto simp: callers_def\<close>)

lemma answer_holders:
  assumes "cn_in_hand c = Some (k, p, payload)"
  shows "mset (holders (c\<lparr>cn_in_hand := None, cn_replies := cn_replies c @ [(pr_reply p, result)],
    cn_answered := cn_answered c @ [(pr_reply p, k)]\<rparr>)) = mset (holders c)"
  using assms by (simp add: conn_defs)

lemma conn_inv_answer:
  assumes "conn_inv c" shows "conn_inv (answer_response v c)"
proof (cases "cn_in_hand c")
  case (Some h)
  then obtain k p payload where h: "cn_in_hand c = Some (k, p, payload)" by (cases h) auto
  define result where "result = pending_result v (pr_expected p) payload"
  define c1 where "c1 = c\<lparr>cn_in_hand := None, cn_replies := cn_replies c @ [(pr_reply p, result)],
    cn_answered := cn_answered c @ [(pr_reply p, k)]\<rparr>"
  have "conn_inv c1"
  proof (rule conn_inv_shrink [OF assms])
    show "mset (holders c1) \<subseteq># mset (holders c)" using answer_holders [OF h] by (simp add: c1_def)
    show "fst ` set (callers c1) \<subseteq> set (holders c1)"
      using conn_callers(3) [OF assms] mset_eq_setD [OF answer_holders [OF h, of result]]
      by (simp add: c1_def callers_def)
    show "set (open_requests c1) \<subseteq> set (open_requests c)" by (auto simp: c1_def conn_defs)
    show "set (cn_answered c1) \<subseteq> set (cn_assigned c)"
      using conn_answered [OF assms] conn_open [OF assms, of k p] h by (simp add: c1_def conn_defs)
    show "ch \<in> fst ` set (cn_answered c1)" if "(ch, r) \<in> set (cn_replies c1)" "is_ok r" for ch r
      using conn_replied [OF assms, of ch r] that by (auto simp: c1_def)
  qed (use conn_requests [OF assms] in \<open>simp_all add: c1_def callers_def\<close>)
  then show ?thesis using conn_inv_terminate h
    by (auto simp: answer_response_def Let_def c1_def result_def split: option.split)
qed (use assms in \<open>simp add: answer_response_def\<close>)

lemma conn_inv_finish:
  assumes "conn_inv c" shows "conn_inv (finish_one c)"
proof -
  have m: "mset (holders (finish_one c)) = mset (holders c)"
    by (auto simp: finish_one_def conn_defs split: list.split)
  have same: "cn_requests (finish_one c) = cn_requests c" "cn_assigned (finish_one c) = cn_assigned c"
    "cn_channels (finish_one c) = cn_channels c" "open_requests (finish_one c) = open_requests c"
    "callers (finish_one c) = callers c" "cn_answered (finish_one c) = cn_answered c"
    by (simp_all add: finish_one_def conn_defs split: list.split prod.split)
  have r: "set (cn_replies (finish_one c)) \<subseteq> set (cn_replies c) \<union> {(ch, r). \<not> is_ok r}"
    by (auto simp: finish_one_def split: list.split)
  show ?thesis
  proof (rule conn_inv_shrink [OF assms])
    show "fst ` set (callers (finish_one c)) \<subseteq> set (holders (finish_one c))"
      using conn_callers(3) [OF assms] mset_eq_setD [OF m] by (simp add: same)
    show "ch \<in> fst ` set (cn_answered (finish_one c))" if "(ch, result) \<in> set (cn_replies (finish_one c))" "is_ok result"
      for ch result
      using conn_replied [OF assms, of ch result] r that by (auto simp: same)
  qed (use conn_requests [OF assms] conn_answered [OF assms] m in \<open>simp_all add: same\<close>)
qed

lemma known_issued: "requests_inv st \<Longrightarrow> \<not> id_issued st k \<Longrightarrow> k \<notin> set (known_ids st)"
  by (auto simp: requests_inv_def)

lemma conn_inv_admit:
  assumes inv: "conn_inv c" and a: "request_admit n x (cn_channels c) (cn_requests c) = (Ok k, st)"
  shows "conn_inv (admit k st c)"
proof -
  note rq = requests_inv_admit [OF conn_requests [OF inv] a] and ok = request_admit_Ok [OF a]
  let ?ch = "cn_channels c" and ?p = "\<lparr>pr_expected = x, pr_reply = cn_channels c\<rparr>"
  have new: "?ch \<notin> fst ` set (cn_assigned c)" "k \<notin> snd ` set (cn_assigned c)"
    using conn_issued [OF inv, of ?ch] conn_issued [OF inv, of _ k] rq by auto
  have "hm_get (rq_pending (cn_requests c)) k = None"
    using rq known_issued [OF conn_requests [OF inv], of k] by (simp add: map_of_eq_None_iff known_ids_def)
  then have op: "open_requests (admit k st c) = rq_pending (cn_requests c) @ (k, ?p) # in_hand_request c"
    using ok by (simp add: conn_defs admit_def update_absent)
  have ho: "mset (holders (admit k st c)) = mset (?ch # holders c)"
    unfolding holders_def op by (simp add: admit_def open_requests_def)
  show ?thesis
  proof (rule conn_invI)
    show "distinct (holders (admit k st c))"
      using mset_eq_imp_distinct_iff [OF ho] conn_holders [OF inv] new by auto
    show "set (holders (admit k st c)) \<subseteq> fst ` set (cn_assigned (admit k st c))"
      using mset_eq_setD [OF ho] conn_holders [OF inv] by (auto simp: admit_def)
    show "fst ` set (callers (admit k st c)) \<subseteq> set (holders (admit k st c))"
      using mset_eq_setD [OF ho] conn_callers [OF inv] by (auto simp: admit_def callers_def)
    show "(pr_reply p, j) \<in> set (cn_assigned (admit k st c))" if "(j, p) \<in> set (open_requests (admit k st c))" for j p
      using conn_open [OF inv, of j p] that unfolding op by (auto simp: admit_def open_requests_def)
    show "ch < cn_channels (admit k st c) \<and> id_issued (cn_requests (admit k st c)) j"
      if "(ch, j) \<in> set (cn_assigned (admit k st c))" for ch j
      using conn_issued [OF inv, of ch j] that rq admit_issued [OF a, of j] by (auto simp: admit_def)
    show "distinct (map fst (callers (admit k st c)))"
      using new conn_callers(1,2) [OF inv] by (auto simp: admit_def callers_def)
    show "ch \<in> fst ` set (cn_answered (admit k st c))" if "(ch, r) \<in> set (cn_replies (admit k st c))" "is_ok r" for ch r
      using conn_replied [OF inv, of ch r] that by (simp add: admit_def)
    show "set (callers (admit k st c)) \<subseteq> set (cn_assigned (admit k st c))"
      using conn_callers(2) [OF inv] by (auto simp: admit_def callers_def)
    show "set (cn_answered (admit k st c)) \<subseteq> set (cn_assigned (admit k st c))"
      using conn_answered [OF inv] by (auto simp: admit_def)
  qed (use rq new conn_channels [OF inv] conn_ids [OF inv] in \<open>simp_all add: admit_def\<close>)
qed

lemma subset_drop: "H \<subseteq> insert x B \<Longrightarrow> x \<notin> A \<Longrightarrow> A \<subseteq> H \<Longrightarrow> A \<subseteq> B"
  by blast

lemma set_add_mset: "mset xs = add_mset r (mset ys) \<Longrightarrow> set xs = insert r (set ys)"
  using mset_eq_setD [of xs "r # ys"] by simp

lemma distinct_snd_eq: "distinct (map snd xs) \<Longrightarrow> (a, k) \<in> set xs \<Longrightarrow> (b, k) \<in> set xs \<Longrightarrow> a = b"
  by (induction xs) (auto simp: rev_image_eqI)

lemma conn_inv_drop:
  assumes inv: "conn_inv c" and r: "mset (callers c) = add_mset r (mset (callers c'))"
    and p: "rq_pending (cn_requests c') = hm_remove (snd r) (rq_pending (cn_requests c))"
    and rq: "requests_inv (cn_requests c')" "rq_next_request_id (cn_requests c') = rq_next_request_id (cn_requests c)"
    and same: "cn_assigned c' = cn_assigned c" "cn_channels c' = cn_channels c" "cn_in_hand c' = cn_in_hand c"
      "cn_draining c' = cn_draining c" "cn_replies c' = cn_replies c" "cn_answered c' = cn_answered c"
  shows "conn_inv c'"
proof (rule conn_inv_shrink [OF inv rq(1) same(1,2) rq(2)])
  have ra: "r \<in> set (cn_assigned c)" using set_add_mset [OF r] conn_callers(2) [OF inv] by simp
  have own: "pr_reply q = fst r" if "(snd r, q) \<in> set (open_requests c)" for q
    using distinct_snd_eq [OF conn_ids [OF inv] conn_open [OF inv that], of "fst r"] ra by simp
  show "set (open_requests c') \<subseteq> set (open_requests c)"
    by (auto simp: conn_defs p same set_hm_remove)
  show "mset (holders c') \<subseteq># mset (holders c)"
    by (simp add: conn_defs p same AList.delete_eq image_mset_subseteq_mono)
  show "mset (callers c') \<subseteq># mset (callers c)" using r by simp
  have "pr_reply (snd y) \<in> insert (fst r) (set (holders c'))" if y: "y \<in> set (open_requests c)" for y
  proof (cases "fst y = snd r")
    case True
    have "(snd r, snd y) \<in> set (open_requests c)" using y unfolding True [symmetric] prod.collapse .
    from own [OF this] show ?thesis by simp
  next
    case False
    then have "y \<in> set (open_requests c')" using y by (auto simp: conn_defs p same set_hm_remove)
    then show ?thesis by (simp add: holders_def)
  qed
  then have "(pr_reply \<circ> snd) ` set (open_requests c) \<subseteq> insert (fst r) (set (holders c'))" by (simp add: image_subset_iff)
  then have "set (holders c) \<subseteq> insert (fst r) (set (holders c'))" by (simp add: holders_def same) blast
  moreover have "fst r \<notin> fst ` set (callers c')"
    using conn_callers(1) [OF inv] mset_eq_imp_distinct_iff [of "map fst (callers c)" "map fst (r # callers c')"] r
    by simp
  moreover have "fst ` set (callers c') \<subseteq> set (holders c)"
    using conn_callers(3) [OF inv] set_add_mset [OF r] by simp
  ultimately show "fst ` set (callers c') \<subseteq> set (holders c')" by (rule subset_drop)
qed (use conn_answered [OF inv] conn_replied [OF inv] in \<open>simp_all add: same\<close>)

lemma conn_inv_full:
  assumes inv: "conn_inv c" and p: "hm_get (rq_pending (cn_requests c)) k = Some p"
    and b: "begin_termination e (Some (k, p)) (remove_pending k (cn_requests c)) = (rs, st)"
    and rq: "requests_inv st"
    and r: "mset (callers c) = add_mset r (mset (callers c0))"
    and c0: "c0 = c\<lparr>cn_waiting := ws\<rparr>"
  shows "conn_inv (start_draining e (rs, st) c0)"
proof -
  let ?c = "start_draining e (rs, st) c0"
  have t: "rq_terminal (cn_requests c) = None"
    using p conn_requests [OF inv] by (auto simp: requests_inv_def)
  have "hm_wf (rq_pending (cn_requests c))" using conn_requests [OF inv] by (simp add: requests_inv_def known_ids_def)
  note m = mset_hm_remove [OF this p]
  have ho: "mset (holders ?c) = mset (holders c)"
    using b t m by (auto simp: start_draining_def begin_termination_def remove_pending_def conn_defs c0 Let_def
        multiset.map_comp comp_def)
  show ?thesis
  proof (rule conn_inv_shrink [OF inv])
    show "fst ` set (callers ?c) \<subseteq> set (holders ?c)"
      using conn_callers(3) [OF inv] mset_eq_setD [OF ho] set_add_mset [OF r]
      by (simp add: start_draining_def callers_def)
    show "mset (callers ?c) \<subseteq># mset (callers c)" using r by (simp add: start_draining_def callers_def)
    show "rq_next_request_id (cn_requests ?c) = rq_next_request_id (cn_requests c)"
      using b begin_termination_next [of e "Some (k, p)" "remove_pending k (cn_requests c)"]
      by (simp add: start_draining_def remove_pending_def)
    show "set (open_requests ?c) \<subseteq> set (open_requests c)"
      using b t by (auto simp: start_draining_def begin_termination_def remove_pending_def conn_defs c0 Let_def)
    show "requests_inv (cn_requests ?c)" using rq by (simp add: start_draining_def)
    show "ch \<in> fst ` set (cn_answered ?c)" if "(ch, x) \<in> set (cn_replies ?c)" "is_ok x" for ch x
      using conn_replied [OF inv, of ch x] that by (simp add: start_draining_def c0)
  qed (use conn_answered [OF inv] ho in \<open>simp_all add: start_draining_def c0\<close>)
qed

lemma conn_inv_cancel:
  assumes inv: "conn_inv c" and r: "r \<in> set (cn_waiting c)"
  shows "conn_inv (start_draining cancelled_full (cancel_request n (snd r) (cn_requests c))
    (c\<lparr>cn_waiting := remove1 r (cn_waiting c)\<rparr>))"
proof -
  let ?c0 = "c\<lparr>cn_waiting := remove1 r (cn_waiting c)\<rparr>"
  obtain rs st where o: "cancel_request n (snd r) (cn_requests c) = (rs, st)" by fastforce
  note rq = requests_inv_cancel [OF conn_requests [OF inv] o]
  have m: "mset (callers c) = add_mset r (mset (callers ?c0))" using r by (simp add: callers_def)
  show ?thesis
  proof (cases "hm_get (rq_pending (cn_requests c)) (snd r)")
    case None
    then have "st = cn_requests c \<and> rs = None" using o by (simp add: cancel_request_def)
    then show ?thesis using rq None r unfolding o
      by (intro conn_inv_drop [OF inv, of r]) (simp_all add: start_draining_def callers_def hm_remove_absent)
  next
    case (Some p)
    show ?thesis
    proof (cases "n \<le> length (rq_cancelled (cn_requests c))")
      case True
      then have "begin_termination cancelled_full (Some (snd r, p)) (remove_pending (snd r) (cn_requests c)) = (rs, st)"
        using o Some by (simp add: cancel_request_def Let_def remove_pending_def)
      then show ?thesis unfolding o by (intro conn_inv_full [OF inv Some _ rq m]) simp_all
    next
      case False
      then have "rs = None \<and> rq_pending st = hm_remove (snd r) (rq_pending (cn_requests c))
        \<and> rq_next_request_id st = rq_next_request_id (cn_requests c)"
        using o Some by (auto simp: cancel_request_def Let_def remove_pending_def)
      then show ?thesis using rq r unfolding o
        by (intro conn_inv_drop [OF inv, of r]) (simp_all add: start_draining_def callers_def)
    qed
  qed
qed

lemma conn_inv_requests:
  assumes "conn_inv c" "requests_inv st" "rq_pending st = rq_pending (cn_requests c)"
    and "rq_next_request_id st = rq_next_request_id (cn_requests c)"
  shows "conn_inv (c\<lparr>cn_requests := st\<rparr>)"
  using assms conn_callers(3) [OF assms(1)] conn_answered [OF assms(1)] conn_replied [OF assms(1)]
  by (intro conn_inv_shrink [OF assms(1)]) (simp_all add: conn_defs)

lemma conn_inv_in_hand:
  assumes inv: "conn_inv c" and p: "hm_get (rq_pending (cn_requests c)) k = Some p" and h: "cn_in_hand c = None"
    and st: "requests_inv st" "rq_pending st = hm_remove k (rq_pending (cn_requests c))"
      "rq_next_request_id st = rq_next_request_id (cn_requests c)"
  shows "conn_inv (c\<lparr>cn_requests := st, cn_in_hand := Some (k, p, payload)\<rparr>)"
    (is "conn_inv ?c")
proof (rule conn_inv_shrink [OF inv])
  have "hm_wf (rq_pending (cn_requests c))" using conn_requests [OF inv] by (simp add: requests_inv_def known_ids_def)
  note m = mset_hm_remove [OF this p]
  have ho: "mset (holders ?c) = mset (holders c)" using m h by (simp add: conn_defs st)
  then show "mset (holders ?c) \<subseteq># mset (holders c)" by simp
  show "set (open_requests ?c) \<subseteq> set (open_requests c)"
    using map_of_SomeD [OF p] by (auto simp: conn_defs st set_hm_remove)
  show "fst ` set (callers ?c) \<subseteq> set (holders ?c)"
    using conn_callers(3) [OF inv] mset_eq_setD [OF ho] by (simp add: callers_def)
qed (use st conn_answered [OF inv] conn_replied [OF inv] in \<open>simp_all add: callers_def\<close>)

lemma conn_inv_accept:
  assumes inv: "conn_inv c" and h: "cn_in_hand c = None"
  shows "conn_inv (accept_response v n k payload c)"
proof -
  obtain r st where o: "correlate n k (cn_requests c) = (r, st)" by fastforce
  note rq = requests_inv_correlate [OF conn_requests [OF inv] o]
  show ?thesis
  proof (cases r)
    case (CPending p)
    then have "hm_get (rq_pending (cn_requests c)) k = Some p"
      "st = remember_completed k n (remove_pending k (cn_requests c))"
      using o by (auto simp: correlate_def split: option.splits)
    with CPending show ?thesis using rq
      by (simp add: accept_response_def o conn_inv_in_hand [OF inv _ h] remove_pending_def)
  next
    case (CCancelled x)
    then have "rq_pending st = rq_pending (cn_requests c)"
      "rq_next_request_id st = rq_next_request_id (cn_requests c)"
      using o by (auto simp: correlate_def split: option.splits)
    then have "conn_inv (c\<lparr>cn_requests := st\<rparr>)" using rq by (intro conn_inv_requests [OF inv])
    with CCancelled show ?thesis by (simp add: accept_response_def o conn_inv_terminate split: result.split)
  next
    case (CUnknown d)
    then show ?thesis using conn_inv_terminate [OF inv] by (simp add: accept_response_def o)
  qed
qed

lemma conn_inv_callers:
  assumes inv: "conn_inv c" and m: "mset (callers c') \<subseteq># mset (callers c)"
    and c': "c' = c\<lparr>cn_sending := xs, cn_waiting := ys\<rparr>"
  shows "conn_inv c'"
proof -
  have "set (callers c') \<subseteq> set (callers c)" using set_mset_mono [OF m] by simp
  then have "fst ` set (callers c') \<subseteq> set (holders c)"
    using conn_callers(3) [OF inv] image_mono [of "set (callers c')" "set (callers c)" fst] by simp
  then show ?thesis using conn_requests [OF inv] conn_answered [OF inv] conn_replied [OF inv] m
    by (intro conn_inv_shrink [OF inv]) (simp_all add: c' conn_defs)
qed

lemma client_step_inv:
  assumes "client_step v n t c c'" "conn_inv c" shows "conn_inv c'"
  using assms
proof (cases rule: client_step.cases)
  case admitted
  then show ?thesis using conn_inv_admit assms(2) by simp
next
  case refused
  then show ?thesis using request_admit_Err [OF refused(2)] assms(2) by simp
next
  case (queued r)
  then show ?thesis by (intro conn_inv_callers [OF assms(2)]) (simp_all add: callers_def)
next
  case (not_queued r)
  then show ?thesis
    by (intro conn_inv_drop [OF assms(2), of r])
      (simp_all add: callers_def remove_pending_def requests_inv_remove [unfolded remove_pending_def] conn_requests [OF assms(2)])
next
  case (received r result)
  then have "c' = c\<lparr>cn_sending := cn_sending c, cn_waiting := remove1 r (cn_waiting c)\<rparr>" by simp
  from conn_inv_callers [OF assms(2) _ this] received show ?thesis by (simp add: callers_def)
next
  case cancelled
  then show ?thesis using conn_inv_cancel assms(2) by simp
next
  case responded
  then show ?thesis using conn_inv_accept assms(2) by simp
qed (use assms(2) in \<open>simp_all add: conn_inv_answer conn_inv_terminate conn_inv_finish\<close>)

lemma client_reachable_inv: "client_reachable v n t c \<Longrightarrow> conn_inv c"
  unfolding client_reachable_def
  by (induction rule: rtranclp_induct) (auto intro: conn_inv_new client_step_inv)

section \<open>A sample connection\<close>

text \<open>A connection with one request on its way: a flush was admitted under id 2 and its caller waits.\<close>

definition sample_waiting :: "unit Connection" where
  "sample_waiting = Connection_new\<lparr>
     cn_requests := RequestState_initial\<lparr>rq_next_request_id := 3,
       rq_pending := [(2, \<lparr>pr_expected = XSerialFlush, pr_reply = 0\<rparr>)]\<rparr>,
     cn_channels := 1, cn_waiting := [(0, 2)], cn_assigned := [(0, 2)]\<rparr>"

lemma sample_waiting_reachable: "client_reachable v 8 8 sample_waiting"
proof -
  define c1 :: "unit Connection" where "c1 = sample_waiting\<lparr>cn_sending := [(0, 2)], cn_waiting := []\<rparr>"
  have "request_admit 8 XSerialFlush (cn_channels (Connection_new :: unit Connection))
      (cn_requests (Connection_new :: unit Connection)) = (Ok 2, cn_requests c1)"
    by (simp add: request_admit_def take_request_id_def Connection_new_def RequestState_initial_def c1_def
        sample_waiting_def checked_add_def)
  from client_step.admitted [OF this, of v 8]
  have "client_step v 8 8 Connection_new c1"
    by (simp add: admit_def c1_def sample_waiting_def Connection_new_def)
  moreover have "client_step v 8 8 c1 sample_waiting"
    using client_step.queued [of "(0, 2)" c1 v 8 8] by (simp add: c1_def sample_waiting_def Connection_new_def)
  ultimately show ?thesis unfolding client_reachable_def by (simp add: rtranclp.rtrancl_into_rtrancl)
qed

section \<open>Correlation and delivery\<close>

text \<open>
  C15. In every interleaving of requesters, cancellations, the reader task and terminating tasks,
  no request id is given to two requests, no reply channel is answered twice, and a reply that
  delivers a payload was made for a response that carries the very id its request was sent with.
\<close>

theorem replies_are_correlated:
  assumes "client_reachable validate_response pending_capacity tombstone_capacity c"
  shows "distinct (map snd (cn_assigned c)) \<and> distinct (map fst (cn_replies c))
    \<and> (\<forall>(channel, result)\<in>set (cn_replies c). is_ok result \<longrightarrow>
        (\<exists>request_id. (channel, request_id) \<in> set (cn_answered c)
           \<and> (\<forall>k. (channel, k) \<in> set (cn_assigned c) \<longleftrightarrow> k = request_id)))"
proof -
  note inv = client_reachable_inv [OF assms]
  have "\<exists>request_id. (channel, request_id) \<in> set (cn_answered c)
           \<and> (\<forall>k. (channel, k) \<in> set (cn_assigned c) \<longleftrightarrow> k = request_id)"
    if "(channel, result) \<in> set (cn_replies c)" "is_ok result" for channel result
  proof -
    from conn_replied [OF inv that] obtain k where k: "(channel, k) \<in> set (cn_answered c)" by auto
    then have "(channel, k) \<in> set (cn_assigned c)" using conn_answered [OF inv] by blast
    then have "(channel, j) \<in> set (cn_assigned c) \<longleftrightarrow> j = k" for j
      using eq_key_imp_eq_value [OF conn_channels [OF inv], of channel k j] by blast
    with k show ?thesis by blast
  qed
  moreover have "distinct (map fst (cn_replies c))" using conn_holders(1) [OF inv] by (simp add: holders_def)
  ultimately show ?thesis using conn_ids [OF inv] by blast
qed

text \<open>Witness: the flush is answered by the response with id 2.\<close>

theorem replies_are_correlated_witness:
  defines "c \<equiv> answer_response (\<lambda>_ _. Ok ()) (accept_response (\<lambda>_ _. Ok ()) 8 2 (OtherPayload ()) sample_waiting)"
  shows "client_reachable (\<lambda>_ _. Ok ()) 8 8 c \<and> cn_replies c = [(0, Ok ())] \<and> cn_answered c = [(0, 2)]
    \<and> distinct (map snd (cn_assigned c)) \<and> distinct (map fst (cn_replies c))"
proof -
  let ?v = "\<lambda>_ _. Ok () :: unit hal_result" and ?h = "accept_response (\<lambda>_ _. Ok ()) 8 2 (OtherPayload ()) sample_waiting"
  have "client_step ?v 8 8 sample_waiting ?h"
    by (rule client_step.responded) (simp_all add: sample_waiting_def Connection_new_def RequestState_initial_def)
  moreover have "client_step ?v 8 8 ?h c" unfolding c_def by (rule client_step.answered)
  ultimately have r: "client_reachable ?v 8 8 c"
    using sample_waiting_reachable unfolding client_reachable_def by (meson rtranclp.rtrancl_into_rtrancl)
  have "cn_replies c = [(0, Ok ())] \<and> cn_answered c = [(0, 2)]"
    by (simp add: c_def sample_waiting_def Connection_new_def RequestState_initial_def accept_response_def
        correlate_def remember_completed_def remove_pending_def answer_response_def pending_result_def
        terminal_result_def)
  with replies_are_correlated [OF r] r show ?thesis by blast
qed

lemma finish_all:
  "cn_draining c = ds \<Longrightarrow>
   (finish_one ^^ Suc (length ds)) c
     = c\<lparr>cn_draining := [], cn_shutdown := True, cn_replies := cn_replies c @ map (\<lambda>(ch, e). (ch, Err e)) ds\<rparr>"
proof (induction ds arbitrary: c)
  case Nil
  then show ?case by (cases c) (simp add: finish_one_def)
next
  case (Cons d ds)
  define c1 where "c1 = finish_one c"
  have c1: "c1 = c\<lparr>cn_draining := ds, cn_replies := cn_replies c @ [(fst d, Err (snd d))]\<rparr>"
    using Cons.prems by (simp add: c1_def finish_one_def case_prod_unfold)
  have "(finish_one ^^ Suc (length (d # ds))) c = (finish_one ^^ Suc (length ds)) c1"
    by (simp only: c1_def length_Cons funpow_Suc_right comp_apply)
  also have "\<dots> = c1\<lparr>cn_draining := [], cn_shutdown := True, cn_replies := cn_replies c1 @ map (\<lambda>(ch, e). (ch, Err e)) ds\<rparr>"
    by (rule Cons.IH) (simp add: c1)
  finally show ?case by (simp add: c1 case_prod_unfold)
qed

lemma finish_requests [simp]: "cn_requests (finish_one c) = cn_requests c"
  by (simp add: finish_one_def split: list.split prod.split)

lemma finish_steps:
  "rq_terminal (cn_requests c) \<noteq> None \<Longrightarrow> (client_step v n t)\<^sup>*\<^sup>* c ((finish_one ^^ k) c)"
proof (induction k)
  case (Suc k)
  have "cn_requests ((finish_one ^^ k) c) = cn_requests c" by (induction k) simp_all
  with Suc client_step.finishing [of "(finish_one ^^ k) c" v n t] show ?case by (simp add: rtranclp.rtrancl_into_rtrancl)
qed simp

lemma answer_terminal:
  assumes "rq_terminal (cn_requests c) \<noteq> None"
  shows "cn_requests (answer_response v c) = cn_requests c \<and> cn_in_hand (answer_response v c) = None
    \<and> cn_draining (answer_response v c) = cn_draining c \<and> cn_waiting (answer_response v c) = cn_waiting c
    \<and> cn_sending (answer_response v c) = cn_sending c"
  using assms
  by (auto simp: answer_response_def terminate_def start_draining_def begin_termination_def Let_def
      split: option.split)

lemma drained_callers:
  assumes "conn_inv c" "rq_terminal (cn_requests c) \<noteq> None" "cn_in_hand c = None" "cn_draining c = []"
  shows "fst ` set (callers c) \<subseteq> fst ` set (cn_replies c)"
proof -
  have "rq_pending (cn_requests c) = []" using conn_requests [OF assms(1)] assms(2) by (simp add: requests_inv_def)
  then have "holders c = map fst (cn_replies c)" using assms(3,4) by (simp add: conn_defs)
  then show ?thesis using conn_callers(3) [OF assms(1)] by simp
qed

text \<open>
  C16. No caller is left waiting on a connection that has terminated: from every reachable state
  whose terminal error is set, the response in hand and the terminating task run to the end by
  steps of the connection, in one more step than there are channels to answer; then shutdown is
  signalled and every caller that was waiting, or about to wait, has a reply in its channel.
\<close>

theorem terminated_connection_answers_every_caller:
  assumes "client_reachable validate_response pending_capacity tombstone_capacity c"
    and "rq_terminal (cn_requests c) \<noteq> None"
  defines "final \<equiv> (finish_one ^^ Suc (length (cn_draining c))) (answer_response validate_response c)"
  shows "(client_step validate_response pending_capacity tombstone_capacity)\<^sup>*\<^sup>* c final \<and> cn_shutdown final
    \<and> cn_waiting final = cn_waiting c \<and> cn_sending final = cn_sending c
    \<and> (\<forall>channel \<in> fst ` set (cn_waiting c @ cn_sending c). \<exists>result. (channel, result) \<in> set (cn_replies final))"
proof -
  let ?step = "client_step validate_response pending_capacity tombstone_capacity"
  let ?a = "answer_response validate_response c"
  note a = answer_terminal [OF assms(2), of validate_response]
  have f: "final = ?a\<lparr>cn_draining := [], cn_shutdown := True,
      cn_replies := cn_replies ?a @ map (\<lambda>(ch, e). (ch, Err e)) (cn_draining c)\<rparr>"
    unfolding final_def using a by (intro finish_all) simp
  have s: "?step\<^sup>*\<^sup>* c final"
    using client_step.answered [of validate_response pending_capacity tombstone_capacity c]
      finish_steps [of ?a validate_response pending_capacity tombstone_capacity] a assms(2)
    unfolding final_def by (metis converse_rtranclp_into_rtranclp)
  then have "client_reachable validate_response pending_capacity tombstone_capacity final"
    using assms(1) by (simp add: client_reachable_def)
  from drained_callers [OF client_reachable_inv [OF this]]
  have "fst ` set (callers final) \<subseteq> fst ` set (cn_replies final)" using a assms(2) f by simp
  moreover have "callers final = cn_sending c @ cn_waiting c" using a f by (simp add: callers_def)
  ultimately have "channel \<in> fst ` set (cn_replies final)" if "channel \<in> fst ` set (cn_waiting c @ cn_sending c)" for channel
    using that by auto
  then have "\<forall>channel \<in> fst ` set (cn_waiting c @ cn_sending c). \<exists>result. (channel, result) \<in> set (cn_replies final)"
    by (metis imageE prod.collapse)
  moreover have "cn_shutdown final" "cn_waiting final = cn_waiting c" "cn_sending final = cn_sending c"
    using a f by simp_all
  ultimately show ?thesis using s by blast
qed

text \<open>Witness: the connection is closed while the flush waits for its response.\<close>

theorem terminated_connection_answers_every_caller_witness:
  defines "c \<equiv> terminate closed_error sample_waiting"
  shows "client_reachable (\<lambda>_ _. Ok ()) 8 8 c \<and> rq_terminal (cn_requests c) \<noteq> None
    \<and> fst ` set (cn_waiting c @ cn_sending c) = {0}
    \<and> (\<exists>result. (0, result) \<in> set (cn_replies ((finish_one ^^ Suc (length (cn_draining c)))
         (answer_response (\<lambda>_ _. Ok ()) c))))"
proof -
  have r: "client_reachable (\<lambda>_ _. Ok ()) 8 8 c"
    using sample_waiting_reachable client_step.terminated unfolding client_reachable_def c_def
    by (meson rtranclp.rtrancl_into_rtrancl)
  have t: "rq_terminal (cn_requests c) \<noteq> None"
    by (simp add: c_def terminate_def start_draining_def begin_termination_def Let_def)
  have w: "fst ` set (cn_waiting c @ cn_sending c) = {0}"
    by (simp add: c_def sample_waiting_def Connection_new_def)
  from terminated_connection_answers_every_caller [OF r t] r t w show ?thesis by blast
qed

end
