(* ===== verification/Spec2Isabelle.thy ===== *)
theory Spec2Isabelle
  imports Can_Lease_Table Runtime_Registry Hal_Can Hal_Devices Hal_Camera Shm_Ring_Props Wire_Laws Wire_Can_Laws Wire_Envelope Handshake_Props Client_Handles_Props Client_Request_Props Can_Receive_Props Broker_Dispatch_Props Client_Requests_Props
begin

text \<open>
  A verification development for \<open>robot-hal\<close>, a hardware abstraction layer for robots written in Rust
  (\<open>src/\<close>). Devices - serial ports, CAN buses, USB devices, GPIO lines and cameras - are driven by a
  runtime that leases each of them to one owner at a time; a broker process serves the runtime to
  client processes over a local socket, in length-delimited protobuf envelopes; camera frames cross the
  process boundary in a shared-memory ring.

  \<^bold>\<open>How the parts interact.\<close> A client connects, authenticates with a start-up token and negotiates a
  protocol minor, capabilities and byte limits. Each method of a client handle checks its arguments
  against these limits, sends one request with a fresh number, and waits for the response with that
  number. The broker's dispatcher checks the session and the lease of a request in the registry of the
  connection, then calls the runtime, which checks the lease again in its lease table. The response is
  scanned, correlated and validated by the client before the method converts it.

  \<^bold>\<open>Theories, sources, and the correspondence of state and operations.\<close>

  \<^item> \<open>Hal_Prelude\<close>: machine integers (words for \<open>u8\<close> to \<open>u64\<close>, \<open>usize\<close> as a natural number with the
    64-bit bound in its checked operations), \<open>Result\<close> and its combinators, hash maps and ordered maps as
    association lists, and the locales \<open>codec\<close>, \<open>canonical_codec\<close>, \<open>repeated_codec\<close> and
    \<open>optional_codec\<close>, the contract of a boundary type. \<open>Hal_Core\<close> is \<open>crates/robot-hal-core\<close>: identifiers,
    capabilities, errors with their bounded context, descriptors, resolution and lease tokens.
    \<open>Hal_Capabilities\<close> holds the capability names of the device crates.
  \<^item> \<open>Hal_Can\<close>, \<open>Hal_Devices\<close>, \<open>Hal_Camera\<close>: the interface crates \<open>robot-hal-can\<close>, \<open>robot-hal-serial\<close>,
    \<open>robot-hal-usb\<close>, \<open>robot-hal-gpio\<close>, \<open>robot-hal-camera\<close>, with their validating constructors. The
    predicates named \<open>..._wf\<close> are the type invariants the constructors establish.
  \<^item> \<open>Runtime_Base\<close>, \<open>Lease_Table\<close>, \<open>Can_Lease_Table\<close>, \<open>Runtime_Registry\<close>: \<open>crates/robot-hal-runtime\<close>. The lease
    tables are records with the fields of the source, each method one definition returning the updated
    table; identifiers drawn at random are arguments. The locales \<open>lease_provider\<close> and
    \<open>shared_lease_provider\<close> are the contracts of exclusive and shared leases; \<open>rl_view\<close> and \<open>lease_holder\<close> are
    the abstractions every operation refines.
  \<^item> \<open>Shm_Layout\<close>, \<open>Shm_Memory\<close>, \<open>Shm_Ring\<close>, \<open>Shm_Ring_Correct\<close>, \<open>Shm_Ring_Props\<close>:
    \<open>adapters/shared-memory\<close>. The mapping is a byte list with bounds-checked accesses; the broker's and the
    reader's operations are functions on it, and \<open>ring_step\<close> interleaves them.
  \<^item> \<open>Wire_Messages\<close>, \<open>Wire_Protocol\<close>, \<open>Wire_Can\<close>, \<open>Wire_Camera\<close>, \<open>Wire_Envelope\<close> with \<open>Wire_Laws\<close> and
    \<open>Wire_Can_Laws\<close>: \<open>proto/seeed/hal/v1/hal.proto\<close> and \<open>crates/robot-hal-protocol\<close>. Messages are records,
    the union of the envelope is a datatype with its 72 constructors, enumerations are numbered tables
    (locale \<open>wire_enum\<close>), and every conversion is one definition in each direction. Messages with the
    same two fields, session and lease, share one record.
  \<^item> \<open>Client_Base\<close>, \<open>Client_Scanner\<close>, \<open>Client_Requests\<close>, \<open>Client_Session\<close>, \<open>Client_Validate\<close>, \<open>Client_Handles\<close>,
    \<open>Client_Usb_Gpio\<close>, \<open>Client_Can\<close>, \<open>Client_Camera\<close>: \<open>crates/robot-hal-client\<close>. The scanner reads bytes;
    request correlation is a step relation (\<open>client_step\<close>) over the connection state, one step per
    critical section; the methods of the handles take the connection as the function \<open>send\<close> from a payload
    to its result and end in an \<open>outcome\<close>, which distinguishes a result, a terminated connection and a panic.
  \<^item> \<open>Broker_Base\<close>, \<open>Broker_Sessions\<close>, \<open>Broker_Can\<close>, \<open>Broker_Devices\<close>, \<open>Broker_Dispatch\<close>:
    \<open>crates/robot-hal-broker\<close>. The handshake, the size formulas, the session registries and every handler;
    the runtime is a record of the results its methods give, so a handler is a function of the request,
    the registry and that record. One request is one step; requests of a connection that run at the same
    time interleave in the source between their calls of the runtime.

  \<^bold>\<open>What the theorems show.\<close>

  \<^item> Shared memory (\<open>Shm_Ring_Props\<close>, \<open>Shm_Layout\<close>): a published frame is read back byte for byte, a leased
    frame is not overwritten while it is leased, the lease is of the newest frame, the ring invariant
    holds in every interleaving, a reader opens exactly the mapping it was given the token for, and
    closing ends all copies.
  \<^item> Handshake and delivery (\<open>Handshake_Props\<close>, \<open>Can_Receive_Props\<close>): client and broker agree on the
    minor, the limits and every capability; serial reads and CAN receives that the broker admits fit the frame limit in their
    protobuf encoding and are accepted by the client, which decodes what the runtime returned. The
    broker's constants for the largest CAN frame and timestamp are proved to be bounds of the encoding.
  \<^item> Broker (\<open>Broker_Dispatch_Props\<close>): a request without the lease of its session has no effect, a close
    may be repeated, and the registries stay bounded and consistent over any sequence of requests. The
    locale \<open>session_family\<close> is the contract of a registry's gate and its recording of a close, interpreted
    for CAN, USB and GPIO, and cameras.
  \<^item> Client (\<open>Client_Requests_Props\<close>, \<open>Client_Scan_Laws\<close>, \<open>Client_Handles_Props\<close>, \<open>Client_Request_Props\<close>): replies
    go to the request they answer, a terminated connection leaves no caller waiting, the scanner sees
    exactly the fields of an encoded message and bounds what it lets through, no method panics whatever
    the broker sends, what a method returns satisfies its type invariant, and what it sends is decoded by
    the broker as the call it stands for. The locale \<open>validated_sender\<close> is what the methods rely on; the
    reply path of the connection satisfies it.
  \<^item> Leases (\<open>Lease_Table\<close>, \<open>Can_Lease_Table\<close>, \<open>Runtime_Registry\<close>): leases held at the same time are
    compatible, a retired token is rejected for ever, generations only grow, validation accepts exactly
    the holder, and a repeated close is recognised until 256 other sessions have been closed.
  \<^item> Wire and device types (\<open>Wire_Laws\<close>, \<open>Wire_Can_Laws\<close>, \<open>Hal_Can\<close>, \<open>Hal_Devices\<close>, \<open>Hal_Camera\<close>,
    \<open>Hal_Core\<close>): conversions round trip, malformed messages are rejected with one error, planes stay
    inside their payload, control ranges contain what they should, and a selector resolves only when its
    match is unique.

  \<^bold>\<open>Bounds, fuel and parameters.\<close> No definition uses fuel: loops are structural recursion, or recursion
  with a measure (varints by their value, groups of the scanner by the bytes left). The parameters stand
  for code outside \<open>src/\<close>: the encoded length prost computes, random identifiers, the hash function and the
  memory object of a mapping, the clock, and - for client and broker - the result of the peer. Where a
  size matters, the protobuf encoding is specified here and the formulas of the source are compared with
  it. Theorems about the broker's registries assume that the runtime gives a new session an identifier
  that is not in use, which its random identifiers provide.

  \<^bold>\<open>Deviations the model exhibits.\<close> An odd-height NV12 frame needs more bytes than its worst-case size; a
  control range rejects its members at a distance beyond \<open>i64::MAX\<close> unless its step divides 2 to the 64; a publish that fails while copying has
  overwritten the ready frame it reused; a read timeout below a millisecond does not survive the wire.
  Those, and differences between client and broker that do not break a stated property, are listed with
  their sources in the manifest's findings.

  \<^bold>\<open>Not modelled.\<close> The asynchronous tasks of the broker connection (reader, dispatcher, writer) with their
  queues, cancellation and shutdown, and the runtime's device managers and actors (\<open>can_manager.rs\<close>,
  \<open>can_actor.rs\<close>, \<open>usb_manager.rs\<close>, \<open>gpio_manager.rs\<close>, \<open>camera_manager.rs\<close>) with their receive queues, fan-out
  and deadlines: only the lease tables, the serial registry and the handlers around them are modelled. The
  native drivers and operating system wrappers under \<open>adapters/\<close>, whose behaviour is that of devices and
  system calls. The creation of shared memory objects (\<open>platform.rs\<close>). The executable, the virtual test
  devices, the release scripts, and the Python client, which implements the same protocol a second time.
\<close>

end
